(* ===== verification/Prelude.thy ===== *)
theory Prelude
  imports Main "HOL-Library.AList" "HOL-Library.Sublist"
begin

text \<open>
  Shared vocabulary of the development: Python values as HOL values (strings, JSON values,
  dictionaries that keep insertion order, instants and durations in microseconds), Python
  exceptions as an error type, and the generic lemmas the components share.
\<close>

named_theorems bind_simps \<open>computation rules of the error monad\<close>
named_theorems text_simps \<open>facts on the modelled string operations\<close>

section \<open>Errors as values\<close>

text \<open>
  A Python exception is a value.  \<open>ValidationError\<close> is what pydantic raises when a declared
  constraint of a model fails; \<open>IntegrityError\<close> and \<open>DataError\<close> are the database's.
\<close>

datatype py_error =
    KeyError string
  | ValueError string
  | TypeError string
  | RuntimeError string
  | OverflowError string
  | ValidationError string
  | IntegrityError string
  | DataError string

type_synonym 'a result = "py_error + 'a"

definition bind_r :: "'e + 'a \<Rightarrow> ('a \<Rightarrow> 'e + 'b) \<Rightarrow> 'e + 'b" where
  "bind_r r f = (case r of Inl e \<Rightarrow> Inl e | Inr a \<Rightarrow> f a)"

lemma bind_r_Inl [simp, bind_simps]: "bind_r (Inl e) f = Inl e"
  by (simp add: bind_r_def)

lemma bind_r_Inr [simp, bind_simps]: "bind_r (Inr a) f = f a"
  by (simp add: bind_r_def)

lemma bind_r_eq_Inr [bind_simps]: "bind_r r f = Inr b \<longleftrightarrow> (\<exists>a. r = Inr a \<and> f a = Inr b)"
  by (cases r) auto

lemma bind_r_eq_Inl [bind_simps]:
  "bind_r r f = Inl e \<longleftrightarrow> r = Inl e \<or> (\<exists>a. r = Inr a \<and> f a = Inl e)"
  by (cases r) auto

lemma bind_r_assoc: "bind_r (bind_r r f) g = bind_r r (\<lambda>a. bind_r (f a) g)"
  by (cases r) auto

text \<open>A guard: \<open>if not condition: raise\<close>.\<close>

definition ensure :: "bool \<Rightarrow> 'e \<Rightarrow> 'e + unit" where
  "ensure c e = (if c then Inr () else Inl e)"

lemma ensure_eq_Inr [simp, bind_simps]: "ensure c e = Inr u \<longleftrightarrow> c"
  by (simp add: ensure_def)

lemma ensure_True [simp]: "ensure True e = Inr ()"
  by (simp add: ensure_def)

lemma ensure_False [simp]: "ensure False e = Inl e"
  by (simp add: ensure_def)

text \<open>A \<open>for\<close> loop whose body may raise: the first exception ends the loop.\<close>

fun fold_r :: "('a \<Rightarrow> 's \<Rightarrow> 'e + 's) \<Rightarrow> 'a list \<Rightarrow> 's \<Rightarrow> 'e + 's" where
  "fold_r f [] s = Inr s"
| "fold_r f (x # xs) s = bind_r (f x s) (fold_r f xs)"

lemma fold_r_append: "fold_r f (xs @ ys) s = bind_r (fold_r f xs s) (fold_r f ys)"
  by (induction xs arbitrary: s) (auto simp: bind_r_def split: sum.splits)

lemma fold_r_invariant:
  assumes "fold_r f xs s = Inr t" and "P s"
    and "\<And>x s t. x \<in> set xs \<Longrightarrow> P s \<Longrightarrow> f x s = Inr t \<Longrightarrow> P t"
  shows "P t"
  using assms
  by (induction xs arbitrary: s) (auto simp: bind_simps)

section \<open>Strings\<close>

text \<open>
  Strings are lists of 8-bit characters.  Case mapping is Python's on ASCII; every token the
  program compares a case-folded string with is ASCII.
\<close>

definition char_lower :: "char \<Rightarrow> char" where
  "char_lower c = (let n = (of_char c :: nat) in if 65 \<le> n \<and> n \<le> 90 then char_of (n + 32) else c)"

definition char_upper :: "char \<Rightarrow> char" where
  "char_upper c = (let n = (of_char c :: nat) in if 97 \<le> n \<and> n \<le> 122 then char_of (n - 32) else c)"

definition casefold :: "string \<Rightarrow> string" where
  "casefold = map char_lower"

definition upper :: "string \<Rightarrow> string" where
  "upper = map char_upper"

definition is_space :: "char \<Rightarrow> bool" where
  "is_space c = (let n = (of_char c :: nat) in (9 \<le> n \<and> n \<le> 13) \<or> (28 \<le> n \<and> n \<le> 32))"

definition strip :: "string \<Rightarrow> string" where
  "strip s = rev (dropWhile is_space (rev (dropWhile is_space s)))"

definition rstrip_char :: "char \<Rightarrow> string \<Rightarrow> string" where
  "rstrip_char c s = rev (dropWhile (\<lambda>x. x = c) (rev s))"

definition startswith :: "string \<Rightarrow> string \<Rightarrow> bool" where
  "startswith s p = (take (length p) s = p)"

definition endswith :: "string \<Rightarrow> string \<Rightarrow> bool" where
  "endswith s p = (length p \<le> length s \<and> drop (length s - length p) s = p)"

fun contains :: "string \<Rightarrow> string \<Rightarrow> bool" where
  "contains [] p = (p = [])"
| "contains (c # s) p = (startswith (c # s) p \<or> contains s p)"

lemma startswith_prefix: "startswith s p \<longleftrightarrow> prefix p s"
  by (auto simp: startswith_def prefix_def) (metis append_take_drop_id)

lemma startswith_append [simp, text_simps]: "startswith (p @ s) p"
  by (simp add: startswith_def)

lemma endswith_append [simp, text_simps]: "endswith (s @ p) p"
  by (simp add: endswith_def)

definition truthy :: "string option \<Rightarrow> bool" where
  "truthy s = (case s of None \<Rightarrow> False | Some x \<Rightarrow> x \<noteq> [])"

section \<open>Numbers as text\<close>

definition digit_char :: "nat \<Rightarrow> char" where
  "digit_char d = char_of (48 + d)"

fun nat_str :: "nat \<Rightarrow> string" where
  "nat_str n = (if n < 10 then [digit_char n] else nat_str (n div 10) @ [digit_char (n mod 10)])"

declare nat_str.simps [simp del]

definition int_str :: "int \<Rightarrow> string" where
  "int_str i = (if i < 0 then ''-'' @ nat_str (nat (- i)) else nat_str (nat i))"

definition is_digit :: "char \<Rightarrow> bool" where
  "is_digit c = (let n = (of_char c :: nat) in 48 \<le> n \<and> n \<le> 57)"

definition digit_val :: "char \<Rightarrow> nat" where
  "digit_val c = of_char c - 48"

definition nat_of_digits :: "string \<Rightarrow> nat" where
  "nat_of_digits s = foldl (\<lambda>a c. 10 * a + digit_val c) 0 s"

text \<open>\<open>int(s)\<close> on a string: surrounding white space, an optional sign, decimal digits.\<close>

definition parse_int :: "string \<Rightarrow> int option" where
  "parse_int s = (case strip s of
      [] \<Rightarrow> None
    | c # cs \<Rightarrow>
        (let neg = (c = CHR ''-''); ds = (if c = CHR ''-'' \<or> c = CHR ''+'' then cs else c # cs)
         in if ds \<noteq> [] \<and> list_all is_digit ds
            then Some (if neg then - int (nat_of_digits ds) else int (nat_of_digits ds))
            else None))"

text \<open>\<open>str(value).isdigit()\<close> for ASCII digits.\<close>

definition isdigit :: "string \<Rightarrow> bool" where
  "isdigit s = (s \<noteq> [] \<and> list_all is_digit s)"

lemma digit_char_digit [simp]: "d < 10 \<Longrightarrow> is_digit (digit_char d)"
  by (simp add: is_digit_def digit_char_def)

lemma digit_val_char [simp]: "d < 10 \<Longrightarrow> digit_val (digit_char d) = d"
  by (simp add: digit_val_def digit_char_def)

lemma nat_str_digits: "list_all is_digit (nat_str n) \<and> nat_str n \<noteq> []"
proof (induction n rule: nat_str.induct)
  case (1 n)
  then show ?case by (subst (1 2) nat_str.simps) auto
qed

lemma nat_of_digits_snoc: "nat_of_digits (s @ [c]) = 10 * nat_of_digits s + digit_val c"
  by (simp add: nat_of_digits_def)

lemma nat_of_digits_str [simp]: "nat_of_digits (nat_str n) = n"
proof (induction n rule: nat_str.induct)
  case (1 n)
  show ?case
  proof (cases "n < 10")
    case True
    then show ?thesis by (subst nat_str.simps) (simp add: nat_of_digits_def)
  next
    case False
    with 1 show ?thesis by (subst nat_str.simps) (simp add: nat_of_digits_snoc)
  qed
qed

lemma nat_str_inject [simp]: "nat_str m = nat_str n \<longleftrightarrow> m = n"
  by (metis nat_of_digits_str)

text \<open>The digits of an integer computed in integers, which is what evaluation uses.\<close>

function pos_str :: "int \<Rightarrow> string" where
  "pos_str n = (if n < 10 then [digit_char (nat n)] else pos_str (n div 10) @ [digit_char (nat (n mod 10))])"
  by auto
termination by (relation "measure nat") auto

declare pos_str.simps [simp del]

lemma pos_str_nat: "pos_str n = nat_str (nat n)"
proof (induction n rule: pos_str.induct)
  case (1 n)
  show ?case
  proof (cases "n < 10")
    case True
    then show ?thesis by (subst pos_str.simps, subst nat_str.simps) simp
  next
    case False
    with 1 show ?thesis by (subst pos_str.simps, subst nat_str.simps) (simp add: nat_div_distrib nat_mod_distrib)
  qed
qed

lemma int_str_code [code]: "int_str i = (if i < 0 then ''-'' @ pos_str (- i) else pos_str i)"
  by (simp add: int_str_def pos_str_nat)

text \<open>Character classes and digits computed in integers, for the same reason.\<close>

lemma of_char_int: "(of_char c :: int) = int (of_char c)"
  by (rule of_nat_of_char [symmetric])

lemma char_shift: "char_of (int n + 32) = char_of (n + 32)" "32 \<le> n \<Longrightarrow> char_of (int n - 32) = char_of (n - 32)"
proof -
  have "char_of (int (n + 32)) = char_of (n + 32)" by (rule char_of_nat)
  then show "char_of (int n + 32) = char_of (n + 32)" by simp
  assume "32 \<le> n"
  then have "int n - 32 = int (n - 32)" by simp
  then show "char_of (int n - 32) = char_of (n - 32)" by (simp only: char_of_nat)
qed

lemma char_class_code [code]:
  "char_lower c = (let n = (of_char c :: int) in if 65 \<le> n \<and> n \<le> 90 then char_of (n + 32) else c)"
  "char_upper c = (let n = (of_char c :: int) in if 97 \<le> n \<and> n \<le> 122 then char_of (n - 32) else c)"
  "is_space c = (let n = (of_char c :: int) in (9 \<le> n \<and> n \<le> 13) \<or> (28 \<le> n \<and> n \<le> 32))"
  "is_digit c = (let n = (of_char c :: int) in 48 \<le> n \<and> n \<le> 57)"
  unfolding char_lower_def char_upper_def is_space_def is_digit_def of_char_int Let_def
  by (auto simp: char_shift)

definition digits_int :: "string \<Rightarrow> int" where
  "digits_int s = foldl (\<lambda>a c. 10 * a + (of_char c - 48)) 0 s"

lemma digits_int_nat: "list_all is_digit s \<Longrightarrow> digits_int s = int (nat_of_digits s)"
proof (induction s rule: rev_induct)
  case (snoc c s)
  then show ?case
    by (simp add: digits_int_def nat_of_digits_def digit_val_def is_digit_def Let_def of_char_int of_nat_diff)
qed (simp add: digits_int_def nat_of_digits_def)

lemma parse_int_code [code]:
  "parse_int s = (case strip s of
      [] \<Rightarrow> None
    | c # cs \<Rightarrow>
        (let neg = (c = CHR ''-''); ds = (if c = CHR ''-'' \<or> c = CHR ''+'' then cs else c # cs)
         in if ds \<noteq> [] \<and> list_all is_digit ds
            then Some (if neg then - digits_int ds else digits_int ds)
            else None))"
  by (auto simp: parse_int_def digits_int_nat Let_def split: list.splits)

end
