(* ===== verification/Values.thy ===== *)
theory Values
  imports Prelude
begin

text \<open>
  Python values of the canonical event envelope: JSON values, dictionaries that keep their
  insertion order (association lists under \<^theory_text>\<open>AList.update\<close>, which replaces in
  place and appends a new key at the end, as a Python \<open>dict\<close> does), and time.  An instant is a
  number of microseconds since the epoch in UTC, the resolution of \<open>datetime\<close>; a duration is
  a number of microseconds.
\<close>

section \<open>JSON values\<close>

datatype json =
    JNull
  | JBool bool
  | JInt int
  | JStr string
  | JList "json list"
  | JDict "(string \<times> json) list"

type_synonym dict = "(string \<times> json) list"

definition dict_get :: "dict \<Rightarrow> string \<Rightarrow> json option" where
  "dict_get d k = map_of d k"

text \<open>The truth of a value.\<close>

fun json_truthy :: "json \<Rightarrow> bool" where
  "json_truthy JNull = False"
| "json_truthy (JBool b) = b"
| "json_truthy (JInt n) = (n \<noteq> 0)"
| "json_truthy (JStr s) = (s \<noteq> [])"
| "json_truthy (JList xs) = (xs \<noteq> [])"
| "json_truthy (JDict d) = (d \<noteq> [])"

text \<open>\<open>d[k]\<close> raises when the key is missing.\<close>

definition dict_item :: "dict \<Rightarrow> string \<Rightarrow> json result" where
  "dict_item d k = (case map_of d k of None \<Rightarrow> Inl (KeyError k) | Some v \<Rightarrow> Inr v)"

definition dict_get_or :: "dict \<Rightarrow> string \<Rightarrow> json \<Rightarrow> json" where
  "dict_get_or d k v = (case map_of d k of None \<Rightarrow> v | Some w \<Rightarrow> w)"

lemma dict_item_eq_Inr [bind_simps]: "dict_item d k = Inr v \<longleftrightarrow> map_of d k = Some v"
  by (simp add: dict_item_def split: option.splits)

text \<open>\<open>int(value)\<close> on a JSON value.\<close>

fun py_int :: "json \<Rightarrow> int result" where
  "py_int (JInt n) = Inr n"
| "py_int (JBool b) = Inr (if b then 1 else 0)"
| "py_int (JStr s) = (case parse_int s of
      None \<Rightarrow> Inl (ValueError ''invalid literal for int()'') | Some n \<Rightarrow> Inr n)"
| "py_int _ = Inl (TypeError ''int() argument'')"

text \<open>
  \<open>str(value)\<close>.  A string inside a container is shown by its \<open>repr\<close>, which is the
  quoted text for strings without quotes, backslashes or control characters.
\<close>

fun join :: "string \<Rightarrow> string list \<Rightarrow> string" where
  "join sep [] = []"
| "join sep [x] = x"
| "join sep (x # xs) = x @ sep @ join sep xs"

fun py_repr :: "json \<Rightarrow> string" where
  "py_repr JNull = ''None''"
| "py_repr (JBool b) = (if b then ''True'' else ''False'')"
| "py_repr (JInt n) = int_str n"
| "py_repr (JStr s) = [char_of (39::nat)] @ s @ [char_of (39::nat)]"
| "py_repr (JList xs) = ''['' @ join '', '' (map py_repr xs) @ '']''"
| "py_repr (JDict d) = ''{'' @
     join '', '' (map (\<lambda>(k, v). [char_of (39::nat)] @ k @ [char_of (39::nat)] @ '': '' @ py_repr v) d) @ ''}''"

fun py_str :: "json \<Rightarrow> string" where
  "py_str (JStr s) = s"
| "py_str v = py_repr v"

section \<open>Time\<close>

type_synonym instant = int
type_synonym timedelta = int

abbreviation seconds :: "int \<Rightarrow> timedelta" where "seconds n \<equiv> n * 1000000"
abbreviation minutes :: "int \<Rightarrow> timedelta" where "minutes n \<equiv> n * 60000000"
abbreviation hours :: "int \<Rightarrow> timedelta" where "hours n \<equiv> n * 3600000000"
abbreviation days :: "int \<Rightarrow> timedelta" where "days n \<equiv> n * 86400000000"

text \<open>
  A \<open>datetime\<close> is naive (wall clock only) or aware (wall clock and offset from UTC).
  \<open>astimezone(UTC)\<close> of an aware value is its wall clock less the offset.
\<close>

datatype py_datetime = Naive int | Aware int timedelta

fun to_utc :: "py_datetime \<Rightarrow> instant option" where
  "to_utc (Naive w) = None"
| "to_utc (Aware w off) = Some (w - off)"

definition require_aware :: "string \<Rightarrow> py_datetime \<Rightarrow> instant result" where
  "require_aware msg t = (case to_utc t of None \<Rightarrow> Inl (ValidationError msg) | Some i \<Rightarrow> Inr i)"

abbreviation utc :: "instant \<Rightarrow> py_datetime" where "utc i \<equiv> Aware i 0"

lemma require_aware_utc [simp]: "require_aware msg (utc i) = Inr i"
  by (simp add: require_aware_def)

lemma require_aware_Naive [simp]: "require_aware msg (Naive w) = Inl (ValidationError msg)"
  by (simp add: require_aware_def)

lemma require_aware_Aware [simp]: "require_aware msg (Aware w off) = Inr (w - off)"
  by (simp add: require_aware_def)

text \<open>The same check outside a pydantic validator, where the exception stays a plain \<open>ValueError\<close>.\<close>

definition aware_utc :: "string \<Rightarrow> py_datetime \<Rightarrow> instant result" where
  "aware_utc msg t = (case to_utc t of None \<Rightarrow> Inl (ValueError msg) | Some i \<Rightarrow> Inr i)"

lemma aware_utc_simps [simp]:
  "aware_utc msg (Naive w) = Inl (ValueError msg)" "aware_utc msg (Aware w off) = Inr (w - off)"
  by (simp_all add: aware_utc_def)

text \<open>The UTC calendar date of an instant, as a number of days since 1970-01-01.\<close>

definition date_of :: "instant \<Rightarrow> int" where
  "date_of t = t div 86400000000"

text \<open>Year, month and day of a day number (proleptic Gregorian calendar).\<close>

definition civil_of_days :: "int \<Rightarrow> int \<times> int \<times> int" where
  "civil_of_days n =
    (let z = n + 719468; era = z div 146097; doe = z mod 146097;
         yoe = (doe - doe div 1460 + doe div 36524 - doe div 146096) div 365;
         doy = doe - (365 * yoe + yoe div 4 - yoe div 100);
         mp = (5 * doy + 2) div 153;
         d = doy - (153 * mp + 2) div 5 + 1;
         m = (if mp < 10 then mp + 3 else mp - 9);
         y = yoe + era * 400 + (if m \<le> 2 then 1 else 0)
     in (y, m, d))"

definition pad :: "nat \<Rightarrow> int \<Rightarrow> string" where
  "pad w n = (let s = nat_str (nat n) in replicate (w - length s) (CHR ''0'') @ s)"

lemma pad_code [code]: "pad w n = (let s = pos_str n in replicate (w - length s) (CHR ''0'') @ s)"
  by (simp add: pad_def pos_str_nat)

definition date_isoformat :: "int \<Rightarrow> string" where
  "date_isoformat n = (case civil_of_days n of (y, m, d) \<Rightarrow> pad 4 y @ ''-'' @ pad 2 m @ ''-'' @ pad 2 d)"

text \<open>\<open>isoformat()\<close> of a UTC \<open>datetime\<close>: the fraction is printed only when it is not zero.\<close>

definition isoformat :: "instant \<Rightarrow> string" where
  "isoformat t =
    (let us = t mod 86400000000; s = us div 1000000; f = us mod 1000000
     in date_isoformat (date_of t) @ ''T'' @ pad 2 (s div 3600) @ '':'' @ pad 2 (s mod 3600 div 60) @ '':''
        @ pad 2 (s mod 60) @ (if f = 0 then [] else ''.'' @ pad 6 f) @ ''+00:00'')"

section \<open>Identifiers\<close>

text \<open>A UUID is its 128-bit number; \<open>str(uuid)\<close> is its hyphenated hexadecimal form.\<close>

type_synonym uuid = nat

definition hex_char :: "nat \<Rightarrow> char" where
  "hex_char d = (if d < 10 then char_of (48 + d) else char_of (87 + d))"

fun hex_digits :: "nat \<Rightarrow> nat \<Rightarrow> string" where
  "hex_digits 0 n = []"
| "hex_digits (Suc w) n = hex_digits w (n div 16) @ [hex_char (n mod 16)]"

definition uuid_str :: "uuid \<Rightarrow> string" where
  "uuid_str u = (let h = hex_digits 32 u in
     take 8 h @ ''-'' @ take 4 (drop 8 h) @ ''-'' @ take 4 (drop 12 h) @ ''-''
     @ take 4 (drop 16 h) @ ''-'' @ drop 20 h)"

end
