(* ===== verification/Focus.thy ===== *)
theory Focus
  imports Values "HOL-Library.Char_ord" "HOL-Library.List_Lexorder" "HOL-Library.Product_Lexorder"
begin

text \<open>
  Attention: the focus decision for a match (\<open>backend/app/domain/focus.py\<close>) and the choice of
  the dominant focus across domains (\<open>backend/app/domain/attention.py\<close>).
\<close>

section \<open>Focus for a match\<close>

datatype attention = LOW | NORMAL | HIGH | CRITICAL

fun attention_value :: "attention \<Rightarrow> int" where
  "attention_value LOW = 10"
| "attention_value NORMAL = 40"
| "attention_value HIGH = 70"
| "attention_value CRITICAL = 95"

text \<open>An \<open>IntEnum\<close> is ordered by its values.\<close>

instantiation attention :: linorder
begin

definition less_eq_attention :: "attention \<Rightarrow> attention \<Rightarrow> bool" where
  "less_eq_attention a b \<longleftrightarrow> attention_value a \<le> attention_value b"

definition less_attention :: "attention \<Rightarrow> attention \<Rightarrow> bool" where
  "less_attention a b \<longleftrightarrow> attention_value a < attention_value b"

instance
proof
  fix a b :: attention
  show "a \<le> b \<Longrightarrow> b \<le> a \<Longrightarrow> a = b"
    by (cases a; cases b) (simp_all add: less_eq_attention_def)
qed (auto simp: less_eq_attention_def less_attention_def)

end

datatype severity = Sev_low | Sev_normal | Sev_high | Sev_critical

datatype match_mode =
  Mode_idle | Mode_scheduled | Mode_live | Mode_halftime | Mode_highlight | Mode_fulltime

definition EVENT_ATTENTION_TTL :: timedelta where
  "EVENT_ATTENTION_TTL = seconds 12"

record focus_state =
  fs_score :: int
  fs_severity :: severity
  fs_reason :: string
  fs_transient :: bool
  fs_expires_at :: "instant option"
  fs_source :: string
  fs_subject_id :: "string option"
  fs_match_mode :: match_mode

text \<open>The branch on the match status: score, severity, reason and mode.\<close>

definition status_focus :: "string \<Rightarrow> int \<times> severity \<times> string \<times> match_mode" where
  "status_focus status =
     (if status = ''live'' then (70, Sev_high, ''live_match'', Mode_live)
      else if status = ''halftime'' then (52, Sev_normal, ''halftime_break'', Mode_halftime)
      else if status = ''scheduled'' then (40, Sev_normal, ''scheduled_match'', Mode_scheduled)
      else if status = ''fulltime'' then (30, Sev_low, ''fulltime'', Mode_fulltime)
      else (10, Sev_low, ''no_active_match'', Mode_idle))"

definition is_highlight :: "string option \<Rightarrow> instant option \<Rightarrow> instant \<Rightarrow> bool" where
  "is_highlight latest event_at now =
     (latest \<in> {Some ''football.match.goal'', Some ''football.match.red_card''} \<and>
      (case event_at of None \<Rightarrow> False
       | Some t \<Rightarrow> 0 \<le> now - t \<and> now - t \<le> EVENT_ATTENTION_TTL))"

definition focus_for_match ::
  "string \<Rightarrow> string option \<Rightarrow> instant option \<Rightarrow> instant \<Rightarrow> string option \<Rightarrow> string \<Rightarrow> focus_state" where
  "focus_for_match status latest event_at now subject source =
     (if is_highlight latest event_at now then
        (let is_goal = (latest = Some ''football.match.goal'')
         in \<lparr>fs_score = (if is_goal then 100 else 95), fs_severity = Sev_critical,
             fs_reason = (if is_goal then ''goal'' else ''red_card''), fs_transient = True,
             fs_expires_at = map_option (\<lambda>t. t + EVENT_ATTENTION_TTL) event_at,
             fs_source = source, fs_subject_id = subject, fs_match_mode = Mode_highlight\<rparr>)
      else
        (case status_focus status of (score, sev, reason, mode) \<Rightarrow>
           \<lparr>fs_score = score, fs_severity = sev,
            fs_reason = (if latest = Some ''football.match.yellow_card'' \<and> status = ''live''
                         then ''yellow_card'' else reason),
            fs_transient = False, fs_expires_at = None,
            fs_source = source, fs_subject_id = subject, fs_match_mode = mode\<rparr>))"

definition attention_for :: "string \<Rightarrow> string option \<Rightarrow> instant option \<Rightarrow> instant \<Rightarrow> int" where
  "attention_for status latest event_at now =
     fs_score (focus_for_match status latest event_at now None ''football'')"

lemma status_focus_score: "fst (status_focus status) \<in> {10, 30, 40, 52, 70}"
  by (simp add: status_focus_def)

lemma focus_highlight:
  assumes "is_highlight latest event_at now"
  shows "fs_transient (focus_for_match status latest event_at now subject source)"
    and "95 \<le> fs_score (focus_for_match status latest event_at now subject source)"
  using assms by (auto simp: focus_for_match_def Let_def)

lemma focus_no_highlight:
  assumes "\<not> is_highlight latest event_at now"
  shows "\<not> fs_transient (focus_for_match status latest event_at now subject source)"
    and "fs_score (focus_for_match status latest event_at now subject source) = fst (status_focus status)"
  using assms by (auto simp: focus_for_match_def split: prod.splits)

text \<open>
  A goal or a red card raises the focus above every status baseline for exactly twelve
  seconds: the focus is transient (and scores at least 95) at a time \<open>now\<close> iff the event is not
  in the future and its expiry, the event time plus the TTL, has not passed; the expiry the
  state carries is that instant, and otherwise the score is at most 70.
\<close>

theorem focus_transient_window:
  assumes "latest = Some ''football.match.goal'' \<or> latest = Some ''football.match.red_card''"
    and "f = focus_for_match status latest (Some t) now subject source"
  shows "(if t \<le> now \<and> now \<le> t + seconds 12
          then fs_transient f \<and> fs_expires_at f = Some (t + seconds 12) \<and> 95 \<le> fs_score f
          else \<not> fs_transient f \<and> fs_expires_at f = None \<and> fs_score f \<le> 70)"
proof -
  have hl: "is_highlight latest (Some t) now \<longleftrightarrow> t \<le> now \<and> now \<le> t + seconds 12"
    using assms(1) by (auto simp: is_highlight_def EVENT_ATTENTION_TTL_def)
  show ?thesis
  proof (cases "is_highlight latest (Some t) now")
    case True
    then show ?thesis
      using hl assms by (auto simp: focus_for_match_def Let_def EVENT_ATTENTION_TTL_def)
  next
    case False
    then show ?thesis
      using hl assms status_focus_score [of status]
      by (auto simp: focus_for_match_def split: prod.splits)
  qed
qed

theorem focus_transient_window_witness:
  "fs_expires_at (focus_for_match ''live'' (Some ''football.match.goal'') (Some 5) (5 + seconds 12)
     None ''football'') = Some (5 + seconds 12)
   \<and> fs_score (focus_for_match ''live'' (Some ''football.match.goal'') (Some 5) (6 + seconds 12)
     None ''football'') \<le> 70"
proof -
  note win = focus_transient_window
      [of "Some ''football.match.goal''" _ "''live''" 5 _ None "''football''", OF disjI1 [OF refl] refl]
  show ?thesis
    using win [of "5 + seconds 12"] win [of "6 + seconds 12"] by simp
qed

section \<open>The dominant focus\<close>

datatype focus_domain = Football | Gmail | Github | System

fun domain_str :: "focus_domain \<Rightarrow> string" where
  "domain_str Football = ''football''"
| "domain_str Gmail = ''gmail''"
| "domain_str Github = ''github''"
| "domain_str System = ''system''"

record dominant_focus =
  df_priority :: int
  df_domain :: focus_domain
  df_reason :: string
  df_subject_id :: "string option"
  df_event_id :: "string option"
  df_transient :: bool
  df_created_at :: instant
  df_observed_at :: instant
  df_expires_at :: "instant option"

text \<open>The pattern \<open>^[a-z][a-z0-9_.-]{1,63}$\<close>.\<close>

definition is_lower :: "char \<Rightarrow> bool" where
  "is_lower c = (let n = (of_char c :: nat) in 97 \<le> n \<and> n \<le> 122)"

definition code_char :: "char \<Rightarrow> bool" where
  "code_char c = (is_lower c \<or> is_digit c \<or> c \<in> set ''_.-'')"

definition reason_ok :: "string \<Rightarrow> bool" where
  "reason_ok s = (case s of [] \<Rightarrow> False
     | c # cs \<Rightarrow> is_lower c \<and> list_all code_char cs \<and> 1 \<le> length cs \<and> length cs \<le> 63)"

definition dominant_focus_new ::
  "int \<Rightarrow> focus_domain \<Rightarrow> string \<Rightarrow> string option \<Rightarrow> string option \<Rightarrow> bool
   \<Rightarrow> py_datetime \<Rightarrow> py_datetime \<Rightarrow> py_datetime option \<Rightarrow> dominant_focus result" where
  "dominant_focus_new priority domain reason subject event transient created observed expires =
     bind_r (ensure (0 \<le> priority \<and> priority \<le> 100) (ValidationError ''priority'')) (\<lambda>_.
     bind_r (ensure (reason_ok reason) (ValidationError ''reason'')) (\<lambda>_.
     bind_r (require_aware ''attention timestamps must be timezone-aware'' created) (\<lambda>c.
     bind_r (require_aware ''attention timestamps must be timezone-aware'' observed) (\<lambda>o1.
     bind_r (case expires of None \<Rightarrow> Inr None
             | Some x \<Rightarrow> bind_r (require_aware ''attention timestamps must be timezone-aware'' x)
                          (\<lambda>y. Inr (Some y))) (\<lambda>x.
     Inr \<lparr>df_priority = priority, df_domain = domain, df_reason = reason, df_subject_id = subject,
          df_event_id = event, df_transient = transient, df_created_at = c, df_observed_at = o1,
          df_expires_at = x\<rparr>)))))"

text \<open>
  The sort key.  \<open>timestamp()\<close> is a float of seconds; between 1970 and 2200 it separates
  microseconds, so ordering by it is ordering by the instant.
\<close>

definition or_empty :: "string option \<Rightarrow> string" where
  "or_empty s = (case s of None \<Rightarrow> [] | Some x \<Rightarrow> x)"

definition focus_key :: "dominant_focus \<Rightarrow> int \<times> int \<times> string \<times> string \<times> string" where
  "focus_key c = (- df_priority c, - df_observed_at c, domain_str (df_domain c),
                  or_empty (df_subject_id c), or_empty (df_event_id c))"

definition select_dominant_focus :: "dominant_focus list \<Rightarrow> dominant_focus option" where
  "select_dominant_focus candidates =
     (if candidates = [] then None else Some (arg_min_list focus_key candidates))"

lemma arg_min_list_key_le: "x \<in> set xs \<Longrightarrow> f (arg_min_list f xs) \<le> f x"
  by (induction f xs rule: arg_min_list.induct) (auto simp: Let_def)

lemma select_dominant_focus_in:
  "select_dominant_focus cs = Some c \<Longrightarrow> c \<in> set cs"
  by (auto simp: select_dominant_focus_def arg_min_list_in split: if_splits)

lemma select_dominant_focus_min:
  "select_dominant_focus cs = Some c \<Longrightarrow> d \<in> set cs \<Longrightarrow> focus_key c \<le> focus_key d"
  by (auto simp: select_dominant_focus_def arg_min_list_key_le split: if_splits)

text \<open>
  The selected focus is one of the candidates and none beats it: no candidate has a higher
  priority, and among those of equal priority none was observed later.  The choice does not
  depend on the order in which the candidates arrive: two lists with the same candidates select
  the same sort key.
\<close>

theorem dominant_focus_best:
  assumes "select_dominant_focus cs = Some c" and "set ds = set cs"
  shows "c \<in> set cs
    \<and> (\<forall>d \<in> set cs. df_priority d \<le> df_priority c
         \<and> (df_priority d = df_priority c \<longrightarrow> df_observed_at d \<le> df_observed_at c))
    \<and> map_option focus_key (select_dominant_focus ds) = Some (focus_key c)"
proof (intro conjI ballI impI)
  show c: "c \<in> set cs" by (rule select_dominant_focus_in [OF assms(1)])
  have le: "focus_key c \<le> focus_key d" if "d \<in> set cs" for d
    by (rule select_dominant_focus_min [OF assms(1) that])
  show "df_priority d \<le> df_priority c" if "d \<in> set cs" for d
    using le [OF that] by (auto simp: focus_key_def)
  show "df_observed_at d \<le> df_observed_at c"
    if "d \<in> set cs" "df_priority d = df_priority c" for d
    using le [OF that(1)] that(2) by (auto simp: focus_key_def)
  have "ds \<noteq> []" using c assms(2) by auto
  then obtain c' where c': "select_dominant_focus ds = Some c'"
    by (simp add: select_dominant_focus_def)
  have "focus_key c \<le> focus_key c'"
    using le select_dominant_focus_in [OF c'] assms(2) by simp
  moreover have "focus_key c' \<le> focus_key c"
    using select_dominant_focus_min [OF c'] c assms(2) by simp
  ultimately show "map_option focus_key (select_dominant_focus ds) = Some (focus_key c)"
    using c' by simp
qed

definition example_focus :: "int \<Rightarrow> instant \<Rightarrow> dominant_focus" where
  "example_focus priority observed =
     \<lparr>df_priority = priority, df_domain = Football, df_reason = ''live_match'',
      df_subject_id = None, df_event_id = None, df_transient = False, df_created_at = observed,
      df_observed_at = observed, df_expires_at = None\<rparr>"

theorem dominant_focus_best_witness:
  "map_option focus_key (select_dominant_focus [example_focus 70 9, example_focus 40 30, example_focus 70 5])
     = Some (focus_key (example_focus 70 9))"
proof -
  have "select_dominant_focus [example_focus 40 30, example_focus 70 5, example_focus 70 9]
        = Some (example_focus 70 9)"
    by (simp add: select_dominant_focus_def focus_key_def example_focus_def Let_def)
  from dominant_focus_best
    [OF this, of "[example_focus 70 9, example_focus 40 30, example_focus 70 5]"]
  show ?thesis by auto
qed

end
