(* ===== verification/Canonical_Events.thy ===== *)
theory Canonical_Events
  imports Values
begin

text \<open>
  The canonical event model (\<open>backend/app/domain/events.py\<close>) and the normalisation of
  simulator observations (\<open>backend/app/ingestion/normalize.py\<close>).  A pydantic constructor is a
  function into \<^typ>\<open>'a result\<close> that checks the constraints its fields declare.
\<close>

section \<open>Football event types\<close>

datatype football_event_type =
    SCHEDULED | KICKOFF | GOAL | SCORE_CORRECTED | YELLOW_CARD | RED_CARD
  | SUBSTITUTION | HALFTIME | SECOND_HALF | EXTRA_TIME | PENALTIES | FULLTIME

fun fet_value :: "football_event_type \<Rightarrow> string" where
  "fet_value SCHEDULED = ''football.match.scheduled''"
| "fet_value KICKOFF = ''football.match.kickoff''"
| "fet_value GOAL = ''football.match.goal''"
| "fet_value SCORE_CORRECTED = ''football.match.score_corrected''"
| "fet_value YELLOW_CARD = ''football.match.yellow_card''"
| "fet_value RED_CARD = ''football.match.red_card''"
| "fet_value SUBSTITUTION = ''football.match.substitution''"
| "fet_value HALFTIME = ''football.match.halftime''"
| "fet_value SECOND_HALF = ''football.match.second_half''"
| "fet_value EXTRA_TIME = ''football.match.extra_time''"
| "fet_value PENALTIES = ''football.match.penalties''"
| "fet_value FULLTIME = ''football.match.fulltime''"

lemma fet_value_football [simp]: "startswith (fet_value t) ''football.match.''"
  by (cases t) (simp_all add: startswith_def)

lemma fet_value_inject [simp]: "fet_value s = fet_value t \<longleftrightarrow> s = t"
  by (cases s; cases t) simp_all

declare fet_value.simps [simp del]

section \<open>The football payload\<close>

record football_payload =
  fp_home_team :: string
  fp_away_team :: string
  fp_competition :: string
  fp_minute :: int
  fp_current_minute :: "int option"
  fp_side :: "string option"
  fp_player :: "string option"
  fp_substitute :: "string option"
  fp_detail :: "string option"
  fp_home_score :: int
  fp_away_score :: int
  fp_status :: "string option"
  fp_phase :: "string option"

text \<open>The constraints the fields declare (\<open>ge\<close>, \<open>le\<close>, \<open>Literal\<close>).\<close>

definition football_payload_ok :: "football_payload \<Rightarrow> bool" where
  "football_payload_ok p \<longleftrightarrow>
     0 \<le> fp_minute p \<and> fp_minute p \<le> 130 \<and>
     (case fp_current_minute p of None \<Rightarrow> True | Some m \<Rightarrow> 0 \<le> m \<and> m \<le> 130) \<and>
     (case fp_side p of None \<Rightarrow> True | Some s \<Rightarrow> s = ''home'' \<or> s = ''away'') \<and>
     0 \<le> fp_home_score p \<and> 0 \<le> fp_away_score p"

definition football_payload_new :: "football_payload \<Rightarrow> football_payload result" where
  "football_payload_new p =
     (if football_payload_ok p then Inr p else Inl (ValidationError ''FootballPayload''))"

text \<open>
  \<open>model_validate\<close> on a dictionary: a string field takes a string, an integer field an integer
  (or, in pydantic's lax mode, a boolean or numeric text), an optional field also \<open>None\<close>;
  unknown keys are refused (\<open>extra="forbid"\<close>).
\<close>

definition str_field :: "dict \<Rightarrow> string \<Rightarrow> string option \<Rightarrow> string result" where
  "str_field d k dflt = (case map_of d k of
      None \<Rightarrow> (case dflt of None \<Rightarrow> Inl (ValidationError k) | Some s \<Rightarrow> Inr s)
    | Some (JStr s) \<Rightarrow> Inr s
    | Some _ \<Rightarrow> Inl (ValidationError k))"

definition opt_str_field :: "dict \<Rightarrow> string \<Rightarrow> string option result" where
  "opt_str_field d k = (case map_of d k of
      None \<Rightarrow> Inr None
    | Some JNull \<Rightarrow> Inr None
    | Some (JStr s) \<Rightarrow> Inr (Some s)
    | Some _ \<Rightarrow> Inl (ValidationError k))"

fun lax_int :: "json \<Rightarrow> int option" where
  "lax_int (JInt n) = Some n"
| "lax_int (JBool b) = Some (if b then 1 else 0)"
| "lax_int (JStr s) = parse_int s"
| "lax_int _ = None"

definition int_field :: "dict \<Rightarrow> string \<Rightarrow> int \<Rightarrow> int result" where
  "int_field d k dflt = (case map_of d k of
      None \<Rightarrow> Inr dflt
    | Some v \<Rightarrow> (case lax_int v of None \<Rightarrow> Inl (ValidationError k) | Some n \<Rightarrow> Inr n))"

definition opt_int_field :: "dict \<Rightarrow> string \<Rightarrow> int option result" where
  "opt_int_field d k = (case map_of d k of
      None \<Rightarrow> Inr None
    | Some JNull \<Rightarrow> Inr None
    | Some v \<Rightarrow> (case lax_int v of None \<Rightarrow> Inl (ValidationError k) | Some n \<Rightarrow> Inr (Some n)))"

definition football_payload_keys :: "string list" where
  "football_payload_keys =
     [''home_team'', ''away_team'', ''competition'', ''minute'', ''current_minute'', ''side'',
      ''player'', ''substitute'', ''detail'', ''home_score'', ''away_score'', ''status'', ''phase'']"

definition football_payload_of_dict :: "dict \<Rightarrow> football_payload result" where
  "football_payload_of_dict d =
     bind_r (ensure (list_all (\<lambda>(k, v). k \<in> set football_payload_keys) d)
               (ValidationError ''extra_forbidden'')) (\<lambda>_.
     bind_r (str_field d ''home_team'' None) (\<lambda>home.
     bind_r (str_field d ''away_team'' None) (\<lambda>away.
     bind_r (str_field d ''competition'' (Some ''Premier League'')) (\<lambda>comp.
     bind_r (int_field d ''minute'' 0) (\<lambda>minute.
     bind_r (opt_int_field d ''current_minute'') (\<lambda>current.
     bind_r (opt_str_field d ''side'') (\<lambda>side.
     bind_r (opt_str_field d ''player'') (\<lambda>player.
     bind_r (opt_str_field d ''substitute'') (\<lambda>substitute.
     bind_r (opt_str_field d ''detail'') (\<lambda>detail.
     bind_r (int_field d ''home_score'' 0) (\<lambda>home_score.
     bind_r (int_field d ''away_score'' 0) (\<lambda>away_score.
     bind_r (opt_str_field d ''status'') (\<lambda>status.
     bind_r (opt_str_field d ''phase'') (\<lambda>phase.
     football_payload_new
       \<lparr>fp_home_team = home, fp_away_team = away, fp_competition = comp, fp_minute = minute,
        fp_current_minute = current, fp_side = side, fp_player = player,
        fp_substitute = substitute, fp_detail = detail, fp_home_score = home_score,
        fp_away_score = away_score, fp_status = status, fp_phase = phase\<rparr>))))))))))))))"

text \<open>\<open>model_dump(mode="json", exclude_none=True)\<close>: the fields in order, \<open>None\<close> left out.\<close>

definition opt_entry :: "string \<Rightarrow> ('a \<Rightarrow> json) \<Rightarrow> 'a option \<Rightarrow> dict" where
  "opt_entry k f v = (case v of None \<Rightarrow> [] | Some x \<Rightarrow> [(k, f x)])"

definition football_payload_dump :: "football_payload \<Rightarrow> dict" where
  "football_payload_dump p =
     [(''home_team'', JStr (fp_home_team p)), (''away_team'', JStr (fp_away_team p)),
      (''competition'', JStr (fp_competition p)), (''minute'', JInt (fp_minute p))]
     @ opt_entry ''current_minute'' JInt (fp_current_minute p)
     @ opt_entry ''side'' JStr (fp_side p)
     @ opt_entry ''player'' JStr (fp_player p)
     @ opt_entry ''substitute'' JStr (fp_substitute p)
     @ opt_entry ''detail'' JStr (fp_detail p)
     @ [(''home_score'', JInt (fp_home_score p)), (''away_score'', JInt (fp_away_score p))]
     @ opt_entry ''status'' JStr (fp_status p)
     @ opt_entry ''phase'' JStr (fp_phase p)"

lemma opt_entry_simps [simp]:
  "opt_entry k f None = []" "opt_entry k f (Some x) = [(k, f x)]"
  by (simp_all add: opt_entry_def)

lemma map_of_opt_entry [simp]:
  "map_of (opt_entry k f v) k' = (if k' = k then map_option f v else None)"
  by (cases v) auto

lemma dump_lookup [simp]:
  "map_of (football_payload_dump p) ''home_team'' = Some (JStr (fp_home_team p))"
  "map_of (football_payload_dump p) ''away_team'' = Some (JStr (fp_away_team p))"
  "map_of (football_payload_dump p) ''competition'' = Some (JStr (fp_competition p))"
  "map_of (football_payload_dump p) ''minute'' = Some (JInt (fp_minute p))"
  "map_of (football_payload_dump p) ''current_minute'' = map_option JInt (fp_current_minute p)"
  "map_of (football_payload_dump p) ''side'' = map_option JStr (fp_side p)"
  "map_of (football_payload_dump p) ''player'' = map_option JStr (fp_player p)"
  "map_of (football_payload_dump p) ''substitute'' = map_option JStr (fp_substitute p)"
  "map_of (football_payload_dump p) ''detail'' = map_option JStr (fp_detail p)"
  "map_of (football_payload_dump p) ''home_score'' = Some (JInt (fp_home_score p))"
  "map_of (football_payload_dump p) ''away_score'' = Some (JInt (fp_away_score p))"
  "map_of (football_payload_dump p) ''status'' = map_option JStr (fp_status p)"
  "map_of (football_payload_dump p) ''phase'' = map_option JStr (fp_phase p)"
  by (simp_all add: football_payload_dump_def map_add_def split: option.splits)

lemma dump_keys_declared:
  "list_all (\<lambda>(k, v). k \<in> set football_payload_keys) (football_payload_dump p)"
  by (simp add: football_payload_dump_def football_payload_keys_def opt_entry_def
      split: option.splits)


lemma opt_fields_of_dump [simp]:
  "map_of d k = map_option JStr v \<Longrightarrow> opt_str_field d k = Inr v"
  "map_of d k = map_option JInt w \<Longrightarrow> opt_int_field d k = Inr w"
  by (cases v; simp add: opt_str_field_def) (cases w; simp add: opt_int_field_def)

lemma fields_of_dump [simp]:
  "map_of d k = Some (JStr s) \<Longrightarrow> str_field d k dflt = Inr s"
  "map_of d k = Some (JInt n) \<Longrightarrow> int_field d k i = Inr n"
  by (simp_all add: str_field_def int_field_def)

text \<open>
  C40.  Serialising a valid football payload and validating the result gives the payload back:
  the JSON in the event store, the outbox and the broker loses nothing the projector reads.
\<close>

theorem payload_dump_roundtrip:
  assumes "football_payload_ok p"
  shows "football_payload_of_dict (football_payload_dump p) = Inr p"
  using assms dump_keys_declared [of p]
  by (cases p) (simp add: football_payload_of_dict_def football_payload_new_def)

theorem payload_dump_roundtrip_witness:
  "football_payload_of_dict (football_payload_dump
     \<lparr>fp_home_team = ''A'', fp_away_team = ''B'', fp_competition = ''C'', fp_minute = 12,
      fp_current_minute = Some 14, fp_side = Some ''home'', fp_player = None,
      fp_substitute = None, fp_detail = Some ''header'', fp_home_score = 1, fp_away_score = 0,
      fp_status = Some ''1H'', fp_phase = None\<rparr>)
   = Inr \<lparr>fp_home_team = ''A'', fp_away_team = ''B'', fp_competition = ''C'', fp_minute = 12,
      fp_current_minute = Some 14, fp_side = Some ''home'', fp_player = None,
      fp_substitute = None, fp_detail = Some ''header'', fp_home_score = 1, fp_away_score = 0,
      fp_status = Some ''1H'', fp_phase = None\<rparr>"
  by (rule payload_dump_roundtrip) (simp add: football_payload_ok_def)

section \<open>Canonical events\<close>

record event =
  ev_event_id :: uuid
  ev_source :: string
  ev_event_type :: string
  ev_subject_type :: string
  ev_subject_id :: string
  ev_occurred_at :: instant
  ev_observed_at :: instant
  ev_ingested_at :: instant
  ev_version :: int
  ev_dedupe_key :: string
  ev_schema_version :: int
  ev_correlation_id :: uuid
  ev_payload :: dict

text \<open>
  The constructor.  The identifier (\<open>uuid7\<close>) and the ingestion time (\<open>datetime.now\<close>) are
  the arguments \<open>eid\<close> and \<open>ingested\<close>: the environment chooses them.  The time stamps are
  converted to UTC, a naive one is refused.
\<close>

definition canonical_event_new ::
  "uuid \<Rightarrow> string \<Rightarrow> string \<Rightarrow> string \<Rightarrow> string \<Rightarrow> py_datetime \<Rightarrow> py_datetime \<Rightarrow> py_datetime
   \<Rightarrow> int \<Rightarrow> string \<Rightarrow> int \<Rightarrow> uuid \<Rightarrow> dict \<Rightarrow> event result" where
  "canonical_event_new eid src etype stype sid occurred observed ingested ver dedupe schema corr payload =
     bind_r (require_aware ''occurred_at'' occurred) (\<lambda>o1.
     bind_r (require_aware ''observed_at'' observed) (\<lambda>o2.
     bind_r (require_aware ''ingested_at'' ingested) (\<lambda>o3.
     bind_r (ensure (1 \<le> ver) (ValidationError ''version'')) (\<lambda>_.
     bind_r (ensure (dedupe \<noteq> []) (ValidationError ''dedupe_key'')) (\<lambda>_.
     bind_r (ensure (1 \<le> schema) (ValidationError ''schema_version'')) (\<lambda>_.
     Inr \<lparr>ev_event_id = eid, ev_source = src, ev_event_type = etype, ev_subject_type = stype,
          ev_subject_id = sid, ev_occurred_at = o1, ev_observed_at = o2, ev_ingested_at = o3,
          ev_version = ver, ev_dedupe_key = dedupe, ev_schema_version = schema,
          ev_correlation_id = corr, ev_payload = payload\<rparr>))))))"

lemma canonical_event_new_utc [simp]:
  "1 \<le> ver \<Longrightarrow> dedupe \<noteq> [] \<Longrightarrow> 1 \<le> schema \<Longrightarrow>
   canonical_event_new eid src etype stype sid (utc o1) (utc o2) (utc o3) ver dedupe schema corr payload =
     Inr \<lparr>ev_event_id = eid, ev_source = src, ev_event_type = etype, ev_subject_type = stype,
          ev_subject_id = sid, ev_occurred_at = o1, ev_observed_at = o2, ev_ingested_at = o3,
          ev_version = ver, ev_dedupe_key = dedupe, ev_schema_version = schema,
          ev_correlation_id = corr, ev_payload = payload\<rparr>"
  by (simp add: canonical_event_new_def)

text \<open>What every constructed event satisfies.\<close>

definition event_ok :: "event \<Rightarrow> bool" where
  "event_ok e \<longleftrightarrow> 1 \<le> ev_version e \<and> ev_dedupe_key e \<noteq> [] \<and> 1 \<le> ev_schema_version e"

lemma canonical_event_new_ok:
  "canonical_event_new eid src etype stype sid o1 o2 o3 ver dedupe schema corr payload = Inr e
   \<Longrightarrow> event_ok e"
  by (auto simp: canonical_event_new_def event_ok_def bind_simps)

section \<open>Normalisation of simulator observations\<close>

record provider_observation =
  po_event_type :: football_event_type
  po_match_id :: string
  po_run_id :: uuid
  po_sequence :: int
  po_occurred_at :: py_datetime
  po_observed_at :: py_datetime
  po_payload :: dict

definition demo_dedupe_key :: "uuid \<Rightarrow> int \<Rightarrow> string" where
  "demo_dedupe_key run sequence = ''demo-football:'' @ uuid_str run @ '':'' @ int_str sequence"

definition normalize_football_observation ::
  "uuid \<Rightarrow> instant \<Rightarrow> provider_observation \<Rightarrow> event result" where
  "normalize_football_observation eid ingested obs =
     bind_r (football_payload_of_dict (po_payload obs)) (\<lambda>p.
     canonical_event_new eid ''demo-football'' (fet_value (po_event_type obs)) ''match''
       (po_match_id obs) (po_occurred_at obs) (po_observed_at obs) (utc ingested)
       (po_sequence obs) (demo_dedupe_key (po_run_id obs) (po_sequence obs)) 1 (po_run_id obs)
       (football_payload_dump p))"

lemma normalize_football_observation_ok:
  assumes "normalize_football_observation eid ingested obs = Inr e"
  shows "event_ok e" and "ev_source e = ''demo-football''"
    and "ev_version e = po_sequence obs" and "ev_subject_id e = po_match_id obs"
    and "ev_dedupe_key e = demo_dedupe_key (po_run_id obs) (po_sequence obs)"
    and "ev_event_id e = eid" and "ev_event_type e = fet_value (po_event_type obs)"
  using assms
  by (auto simp: normalize_football_observation_def canonical_event_new_def event_ok_def bind_simps)


text \<open>A concrete event for the closed instances of the development's theorems.\<close>

definition sample_event :: "uuid \<Rightarrow> football_event_type \<Rightarrow> int \<Rightarrow> string \<Rightarrow> instant \<Rightarrow> football_payload \<Rightarrow> event" where
  "sample_event i t v k now p =
     \<lparr>ev_event_id = i, ev_source = ''api-football'', ev_event_type = fet_value t,
      ev_subject_type = ''match'', ev_subject_id = ''m1'', ev_occurred_at = now,
      ev_observed_at = now, ev_ingested_at = now, ev_version = v, ev_dedupe_key = k,
      ev_schema_version = 1, ev_correlation_id = 1, ev_payload = football_payload_dump p\<rparr>"

definition sample_payload :: "string option \<Rightarrow> football_payload" where
  "sample_payload side =
     \<lparr>fp_home_team = ''A'', fp_away_team = ''B'', fp_competition = ''C'', fp_minute = 12,
      fp_current_minute = Some 14, fp_side = side, fp_player = None,
      fp_substitute = None, fp_detail = None, fp_home_score = 0, fp_away_score = 0,
      fp_status = None, fp_phase = None\<rparr>"

lemmas sample_defs = sample_event_def sample_payload_def

end
