(* ===== verification/Storage.thy ===== *)
theory Storage
  imports Canonical_Events
begin

text \<open>
  The tables of \<open>backend/app/storage/models.py\<close> as lists of rows, the constraints the schema
  declares (primary keys, uniqueness, column widths, foreign keys with \<open>ON DELETE CASCADE\<close>), and
  the row operations the components share.  A transaction is a function from one database value
  to the next; an exception leaves the old value, as a rollback does.
\<close>

section \<open>Rows\<close>

text \<open>
  The outbox payload is the JSON envelope \<open>event.model_dump(mode="json")\<close>; it is represented by
  the event it encodes, from which \<open>CanonicalEvent.model_validate\<close> rebuilds it.
\<close>

record outbox_row =
  ob_id :: int
  ob_event_id :: uuid
  ob_topic :: string
  ob_partition_key :: string
  ob_payload :: event
  ob_created_at :: instant
  ob_published_at :: "instant option"
  ob_claimed_at :: "instant option"
  ob_attempts :: int
  ob_last_error :: "string option"

record match_core =
  ms_match_id :: string
  ms_home_team :: string
  ms_away_team :: string
  ms_competition :: string
  ms_home_score :: int
  ms_away_score :: int
  ms_status :: string
  ms_minute :: int
  ms_phase :: string
  ms_version :: int

record match_state = match_core +
  ms_last_event_id :: "uuid option"
  ms_last_event_type :: "string option"
  ms_updated_at :: instant

record timeline_row =
  tl_cursor :: int
  tl_event_id :: uuid
  tl_event_type :: string
  tl_source :: string
  tl_subject_id :: string
  tl_occurred_at :: instant
  tl_payload :: dict

record processed_row =
  pr_consumer_name :: string
  pr_event_id :: uuid
  pr_processed_at :: instant

record retired_row =
  rt_event_id :: uuid
  rt_dedupe_hash :: string
  rt_retired_at :: instant

record connection_row =
  cn_provider :: string
  cn_status :: string
  cn_credentials :: "string option"
  cn_scopes :: "string list"
  cn_created_at :: instant
  cn_updated_at :: instant
  cn_connected_at :: "instant option"

text \<open>
  A checkpoint value is JSON text; \<open>cp_value\<close> is what \<open>json.loads\<close> makes of it, \<open>None\<close> when
  it does not parse.
\<close>

record checkpoint_row =
  cp_provider :: string
  cp_checkpoint_key :: string
  cp_value :: "json option"
  cp_observed_at :: "instant option"
  cp_updated_at :: instant

text \<open>
  The database.  \<open>db_demo\<close> is the \<open>demo_control\<close> row with \<open>id = 1\<close>: absent, or its
  \<open>active_match_id\<close>.  The last two fields are the sequences of the serial columns.
\<close>

record db =
  db_events :: "event list"
  db_outbox :: "outbox_row list"
  db_matches :: "match_state list"
  db_timeline :: "timeline_row list"
  db_processed :: "processed_row list"
  db_retired :: "retired_row list"
  db_demo :: "string option option"
  db_connections :: "connection_row list"
  db_checkpoints :: "checkpoint_row list"
  db_next_outbox :: int
  db_next_cursor :: int

definition empty_db :: db where
  "empty_db = \<lparr>db_events = [], db_outbox = [], db_matches = [], db_timeline = [],
     db_processed = [], db_retired = [], db_demo = None, db_connections = [],
     db_checkpoints = [], db_next_outbox = 1, db_next_cursor = 1\<rparr>"

section \<open>Row operations\<close>

definition find_row :: "('r \<Rightarrow> 'k) \<Rightarrow> 'k \<Rightarrow> 'r list \<Rightarrow> 'r option" where
  "find_row key k rs = find (\<lambda>r. key r = k) rs"

definition update_row :: "('r \<Rightarrow> 'k) \<Rightarrow> 'k \<Rightarrow> ('r \<Rightarrow> 'r) \<Rightarrow> 'r list \<Rightarrow> 'r list" where
  "update_row key k f rs = map (\<lambda>r. if key r = k then f r else r) rs"

text \<open>Add a row, or overwrite the one with its key (\<open>session.add\<close> or attribute assignment).\<close>

definition upsert :: "('r \<Rightarrow> 'k) \<Rightarrow> 'r \<Rightarrow> 'r list \<Rightarrow> 'r list" where
  "upsert key r rs =
     (if key r \<in> set (map key rs) then map (\<lambda>x. if key x = key r then r else x) rs else rs @ [r])"

lemma find_row_None: "find_row key k rs = None \<longleftrightarrow> k \<notin> key ` set rs"
  by (auto simp: find_row_def find_None_iff)

lemma find_row_Some:
  "find_row key k rs = Some r \<Longrightarrow> r \<in> set rs \<and> key r = k"
  by (auto simp: find_row_def find_Some_iff)

lemma find_row_append:
  "find_row key k (rs @ qs) = (case find_row key k rs of None \<Rightarrow> find_row key k qs | Some r \<Rightarrow> Some r)"
  by (induction rs) (auto simp: find_row_def)

lemma find_row_simps [simp]:
  "find_row key k [] = None"
  "find_row key k (r # rs) = (if key r = k then Some r else find_row key k rs)"
  by (simp_all add: find_row_def)

lemma find_row_map_other:
  "(\<And>r. key (f r) = key r) \<Longrightarrow> find_row key k (map f rs) = map_option f (find_row key k rs)"
  by (induction rs) auto

lemma map_update_row [simp]:
  "(\<And>r. key r = k \<Longrightarrow> g (f r) = g r) \<Longrightarrow> map g (update_row key k f rs) = map g rs"
  by (auto simp: update_row_def)

lemma set_update_row:
  "set (update_row key k f rs) = (\<lambda>r. if key r = k then f r else r) ` set rs"
  by (auto simp: update_row_def)

lemma map_key_upsert:
  "map key (upsert key r rs) = (if key r \<in> key ` set rs then map key rs else map key rs @ [key r])"
  by (auto simp: upsert_def)

lemma distinct_upsert [simp]:
  "distinct (map key (upsert key r rs)) = distinct (map key rs)"
  by (auto simp: map_key_upsert)

lemma find_row_replace:
  "key r = j \<Longrightarrow>
   find_row key j (map (\<lambda>x. if key x = j then r else x) rs) = map_option (\<lambda>_. r) (find_row key j rs)"
  by (induction rs) auto

lemma find_row_replace_other:
  "k \<noteq> j \<Longrightarrow> key r = j \<Longrightarrow>
   find_row key k (map (\<lambda>x. if key x = j then r else x) rs) = find_row key k rs"
  by (induction rs) auto

lemma find_row_upsert:
  "find_row key k (upsert key r rs) = (if k = key r then Some r else find_row key k rs)"
proof (cases "key r \<in> set (map key rs)")
  case True
  then have up: "upsert key r rs = map (\<lambda>x. if key x = key r then r else x) rs"
    by (simp add: upsert_def)
  obtain q where "find_row key (key r) rs = Some q"
    using True find_row_None [of key "key r" rs] by auto
  then show ?thesis
    unfolding up
    using find_row_replace [of key r "key r" rs] find_row_replace_other [of k "key r" key r rs]
    by (cases "k = key r") simp_all
next
  case False
  then have up: "upsert key r rs = rs @ [r]" by (simp add: upsert_def)
  have "find_row key (key r) rs = None" using False by (simp add: find_row_None)
  then show ?thesis
    unfolding up find_row_append by (cases "k = key r"; cases "find_row key k rs") simp_all
qed

lemma set_upsert: "set (upsert key r rs) \<subseteq> insert r (set rs)"
  by (auto simp: upsert_def)

section \<open>Tables with a key, as an interface\<close>

text \<open>
  Several components keep one row per key and either add it or overwrite it.  They rely on the
  two laws below only.
\<close>

locale keyed_store =
  fixes lookup :: "'k \<Rightarrow> 's \<Rightarrow> 'r option"
    and put :: "'r \<Rightarrow> 's \<Rightarrow> 's"
    and key :: "'r \<Rightarrow> 'k"
    and ok :: "'s \<Rightarrow> bool"
  assumes lookup_put: "lookup k (put r s) = (if k = key r then Some r else lookup k s)"
    and ok_put: "ok s \<Longrightarrow> ok (put r s)"
begin

lemma put_twice: "key q = key r \<Longrightarrow> lookup k (put q (put r s)) = lookup k (put q s)"
  by (simp add: lookup_put)

lemma put_commute:
  "key q \<noteq> key r \<Longrightarrow> lookup k (put q (put r s)) = lookup k (put r (put q s))"
  by (simp add: lookup_put)

lemma lookup_fold_put:
  "distinct (map key rs) \<Longrightarrow>
   lookup k (fold put rs s) = (case find_row key k rs of None \<Rightarrow> lookup k s | Some r \<Rightarrow> Some r)"
proof (induction rs arbitrary: s)
  case (Cons r rs)
  then have IH: "lookup k (fold put rs (put r s)) =
      (case find_row key k rs of None \<Rightarrow> lookup k (put r s) | Some r \<Rightarrow> Some r)"
    by simp
  show ?case
  proof (cases "key r = k")
    case True
    with Cons.prems have "find_row key k rs = None" by (auto simp: find_row_None)
    with IH True show ?thesis by (simp add: lookup_put)
  next
    case False
    have "find_row key k (r # rs) = find_row key k rs" using False by simp
    moreover have "lookup k (put r s) = lookup k s" using False by (simp add: lookup_put)
    ultimately show ?thesis using IH by (simp only: fold_simps)
  qed
qed simp

lemma ok_fold_put: "ok s \<Longrightarrow> ok (fold put rs s)"
  by (induction rs arbitrary: s) (auto intro: ok_put)

end

definition find_match :: "string \<Rightarrow> match_state list \<Rightarrow> match_state option" where
  "find_match k rs = find_row ms_match_id k rs"

definition save_match :: "match_state \<Rightarrow> match_state list \<Rightarrow> match_state list" where
  "save_match r rs = upsert ms_match_id r rs"

definition checkpoint_key :: "checkpoint_row \<Rightarrow> string \<times> string" where
  "checkpoint_key r = (cp_provider r, cp_checkpoint_key r)"

definition find_checkpoint :: "string \<times> string \<Rightarrow> checkpoint_row list \<Rightarrow> checkpoint_row option" where
  "find_checkpoint k rs = find_row checkpoint_key k rs"

definition save_checkpoint :: "checkpoint_row \<Rightarrow> checkpoint_row list \<Rightarrow> checkpoint_row list" where
  "save_checkpoint r rs = upsert checkpoint_key r rs"

interpretation matches: keyed_store find_match save_match ms_match_id
    "\<lambda>rs. distinct (map ms_match_id rs)"
  by unfold_locales (simp_all add: find_match_def save_match_def find_row_upsert)

interpretation checkpoints: keyed_store find_checkpoint save_checkpoint checkpoint_key
    "\<lambda>rs. distinct (map checkpoint_key rs)"
  by unfold_locales (simp_all add: find_checkpoint_def save_checkpoint_def find_row_upsert)

section \<open>Schema constraints\<close>

text \<open>Column widths of \<open>canonical_events\<close> and the 32-bit \<open>Integer\<close> columns.\<close>

definition int32 :: "int \<Rightarrow> bool" where
  "int32 n \<longleftrightarrow> - (2 ^ 31) \<le> n \<and> n < 2 ^ 31"

definition event_fits :: "event \<Rightarrow> bool" where
  "event_fits e \<longleftrightarrow>
     length (ev_source e) \<le> 100 \<and> length (ev_event_type e) \<le> 100 \<and>
     length (ev_subject_type e) \<le> 50 \<and> length (ev_subject_id e) \<le> 100 \<and>
     length (ev_dedupe_key e) \<le> 255 \<and> int32 (ev_version e) \<and> int32 (ev_schema_version e)"

definition match_fits :: "match_state \<Rightarrow> bool" where
  "match_fits m \<longleftrightarrow>
     length (ms_match_id m) \<le> 100 \<and> length (ms_home_team m) \<le> 100 \<and>
     length (ms_away_team m) \<le> 100 \<and> length (ms_competition m) \<le> 100 \<and>
     length (ms_status m) \<le> 30 \<and> length (ms_phase m) \<le> 30 \<and>
     int32 (ms_home_score m) \<and> int32 (ms_away_score m) \<and> int32 (ms_minute m) \<and> int32 (ms_version m)"

abbreviation event_ids :: "db \<Rightarrow> uuid set" where
  "event_ids d \<equiv> ev_event_id ` set (db_events d)"

definition unique_ok :: "db \<Rightarrow> bool" where
  "unique_ok d \<longleftrightarrow>
     distinct (map ev_event_id (db_events d)) \<and> distinct (map ev_dedupe_key (db_events d)) \<and>
     distinct (map ob_id (db_outbox d)) \<and> distinct (map ob_event_id (db_outbox d)) \<and>
     distinct (map tl_cursor (db_timeline d)) \<and> distinct (map tl_event_id (db_timeline d)) \<and>
     distinct (map (\<lambda>r. (pr_consumer_name r, pr_event_id r)) (db_processed d)) \<and>
     distinct (map ms_match_id (db_matches d)) \<and> distinct (map checkpoint_key (db_checkpoints d)) \<and>
     distinct (map rt_event_id (db_retired d)) \<and> distinct (map rt_dedupe_hash (db_retired d))"

definition foreign_ok :: "db \<Rightarrow> bool" where
  "foreign_ok d \<longleftrightarrow>
     ob_event_id ` set (db_outbox d) \<subseteq> event_ids d \<and>
     tl_event_id ` set (db_timeline d) \<subseteq> event_ids d \<and>
     pr_event_id ` set (db_processed d) \<subseteq> event_ids d"

definition sequence_ok :: "db \<Rightarrow> bool" where
  "sequence_ok d \<longleftrightarrow>
     (\<forall>r \<in> set (db_outbox d). ob_id r < db_next_outbox d) \<and>
     (\<forall>r \<in> set (db_timeline d). tl_cursor r < db_next_cursor d)"

definition schema_ok :: "db \<Rightarrow> bool" where
  "schema_ok d \<longleftrightarrow> unique_ok d \<and> foreign_ok d \<and> sequence_ok d"

text \<open>
  What the program itself keeps true: every canonical event has its outbox row, carrying that
  event; an event is in the timeline exactly when the projector has recorded it; and no stored
  event has a tombstone.
\<close>

definition CONSUMER_NAME :: string where
  "CONSUMER_NAME = ''match-state-projector-v1''"

definition outbox_complete :: "db \<Rightarrow> bool" where
  "outbox_complete d \<longleftrightarrow>
     (\<forall>e \<in> set (db_events d). \<exists>o' \<in> set (db_outbox d). ob_event_id o' = ev_event_id e \<and> ob_payload o' = e)"

definition projected_ids :: "db \<Rightarrow> uuid set" where
  "projected_ids d = pr_event_id ` {r \<in> set (db_processed d). pr_consumer_name r = CONSUMER_NAME}"

definition timeline_matches :: "db \<Rightarrow> bool" where
  "timeline_matches d \<longleftrightarrow> tl_event_id ` set (db_timeline d) = projected_ids d"

definition tombstones_ok :: "(string \<Rightarrow> string) \<Rightarrow> db \<Rightarrow> bool" where
  "tombstones_ok hash d \<longleftrightarrow>
     hash ` ev_dedupe_key ` set (db_events d) \<inter> rt_dedupe_hash ` set (db_retired d) = {}"

definition db_ok :: "(string \<Rightarrow> string) \<Rightarrow> db \<Rightarrow> bool" where
  "db_ok hash d \<longleftrightarrow> schema_ok d \<and> outbox_complete d \<and> timeline_matches d \<and> tombstones_ok hash d"

lemmas schema_defs = schema_ok_def unique_ok_def foreign_ok_def sequence_ok_def
lemmas db_ok_defs = db_ok_def schema_defs outbox_complete_def timeline_matches_def
  tombstones_ok_def projected_ids_def

lemma empty_db_ok: "db_ok hash empty_db"
  by (simp add: db_ok_defs empty_db_def)

section \<open>Cascading deletion\<close>

text \<open>
  \<open>DELETE FROM canonical_events WHERE p\<close>: the foreign keys of the outbox, the timeline and the
  processed-event table remove their rows with the event.
\<close>

definition delete_events :: "(event \<Rightarrow> bool) \<Rightarrow> db \<Rightarrow> db" where
  "delete_events p d =
     (let gone = (\<lambda>i. i \<in> set (map ev_event_id (filter p (db_events d))))
      in d\<lparr>db_events := filter (\<lambda>e. \<not> p e) (db_events d),
           db_outbox := filter (\<lambda>r. \<not> gone (ob_event_id r)) (db_outbox d),
           db_timeline := filter (\<lambda>r. \<not> gone (tl_event_id r)) (db_timeline d),
           db_processed := filter (\<lambda>r. \<not> gone (pr_event_id r)) (db_processed d)\<rparr>)"

lemma event_by_id:
  "unique_ok d \<Longrightarrow> e \<in> set (db_events d) \<Longrightarrow> f \<in> set (db_events d) \<Longrightarrow>
   ev_event_id e = ev_event_id f \<Longrightarrow> e = f"
  by (auto simp: unique_ok_def distinct_map inj_on_def)

lemma event_by_dedupe:
  "unique_ok d \<Longrightarrow> e \<in> set (db_events d) \<Longrightarrow> f \<in> set (db_events d) \<Longrightarrow>
   ev_dedupe_key e = ev_dedupe_key f \<Longrightarrow> e = f"
  by (auto simp: unique_ok_def distinct_map inj_on_def)

lemma delete_events_unique: "unique_ok d \<Longrightarrow> unique_ok (delete_events p d)"
  by (simp add: unique_ok_def delete_events_def Let_def distinct_map_filter)

lemma delete_events_foreign: "foreign_ok d \<Longrightarrow> foreign_ok (delete_events p d)"
  by (force simp: foreign_ok_def delete_events_def Let_def image_subset_iff)

lemma delete_events_sequence: "sequence_ok d \<Longrightarrow> sequence_ok (delete_events p d)"
  by (auto simp: sequence_ok_def delete_events_def Let_def)

lemma delete_events_schema: "schema_ok d \<Longrightarrow> schema_ok (delete_events p d)"
  by (simp add: schema_ok_def delete_events_unique delete_events_foreign delete_events_sequence)

lemma delete_events_outbox_complete:
  assumes "unique_ok d" and "outbox_complete d"
  shows "outbox_complete (delete_events p d)"
  using assms event_by_id [OF assms(1)]
  by (fastforce simp: outbox_complete_def delete_events_def Let_def)

lemma delete_events_timeline:
  assumes "timeline_matches d"
  shows "timeline_matches (delete_events p d)"
proof -
  let ?gone = "ev_event_id ` {e \<in> set (db_events d). p e}"
  have "tl_event_id ` set (db_timeline (delete_events p d)) = tl_event_id ` set (db_timeline d) - ?gone"
    by (auto simp: delete_events_def Let_def)
  moreover have "projected_ids (delete_events p d) = projected_ids d - ?gone"
    by (auto simp: delete_events_def Let_def projected_ids_def)
  ultimately show ?thesis
    using assms by (simp add: timeline_matches_def)
qed

lemma delete_events_tombstones: "tombstones_ok hash d \<Longrightarrow> tombstones_ok hash (delete_events p d)"
  by (auto simp: tombstones_ok_def delete_events_def Let_def)

lemma delete_events_ok: "db_ok hash d \<Longrightarrow> db_ok hash (delete_events p d)"
  unfolding db_ok_def schema_ok_def
  by (intro conjI delete_events_unique delete_events_foreign delete_events_sequence
      delete_events_outbox_complete delete_events_timeline delete_events_tombstones) blast+

lemma delete_events_simps [simp]:
  "db_events (delete_events p d) = filter (\<lambda>e. \<not> p e) (db_events d)"
  "db_matches (delete_events p d) = db_matches d"
  "db_retired (delete_events p d) = db_retired d"
  "db_demo (delete_events p d) = db_demo d"
  "db_connections (delete_events p d) = db_connections d"
  "db_checkpoints (delete_events p d) = db_checkpoints d"
  by (simp_all add: delete_events_def Let_def)

text \<open>Rows of \<open>match_state\<close> are deleted by their key; nothing refers to them.\<close>

definition delete_matches :: "string list \<Rightarrow> db \<Rightarrow> db" where
  "delete_matches ss d = d\<lparr>db_matches := filter (\<lambda>m. ms_match_id m \<notin> set ss) (db_matches d)\<rparr>"

lemma delete_matches_simps [simp]:
  "db_events (delete_matches ss d) = db_events d" "db_outbox (delete_matches ss d) = db_outbox d"
  "db_timeline (delete_matches ss d) = db_timeline d" "db_processed (delete_matches ss d) = db_processed d"
  "db_retired (delete_matches ss d) = db_retired d" "db_demo (delete_matches ss d) = db_demo d"
  "db_connections (delete_matches ss d) = db_connections d"
  "db_checkpoints (delete_matches ss d) = db_checkpoints d"
  "db_matches (delete_matches ss d) = filter (\<lambda>m. ms_match_id m \<notin> set ss) (db_matches d)"
  by (simp_all add: delete_matches_def)

lemma delete_matches_ok:
  assumes "db_ok hash d" shows "db_ok hash (delete_matches ss d)"
proof -
  have "unique_ok (delete_matches ss d)"
    using assms by (simp add: db_ok_def schema_ok_def unique_ok_def distinct_map_filter)
  moreover have "foreign_ok (delete_matches ss d)" "sequence_ok (delete_matches ss d)"
    using assms by (simp_all add: db_ok_def schema_ok_def foreign_ok_def sequence_ok_def delete_matches_def)
  ultimately show ?thesis
    using assms by (simp add: db_ok_def schema_ok_def outbox_complete_def timeline_matches_def
        projected_ids_def tombstones_ok_def)
qed

end
