(* ===== verification/Event_Store.thy ===== *)
theory Event_Store
  imports Storage
begin

text \<open>
  Appending an event together with its publish intent
  (\<open>backend/app/events/repository.py\<close>).  The digest \<open>hash\<close> stands for
  \<open>sha256(key).hexdigest()\<close>; nothing here depends on what it computes.
\<close>

section \<open>The ingestion interface\<close>

text \<open>
  Every source hands its events to one operation that answers whether the event was new.  The
  sources rely on these laws: an accepted event had an unknown key, which is now known; a refused
  one leaves the store as it was, and it was known; an event with a known key is refused.
\<close>

locale ingest_port =
  fixes persist :: "'e \<Rightarrow> 's \<Rightarrow> 'x + bool \<times> 's"
    and key :: "'e \<Rightarrow> 'k"
    and known :: "'s \<Rightarrow> 'k set"
    and valid :: "'e \<Rightarrow> bool"
    and ok :: "'s \<Rightarrow> bool"
  assumes persist_new: "persist e s = Inr (True, t) \<Longrightarrow> key e \<notin> known s \<and> known t = insert (key e) (known s)"
    and persist_dup: "persist e s = Inr (False, t) \<Longrightarrow> t = s \<and> key e \<in> known s"
    and persist_known: "valid e \<Longrightarrow> key e \<in> known s \<Longrightarrow> persist e s = Inr (False, s)"
    and persist_ok: "ok s \<Longrightarrow> persist e s = Inr (b, t) \<Longrightarrow> ok t"

text \<open>
  The loop all sources share: \<open>for event in events: if await persist_event_and_outbox(session,
  event): count += 1\<close>.
\<close>

fun ingest_events :: "('e \<Rightarrow> 's \<Rightarrow> 'x + bool \<times> 's) \<Rightarrow> 'e list \<Rightarrow> 's \<Rightarrow> 'x + nat \<times> 's" where
  "ingest_events persist [] s = Inr (0, s)"
| "ingest_events persist (e # es) s =
     bind_r (persist e s) (\<lambda>(new, t).
     bind_r (ingest_events persist es t) (\<lambda>(n, u).
     Inr ((if new then n + 1 else n), u)))"

context ingest_port begin

lemma persist_known_grows:
  "persist e s = Inr (b, t) \<Longrightarrow> known t = insert (key e) (known s)"
  by (cases b) (auto dest: persist_new persist_dup)

lemma ingest_known:
  "ingest_events persist es s = Inr (n, t) \<Longrightarrow> known t = known s \<union> key ` set es"
proof (induction es arbitrary: s n)
  case (Cons e es)
  then obtain b u m where "persist e s = Inr (b, u)" "ingest_events persist es u = Inr (m, t)"
    by (auto simp: bind_simps)
  then show ?case using Cons.IH [of u m] persist_known_grows [of e s b u] by auto
qed simp

lemma ingest_all_known:
  "\<forall>e \<in> set es. valid e \<Longrightarrow> key ` set es \<subseteq> known s \<Longrightarrow> ingest_events persist es s = Inr (0, s)"
  by (induction es) (auto simp: persist_known)

text \<open>Running a batch again after it succeeded changes nothing and reports nothing new.\<close>

lemma ingest_idempotent:
  assumes "ingest_events persist es s = Inr (n, t)" and "\<forall>e \<in> set es. valid e"
  shows "ingest_events persist es t = Inr (0, t)"
  using ingest_known [OF assms(1)] assms(2) by (intro ingest_all_known) auto

lemma ingest_ok: "ok s \<Longrightarrow> ingest_events persist es s = Inr (n, t) \<Longrightarrow> ok t"
proof (induction es arbitrary: s n)
  case (Cons e es)
  then obtain b u m where "persist e s = Inr (b, u)" "ingest_events persist es u = Inr (m, t)"
    by (auto simp: bind_simps)
  then show ?case using Cons.IH [of u m] persist_ok [OF Cons.prems(1)] by auto
qed simp

lemma ingest_count:
  "ingest_events persist es s = Inr (n, t) \<Longrightarrow> n = card (key ` set es - known s)"
proof (induction es arbitrary: s n)
  case (Cons e es)
  then obtain b u m where p: "persist e s = Inr (b, u)" and r: "ingest_events persist es u = Inr (m, t)"
    and n: "n = (if b then m + 1 else m)" by (auto simp: bind_simps split: if_splits)
  have m: "m = card (key ` set es - known u)" by (rule Cons.IH [OF r])
  show ?case
  proof (cases b)
    case True
    with p have k: "key e \<notin> known s" "known u = insert (key e) (known s)"
      by (auto dest: persist_new)
    then have "key ` set (e # es) - known s = insert (key e) (key ` set es - known u)" by auto
    moreover have "key e \<notin> key ` set es - known u" using k by auto
    ultimately show ?thesis using n m True by simp
  next
    case False
    with p have k: "key e \<in> known s" "u = s" by (auto dest: persist_dup)
    then have "key ` set (e # es) - known s = key ` set es - known u" by auto
    with n m False show ?thesis by simp
  qed
qed simp

end

section \<open>Appending an event and its outbox row\<close>

definition new_outbox_row :: "string \<Rightarrow> instant \<Rightarrow> event \<Rightarrow> int \<Rightarrow> outbox_row" where
  "new_outbox_row topic now e i =
     \<lparr>ob_id = i, ob_event_id = ev_event_id e, ob_topic = topic, ob_partition_key = ev_subject_id e,
      ob_payload = e, ob_created_at = now, ob_published_at = None, ob_claimed_at = None,
      ob_attempts = 0, ob_last_error = None\<rparr>"

text \<open>
  The savepoint: insert the event, flush, insert the outbox row, flush.  A value that does not
  fit its column or breaks a uniqueness constraint raises and the savepoint is rolled back.
\<close>

definition append_event :: "string \<Rightarrow> instant \<Rightarrow> event \<Rightarrow> db \<Rightarrow> db result" where
  "append_event topic now e d =
     bind_r (ensure (event_fits e) (DataError ''canonical_events'')) (\<lambda>_.
     bind_r (ensure (ev_event_id e \<notin> set (map ev_event_id (db_events d)))
               (IntegrityError ''canonical_events_pkey'')) (\<lambda>_.
     bind_r (ensure (ev_dedupe_key e \<notin> set (map ev_dedupe_key (db_events d)))
               (IntegrityError ''uq_canonical_events_dedupe_key'')) (\<lambda>_.
     bind_r (ensure (ev_event_id e \<notin> set (map ob_event_id (db_outbox d)))
               (IntegrityError ''outbox_messages_event_id_key'')) (\<lambda>_.
     Inr (d\<lparr>db_events := db_events d @ [e],
            db_outbox := db_outbox d @ [new_outbox_row topic now e (db_next_outbox d)],
            db_next_outbox := db_next_outbox d + 1\<rparr>)))))"

definition is_retired :: "(string \<Rightarrow> string) \<Rightarrow> string \<Rightarrow> db \<Rightarrow> bool" where
  "is_retired hash k d = (hash k \<in> set (map rt_dedupe_hash (db_retired d)))"

definition has_dedupe :: "string \<Rightarrow> db \<Rightarrow> bool" where
  "has_dedupe k d = (k \<in> set (map ev_dedupe_key (db_events d)))"

definition persist_event_and_outbox ::
  "(string \<Rightarrow> string) \<Rightarrow> string \<Rightarrow> instant \<Rightarrow> event \<Rightarrow> db \<Rightarrow> (bool \<times> db) result" where
  "persist_event_and_outbox hash topic now e d =
     (if is_retired hash (ev_dedupe_key e) d then Inr (False, d)
      else case append_event topic now e d of
        Inr d' \<Rightarrow> Inr (True, d')
      | Inl (IntegrityError m) \<Rightarrow>
          if has_dedupe (ev_dedupe_key e) d then Inr (False, d)
          else if is_retired hash (ev_dedupe_key e) d then Inr (False, d)
          else Inl (IntegrityError m)
      | Inl err \<Rightarrow> Inl err)"

definition known_keys :: "(string \<Rightarrow> string) \<Rightarrow> db \<Rightarrow> string set" where
  "known_keys hash d = {k. has_dedupe k d \<or> is_retired hash k d}"

lemma append_event_Inr:
  "append_event topic now e d = Inr d' \<longleftrightarrow>
     event_fits e \<and> ev_event_id e \<notin> event_ids d \<and> \<not> has_dedupe (ev_dedupe_key e) d \<and>
     ev_event_id e \<notin> ob_event_id ` set (db_outbox d) \<and>
     d' = d\<lparr>db_events := db_events d @ [e],
            db_outbox := db_outbox d @ [new_outbox_row topic now e (db_next_outbox d)],
            db_next_outbox := db_next_outbox d + 1\<rparr>"
  by (auto simp: append_event_def bind_simps has_dedupe_def)

lemma append_event_Inl:
  "append_event topic now e d = Inl err \<Longrightarrow> \<not> event_fits e \<and> err = DataError ''canonical_events''
   \<or> event_fits e \<and> (\<exists>m. err = IntegrityError m)"
  by (auto simp: append_event_def bind_simps ensure_def split: if_splits)

lemma persist_True:
  "persist_event_and_outbox hash topic now e d = Inr (True, d') \<longleftrightarrow>
     \<not> is_retired hash (ev_dedupe_key e) d \<and> append_event topic now e d = Inr d'"
  by (auto simp: persist_event_and_outbox_def split: sum.splits py_error.splits if_splits)

lemma persist_False:
  "persist_event_and_outbox hash topic now e d = Inr (False, d') \<Longrightarrow>
     d' = d \<and> ev_dedupe_key e \<in> known_keys hash d"
  by (auto simp: persist_event_and_outbox_def known_keys_def
      split: sum.splits py_error.splits if_splits)

lemma append_event_preserves:
  assumes a: "append_event topic now e d = Inr d'"
    and "db_ok hash d" and "\<not> is_retired hash (ev_dedupe_key e) d"
  shows "db_ok hash d'"
proof -
  have "unique_ok d'" "foreign_ok d'" "sequence_ok d'"
    using assms unfolding append_event_Inr
    by (auto simp: db_ok_defs has_dedupe_def new_outbox_row_def)
  moreover have "outbox_complete d'"
    using assms unfolding append_event_Inr
    by (fastforce simp: db_ok_def outbox_complete_def new_outbox_row_def)
  moreover have "timeline_matches d'"
    using assms unfolding append_event_Inr
    by (simp add: db_ok_def timeline_matches_def projected_ids_def)
  moreover have "tombstones_ok hash d'"
    using assms unfolding append_event_Inr
    by (auto simp: db_ok_def tombstones_ok_def is_retired_def)
  ultimately show ?thesis by (simp add: db_ok_def schema_ok_def)
qed

interpretation store: ingest_port "persist_event_and_outbox hash topic now" ev_dedupe_key
    "known_keys hash" event_fits "db_ok hash" for hash topic now
proof
  fix e s t
  assume "persist_event_and_outbox hash topic now e s = Inr (True, t)"
  then show "ev_dedupe_key e \<notin> known_keys hash s
      \<and> known_keys hash t = insert (ev_dedupe_key e) (known_keys hash s)"
    unfolding persist_True append_event_Inr
    by (auto simp: known_keys_def has_dedupe_def is_retired_def)
next
  fix e s t
  assume "persist_event_and_outbox hash topic now e s = Inr (False, t)"
  then show "t = s \<and> ev_dedupe_key e \<in> known_keys hash s" by (rule persist_False)
next
  fix e s
  assume v: "event_fits e" and k: "ev_dedupe_key e \<in> known_keys hash s"
  show "persist_event_and_outbox hash topic now e s = Inr (False, s)"
  proof (cases "is_retired hash (ev_dedupe_key e) s")
    case True
    then show ?thesis by (simp add: persist_event_and_outbox_def)
  next
    case False
    with k have dup: "has_dedupe (ev_dedupe_key e) s" by (simp add: known_keys_def)
    then obtain m where "append_event topic now e s = Inl (IntegrityError m)"
      using append_event_Inl [of topic now e s] append_event_Inr [of topic now e s] v
      by (cases "append_event topic now e s") auto
    with False dup show ?thesis by (simp add: persist_event_and_outbox_def)
  qed
next
  fix s e b t
  assume ok: "db_ok hash s" and p: "persist_event_and_outbox hash topic now e s = Inr (b, t)"
  show "db_ok hash t"
  proof (cases b)
    case True
    with p have "\<not> is_retired hash (ev_dedupe_key e) s" "append_event topic now e s = Inr t"
      by (simp_all add: persist_True)
    with ok show ?thesis by (blast intro: append_event_preserves)
  next
    case False
    with p have "t = s" using persist_False [of hash topic now e s t] by simp
    with ok show ?thesis by simp
  qed
qed


section \<open>Properties\<close>


definition sample_goal :: event where
  "sample_goal = sample_event 7 GOAL 1 ''api-football:1:event:x'' 100 (sample_payload (Some ''home''))"

lemma sample_goal_fits: "event_fits sample_goal"
  by (simp add: sample_goal_def sample_defs event_fits_def int32_def fet_value.simps)

lemma sample_goal_persists:
  "persist_event_and_outbox hash topic now sample_goal empty_db
   = Inr (True, empty_db\<lparr>db_events := [sample_goal],
        db_outbox := [new_outbox_row topic now sample_goal 1], db_next_outbox := 2\<rparr>)"
  unfolding persist_True append_event_Inr
  by (simp add: sample_goal_fits empty_db_def is_retired_def has_dedupe_def)


text \<open>
  A source that loses its checkpoint may offer a whole batch again: the second run succeeds,
  changes nothing and counts nothing, and the first run's count is the number of distinct keys in
  the batch that the store did not know.
\<close>

theorem ingest_batch_idempotent:
  assumes "ingest_events (persist_event_and_outbox hash topic now) es d = Inr (n, d')"
    and "\<forall>e \<in> set es. event_fits e"
  shows "ingest_events (persist_event_and_outbox hash topic later) es d' = Inr (0, d')
    \<and> n = card (ev_dedupe_key ` set es - known_keys hash d)"
  using store.ingest_known [OF assms(1)] store.ingest_count [OF assms(1)] assms(2)
  by (auto intro!: store.ingest_all_known)

theorem ingest_batch_idempotent_witness:
  "\<exists>d'. ingest_events (persist_event_and_outbox (\<lambda>k. k) ''t'' 0) [sample_goal, sample_goal] empty_db = Inr (1, d')
    \<and> ingest_events (persist_event_and_outbox (\<lambda>k. k) ''t'' 5) [sample_goal, sample_goal] d' = Inr (0, d')"
proof -
  let ?d = "empty_db\<lparr>db_events := [sample_goal],
        db_outbox := [new_outbox_row ''t'' 0 sample_goal 1], db_next_outbox := 2\<rparr>"
  have dup: "persist_event_and_outbox (\<lambda>k. k) ''t'' 0 sample_goal ?d = Inr (False, ?d)"
    by (rule store.persist_known [OF sample_goal_fits]) (simp add: known_keys_def has_dedupe_def)
  have run: "ingest_events (persist_event_and_outbox (\<lambda>k. k) ''t'' 0) [sample_goal, sample_goal] empty_db = Inr (1, ?d)"
    by (simp add: sample_goal_persists dup)
  show ?thesis
    using ingest_batch_idempotent [OF run, where later = 5] run sample_goal_fits by auto
qed

end
