(* ===== verification/Health.thy ===== *)
theory Health
  imports Values
begin

text \<open>
  Component health (\<open>backend/app/core/health.py\<close>).  The module dictionary \<open>_components\<close> is an
  association list; its time stamps, kept as ISO strings, are the instants they denote.
\<close>

datatype component_status = Healthy | Degraded | Unavailable | Unknown

record component =
  co_name :: string
  co_status :: component_status
  co_detail :: string
  co_checked_at :: "instant option"
  co_last_success_at :: "instant option"
  co_metrics :: dict

type_synonym components = "(string \<times> component) list"

definition HEARTBEAT_TTL :: "string \<Rightarrow> timedelta option" where
  "HEARTBEAT_TTL name =
     (if name = ''outbox_publisher'' \<or> name = ''projector'' then Some (seconds 10) else None)"

text \<open>An absent \<open>metrics\<close> entry is the empty dictionary, as \<open>if metrics:\<close> treats both alike.\<close>

definition report_component ::
  "instant \<Rightarrow> string \<Rightarrow> component_status \<Rightarrow> string \<Rightarrow> bool \<Rightarrow> dict \<Rightarrow> components \<Rightarrow> components" where
  "report_component now name status detail succeeded metrics comps =
     AList.update name
       \<lparr>co_name = name, co_status = status, co_detail = detail, co_checked_at = Some now,
        co_last_success_at = (if succeeded then Some now
           else (case map_of comps name of None \<Rightarrow> None | Some c \<Rightarrow> co_last_success_at c)),
        co_metrics = metrics\<rparr> comps"

definition component_snapshot :: "instant \<Rightarrow> string \<Rightarrow> components \<Rightarrow> component" where
  "component_snapshot now name comps =
     (let c = (case map_of comps name of Some c \<Rightarrow> c
               | None \<Rightarrow> \<lparr>co_name = name, co_status = Unknown, co_detail = ''not_observed'',
                          co_checked_at = None, co_last_success_at = None, co_metrics = []\<rparr>)
      in case (HEARTBEAT_TTL name, co_checked_at c) of
           (Some ttl, Some checked) \<Rightarrow>
             if co_status c = Healthy \<and> ttl < now - checked
             then c\<lparr>co_status := Degraded, co_detail := ''heartbeat_stale''\<rparr> else c
         | _ \<Rightarrow> c)"

definition overall_status :: "component list \<Rightarrow> component_status" where
  "overall_status comps =
     (let statuses = map co_status comps in
      if Unavailable \<in> set statuses then Unavailable
      else if Degraded \<in> set statuses then Degraded
      else if Unknown \<in> set statuses then Unknown
      else Healthy)"

fun status_rank :: "component_status \<Rightarrow> nat" where
  "status_rank Healthy = 0"
| "status_rank Unknown = 1"
| "status_rank Degraded = 2"
| "status_rank Unavailable = 3"

lemma report_component_lookup:
  "map_of (report_component now name status detail succeeded metrics comps) n =
     (if n = name then Some \<lparr>co_name = name, co_status = status, co_detail = detail,
        co_checked_at = Some now,
        co_last_success_at = (if succeeded then Some now
           else (case map_of comps name of None \<Rightarrow> None | Some c \<Rightarrow> co_last_success_at c)),
        co_metrics = metrics\<rparr> else map_of comps n)"
  by (simp add: report_component_def update_conv')

text \<open>
  The overall status is the worst status of any component, healthy when there is none worse.
\<close>

theorem overall_status_is_worst:
  "status_rank (overall_status comps) = Max (insert 0 ((\<lambda>c. status_rank (co_status c)) ` set comps))"
proof (rule sym, rule Max_eqI)
  show "y \<le> status_rank (overall_status comps)"
    if "y \<in> insert 0 ((\<lambda>c. status_rank (co_status c)) ` set comps)" for y
  proof -
    have "status_rank (co_status c) \<le> status_rank (overall_status comps)" if "c \<in> set comps" for c
      using that by (cases "co_status c") (force simp: overall_status_def Let_def)+
    with that show ?thesis by auto
  qed
  show "status_rank (overall_status comps) \<in> insert 0 ((\<lambda>c. status_rank (co_status c)) ` set comps)"
  proof -
    have "overall_status comps \<in> co_status ` set comps \<or> overall_status comps = Healthy"
      by (auto simp: overall_status_def Let_def)
    then show ?thesis by auto
  qed
qed simp

text \<open>
  A worker that stops reporting cannot stay healthy: ten seconds after its last report the
  publisher and the projector show as degraded, and until then they show what they reported.
\<close>

theorem heartbeat_expires:
  assumes "name = ''outbox_publisher'' \<or> name = ''projector''"
    and "comps' = report_component reported name Healthy detail ok metrics comps"
  shows "co_status (component_snapshot now name comps') =
     (if reported + seconds 10 < now then Degraded else Healthy)"
  using assms
  by (auto simp: component_snapshot_def report_component_lookup HEARTBEAT_TTL_def Let_def)

theorem heartbeat_expires_witness:
  "co_status (component_snapshot (seconds 11) ''projector''
     (report_component 0 ''projector'' Healthy ''poll_complete'' True [] [])) = Degraded"
  using heartbeat_expires [OF disjI2 [OF refl] refl, of "seconds 11" 0 "''poll_complete''" True "[]" "[]"]
  by simp

end
