(* ===== verification/Outbox.thy ===== *)
theory Outbox
  imports Event_Store Health
begin

text \<open>
  The transactional outbox publisher (\<open>backend/app/outbox/publisher.py\<close>).  The broker is the list
  of the messages it has acknowledged, in order.  Whether a send or the update after it succeeds,
  and the clock, are decided by the environment, given per claim.
\<close>

record broker_message =
  bm_topic :: string
  bm_key :: string
  bm_value :: event

record claim =
  cl_row_id :: int
  cl_event_id :: uuid
  cl_topic :: string
  cl_key :: string
  cl_payload :: event

text \<open>
  One pass of the \<open>try\<close> block for a claim: the broker acknowledges and the row is updated; the send
  raises; or the broker acknowledges and the update raises.  The string is \<open>str(exc)\<close>.
\<close>

datatype outcome = Acked | Send_failed string | Mark_failed string

section \<open>Claiming\<close>

definition CLAIM_TIMEOUT :: timedelta where
  "CLAIM_TIMEOUT = seconds 30"

definition claimable :: "instant \<Rightarrow> outbox_row \<Rightarrow> bool" where
  "claimable now r =
     (ob_published_at r = None \<and>
      (case ob_claimed_at r of None \<Rightarrow> True | Some t \<Rightarrow> t < now - CLAIM_TIMEOUT))"

text \<open>
  \<open>SELECT ... ORDER BY id LIMIT batch FOR UPDATE SKIP LOCKED\<close>; \<open>locked\<close> are the rows that other
  transactions hold.
\<close>

definition select_pending :: "instant \<Rightarrow> (int \<Rightarrow> bool) \<Rightarrow> nat \<Rightarrow> db \<Rightarrow> outbox_row list" where
  "select_pending now locked batch d =
     take batch (filter (\<lambda>r. claimable now r \<and> \<not> locked (ob_id r)) (sort_key ob_id (db_outbox d)))"

definition claim_of :: "outbox_row \<Rightarrow> claim" where
  "claim_of r = \<lparr>cl_row_id = ob_id r, cl_event_id = ob_event_id r, cl_topic = ob_topic r,
                 cl_key = ob_partition_key r, cl_payload = ob_payload r\<rparr>"

definition mark_claimed :: "instant \<Rightarrow> int list \<Rightarrow> db \<Rightarrow> db" where
  "mark_claimed now ids d = d\<lparr>db_outbox :=
     map (\<lambda>r. if ob_id r \<in> set ids then r\<lparr>ob_claimed_at := Some now\<rparr> else r) (db_outbox d)\<rparr>"

definition claim_pending :: "instant \<Rightarrow> (int \<Rightarrow> bool) \<Rightarrow> nat \<Rightarrow> db \<Rightarrow> claim list \<times> db" where
  "claim_pending now locked batch d =
     (let rows = select_pending now locked batch d
      in (map claim_of rows, mark_claimed now (map ob_id rows) d))"

section \<open>Publishing\<close>

definition mark_published :: "instant \<Rightarrow> int \<Rightarrow> db \<Rightarrow> db" where
  "mark_published now i d = d\<lparr>db_outbox := update_row ob_id i
     (\<lambda>r. if ob_published_at r = None
          then r\<lparr>ob_published_at := Some now, ob_claimed_at := None, ob_last_error := None\<rparr> else r)
     (db_outbox d)\<rparr>"

definition mark_failed :: "string \<Rightarrow> int \<Rightarrow> db \<Rightarrow> db" where
  "mark_failed err i d = d\<lparr>db_outbox := update_row ob_id i
     (\<lambda>r. r\<lparr>ob_attempts := ob_attempts r + 1, ob_claimed_at := None, ob_last_error := Some (take 1000 err)\<rparr>)
     (db_outbox d)\<rparr>"

definition message_of :: "claim \<Rightarrow> broker_message" where
  "message_of c = \<lparr>bm_topic = cl_topic c, bm_key = cl_key c, bm_value = cl_payload c\<rparr>"

type_synonym publish_env = "claim \<Rightarrow> outcome \<times> instant"

record publish_run =
  pu_published :: nat
  pu_failures :: nat
  pu_db :: db
  pu_broker :: "broker_message list"

definition publish_claim :: "publish_env \<Rightarrow> claim \<Rightarrow> publish_run \<Rightarrow> publish_run" where
  "publish_claim env c s = (case env c of
      (Acked, t) \<Rightarrow> s\<lparr>pu_published := pu_published s + 1, pu_db := mark_published t (cl_row_id c) (pu_db s),
                      pu_broker := pu_broker s @ [message_of c]\<rparr>
    | (Send_failed err, t) \<Rightarrow> s\<lparr>pu_failures := pu_failures s + 1, pu_db := mark_failed err (cl_row_id c) (pu_db s)\<rparr>
    | (Mark_failed err, t) \<Rightarrow> s\<lparr>pu_failures := pu_failures s + 1, pu_db := mark_failed err (cl_row_id c) (pu_db s),
                      pu_broker := pu_broker s @ [message_of c]\<rparr>)"

definition publish_pending_once ::
  "publish_env \<Rightarrow> instant \<Rightarrow> (int \<Rightarrow> bool) \<Rightarrow> nat \<Rightarrow> db \<Rightarrow> broker_message list \<Rightarrow> publish_run" where
  "publish_pending_once env now locked batch d broker =
     (let (claims, d') = claim_pending now locked batch d
      in fold (publish_claim env) claims
           \<lparr>pu_published = 0, pu_failures = 0, pu_db = d', pu_broker = broker\<rparr>)"

text \<open>The component report at the end of a pass.\<close>

definition publisher_report :: "instant \<Rightarrow> publish_run \<Rightarrow> components \<Rightarrow> components" where
  "publisher_report now s comps =
     (if pu_failures s > 0
      then report_component now ''outbox_publisher'' Degraded ''publish_failed'' False
             [(''published'', JInt (int (pu_published s))), (''failed'', JInt (int (pu_failures s)))] comps
      else report_component now ''outbox_publisher'' Healthy ''poll_complete'' True
             [(''published'', JInt (int (pu_published s))), (''failed'', JInt 0)] comps)"

section \<open>What the publisher keeps\<close>

text \<open>
  Two databases that differ in the delivery columns of the outbox only.
\<close>

definition same_outbox :: "db \<Rightarrow> db \<Rightarrow> bool" where
  "same_outbox d d' \<longleftrightarrow>
     d' = d\<lparr>db_outbox := db_outbox d'\<rparr> \<and>
     map (\<lambda>r. (ob_id r, ob_event_id r, ob_topic r, ob_partition_key r, ob_payload r)) (db_outbox d')
     = map (\<lambda>r. (ob_id r, ob_event_id r, ob_topic r, ob_partition_key r, ob_payload r)) (db_outbox d)"

lemma same_outbox_refl: "same_outbox d d"
  by (simp add: same_outbox_def)

lemma same_outbox_trans:
  assumes "same_outbox c d" and "same_outbox d e"
  shows "same_outbox c e"
proof -
  have "e = d\<lparr>db_outbox := db_outbox e\<rparr>" and "d = c\<lparr>db_outbox := db_outbox d\<rparr>"
    using assms by (simp_all add: same_outbox_def)
  then have "e = (c\<lparr>db_outbox := db_outbox d\<rparr>)\<lparr>db_outbox := db_outbox e\<rparr>" by metis
  then have "e = c\<lparr>db_outbox := db_outbox e\<rparr>" by simp
  then show ?thesis using assms by (simp add: same_outbox_def)
qed

lemma same_outbox_mark:
  "same_outbox d (mark_claimed now ids d)" "same_outbox d (mark_published now i d)"
  "same_outbox d (mark_failed err i d)"
  by (auto simp: same_outbox_def mark_claimed_def mark_published_def mark_failed_def update_row_def)

lemma same_outbox_columns:
  assumes "same_outbox d d'"
  shows "map ob_id (db_outbox d') = map ob_id (db_outbox d)"
    and "map ob_event_id (db_outbox d') = map ob_event_id (db_outbox d)"
    and "map (\<lambda>r. (ob_event_id r, ob_payload r)) (db_outbox d') = map (\<lambda>r. (ob_event_id r, ob_payload r)) (db_outbox d)"
proof -
  let ?f = "\<lambda>r. (ob_id r, ob_event_id r, ob_topic r, ob_partition_key r, ob_payload r)"
  have m: "map ?f (db_outbox d') = map ?f (db_outbox d)" using assms by (simp add: same_outbox_def)
  show "map ob_id (db_outbox d') = map ob_id (db_outbox d)"
    using arg_cong [OF m, of "map fst"] by (simp add: comp_def)
  show "map ob_event_id (db_outbox d') = map ob_event_id (db_outbox d)"
    using arg_cong [OF m, of "map (fst \<circ> snd)"] by (simp add: comp_def)
  show "map (\<lambda>r. (ob_event_id r, ob_payload r)) (db_outbox d') = map (\<lambda>r. (ob_event_id r, ob_payload r)) (db_outbox d)"
    using arg_cong [OF m, of "map (\<lambda>(a, b, c, e, f). (b, f))"] by (simp add: comp_def)
qed

lemma same_outbox_other:
  assumes "same_outbox d d'"
  shows "db_events d' = db_events d" "db_matches d' = db_matches d" "db_timeline d' = db_timeline d"
    "db_processed d' = db_processed d" "db_retired d' = db_retired d"
    "db_checkpoints d' = db_checkpoints d" "db_next_outbox d' = db_next_outbox d"
    "db_next_cursor d' = db_next_cursor d" "db_demo d' = db_demo d"
proof -
  have eq: "d' = d\<lparr>db_outbox := db_outbox d'\<rparr>" using assms by (simp add: same_outbox_def)
  show "db_events d' = db_events d" "db_matches d' = db_matches d" "db_timeline d' = db_timeline d"
    "db_processed d' = db_processed d" "db_retired d' = db_retired d"
    "db_checkpoints d' = db_checkpoints d" "db_next_outbox d' = db_next_outbox d"
    "db_next_cursor d' = db_next_cursor d" "db_demo d' = db_demo d"
    by (subst eq, simp)+
qed

lemma mem_map_columns:
  "map f xs = map f ys \<Longrightarrow> x \<in> set xs \<Longrightarrow> \<exists>y \<in> set ys. f y = f x"
  by (metis image_iff list.set_map)

lemma same_outbox_ok:
  assumes so: "same_outbox d d'" and ok: "db_ok hash d"
  shows "db_ok hash d'"
proof -
  note cols = same_outbox_columns [OF so] and oth = same_outbox_other [OF so]
  have "set (map ob_event_id (db_outbox d')) = set (map ob_event_id (db_outbox d))"
    by (simp only: cols)
  then have ids: "ob_event_id ` set (db_outbox d') = ob_event_id ` set (db_outbox d)" by simp
  have "unique_ok d'" "foreign_ok d'" using ok unfolding db_ok_def by (simp_all add: schema_defs cols oth ids)
  moreover have "sequence_ok d'"
    using ok mem_map_columns [OF cols(1)] by (fastforce simp: db_ok_defs oth)
  moreover have "outbox_complete d'"
    using ok mem_map_columns [OF cols(3) [symmetric]] by (fastforce simp: db_ok_def outbox_complete_def oth)
  moreover have "timeline_matches d'" "tombstones_ok hash d'"
    using ok by (simp_all add: db_ok_def timeline_matches_def projected_ids_def tombstones_ok_def oth)
  ultimately show ?thesis by (simp add: db_ok_def schema_ok_def)
qed


section \<open>A pass, row by row\<close>

text \<open>What a pass does to one claimed row, and which messages it leaves with the broker.\<close>

definition row_after :: "publish_env \<Rightarrow> outbox_row \<Rightarrow> outbox_row" where
  "row_after env r = (case env (claim_of r) of
      (Acked, t) \<Rightarrow> (if ob_published_at r = None
          then r\<lparr>ob_published_at := Some t, ob_claimed_at := None, ob_last_error := None\<rparr> else r)
    | (Send_failed err, t) \<Rightarrow> r\<lparr>ob_attempts := ob_attempts r + 1, ob_claimed_at := None, ob_last_error := Some (take 1000 err)\<rparr>
    | (Mark_failed err, t) \<Rightarrow> r\<lparr>ob_attempts := ob_attempts r + 1, ob_claimed_at := None, ob_last_error := Some (take 1000 err)\<rparr>)"

definition reaches_broker :: "publish_env \<Rightarrow> outbox_row \<Rightarrow> bool" where
  "reaches_broker env r = (case fst (env (claim_of r)) of Send_failed _ \<Rightarrow> False | _ \<Rightarrow> True)"

definition is_acked :: "publish_env \<Rightarrow> outbox_row \<Rightarrow> bool" where
  "is_acked env r = (fst (env (claim_of r)) = Acked)"

abbreviation row_message :: "outbox_row \<Rightarrow> broker_message" where
  "row_message r \<equiv> message_of (claim_of r)"

lemma claim_of_simps [simp]:
  "cl_row_id (claim_of r) = ob_id r"
  "claim_of (r\<lparr>ob_claimed_at := c\<rparr>) = claim_of r"
  "claim_of (row_after env r) = claim_of r"
  "ob_id (row_after env r) = ob_id r"
  by (auto simp: claim_of_def row_after_def split: outcome.splits prod.splits)

lemma publish_claim_rows:
  assumes "\<And>r. r \<in> set (db_outbox (pu_db s)) \<Longrightarrow> ob_id r = ob_id r0 \<Longrightarrow> claim_of r = claim_of r0"
  shows "db_outbox (pu_db (publish_claim env (claim_of r0) s))
       = map (\<lambda>r. if ob_id r = ob_id r0 then row_after env r else r) (db_outbox (pu_db s))"
  using assms
  by (auto simp: publish_claim_def row_after_def mark_published_def mark_failed_def update_row_def
      split: outcome.splits prod.splits)

lemma publish_claim_frame:
  "pu_broker (publish_claim env (claim_of r0) s) = pu_broker s @ (if reaches_broker env r0 then [row_message r0] else [])"
  "pu_published (publish_claim env (claim_of r0) s) = pu_published s + (if is_acked env r0 then 1 else 0)"
  "pu_failures (publish_claim env (claim_of r0) s) = pu_failures s + (if is_acked env r0 then 0 else 1)"
  "same_outbox (pu_db s) (pu_db (publish_claim env (claim_of r0) s))"
  by (auto simp: publish_claim_def reaches_broker_def is_acked_def same_outbox_mark same_outbox_refl
      split: outcome.splits prod.splits)

lemma publish_claims:
  assumes "distinct (map ob_id rows)"
    and "\<And>r q. r \<in> set (db_outbox (pu_db s)) \<Longrightarrow> q \<in> set rows \<Longrightarrow> ob_id r = ob_id q \<Longrightarrow> claim_of r = claim_of q"
  shows "db_outbox (pu_db (fold (publish_claim env) (map claim_of rows) s))
       = map (\<lambda>r. if ob_id r \<in> ob_id ` set rows then row_after env r else r) (db_outbox (pu_db s))
    \<and> pu_broker (fold (publish_claim env) (map claim_of rows) s)
       = pu_broker s @ map row_message (filter (reaches_broker env) rows)
    \<and> pu_published (fold (publish_claim env) (map claim_of rows) s) = pu_published s + length (filter (is_acked env) rows)
    \<and> pu_failures (fold (publish_claim env) (map claim_of rows) s) = pu_failures s + length (filter (\<lambda>r. \<not> is_acked env r) rows)
    \<and> same_outbox (pu_db s) (pu_db (fold (publish_claim env) (map claim_of rows) s))"
  using assms
proof (induction rows arbitrary: s)
  case Nil
  then show ?case by (simp add: same_outbox_refl)
next
  case (Cons q rows)
  let ?t = "publish_claim env (claim_of q) s"
  have O: "db_outbox (pu_db ?t) = map (\<lambda>r. if ob_id r = ob_id q then row_after env r else r) (db_outbox (pu_db s))"
    using Cons.prems(2) by (intro publish_claim_rows) simp
  have IH: "db_outbox (pu_db (fold (publish_claim env) (map claim_of rows) ?t))
       = map (\<lambda>r. if ob_id r \<in> ob_id ` set rows then row_after env r else r) (db_outbox (pu_db ?t))
    \<and> pu_broker (fold (publish_claim env) (map claim_of rows) ?t)
       = pu_broker ?t @ map row_message (filter (reaches_broker env) rows)
    \<and> pu_published (fold (publish_claim env) (map claim_of rows) ?t) = pu_published ?t + length (filter (is_acked env) rows)
    \<and> pu_failures (fold (publish_claim env) (map claim_of rows) ?t) = pu_failures ?t + length (filter (\<lambda>r. \<not> is_acked env r) rows)
    \<and> same_outbox (pu_db ?t) (pu_db (fold (publish_claim env) (map claim_of rows) ?t))"
  proof (rule Cons.IH)
    show "distinct (map ob_id rows)" using Cons.prems(1) by simp
    show "claim_of r = claim_of p"
      if "r \<in> set (db_outbox (pu_db ?t))" "p \<in> set rows" "ob_id r = ob_id p" for r p
      using that Cons.prems(2) unfolding O by (auto split: if_split_asm)
  qed
  have "map (\<lambda>r. if ob_id r \<in> ob_id ` set rows then row_after env r else r) (db_outbox (pu_db ?t))
      = map (\<lambda>r. if ob_id r \<in> ob_id ` set (q # rows) then row_after env r else r) (db_outbox (pu_db s))"
    using Cons.prems(1) unfolding O by auto
  then show ?case
    using IH publish_claim_frame(4) [of s env q]
    by (auto simp: publish_claim_frame(1,2,3) intro: same_outbox_trans)
qed


lemma select_pending_facts:
  assumes "distinct (map ob_id (db_outbox d))" and "rows = select_pending now locked batch d"
  shows "distinct (map ob_id rows)" and "set rows \<subseteq> set (db_outbox d)" and "length rows \<le> batch"
    and "sorted (map ob_id rows)"
    and "r \<in> set rows \<Longrightarrow> claimable now r \<and> \<not> locked (ob_id r)"
proof -
  let ?all = "filter (\<lambda>r. claimable now r \<and> \<not> locked (ob_id r)) (sort_key ob_id (db_outbox d))"
  have rows: "rows = take batch ?all" by (simp add: assms(2) select_pending_def)
  have "distinct (map ob_id (sort_key ob_id (db_outbox d)))"
    using assms(1) by (simp add: distinct_map)
  then have "distinct (map ob_id ?all)" by (rule distinct_map_filter)
  then show "distinct (map ob_id rows)" by (simp add: rows take_map [symmetric])
  show "set rows \<subseteq> set (db_outbox d)" "length rows \<le> batch"
    using set_take_subset [of batch ?all] by (auto simp: rows)
  have "sorted (map ob_id ?all)" by (simp add: sorted_filter)
  then show "sorted (map ob_id rows)" by (simp add: rows take_map [symmetric] sorted_wrt_take)
  show "claimable now r \<and> \<not> locked (ob_id r)" if "r \<in> set rows"
    using that set_take_subset [of batch ?all] by (auto simp: rows)
qed

lemma publish_pending_once_rows:
  assumes "distinct (map ob_id (db_outbox d))" and "rows = select_pending now locked batch d"
    and "s = publish_pending_once env now locked batch d broker"
  shows "db_outbox (pu_db s) = map (\<lambda>r. if ob_id r \<in> ob_id ` set rows
            then row_after env (r\<lparr>ob_claimed_at := Some now\<rparr>) else r) (db_outbox d)"
    and "pu_broker s = broker @ map row_message (filter (reaches_broker env) rows)"
    and "pu_published s = length (filter (is_acked env) rows)"
    and "pu_failures s = length (filter (\<lambda>r. \<not> is_acked env r) rows)"
    and "same_outbox d (pu_db s)"
proof -
  let ?d = "mark_claimed now (map ob_id rows) d"
  let ?s = "\<lparr>pu_published = 0, pu_failures = 0, pu_db = ?d, pu_broker = broker\<rparr>"
  have s: "s = fold (publish_claim env) (map claim_of rows) ?s"
    by (simp add: assms(2,3) publish_pending_once_def claim_pending_def Let_def)
  have inj: "inj_on ob_id (set (db_outbox d))" using assms(1) by (simp add: distinct_map)
  note sel = select_pending_facts [OF assms(1,2)]
  have agree: "claim_of r = claim_of q"
    if r: "r \<in> set (db_outbox (pu_db ?s))" and q: "q \<in> set rows" and i: "ob_id r = ob_id q" for r q
  proof -
    obtain r' where r': "r' \<in> set (db_outbox d)" "claim_of r = claim_of r'" "ob_id r = ob_id r'"
      using r by (auto simp: mark_claimed_def split: if_split_asm)
    then have "r' = q" using inj q i sel(2) by (auto dest: inj_onD)
    then show ?thesis using r' by simp
  qed
  note pc = publish_claims [where env = env and s = ?s, OF sel(1) agree, folded s]
  have O: "db_outbox ?d = map (\<lambda>r. if ob_id r \<in> ob_id ` set rows then r\<lparr>ob_claimed_at := Some now\<rparr> else r) (db_outbox d)"
    by (simp add: mark_claimed_def)
  show "db_outbox (pu_db s) = map (\<lambda>r. if ob_id r \<in> ob_id ` set rows
            then row_after env (r\<lparr>ob_claimed_at := Some now\<rparr>) else r) (db_outbox d)"
  proof -
    have eq: "db_outbox (pu_db s) =
        map (\<lambda>r. if ob_id r \<in> ob_id ` set rows then row_after env r else r) (db_outbox ?d)"
      using pc [THEN conjunct1] by (simp only: publish_run.select_convs)
    show ?thesis unfolding eq O map_map comp_def by (rule map_cong [OF refl]) (simp split: if_split)
  qed
  show "pu_broker s = broker @ map row_message (filter (reaches_broker env) rows)"
    "pu_published s = length (filter (is_acked env) rows)"
    "pu_failures s = length (filter (\<lambda>r. \<not> is_acked env r) rows)"
    using pc [THEN conjunct2, THEN conjunct1] pc [THEN conjunct2, THEN conjunct2, THEN conjunct1]
      pc [THEN conjunct2, THEN conjunct2, THEN conjunct2, THEN conjunct1]
    by (simp_all only: publish_run.select_convs add_0)
  have "same_outbox ?d (pu_db s)"
    using pc [THEN conjunct2, THEN conjunct2, THEN conjunct2, THEN conjunct2]
    by (simp only: publish_run.select_convs)
  then show "same_outbox d (pu_db s)"
    by (rule same_outbox_trans [OF same_outbox_mark(1)])
qed

section \<open>Properties\<close>

text \<open>A row marked as published has reached the broker.\<close>

definition published_logged :: "db \<Rightarrow> broker_message list \<Rightarrow> bool" where
  "published_logged d broker \<longleftrightarrow>
     (\<forall>r \<in> set (db_outbox d). ob_published_at r \<noteq> None \<longrightarrow> row_message r \<in> set broker)"

lemma row_after_published:
  "ob_published_at r = None \<Longrightarrow> ob_published_at (row_after env r) \<noteq> None \<longleftrightarrow> is_acked env r"
  by (auto simp: row_after_def is_acked_def split: outcome.splits prod.splits)

lemma publish_keeps_logged:
  assumes "db_ok hash d" and "published_logged d broker"
  shows "published_logged (pu_db (publish_pending_once env now locked batch d broker))
           (pu_broker (publish_pending_once env now locked batch d broker))"
proof -
  have dist: "distinct (map ob_id (db_outbox d))" using assms(1) by (simp add: db_ok_defs)
  let ?rows = "select_pending now locked batch d"
  note run = publish_pending_once_rows [OF dist refl refl, where now = now and locked = locked and batch = batch and env = env and broker = broker]
  note sel = select_pending_facts [OF dist refl, where now = now and locked = locked and batch = batch]
  let ?new = "\<lambda>r. if ob_id r \<in> ob_id ` set ?rows then row_after env (r\<lparr>ob_claimed_at := Some now\<rparr>) else r"
  have sent: "row_message (?new r) \<in> set broker \<union> row_message ` {q \<in> set ?rows. reaches_broker env q}"
    if r: "r \<in> set (db_outbox d)" and p: "ob_published_at (?new r) \<noteq> None" for r
  proof (cases "ob_id r \<in> ob_id ` set ?rows")
    case True
    then have rr: "r \<in> set ?rows"
      using r sel(2) dist by (auto simp: distinct_map dest: inj_onD)
    then have "ob_published_at r = None" using sel(5) by (simp add: claimable_def)
    then have "is_acked env r"
      using p True row_after_published [of "r\<lparr>ob_claimed_at := Some now\<rparr>" env] by (simp add: is_acked_def)
    then have "reaches_broker env r" by (simp add: is_acked_def reaches_broker_def)
    with rr True show ?thesis by auto
  next
    case False
    with r p assms(2) show ?thesis by (auto simp: published_logged_def)
  qed
  show ?thesis
    unfolding published_logged_def run
  proof (intro ballI impI)
    fix q
    assume "q \<in> set (map ?new (db_outbox d))" and p: "ob_published_at q \<noteq> None"
    then obtain r where r: "r \<in> set (db_outbox d)" and q: "q = ?new r" by auto
    have "row_message q \<in> set broker \<union> row_message ` {q \<in> set ?rows. reaches_broker env q}"
      using sent [OF r] p unfolding q by blast
    then show "row_message q \<in> set (broker @ map row_message (filter (reaches_broker env) ?rows))"
      by simp
  qed
qed

text \<open>
  C6.  One pass of the publisher, whatever the broker and the database do to each claim: at most a
  batch is taken, every claim is counted once as published or failed, the messages reach the
  broker in row order after what it had, a row is only ever marked published when its message is
  in the broker's log, a claimed row that was not is released with one more attempt and stays
  pending, and nothing but the delivery columns of the outbox changes.
\<close>

theorem publish_pass:
  assumes "db_ok hash d" and "published_logged d broker"
    and "rows = select_pending now locked batch d"
    and "s = publish_pending_once env now locked batch d broker"
  shows "pu_published s + pu_failures s = length rows \<and> length rows \<le> batch
    \<and> pu_broker s = broker @ map row_message (filter (reaches_broker env) rows)
    \<and> published_logged (pu_db s) (pu_broker s)
    \<and> (\<forall>r \<in> set (db_outbox d). ob_id r \<in> ob_id ` set rows \<longrightarrow> \<not> is_acked env r \<longrightarrow>
         (\<exists>q \<in> set (db_outbox (pu_db s)). ob_id q = ob_id r \<and> ob_published_at q = None
            \<and> ob_claimed_at q = None \<and> ob_attempts q = ob_attempts r + 1))
    \<and> same_outbox d (pu_db s) \<and> db_ok hash (pu_db s)"
proof -
  have dist: "distinct (map ob_id (db_outbox d))" using assms(1) by (simp add: db_ok_defs)
  note run = publish_pending_once_rows [OF dist assms(3,4)]
  note sel = select_pending_facts [OF dist assms(3)]
  have released: "\<exists>q \<in> set (db_outbox (pu_db s)). ob_id q = ob_id r \<and> ob_published_at q = None
            \<and> ob_claimed_at q = None \<and> ob_attempts q = ob_attempts r + 1"
    if r: "r \<in> set (db_outbox d)" and i: "ob_id r \<in> ob_id ` set rows" and f: "\<not> is_acked env r" for r
  proof -
    have "r \<in> set rows" using r i sel(2) dist by (auto simp: distinct_map dest: inj_onD)
    then have n: "ob_published_at r = None" using sel(5) by (simp add: claimable_def)
    let ?q = "row_after env (r\<lparr>ob_claimed_at := Some now\<rparr>)"
    have "?q \<in> set (db_outbox (pu_db s))" using r i unfolding run(1) by force
    moreover have "ob_published_at ?q = None \<and> ob_claimed_at ?q = None \<and> ob_attempts ?q = ob_attempts r + 1"
      using f n by (auto simp: row_after_def is_acked_def split: outcome.splits prod.splits)
    ultimately show ?thesis by (auto intro!: bexI [of _ ?q])
  qed
  show ?thesis
    using released run(2,3,4,5) sel(3) same_outbox_ok [OF run(5) assms(1)]
      publish_keeps_logged [OF assms(1,2), of env now locked batch] sum_length_filter_compl [of "is_acked env" rows]
    by (auto simp: assms(4))
qed


definition sample_outbox_db :: db where
  "sample_outbox_db = empty_db\<lparr>db_events := [sample_goal],
     db_outbox := [new_outbox_row ''t'' 0 sample_goal 1], db_next_outbox := 2\<rparr>"

lemma sample_outbox_db_ok: "db_ok (\<lambda>k. k) sample_outbox_db"
  using store.persist_ok [OF empty_db_ok sample_goal_persists, of "\<lambda>k. k"]
  by (simp add: sample_outbox_db_def)

theorem publish_pass_witness:
  "pu_published (publish_pending_once (\<lambda>c. (Send_failed ''down'', 9)) 5 (\<lambda>i. False) 50 sample_outbox_db [])
   + pu_failures (publish_pending_once (\<lambda>c. (Send_failed ''down'', 9)) 5 (\<lambda>i. False) 50 sample_outbox_db []) = 1"
proof -
  have one: "select_pending 5 (\<lambda>i. False) 50 sample_outbox_db = [new_outbox_row ''t'' 0 sample_goal 1]"
    by (simp add: select_pending_def sample_outbox_db_def claimable_def new_outbox_row_def)
  have "published_logged sample_outbox_db []"
    by (simp add: published_logged_def sample_outbox_db_def new_outbox_row_def)
  from publish_pass [OF sample_outbox_db_ok this refl refl, where now = 5
      and locked = "\<lambda>i. False" and batch = 50 and env = "\<lambda>c. (Send_failed ''down'', 9)"]
  show ?thesis by (simp add: one)
qed

lemma claimed_not_claimable:
  "ob_id r \<in> set ids \<Longrightarrow> later - CLAIM_TIMEOUT \<le> now \<Longrightarrow> r' \<in> set (db_outbox (mark_claimed now ids d)) \<Longrightarrow>
   ob_id r' = ob_id r \<Longrightarrow> \<not> claimable later r'"
  by (auto simp: mark_claimed_def claimable_def split: if_split_asm)

text \<open>
  Two publishers do not take the same row: what one pass claims, no other claim up to thirty
  seconds later takes again, even when it no longer holds the row locks.
\<close>

theorem claims_exclusive:
  assumes "db_ok hash d" and "claim_pending now locked batch d = (cs, d1)"
    and "later \<le> now + CLAIM_TIMEOUT" and "claim_pending later locked' batch' d1 = (cs', d2)"
  shows "cl_row_id ` set cs \<inter> cl_row_id ` set cs' = {}"
proof -
  let ?rows = "select_pending now locked batch d" and ?rows' = "select_pending later locked' batch' d1"
  have d1: "d1 = mark_claimed now (map ob_id ?rows) d" and cs: "cs = map claim_of ?rows"
    and cs': "cs' = map claim_of ?rows'"
    using assms(2,4) by (auto simp: claim_pending_def Let_def)
  have "distinct (map ob_id (db_outbox d))" using assms(1) by (simp add: db_ok_defs)
  then have "distinct (map ob_id (db_outbox d1))"
    using same_outbox_columns(1) [OF same_outbox_mark(1) [of d now "map ob_id ?rows"]] by (simp add: d1)
  note sel = select_pending_facts [OF this refl, where now = later and locked = locked' and batch = batch']
  have untaken: "ob_id r \<notin> ob_id ` set ?rows" if "r \<in> set ?rows'" for r
  proof
    assume "ob_id r \<in> ob_id ` set ?rows"
    then have "ob_id r \<in> set (map ob_id ?rows)" by simp
    moreover have "r \<in> set (db_outbox (mark_claimed now (map ob_id ?rows) d))"
      using sel(2) that by (auto simp: d1)
    ultimately have "\<not> claimable later r"
      using claimed_not_claimable [of r "map ob_id ?rows" later now r d] assms(3) by simp
    with sel(5) [OF that] show False by simp
  qed
  have "ob_id ` set ?rows \<inter> ob_id ` set ?rows' = {}"
  proof (rule equals0I)
    fix i
    assume i: "i \<in> ob_id ` set ?rows \<inter> ob_id ` set ?rows'"
    then have "i \<in> ob_id ` set ?rows'" by (rule IntD2)
    then obtain r where r: "r \<in> set ?rows'" "i = ob_id r" by (rule imageE) auto
    have "ob_id r \<in> ob_id ` set ?rows" using IntD1 [OF i] unfolding r(2) .
    with r(1) show False using untaken [of r] by blast
  qed
  then show ?thesis by (simp add: cs cs' image_image)
qed

theorem claims_exclusive_witness:
  "cl_row_id ` set (fst (claim_pending 5 (\<lambda>i. False) 50 sample_outbox_db))
   \<inter> cl_row_id ` set (fst (claim_pending (seconds 30) (\<lambda>i. False) 50
       (snd (claim_pending 5 (\<lambda>i. False) 50 sample_outbox_db)))) = {}"
  by (rule claims_exclusive [OF sample_outbox_db_ok prod.collapse [symmetric] _ prod.collapse [symmetric]])
    (simp add: CLAIM_TIMEOUT_def)

section \<open>Draining the outbox\<close>

fun publish_passes :: "nat \<Rightarrow> publish_env \<Rightarrow> instant \<Rightarrow> nat \<Rightarrow> db \<Rightarrow> broker_message list \<Rightarrow> db \<times> broker_message list" where
  "publish_passes 0 env now batch d broker = (d, broker)"
| "publish_passes (Suc k) env now batch d broker =
     (let s = publish_pending_once env now (\<lambda>i. False) batch d broker
      in publish_passes k env now batch (pu_db s) (pu_broker s))"

definition waiting :: "instant \<Rightarrow> db \<Rightarrow> outbox_row set" where
  "waiting now d = {r \<in> set (db_outbox d). claimable now r}"

lemma finite_waiting [simp]: "finite (waiting now d)"
  by (simp add: waiting_def)

lemma waiting_after_pass:
  assumes "db_ok hash d" and "\<And>c. fst (env c) = Acked"
    and "s = publish_pending_once env now (\<lambda>i. False) batch d broker"
  shows "card (waiting now (pu_db s)) = card (waiting now d) - min batch (card (waiting now d))"
proof -
  have dist: "distinct (map ob_id (db_outbox d))" using assms(1) by (simp add: db_ok_defs)
  let ?rows = "select_pending now (\<lambda>i. False) batch d"
  note run = publish_pending_once_rows [OF dist refl assms(3)]
  note sel = select_pending_facts [OF dist refl, where now = now and locked = "\<lambda>i. False" and batch = batch]
  have not_claimable: "\<not> claimable now (row_after env (r\<lparr>ob_claimed_at := Some now\<rparr>))"
    if "claimable now r" for r
    using that assms(2) [of "claim_of r"]
    by (auto simp: claimable_def row_after_def split: outcome.splits prod.splits)
  have in_rows: "r \<in> set ?rows" if "r \<in> set (db_outbox d)" "ob_id r \<in> ob_id ` set ?rows" for r
    using that sel(2) dist by (auto simp: distinct_map dest: inj_onD)
  have "waiting now (pu_db s) = waiting now d - set ?rows"
    unfolding waiting_def run(1)
    using in_rows sel(5) not_claimable by (auto split: if_split_asm)
  moreover have "set ?rows \<subseteq> waiting now d"
    using sel(2,5) by (auto simp: waiting_def)
  moreover have "card (set ?rows) = min batch (card (waiting now d))"
  proof -
    have "distinct (db_outbox d)" using dist by (simp add: distinct_map)
    then have "card (waiting now d) = length (filter (claimable now) (sort_key ob_id (db_outbox d)))"
      unfolding waiting_def by (simp add: distinct_card [symmetric])
    moreover have "card (set ?rows) = length ?rows"
      using sel(1) by (simp add: distinct_card distinct_map)
    ultimately show ?thesis by (simp add: select_pending_def)
  qed
  ultimately show ?thesis by (simp add: card_Diff_subset)
qed

lemma publish_passes_drain:
  assumes "db_ok hash d" and "\<And>c. fst (env c) = Acked" and "card (waiting now d) \<le> k * batch"
  shows "waiting now (fst (publish_passes k env now batch d broker)) = {}"
  using assms(1,3)
proof (induction k arbitrary: d broker)
  case 0
  then show ?case by simp
next
  case (Suc k)
  let ?s = "publish_pending_once env now (\<lambda>i. False) batch d broker"
  have dist: "distinct (map ob_id (db_outbox d))" using Suc.prems(1) by (simp add: db_ok_defs)
  have ok: "db_ok hash (pu_db ?s)"
    by (rule same_outbox_ok [OF publish_pending_once_rows(5) [OF dist refl refl] Suc.prems(1)])
  have "card (waiting now (pu_db ?s)) \<le> k * batch"
    using waiting_after_pass [OF Suc.prems(1) assms(2) refl, where now = now and batch = batch and broker = broker] Suc.prems(2) by simp
  from Suc.IH [OF ok this] show ?case by (simp add: Let_def)
qed



end
