(* ===== verification/Reducer.thy ===== *)
theory Reducer
  imports Storage
begin

text \<open>
  The pure match-state reducer (\<open>backend/app/projections/reducer.py\<close>).  The Python function
  returns either the object \<open>current\<close> itself or a new dictionary, and the projector tests which
  (\<open>next_state is current\<close>); \<open>Same\<close> and \<open>Next\<close> are these two outcomes.
\<close>

datatype reduced = Same | Next match_state

section \<open>The reducer\<close>

text \<open>\<open>int(payload.get("current_minute", payload.get("minute", 0)))\<close>.\<close>

definition payload_minute :: "dict \<Rightarrow> int result" where
  "payload_minute p = py_int (dict_get_or p ''current_minute'' (dict_get_or p ''minute'' (JInt 0)))"

text \<open>The dictionary built before the event type is looked at.\<close>

definition base_state :: "instant \<Rightarrow> match_core option \<Rightarrow> event \<Rightarrow> match_state result" where
  "base_state now current e =
     bind_r (dict_item (ev_payload e) ''home_team'') (\<lambda>home.
     bind_r (dict_item (ev_payload e) ''away_team'') (\<lambda>away.
     bind_r (payload_minute (ev_payload e)) (\<lambda>minute.
     Inr \<lparr>ms_match_id = ev_subject_id e, ms_home_team = py_str home, ms_away_team = py_str away,
       ms_competition = py_str (dict_get_or (ev_payload e) ''competition'' (JStr ''Premier League'')),
       ms_home_score = (case current of Some c \<Rightarrow> ms_home_score c | None \<Rightarrow> 0),
       ms_away_score = (case current of Some c \<Rightarrow> ms_away_score c | None \<Rightarrow> 0),
       ms_status = (case current of Some c \<Rightarrow> ms_status c | None \<Rightarrow> ''scheduled''),
       ms_minute = max (case current of Some c \<Rightarrow> ms_minute c | None \<Rightarrow> 0) minute,
       ms_phase = (case current of Some c \<Rightarrow> ms_phase c | None \<Rightarrow> ''pre_match''),
       ms_version = ev_version e, ms_last_event_id = Some (ev_event_id e),
       ms_last_event_type = Some (ev_event_type e), ms_updated_at = now\<rparr>)))"

definition stopped :: "match_state \<Rightarrow> bool" where
  "stopped s = (ms_status s \<in> {''fulltime'', ''halftime''})"

definition unstarted_phase :: "string \<Rightarrow> bool" where
  "unstarted_phase phase = (phase \<in> {''pre_match'', ''scheduled'', ''unknown''})"

definition half_phase :: "match_state \<Rightarrow> string" where
  "half_phase s = (if 45 \<le> ms_minute s then ''second_half'' else ''first_half'')"

text \<open>The branch of a goal: the score first, then the phase of a match in play.\<close>

definition add_goal :: "dict \<Rightarrow> match_state \<Rightarrow> match_state result" where
  "add_goal p s =
     (if map_of p ''side'' = Some (JStr ''home'') then Inr (s\<lparr>ms_home_score := ms_home_score s + 1\<rparr>)
      else if map_of p ''side'' = Some (JStr ''away'') then Inr (s\<lparr>ms_away_score := ms_away_score s + 1\<rparr>)
      else Inl (ValueError ''goal event requires side=home or side=away''))"

definition goal_phase :: "match_state \<Rightarrow> match_state" where
  "goal_phase t =
     (if stopped t then t
      else t\<lparr>ms_status := ''live'',
             ms_phase := (if unstarted_phase (ms_phase t) then half_phase t
                          else if ms_phase t = ''first_half'' \<and> 45 \<le> ms_minute t then ''second_half''
                          else ms_phase t)\<rparr>)"

definition apply_goal :: "dict \<Rightarrow> match_state \<Rightarrow> match_state result" where
  "apply_goal p s = bind_r (add_goal p s) (\<lambda>t. Inr (goal_phase t))"

definition apply_score_corrected :: "dict \<Rightarrow> match_state \<Rightarrow> match_state result" where
  "apply_score_corrected p s =
     bind_r (bind_r (dict_item p ''home_score'') py_int) (\<lambda>home.
     bind_r (bind_r (dict_item p ''away_score'') py_int) (\<lambda>away.
     Inr (s\<lparr>ms_home_score := home, ms_away_score := away\<rparr>)))"

text \<open>A card or a substitution shows that the match is being played.\<close>

definition apply_in_play :: "match_state \<Rightarrow> match_state" where
  "apply_in_play s =
     (if stopped s then s
      else s\<lparr>ms_status := ''live'',
             ms_phase := (if unstarted_phase (ms_phase s) then half_phase s else ms_phase s)\<rparr>)"

definition unless_fulltime :: "(match_state \<Rightarrow> match_state) \<Rightarrow> match_state \<Rightarrow> match_state" where
  "unless_fulltime f s = (if ms_status s \<noteq> ''fulltime'' then f s else s)"

definition apply_event_type :: "string \<Rightarrow> dict \<Rightarrow> match_state \<Rightarrow> match_state result" where
  "apply_event_type t p s =
     (if endswith t ''.scheduled'' then Inr (s\<lparr>ms_status := ''scheduled'', ms_phase := ''pre_match''\<rparr>)
      else if endswith t ''.kickoff'' then Inr (s\<lparr>ms_status := ''live'', ms_phase := ''first_half''\<rparr>)
      else if endswith t ''.goal'' then apply_goal p s
      else if endswith t ''.score_corrected'' then apply_score_corrected p s
      else if endswith t ''.yellow_card'' \<or> endswith t ''.red_card'' then Inr (apply_in_play s)
      else if endswith t ''.substitution'' then Inr (apply_in_play s)
      else if endswith t ''.halftime'' then
        Inr (unless_fulltime (\<lambda>s. s\<lparr>ms_status := ''halftime'', ms_phase := ''halftime''\<rparr>) s)
      else if endswith t ''.second_half'' then
        Inr (unless_fulltime (\<lambda>s. s\<lparr>ms_status := ''live'', ms_phase := ''second_half''\<rparr>) s)
      else if endswith t ''.extra_time'' then
        Inr (unless_fulltime (\<lambda>s. s\<lparr>ms_status := ''live'', ms_phase := ''extra_time'',
                                    ms_minute := max 90 (ms_minute s)\<rparr>) s)
      else if endswith t ''.penalties'' then
        Inr (unless_fulltime (\<lambda>s. s\<lparr>ms_status := ''live'', ms_phase := ''penalties'',
                                    ms_minute := max 120 (ms_minute s)\<rparr>) s)
      else if endswith t ''.fulltime'' then Inr (s\<lparr>ms_status := ''fulltime'', ms_phase := ''fulltime''\<rparr>)
      else Inr s)"

definition is_stale :: "match_core option \<Rightarrow> event \<Rightarrow> bool" where
  "is_stale current e = (case current of None \<Rightarrow> False | Some c \<Rightarrow> ev_version e \<le> ms_version c)"

definition is_late_fact :: "match_core option \<Rightarrow> event \<Rightarrow> bool" where
  "is_late_fact current e = (case current of None \<Rightarrow> False
     | Some c \<Rightarrow> ms_status c = ''fulltime'' \<and> \<not> endswith (ev_event_type e) ''.score_corrected'')"

definition reduce_match_state :: "instant \<Rightarrow> match_core option \<Rightarrow> event \<Rightarrow> reduced result" where
  "reduce_match_state now current e =
     (if is_stale current e then Inr Same
      else if is_late_fact current e then Inr Same
      else bind_r (base_state now current e) (\<lambda>s.
           bind_r (apply_event_type (ev_event_type e) (ev_payload e) s) (\<lambda>t. Inr (Next t))))"

section \<open>The event types of the program\<close>

lemma apply_event_type_fet [simp]:
  "apply_event_type (fet_value SCHEDULED) p s = Inr (s\<lparr>ms_status := ''scheduled'', ms_phase := ''pre_match''\<rparr>)"
  "apply_event_type (fet_value KICKOFF) p s = Inr (s\<lparr>ms_status := ''live'', ms_phase := ''first_half''\<rparr>)"
  "apply_event_type (fet_value GOAL) p s = apply_goal p s"
  "apply_event_type (fet_value SCORE_CORRECTED) p s = apply_score_corrected p s"
  "apply_event_type (fet_value YELLOW_CARD) p s = Inr (apply_in_play s)"
  "apply_event_type (fet_value RED_CARD) p s = Inr (apply_in_play s)"
  "apply_event_type (fet_value SUBSTITUTION) p s = Inr (apply_in_play s)"
  "apply_event_type (fet_value HALFTIME) p s =
     Inr (unless_fulltime (\<lambda>s. s\<lparr>ms_status := ''halftime'', ms_phase := ''halftime''\<rparr>) s)"
  "apply_event_type (fet_value SECOND_HALF) p s =
     Inr (unless_fulltime (\<lambda>s. s\<lparr>ms_status := ''live'', ms_phase := ''second_half''\<rparr>) s)"
  "apply_event_type (fet_value EXTRA_TIME) p s =
     Inr (unless_fulltime (\<lambda>s. s\<lparr>ms_status := ''live'', ms_phase := ''extra_time'', ms_minute := max 90 (ms_minute s)\<rparr>) s)"
  "apply_event_type (fet_value PENALTIES) p s =
     Inr (unless_fulltime (\<lambda>s. s\<lparr>ms_status := ''live'', ms_phase := ''penalties'', ms_minute := max 120 (ms_minute s)\<rparr>) s)"
  "apply_event_type (fet_value FULLTIME) p s = Inr (s\<lparr>ms_status := ''fulltime'', ms_phase := ''fulltime''\<rparr>)"
  by (simp_all add: apply_event_type_def endswith_def fet_value.simps)

lemma score_corrected_suffix [simp]:
  "endswith (fet_value t) ''.score_corrected'' \<longleftrightarrow> t = SCORE_CORRECTED"
  by (cases t) (simp_all add: endswith_def fet_value.simps)


text \<open>
  A football event as the program makes them: one of the declared types over a valid payload.
\<close>

definition football_event :: "football_event_type \<Rightarrow> football_payload \<Rightarrow> event \<Rightarrow> bool" where
  "football_event t p e \<longleftrightarrow>
     ev_event_type e = fet_value t \<and> ev_payload e = football_payload_dump p \<and> football_payload_ok p"

definition shown_minute :: "football_payload \<Rightarrow> int" where
  "shown_minute p = (case fp_current_minute p of Some m \<Rightarrow> m | None \<Rightarrow> fp_minute p)"

lemma shown_minute_bounds: "football_payload_ok p \<Longrightarrow> 0 \<le> shown_minute p \<and> shown_minute p \<le> 130"
  by (auto simp: football_payload_ok_def shown_minute_def split: option.splits)

lemma payload_minute_dump [simp]: "payload_minute (football_payload_dump p) = Inr (shown_minute p)"
  by (auto simp: payload_minute_def dict_get_or_def shown_minute_def split: option.splits)

lemma base_state_dump:
  assumes "ev_payload e = football_payload_dump p"
  shows "base_state now current e = Inr
     \<lparr>ms_match_id = ev_subject_id e, ms_home_team = fp_home_team p, ms_away_team = fp_away_team p,
      ms_competition = fp_competition p,
      ms_home_score = (case current of Some c \<Rightarrow> ms_home_score c | None \<Rightarrow> 0),
      ms_away_score = (case current of Some c \<Rightarrow> ms_away_score c | None \<Rightarrow> 0),
      ms_status = (case current of Some c \<Rightarrow> ms_status c | None \<Rightarrow> ''scheduled''),
      ms_minute = max (case current of Some c \<Rightarrow> ms_minute c | None \<Rightarrow> 0) (shown_minute p),
      ms_phase = (case current of Some c \<Rightarrow> ms_phase c | None \<Rightarrow> ''pre_match''),
      ms_version = ev_version e, ms_last_event_id = Some (ev_event_id e),
      ms_last_event_type = Some (ev_event_type e), ms_updated_at = now\<rparr>"
  using assms by (simp add: base_state_def dict_item_def dict_get_or_def)

lemma base_state_facts:
  assumes "base_state now current e = Inr s"
  shows "ms_version s = ev_version e" and "ms_match_id s = ev_subject_id e"
    and "ms_last_event_id s = Some (ev_event_id e)"
    and "ms_last_event_type s = Some (ev_event_type e)" and "ms_updated_at s = now"
    and "current = Some c \<Longrightarrow> ms_minute c \<le> ms_minute s"
    and "0 \<le> ms_minute s \<or> current \<noteq> None"
  using assms by (auto simp: base_state_def bind_simps)

lemmas apply_defs = apply_goal_def add_goal_def goal_phase_def apply_score_corrected_def apply_in_play_def unless_fulltime_def

text \<open>What the branches on the event type leave alone.\<close>

definition same_match :: "match_state \<Rightarrow> match_state \<Rightarrow> bool" where
  "same_match s t \<longleftrightarrow>
     ms_version t = ms_version s \<and> ms_match_id t = ms_match_id s
     \<and> ms_last_event_id t = ms_last_event_id s \<and> ms_last_event_type t = ms_last_event_type s
     \<and> ms_updated_at t = ms_updated_at s \<and> ms_minute s \<le> ms_minute t
     \<and> ms_home_team t = ms_home_team s \<and> ms_away_team t = ms_away_team s
     \<and> ms_competition t = ms_competition s"

lemma same_match_ops:
  "same_match s s"
  "same_match s (s\<lparr>ms_status := a, ms_phase := b\<rparr>)"
  "same_match s (unless_fulltime (\<lambda>s. s\<lparr>ms_status := a, ms_phase := b\<rparr>) s)"
  "same_match s (unless_fulltime (\<lambda>s. s\<lparr>ms_status := a, ms_phase := b, ms_minute := max m (ms_minute s)\<rparr>) s)"
  "same_match s (apply_in_play s)"
  "same_match s (goal_phase s)"
  by (simp_all add: same_match_def unless_fulltime_def apply_in_play_def goal_phase_def)

lemma same_match_goal: "apply_goal p s = Inr t \<Longrightarrow> same_match s t"
  by (auto simp: apply_goal_def add_goal_def bind_simps same_match_def goal_phase_def split: if_split_asm)

lemma same_match_score: "apply_score_corrected p s = Inr t \<Longrightarrow> same_match s t"
  by (auto simp: apply_score_corrected_def bind_simps same_match_def)

lemma apply_event_type_same: "apply_event_type t p s = Inr s' \<Longrightarrow> same_match s s'"
  unfolding apply_event_type_def
  by (auto split: if_split_asm simp: same_match_ops same_match_goal same_match_score)

lemma apply_event_type_frame:
  assumes "apply_event_type t p s = Inr s'"
  shows "ms_version s' = ms_version s" and "ms_match_id s' = ms_match_id s"
    and "ms_last_event_id s' = ms_last_event_id s" and "ms_last_event_type s' = ms_last_event_type s"
    and "ms_updated_at s' = ms_updated_at s" and "ms_minute s \<le> ms_minute s'"
    and "ms_home_team s' = ms_home_team s" and "ms_away_team s' = ms_away_team s"
    and "ms_competition s' = ms_competition s"
  using apply_event_type_same [OF assms] by (simp_all add: same_match_def)

lemma reduce_Next:
  "reduce_match_state now current e = Inr (Next s') \<longleftrightarrow>
     \<not> is_stale current e \<and> \<not> is_late_fact current e \<and>
     (\<exists>s. base_state now current e = Inr s \<and> apply_event_type (ev_event_type e) (ev_payload e) s = Inr s')"
  by (auto simp: reduce_match_state_def bind_simps)

lemma reduce_Same:
  "reduce_match_state now current e = Inr Same \<longleftrightarrow> is_stale current e \<or> is_late_fact current e"
  by (auto simp: reduce_match_state_def bind_simps)

lemma reducer_next_facts:
  assumes "reduce_match_state now current e = Inr (Next s)"
  shows "ms_match_id s = ev_subject_id e" and "ms_version s = ev_version e" and "ms_updated_at s = now"
    and "current = Some c \<Longrightarrow> ms_version c < ms_version s \<and> ms_minute c \<le> ms_minute s"
proof -
  obtain b where b: "base_state now current e = Inr b"
    and a: "apply_event_type (ev_event_type e) (ev_payload e) b = Inr s"
    and st: "\<not> is_stale current e"
    using assms unfolding reduce_Next by blast
  show "ms_match_id s = ev_subject_id e" "ms_version s = ev_version e" "ms_updated_at s = now"
    using base_state_facts(1,2,5) [OF b] apply_event_type_frame(1,2,5) [OF a] by simp_all
  show "ms_version c < ms_version s \<and> ms_minute c \<le> ms_minute s" if "current = Some c"
    using that st base_state_facts(1,6) [OF b] apply_event_type_frame(1,6) [OF a]
    by (auto simp: is_stale_def)
qed

section \<open>Properties of one step\<close>

lemma reducer_rejects_only_sideless_goals_iff:
  assumes "football_event t p e"
  shows "(\<exists>err. reduce_match_state now current e = Inl err) \<longleftrightarrow>
     t = GOAL \<and> fp_side p = None \<and> \<not> is_stale current e \<and> \<not> is_late_fact current e"
proof -
  have pay: "ev_payload e = football_payload_dump p" and ty: "ev_event_type e = fet_value t"
    and side: "fp_side p = None \<or> fp_side p = Some ''home'' \<or> fp_side p = Some ''away''"
    using assms by (auto simp: football_event_def football_payload_ok_def split: option.splits)
  have "(\<exists>err. apply_event_type (ev_event_type e) (football_payload_dump p) s = Inl err)
      \<longleftrightarrow> t = GOAL \<and> fp_side p = None" for s
    unfolding ty using side
    by (cases t) (auto simp: apply_goal_def add_goal_def apply_score_corrected_def dict_item_def)
  then show ?thesis
    by (auto simp: reduce_match_state_def base_state_dump [OF pay] pay bind_simps)
qed

text \<open>
  The reducer raises on an event the program can make in exactly one case: a goal that is
  neither stale nor late and names no side.  Every other football event is reduced.
\<close>

theorem reducer_rejects_only_sideless_goals:
  assumes "football_event t p e"
  shows "(\<exists>err. reduce_match_state now current e = Inl err) \<longleftrightarrow>
     t = GOAL \<and> fp_side p = None \<and> \<not> is_stale current e \<and> \<not> is_late_fact current e"
  by (rule reducer_rejects_only_sideless_goals_iff [OF assms])

theorem reducer_rejects_only_sideless_goals_witness:
  "(\<exists>err. reduce_match_state 0 None (sample_event 1 GOAL 1 ''k'' 0 (sample_payload None)) = Inl err)
   \<and> \<not> (\<exists>err. reduce_match_state 0 None (sample_event 1 HALFTIME 1 ''k'' 0 (sample_payload None)) = Inl err)"
proof -
  have fe: "football_event t (sample_payload None) (sample_event 1 t 1 ''k'' 0 (sample_payload None))" for t
    by (simp add: football_event_def sample_defs football_payload_ok_def)
  show ?thesis
    using reducer_rejects_only_sideless_goals [OF fe, of 0 None GOAL]
      reducer_rejects_only_sideless_goals [OF fe, of 0 None HALFTIME]
    by (simp add: is_stale_def is_late_fact_def sample_payload_def)
qed

text \<open>
  No event regresses a match: a new state has the event's version, which is strictly newer,
  its clock never runs backwards, and it is the state of the event's own subject.
\<close>

theorem reducer_monotone:
  assumes "reduce_match_state now current e = Inr (Next s)"
  shows "ms_version s = ev_version e \<and> ms_match_id s = ev_subject_id e \<and> ms_updated_at s = now
    \<and> (\<forall>c. current = Some c \<longrightarrow> ms_version c < ms_version s \<and> ms_minute c \<le> ms_minute s)"
  using reducer_next_facts [OF assms] by simp

theorem reducer_monotone_witness:
  "\<exists>s. reduce_match_state 7 None (sample_event 1 KICKOFF 1 ''k'' 0 (sample_payload None)) = Inr (Next s)
     \<and> ms_version s = 1 \<and> ms_match_id s = ''m1'' \<and> ms_updated_at s = 7"
proof -
  have "case reduce_match_state 7 None (sample_event 1 KICKOFF 1 ''k'' 0 (sample_payload None)) of
      Inr (Next s) \<Rightarrow> True | _ \<Rightarrow> False"
    by code_simp
  then obtain s where "reduce_match_state 7 None
      (sample_event 1 KICKOFF 1 ''k'' 0 (sample_payload None)) = Inr (Next s)"
    by (auto split: sum.splits reduced.splits)
  then show ?thesis
    using reducer_monotone [of 7 None "sample_event 1 KICKOFF 1 ''k'' 0 (sample_payload None)" s]
    by (simp add: sample_event_def)
qed

section \<open>Status and phase\<close>

text \<open>The combinations of status and phase that the projection can show.\<close>

definition phase_ok :: "string \<Rightarrow> string \<Rightarrow> bool" where
  "phase_ok status phase \<longleftrightarrow>
     status = ''scheduled'' \<and> phase = ''pre_match''
     \<or> status = ''live'' \<and> phase \<in> {''first_half'', ''second_half'', ''extra_time'', ''penalties''}
     \<or> status = ''halftime'' \<and> phase = ''halftime''
     \<or> status = ''fulltime'' \<and> phase = ''fulltime''"

definition core_ok :: "match_core option \<Rightarrow> bool" where
  "core_ok current \<longleftrightarrow> (case current of None \<Rightarrow> True
     | Some c \<Rightarrow> phase_ok (ms_status c) (ms_phase c) \<and> 0 \<le> ms_home_score c \<and> 0 \<le> ms_away_score c
               \<and> 0 \<le> ms_minute c \<and> ms_minute c \<le> 130)"

lemma core_fields_truncate [simp]:
  "ms_match_id (match_core.truncate s) = ms_match_id s"
  "ms_home_score (match_core.truncate s) = ms_home_score s"
  "ms_away_score (match_core.truncate s) = ms_away_score s"
  "ms_status (match_core.truncate s) = ms_status s"
  "ms_minute (match_core.truncate s) = ms_minute s"
  "ms_phase (match_core.truncate s) = ms_phase s"
  "ms_version (match_core.truncate s) = ms_version s"
  by (simp_all add: match_core.truncate_def)

lemma core_ok_Some:
  "core_ok (Some c) \<longleftrightarrow> phase_ok (ms_status c) (ms_phase c) \<and> 0 \<le> ms_home_score c \<and> 0 \<le> ms_away_score c
     \<and> 0 \<le> ms_minute c \<and> ms_minute c \<le> 130"
  by (simp add: core_ok_def)

lemma core_ok_truncate:
  "core_ok (Some (match_core.truncate s)) \<longleftrightarrow>
     phase_ok (ms_status s) (ms_phase s) \<and> 0 \<le> ms_home_score s \<and> 0 \<le> ms_away_score s
     \<and> 0 \<le> ms_minute s \<and> ms_minute s \<le> 130"
  by (simp add: core_ok_Some)

text \<open>The parts of the invariant, one event type at a time.\<close>

definition playing_phase :: "string \<Rightarrow> bool" where
  "playing_phase phase \<longleftrightarrow> phase \<in> {''first_half'', ''second_half'', ''extra_time'', ''penalties''}"

lemma phase_ok_fixed [simp]:
  "phase_ok ''scheduled'' phase \<longleftrightarrow> phase = ''pre_match''"
  "phase_ok ''live'' phase \<longleftrightarrow> playing_phase phase"
  "phase_ok ''halftime'' phase \<longleftrightarrow> phase = ''halftime''"
  "phase_ok ''fulltime'' phase \<longleftrightarrow> phase = ''fulltime''"
  by (simp_all add: phase_ok_def playing_phase_def)

lemma playing_phase_fixed [simp]:
  "playing_phase ''first_half''" "playing_phase ''second_half''"
  "playing_phase ''extra_time''" "playing_phase ''penalties''" "playing_phase (half_phase s)"
  by (simp_all add: playing_phase_def half_phase_def)

lemma phase_ok_started:
  "phase_ok status phase \<Longrightarrow> status \<noteq> ''fulltime'' \<Longrightarrow> status \<noteq> ''halftime'' \<Longrightarrow>
   \<not> unstarted_phase phase \<Longrightarrow> playing_phase phase"
  unfolding phase_ok_def playing_phase_def unstarted_phase_def by (elim disjE conjE) simp_all

lemma phase_ok_in_play:
  "phase_ok (ms_status s) (ms_phase s) \<Longrightarrow> \<not> stopped s \<Longrightarrow>
   playing_phase (if unstarted_phase (ms_phase s) then half_phase r
                  else if b then ''second_half'' else ms_phase s)"
  using phase_ok_started [of "ms_status s" "ms_phase s"] by (auto simp: stopped_def)

lemma goal_phase_ok:
  "phase_ok (ms_status s) (ms_phase s) \<Longrightarrow> phase_ok (ms_status (goal_phase s)) (ms_phase (goal_phase s))"
  using phase_ok_in_play [of s s "ms_phase s = ''first_half'' \<and> 45 \<le> ms_minute s"]
  by (simp add: goal_phase_def)

lemma add_goal_frame:
  "add_goal p s = Inr t \<Longrightarrow> ms_status t = ms_status s \<and> ms_phase t = ms_phase s \<and> ms_minute t = ms_minute s"
  by (auto simp: add_goal_def split: if_split_asm)

lemma apply_goal_phase:
  assumes "apply_goal p s = Inr s'" and "phase_ok (ms_status s) (ms_phase s)"
  shows "phase_ok (ms_status s') (ms_phase s')"
  using assms goal_phase_ok add_goal_frame by (fastforce simp: apply_goal_def bind_simps)

lemma apply_in_play_phase:
  assumes "phase_ok (ms_status s) (ms_phase s)"
  shows "phase_ok (ms_status (apply_in_play s)) (ms_phase (apply_in_play s))"
  using assms phase_ok_in_play [OF assms, of _ False] by (auto simp: apply_in_play_def)

lemma apply_fet_phase:
  assumes "apply_event_type (fet_value t) p s = Inr s'" and "phase_ok (ms_status s) (ms_phase s)"
  shows "phase_ok (ms_status s') (ms_phase s')"
  using assms apply_goal_phase [of p s s'] apply_in_play_phase [of s]
  by (cases t) (auto simp: apply_score_corrected_def unless_fulltime_def bind_simps)

lemma apply_fet_scores:
  assumes "apply_event_type (fet_value t) (football_payload_dump p) s = Inr s'" and "football_payload_ok p"
    and "0 \<le> ms_home_score s" and "0 \<le> ms_away_score s"
  shows "0 \<le> ms_home_score s' \<and> 0 \<le> ms_away_score s'"
  using assms
  by (cases t) (auto simp: apply_defs football_payload_ok_def dict_item_def bind_simps split: if_split_asm)

lemma apply_fet_minute:
  assumes "apply_event_type (fet_value t) p s = Inr s'" and "ms_minute s \<le> 130"
  shows "ms_minute s' \<le> 130"
  using assms by (cases t) (auto simp: apply_defs bind_simps split: if_split_asm)

lemma reduce_core_ok:
  assumes "football_event t p e" and "core_ok current"
    and "reduce_match_state now current e = Inr (Next s)"
  shows "core_ok (Some (match_core.truncate s))"
proof -
  have pay: "ev_payload e = football_payload_dump p" and ok: "football_payload_ok p"
    and ty: "ev_event_type e = fet_value t"
    using assms(1) by (auto simp: football_event_def)
  obtain b where b: "base_state now current e = Inr b"
    and a: "apply_event_type (fet_value t) (football_payload_dump p) b = Inr s"
    using assms(3) unfolding reduce_Next by (auto simp: pay ty)
  have base: "phase_ok (ms_status b) (ms_phase b) \<and> 0 \<le> ms_home_score b \<and> 0 \<le> ms_away_score b
      \<and> 0 \<le> ms_minute b \<and> ms_minute b \<le> 130"
    using b assms(2) shown_minute_bounds [OF ok] unfolding base_state_dump [OF pay]
    by (cases current) (auto simp: core_ok_Some)
  then have "phase_ok (ms_status s) (ms_phase s)" "0 \<le> ms_home_score s \<and> 0 \<le> ms_away_score s"
    "ms_minute s \<le> 130" "0 \<le> ms_minute s"
    using apply_fet_phase [OF a] apply_fet_scores [OF a ok] apply_fet_minute [OF a]
      apply_event_type_frame(6) [OF a] by auto
  then show ?thesis by (simp add: core_ok_truncate)
qed

text \<open>
  The projection is always presentable: whatever football events arrive, in whatever order,
  a match is scheduled before the kick-off, live in one of the four playing phases, at half time
  or at full time, with the matching phase, with scores that are not negative and a clock between
  0 and 130.
\<close>

theorem reducer_keeps_core_ok:
  assumes "football_event t p e" and "core_ok current"
    and "reduce_match_state now current e = Inr (Next s)"
  shows "core_ok (Some (match_core.truncate s))"
  using assms by (rule reduce_core_ok)

lemma sample_football_event:
  "side \<in> {None, Some ''home'', Some ''away''} \<Longrightarrow>
   football_event t (sample_payload side) (sample_event i t v k now (sample_payload side))"
  by (auto simp: football_event_def sample_defs football_payload_ok_def)

theorem reducer_keeps_core_ok_witness:
  "\<exists>s. reduce_match_state 0 None (sample_event 1 GOAL 1 ''k'' 0 (sample_payload (Some ''home''))) = Inr (Next s)
     \<and> core_ok (Some (match_core.truncate s))"
proof -
  let ?e = "sample_event 1 GOAL 1 ''k'' 0 (sample_payload (Some ''home''))"
  have fe: "football_event GOAL (sample_payload (Some ''home'')) ?e"
    by (rule sample_football_event) simp
  have "\<not> (\<exists>err. reduce_match_state 0 None ?e = Inl err)"
    using reducer_rejects_only_sideless_goals_iff [OF fe, of 0 None] by (simp add: sample_payload_def)
  then obtain r where r: "reduce_match_state 0 None ?e = Inr r"
    by (cases "reduce_match_state 0 None ?e") auto
  moreover have "r \<noteq> Same"
    using r reduce_Same [of 0 None ?e] by (auto simp: is_stale_def is_late_fact_def)
  ultimately obtain s where "reduce_match_state 0 None ?e = Inr (Next s)" by (cases r) auto
  then show ?thesis using reducer_keeps_core_ok [OF fe, of None 0] by (auto simp: core_ok_def)
qed


section \<open>The score of a match, abstractly\<close>

text \<open>
  What the events of one match say about its score: a goal adds one, a correction sets both
  scores, and after the final whistle only corrections count.
\<close>

datatype score_fact = Home_goal | Away_goal | Corrected int int | Whistle | No_score

type_synonym score = "int \<times> int \<times> bool"

fun score_step :: "score_fact \<Rightarrow> score \<Rightarrow> score" where
  "score_step (Corrected h a) (x, y, final) = (h, a, final)"
| "score_step _ (x, y, True) = (x, y, True)"
| "score_step Home_goal (x, y, False) = (x + 1, y, False)"
| "score_step Away_goal (x, y, False) = (x, y + 1, False)"
| "score_step Whistle (x, y, False) = (x, y, True)"
| "score_step No_score (x, y, False) = (x, y, False)"

definition score_fact_of :: "football_event_type \<Rightarrow> football_payload \<Rightarrow> score_fact" where
  "score_fact_of t p =
     (case t of GOAL \<Rightarrow> (if fp_side p = Some ''home'' then Home_goal else Away_goal)
      | SCORE_CORRECTED \<Rightarrow> Corrected (fp_home_score p) (fp_away_score p)
      | FULLTIME \<Rightarrow> Whistle
      | _ \<Rightarrow> No_score)"

definition score_of :: "match_core option \<Rightarrow> score" where
  "score_of current = (case current of None \<Rightarrow> (0, 0, False)
     | Some c \<Rightarrow> (ms_home_score c, ms_away_score c, ms_status c = ''fulltime''))"

text \<open>Applying events one after the other, as the projector does with a partition.\<close>

definition reduce_step :: "instant \<Rightarrow> event \<Rightarrow> match_core option \<Rightarrow> match_core option result" where
  "reduce_step now e current =
     bind_r (reduce_match_state now current e) (\<lambda>r. Inr (case r of
        Same \<Rightarrow> current | Next s \<Rightarrow> Some (match_core.truncate s)))"

definition version_of :: "match_core option \<Rightarrow> int" where
  "version_of current = (case current of None \<Rightarrow> 0 | Some c \<Rightarrow> ms_version c)"

lemma apply_fet_score:
  assumes "apply_event_type (fet_value t) (football_payload_dump p) s = Inr s'"
    and "ms_status s \<noteq> ''fulltime'' \<or> t = SCORE_CORRECTED" and "football_payload_ok p"
  shows "(ms_home_score s', ms_away_score s', ms_status s' = ''fulltime'')
       = score_step (score_fact_of t p) (ms_home_score s, ms_away_score s, ms_status s = ''fulltime'')"
  using assms
  by (cases t) (auto simp: apply_defs score_fact_of_def dict_item_def bind_simps stopped_def
      football_payload_ok_def split: if_split_asm)

lemma score_step_final: "\<nexists>h a. f = Corrected h a \<Longrightarrow> score_step f (x, y, True) = (x, y, True)"
  by (cases f) auto

lemma reduce_step_score:
  assumes "football_event t p e" and "version_of current < ev_version e"
    and "reduce_step now e current = Inr after"
  shows "score_of after = score_step (score_fact_of t p) (score_of current)
    \<and> version_of after \<le> ev_version e"
proof -
  have pay: "ev_payload e = football_payload_dump p" and ok: "football_payload_ok p"
    and ty: "ev_event_type e = fet_value t"
    using assms(1) by (auto simp: football_event_def)
  have fresh: "\<not> is_stale current e"
    using assms(2) by (auto simp: is_stale_def version_of_def split: option.splits)
  obtain r where r: "reduce_match_state now current e = Inr r"
    and nxt: "after = (case r of Same \<Rightarrow> current | Next s \<Rightarrow> Some (match_core.truncate s))"
    using assms(3) by (auto simp: reduce_step_def bind_simps)
  show ?thesis
  proof (cases r)
    case Same
    then obtain c where c: "current = Some c" "ms_status c = ''fulltime''" "t \<noteq> SCORE_CORRECTED"
      using r fresh reduce_Same [of now current e]
      by (auto simp: is_late_fact_def ty split: option.splits)
    then have "\<nexists>h a. score_fact_of t p = Corrected h a"
      by (cases t) (auto simp: score_fact_of_def)
    with c Same nxt assms(2) show ?thesis
      by (simp add: score_of_def score_step_final)
  next
    case (Next s)
    then obtain b where b: "base_state now current e = Inr b"
      and a: "apply_event_type (fet_value t) (football_payload_dump p) b = Inr s"
      and late: "\<not> is_late_fact current e"
      using r reduce_Next [of now current e s] by (auto simp: pay ty)
    have b_score: "(ms_home_score b, ms_away_score b, ms_status b = ''fulltime'') = score_of current"
      using b unfolding base_state_dump [OF pay] by (cases current) (auto simp: score_of_def)
    have "ms_status b \<noteq> ''fulltime'' \<or> t = SCORE_CORRECTED"
      using b late unfolding base_state_dump [OF pay]
      by (cases current) (auto simp: is_late_fact_def ty)
    from apply_fet_score [OF a this ok] b_score
    have "score_of after = score_step (score_fact_of t p) (score_of current)"
      by (simp add: nxt Next score_of_def)
    moreover have "version_of after = ev_version e"
      using base_state_facts(1) [OF b] apply_event_type_frame(1) [OF a]
      by (simp add: nxt Next version_of_def)
    ultimately show ?thesis by simp
  qed
qed

text \<open>
  A feed: football events of rising version, each paired with its type and payload.
\<close>

fun rising_feed :: "int \<Rightarrow> (football_event_type \<times> football_payload \<times> event) list \<Rightarrow> bool" where
  "rising_feed v [] = True"
| "rising_feed v ((t, p, e) # es) =
     (football_event t p e \<and> v < ev_version e \<and> rising_feed (ev_version e) es)"

lemma rising_feed_mono: "rising_feed v es \<Longrightarrow> w \<le> v \<Longrightarrow> rising_feed w es"
  by (cases es) auto

lemma feed_score:
  assumes "rising_feed (version_of current) feed"
    and "fold_r (reduce_step now) (map (\<lambda>(t, p, e). e) feed) current = Inr final"
  shows "score_of final = fold (\<lambda>(t, p, e). score_step (score_fact_of t p)) feed (score_of current)"
  using assms
proof (induction feed arbitrary: current)
  case (Cons x feed)
  obtain t p e where x: "x = (t, p, e)" by (cases x)
  obtain after where n: "reduce_step now e current = Inr after"
    and rest: "fold_r (reduce_step now) (map (\<lambda>(t, p, e). e) feed) after = Inr final"
    using Cons.prems(2) by (auto simp: x bind_simps)
  have step: "score_of after = score_step (score_fact_of t p) (score_of current)"
    "version_of after \<le> ev_version e"
    using reduce_step_score [OF _ _ n] Cons.prems(1) by (auto simp: x)
  have "rising_feed (version_of after) feed"
    using Cons.prems(1) step(2) by (auto simp: x intro: rising_feed_mono)
  from Cons.IH [OF this rest] step(1) show ?case by (simp add: x)
qed simp

text \<open>
  C29.  Refinement: over any feed of football events in version order, the score the projection
  shows is the abstract score: goals counted one by one from the last correction on, and frozen
  by the final whistle except for corrections.
\<close>

theorem reducer_refines_score:
  assumes "rising_feed (version_of current) feed"
    and "fold_r (reduce_step now) (map (\<lambda>(t, p, e). e) feed) current = Inr final"
  shows "score_of final = fold (\<lambda>(t, p, e). score_step (score_fact_of t p)) feed (score_of current)"
  using assms by (rule feed_score)

definition sample_feed :: "(football_event_type \<times> football_payload \<times> event) list" where
  "sample_feed = map (\<lambda>(t, side, v). (t, sample_payload side, sample_event (nat v) t v ''k'' 0 (sample_payload side)))
     [(KICKOFF, None, 1), (GOAL, Some ''home'', 2), (GOAL, Some ''away'', 3), (GOAL, Some ''home'', 4),
      (FULLTIME, None, 5), (GOAL, Some ''away'', 6)]"

theorem reducer_refines_score_witness:
  "\<exists>final. fold_r (reduce_step 0) (map (\<lambda>(t, p, e). e) sample_feed) None = Inr final
     \<and> score_of final = (2, 1, True)"
proof -
  have feed: "rising_feed (version_of None) sample_feed"
    by (simp add: sample_feed_def version_of_def sample_football_event) (simp add: sample_event_def)
  have "\<not> isl (fold_r (reduce_step 0) (map (\<lambda>(t, p, e). e) sample_feed) None)"
    by code_simp
  then obtain final where run: "fold_r (reduce_step 0) (map (\<lambda>(t, p, e). e) sample_feed) None = Inr final"
    by (cases "fold_r (reduce_step 0) (map (\<lambda>(t, p, e). e) sample_feed) None") auto
  have "fold (\<lambda>(t, p, e). score_step (score_fact_of t p)) sample_feed (score_of None) = (2, 1, True)"
    by (simp add: sample_feed_def score_fact_of_def sample_payload_def score_of_def)
  with reducer_refines_score [OF feed run] run show ?thesis by auto
qed

end
