(* ===== verification/Projector.thy ===== *)
theory Projector
  imports Reducer Focus Event_Store
begin

text \<open>
  The projector (\<open>backend/app/projections/projector.py\<close>): one transaction per delivered event that
  records the delivery, updates the match projection and appends to the timeline; and the poll that
  commits the broker position only after every event of the batch went through.
\<close>

section \<open>The consumer interface\<close>

text \<open>
  The broker delivers at least once.  What makes that safe is a contract of the consumer: an event
  it has handled is skipped, one it does not know is skipped, and one it knows is handled when the
  step succeeds.
\<close>

text \<open>The first delivery of each identity, in order.\<close>

fun first_deliveries :: "('e \<Rightarrow> 'i) \<Rightarrow> 'i set \<Rightarrow> 'e list \<Rightarrow> 'e list" where
  "first_deliveries ident seen [] = []"
| "first_deliveries ident seen (e # es) =
     (if ident e \<in> seen then first_deliveries ident seen es
      else e # first_deliveries ident (insert (ident e) seen) es)"

locale idempotent_consumer =
  fixes step :: "'e \<Rightarrow> 's \<Rightarrow> 'x + 's"
    and ident :: "'e \<Rightarrow> 'i"
    and known :: "'s \<Rightarrow> 'i set"
    and handled :: "'s \<Rightarrow> 'i set"
  assumes skip_handled: "ident e \<in> handled s \<Longrightarrow> step e s = Inr s"
    and skip_unknown: "ident e \<notin> known s \<Longrightarrow> step e s = Inr s"
    and step_handled: "step e s = Inr t \<Longrightarrow> ident e \<in> known s \<Longrightarrow> handled t = insert (ident e) (handled s)"
    and step_known: "step e s = Inr t \<Longrightarrow> known t = known s"
begin

lemma run_known: "fold_r step es s = Inr t \<Longrightarrow> known t = known s"
  by (induction es arbitrary: s) (auto simp: bind_simps dest: step_known)

lemma run_handled:
  "fold_r step es s = Inr t \<Longrightarrow> handled t = handled s \<union> (ident ` set es \<inter> known s)"
proof (induction es arbitrary: s)
  case (Cons e es)
  then obtain u where u: "step e s = Inr u" and r: "fold_r step es u = Inr t"
    by (auto simp: bind_simps)
  show ?case
  proof (cases "ident e \<in> known s")
    case True
    then show ?thesis using Cons.IH [OF r] step_handled [OF u] step_known [OF u] by auto
  next
    case False
    then have "u = s" using skip_unknown u by simp
    then show ?thesis using Cons.IH [OF r] False by auto
  qed
qed simp

text \<open>Anything that was in a batch may be delivered again, any number of times, in any order.\<close>

lemma redelivery:
  assumes "fold_r step es s = Inr t" and "ident ` set again \<subseteq> ident ` set es"
  shows "fold_r step again t = Inr t"
  using assms(2)
proof (induction again)
  case (Cons e again)
  have "step e t = Inr t"
  proof (cases "ident e \<in> known s")
    case True
    then have "ident e \<in> handled t" using run_handled [OF assms(1)] Cons.prems by auto
    then show ?thesis by (rule skip_handled)
  next
    case False
    then show ?thesis using run_known [OF assms(1)] by (intro skip_unknown) simp
  qed
  then show ?case using Cons by simp
qed simp

lemma run_first_deliveries:
  "seen \<inter> known s \<subseteq> handled s \<Longrightarrow> fold_r step (first_deliveries ident seen es) s = fold_r step es s"
proof (induction es arbitrary: seen s)
  case (Cons e es)
  show ?case
  proof (cases "ident e \<in> seen")
    case True
    have "step e s = Inr s"
      using True Cons.prems by (cases "ident e \<in> known s") (auto intro: skip_handled skip_unknown)
    with True Cons show ?thesis by simp
  next
    case False
    show ?thesis
    proof (cases "step e s")
      case (Inr t)
      have "insert (ident e) seen \<inter> known t \<subseteq> handled t"
        using Cons.prems step_known [OF Inr] step_handled [OF Inr] skip_unknown [of e s] Inr
        by (cases "ident e \<in> known s") auto
      from Cons.IH [OF this] False Inr show ?thesis by simp
    qed (use False in simp)
  qed
qed simp

end

section \<open>Projecting one event\<close>

text \<open>
  The three clock readings of one call: the default of \<open>processed_at\<close>, the reducer's, and the one
  the focus is computed at.
\<close>

record proj_clock =
  pk_processed :: instant
  pk_reduced :: instant
  pk_focus :: instant

text \<open>\<open>_public_state\<close>: the state with its identifier and time stamp as text.\<close>

record public_state =
  pb_core :: match_core
  pb_last_event_id :: string
  pb_last_event_type :: "string option"
  pb_updated_at :: string

definition public_state_of :: "match_state \<Rightarrow> public_state" where
  "public_state_of s =
     \<lparr>pb_core = match_core.truncate s,
      pb_last_event_id = (case ms_last_event_id s of Some i \<Rightarrow> uuid_str i | None \<Rightarrow> ''None''),
      pb_last_event_type = ms_last_event_type s, pb_updated_at = isoformat (ms_updated_at s)\<rparr>"

record notification =
  nt_cursor :: int
  nt_event_id :: string
  nt_event_type :: string
  nt_source :: string
  nt_subject_id :: string
  nt_timestamp :: string
  nt_observed_at :: string
  nt_payload :: dict
  nt_state :: "(int \<times> focus_state \<times> public_state) option"

definition match_prefix :: string where
  "match_prefix = ''football.match.''"

text \<open>
  The football branch: the projection after the event and the new state, if there is one.  A new
  state that does not fit the columns of \<open>match_state\<close> is refused when it is flushed.
\<close>

definition project_match ::
  "instant \<Rightarrow> event \<Rightarrow> match_state list \<Rightarrow> (match_state option \<times> match_state list) result" where
  "project_match now e rows =
     (if startswith (ev_event_type e) match_prefix then
        (let current = map_option match_core.truncate (find_match (ev_subject_id e) rows)
         in if is_stale current e then Inr (None, rows)
            else bind_r (reduce_match_state now current e) (\<lambda>r. case r of
                   Same \<Rightarrow> Inr (None, rows)
                 | Next s \<Rightarrow> bind_r (ensure (match_fits s) (DataError ''match_state'')) (\<lambda>_.
                     Inr (Some s, save_match s rows))))
      else Inr (None, rows))"

definition timeline_fits :: "event \<Rightarrow> bool" where
  "timeline_fits e \<longleftrightarrow> length (ev_event_type e) \<le> 100 \<and> length (ev_source e) \<le> 100 \<and> length (ev_subject_id e) \<le> 100"

definition timeline_row_of :: "event \<Rightarrow> int \<Rightarrow> timeline_row" where
  "timeline_row_of e cursor =
     \<lparr>tl_cursor = cursor, tl_event_id = ev_event_id e, tl_event_type = ev_event_type e,
      tl_source = ev_source e, tl_subject_id = ev_subject_id e, tl_occurred_at = ev_occurred_at e,
      tl_payload = ev_payload e\<rparr>"

definition notification_of :: "instant \<Rightarrow> event \<Rightarrow> int \<Rightarrow> match_state option \<Rightarrow> notification" where
  "notification_of now e cursor next_state =
     \<lparr>nt_cursor = cursor, nt_event_id = uuid_str (ev_event_id e), nt_event_type = ev_event_type e,
      nt_source = ev_source e, nt_subject_id = ev_subject_id e,
      nt_timestamp = isoformat (ev_occurred_at e), nt_observed_at = isoformat (ev_observed_at e),
      nt_payload = ev_payload e,
      nt_state = map_option (\<lambda>s.
        (let focus = focus_for_match (ms_status s) (Some (ev_event_type e)) (Some (ms_updated_at s)) now
                       (Some (ev_subject_id e)) ''football''
         in (fs_score focus, focus, public_state_of s))) next_state\<rparr>"

definition is_processed :: "uuid \<Rightarrow> db \<Rightarrow> bool" where
  "is_processed i d =
     ((CONSUMER_NAME, i) \<in> set (map (\<lambda>r. (pr_consumer_name r, pr_event_id r)) (db_processed d)))"

definition is_stored :: "uuid \<Rightarrow> db \<Rightarrow> bool" where
  "is_stored i d = (i \<in> set (map ev_event_id (db_events d)))"

definition processed_row_of :: "proj_clock \<Rightarrow> event \<Rightarrow> processed_row" where
  "processed_row_of clk e =
     \<lparr>pr_consumer_name = CONSUMER_NAME, pr_event_id = ev_event_id e, pr_processed_at = pk_processed clk\<rparr>"

definition process_canonical_event ::
  "proj_clock \<Rightarrow> event \<Rightarrow> db \<Rightarrow> (notification option \<times> db) result" where
  "process_canonical_event clk e d =
     (if \<not> is_stored (ev_event_id e) d then Inr (None, d)
      else if is_processed (ev_event_id e) d then Inr (None, d)
      else
        bind_r (project_match (pk_reduced clk) e (db_matches d)) (\<lambda>(next_state, rows).
        bind_r (ensure (timeline_fits e) (DataError ''pulse_timeline'')) (\<lambda>_.
        bind_r (ensure (ev_event_id e \<notin> set (map tl_event_id (db_timeline d)))
                  (IntegrityError ''pulse_timeline_event_id_key'')) (\<lambda>_.
        let cursor = db_next_cursor d in
        Inr (Some (notification_of (pk_focus clk) e cursor next_state),
             d\<lparr>db_matches := rows,
               db_timeline := db_timeline d @ [timeline_row_of e cursor],
               db_processed := db_processed d @ [processed_row_of clk e],
               db_next_cursor := cursor + 1\<rparr>)))))"

text \<open>The database after a call, for the lemmas on runs.\<close>

definition project_step :: "proj_clock \<times> event \<Rightarrow> db \<Rightarrow> db result" where
  "project_step x d = bind_r (process_canonical_event (fst x) (snd x) d) (\<lambda>(n, d'). Inr d')"


lemma is_processed_iff: "is_processed i d \<longleftrightarrow> i \<in> projected_ids d"
  by (force simp: is_processed_def projected_ids_def)

lemma projected_snoc:
  assumes "db_processed d' = db_processed d @ [r]" and "pr_consumer_name r = CONSUMER_NAME"
  shows "projected_ids d' = insert (pr_event_id r) (projected_ids d)"
proof -
  have "{x \<in> set (db_processed d'). pr_consumer_name x = CONSUMER_NAME}
      = insert r {x \<in> set (db_processed d). pr_consumer_name x = CONSUMER_NAME}"
    using assms by auto
  then show ?thesis by (simp add: projected_ids_def)
qed

lemma processed_row_simps [simp]:
  "pr_consumer_name (processed_row_of clk e) = CONSUMER_NAME"
  "pr_event_id (processed_row_of clk e) = ev_event_id e"
  by (simp_all add: processed_row_of_def)

lemma is_stored_iff: "is_stored i d \<longleftrightarrow> i \<in> event_ids d"
  by (simp add: is_stored_def)

lemma project_match_Inr:
  assumes "project_match now e rows = Inr (ns, rows')"
  shows "(ns = None \<and> rows' = rows) \<or>
    (\<exists>s. ns = Some s \<and> rows' = save_match s rows \<and> ms_match_id s = ev_subject_id e
       \<and> startswith (ev_event_type e) match_prefix
       \<and> reduce_match_state now (map_option match_core.truncate (find_match (ev_subject_id e) rows)) e = Inr (Next s))"
proof (cases "startswith (ev_event_type e) match_prefix
    \<and> \<not> is_stale (map_option match_core.truncate (find_match (ev_subject_id e) rows)) e")
  case False
  with assms show ?thesis by (auto simp: project_match_def Let_def split: if_split_asm)
next
  case True
  with assms obtain r where
    red: "reduce_match_state now (map_option match_core.truncate (find_match (ev_subject_id e) rows)) e = Inr r"
    and out: "(case r of Same \<Rightarrow> Inr (None, rows)
      | Next s \<Rightarrow> bind_r (ensure (match_fits s) (DataError ''match_state'')) (\<lambda>_. Inr (Some s, save_match s rows)))
      = Inr (ns, rows')"
    by (auto simp: project_match_def Let_def bind_simps)
  show ?thesis
  proof (cases r)
    case Same
    with out show ?thesis by simp
  next
    case (Next s)
    with out have "ns = Some s" "rows' = save_match s rows" by (auto simp: bind_simps)
    with True Next red show ?thesis using reducer_next_facts(1) by auto
  qed
qed

lemma process_Inr:
  "process_canonical_event clk e d = Inr (n, d') \<longleftrightarrow>
     (if is_stored (ev_event_id e) d \<and> \<not> is_processed (ev_event_id e) d then
        \<exists>ns rows. project_match (pk_reduced clk) e (db_matches d) = Inr (ns, rows) \<and> timeline_fits e
          \<and> ev_event_id e \<notin> tl_event_id ` set (db_timeline d)
          \<and> n = Some (notification_of (pk_focus clk) e (db_next_cursor d) ns)
          \<and> d' = d\<lparr>db_matches := rows,
               db_timeline := db_timeline d @ [timeline_row_of e (db_next_cursor d)],
               db_processed := db_processed d @ [processed_row_of clk e],
               db_next_cursor := db_next_cursor d + 1\<rparr>
      else n = None \<and> d' = d)"
  by (auto simp: process_canonical_event_def bind_simps Let_def)

lemma project_match_distinct:
  assumes "project_match now e rows = Inr (ns, rows')" and "distinct (map ms_match_id rows)"
  shows "distinct (map ms_match_id rows')"
  using project_match_Inr [OF assms(1)] assms(2) matches.ok_put by auto

lemma process_preserves_ok:
  assumes p: "process_canonical_event clk e d = Inr (n, d')" and ok: "db_ok hash d"
  shows "db_ok hash d'"
proof (cases "is_stored (ev_event_id e) d \<and> \<not> is_processed (ev_event_id e) d")
  case False
  with p ok show ?thesis by (simp add: process_Inr)
next
  case True
  then obtain ns rows where m: "project_match (pk_reduced clk) e (db_matches d) = Inr (ns, rows)"
    and new: "ev_event_id e \<notin> tl_event_id ` set (db_timeline d)"
    and d': "d' = d\<lparr>db_matches := rows,
               db_timeline := db_timeline d @ [timeline_row_of e (db_next_cursor d)],
               db_processed := db_processed d @ [processed_row_of clk e],
               db_next_cursor := db_next_cursor d + 1\<rparr>"
    using p by (auto simp: process_Inr)
  have stored: "ev_event_id e \<in> event_ids d" and unproc: "ev_event_id e \<notin> projected_ids d"
    using True by (simp_all add: is_stored_iff is_processed_iff)
  have "distinct (map ms_match_id rows)"
    using project_match_distinct [OF m] ok by (simp add: db_ok_defs)
  then have "unique_ok d'"
    using ok new unproc unfolding db_ok_def schema_ok_def sequence_ok_def
    by (auto simp: d' unique_ok_def timeline_row_of_def projected_ids_def)
  moreover have "foreign_ok d'" "sequence_ok d'"
    using ok stored unfolding db_ok_def schema_ok_def
    by (auto simp: d' foreign_ok_def sequence_ok_def timeline_row_of_def)
  moreover have "outbox_complete d'" "tombstones_ok hash d'"
    using ok by (simp_all add: db_ok_def d' outbox_complete_def tombstones_ok_def)
  moreover have "timeline_matches d'"
  proof -
    have "projected_ids d' = insert (ev_event_id e) (projected_ids d)"
      using projected_snoc [of d' d "processed_row_of clk e"] by (simp add: d')
    then show ?thesis using ok by (simp add: db_ok_def timeline_matches_def d' timeline_row_of_def)
  qed
  ultimately show ?thesis by (simp add: db_ok_def schema_ok_def)
qed

lemma project_step_Inr:
  "project_step x d = Inr d' \<longleftrightarrow> (\<exists>n. process_canonical_event (fst x) (snd x) d = Inr (n, d'))"
  by (auto simp: project_step_def bind_simps)

interpretation projector: idempotent_consumer project_step "\<lambda>x. ev_event_id (snd x)"
    "\<lambda>d. event_ids d" projected_ids
proof
  fix x d
  show "ev_event_id (snd x) \<in> projected_ids d \<Longrightarrow> project_step x d = Inr d"
    by (simp add: project_step_Inr process_Inr is_processed_iff)
next
  fix x d
  show "ev_event_id (snd x) \<notin> event_ids d \<Longrightarrow> project_step x d = Inr d"
    by (simp add: project_step_Inr process_Inr is_stored_iff)
next
  fix x d t
  assume "project_step x d = Inr t" and "ev_event_id (snd x) \<in> event_ids d"
  then show "projected_ids t = insert (ev_event_id (snd x)) (projected_ids d)"
    by (auto simp: project_step_Inr process_Inr is_stored_iff is_processed_iff projected_snoc
        split: if_split_asm)
next
  fix x d t
  assume "project_step x d = Inr t"
  then show "event_ids t = event_ids d"
    by (auto simp: project_step_Inr process_Inr split: if_split_asm)
qed

lemma run_preserves_ok:
  "fold_r project_step xs d = Inr d' \<Longrightarrow> db_ok hash d \<Longrightarrow> db_ok hash d'"
  by (erule fold_r_invariant) (auto simp: project_step_Inr intro: process_preserves_ok)

section \<open>Properties of one call\<close>

text \<open>
  A call that returns has applied the event once or not at all.  Applied: one timeline row
  under the next cursor, one processed mark, and a projection that differs from the old one at the
  event's own subject at most; the notification carries that cursor.  Not applied (the event has
  been removed, or was processed before): nothing changes and no notification is produced.  Either
  way the event store and the outbox are untouched and the database stays well-formed.
\<close>

theorem process_applies_once:
  assumes "db_ok hash d" and "process_canonical_event clk e d = Inr (n, d')"
  shows "(if is_stored (ev_event_id e) d \<and> \<not> is_processed (ev_event_id e) d
      then db_timeline d' = db_timeline d @ [timeline_row_of e (db_next_cursor d)]
        \<and> projected_ids d' = insert (ev_event_id e) (projected_ids d)
        \<and> (\<forall>k. k \<noteq> ev_subject_id e \<longrightarrow> find_match k (db_matches d') = find_match k (db_matches d))
        \<and> map_option nt_cursor n = Some (db_next_cursor d)
      else d' = d \<and> n = None)
    \<and> db_events d' = db_events d \<and> db_outbox d' = db_outbox d \<and> db_ok hash d'"
proof (cases "is_stored (ev_event_id e) d \<and> \<not> is_processed (ev_event_id e) d")
  case False
  with assms show ?thesis by (simp add: process_Inr)
next
  case True
  then obtain ns rows where m: "project_match (pk_reduced clk) e (db_matches d) = Inr (ns, rows)"
    and n: "n = Some (notification_of (pk_focus clk) e (db_next_cursor d) ns)"
    and d': "d' = d\<lparr>db_matches := rows,
               db_timeline := db_timeline d @ [timeline_row_of e (db_next_cursor d)],
               db_processed := db_processed d @ [processed_row_of clk e],
               db_next_cursor := db_next_cursor d + 1\<rparr>"
    using assms(2) by (auto simp: process_Inr)
  have other: "find_match k rows = find_match k (db_matches d)" if "k \<noteq> ev_subject_id e" for k
    using project_match_Inr [OF m] that by (auto simp: matches.lookup_put)
  have "projected_ids d' = insert (ev_event_id e) (projected_ids d)"
    using projected_snoc [of d' d "processed_row_of clk e"] by (simp add: d')
  then show ?thesis
    using True other process_preserves_ok [OF assms(2,1)]
    by (simp add: d' n notification_of_def)
qed


definition sample_clock :: proj_clock where
  "sample_clock = \<lparr>pk_processed = 0, pk_reduced = 0, pk_focus = 0\<rparr>"

definition sample_projector_db :: db where
  "sample_projector_db = empty_db\<lparr>db_events := [sample_goal],
     db_outbox := [new_outbox_row ''t'' 0 sample_goal 1], db_next_outbox := 2\<rparr>"

lemma sample_projector_db_ok: "db_ok (\<lambda>k. k) sample_projector_db"
  using store.persist_ok [OF empty_db_ok sample_goal_persists, of "\<lambda>k. k"]
  by (simp add: sample_projector_db_def)

lemma sample_goal_processed:
  "\<exists>n d'. process_canonical_event sample_clock sample_goal sample_projector_db = Inr (n, d')"
proof -
  have "\<not> isl (process_canonical_event sample_clock sample_goal sample_projector_db)" by code_simp
  then show ?thesis
    by (cases "process_canonical_event sample_clock sample_goal sample_projector_db") auto
qed

theorem process_applies_once_witness:
  "\<exists>n d'. process_canonical_event sample_clock sample_goal sample_projector_db = Inr (n, d')
     \<and> map_option nt_cursor n = Some 1 \<and> length (db_timeline d') = 1"
proof -
  obtain n d' where run: "process_canonical_event sample_clock sample_goal sample_projector_db = Inr (n, d')"
    using sample_goal_processed by blast
  have "is_stored (ev_event_id sample_goal) sample_projector_db"
    "\<not> is_processed (ev_event_id sample_goal) sample_projector_db"
    by (simp_all add: is_stored_def is_processed_def sample_projector_db_def empty_db_def)
  with process_applies_once [OF sample_projector_db_ok run] run show ?thesis
    by (auto simp: sample_projector_db_def empty_db_def)
qed

section \<open>Properties of deliveries\<close>

text \<open>
  C4.  At-least-once delivery has exactly-once effect.  A run over deliveries with repetitions
  ends in the state of the run over the first delivery of each event; afterwards the processed
  events are those before and the delivered ones that are stored; and delivering any of them again,
  in any order and at any time, changes nothing.
\<close>

theorem delivery_exactly_once_effect:
  assumes "fold_r project_step xs d = Inr d'"
  shows "fold_r project_step (first_deliveries (\<lambda>x. ev_event_id (snd x)) {} xs) d = Inr d'
    \<and> projected_ids d' = projected_ids d \<union> ((\<lambda>x. ev_event_id (snd x)) ` set xs \<inter> event_ids d)
    \<and> (\<forall>ys. (\<lambda>x. ev_event_id (snd x)) ` set ys \<subseteq> (\<lambda>x. ev_event_id (snd x)) ` set xs
          \<longrightarrow> fold_r project_step ys d' = Inr d')"
  using projector.run_first_deliveries [of "{}" d xs] projector.run_handled [OF assms]
    projector.redelivery [OF assms] assms
  by auto

theorem delivery_exactly_once_effect_witness:
  "\<exists>d'. fold_r project_step [(sample_clock, sample_goal), (sample_clock, sample_goal)] sample_projector_db = Inr d'
     \<and> projected_ids d' = {7}
     \<and> fold_r project_step [(sample_clock\<lparr>pk_processed := 99\<rparr>, sample_goal)] d' = Inr d'"
proof -
  have "\<not> isl (fold_r project_step [(sample_clock, sample_goal), (sample_clock, sample_goal)] sample_projector_db)"
    by code_simp
  then obtain d' where run:
    "fold_r project_step [(sample_clock, sample_goal), (sample_clock, sample_goal)] sample_projector_db = Inr d'"
    by (cases "fold_r project_step [(sample_clock, sample_goal), (sample_clock, sample_goal)] sample_projector_db") auto
  note once = delivery_exactly_once_effect [OF run]
  have "projected_ids d' = projected_ids sample_projector_db
      \<union> ((\<lambda>x. ev_event_id (snd x)) ` set [(sample_clock, sample_goal), (sample_clock, sample_goal)]
         \<inter> event_ids sample_projector_db)"
    using once by blast
  moreover have "projected_ids sample_projector_db = {}" "event_ids sample_projector_db = {7}"
    "ev_event_id sample_goal = 7"
    by (simp_all add: sample_projector_db_def empty_db_def projected_ids_def sample_goal_def sample_event_def)
  ultimately have ids: "projected_ids d' = {7}" by simp
  have "fold_r project_step [(sample_clock\<lparr>pk_processed := 99\<rparr>, sample_goal)] d' = Inr d'"
    using once by (elim conjE) (drule spec, erule mp, simp)
  with run ids show ?thesis by blast
qed

text \<open>The match projection over a run.\<close>

definition match_core_of :: "string \<Rightarrow> db \<Rightarrow> match_core option" where
  "match_core_of k d = map_option match_core.truncate (find_match k (db_matches d))"

definition program_event :: "event \<Rightarrow> bool" where
  "program_event e \<longleftrightarrow> (\<exists>t p. football_event t p e) \<or> \<not> startswith (ev_event_type e) match_prefix"

definition matches_ok :: "db \<Rightarrow> bool" where
  "matches_ok d \<longleftrightarrow> (\<forall>k. core_ok (match_core_of k d))"

lemma process_match:
  assumes "process_canonical_event clk e d = Inr (n, d')"
  shows "match_core_of k d' = match_core_of k d \<or>
    (k = ev_subject_id e \<and> startswith (ev_event_type e) match_prefix \<and>
     (\<exists>s. match_core_of k d' = Some (match_core.truncate s)
        \<and> reduce_match_state (pk_reduced clk) (match_core_of k d) e = Inr (Next s)))"
proof (cases "is_stored (ev_event_id e) d \<and> \<not> is_processed (ev_event_id e) d")
  case False
  with assms show ?thesis by (simp add: process_Inr)
next
  case True
  then obtain ns rows where m: "project_match (pk_reduced clk) e (db_matches d) = Inr (ns, rows)"
    and rows: "db_matches d' = rows"
    using assms by (auto simp: process_Inr)
  consider "rows = db_matches d"
    | s where "rows = save_match s (db_matches d)" "ms_match_id s = ev_subject_id e"
        "startswith (ev_event_type e) match_prefix"
        "reduce_match_state (pk_reduced clk) (match_core_of (ev_subject_id e) d) e = Inr (Next s)"
    using project_match_Inr [OF m] unfolding match_core_of_def by blast
  then show ?thesis
  proof cases
    case 1
    then show ?thesis by (simp add: match_core_of_def rows)
  next
    case (2 s)
    show ?thesis
    proof (cases "k = ev_subject_id e")
      case True
      then have "match_core_of k d' = Some (match_core.truncate s)"
        using 2(1,2) by (simp add: match_core_of_def rows matches.lookup_put)
      with True 2(3,4) show ?thesis by simp
    next
      case False
      then show ?thesis using 2(1,2) by (simp add: match_core_of_def rows matches.lookup_put)
    qed
  qed
qed

lemma process_version:
  assumes "process_canonical_event clk e d = Inr (n, d')"
  shows "match_core_of k d = None \<or> version_of (match_core_of k d) \<le> version_of (match_core_of k d')"
  using process_match [OF assms, of k] reducer_next_facts(2,4)
  by (cases "match_core_of k d") (fastforce simp: version_of_def)+

lemma process_matches_ok:
  assumes p: "process_canonical_event clk e d = Inr (n, d')" and "program_event e" and "matches_ok d"
  shows "matches_ok d'"
  unfolding matches_ok_def
proof
  fix k
  consider "match_core_of k d' = match_core_of k d"
    | s where "startswith (ev_event_type e) match_prefix"
        "match_core_of k d' = Some (match_core.truncate s)"
        "reduce_match_state (pk_reduced clk) (match_core_of k d) e = Inr (Next s)"
    using process_match [OF p, of k] by blast
  then show "core_ok (match_core_of k d')"
  proof cases
    case 1
    with assms(3) show ?thesis by (simp add: matches_ok_def)
  next
    case (2 s)
    obtain t p where fe: "football_event t p e" using 2(1) assms(2) unfolding program_event_def by blast
    have "core_ok (match_core_of k d)" using assms(3) by (simp add: matches_ok_def)
    from reduce_core_ok [OF fe this 2(3)] show ?thesis by (simp only: 2(2))
  qed
qed

lemma run_match_invariants:
  assumes "fold_r project_step xs d = Inr d'" and "\<forall>x \<in> set xs. program_event (snd x)" and "matches_ok d"
  shows "matches_ok d' \<and> (match_core_of k d = None \<or>
           match_core_of k d' \<noteq> None \<and> version_of (match_core_of k d) \<le> version_of (match_core_of k d'))"
  using assms
proof (induction xs arbitrary: d)
  case (Cons x xs)
  then obtain n u where u: "process_canonical_event (fst x) (snd x) d = Inr (n, u)"
    and r: "fold_r project_step xs u = Inr d'"
    by (auto simp: bind_simps project_step_Inr)
  have ok: "matches_ok u" using process_matches_ok [OF u] Cons.prems by simp
  have "match_core_of k u \<noteq> None" if "match_core_of k d \<noteq> None"
    using process_match [OF u, of k] that by auto
  then show ?case
    using Cons.IH [OF r _ ok] Cons.prems(2) process_version [OF u, of k] by auto
qed auto

text \<open>
  What readers of the projection rely on.  Any run over events the program itself writes keeps
  every row of \<open>match_state\<close> within its invariant (scores and minute in range, status and phase from
  the known lists and agreeing with each other) and the database well-formed, and never takes the
  version of a match back.
\<close>

theorem projection_invariant:
  assumes "fold_r project_step xs d = Inr d'" and "\<forall>x \<in> set xs. program_event (snd x)"
    and "matches_ok d" and "db_ok hash d"
  shows "matches_ok d' \<and> db_ok hash d' \<and>
    (\<forall>k. match_core_of k d \<noteq> None \<longrightarrow>
       match_core_of k d' \<noteq> None \<and> version_of (match_core_of k d) \<le> version_of (match_core_of k d'))"
proof (intro conjI allI impI)
  fix k
  assume "match_core_of k d \<noteq> None"
  with run_match_invariants [OF assms(1-3), of k] show "match_core_of k d' \<noteq> None"
    and "version_of (match_core_of k d) \<le> version_of (match_core_of k d')"
    by simp_all
qed (use run_match_invariants [OF assms(1-3)] run_preserves_ok [OF assms(1,4)] in simp_all)

lemma sample_goal_program: "program_event sample_goal"
proof -
  have "football_event GOAL (sample_payload (Some ''home'')) sample_goal"
    by (simp add: football_event_def sample_goal_def sample_defs football_payload_ok_def)
  then show ?thesis unfolding program_event_def by blast
qed

theorem projection_invariant_witness:
  "\<exists>d'. fold_r project_step [(sample_clock, sample_goal)] sample_projector_db = Inr d'
     \<and> matches_ok d' \<and> db_ok (\<lambda>k. k) d'"
proof -
  have "\<not> isl (fold_r project_step [(sample_clock, sample_goal)] sample_projector_db)"
    by code_simp
  then obtain d' where run: "fold_r project_step [(sample_clock, sample_goal)] sample_projector_db = Inr d'"
    by (cases "fold_r project_step [(sample_clock, sample_goal)] sample_projector_db") auto
  have "matches_ok sample_projector_db"
    by (simp add: matches_ok_def match_core_of_def sample_projector_db_def empty_db_def find_match_def core_ok_def)
  with projection_invariant [OF run _ _ sample_projector_db_ok] run show ?thesis
    by (simp add: sample_goal_program)
qed

end
