(* ===== verification/Consumer.thy ===== *)
theory Consumer
  imports Projector
begin

text \<open>
  The polling side of \<open>backend/app/projections/projector.py\<close>: \<open>_process_message\<close> and the body of
  \<open>run_projector\<close>.  A poll reads the records after the committed position, projects them one by one,
  each in a transaction of its own, and commits the position only when all of them went through;
  an exception drops the consumer, and the next one starts again at the committed position.  The
  broker is the list of its records; decoding a record (\<open>json.loads\<close> and the \<open>pydantic\<close> validation)
  is a parameter.
\<close>

section \<open>One poll\<close>

definition process_message ::
  "('m \<Rightarrow> event result) \<Rightarrow> proj_clock \<Rightarrow> 'm \<Rightarrow> db \<Rightarrow> (notification option \<times> db) result" where
  "process_message decode clk m d = bind_r (decode m) (\<lambda>e. process_canonical_event clk e d)"

text \<open>
  The records of a batch: the notifications handed to the realtime manager, the database, and the
  exception that stopped the loop, if any.
\<close>

fun process_batch ::
  "('m \<Rightarrow> event result) \<Rightarrow> (nat \<Rightarrow> proj_clock) \<Rightarrow> nat \<Rightarrow> 'm list \<Rightarrow> db
     \<Rightarrow> notification list \<times> db \<times> py_error option" where
  "process_batch decode clk i [] d = ([], d, None)"
| "process_batch decode clk i (m # ms) d =
     (case process_message decode (clk i) m d of
        Inl err \<Rightarrow> ([], d, Some err)
      | Inr (n, d') \<Rightarrow>
          (let (ns, d'', err) = process_batch decode clk (Suc i) ms d'
           in (case n of Some x \<Rightarrow> x # ns | None \<Rightarrow> ns, d'', err)))"

record 'm consumer =
  cs_log :: "'m list"
  cs_committed :: nat
  cs_db :: db
  cs_component :: "string \<times> string"

text \<open>
  \<open>getmany\<close> returns at most \<open>max_records\<close> (50 in the code) records after the position, and possibly
  fewer: \<open>n\<close> is what it returned.  The commit at the end of a batch is a call of the broker and may
  fail; an empty batch is not committed.
\<close>

definition max_records :: nat where
  "max_records = 50"

definition poll_once ::
  "('m \<Rightarrow> event result) \<Rightarrow> (nat \<Rightarrow> proj_clock) \<Rightarrow> nat \<Rightarrow> bool \<Rightarrow> 'm consumer
     \<Rightarrow> notification list \<times> py_error option \<times> 'm consumer" where
  "poll_once decode clk n commits c =
     (let batch = take (min n max_records) (drop (cs_committed c) (cs_log c));
          (ns, d, err) = process_batch decode clk 0 batch (cs_db c);
          failed = (case err of
              Some x \<Rightarrow> Some x
            | None \<Rightarrow> if batch \<noteq> [] \<and> \<not> commits then Some (RuntimeError ''commit'') else None)
      in case failed of
           None \<Rightarrow> (ns, None, c\<lparr>cs_committed := cs_committed c + length batch, cs_db := d,
                      cs_component := (''healthy'', ''poll_complete'')\<rparr>)
         | Some x \<Rightarrow> (ns, Some x, c\<lparr>cs_db := d, cs_component := (''degraded'', ''consumer_disconnected'')\<rparr>))"

text \<open>
  Between polls the publisher may append records, and the rest of the program may write the database.
  A schedule is the list of what happens here: records that arrive, and polls with their clocks,
  sizes and commits.
\<close>

datatype 'm consumer_action = Arrive "'m list" | Poll "nat \<Rightarrow> proj_clock" nat bool

fun consumer_step :: "('m \<Rightarrow> event result) \<Rightarrow> 'm consumer_action \<Rightarrow> 'm consumer \<Rightarrow> 'm consumer" where
  "consumer_step decode (Arrive ms) c = c\<lparr>cs_log := cs_log c @ ms\<rparr>"
| "consumer_step decode (Poll clk n commits) c = snd (snd (poll_once decode clk n commits c))"

definition consumer_run :: "('m \<Rightarrow> event result) \<Rightarrow> 'm consumer_action list \<Rightarrow> 'm consumer \<Rightarrow> 'm consumer" where
  "consumer_run decode steps c = fold (consumer_step decode) steps c"

section \<open>A batch\<close>

text \<open>A record whose event the database has already recorded, or no longer holds, changes nothing.\<close>

definition settled :: "('m \<Rightarrow> event result) \<Rightarrow> db \<Rightarrow> 'm \<Rightarrow> bool" where
  "settled decode d m \<longleftrightarrow>
     (\<exists>e. decode m = Inr e \<and> (ev_event_id e \<in> event_ids d \<longrightarrow> ev_event_id e \<in> projected_ids d))"

lemma settled_skip: "settled decode d m \<Longrightarrow> process_message decode clk m d = Inr (None, d)"
  by (auto simp: settled_def process_message_def bind_simps process_canonical_event_def
      is_stored_iff is_processed_iff)

lemma process_message_grows:
  assumes "process_message decode clk m d = Inr (n, d')"
  shows "settled decode d' m" "event_ids d' = event_ids d" "projected_ids d \<subseteq> projected_ids d'"
proof -
  obtain e where e: "decode m = Inr e" and s: "project_step (clk, e) d = Inr d'"
    using assms by (auto simp: process_message_def bind_simps project_step_Inr)
  show ev: "event_ids d' = event_ids d" using projector.step_known [OF s] .
  show "projected_ids d \<subseteq> projected_ids d'"
  proof (cases "ev_event_id e \<in> event_ids d")
    case True
    then show ?thesis using projector.step_handled [OF s] by auto
  next
    case False
    then have "d' = d" using projector.skip_unknown [of "(clk, e)" d] s by simp
    then show ?thesis by simp
  qed
  show "settled decode d' m"
  proof (cases "ev_event_id e \<in> event_ids d")
    case True
    then show ?thesis using projector.step_handled [OF s] e by (simp add: settled_def)
  qed (simp add: settled_def e ev)
qed

lemma settled_mono:
  "settled decode d m \<Longrightarrow> event_ids d' = event_ids d \<Longrightarrow> projected_ids d \<subseteq> projected_ids d' \<Longrightarrow> settled decode d' m"
  by (auto simp: settled_def)

lemma process_batch_grows:
  "process_batch decode clk i ms d = (ns, d', err) \<Longrightarrow>
     event_ids d' = event_ids d \<and> projected_ids d \<subseteq> projected_ids d'"
proof (induction ms arbitrary: i d ns)
  case (Cons m ms)
  show ?case
  proof (cases "process_message decode (clk i) m d")
    case (Inr r)
    obtain n u where r: "r = (n, u)" by (cases r)
    obtain ns' d2 err' where rest: "process_batch decode clk (Suc i) ms u = (ns', d2, err')"
      by (cases "process_batch decode clk (Suc i) ms u") auto
    with Cons.prems Inr r have same: "d2 = d'" "err' = err" by auto
    show ?thesis
      using Cons.IH [OF rest [unfolded same]] process_message_grows(2,3) [OF Inr [unfolded r]] by auto
  qed (use Cons.prems in auto)
qed simp

lemma settled_after:
  assumes "process_batch decode clk i ms d = (ns, d', err)" and "list_all (settled decode d) xs"
  shows "list_all (settled decode d') xs"
proof -
  have "event_ids d' = event_ids d" "projected_ids d \<subseteq> projected_ids d'"
    using process_batch_grows [OF assms(1)] by simp_all
  then have "settled decode d' m" if "settled decode d m" for m
    by (rule settled_mono [OF that])
  then show ?thesis using assms(2) by (simp add: list_all_iff)
qed

lemma process_batch_complete:
  "process_batch decode clk i ms d = (ns, d', None) \<Longrightarrow> \<forall>m \<in> set ms. settled decode d' m"
proof (induction ms arbitrary: i d ns)
  case (Cons m ms)
  show ?case
  proof (cases "process_message decode (clk i) m d")
    case (Inr r)
    obtain n u where r: "r = (n, u)" by (cases r)
    obtain ns' d2 err' where rest: "process_batch decode clk (Suc i) ms u = (ns', d2, err')"
      by (cases "process_batch decode clk (Suc i) ms u") auto
    with Cons.prems Inr r have same: "d2 = d'" "err' = None" by auto
    note rest = rest [unfolded same]
    have "settled decode d' m"
      using settled_mono [OF process_message_grows(1) [OF Inr [unfolded r]]] process_batch_grows [OF rest]
      by blast
    then show ?thesis using Cons.IH [OF rest] by simp
  qed (use Cons.prems in simp)
qed simp

text \<open>Settled records are passed over; a refused one stops the batch.\<close>

lemma process_batch_settled:
  "\<forall>m \<in> set ms. settled decode d m \<Longrightarrow> process_batch decode clk i (ms @ rest) d
     = process_batch decode clk (i + length ms) rest d"
  by (induction ms arbitrary: i) (simp_all add: settled_skip)

lemma process_batch_append:
  "process_batch decode clk i (ms @ rest) d =
     (let (ns, d', err) = process_batch decode clk i ms d
      in case err of Some x \<Rightarrow> (ns, d', Some x)
         | None \<Rightarrow> (let (ns', d'', err') = process_batch decode clk (i + length ms) rest d'
                   in (ns @ ns', d'', err')))"
  by (induction ms arbitrary: i d) (auto simp: Let_def split: sum.splits prod.splits option.splits)

text \<open>Where a batch stops.\<close>

lemma process_batch_stops:
  "process_batch decode clk i ms d = (ns, d', Some x) \<Longrightarrow>
     \<exists>j < length ms. process_message decode (clk (i + j)) (ms ! j) d' = Inl x
       \<and> (\<forall>m \<in> set (take j ms). settled decode d' m)"
proof (induction ms arbitrary: i d ns)
  case (Cons m ms)
  show ?case
  proof (cases "process_message decode (clk i) m d")
    case (Inl y)
    then show ?thesis using Cons.prems by (intro exI [of _ 0]) simp
  next
    case (Inr r)
    obtain n u where r: "r = (n, u)" by (cases r)
    obtain ns' d2 err' where rest: "process_batch decode clk (Suc i) ms u = (ns', d2, err')"
      by (cases "process_batch decode clk (Suc i) ms u") auto
    with Cons.prems Inr r have same: "d2 = d'" "err' = Some x" by auto
    note rest = rest [unfolded same]
    obtain j where j: "j < length ms" "process_message decode (clk (Suc i + j)) (ms ! j) d' = Inl x"
      "\<forall>m \<in> set (take j ms). settled decode d' m"
      using Cons.IH [OF rest] by blast
    have "settled decode d' m"
      using settled_mono [OF process_message_grows(1) [OF Inr [unfolded r]]] process_batch_grows [OF rest]
      by blast
    then show ?thesis using j by (intro exI [of _ "Suc j"]) simp
  qed
qed simp

text \<open>
  The clock reaches the state in \<open>updated_at\<close> only, so whether a record is refused does not depend on
  the time of the poll.
\<close>

lemma clock_frame:
  "add_goal p (s\<lparr>ms_updated_at := x\<rparr>) = bind_r (add_goal p s) (\<lambda>t. Inr (t\<lparr>ms_updated_at := x\<rparr>))"
  "goal_phase (s\<lparr>ms_updated_at := x\<rparr>) = goal_phase s\<lparr>ms_updated_at := x\<rparr>"
  "apply_in_play (s\<lparr>ms_updated_at := x\<rparr>) = apply_in_play s\<lparr>ms_updated_at := x\<rparr>"
  "apply_score_corrected p (s\<lparr>ms_updated_at := x\<rparr>)
     = bind_r (apply_score_corrected p s) (\<lambda>t. Inr (t\<lparr>ms_updated_at := x\<rparr>))"
  by (simp_all add: add_goal_def goal_phase_def apply_in_play_def stopped_def half_phase_def
      apply_score_corrected_def bind_r_def split: sum.split)

lemma apply_goal_clock:
  "apply_goal p (s\<lparr>ms_updated_at := x\<rparr>) = bind_r (apply_goal p s) (\<lambda>t. Inr (t\<lparr>ms_updated_at := x\<rparr>))"
  by (cases "add_goal p s") (simp_all add: apply_goal_def clock_frame)

lemma apply_event_type_clock:
  "apply_event_type t p (s\<lparr>ms_updated_at := x\<rparr>)
     = bind_r (apply_event_type t p s) (\<lambda>t. Inr (t\<lparr>ms_updated_at := x\<rparr>))"
  by (simp add: apply_event_type_def apply_goal_clock clock_frame unless_fulltime_def)

lemma base_state_clock:
  "base_state now' current e = bind_r (base_state now current e) (\<lambda>s. Inr (s\<lparr>ms_updated_at := now'\<rparr>))"
  by (simp add: base_state_def bind_r_def split: sum.split)

fun restamp :: "instant \<Rightarrow> reduced \<Rightarrow> reduced" where
  "restamp now Same = Same"
| "restamp now (Next s) = Next (s\<lparr>ms_updated_at := now\<rparr>)"

lemma reduce_clock:
  "reduce_match_state now' current e = bind_r (reduce_match_state now current e) (\<lambda>r. Inr (restamp now' r))"
proof (cases "is_stale current e \<or> is_late_fact current e")
  case False
  then show ?thesis
    by (cases "base_state now current e"; cases "apply_event_type (ev_event_type e) (ev_payload e) (projr (base_state now current e))")
      (simp_all add: reduce_match_state_def base_state_clock [of now' current e now] apply_event_type_clock)
qed (auto simp: reduce_match_state_def)

lemma match_fits_clock [simp]: "match_fits (s\<lparr>ms_updated_at := x\<rparr>) = match_fits s"
  by (simp add: match_fits_def)

lemma project_match_refusal:
  assumes "project_match now e rows = Inl x"
  shows "project_match now' e rows = Inl x"
proof -
  define cur where "cur = map_option match_core.truncate (find_match (ev_subject_id e) rows)"
  have red: "reduce_match_state now' cur e = bind_r (reduce_match_state now cur e) (\<lambda>r. Inr (restamp now' r))"
    by (rule reduce_clock)
  show ?thesis
  proof (cases "reduce_match_state now cur e")
    case (Inl y)
    with assms red show ?thesis
      by (simp add: project_match_def Let_def cur_def [symmetric] split: if_split_asm)
  next
    case (Inr r)
    with assms red show ?thesis
      by (cases r) (auto simp: project_match_def Let_def cur_def [symmetric] bind_simps ensure_def split: if_split_asm)
  qed
qed

lemma process_message_refusal:
  "process_message decode clk m d = Inl x \<Longrightarrow> process_message decode clk' m d = Inl x"
proof (cases "decode m")
  case (Inr e)
  assume "process_message decode clk m d = Inl x"
  then have p: "process_canonical_event clk e d = Inl x" by (simp add: process_message_def Inr)
  have "process_canonical_event clk' e d = Inl x"
  proof (cases "project_match (pk_reduced clk) e (db_matches d)")
    case (Inl y)
    with p project_match_refusal [OF Inl, of "pk_reduced clk'"] show ?thesis
      by (simp add: process_canonical_event_def split: if_split_asm)
  next
    case 1: (Inr r)
    then obtain r' where "project_match (pk_reduced clk') e (db_matches d) = Inr r'"
      using project_match_refusal [of "pk_reduced clk'" e "db_matches d" _ "pk_reduced clk"]
      by (cases "project_match (pk_reduced clk') e (db_matches d)") auto
    with p 1 show ?thesis
      by (auto simp: process_canonical_event_def bind_simps Let_def split: if_split_asm prod.splits)
  qed
  then show ?thesis by (simp add: process_message_def Inr)
qed (simp add: process_message_def)

section \<open>Schedules\<close>

text \<open>Everything below the committed position is settled.\<close>

definition consumer_ok :: "('m \<Rightarrow> event result) \<Rightarrow> 'm consumer \<Rightarrow> bool" where
  "consumer_ok decode c \<longleftrightarrow> cs_committed c \<le> length (cs_log c)
     \<and> list_all (settled decode (cs_db c)) (take (cs_committed c) (cs_log c))"

lemma poll_once_cases:
  obtains (commit) ns d b where "b = take (min n max_records) (drop (cs_committed c) (cs_log c))"
      "process_batch decode clk 0 b (cs_db c) = (ns, d, None)"
      "poll_once decode clk n commits c = (ns, None, c\<lparr>cs_committed := cs_committed c + length b, cs_db := d,
                      cs_component := (''healthy'', ''poll_complete'')\<rparr>)"
  | (fail) ns d err x b where "b = take (min n max_records) (drop (cs_committed c) (cs_log c))"
      "process_batch decode clk 0 b (cs_db c) = (ns, d, err)"
      "poll_once decode clk n commits c = (ns, Some x, c\<lparr>cs_db := d,
                      cs_component := (''degraded'', ''consumer_disconnected'')\<rparr>)"
proof -
  define b where "b = take (min n max_records) (drop (cs_committed c) (cs_log c))"
  obtain ns d err where r: "process_batch decode clk 0 b (cs_db c) = (ns, d, err)"
    by (cases "process_batch decode clk 0 b (cs_db c)") auto
  show ?thesis
  proof (cases "err = None \<and> (b = [] \<or> commits)")
    case True
    then show ?thesis using r
      by (intro commit [OF b_def]) (auto simp: poll_once_def Let_def b_def [symmetric])
  next
    case False
    then show ?thesis using r
      by (cases err; intro fail [OF b_def r, of "case err of Some x \<Rightarrow> x | None \<Rightarrow> RuntimeError ''commit''"])
        (auto simp: poll_once_def Let_def b_def [symmetric])
  qed
qed

lemma consumer_step_ok:
  assumes "consumer_ok decode c"
  shows "consumer_ok decode (consumer_step decode s c)"
proof (cases s)
  case (Arrive ms)
  with assms show ?thesis by (auto simp: consumer_ok_def)
next
  case (Poll clk n commits)
  show ?thesis
  proof (cases rule: poll_once_cases [where n = n and c = c and decode = decode and clk = clk and commits = commits])
    case (commit ns d b)
    let ?old = "take (cs_committed c) (cs_log c)"
    have "list_all (settled decode d) ?old"
      using assms settled_after [OF commit(2)] by (simp add: consumer_ok_def)
    moreover have "list_all (settled decode d) b"
      using process_batch_complete [OF commit(2)] by (simp add: list_all_iff)
    moreover have "take (cs_committed c + length b) (cs_log c) = ?old @ take (length b) (drop (cs_committed c) (cs_log c))"
      by (rule take_add)
    moreover have "take (length b) (drop (cs_committed c) (cs_log c)) = b"
      using append_take_drop_id [of "min n max_records" "drop (cs_committed c) (cs_log c)"]
      unfolding commit(1) by (metis append_eq_conv_conj)
    moreover have "cs_committed c + length b \<le> length (cs_log c)"
      using assms by (auto simp: commit(1) consumer_ok_def)
    ultimately show ?thesis by (simp add: consumer_ok_def Poll commit(3))
  next
    case (fail ns d err x b)
    then have "list_all (settled decode d) (take (cs_committed c) (cs_log c))"
      using assms settled_after [OF fail(2)] by (simp add: consumer_ok_def)
    then show ?thesis using assms by (simp add: consumer_ok_def Poll fail(3))
  qed
qed

lemma consumer_run_simps [simp]:
  "consumer_run decode [] c = c"
  "consumer_run decode (s # steps) c = consumer_run decode steps (consumer_step decode s c)"
  by (simp_all add: consumer_run_def)

lemma consumer_run_ok: "consumer_ok decode c \<Longrightarrow> consumer_ok decode (consumer_run decode steps c)"
  by (induction steps arbitrary: c) (simp_all add: consumer_step_ok)

definition new_consumer :: "'m list \<Rightarrow> db \<Rightarrow> 'm consumer" where
  "new_consumer log d = \<lparr>cs_log = log, cs_committed = 0, cs_db = d, cs_component = (''starting'', ''not_checked'')\<rparr>"

text \<open>
  C30.  No record is committed unprojected.  Whatever the schedule of arrivals, polls, batch sizes,
  refused records and failing commits, starting from the earliest record (the code's
  \<open>auto_offset_reset\<close>): the committed position stays inside the log, and every record below it
  carries an event that has been projected or that the database no longer holds.
\<close>

theorem committed_records_settled:
  "consumer_ok decode (consumer_run decode steps (new_consumer log d))"
  by (rule consumer_run_ok) (simp add: consumer_ok_def new_consumer_def)

text \<open>A refused record: everything before it is settled, it fails at every clock.\<close>

definition stuck_at :: "('m \<Rightarrow> event result) \<Rightarrow> nat \<Rightarrow> 'm consumer \<Rightarrow> bool" where
  "stuck_at decode j c \<longleftrightarrow> cs_committed c \<le> j \<and> j < length (cs_log c)
     \<and> list_all (settled decode (cs_db c)) (take (j - cs_committed c) (drop (cs_committed c) (cs_log c)))
     \<and> (\<exists>x. \<forall>clk. process_message decode clk (cs_log c ! j) (cs_db c) = Inl x)"

lemma process_batch_stuck:
  assumes "list_all (settled decode d) (take k ms)" and "k < length ms"
    and "\<forall>clk. process_message decode clk (ms ! k) d = Inl x"
  shows "process_batch decode clk 0 (take n ms) d = ([], d, if n \<le> k then None else Some x)"
proof (cases "n \<le> k")
  case True
  then have "\<forall>m \<in> set (take n ms). settled decode d m"
    using assms(1) set_take_subset_set_take [of n k ms] by (auto simp: list_all_iff)
  from process_batch_settled [OF this, of clk 0 "[]"] True show ?thesis by simp
next
  case False
  have "take n ms = take k ms @ ms ! k # drop (Suc k) (take n ms)"
    using False assms(2) id_take_nth_drop [of k "take n ms"] by simp
  then have "process_batch decode clk 0 (take n ms) d
      = process_batch decode clk (length (take k ms)) (ms ! k # drop (Suc k) (take n ms)) d"
    using process_batch_settled [of "take k ms" decode d clk 0 "ms ! k # drop (Suc k) (take n ms)"] assms(1)
    by (simp add: list_all_iff)
  with False assms(3) show ?thesis by simp
qed

lemma stuck_step:
  assumes "stuck_at decode j c"
  shows "stuck_at decode j (consumer_step decode s c) \<and> cs_db (consumer_step decode s c) = cs_db c"
proof (cases s)
  case (Arrive ms)
  with assms show ?thesis by (auto simp: stuck_at_def nth_append)
next
  case (Poll clk n commits)
  define k where "k = j - cs_committed c"
  define ms where "ms = drop (cs_committed c) (cs_log c)"
  obtain x where x: "\<forall>clk. process_message decode clk (cs_log c ! j) (cs_db c) = Inl x"
    using assms unfolding stuck_at_def by blast
  have kj: "cs_committed c + k = j" and len: "k < length ms" and nth: "ms ! k = cs_log c ! j"
    and pre: "list_all (settled decode (cs_db c)) (take k ms)"
    using assms by (auto simp: stuck_at_def k_def ms_def)
  have batch: "process_batch decode clk 0 (take (min n max_records) ms) (cs_db c)
      = ([], cs_db c, if min n max_records \<le> k then None else Some x)"
    by (rule process_batch_stuck [OF pre len]) (simp add: nth x)
  show ?thesis
  proof (cases rule: poll_once_cases [where n = n and c = c and decode = decode and clk = clk and commits = commits])
    case (commit ns d b)
    then have "min n max_records \<le> k" and d: "d = cs_db c"
      using batch by (auto simp: ms_def split: if_split_asm)
    then have lb: "length b \<le> k" by (simp add: commit(1))
    have "take (k - length b) (drop (length b) ms) = drop (length b) (take k ms)"
      by (simp add: drop_take)
    then have "list_all (settled decode (cs_db c)) (take (k - length b) (drop (length b) ms))"
      using pre by (auto simp: list_all_iff dest: in_set_dropD)
    moreover have "j - (cs_committed c + length b) = k - length b" using kj by simp
    ultimately show ?thesis
      using assms lb kj x by (simp add: stuck_at_def Poll commit(3) d ms_def add.commute [of "length b"])
  next
    case (fail ns d err y b)
    then have "d = cs_db c" using batch by (simp add: ms_def)
    then show ?thesis using assms by (simp add: stuck_at_def Poll fail(3))
  qed
qed

lemma stuck_run:
  "stuck_at decode j c \<Longrightarrow> stuck_at decode j (consumer_run decode steps c) \<and> cs_db (consumer_run decode steps c) = cs_db c"
  by (induction steps arbitrary: c) (use stuck_step in fastforce)+

text \<open>
  A refused record stops its partition for good.  If projecting the records of a poll raises,
  there is a record of the log which no later schedule gets past: whatever arrives and however often,
  in whatever batches and at whatever times the projector polls again, the committed position stays
  at or before that record, and the database stays as the failed poll left it.
\<close>

theorem refused_record_blocks:
  assumes "process_batch decode clk 0 (take (min n max_records) (drop (cs_committed c) (cs_log c))) (cs_db c)
      = (ns, d, Some x)"
  shows "\<exists>j \<ge> cs_committed c. j < length (cs_log c)
    \<and> (\<forall>steps. cs_committed (consumer_run decode steps (consumer_step decode (Poll clk n commits) c)) \<le> j
         \<and> cs_db (consumer_run decode steps (consumer_step decode (Poll clk n commits) c)) = d)"
proof -
  let ?ms = "drop (cs_committed c) (cs_log c)"
  let ?b = "take (min n max_records) ?ms"
  let ?c = "consumer_step decode (Poll clk n commits) c"
  obtain i where i: "i < length ?b" "process_message decode (clk (0 + i)) (?b ! i) d = Inl x"
    "\<forall>m \<in> set (take i ?b). settled decode d m"
    using process_batch_stops [OF assms] by blast
  have c': "cs_log ?c = cs_log c" "cs_committed ?c = cs_committed c" "cs_db ?c = d"
    using assms by (simp_all add: poll_once_def Let_def)
  have nth: "?b ! i = cs_log c ! (cs_committed c + i)" using i(1) by (simp add: less_diff_conv)
  have "\<forall>clk'. process_message decode clk' (cs_log c ! (cs_committed c + i)) d = Inl x"
    using process_message_refusal [OF i(2)] by (simp add: nth)
  moreover have "take i ?b = take i ?ms" using i(1) by simp
  ultimately have "stuck_at decode (cs_committed c + i) ?c"
    unfolding stuck_at_def c' using i by (auto simp: list_all_iff)
  from stuck_run [OF this] show ?thesis
    using i(1) unfolding stuck_at_def c'(3)
    by (intro exI [of _ "cs_committed c + i"]) auto
qed

text \<open>
  A stored event the reducer refuses: a goal without a side passes the ingestion (the field is
  optional there) and raises in the reducer.
\<close>

definition sample_sideless :: event where
  "sample_sideless = sample_event 7 GOAL 1 ''api-football:1:event:x'' 100 (sample_payload None)"

definition sample_log :: "event list" where
  "sample_log = [sample_sideless, sample_event 8 HALFTIME 2 ''api-football:1:event:y'' 200 (sample_payload None)]"

definition sample_consumer :: "event consumer" where
  "sample_consumer = new_consumer sample_log (empty_db\<lparr>db_events := sample_log\<rparr>)"

lemma sample_sideless_refused:
  "process_batch Inr (\<lambda>_. sample_clock) 0 (take (min 2 max_records) (drop (cs_committed sample_consumer) (cs_log sample_consumer)))
     (cs_db sample_consumer)
   = ([], cs_db sample_consumer, Some (ValueError ''goal event requires side=home or side=away''))"
proof -
  have "process_canonical_event sample_clock sample_sideless (cs_db sample_consumer)
      = Inl (ValueError ''goal event requires side=home or side=away'')"
    by code_simp
  moreover have "take (min 2 max_records) (drop (cs_committed sample_consumer) (cs_log sample_consumer)) = sample_log"
    by (simp add: sample_consumer_def new_consumer_def sample_log_def max_records_def)
  moreover have "process_batch Inr (\<lambda>_. sample_clock) 0 sample_log d
      = ([], d, Some x)" if "process_canonical_event sample_clock sample_sideless d = Inl x" for d x
    by (simp add: sample_log_def process_message_def that)
  ultimately show ?thesis by simp
qed

theorem refused_record_blocks_witness:
  "\<exists>j. \<forall>steps. cs_committed (consumer_run Inr steps (consumer_step Inr (Poll (\<lambda>_. sample_clock) 2 True) sample_consumer)) \<le> j
     \<and> db_timeline (cs_db (consumer_run Inr steps (consumer_step Inr (Poll (\<lambda>_. sample_clock) 2 True) sample_consumer))) = []"
proof -
  have "db_timeline (cs_db sample_consumer) = []"
    by (simp add: sample_consumer_def new_consumer_def empty_db_def)
  with refused_record_blocks [OF sample_sideless_refused, of True] show ?thesis by auto
qed

end
