(* ===== verification/Realtime.thy ===== *)
theory Realtime
  imports Health Projector
begin

text \<open>
  The in-process fan-out (\<open>backend/app/realtime/manager.py\<close>) and the websocket endpoint of
  \<open>backend/app/api/routes.py\<close> that reads from it.  A client queue is identified by a number, as the
  Python set identifies it by object; the queue of a client that has left is no longer read.
\<close>

section \<open>The manager\<close>

datatype rt_message = Item notification | Resync_required string

definition gap_message :: rt_message where
  "gap_message = Resync_required ''client_queue_overflow''"

type_synonym rt_queue = "rt_message list"

record manager =
  mg_clients :: "(nat \<times> rt_queue) list"
  mg_next_queue :: nat
  mg_overflow_count :: nat
  mg_last_overflow_at :: "instant option"

definition new_manager :: manager where
  "new_manager = \<lparr>mg_clients = [], mg_next_queue = 0, mg_overflow_count = 0, mg_last_overflow_at = None\<rparr>"

definition maxsize :: nat where
  "maxsize = 100"

definition queue_full :: "rt_queue \<Rightarrow> bool" where
  "queue_full q = (maxsize \<le> length q)"

text \<open>A full queue loses its oldest message and this one, and gets the marker instead.\<close>

definition offer :: "rt_message \<Rightarrow> rt_queue \<Rightarrow> rt_queue" where
  "offer msg q = (if queue_full q then tl q @ [gap_message] else q @ [msg])"

definition subscribe :: "manager \<Rightarrow> nat \<times> manager" where
  "subscribe m = (mg_next_queue m,
     m\<lparr>mg_clients := mg_clients m @ [(mg_next_queue m, [])], mg_next_queue := Suc (mg_next_queue m)\<rparr>)"

definition unsubscribe :: "nat \<Rightarrow> manager \<Rightarrow> manager" where
  "unsubscribe i m = m\<lparr>mg_clients := AList.delete i (mg_clients m)\<rparr>"

definition publish :: "instant \<Rightarrow> rt_message \<Rightarrow> manager \<Rightarrow> manager" where
  "publish now msg m =
     (let overflows = length (filter (\<lambda>(i, q). queue_full q) (mg_clients m))
      in m\<lparr>mg_clients := map (\<lambda>(i, q). (i, offer msg q)) (mg_clients m),
           mg_overflow_count := mg_overflow_count m + overflows,
           mg_last_overflow_at := (if overflows = 0 then mg_last_overflow_at m else Some now)\<rparr>)"

text \<open>\<open>await queue.get()\<close>, when it does not wait.\<close>

definition receive :: "nat \<Rightarrow> manager \<Rightarrow> (rt_message \<times> manager) option" where
  "receive i m = (case map_of (mg_clients m) i of
       Some (msg # q) \<Rightarrow> Some (msg, m\<lparr>mg_clients := AList.update i q (mg_clients m)\<rparr>)
     | _ \<Rightarrow> None)"

definition health_snapshot :: "instant \<Rightarrow> manager \<Rightarrow> component" where
  "health_snapshot now m =
     (let recent = (case mg_last_overflow_at m of None \<Rightarrow> False | Some t \<Rightarrow> now - t \<le> seconds 60)
      in \<lparr>co_name = ''realtime'', co_status = (if recent then Degraded else Healthy),
          co_detail = (if recent then ''client_resync_required'' else ''in_process_fanout''),
          co_checked_at = Some now, co_last_success_at = None,
          co_metrics = [(''connected_clients'', JInt (int (length (mg_clients m)))),
                        (''queue_overflows'', JInt (int (mg_overflow_count m)))]\<rparr>)"

text \<open>What can happen to the manager.\<close>

datatype rt_action =
    Subscribe
  | Unsubscribe nat
  | Publish instant rt_message
  | Receive nat

fun rt_step :: "rt_action \<Rightarrow> manager \<Rightarrow> manager" where
  "rt_step Subscribe m = snd (subscribe m)"
| "rt_step (Unsubscribe i) m = unsubscribe i m"
| "rt_step (Publish now msg) m = publish now msg m"
| "rt_step (Receive i) m = (case receive i m of Some (msg, m') \<Rightarrow> m' | None \<Rightarrow> m)"

text \<open>The messages client \<open>i\<close> is handed, and those published, over a list of actions.\<close>

fun received :: "nat \<Rightarrow> rt_action list \<Rightarrow> manager \<Rightarrow> rt_message list" where
  "received i [] m = []"
| "received i (a # as) m =
     (case a of Receive j \<Rightarrow> (if j = i then (case receive i m of Some (msg, m') \<Rightarrow> [msg] | None \<Rightarrow> []) else [])
      | _ \<Rightarrow> []) @ received i as (rt_step a m)"

fun published :: "rt_action list \<Rightarrow> rt_message list" where
  "published [] = []"
| "published (Publish now msg # as) = msg # published as"
| "published (a # as) = published as"

definition rt_run :: "rt_action list \<Rightarrow> manager \<Rightarrow> manager" where
  "rt_run as m = fold rt_step as m"

section \<open>The queue of one client\<close>

definition manager_ok :: "manager \<Rightarrow> bool" where
  "manager_ok m \<longleftrightarrow> distinct (map fst (mg_clients m))
     \<and> list_all (\<lambda>(i, q). i < mg_next_queue m \<and> length q \<le> maxsize) (mg_clients m)"

lemma offer_length: "length q \<le> maxsize \<Longrightarrow> length (offer msg q) \<le> maxsize"
  by (cases q) (auto simp: offer_def queue_full_def maxsize_def)

lemma map_of_publish:
  "map_of (mg_clients (publish now msg m)) i = map_option (offer msg) (map_of (mg_clients m) i)"
  by (simp add: publish_def Let_def map_of_map)

lemma map_of_unsubscribe:
  "map_of (mg_clients (unsubscribe j m)) i = (if i = j then None else map_of (mg_clients m) i)"
  by (simp add: unsubscribe_def delete_conv')

lemma map_of_subscribe:
  "manager_ok m \<Longrightarrow> map_of (mg_clients (snd (subscribe m))) i
     = (if i = mg_next_queue m then Some [] else map_of (mg_clients m) i)"
  by (auto simp: subscribe_def manager_ok_def list_all_iff map_add_def split: option.splits dest: map_of_SomeD)

lemma receive_Some:
  "receive i m = Some (msg, m') \<longleftrightarrow> (\<exists>q. map_of (mg_clients m) i = Some (msg # q)
     \<and> m' = m\<lparr>mg_clients := AList.update i q (mg_clients m)\<rparr>)"
  by (auto simp: receive_def split: option.splits list.splits)

lemma publish_ok: "manager_ok m \<Longrightarrow> manager_ok (publish now msg m)"
  by (force simp: manager_ok_def publish_def Let_def list_all_iff offer_length o_def case_prod_beta)

lemma unsubscribe_ok: "manager_ok m \<Longrightarrow> manager_ok (unsubscribe i m)"
  by (auto simp: manager_ok_def unsubscribe_def list_all_iff AList.delete_eq distinct_map_filter)

lemma subscribe_ok: "manager_ok m \<Longrightarrow> manager_ok (snd (subscribe m))"
  by (fastforce simp: manager_ok_def subscribe_def list_all_iff)

lemma set_update_subset: "set (AList.update k v xs) \<subseteq> insert (k, v) (set xs)"
  by (induction xs) auto

lemma receive_ok:
  assumes "manager_ok m" and "receive i m = Some (msg, m')"
  shows "manager_ok m'"
proof -
  obtain q where q: "map_of (mg_clients m) i = Some (msg # q)"
    and m': "m' = m\<lparr>mg_clients := AList.update i q (mg_clients m)\<rparr>"
    using assms(2) by (auto simp: receive_Some)
  have mem: "(i, msg # q) \<in> set (mg_clients m)" using q by (rule map_of_SomeD)
  note set_update_subset [of i q "mg_clients m"]
  moreover have "i < mg_next_queue m" "length q \<le> maxsize"
    using assms(1) mem by (auto simp: manager_ok_def list_all_iff)
  ultimately show ?thesis
    using assms(1) by (auto simp: manager_ok_def m' list_all_iff distinct_update)
qed

lemma rt_step_ok: "manager_ok m \<Longrightarrow> manager_ok (rt_step a m)"
  by (cases a) (auto simp: publish_ok unsubscribe_ok subscribe_ok split: option.split intro: receive_ok)

lemma rt_run_simps [simp]:
  "rt_run [] m = m"
  "rt_run (a # as) m = rt_run as (rt_step a m)"
  by (simp_all add: rt_run_def)

lemma rt_run_ok: "manager_ok m \<Longrightarrow> manager_ok (rt_run as m)"
  by (induction as arbitrary: m) (simp_all add: rt_step_ok)

lemma rt_run_append: "rt_run (as @ bs) m = rt_run bs (rt_run as m)"
  by (simp add: rt_run_def)

lemma received_append: "received i (as @ bs) m = received i as m @ received i bs (rt_run as m)"
  by (induction as arbitrary: m) simp_all

lemma published_append: "published (as @ bs) = published as @ published bs"
proof (induction as)
  case (Cons a as)
  then show ?case by (cases a) simp_all
qed simp

text \<open>What the client has been handed and what still waits for it.\<close>

definition stream_of :: "nat \<Rightarrow> rt_action list \<Rightarrow> manager \<Rightarrow> rt_message list" where
  "stream_of i as m = received i as m @ the (map_of (mg_clients (rt_run as m)) i)"

lemma rt_step_client:
  assumes "manager_ok m" and "map_of (mg_clients m) i = Some q" and "a \<noteq> Unsubscribe i"
  shows "\<exists>q'. map_of (mg_clients (rt_step a m)) i = Some q' \<and>
    received i [a] m @ q' = (case a of Publish now msg \<Rightarrow> offer msg q | _ \<Rightarrow> q)"
proof (cases a)
  case Subscribe
  have "i \<noteq> mg_next_queue m"
    using assms(1,2) by (auto simp: manager_ok_def list_all_iff dest: map_of_SomeD)
  with assms Subscribe show ?thesis by (simp add: map_of_subscribe)
next
  case (Unsubscribe j)
  with assms show ?thesis by (simp add: map_of_unsubscribe)
next
  case (Publish now msg)
  with assms show ?thesis by (simp add: map_of_publish)
next
  case (Receive j)
  show ?thesis
  proof (cases "receive j m")
    case None
    then show ?thesis using assms Receive by (cases "j = i") simp_all
  next
    case (Some r)
    obtain msg m' where r: "r = (msg, m')" by (cases r)
    then obtain qj where "map_of (mg_clients m) j = Some (msg # qj)"
      "m' = m\<lparr>mg_clients := AList.update j qj (mg_clients m)\<rparr>"
      using Some by (auto simp: receive_Some)
    then show ?thesis using assms(2) Receive Some r by (cases "j = i") (auto simp: update_conv')
  qed
qed

text \<open>The stream is all of the backlog and the publications, or all of them since a marker.\<close>

definition complete_or_marked :: "rt_message list \<Rightarrow> rt_message list \<Rightarrow> bool" where
  "complete_or_marked all stream \<longleftrightarrow> stream = all
     \<or> (\<exists>before after lost. stream = before @ gap_message # after \<and> all = lost @ after \<and> lost \<noteq> [])"

lemma complete_or_marked_offer:
  assumes "complete_or_marked all (r @ q)"
  shows "complete_or_marked (all @ [msg]) (r @ offer msg q)"
proof (cases "queue_full q")
  case True
  then have "r @ offer msg q = (r @ tl q) @ gap_message # []" by (simp add: offer_def)
  then show ?thesis unfolding complete_or_marked_def by blast
next
  case False
  then have ext: "r @ offer msg q = (r @ q) @ [msg]" by (simp add: offer_def)
  from assms consider "r @ q = all"
    | before after lost where "r @ q = before @ gap_message # after" "all = lost @ after" "lost \<noteq> []"
    unfolding complete_or_marked_def by blast
  then show ?thesis
  proof cases
    case 1
    with ext show ?thesis by (simp add: complete_or_marked_def)
  next
    case 2
    then have "r @ offer msg q = before @ gap_message # (after @ [msg])" "all @ [msg] = lost @ (after @ [msg])"
      using ext by simp_all
    with 2(3) show ?thesis unfolding complete_or_marked_def by blast
  qed
qed

lemma stream_invariant:
  assumes "manager_ok m" and "map_of (mg_clients m) i = Some q" and "Unsubscribe i \<notin> set as"
  shows "\<exists>q'. map_of (mg_clients (rt_run as m)) i = Some q'
    \<and> complete_or_marked (q @ published as) (received i as m @ q')"
  using assms(3)
proof (induction as rule: rev_induct)
  case Nil
  then show ?case using assms(2) by (simp add: complete_or_marked_def)
next
  case (snoc a as)
  then obtain q1 where q1: "map_of (mg_clients (rt_run as m)) i = Some q1"
    and IH: "complete_or_marked (q @ published as) (received i as m @ q1)"
    by auto
  obtain q2 where q2: "map_of (mg_clients (rt_step a (rt_run as m))) i = Some q2"
    and st: "received i [a] (rt_run as m) @ q2 = (case a of Publish now msg \<Rightarrow> offer msg q1 | _ \<Rightarrow> q1)"
    using rt_step_client [OF rt_run_ok [OF assms(1)] q1, of a] snoc.prems by auto
  have "received i (as @ [a]) m @ q2
      = received i as m @ (case a of Publish now msg \<Rightarrow> offer msg q1 | _ \<Rightarrow> q1)"
    using st by (simp add: received_append del: received.simps)
  moreover have "complete_or_marked (q @ published (as @ [a]))
      (received i as m @ (case a of Publish now msg \<Rightarrow> offer msg q1 | _ \<Rightarrow> q1))"
    using IH complete_or_marked_offer [OF IH] by (cases a) (simp_all add: published_append)
  ultimately show ?case using q2 by (simp add: rt_run_append)
qed

text \<open>
  C35.  No silent gap.  From any moment a client is subscribed, until it leaves, the messages it has
  been handed followed by those waiting in its queue are exactly the backlog and everything
  published since, in order; or there is an overflow marker among them after which they are exactly
  the latest published messages, in order.  The queue never holds more than its 100 messages.
\<close>

theorem stream_complete_or_marked:
  assumes "manager_ok m" and "map_of (mg_clients m) i = Some q" and "Unsubscribe i \<notin> set as"
  shows "(stream_of i as m = q @ published as
      \<or> (\<exists>before after lost. stream_of i as m = before @ gap_message # after
            \<and> q @ published as = lost @ after \<and> lost \<noteq> []))
    \<and> length (the (map_of (mg_clients (rt_run as m)) i)) \<le> maxsize"
proof -
  obtain q' where q': "map_of (mg_clients (rt_run as m)) i = Some q'"
    and inv: "complete_or_marked (q @ published as) (received i as m @ q')"
    using stream_invariant [OF assms] by blast
  have "length q' \<le> maxsize"
    using rt_run_ok [OF assms(1), of as] map_of_SomeD [OF q'] by (auto simp: manager_ok_def list_all_iff)
  with q' inv show ?thesis unfolding stream_of_def complete_or_marked_def by simp
qed

theorem stream_complete_or_marked_witness:
  "stream_of 0 [Publish 1 (Resync_required ''a''), Receive 0, Publish 2 (Resync_required ''b'')] (snd (subscribe new_manager))
     = [Resync_required ''a'', Resync_required ''b'']"
proof -
  let ?m = "snd (subscribe new_manager)"
  let ?as = "[Publish 1 (Resync_required ''a''), Receive 0, Publish 2 (Resync_required ''b'')]"
  have "manager_ok ?m" by (rule subscribe_ok) (simp add: manager_ok_def new_manager_def)
  moreover have "map_of (mg_clients ?m) 0 = Some []" by (simp add: subscribe_def new_manager_def)
  ultimately have "stream_of 0 ?as ?m = published ?as
      \<or> (\<exists>before after. stream_of 0 ?as ?m = before @ gap_message # after)"
    using stream_complete_or_marked [of ?m 0 "[]" ?as] by auto
  moreover have "gap_message \<notin> set (stream_of 0 ?as ?m)" by code_simp
  ultimately show ?thesis by auto
qed

end
