(* ===== verification/Live_Api.thy ===== *)
theory Live_Api
  imports Realtime
begin

text \<open>
  The reading side of \<open>backend/app/api/routes.py\<close>: the paged timeline and the websocket that first
  replays the timeline after the client's cursor and then forwards what the realtime manager hands
  it.
\<close>

section \<open>The timeline\<close>

text \<open>The join of \<open>pulse_timeline\<close> with \<open>canonical_events\<close>, for the observation time.\<close>

definition timeline_join :: "db \<Rightarrow> (timeline_row \<times> instant) list" where
  "timeline_join d = concat (map (\<lambda>r. case find (\<lambda>e. ev_event_id e = tl_event_id r) (db_events d) of
       None \<Rightarrow> [] | Some e \<Rightarrow> [(r, ev_observed_at e)]) (db_timeline d))"

definition max_cursor :: "db \<Rightarrow> int" where
  "max_cursor d = fold max (map tl_cursor (db_timeline d)) 0"

abbreviation item_cursor :: "timeline_row \<times> instant \<Rightarrow> int" where
  "item_cursor x \<equiv> tl_cursor (fst x)"

definition timeline_query :: "int \<Rightarrow> int option \<Rightarrow> db \<Rightarrow> (timeline_row \<times> instant) list" where
  "timeline_query limit before d =
     take (nat limit) (sort_key (\<lambda>x. - item_cursor x)
       (filter (\<lambda>x. case before of None \<Rightarrow> True | Some b \<Rightarrow> item_cursor x < b) (timeline_join d)))"

text \<open>The handler: the limits FastAPI checks, the page, and the watermark to resume from.\<close>

definition timeline_page ::
  "int \<Rightarrow> int option \<Rightarrow> db \<Rightarrow> ((timeline_row \<times> instant) list \<times> int) result" where
  "timeline_page limit before d =
     bind_r (ensure (1 \<le> limit \<and> limit \<le> 200) (ValidationError ''limit'')) (\<lambda>_.
     bind_r (ensure (case before of None \<Rightarrow> True | Some b \<Rightarrow> 1 \<le> b) (ValidationError ''before'')) (\<lambda>_.
     let rows = timeline_query limit before d
     in Inr (rows, fold max (map item_cursor rows) (max_cursor d))))"

text \<open>A reader that asks for page after page, each before the last cursor of the one it got.\<close>

fun read_pages :: "nat \<Rightarrow> int \<Rightarrow> int option \<Rightarrow> db \<Rightarrow> (timeline_row \<times> instant) list result" where
  "read_pages 0 limit before d = Inr []"
| "read_pages (Suc n) limit before d =
     bind_r (timeline_page limit before d) (\<lambda>(rows, latest).
       if rows = [] then Inr []
       else bind_r (read_pages n limit (Some (tl_cursor (fst (last rows)))) d) (\<lambda>more. Inr (rows @ more)))"

lemma timeline_join_rows:
  assumes "foreign_ok d"
  shows "map fst (timeline_join d) = db_timeline d"
proof -
  have "map fst (concat (map (\<lambda>r. case find (\<lambda>e. ev_event_id e = tl_event_id r) (db_events d) of
       None \<Rightarrow> [] | Some e \<Rightarrow> [(r, ev_observed_at e)]) rs)) = rs"
    if "\<forall>r \<in> set rs. tl_event_id r \<in> event_ids d" for rs :: "timeline_row list"
    using that
  proof (induction rs)
    case (Cons r rs)
    then obtain e where "find (\<lambda>e. ev_event_id e = tl_event_id r) (db_events d) = Some e"
      using find_None_iff [of "\<lambda>e. ev_event_id e = tl_event_id r" "db_events d"]
      by (cases "find (\<lambda>e. ev_event_id e = tl_event_id r) (db_events d)") auto
    with Cons show ?case by simp
  qed simp
  moreover have "\<forall>r \<in> set (db_timeline d). tl_event_id r \<in> event_ids d"
    using assms unfolding foreign_ok_def by blast
  ultimately show ?thesis unfolding timeline_join_def by blast
qed

lemma fold_max_ge: "(a :: int) \<le> fold max xs a \<and> (\<forall>x \<in> set xs. x \<le> fold max xs a)"
proof (induction xs arbitrary: a)
  case (Cons x xs)
  show ?case using Cons.IH [of "max x a"] by auto
qed simp

lemma fold_max_le: "a \<le> (b :: int) \<Longrightarrow> \<forall>x \<in> set xs. x \<le> b \<Longrightarrow> fold max xs a \<le> b"
  by (induction xs arbitrary: a) auto

text \<open>The rows before a cursor, newest first.\<close>

definition newest_first :: "int option \<Rightarrow> db \<Rightarrow> (timeline_row \<times> instant) list" where
  "newest_first before d = sort_key (\<lambda>x. - item_cursor x)
     (filter (\<lambda>x. case before of None \<Rightarrow> True | Some b \<Rightarrow> item_cursor x < b) (timeline_join d))"

lemma newest_first_filter:
  "newest_first (Some b) d = filter (\<lambda>x. item_cursor x < b) (newest_first None d)"
  by (simp add: newest_first_def filter_sort)

lemma newest_first_distinct:
  assumes "unique_ok d" and "foreign_ok d"
  shows "distinct (map item_cursor (newest_first before d))"
proof -
  have "distinct (map item_cursor (timeline_join d))"
    using assms(1) unfolding unique_ok_def timeline_join_rows [OF assms(2), symmetric] by (simp add: o_def)
  then have "distinct (map item_cursor (filter P (timeline_join d)))" for P
    by (rule distinct_map_filter)
  then show ?thesis unfolding newest_first_def
    by (simp add: distinct_map)
qed

text \<open>After a page that ends in cursor \<open>c\<close>, the rows before \<open>c\<close> are the rest.\<close>

lemma newest_first_rest:
  assumes "unique_ok d" and "foreign_ok d" and "newest_first before d = xs @ x # ys"
  shows "newest_first (Some (item_cursor x)) d = ys"
proof -
  let ?all = "newest_first before d"
  have sorted: "sorted (map (\<lambda>x. - item_cursor x) ?all)" by (simp add: newest_first_def)
  have dist: "distinct (map item_cursor ?all)" by (rule newest_first_distinct [OF assms(1,2)])
  have "newest_first (Some (item_cursor x)) d = filter (\<lambda>y. item_cursor y < item_cursor x) ?all"
  proof (cases before)
    case None
    then show ?thesis by (simp add: newest_first_filter)
  next
    case (Some b)
    have "x \<in> set ?all" using assms(3) by simp
    then have "item_cursor x < b" using Some by (simp add: newest_first_def)
    then have "filter (\<lambda>y. item_cursor y < item_cursor x) (newest_first None d)
        = filter (\<lambda>y. item_cursor y < b \<and> item_cursor y < item_cursor x) (newest_first None d)"
      by (intro filter_cong) auto
    then show ?thesis using Some by (simp add: newest_first_filter [of b] newest_first_filter [of "item_cursor x"])
  qed
  also have "\<dots> = ys"
  proof -
    have "item_cursor x \<le> item_cursor y" if "y \<in> set xs" for y
      using sorted that by (auto simp: assms(3) sorted_append)
    then have "filter (\<lambda>y. item_cursor y < item_cursor x) xs = []" by (fastforce simp: filter_empty_conv)
    moreover have "item_cursor y < item_cursor x" if "y \<in> set ys" for y
      using sorted dist that by (force simp: assms(3) sorted_append order.order_iff_strict)
    then have "filter (\<lambda>y. item_cursor y < item_cursor x) ys = ys" by (simp add: filter_id_conv)
    ultimately show ?thesis by (simp add: assms(3))
  qed
  finally show ?thesis .
qed

lemma timeline_page_Inr:
  assumes "1 \<le> limit" "limit \<le> 200" and "case before of None \<Rightarrow> True | Some b \<Rightarrow> 1 \<le> b"
  shows "timeline_page limit before d = Inr (take (nat limit) (newest_first before d),
    fold max (map item_cursor (take (nat limit) (newest_first before d))) (max_cursor d))"
  using assms by (simp add: timeline_page_def timeline_query_def newest_first_def Let_def ensure_def)

lemma newest_first_in:
  assumes "foreign_ok d" and "x \<in> set (newest_first before d)"
  shows "fst x \<in> set (db_timeline d)"
proof -
  have "fst x \<in> set (map fst (timeline_join d))" using assms(2) by (auto simp: newest_first_def)
  then show ?thesis by (simp only: timeline_join_rows [OF assms(1)])
qed

lemma sorted_wrt_strict:
  "sorted_wrt (\<lambda>x y. f y \<le> f x) xs \<Longrightarrow> distinct (map f xs) \<Longrightarrow> sorted_wrt (\<lambda>x y. f y < (f x :: int)) xs"
proof (induction xs)
  case (Cons x xs)
  have "f y < f x" if "y \<in> set xs" for y
  proof -
    have "f x \<noteq> f y"
    proof
      assume "f x = f y"
      then have "f x \<in> f ` set xs" using that by (rule image_eqI)
      with Cons.prems(2) show False by simp
    qed
    then show ?thesis using Cons.prems(1) that by (simp add: order.strict_iff_order)
  qed
  then show ?case using Cons by simp
qed simp

lemma read_pages_all:
  assumes ok: "unique_ok d" "foreign_ok d" and pos: "\<forall>r \<in> set (db_timeline d). 1 \<le> tl_cursor r"
    and lim: "1 \<le> limit" "limit \<le> 200"
  shows "length (newest_first before d) < n \<Longrightarrow> (case before of None \<Rightarrow> True | Some b \<Rightarrow> 1 \<le> b) \<Longrightarrow>
    read_pages n limit before d = Inr (newest_first before d)"
proof (induction n arbitrary: before)
  case (Suc n)
  define all where "all = newest_first before d"
  define page where "page = take (nat limit) all"
  note page = timeline_page_Inr [OF lim Suc.prems(2), of d, folded all_def, folded page_def]
  show ?case
  proof (cases "all = []")
    case True
    then show ?thesis using page by (simp add: page_def all_def)
  next
    case False
    then have ne: "page \<noteq> []" using lim by (simp add: page_def)
    have "all = (butlast page) @ last page # drop (nat limit) all"
      using append_butlast_last_id [OF ne] append_take_drop_id [of "nat limit" all]
      unfolding page_def by (metis append.assoc append_Cons append_Nil)
    then have rest: "newest_first (Some (item_cursor (last page))) d = drop (nat limit) all"
      using newest_first_rest [OF ok] unfolding all_def by blast
    have "last page \<in> set all" using last_in_set [OF ne] by (auto simp: page_def dest: in_set_takeD)
    then have "1 \<le> item_cursor (last page)" using pos newest_first_in [OF ok(2)] by (simp add: all_def)
    moreover have "length (drop (nat limit) all) < n"
      using Suc.prems(1) False lim by (cases all) (auto simp: all_def)
    ultimately have "read_pages n limit (Some (item_cursor (last page))) d = Inr (drop (nat limit) all)"
      using Suc.IH [of "Some (item_cursor (last page))"] rest by simp
    then show ?thesis using page ne by (simp add: page_def flip: all_def)
  qed
qed simp

text \<open>
  C38.  Paging is complete.  Asking for page after page, each with \<open>before\<close> set to the last cursor
  received, ends after at most as many pages as there are rows and yields every row of the timeline
  exactly once, in strictly decreasing order of the cursor, whatever the page size.
\<close>

theorem paging_complete:
  assumes "db_ok hash d" and "\<forall>r \<in> set (db_timeline d). 1 \<le> tl_cursor r" and "1 \<le> limit" and "limit \<le> 200"
    and "length (db_timeline d) < n"
  shows "\<exists>items. read_pages n limit None d = Inr items
    \<and> sorted_wrt (\<lambda>x y. tl_cursor (fst y) < tl_cursor (fst x)) items
    \<and> distinct (map fst items) \<and> fst ` set items = set (db_timeline d)"
proof (intro exI conjI)
  have ok: "unique_ok d" "foreign_ok d" using assms(1) by (simp_all add: db_ok_def schema_ok_def)
  have "length (timeline_join d) = length (db_timeline d)"
    using timeline_join_rows [OF ok(2)] by (metis length_map)
  then show "read_pages n limit None d = Inr (newest_first None d)"
    by (intro read_pages_all [OF ok assms(2-4)]) (simp_all add: newest_first_def assms(5))
  have dist: "distinct (map item_cursor (newest_first None d))" by (rule newest_first_distinct [OF ok])
  have "sorted_wrt (\<lambda>x y. item_cursor y \<le> item_cursor x) (newest_first None d)"
    using sorted_sort_key [of "\<lambda>x. - item_cursor x" "timeline_join d"]
    by (simp add: newest_first_def sorted_map)
  then show "sorted_wrt (\<lambda>x y. item_cursor y < item_cursor x) (newest_first None d)"
    by (rule sorted_wrt_strict [OF _ dist])
  show "distinct (map fst (newest_first None d))"
    using dist by (auto simp: distinct_map inj_on_def)
  show "fst ` set (newest_first None d) = set (db_timeline d)"
    using arg_cong [OF timeline_join_rows [OF ok(2)], of set] by (simp add: newest_first_def)
qed

lemma sample_timeline_ok:
  assumes "process_canonical_event sample_clock sample_goal sample_projector_db = Inr (n, d)"
  shows "db_ok (\<lambda>k. k) d" "map tl_cursor (db_timeline d) = [1]"
proof -
  show "db_ok (\<lambda>k. k) d" by (rule process_preserves_ok [OF assms sample_projector_db_ok])
  show "map tl_cursor (db_timeline d) = [1]"
    using assms by (auto simp: process_Inr timeline_row_of_def is_stored_def is_processed_def
        sample_projector_db_def empty_db_def split: if_split_asm)
qed

theorem paging_complete_witness:
  "\<exists>d items. process_canonical_event sample_clock sample_goal sample_projector_db = Inr d
     \<and> read_pages 2 1 None (snd d) = Inr items \<and> map item_cursor items = [1]"
proof -
  obtain n d where run: "process_canonical_event sample_clock sample_goal sample_projector_db = Inr (n, d)"
    using sample_goal_processed by blast
  note ok = sample_timeline_ok [OF run]
  have one: "\<forall>r \<in> set (db_timeline d). 1 \<le> tl_cursor r" "length (db_timeline d) < 2"
    using ok(2) by auto
  obtain items where items: "read_pages 2 1 None d = Inr items" "distinct (map fst items)"
      "fst ` set items = set (db_timeline d)"
    using paging_complete [OF ok(1) one(1), of 1 2] one(2) by auto
  obtain r where r: "db_timeline d = [r]" "tl_cursor r = 1" using ok(2) by auto
  then have "map fst items = [r]"
    using items(2,3) by (cases "map fst items"; cases "tl (map fst items)") auto
  then have "map item_cursor items = [1]" using r(2) by (auto simp: map_eq_Cons_conv)
  with run items(1) show ?thesis by (intro exI [of _ "(n, d)"] exI [of _ items]) simp
qed

section \<open>The websocket\<close>

text \<open>
  The endpoint subscribes before it reads the timeline, so that what is committed after the read
  reaches it through its queue.  \<open>ws_last\<close> is the query parameter \<open>last_cursor\<close>; \<open>ws_sent\<close> the frames
  sent so far.
\<close>

datatype frame =
    Live rt_message
  | Replayed timeline_row instant
  | Cursor_ahead int
  | Heartbeat

record websocket =
  ws_last :: "int option"
  ws_queue :: nat
  ws_replayed :: bool
  ws_sent :: "frame list"

definition replay_frames :: "int option \<Rightarrow> db \<Rightarrow> frame list" where
  "replay_frames last_cursor d = (case last_cursor of
       None \<Rightarrow> []
     | Some k \<Rightarrow>
         if max_cursor d < k then [Cursor_ahead (max_cursor d)]
         else map (\<lambda>(r, observed). Replayed r observed)
                (sort_key item_cursor (filter (\<lambda>x. k < item_cursor x) (timeline_join d))))"

definition ws_open :: "int option \<Rightarrow> manager \<Rightarrow> websocket \<times> manager" where
  "ws_open last_cursor m =
     (let (i, m') = subscribe m
      in (\<lparr>ws_last = last_cursor, ws_queue = i, ws_replayed = False, ws_sent = []\<rparr>, m'))"

definition ws_replay :: "db \<Rightarrow> websocket \<Rightarrow> websocket" where
  "ws_replay d w = w\<lparr>ws_replayed := True, ws_sent := ws_sent w @ replay_frames (ws_last w) d\<rparr>"

text \<open>One turn of the loop: the next message of the queue, or a heartbeat after 20 seconds without.\<close>

definition ws_turn :: "websocket \<Rightarrow> manager \<Rightarrow> websocket \<times> manager" where
  "ws_turn w m = (case receive (ws_queue w) m of
       Some (msg, m') \<Rightarrow> (w\<lparr>ws_sent := ws_sent w @ [Live msg]\<rparr>, m')
     | None \<Rightarrow> (w\<lparr>ws_sent := ws_sent w @ [Heartbeat]\<rparr>, m))"

definition ws_close :: "websocket \<Rightarrow> manager \<Rightarrow> manager" where
  "ws_close w m = unsubscribe (ws_queue w) m"

text \<open>
  The system around one socket: the projector commits and later announces (its \<open>await\<close> points let
  other tasks run in between), other parts publish their own messages, other clients come, read and
  go.
\<close>

record live =
  lv_db :: db
  lv_manager :: manager
  lv_unannounced :: "notification list"
  lv_socket :: "websocket option"

definition others_only :: "rt_action \<Rightarrow> websocket option \<Rightarrow> bool" where
  "others_only a w \<longleftrightarrow> (case a of
       Subscribe \<Rightarrow> True
     | Unsubscribe j \<Rightarrow> (\<forall>x. w = Some x \<longrightarrow> j \<noteq> ws_queue x)
     | Receive j \<Rightarrow> (\<forall>x. w = Some x \<longrightarrow> j \<noteq> ws_queue x)
     | Publish now msg \<Rightarrow> True)"

inductive live_step :: "live \<Rightarrow> live \<Rightarrow> bool" where
  Project: "process_canonical_event clk e (lv_db s) = Inr (n, d) \<Longrightarrow>
    live_step s (s\<lparr>lv_db := d, lv_unannounced := lv_unannounced s @ (case n of Some x \<Rightarrow> [x] | None \<Rightarrow> [])\<rparr>)"
| Announce: "lv_unannounced s = n # ns \<Longrightarrow>
    live_step s (s\<lparr>lv_manager := publish now (Item n) (lv_manager s), lv_unannounced := ns\<rparr>)"
| Open: "lv_socket s = None \<Longrightarrow> ws_open k (lv_manager s) = (w, m) \<Longrightarrow>
    live_step s (s\<lparr>lv_socket := Some w, lv_manager := m\<rparr>)"
| Replay: "lv_socket s = Some w \<Longrightarrow> \<not> ws_replayed w \<Longrightarrow>
    live_step s (s\<lparr>lv_socket := Some (ws_replay (lv_db s) w)\<rparr>)"
| Turn: "lv_socket s = Some w \<Longrightarrow> ws_replayed w \<Longrightarrow> ws_turn w (lv_manager s) = (w', m) \<Longrightarrow>
    live_step s (s\<lparr>lv_socket := Some w', lv_manager := m\<rparr>)"
| Others: "others_only a (lv_socket s) \<Longrightarrow> live_step s (s\<lparr>lv_manager := rt_step a (lv_manager s)\<rparr>)"

inductive_cases live_stepE: "live_step s t"

text \<open>The cursor a frame or a message carries, and the frames that tell the client to start over.\<close>

fun message_cursor :: "rt_message \<Rightarrow> int option" where
  "message_cursor (Item n) = Some (nt_cursor n)"
| "message_cursor (Resync_required r) = None"

fun frame_cursor :: "frame \<Rightarrow> int option" where
  "frame_cursor (Live m) = message_cursor m"
| "frame_cursor (Replayed r observed) = Some (tl_cursor r)"
| "frame_cursor (Cursor_ahead n) = None"
| "frame_cursor Heartbeat = None"

fun resync_frame :: "frame \<Rightarrow> bool" where
  "resync_frame (Live (Resync_required r)) = True"
| "resync_frame (Cursor_ahead n) = True"
| "resync_frame f = False"

definition carried :: "websocket \<Rightarrow> rt_queue \<Rightarrow> notification list \<Rightarrow> int set" where
  "carried w q un = {c. (\<exists>f \<in> set (ws_sent w). frame_cursor f = Some c)
     \<or> (\<exists>m \<in> set q. message_cursor m = Some c) \<or> c \<in> nt_cursor ` set un}"

definition marked :: "websocket \<Rightarrow> rt_queue \<Rightarrow> bool" where
  "marked w q \<longleftrightarrow> (\<exists>f \<in> set (ws_sent w). resync_frame f) \<or> gap_message \<in> set q"

text \<open>Every row after the client's cursor has been sent, waits in the queue, or is about to be announced.\<close>

definition covered :: "websocket \<Rightarrow> rt_queue \<Rightarrow> notification list \<Rightarrow> db \<Rightarrow> bool" where
  "covered w q un d \<longleftrightarrow> (ws_replayed w \<longrightarrow> (\<forall>k. ws_last w = Some k \<longrightarrow>
     marked w q \<or> (\<forall>r \<in> set (db_timeline d). k < tl_cursor r \<longrightarrow> tl_cursor r \<in> carried w q un)))"

definition live_inv :: "(string \<Rightarrow> string) \<Rightarrow> live \<Rightarrow> bool" where
  "live_inv hash s \<longleftrightarrow> db_ok hash (lv_db s) \<and> manager_ok (lv_manager s) \<and>
     (\<forall>w. lv_socket s = Some w \<longrightarrow> (\<exists>q. map_of (mg_clients (lv_manager s)) (ws_queue w) = Some q
        \<and> covered w q (lv_unannounced s) (lv_db s)))"

lemma covered_mono:
  assumes "covered w q un d" and "marked w q \<Longrightarrow> marked w q'"
    and "\<not> marked w q' \<Longrightarrow> carried w q un \<subseteq> carried w q' un'"
    and "\<And>r. r \<in> set (db_timeline d') \<Longrightarrow> r \<in> set (db_timeline d) \<or> tl_cursor r \<in> carried w q' un'"
  shows "covered w q' un' d'"
  using assms unfolding covered_def by blast

lemma covered_offer:
  assumes "covered w q un d"
  shows "covered w (offer msg q) un d"
    and "msg = Item n \<Longrightarrow> un = n # ns \<Longrightarrow> covered w (offer msg q) ns d"
proof -
  have m: "marked w q \<Longrightarrow> marked w (offer msg q)" by (auto simp: marked_def offer_def)
  have c: "\<not> marked w (offer msg q) \<Longrightarrow> offer msg q = q @ [msg]" by (auto simp: marked_def offer_def)
  show "covered w (offer msg q) un d"
  proof (rule covered_mono [OF assms m])
    assume "\<not> marked w (offer msg q)"
    from c [OF this] show "carried w q un \<subseteq> carried w (offer msg q) un" by (auto simp: carried_def)
  qed auto
  show "covered w (offer msg q) ns d" if "msg = Item n" "un = n # ns"
  proof (rule covered_mono [OF assms m])
    assume "\<not> marked w (offer msg q)"
    from c [OF this] show "carried w q un \<subseteq> carried w (offer msg q) ns"
      by (auto simp: carried_def that)
  qed auto
qed

lemma process_timeline:
  assumes "process_canonical_event clk e d = Inr (n, d')" and "r \<in> set (db_timeline d')"
  shows "r \<in> set (db_timeline d) \<or> (\<exists>x. n = Some x \<and> nt_cursor x = tl_cursor r)"
  using assms by (auto simp: process_Inr notification_of_def timeline_row_of_def split: if_split_asm)

lemma live_Project:
  assumes "live_inv hash s" and "process_canonical_event clk e (lv_db s) = Inr (n, d)"
  shows "live_inv hash (s\<lparr>lv_db := d, lv_unannounced := lv_unannounced s @ (case n of Some x \<Rightarrow> [x] | None \<Rightarrow> [])\<rparr>)"
proof -
  have "covered w q (lv_unannounced s @ (case n of Some x \<Rightarrow> [x] | None \<Rightarrow> [])) d"
    if "covered w q (lv_unannounced s) (lv_db s)" for w q
  proof (rule covered_mono [OF that])
    fix r assume "r \<in> set (db_timeline d)"
    from process_timeline [OF assms(2) this]
    show "r \<in> set (db_timeline (lv_db s)) \<or>
        tl_cursor r \<in> carried w q (lv_unannounced s @ (case n of Some x \<Rightarrow> [x] | None \<Rightarrow> []))"
      by (elim disjE exE conjE) (simp_all add: carried_def)
  qed (auto simp: carried_def)
  with assms process_preserves_ok [OF assms(2)] show ?thesis unfolding live_inv_def by fastforce
qed

lemma live_publish:
  assumes "live_inv hash s"
  shows "live_inv hash (s\<lparr>lv_manager := publish now msg (lv_manager s)\<rparr>)"
    and "lv_unannounced s = n # ns \<Longrightarrow>
      live_inv hash (s\<lparr>lv_manager := publish now (Item n) (lv_manager s), lv_unannounced := ns\<rparr>)"
  using assms covered_offer(1) covered_offer(2) [OF _ refl]
  by (auto simp: live_inv_def publish_ok map_of_publish)

lemma live_Open:
  assumes "live_inv hash s" and "ws_open k (lv_manager s) = (w, m)"
  shows "live_inv hash (s\<lparr>lv_socket := Some w, lv_manager := m\<rparr>)"
proof -
  have "w = \<lparr>ws_last = k, ws_queue = mg_next_queue (lv_manager s), ws_replayed = False, ws_sent = []\<rparr>"
    and m: "m = snd (subscribe (lv_manager s))"
    using assms(2) by (auto simp: ws_open_def Let_def subscribe_def)
  then show ?thesis
    using assms(1) by (simp add: live_inv_def subscribe_ok map_of_subscribe covered_def)
qed

lemma live_Replay:
  assumes "live_inv hash s" and w: "lv_socket s = Some w"
  shows "live_inv hash (s\<lparr>lv_socket := Some (ws_replay (lv_db s) w)\<rparr>)"
proof -
  let ?d = "lv_db s" and ?w = "ws_replay (lv_db s) w"
  obtain q where q: "map_of (mg_clients (lv_manager s)) (ws_queue w) = Some q"
    using assms unfolding live_inv_def by blast
  have "covered ?w q un ?d" for un
    unfolding covered_def
  proof (intro impI allI)
    fix k
    assume "ws_last ?w = Some k"
    then have k: "ws_last w = Some k" by (simp add: ws_replay_def)
    show "marked ?w q \<or> (\<forall>r \<in> set (db_timeline ?d). k < tl_cursor r \<longrightarrow> tl_cursor r \<in> carried ?w q un)"
    proof (cases "max_cursor ?d < k")
      case True
      then have "Cursor_ahead (max_cursor ?d) \<in> set (ws_sent ?w)"
        by (simp add: ws_replay_def replay_frames_def k)
      then have "marked ?w q" unfolding marked_def by force
      then show ?thesis by simp
    next
      case False
      have "tl_cursor r \<in> carried ?w q un" if r: "r \<in> set (db_timeline ?d)" and "k < tl_cursor r" for r
      proof -
        have "foreign_ok ?d" using assms(1) by (simp add: live_inv_def db_ok_def schema_ok_def)
        then have "r \<in> fst ` set (timeline_join ?d)" using r timeline_join_rows [of ?d] by (metis list.set_map)
        then obtain t where "(r, t) \<in> set (timeline_join ?d)" by auto
        then have "Replayed r t \<in> set (ws_sent ?w)"
          using False that(2) by (force simp: ws_replay_def replay_frames_def k)
        then have "\<exists>f \<in> set (ws_sent ?w). frame_cursor f = Some (tl_cursor r)" by force
        then show ?thesis by (simp add: carried_def)
      qed
      then show ?thesis by blast
    qed
  qed
  moreover have "ws_queue ?w = ws_queue w" by (simp add: ws_replay_def)
  ultimately show ?thesis using assms(1) q by (simp add: live_inv_def)
qed

lemma live_Turn:
  assumes "live_inv hash s" and w: "lv_socket s = Some w" and t: "ws_turn w (lv_manager s) = (w', m)"
  shows "live_inv hash (s\<lparr>lv_socket := Some w', lv_manager := m\<rparr>)"
proof (cases "receive (ws_queue w) (lv_manager s)")
  case None
  then have "w' = w\<lparr>ws_sent := ws_sent w @ [Heartbeat]\<rparr>" "m = lv_manager s" using t by (auto simp: ws_turn_def)
  then show ?thesis
    using assms(1) w by (auto simp: live_inv_def covered_def carried_def marked_def)
next
  case (Some r)
  obtain msg m' where r: "r = (msg, m')" by (cases r)
  obtain q where q: "map_of (mg_clients (lv_manager s)) (ws_queue w) = Some (msg # q)"
    and m': "m' = (lv_manager s)\<lparr>mg_clients := AList.update (ws_queue w) q (mg_clients (lv_manager s))\<rparr>"
    using Some r by (auto simp: receive_Some)
  have w': "w' = w\<lparr>ws_sent := ws_sent w @ [Live msg]\<rparr>" and m: "m = m'"
    using t Some r by (auto simp: ws_turn_def)
  have cov: "covered w (msg # q) (lv_unannounced s) (lv_db s)"
    using assms(1) w q unfolding live_inv_def by auto
  have "marked w (msg # q) \<Longrightarrow> marked w' q"
    by (auto simp: marked_def w' gap_message_def)
  moreover have "carried w (msg # q) un \<subseteq> carried w' q un" for un
    by (auto simp: carried_def w')
  ultimately have "covered w' q (lv_unannounced s) (lv_db s)"
    using cov unfolding covered_def w' by (simp add: subset_eq) blast
  moreover have "manager_ok m" using receive_ok [OF _ Some [unfolded r]] assms(1) m by (simp add: live_inv_def)
  ultimately show ?thesis
    using assms(1) by (simp add: live_inv_def w' m m' update_conv')
qed

lemma live_Others:
  assumes "live_inv hash s" and "others_only a (lv_socket s)"
  shows "live_inv hash (s\<lparr>lv_manager := rt_step a (lv_manager s)\<rparr>)"
proof (cases "\<exists>now msg. a = Publish now msg")
  case True
  then show ?thesis using live_publish(1) [OF assms(1)] by auto
next
  case False
  have ok: "manager_ok (lv_manager s)" using assms(1) by (simp add: live_inv_def)
  have "map_of (mg_clients (rt_step a (lv_manager s))) (ws_queue w) = Some q"
    if w: "lv_socket s = Some w" and q: "map_of (mg_clients (lv_manager s)) (ws_queue w) = Some q" for w q
  proof -
    have "a \<noteq> Unsubscribe (ws_queue w)" using assms(2) w by (auto simp: others_only_def)
    from rt_step_client [OF ok q this] obtain q' where
      q': "map_of (mg_clients (rt_step a (lv_manager s))) (ws_queue w) = Some q'"
      and st: "received (ws_queue w) [a] (lv_manager s) @ q' = q"
      using False by (cases a) auto
    have "received (ws_queue w) [a] (lv_manager s) = []"
      using assms(2) w by (cases a) (auto simp: others_only_def)
    with q' st show ?thesis by simp
  qed
  with assms(1) rt_step_ok [OF ok, of a] show ?thesis unfolding live_inv_def by fastforce
qed

lemma live_step_inv: "live_step s t \<Longrightarrow> live_inv hash s \<Longrightarrow> live_inv hash t"
  by (erule live_stepE)
    (auto intro: live_Project live_publish(2) live_Open live_Replay live_Turn live_Others)

lemma live_steps_inv: "live_step\<^sup>*\<^sup>* s t \<Longrightarrow> live_inv hash s \<Longrightarrow> live_inv hash t"
  by (induction rule: rtranclp_induct) (auto intro: live_step_inv)

text \<open>
  C5.  Resuming a client loses nothing.  In every reachable state of the system: once the socket has
  replayed, nothing is waiting to be announced and its queue is empty, then every row of the timeline
  after the cursor the client came with has been sent to it, unless it has been told to
  resynchronise.  Commits, announcements, other clients and overflows may interleave in any way with
  the opening, the replay and the turns of the socket.
\<close>

theorem resume_complete:
  assumes "live_step\<^sup>*\<^sup>* s t" and "lv_socket s = None" and "db_ok hash (lv_db s)" and "manager_ok (lv_manager s)"
    and "lv_socket t = Some w" and "ws_replayed w" and "ws_last w = Some k" and "lv_unannounced t = []"
    and "map_of (mg_clients (lv_manager t)) (ws_queue w) = Some []"
    and "r \<in> set (db_timeline (lv_db t))" and "k < tl_cursor r"
  shows "(\<exists>f \<in> set (ws_sent w). frame_cursor f = Some (tl_cursor r)) \<or> (\<exists>f \<in> set (ws_sent w). resync_frame f)"
proof -
  have "live_inv hash s" using assms(2-4) by (simp add: live_inv_def)
  then have "live_inv hash t" by (rule live_steps_inv [OF assms(1)])
  then have "covered w [] [] (lv_db t)" using assms(5,8,9) unfolding live_inv_def by auto
  then show ?thesis using assms(6,7,10,11) by (auto simp: covered_def marked_def carried_def)
qed

definition sample_live :: live where
  "sample_live = \<lparr>lv_db = sample_projector_db, lv_manager = new_manager, lv_unannounced = [], lv_socket = None\<rparr>"

definition sample_socket :: websocket where
  "sample_socket = \<lparr>ws_last = Some 0, ws_queue = 0, ws_replayed = True, ws_sent = []\<rparr>"

text \<open>Open, replay the empty timeline, then one event is projected, announced and forwarded.\<close>

lemma sample_live_run:
  assumes "process_canonical_event sample_clock sample_goal sample_projector_db = Inr (Some n, d)"
  shows "\<exists>m. live_step\<^sup>*\<^sup>* sample_live \<lparr>lv_db = d, lv_manager = m, lv_unannounced = [],
      lv_socket = Some (sample_socket\<lparr>ws_sent := [Live (Item n)]\<rparr>)\<rparr>
    \<and> map_of (mg_clients m) 0 = Some []"
proof -
  let ?m = "\<lparr>mg_clients = [(0, [])], mg_next_queue = 1, mg_overflow_count = 0, mg_last_overflow_at = None\<rparr>"
  let ?s1 = "sample_live\<lparr>lv_socket := Some (sample_socket\<lparr>ws_replayed := False\<rparr>), lv_manager := ?m\<rparr>"
  let ?s2 = "?s1\<lparr>lv_socket := Some sample_socket\<rparr>"
  let ?s3 = "?s2\<lparr>lv_db := d, lv_unannounced := [n]\<rparr>"
  let ?m4 = "?m\<lparr>mg_clients := [(0, [Item n])]\<rparr>"
  let ?s4 = "?s3\<lparr>lv_manager := ?m4, lv_unannounced := []\<rparr>"
  let ?s5 = "?s4\<lparr>lv_manager := ?m, lv_socket := Some (sample_socket\<lparr>ws_sent := [Live (Item n)]\<rparr>)\<rparr>"
  have 1: "live_step sample_live ?s1"
    by (rule live_step.Open [where k = "Some 0"])
      (simp_all add: sample_live_def sample_socket_def ws_open_def subscribe_def new_manager_def)
  have "ws_replay (lv_db ?s1) (sample_socket\<lparr>ws_replayed := False\<rparr>) = sample_socket"
    by (simp add: ws_replay_def replay_frames_def sample_socket_def sample_live_def sample_projector_db_def
        empty_db_def max_cursor_def timeline_join_def)
  with live_step.Replay [of ?s1 "sample_socket\<lparr>ws_replayed := False\<rparr>"] have 2: "live_step ?s1 ?s2"
    by simp
  have 3: "live_step ?s2 ?s3"
    using live_step.Project [of sample_clock sample_goal ?s2 "Some n" d] assms by (simp add: sample_live_def)
  have 4: "live_step ?s3 ?s4"
    using live_step.Announce [of ?s3 n "[]" 0]
    by (simp add: publish_def Let_def offer_def queue_full_def maxsize_def)
  have 5: "live_step ?s4 ?s5"
    using live_step.Turn [of ?s4 sample_socket] by (simp add: ws_turn_def receive_def sample_socket_def sample_live_def)
  have "live_step\<^sup>*\<^sup>* sample_live ?s5"
    using 1 2 3 4 5 by (meson converse_rtranclp_into_rtranclp rtranclp.rtrancl_refl)
  then show ?thesis by (intro exI [of _ ?m]) (simp add: sample_live_def)
qed

theorem resume_complete_witness:
  "\<exists>n d. process_canonical_event sample_clock sample_goal sample_projector_db = Inr (Some n, d)
     \<and> (\<exists>r. db_timeline d = [r] \<and> tl_cursor r = nt_cursor n)"
proof -
  obtain n' d where run: "process_canonical_event sample_clock sample_goal sample_projector_db = Inr (n', d)"
    using sample_goal_processed by blast
  note cur = sample_timeline_ok [OF run]
  obtain r where r: "db_timeline d = [r]" "tl_cursor r = 1" using cur(2) by auto
  then have "n' \<noteq> None" using run by (auto simp: process_Inr sample_projector_db_def empty_db_def split: if_split_asm)
  then obtain n where n: "n' = Some n" by blast
  obtain m where "live_step\<^sup>*\<^sup>* sample_live \<lparr>lv_db = d, lv_manager = m, lv_unannounced = [],
      lv_socket = Some (sample_socket\<lparr>ws_sent := [Live (Item n)]\<rparr>)\<rparr>"
    and "map_of (mg_clients m) 0 = Some []"
    using sample_live_run run n by blast
  then have "(\<exists>f \<in> set [Live (Item n)]. frame_cursor f = Some (tl_cursor r)) \<or> (\<exists>f \<in> set [Live (Item n)]. resync_frame f)"
    using resume_complete [where r = r and k = 0 and hash = "\<lambda>k. k"
        and w = "sample_socket\<lparr>ws_sent := [Live (Item n)]\<rparr>"] sample_projector_db_ok r
    by (force simp: sample_live_def sample_socket_def manager_ok_def new_manager_def)
  then show ?thesis using run r n by auto
qed

end
