(* ===== verification/Football_Models.thy ===== *)
theory Football_Models
  imports Canonical_Events
begin

text \<open>
  The football data model (\<open>backend/app/providers/football/models.py\<close>): the records of the
  API-Football response after \<open>pydantic\<close> has validated it, the provider-neutral observation made
  from them with the constraints its constructor checks, and the generic \<open>Observation\<close> envelope
  (\<open>backend/app/providers/observations.py\<close>).
\<close>

section \<open>What the provider sends\<close>

record league_info =
  li_id :: int
  li_name :: string
  li_type :: "string option"

record league_season =
  ls_year :: int
  ls_current :: bool

text \<open>The country of a league is an object with a name, or plain text.\<close>

datatype league_country = Country_object string | Country_text string

record league_record =
  lr_league :: league_info
  lr_country :: "league_country option"
  lr_seasons :: "league_season list"

record fixture_status =
  fs_long :: "string option"
  fs_short :: string
  fs_elapsed :: "int option"
  fs_extra :: "int option"

record fixture_periods =
  fpd_first :: "int option"
  fpd_second :: "int option"

record fixture_info =
  fi_id :: int
  fi_date :: instant
  fi_timestamp :: "int option"
  fi_timezone :: "string option"
  fi_periods :: fixture_periods
  fi_status :: fixture_status

text \<open>\<open>require_aware_date\<close>: a fixture date without a time zone is refused, others become UTC.\<close>

definition fixture_info_new ::
  "int \<Rightarrow> py_datetime \<Rightarrow> int option \<Rightarrow> string option \<Rightarrow> fixture_periods \<Rightarrow> fixture_status
   \<Rightarrow> fixture_info result" where
  "fixture_info_new i date timestamp timezone periods status =
     bind_r (require_aware ''fixture date must include a timezone'' date) (\<lambda>t.
     Inr \<lparr>fi_id = i, fi_date = t, fi_timestamp = timestamp, fi_timezone = timezone,
          fi_periods = periods, fi_status = status\<rparr>)"

record team_info =
  tm_id :: "int option"
  tm_name :: string

record fixture_teams =
  ft_home :: team_info
  ft_away :: team_info

record fixture_league =
  fl_id :: int
  fl_name :: string
  fl_country :: "string option"
  fl_season :: "int option"

record fixture_score =
  fsc_home :: "int option"
  fsc_away :: "int option"

record fixture_scores =
  fss_halftime :: "fixture_score option"
  fss_fulltime :: "fixture_score option"
  fss_extratime :: "fixture_score option"
  fss_penalty :: "fixture_score option"

record event_time =
  et_elapsed :: "int option"
  et_extra :: "int option"

record event_party =
  ep_id :: "int option"
  ep_name :: "string option"

record fixture_event =
  fe_time :: event_time
  fe_team :: "event_party option"
  fe_player :: "event_party option"
  fe_assist :: "event_party option"
  fe_type :: string
  fe_detail :: "string option"
  fe_comments :: "string option"

record fixture_record =
  fr_fixture :: fixture_info
  fr_league :: fixture_league
  fr_teams :: fixture_teams
  fr_goals :: fixture_score
  fr_score :: fixture_scores
  fr_events :: "fixture_event list option"

record paging_info =
  pg_current :: int
  pg_total :: int

text \<open>\<open>ApiEnvelope\<close> with its subclasses: \<open>errors\<close> is an object or an array, kept as its truth value and text.\<close>

record 'r api_envelope =
  ae_errors :: json
  ae_results :: int
  ae_paging :: paging_info
  ae_response :: "'r list"

section \<open>Provider-neutral observations\<close>

record match_event =
  me_identity :: string
  me_kind :: string
  me_minute :: int
  me_side :: "string option"
  me_player :: "string option"
  me_assist :: "string option"
  me_detail :: "string option"

definition match_event_ok :: "match_event \<Rightarrow> bool" where
  "match_event_ok e \<longleftrightarrow> 1 \<le> length (me_identity e) \<and> length (me_identity e) \<le> 255
     \<and> 0 \<le> me_minute e \<and> me_minute e \<le> 130"

definition match_event_new :: "match_event \<Rightarrow> match_event result" where
  "match_event_new e = bind_r (ensure (match_event_ok e) (ValidationError ''NormalizedMatchEvent'')) (\<lambda>_. Inr e)"

record fixture_observation =
  fo_fixture_id :: int
  fo_league_id :: int
  fo_competition :: string
  fo_home_team :: string
  fo_away_team :: string
  fo_home_team_id :: "int option"
  fo_away_team_id :: "int option"
  fo_kickoff_at :: instant
  fo_actual_kickoff_at :: "instant option"
  fo_status_code :: string
  fo_status_label :: "string option"
  fo_minute :: int
  fo_home_score :: "int option"
  fo_away_score :: "int option"
  fo_events :: "match_event list"
  fo_final_verification :: bool

definition opt_nonneg :: "int option \<Rightarrow> bool" where
  "opt_nonneg x \<longleftrightarrow> (case x of None \<Rightarrow> True | Some n \<Rightarrow> 0 \<le> n)"

definition fixture_observation_ok :: "fixture_observation \<Rightarrow> bool" where
  "fixture_observation_ok f \<longleftrightarrow> 0 < fo_fixture_id f \<and> 0 < fo_league_id f
     \<and> 0 \<le> fo_minute f \<and> fo_minute f \<le> 130 \<and> opt_nonneg (fo_home_score f) \<and> opt_nonneg (fo_away_score f)
     \<and> list_all match_event_ok (fo_events f)"

definition fixture_observation_new :: "fixture_observation \<Rightarrow> fixture_observation result" where
  "fixture_observation_new f =
     bind_r (ensure (fixture_observation_ok f) (ValidationError ''FootballFixtureObservation'')) (\<lambda>_. Inr f)"

definition external_entity_id :: "fixture_observation \<Rightarrow> string" where
  "external_entity_id f = ''api-football:fixture:'' @ int_str (fo_fixture_id f)"

definition event_time_of :: "fixture_observation \<Rightarrow> instant" where
  "event_time_of f =
     (case fo_actual_kickoff_at f of Some t \<Rightarrow> t | None \<Rightarrow> fo_kickoff_at f) + minutes (max 0 (fo_minute f))"

section \<open>Observations\<close>

record 'c observation =
  obs_provider_id :: string
  obs_external_entity_id :: string
  obs_observed_at :: instant
  obs_content :: 'c
  obs_provider_version :: "string option"
  obs_checkpoint :: "string option"
  obs_correlation_id :: "uuid option"

text \<open>The pattern \<open>^[a-z][a-z0-9_.-]{0,49}$\<close>.\<close>

definition is_lower_char :: "char \<Rightarrow> bool" where
  "is_lower_char c = (let n = (of_char c :: nat) in 97 \<le> n \<and> n \<le> 122)"

definition provider_id_ok :: "string \<Rightarrow> bool" where
  "provider_id_ok s = (case s of [] \<Rightarrow> False
     | c # cs \<Rightarrow> is_lower_char c \<and> length cs \<le> 49
         \<and> list_all (\<lambda>x. is_lower_char x \<or> is_digit x \<or> x \<in> set ''_.-'') cs)"

definition opt_max :: "nat \<Rightarrow> string option \<Rightarrow> bool" where
  "opt_max n s = (case s of None \<Rightarrow> True | Some x \<Rightarrow> length x \<le> n)"

definition observation_new ::
  "string \<Rightarrow> string \<Rightarrow> py_datetime \<Rightarrow> 'c \<Rightarrow> string option \<Rightarrow> string option \<Rightarrow> uuid option
   \<Rightarrow> 'c observation result" where
  "observation_new provider entity observed content version checkpoint correlation =
     bind_r (ensure (provider_id_ok provider) (ValidationError ''provider_id'')) (\<lambda>_.
     bind_r (ensure (1 \<le> length entity \<and> length entity \<le> 300) (ValidationError ''external_entity_id'')) (\<lambda>_.
     bind_r (require_aware ''observed_at must be timezone-aware'' observed) (\<lambda>t.
     bind_r (ensure (opt_max 255 version) (ValidationError ''provider_version'')) (\<lambda>_.
     bind_r (ensure (opt_max 4096 checkpoint) (ValidationError ''checkpoint'')) (\<lambda>_.
     Inr \<lparr>obs_provider_id = provider, obs_external_entity_id = entity, obs_observed_at = t,
          obs_content = content, obs_provider_version = version, obs_checkpoint = checkpoint,
          obs_correlation_id = correlation\<rparr>)))))"

section \<open>Fixture summaries\<close>

record fixture_summary =
  sm_fixture_id :: int
  sm_subject_id :: string
  sm_competition :: string
  sm_home_team :: string
  sm_away_team :: string
  sm_kickoff_at :: instant
  sm_status :: string
  sm_state :: string
  sm_phase :: string
  sm_minute :: int
  sm_home_score :: "int option"
  sm_away_score :: "int option"

definition summary_states :: "string list" where
  "summary_states = [''scheduled'', ''delayed'', ''live'', ''halftime'', ''fulltime'', ''postponed'',
     ''cancelled'', ''suspended'', ''unknown'']"

definition summary_phases :: "string list" where
  "summary_phases = [''pre_match'', ''first_half'', ''halftime'', ''second_half'', ''extra_time'',
     ''penalties'', ''fulltime'', ''delayed'', ''postponed'', ''cancelled'', ''suspended'', ''unknown'']"

definition fixture_summary_new :: "fixture_summary \<Rightarrow> fixture_summary result" where
  "fixture_summary_new s =
     bind_r (ensure (sm_state s \<in> set summary_states) (ValidationError ''state'')) (\<lambda>_.
     bind_r (ensure (sm_phase s \<in> set summary_phases) (ValidationError ''phase'')) (\<lambda>_. Inr s))"

end
