(* ===== verification/Football_Normalize.thy ===== *)
theory Football_Normalize
  imports Football_Models
begin

text \<open>
  The translation of API-Football records into provider-neutral observations
  (\<open>backend/app/providers/football/normalize.py\<close>).  The hexadecimal SHA-256 digest is the parameter
  \<open>digest\<close>; the text it is applied to is \<open>json.dumps(..., sort_keys=True, separators=(",", ":"))\<close>,
  written out below.
\<close>

section \<open>Compact JSON text\<close>

definition hex4 :: "char \<Rightarrow> string" where
  "hex4 c = hex_digits 4 (of_char c)"

text \<open>The escapes of \<open>ensure_ascii\<close>: quotes, backslash, and everything outside \<open>' '..'~'\<close>.\<close>

definition escape_char :: "char \<Rightarrow> string" where
  "escape_char c = (let n = (of_char c :: nat) in
     if n = 34 then [char_of (92::nat), char_of (34::nat)]
     else if n = 92 then [char_of (92::nat), char_of (92::nat)]
     else if n = 8 then [char_of (92::nat), CHR ''b'']
     else if n = 9 then [char_of (92::nat), CHR ''t'']
     else if n = 10 then [char_of (92::nat), CHR ''n'']
     else if n = 12 then [char_of (92::nat), CHR ''f'']
     else if n = 13 then [char_of (92::nat), CHR ''r'']
     else if 32 \<le> n \<and> n \<le> 126 then [c]
     else [char_of (92::nat), CHR ''u''] @ hex4 c)"

definition json_string :: "string \<Rightarrow> string" where
  "json_string s = [char_of (34::nat)] @ concat (map escape_char s) @ [char_of (34::nat)]"

fun json_atom :: "json \<Rightarrow> string" where
  "json_atom JNull = ''null''"
| "json_atom (JBool b) = (if b then ''true'' else ''false'')"
| "json_atom (JInt n) = int_str n"
| "json_atom (JStr s) = json_string s"
| "json_atom (JList xs) = ''['' @ join '','' (map json_atom xs) @ '']''"
| "json_atom (JDict d) = ''{'' @ join '','' (map (\<lambda>(k, v). json_string k @ '':'' @ json_atom v) d) @ ''}''"

section \<open>One event\<close>

fun or_zero :: "int option \<Rightarrow> int" where
  "or_zero None = 0"
| "or_zero (Some n) = n"

definition clamp_minute :: "int \<Rightarrow> int" where
  "clamp_minute n = min 130 (max 0 n)"

lemma clamp_minute_range [simp]: "0 \<le> clamp_minute n" "clamp_minute n \<le> 130"
  by (simp_all add: clamp_minute_def)

text \<open>The side: by the team's identifier when there is one, else by its name.\<close>

definition event_side :: "fixture_event \<Rightarrow> fixture_record \<Rightarrow> string option" where
  "event_side event fixture =
     (let team_id = Option.bind (fe_team event) ep_id;
          team_name = Option.bind (fe_team event) ep_name;
          home = ft_home (fr_teams fixture); away = ft_away (fr_teams fixture)
      in if team_id \<noteq> None then
           (if team_id = tm_id home then Some ''home''
            else if team_id = tm_id away then Some ''away'' else None)
         else if truthy team_name then
           (if casefold (the team_name) = casefold (tm_name home) then Some ''home''
            else if casefold (the team_name) = casefold (tm_name away) then Some ''away'' else None)
         else None)"

text \<open>\<open>party.id or party.name if party else None\<close> as a JSON value.\<close>

definition opt_json :: "('a \<Rightarrow> json) \<Rightarrow> 'a option \<Rightarrow> json" where
  "opt_json f x = (case x of None \<Rightarrow> JNull | Some y \<Rightarrow> f y)"

definition party_json :: "event_party option \<Rightarrow> json" where
  "party_json p = (case p of None \<Rightarrow> JNull
     | Some q \<Rightarrow> (case ep_id q of
          Some i \<Rightarrow> if i \<noteq> 0 then JInt i else opt_json JStr (ep_name q)
        | None \<Rightarrow> opt_json JStr (ep_name q)))"

definition event_elapsed :: "fixture_event \<Rightarrow> int \<Rightarrow> int" where
  "event_elapsed event current_minute =
     (case et_elapsed (fe_time event) of Some n \<Rightarrow> n | None \<Rightarrow> current_minute)"

text \<open>The identity fields, listed in the order \<open>sort_keys\<close> gives them.\<close>

definition identity_fields :: "fixture_event \<Rightarrow> fixture_record \<Rightarrow> int \<Rightarrow> dict" where
  "identity_fields event fixture current_minute =
     (let kind = strip (fe_type event);
          team_id = Option.bind (fe_team event) ep_id;
          team_name = Option.bind (fe_team event) ep_name;
          goal = (casefold kind = ''goal'')
      in (if goal then [] else [(''assist'', party_json (fe_assist event)),
             (''detail'', JStr (casefold (case fe_detail event of None \<Rightarrow> [] | Some x \<Rightarrow> x)))])
         @ [(''extra'', opt_json JInt (et_extra (fe_time event))),
            (''fixture'', JInt (fi_id (fr_fixture fixture))),
            (''minute'', JInt (event_elapsed event current_minute)),
            (''player'', party_json (fe_player event)),
            (''team'', case team_id of Some i \<Rightarrow> JInt i | None \<Rightarrow> opt_json JStr team_name),
            (''type'', JStr (casefold kind))])"

definition event_kinds :: "string list" where
  "event_kinds = [''goal'', ''card'', ''subst'', ''substitution'']"

definition normalize_event ::
  "(string \<Rightarrow> string) \<Rightarrow> fixture_event \<Rightarrow> fixture_record \<Rightarrow> int \<Rightarrow> match_event option result" where
  "normalize_event digest event fixture current_minute =
     (let kind = strip (fe_type event) in
      if casefold kind \<notin> set event_kinds then Inr None
      else bind_r (match_event_new
         \<lparr>me_identity = digest (json_atom (JDict (identity_fields event fixture current_minute))),
          me_kind = kind,
          me_minute = clamp_minute (event_elapsed event current_minute + or_zero (et_extra (fe_time event))),
          me_side = event_side event fixture,
          me_player = Option.bind (fe_player event) ep_name,
          me_assist = Option.bind (fe_assist event) ep_name,
          me_detail = fe_detail event\<rparr>) (\<lambda>m. Inr (Some m)))"

section \<open>One fixture\<close>

definition status_minute :: "fixture_status \<Rightarrow> int" where
  "status_minute s =
     (let code = upper (fs_short s) in
      clamp_minute ((case fs_elapsed s of
           Some n \<Rightarrow> n
         | None \<Rightarrow> if code = ''HT'' then 45
                   else if code \<in> {''AET'', ''PEN''} then 120
                   else if code = ''FT'' then 90 else 0) + or_zero (fs_extra s)))"

fun normalize_events ::
  "(string \<Rightarrow> string) \<Rightarrow> fixture_record \<Rightarrow> int \<Rightarrow> fixture_event list \<Rightarrow> match_event list result" where
  "normalize_events digest fixture minute [] = Inr []"
| "normalize_events digest fixture minute (e # es) =
     bind_r (normalize_event digest e fixture minute) (\<lambda>m.
     bind_r (normalize_events digest fixture minute es) (\<lambda>ms.
     Inr (case m of None \<Rightarrow> ms | Some x \<Rightarrow> x # ms)))"

text \<open>\<open>canonical_competitions\<close> maps league identifiers to names.\<close>

definition normalize_fixture ::
  "(string \<Rightarrow> string) \<Rightarrow> fixture_record \<Rightarrow> (int \<rightharpoonup> string) \<Rightarrow> bool \<Rightarrow> fixture_observation option result" where
  "normalize_fixture digest fixture canonical_competitions final_verification =
     (case canonical_competitions (fl_id (fr_league fixture)) of
        None \<Rightarrow> Inr None
      | Some competition \<Rightarrow>
          (let home = ft_home (fr_teams fixture); away = ft_away (fr_teams fixture);
               status = fi_status (fr_fixture fixture); minute = status_minute status
           in bind_r (normalize_events digest fixture minute
                        (case fr_events fixture of None \<Rightarrow> [] | Some es \<Rightarrow> es)) (\<lambda>events.
              bind_r (fixture_observation_new
                \<lparr>fo_fixture_id = fi_id (fr_fixture fixture), fo_league_id = fl_id (fr_league fixture),
                 fo_competition = competition, fo_home_team = tm_name home, fo_away_team = tm_name away,
                 fo_home_team_id = tm_id home, fo_away_team_id = tm_id away,
                 fo_kickoff_at = fi_date (fr_fixture fixture),
                 fo_actual_kickoff_at = map_option (\<lambda>t. seconds t) (fpd_first (fi_periods (fr_fixture fixture))),
                 fo_status_code = upper (fs_short status), fo_status_label = fs_long status,
                 fo_minute = minute, fo_home_score = fsc_home (fr_goals fixture),
                 fo_away_score = fsc_away (fr_goals fixture), fo_events = events,
                 fo_final_verification = final_verification\<rparr>) (\<lambda>o1. Inr (Some o1)))))"

section \<open>Properties\<close>

definition sides_ok :: "match_event list \<Rightarrow> bool" where
  "sides_ok es \<longleftrightarrow> list_all (\<lambda>e. me_side e = None \<or> me_side e = Some ''home'' \<or> me_side e = Some ''away'') es"

definition kinds_ok :: "match_event list \<Rightarrow> bool" where
  "kinds_ok es \<longleftrightarrow> list_all (\<lambda>e. casefold (me_kind e) \<in> set event_kinds) es"

lemma event_side_cases: "event_side e f = None \<or> event_side e f = Some ''home'' \<or> event_side e f = Some ''away''"
  by (simp add: event_side_def Let_def)

lemma normalize_event_Some:
  assumes "normalize_event digest e f minute = Inr (Some m)"
  shows "match_event_ok m" "sides_ok [m]" "kinds_ok [m]" "me_side m = event_side e f"
  using assms event_side_cases [of e f]
  by (auto simp: normalize_event_def Let_def bind_simps match_event_new_def sides_ok_def kinds_ok_def
      split: if_split_asm)

lemma normalize_event_fields:
  assumes "normalize_event digest e f minute = Inr (Some m)"
  shows "me_identity m = digest (json_atom (JDict (identity_fields e f minute)))"
    "me_minute m = clamp_minute (event_elapsed e minute + or_zero (et_extra (fe_time e)))"
    "me_side m = event_side e f" "me_player m = Option.bind (fe_player e) ep_name"
  using assms by (auto simp: normalize_event_def Let_def bind_simps match_event_new_def split: if_split_asm)

lemma normalize_event_total:
  assumes "\<forall>s. 1 \<le> length (digest s) \<and> length (digest s) \<le> 255"
  shows "\<exists>m. normalize_event digest e f minute = Inr m"
  using assms by (simp add: normalize_event_def Let_def match_event_new_def match_event_ok_def)

lemma normalize_events_ok:
  "normalize_events digest f minute es = Inr ms \<Longrightarrow> list_all match_event_ok ms \<and> sides_ok ms \<and> kinds_ok ms"
proof (induction es arbitrary: ms)
  case (Cons e es)
  then obtain m ms' where m: "normalize_event digest e f minute = Inr m"
    and ms': "normalize_events digest f minute es = Inr ms'"
    and ms: "ms = (case m of None \<Rightarrow> ms' | Some x \<Rightarrow> x # ms')"
    by (auto simp: bind_simps)
  show ?case
    using Cons.IH [OF ms'] ms normalize_event_Some [of digest e f minute] m
    by (cases m) (auto simp: sides_ok_def kinds_ok_def)
qed (simp add: sides_ok_def kinds_ok_def)

lemma normalize_events_total:
  assumes "\<forall>s. 1 \<le> length (digest s) \<and> length (digest s) \<le> 255"
  shows "\<exists>ms. normalize_events digest f minute es = Inr ms"
proof (induction es)
  case (Cons e es)
  with normalize_event_total [OF assms, of e f minute] show ?case by auto
qed simp

lemma upper_upper [simp]: "upper (upper s) = upper s"
proof -
  have "char_upper (char_upper c) = char_upper c" for c
    by (auto simp: char_upper_def Let_def)
  then show ?thesis by (simp add: upper_def)
qed

text \<open>
  The translation is total on what the provider documents: for a competition the program
  follows, with positive identifiers and scores that are not negative, every record gives an
  observation.  Whatever the clock fields hold, its minutes are between 0 and 130; its status is in
  upper case; its events are goals, cards and substitutions whose side is home, away or unknown.
\<close>

theorem normalize_fixture_total:
  assumes "\<forall>s. 1 \<le> length (digest s) \<and> length (digest s) \<le> 255"
    and "comps (fl_id (fr_league f)) = Some c" and "0 < fi_id (fr_fixture f)" and "0 < fl_id (fr_league f)"
    and "opt_nonneg (fsc_home (fr_goals f))" and "opt_nonneg (fsc_away (fr_goals f))"
  shows "\<exists>x. normalize_fixture digest f comps final = Inr (Some x) \<and> fixture_observation_ok x
    \<and> upper (fo_status_code x) = fo_status_code x \<and> sides_ok (fo_events x) \<and> kinds_ok (fo_events x)
    \<and> external_entity_id x = ''api-football:fixture:'' @ int_str (fi_id (fr_fixture f))"
proof -
  let ?raw = "case fr_events f of None \<Rightarrow> [] | Some es \<Rightarrow> es"
  let ?minute = "status_minute (fi_status (fr_fixture f))"
  obtain ms where ms: "normalize_events digest f ?minute ?raw = Inr ms"
    using normalize_events_total [OF assms(1)] by blast
  have min: "0 \<le> ?minute" "?minute \<le> 130" by (simp_all add: status_minute_def Let_def)
  show ?thesis
    using assms(2-6) min normalize_events_ok [OF ms]
    by (simp add: normalize_fixture_def Let_def ms fixture_observation_new_def fixture_observation_ok_def
        external_entity_id_def)
qed

text \<open>
  A goal keeps its identity when only its description changes: two reports of a goal of the same
  fixture that agree in time, team and scorer have the same identity, whatever their detail and assist.
\<close>

theorem goal_identity_stable:
  assumes "normalize_event digest e f minute = Inr (Some x)"
    and "normalize_event digest (e\<lparr>fe_detail := detail, fe_assist := assist, fe_comments := comments\<rparr>) f minute = Inr (Some y)"
    and "casefold (strip (fe_type e)) = ''goal''"
  shows "me_identity y = me_identity x \<and> me_minute y = me_minute x \<and> me_side y = me_side x \<and> me_player y = me_player x"
proof -
  let ?e = "e\<lparr>fe_detail := detail, fe_assist := assist, fe_comments := comments\<rparr>"
  have "identity_fields ?e f minute = identity_fields e f minute"
    using assms(3) by (simp add: identity_fields_def Let_def event_elapsed_def)
  moreover have "event_side ?e f = event_side e f" "event_elapsed ?e minute = event_elapsed e minute"
    by (simp_all add: event_side_def event_elapsed_def)
  ultimately show ?thesis
    using normalize_event_fields [OF assms(1)] normalize_event_fields [OF assms(2)] by simp
qed

definition sample_goal_report :: fixture_event where
  "sample_goal_report =
     \<lparr>fe_time = \<lparr>et_elapsed = Some 23, et_extra = None\<rparr>, fe_team = Some \<lparr>ep_id = Some 40, ep_name = Some ''A''\<rparr>,
      fe_player = Some \<lparr>ep_id = Some 306, ep_name = Some ''P''\<rparr>, fe_assist = None, fe_type = ''Goal'',
      fe_detail = Some ''Normal Goal'', fe_comments = None\<rparr>"

definition sample_record :: fixture_record where
  "sample_record =
     \<lparr>fr_fixture = \<lparr>fi_id = 7, fi_date = 1000000, fi_timestamp = None, fi_timezone = None,
        fi_periods = \<lparr>fpd_first = None, fpd_second = None\<rparr>,
        fi_status = \<lparr>fs_long = Some ''First Half'', fs_short = ''1h'', fs_elapsed = Some 31, fs_extra = None\<rparr>\<rparr>,
      fr_league = \<lparr>fl_id = 39, fl_name = ''Premier League'', fl_country = None, fl_season = Some 2025\<rparr>,
      fr_teams = \<lparr>ft_home = \<lparr>tm_id = Some 40, tm_name = ''A''\<rparr>, ft_away = \<lparr>tm_id = Some 41, tm_name = ''B''\<rparr>\<rparr>,
      fr_goals = \<lparr>fsc_home = Some 1, fsc_away = Some 0\<rparr>,
      fr_score = \<lparr>fss_halftime = None, fss_fulltime = None, fss_extratime = None, fss_penalty = None\<rparr>,
      fr_events = Some [sample_goal_report]\<rparr>"

theorem normalize_fixture_total_witness:
  "\<exists>x. normalize_fixture (\<lambda>s. ''d'') sample_record [39 \<mapsto> ''Premier League''] False = Inr (Some x)
     \<and> fixture_observation_ok x"
proof -
  have "\<exists>x. normalize_fixture (\<lambda>s. ''d'') sample_record [39 \<mapsto> ''Premier League''] False = Inr (Some x)
     \<and> fixture_observation_ok x
    \<and> upper (fo_status_code x) = fo_status_code x \<and> sides_ok (fo_events x) \<and> kinds_ok (fo_events x)
    \<and> external_entity_id x = ''api-football:fixture:'' @ int_str (fi_id (fr_fixture sample_record))"
    by (rule normalize_fixture_total) (simp_all add: sample_record_def opt_nonneg_def)
  then show ?thesis by blast
qed

definition sample_digest :: "string \<Rightarrow> string" where
  "sample_digest s = take 64 (s @ replicate 64 (CHR ''0''))"

lemma sample_digest_length [simp]: "length (sample_digest s) = 64"
  by (simp add: sample_digest_def)

theorem goal_identity_stable_witness:
  "\<exists>x y. normalize_event sample_digest sample_goal_report sample_record 31 = Inr (Some x)
     \<and> normalize_event sample_digest (sample_goal_report\<lparr>fe_detail := Some ''Penalty'', fe_assist := None,
          fe_comments := None\<rparr>) sample_record 31 = Inr (Some y) \<and> me_identity y = me_identity x"
proof -
  have goal: "casefold (strip (fe_type sample_goal_report)) = ''goal''" by code_simp
  have "\<exists>x. normalize_event sample_digest e sample_record 31 = Inr (Some x)"
    if "casefold (strip (fe_type e)) = ''goal''" for e
    using that by (simp add: normalize_event_def Let_def event_kinds_def match_event_new_def match_event_ok_def)
  from this [of sample_goal_report] this [of "sample_goal_report\<lparr>fe_detail := Some ''Penalty'',
      fe_assist := None, fe_comments := None\<rparr>"] goal
  obtain x y where x: "normalize_event sample_digest sample_goal_report sample_record 31 = Inr (Some x)"
    and y: "normalize_event sample_digest (sample_goal_report\<lparr>fe_detail := Some ''Penalty'', fe_assist := None,
          fe_comments := None\<rparr>) sample_record 31 = Inr (Some y)"
    by auto
  from goal_identity_stable [OF x y goal] x y show ?thesis by blast
qed

end
