(* ===== verification/Char_Order.thy ===== *)
theory Char_Order
  imports Main "HOL-Library.Char_ord" "HOL-Library.List_Lexorder" "HOL-Library.Product_Lexorder"
begin

text \<open>
  The orders Python uses when it compares strings and tuples: characters by their code,
  lists and tuples lexicographically.
\<close>

end
