(* ===== verification/Fixture_Diff.thy ===== *)
theory Fixture_Diff
  imports Football_Normalize Char_Order
begin

text \<open>
  The comparison of a fixture observation with the last checkpoint
  (\<open>backend/app/providers/football/ingestion.py\<close>): which canonical events are new, and the next
  checkpoint.  The checkpoint is a JSON object; what the function reads from it is the record
  \<open>prior\<close>, what it writes the record \<open>fixture_state\<close>.
\<close>

section \<open>Status codes\<close>

definition LIVE_CODES :: "string set" where
  "LIVE_CODES = {''1H'', ''HT'', ''2H'', ''ET'', ''BT'', ''P'', ''LIVE''}"

definition FULLTIME_CODES :: "string set" where
  "FULLTIME_CODES = {''FT'', ''AET'', ''PEN''}"

definition CANCELLED_CODES :: "string set" where
  "CANCELLED_CODES = {''CANC'', ''ABD'', ''AWD'', ''WO''}"

definition STATUS_RANK :: "(string \<times> int) list" where
  "STATUS_RANK =
     [(''TBD'', 0), (''NS'', 0), (''PST'', 0), (''SUSP'', 1), (''INT'', 1), (''1H'', 1), (''HT'', 2),
      (''2H'', 3), (''ET'', 4), (''BT'', 4), (''P'', 4), (''FT'', 5), (''AET'', 5), (''PEN'', 5),
      (''CANC'', 5), (''ABD'', 5), (''AWD'', 5), (''WO'', 5)]"

definition status_rank :: "string \<Rightarrow> int" where
  "status_rank code = (case map_of STATUS_RANK code of Some n \<Rightarrow> n | None \<Rightarrow> 0)"

section \<open>Checkpoints\<close>

record prior =
  pv_present :: bool
  pv_event_ids :: "string list"
  pv_version :: int
  pv_status_code :: string
  pv_minute :: int
  pv_home_score :: int
  pv_away_score :: int
  pv_scheduled_kickoff :: "json option"
  pv_scheduled_emitted :: bool
  pv_kickoff_emitted :: bool
  pv_halftime_emitted :: bool
  pv_second_half_emitted :: bool
  pv_extra_time_emitted :: bool
  pv_penalties_emitted :: bool
  pv_fulltime_emitted :: bool
  pv_final_verification_pending :: bool

text \<open>\<open>bool(value)\<close>.\<close>

fun py_bool :: "json \<Rightarrow> bool" where
  "py_bool JNull = False"
| "py_bool (JBool b) = b"
| "py_bool (JInt n) = (n \<noteq> 0)"
| "py_bool (JStr s) = (s \<noteq> [])"
| "py_bool (JList xs) = (xs \<noteq> [])"
| "py_bool (JDict d) = (d \<noteq> [])"

definition flag :: "dict \<Rightarrow> string \<Rightarrow> bool" where
  "flag d k = (case map_of d k of None \<Rightarrow> False | Some v \<Rightarrow> py_bool v)"

text \<open>\<open>set(str(item) for item in value)\<close>: a string iterates over its characters, an object over its keys.\<close>

fun iter_str :: "json \<Rightarrow> string list result" where
  "iter_str (JList xs) = Inr (map py_str xs)"
| "iter_str (JStr s) = Inr (map (\<lambda>c. [c]) s)"
| "iter_str (JDict d) = Inr (map fst d)"
| "iter_str _ = Inl (TypeError ''object is not iterable'')"

definition read_prior :: "dict option \<Rightarrow> prior result" where
  "read_prior previous =
     (let d = (case previous of None \<Rightarrow> [] | Some x \<Rightarrow> x) in
      bind_r (iter_str (dict_get_or d ''event_ids'' (JList []))) (\<lambda>ids.
      bind_r (py_int (dict_get_or d ''version'' (JInt 0))) (\<lambda>version.
      bind_r (py_int (dict_get_or d ''minute'' (JInt 0))) (\<lambda>minute.
      bind_r (py_int (dict_get_or d ''home_score'' (JInt 0))) (\<lambda>home.
      bind_r (py_int (dict_get_or d ''away_score'' (JInt 0))) (\<lambda>away.
      Inr \<lparr>pv_present = (d \<noteq> []), pv_event_ids = ids, pv_version = version,
           pv_status_code = upper (py_str (dict_get_or d ''status_code'' (JStr ''TBD''))),
           pv_minute = minute, pv_home_score = home, pv_away_score = away,
           pv_scheduled_kickoff = map_of d ''scheduled_kickoff'',
           pv_scheduled_emitted = flag d ''scheduled_emitted'',
           pv_kickoff_emitted = flag d ''kickoff_emitted'',
           pv_halftime_emitted = flag d ''halftime_emitted'',
           pv_second_half_emitted = flag d ''second_half_emitted'',
           pv_extra_time_emitted = flag d ''extra_time_emitted'',
           pv_penalties_emitted = flag d ''penalties_emitted'',
           pv_fulltime_emitted = flag d ''fulltime_emitted'',
           pv_final_verification_pending = flag d ''final_verification_pending''\<rparr>))))))"

record fixture_state =
  st_fixture_id :: int
  st_competition :: string
  st_home_team :: string
  st_away_team :: string
  st_scheduled_kickoff :: string
  st_status_code :: string
  st_minute :: int
  st_home_score :: int
  st_away_score :: int
  st_event_ids :: "string list"
  st_scheduled_emitted :: bool
  st_kickoff_emitted :: bool
  st_halftime_emitted :: bool
  st_second_half_emitted :: bool
  st_extra_time_emitted :: bool
  st_penalties_emitted :: bool
  st_fulltime_emitted :: bool
  st_final_verification_pending :: bool
  st_terminal :: bool
  st_version :: int
  st_last_observed_at :: string

definition state_dict :: "fixture_state \<Rightarrow> dict" where
  "state_dict s =
     [(''fixture_id'', JInt (st_fixture_id s)), (''competition'', JStr (st_competition s)),
      (''home_team'', JStr (st_home_team s)), (''away_team'', JStr (st_away_team s)),
      (''scheduled_kickoff'', JStr (st_scheduled_kickoff s)), (''status_code'', JStr (st_status_code s)),
      (''minute'', JInt (st_minute s)), (''home_score'', JInt (st_home_score s)),
      (''away_score'', JInt (st_away_score s)), (''event_ids'', JList (map JStr (st_event_ids s))),
      (''scheduled_emitted'', JBool (st_scheduled_emitted s)),
      (''kickoff_emitted'', JBool (st_kickoff_emitted s)),
      (''halftime_emitted'', JBool (st_halftime_emitted s)),
      (''second_half_emitted'', JBool (st_second_half_emitted s)),
      (''extra_time_emitted'', JBool (st_extra_time_emitted s)),
      (''penalties_emitted'', JBool (st_penalties_emitted s)),
      (''fulltime_emitted'', JBool (st_fulltime_emitted s)),
      (''final_verification_pending'', JBool (st_final_verification_pending s)),
      (''terminal'', JBool (st_terminal s)), (''version'', JInt (st_version s)),
      (''last_observed_at'', JStr (st_last_observed_at s))]"

text \<open>What a later call reads from a written checkpoint.\<close>

definition prior_of_state :: "fixture_state \<Rightarrow> prior" where
  "prior_of_state s =
     \<lparr>pv_present = True, pv_event_ids = st_event_ids s, pv_version = st_version s,
      pv_status_code = upper (st_status_code s), pv_minute = st_minute s,
      pv_home_score = st_home_score s, pv_away_score = st_away_score s,
      pv_scheduled_kickoff = Some (JStr (st_scheduled_kickoff s)),
      pv_scheduled_emitted = st_scheduled_emitted s, pv_kickoff_emitted = st_kickoff_emitted s,
      pv_halftime_emitted = st_halftime_emitted s, pv_second_half_emitted = st_second_half_emitted s,
      pv_extra_time_emitted = st_extra_time_emitted s, pv_penalties_emitted = st_penalties_emitted s,
      pv_fulltime_emitted = st_fulltime_emitted s,
      pv_final_verification_pending = st_final_verification_pending s\<rparr>"

lemma read_state [simp]: "read_prior (Some (state_dict s)) = Inr (prior_of_state s)"
  by (simp add: read_prior_def state_dict_def prior_of_state_def dict_get_or_def flag_def o_def)

section \<open>Classification of match events\<close>

definition classify_event :: "match_event \<Rightarrow> (football_event_type \<times> string option) option" where
  "classify_event e =
     (let kind = casefold (me_kind e);
          detail = casefold (case me_detail e of None \<Rightarrow> [] | Some x \<Rightarrow> x)
      in if kind = ''goal'' then
           (if \<exists>token \<in> set [''disallowed'', ''missed penalty'', ''goal cancelled'']. contains detail token
            then None else Some (GOAL, me_side e))
         else if kind = ''card'' then
           (if contains detail ''second yellow'' \<or> contains detail ''red card'' \<or> contains detail ''straight red''
            then Some (RED_CARD, me_side e)
            else if contains detail ''yellow'' then Some (YELLOW_CARD, me_side e) else None)
         else if kind = ''subst'' \<or> kind = ''substitution'' then Some (SUBSTITUTION, me_side e)
         else None)"

section \<open>Emitting events\<close>

text \<open>
  What stays fixed during one call.  \<open>dc_uuid n\<close> is the identifier the \<open>n\<close>-th constructed event gets
  (\<open>uuid7\<close>), \<open>dc_ingested\<close> the clock at construction.
\<close>

record diff_ctx =
  dc_fixture :: fixture_observation
  dc_observed_at :: instant
  dc_correlation :: uuid
  dc_status_code :: string
  dc_actual_kickoff :: instant
  dc_uuid :: "nat \<Rightarrow> uuid"
  dc_ingested :: instant

text \<open>The variables the nested functions assign (\<open>nonlocal\<close>).\<close>

record diff_vars =
  dv_version :: int
  dv_home :: int
  dv_away :: int
  dv_emitted :: "event list"
  dv_halftime :: bool
  dv_second_half :: bool
  dv_extra_time :: bool
  dv_penalties :: bool
  dv_event_ids :: "string list"
  dv_goals_home :: int
  dv_goals_away :: int

record emit_args =
  ea_side :: "string option"
  ea_player :: "string option"
  ea_substitute :: "string option"
  ea_detail :: "string option"
  ea_home_score :: "int option"
  ea_away_score :: "int option"
  ea_phase :: "string option"

definition no_args :: emit_args where
  "no_args = \<lparr>ea_side = None, ea_player = None, ea_substitute = None, ea_detail = None,
     ea_home_score = None, ea_away_score = None, ea_phase = None\<rparr>"

definition or_str :: "string option \<Rightarrow> string \<Rightarrow> string" where
  "or_str x y = (case x of Some s \<Rightarrow> if s \<noteq> [] then s else y | None \<Rightarrow> y)"

text \<open>The score an event is emitted with.\<close>

definition resolve :: "football_event_type \<Rightarrow> emit_args \<Rightarrow> int \<times> int \<Rightarrow> int \<times> int" where
  "resolve t a cur =
     (let home = (case ea_home_score a of Some n \<Rightarrow> n | None \<Rightarrow> fst cur);
          away = (case ea_away_score a of Some n \<Rightarrow> n | None \<Rightarrow> snd cur)
      in if t = GOAL then
           (if ea_side a = Some ''home'' \<and> ea_home_score a = None then (home + 1, away)
            else if ea_side a = Some ''away'' \<and> ea_away_score a = None then (home, away + 1)
            else (home, away))
         else (home, away))"

definition emit_payload :: "diff_ctx \<Rightarrow> int \<Rightarrow> emit_args \<Rightarrow> int \<times> int \<Rightarrow> football_payload" where
  "emit_payload c event_minute a score =
     \<lparr>fp_home_team = fo_home_team (dc_fixture c), fp_away_team = fo_away_team (dc_fixture c),
      fp_competition = fo_competition (dc_fixture c), fp_minute = clamp_minute event_minute,
      fp_current_minute = Some (clamp_minute (fo_minute (dc_fixture c))), fp_side = ea_side a,
      fp_player = ea_player a, fp_substitute = ea_substitute a, fp_detail = ea_detail a,
      fp_home_score = max 0 (fst score), fp_away_score = max 0 (snd score),
      fp_status = Some (or_str (fo_status_label (dc_fixture c)) (dc_status_code c)),
      fp_phase = ea_phase a\<rparr>"

definition diff_dedupe_key :: "fixture_observation \<Rightarrow> string \<Rightarrow> string" where
  "diff_dedupe_key f identity = ''api-football:'' @ int_str (fo_fixture_id f) @ '':'' @ identity"

definition emit ::
  "diff_ctx \<Rightarrow> football_event_type \<Rightarrow> string \<Rightarrow> int \<Rightarrow> instant \<Rightarrow> emit_args \<Rightarrow> diff_vars \<Rightarrow> diff_vars result" where
  "emit c t identity event_minute occurred_at a v =
     (let score = resolve t a (dv_home v, dv_away v) in
      bind_r (football_payload_new (emit_payload c event_minute a score)) (\<lambda>payload.
      bind_r (canonical_event_new (dc_uuid c (length (dv_emitted v))) ''api-football'' (fet_value t) ''match''
                (external_entity_id (dc_fixture c)) (utc occurred_at) (utc (dc_observed_at c))
                (utc (dc_ingested c)) (dv_version v + 1) (diff_dedupe_key (dc_fixture c) identity) 1
                (dc_correlation c) (football_payload_dump payload)) (\<lambda>e.
      Inr (v\<lparr>dv_version := dv_version v + 1, dv_emitted := dv_emitted v @ [e],
             dv_home := fst score, dv_away := snd score\<rparr>))))"

definition ensure_halftime :: "diff_ctx \<Rightarrow> diff_vars \<Rightarrow> diff_vars result" where
  "ensure_halftime c v =
     (if dc_status_code c \<in> {''HT'', ''2H'', ''ET'', ''BT'', ''P''} \<union> FULLTIME_CODES \<and> \<not> dv_halftime v then
        bind_r (emit c HALFTIME ''halftime'' 45 (dc_actual_kickoff c + minutes 45) no_args v) (\<lambda>w.
        Inr (w\<lparr>dv_halftime := True\<rparr>))
      else Inr v)"

definition ensure_second_half :: "diff_ctx \<Rightarrow> diff_vars \<Rightarrow> diff_vars result" where
  "ensure_second_half c v =
     (if dc_status_code c \<in> {''2H'', ''ET'', ''BT'', ''P''} \<union> FULLTIME_CODES \<and> \<not> dv_second_half v then
        bind_r (ensure_halftime c v) (\<lambda>u.
        bind_r (emit c SECOND_HALF ''second-half'' 45 (dc_actual_kickoff c + minutes 60) no_args u) (\<lambda>w.
        Inr (w\<lparr>dv_second_half := True\<rparr>)))
      else Inr v)"

definition ensure_extra_time :: "diff_ctx \<Rightarrow> diff_vars \<Rightarrow> diff_vars result" where
  "ensure_extra_time c v =
     (if dc_status_code c \<in> {''ET'', ''BT'', ''P'', ''AET'', ''PEN''} \<and> \<not> dv_extra_time v then
        bind_r (ensure_second_half c v) (\<lambda>u.
        bind_r (emit c EXTRA_TIME ''extra-time'' 90 (dc_actual_kickoff c + minutes 90)
                  (no_args\<lparr>ea_phase := Some ''extra_time''\<rparr>) u) (\<lambda>w.
        Inr (w\<lparr>dv_extra_time := True\<rparr>)))
      else Inr v)"

definition ensure_penalties :: "diff_ctx \<Rightarrow> diff_vars \<Rightarrow> diff_vars result" where
  "ensure_penalties c v =
     (if dc_status_code c \<in> {''P'', ''PEN''} \<and> \<not> dv_penalties v then
        bind_r (ensure_extra_time c v) (\<lambda>u.
        bind_r (emit c PENALTIES ''penalties'' 120 (dc_actual_kickoff c + minutes 120)
                  (no_args\<lparr>ea_phase := Some ''penalties''\<rparr>) u) (\<lambda>w.
        Inr (w\<lparr>dv_penalties := True\<rparr>)))
      else Inr v)"

section \<open>The comparison\<close>

text \<open>One round of the loop over the reported match events.\<close>

definition count_goal :: "football_event_type \<Rightarrow> string option \<Rightarrow> diff_vars \<Rightarrow> diff_vars result" where
  "count_goal t side v =
     (if t = GOAL \<and> truthy side then
        (if side = Some ''home'' then Inr (v\<lparr>dv_goals_home := dv_goals_home v + 1\<rparr>)
         else if side = Some ''away'' then Inr (v\<lparr>dv_goals_away := dv_goals_away v + 1\<rparr>)
         else Inl (KeyError (the side)))
      else Inr v)"

definition diff_event :: "diff_ctx \<Rightarrow> match_event \<Rightarrow> diff_vars \<Rightarrow> diff_vars result" where
  "diff_event c e v =
     bind_r (if 45 \<le> me_minute e then ensure_halftime c v else Inr v) (\<lambda>v.
     bind_r (if 45 < me_minute e then ensure_second_half c v else Inr v) (\<lambda>v.
     bind_r (if 90 \<le> me_minute e then ensure_extra_time c v else Inr v) (\<lambda>v.
     bind_r (if 120 \<le> me_minute e then ensure_penalties c v else Inr v) (\<lambda>v.
     case classify_event e of
       None \<Rightarrow> Inr v
     | Some (t, side) \<Rightarrow>
         if me_identity e \<in> set (dv_event_ids v) then Inr v
         else if t \<in> {GOAL, YELLOW_CARD, RED_CARD} \<and> \<not> truthy side then Inr v
         else bind_r (emit c t (''event:'' @ me_identity e) (me_minute e)
                        (dc_actual_kickoff c + minutes (me_minute e))
                        (no_args\<lparr>ea_side := side, ea_player := me_player e,
                           ea_substitute := (if t = SUBSTITUTION then me_assist e else None),
                           ea_detail := me_detail e\<rparr>) v) (\<lambda>w.
              count_goal t side (w\<lparr>dv_event_ids := dv_event_ids w @ [me_identity e]\<rparr>))))))"

text \<open>The generic goals of one side: one for each score number past the aligned one.\<close>

definition score_goal_identity :: "int \<Rightarrow> string \<Rightarrow> int \<Rightarrow> int \<Rightarrow> string" where
  "score_goal_identity prior_version side n minute =
     ''score-goal:'' @ int_str prior_version @ '':'' @ side @ '':'' @ int_str n @ '':'' @ int_str minute"

definition diff_score_goal :: "diff_ctx \<Rightarrow> int \<Rightarrow> int \<Rightarrow> string \<Rightarrow> int \<Rightarrow> diff_vars \<Rightarrow> diff_vars result" where
  "diff_score_goal c prior_version minute side n v =
     emit c GOAL (score_goal_identity prior_version side n minute) minute (event_time_of (dc_fixture c))
       (no_args\<lparr>ea_side := Some side, ea_detail := Some ''Goal detected from score change''\<rparr>) v"

definition score_text :: "int \<Rightarrow> int \<Rightarrow> string" where
  "score_text home away = int_str home @ ''-'' @ int_str away"

text \<open>The state of the loops at the start of a call.\<close>

definition diff_start :: "prior \<Rightarrow> diff_vars" where
  "diff_start p =
     \<lparr>dv_version = pv_version p, dv_home = pv_home_score p, dv_away = pv_away_score p, dv_emitted = [],
      dv_halftime = pv_halftime_emitted p, dv_second_half = pv_second_half_emitted p,
      dv_extra_time = pv_extra_time_emitted p, dv_penalties = pv_penalties_emitted p,
      dv_event_ids = pv_event_ids p, dv_goals_home = 0, dv_goals_away = 0\<rparr>"

definition status_code_of :: "prior \<Rightarrow> fixture_observation \<Rightarrow> string" where
  "status_code_of p f =
     (let received = upper (fo_status_code f) in
      if status_rank received < status_rank (pv_status_code p) then pv_status_code p else received)"

definition stale_observation :: "prior \<Rightarrow> fixture_observation \<Rightarrow> bool" where
  "stale_observation p f \<longleftrightarrow> pv_present p \<and>
     (fo_minute f < pv_minute p \<or> status_rank (upper (fo_status_code f)) < status_rank (pv_status_code p))"

definition actual_kickoff_of :: "fixture_observation \<Rightarrow> instant" where
  "actual_kickoff_of f = (case fo_actual_kickoff_at f of Some t \<Rightarrow> t | None \<Rightarrow> fo_kickoff_at f)"

definition scheduled_changed :: "prior \<Rightarrow> fixture_observation \<Rightarrow> bool" where
  "scheduled_changed p f \<longleftrightarrow> pv_scheduled_kickoff p \<noteq> Some (JStr (isoformat (fo_kickoff_at f)))"

definition is_live_or_later :: "string \<Rightarrow> bool" where
  "is_live_or_later code \<longleftrightarrow> code \<in> LIVE_CODES \<union> FULLTIME_CODES"

definition diff_scheduled :: "prior \<Rightarrow> bool \<Rightarrow> diff_ctx \<Rightarrow> diff_vars \<Rightarrow> diff_vars result" where
  "diff_scheduled p emit_scheduled c v =
     (if emit_scheduled \<and> scheduled_changed p (dc_fixture c) then
        emit c SCHEDULED
          (''scheduled:'' @ int_str (pv_version p) @ '':'' @ isoformat (fo_kickoff_at (dc_fixture c)))
          0 (fo_kickoff_at (dc_fixture c)) no_args v
      else Inr v)"

definition diff_kickoff :: "prior \<Rightarrow> diff_ctx \<Rightarrow> diff_vars \<Rightarrow> diff_vars result" where
  "diff_kickoff p c v =
     (if is_live_or_later (dc_status_code c) \<and> \<not> pv_kickoff_emitted p then
        emit c KICKOFF ''kickoff'' 0 (dc_actual_kickoff c) no_args v
      else Inr v)"

text \<open>\<open>sorted(fixture.events, key=lambda item: (item.minute, item.identity))\<close>.\<close>

definition event_order :: "match_event list \<Rightarrow> match_event list" where
  "event_order es = sort_key (\<lambda>e. (me_minute e, me_identity e)) es"

definition diff_facts :: "prior \<Rightarrow> bool \<Rightarrow> diff_ctx \<Rightarrow> diff_vars result" where
  "diff_facts p emit_scheduled c =
     bind_r (diff_scheduled p emit_scheduled c (diff_start p)) (\<lambda>v.
     bind_r (diff_kickoff p c v) (\<lambda>v.
     bind_r (fold_r (diff_event c) (event_order (fo_events (dc_fixture c))) v) (\<lambda>v.
     bind_r (ensure_halftime c v) (\<lambda>v.
     bind_r (ensure_second_half c v) (\<lambda>v.
     bind_r (ensure_extra_time c v) (\<lambda>v. ensure_penalties c v))))))"

text \<open>The score the provider reports; a stale observation keeps the checkpoint's.\<close>

definition reported_score :: "prior \<Rightarrow> fixture_observation \<Rightarrow> int \<times> int" where
  "reported_score p f =
     (if stale_observation p f then (pv_home_score p, pv_away_score p)
      else (case fo_home_score f of Some n \<Rightarrow> n | None \<Rightarrow> pv_home_score p,
            case fo_away_score f of Some n \<Rightarrow> n | None \<Rightarrow> pv_away_score p))"

definition diff_scores :: "prior \<Rightarrow> diff_ctx \<Rightarrow> int \<Rightarrow> diff_vars \<Rightarrow> diff_vars result" where
  "diff_scores p c minute v =
     (let reported = reported_score p (dc_fixture c);
          expected_home = pv_home_score p + dv_goals_home v;
          expected_away = pv_away_score p + dv_goals_away v;
          aligned = (max expected_home (fst reported), max expected_away (snd reported))
      in bind_r (fold_r (diff_score_goal c (pv_version p) minute ''home'') [expected_home + 1..fst reported] v) (\<lambda>v.
         bind_r (fold_r (diff_score_goal c (pv_version p) minute ''away'') [expected_away + 1..snd reported] v) (\<lambda>v.
         if reported \<noteq> aligned then
           emit c SCORE_CORRECTED
             (''score-corrected:'' @ int_str (pv_version p) @ '':'' @ score_text (fst aligned) (snd aligned)
                @ '':'' @ score_text (fst reported) (snd reported))
             minute (event_time_of (dc_fixture c))
             (no_args\<lparr>ea_home_score := Some (fst reported), ea_away_score := Some (snd reported),
                ea_detail := Some (''Provider score corrected from '' @ score_text (fst aligned) (snd aligned))\<rparr>) v
         else Inr v)))"

definition diff_fulltime :: "prior \<Rightarrow> diff_ctx \<Rightarrow> int \<Rightarrow> diff_vars \<Rightarrow> diff_vars result" where
  "diff_fulltime p c minute v =
     (if dc_status_code c \<in> FULLTIME_CODES \<and> \<not> pv_fulltime_emitted p then
        emit c FULLTIME ''fulltime'' (max 90 minute) (event_time_of (dc_fixture c))
          (no_args\<lparr>ea_home_score := Some (fst (reported_score p (dc_fixture c))),
             ea_away_score := Some (snd (reported_score p (dc_fixture c)))\<rparr>) v
      else Inr v)"

definition next_state ::
  "prior \<Rightarrow> bool \<Rightarrow> diff_ctx \<Rightarrow> int \<Rightarrow> diff_vars \<Rightarrow> fixture_state" where
  "next_state p emit_scheduled c minute v =
     (let f = dc_fixture c; code = dc_status_code c; reported = reported_score p f in
      \<lparr>st_fixture_id = fo_fixture_id f, st_competition = fo_competition f, st_home_team = fo_home_team f,
       st_away_team = fo_away_team f, st_scheduled_kickoff = isoformat (fo_kickoff_at f),
       st_status_code = code, st_minute = minute, st_home_score = fst reported,
       st_away_score = snd reported, st_event_ids = sorted_list_of_set (set (dv_event_ids v)),
       st_scheduled_emitted = (pv_scheduled_emitted p \<or> (emit_scheduled \<and> scheduled_changed p f)),
       st_kickoff_emitted = (pv_kickoff_emitted p \<or> is_live_or_later code),
       st_halftime_emitted = dv_halftime v, st_second_half_emitted = dv_second_half v,
       st_extra_time_emitted = dv_extra_time v, st_penalties_emitted = dv_penalties v,
       st_fulltime_emitted = (pv_fulltime_emitted p \<or> code \<in> FULLTIME_CODES),
       st_final_verification_pending =
         (\<not> fo_final_verification f \<and>
          (pv_final_verification_pending p \<or> (code \<in> FULLTIME_CODES \<and> \<not> pv_fulltime_emitted p))),
       st_terminal = (code \<in> FULLTIME_CODES \<union> CANCELLED_CODES), st_version = dv_version v,
       st_last_observed_at = isoformat (dc_observed_at c)\<rparr>)"

definition diff_ctx_of ::
  "prior \<Rightarrow> fixture_observation observation \<Rightarrow> uuid \<Rightarrow> (nat \<Rightarrow> uuid) \<Rightarrow> instant \<Rightarrow> diff_ctx" where
  "diff_ctx_of p obs correlation ids ingested =
     \<lparr>dc_fixture = obs_content obs, dc_observed_at = obs_observed_at obs, dc_correlation = correlation,
      dc_status_code = status_code_of p (obs_content obs),
      dc_actual_kickoff = actual_kickoff_of (obs_content obs), dc_uuid = ids, dc_ingested = ingested\<rparr>"

definition next_minute :: "prior \<Rightarrow> fixture_observation \<Rightarrow> int" where
  "next_minute p f = max (pv_minute p) (fo_minute f)"

definition diff_prior ::
  "prior \<Rightarrow> fixture_observation observation \<Rightarrow> uuid \<Rightarrow> bool \<Rightarrow> (nat \<Rightarrow> uuid) \<Rightarrow> instant
   \<Rightarrow> (event list \<times> fixture_state) result" where
  "diff_prior p obs correlation emit_scheduled ids ingested =
     (let c = diff_ctx_of p obs correlation ids ingested; minute = next_minute p (obs_content obs) in
      bind_r (diff_facts p emit_scheduled c) (\<lambda>v.
      bind_r (diff_scores p c minute v) (\<lambda>v.
      bind_r (diff_fulltime p c minute v) (\<lambda>v.
      Inr (dv_emitted v, next_state p emit_scheduled c minute v)))))"

definition diff_fixture ::
  "dict option \<Rightarrow> fixture_observation observation \<Rightarrow> uuid \<Rightarrow> bool \<Rightarrow> (nat \<Rightarrow> uuid) \<Rightarrow> instant
   \<Rightarrow> (event list \<times> fixture_state) result" where
  "diff_fixture previous obs correlation emit_scheduled ids ingested =
     bind_r (read_prior previous) (\<lambda>p. diff_prior p obs correlation emit_scheduled ids ingested)"

end
