(* ===== verification/Diff_Facts.thy ===== *)
theory Diff_Facts
  imports Fixture_Diff Reducer
begin

text \<open>
  What one comparison emits, as a feed for the reducer: the calculus of emissions the properties of
  \<open>diff_fixture\<close> share, and those properties.
\<close>

section \<open>The calculus of emissions\<close>

type_synonym fact = "football_event_type \<times> football_payload \<times> event"

abbreviation fact_event :: "fact \<Rightarrow> event" where
  "fact_event x \<equiv> snd (snd x)"

text \<open>Each emitted event is a football event of the fixture, and a goal names its side.\<close>

definition fact_ok :: "diff_ctx \<Rightarrow> fact \<Rightarrow> bool" where
  "fact_ok c x \<longleftrightarrow> (case x of (t, p, e) \<Rightarrow>
     football_event t p e \<and> ev_subject_id e = external_entity_id (dc_fixture c)
     \<and> ev_source e = ''api-football'' \<and> ev_observed_at e = dc_observed_at c
     \<and> ev_correlation_id e = dc_correlation c \<and> 1 \<le> ev_version e \<and> ev_dedupe_key e \<noteq> []
     \<and> (t = GOAL \<longrightarrow> fp_side p = Some ''home'' \<or> fp_side p = Some ''away''))"

definition fact_score :: "fact \<Rightarrow> score \<Rightarrow> score" where
  "fact_score x = score_step (score_fact_of (fst x) (fst (snd x)))"

text \<open>
  From \<open>v\<close> to \<open>w\<close> exactly the facts \<open>xs\<close> are emitted: under the next version numbers, and with the
  effect on the score that the reducer's abstract semantics gives them.
\<close>

definition emits :: "diff_ctx \<Rightarrow> diff_vars \<Rightarrow> fact list \<Rightarrow> diff_vars \<Rightarrow> bool" where
  "emits c v xs w \<longleftrightarrow>
     dv_emitted w = dv_emitted v @ map fact_event xs
     \<and> map (\<lambda>x. ev_version (fact_event x)) xs = [dv_version v + 1..dv_version w]
     \<and> dv_version v \<le> dv_version w
     \<and> list_all (fact_ok c) xs
     \<and> (\<exists>final. fold fact_score xs (dv_home v, dv_away v, False) = (dv_home w, dv_away w, final)
          \<and> (final \<longrightarrow> (\<exists>x \<in> set xs. fst x = FULLTIME)))"

text \<open>Everything but the emission.\<close>

definition same_notes :: "diff_vars \<Rightarrow> diff_vars \<Rightarrow> bool" where
  "same_notes v w \<longleftrightarrow> dv_halftime w = dv_halftime v \<and> dv_second_half w = dv_second_half v
     \<and> dv_extra_time w = dv_extra_time v \<and> dv_penalties w = dv_penalties v
     \<and> dv_event_ids w = dv_event_ids v \<and> dv_goals_home w = dv_goals_home v \<and> dv_goals_away w = dv_goals_away v"

lemma same_notes_refl [simp]: "same_notes v v"
  by (simp add: same_notes_def)

lemma same_notes_trans: "same_notes u v \<Longrightarrow> same_notes v w \<Longrightarrow> same_notes u w"
  by (simp add: same_notes_def)

lemma emits_Nil [simp]: "emits c v [] v"
  unfolding emits_def by (auto intro: exI [of _ False])

lemma upto_append: "i \<le> j \<Longrightarrow> j \<le> k \<Longrightarrow> [i + 1..j] @ [j + 1..k] = [i + 1..(k :: int)]"
  using upto_split2 [of "i + 1" j k] by (cases "i = j") simp_all

lemma emits_trans:
  assumes "emits c u xs v" and "\<forall>x \<in> set xs. fst x \<noteq> FULLTIME" and "emits c v ys w"
  shows "emits c u (xs @ ys) w"
proof -
  obtain f where "fold fact_score xs (dv_home u, dv_away u, False) = (dv_home v, dv_away v, f)"
    "f \<longrightarrow> (\<exists>x \<in> set xs. fst x = FULLTIME)"
    using assms(1) unfolding emits_def by blast
  then have 1: "fold fact_score xs (dv_home u, dv_away u, False) = (dv_home v, dv_away v, False)"
    using assms(2) by auto
  obtain g where 2: "fold fact_score ys (dv_home v, dv_away v, False) = (dv_home w, dv_away w, g)"
    "g \<longrightarrow> (\<exists>x \<in> set ys. fst x = FULLTIME)"
    using assms(3) unfolding emits_def by blast
  have "map (\<lambda>x. ev_version (fact_event x)) (xs @ ys) = [dv_version u + 1..dv_version v] @ [dv_version v + 1..dv_version w]"
    using assms(1,3) by (simp add: emits_def)
  also have "\<dots> = [dv_version u + 1..dv_version w]"
    using assms(1,3) by (intro upto_append) (simp_all add: emits_def)
  finally show ?thesis
    using assms(1,3) 1 2 by (auto simp: emits_def)
qed

text \<open>Writing other variables does not matter to the emissions.\<close>

lemma emits_notes:
  "emits c v xs w \<Longrightarrow> dv_emitted w' = dv_emitted w \<Longrightarrow> dv_version w' = dv_version w \<Longrightarrow>
   dv_home w' = dv_home w \<Longrightarrow> dv_away w' = dv_away w \<Longrightarrow> emits c v xs w'"
  by (simp add: emits_def)

text \<open>The arguments the code passes to \<open>emit\<close>.\<close>

definition args_ok :: "football_event_type \<Rightarrow> emit_args \<Rightarrow> int \<times> int \<Rightarrow> bool" where
  "args_ok t a cur \<longleftrightarrow>
     (ea_side a = None \<or> ea_side a = Some ''home'' \<or> ea_side a = Some ''away'') \<and>
     (t = GOAL \<longrightarrow> ea_side a \<noteq> None) \<and>
     (if t = SCORE_CORRECTED then \<exists>h aw. ea_home_score a = Some h \<and> ea_away_score a = Some aw \<and> 0 \<le> h \<and> 0 \<le> aw
      else if t = FULLTIME then ea_home_score a = Some (fst cur) \<and> ea_away_score a = Some (snd cur)
      else ea_home_score a = None \<and> ea_away_score a = None)"

lemma emit_payload_ok:
  "args_ok t a cur \<Longrightarrow> football_payload_ok (emit_payload c m a score)"
  by (auto simp: args_ok_def emit_payload_def football_payload_ok_def)

lemma resolve_score:
  assumes "args_ok t a (h, aw)"
  shows "score_step (score_fact_of t (emit_payload c m a (resolve t a (h, aw)))) (h, aw, False)
    = (fst (resolve t a (h, aw)), snd (resolve t a (h, aw)), t = FULLTIME)"
  using assms
  by (cases t) (auto simp: args_ok_def resolve_def emit_payload_def score_fact_of_def Let_def)

lemma diff_dedupe_key_nonempty [simp]: "diff_dedupe_key f i \<noteq> []"
  by (simp add: diff_dedupe_key_def)

lemma emit_emits:
  assumes "args_ok t a (dv_home v, dv_away v)" and "0 \<le> dv_version v"
  shows "\<exists>w p e. emit c t identity m occurred a v = Inr w \<and> emits c v [(t, p, e)] w \<and> same_notes v w
    \<and> (dv_home w, dv_away w) = resolve t a (dv_home v, dv_away v)"
proof -
  let ?score = "resolve t a (dv_home v, dv_away v)"
  let ?p = "emit_payload c m a ?score"
  obtain e where e: "canonical_event_new (dc_uuid c (length (dv_emitted v))) ''api-football'' (fet_value t) ''match''
      (external_entity_id (dc_fixture c)) (utc occurred) (utc (dc_observed_at c)) (utc (dc_ingested c))
      (dv_version v + 1) (diff_dedupe_key (dc_fixture c) identity) 1 (dc_correlation c) (football_payload_dump ?p) = Inr e"
    and ef: "ev_event_type e = fet_value t" "ev_payload e = football_payload_dump ?p" "ev_version e = dv_version v + 1"
      "ev_subject_id e = external_entity_id (dc_fixture c)" "ev_source e = ''api-football''"
      "ev_observed_at e = dc_observed_at c" "ev_correlation_id e = dc_correlation c"
      "ev_dedupe_key e = diff_dedupe_key (dc_fixture c) identity"
    using assms(2) by simp
  note pok = emit_payload_ok [OF assms(1), of c m ?score]
  let ?w = "v\<lparr>dv_version := dv_version v + 1, dv_emitted := dv_emitted v @ [e],
      dv_home := fst ?score, dv_away := snd ?score\<rparr>"
  have "emit c t identity m occurred a v = Inr ?w"
    using pok e by (simp add: emit_def Let_def football_payload_new_def)
  moreover have "fact_ok c (t, ?p, e)"
    using pok ef assms by (auto simp: fact_ok_def football_event_def args_ok_def emit_payload_def)
  then have "emits c v [(t, ?p, e)] ?w"
    using resolve_score [OF assms(1), of c m] ef by (simp add: emits_def fact_score_def)
  ultimately show ?thesis
    by (intro exI [of _ ?w] exI [of _ ?p] exI [of _ e]) (simp add: same_notes_def)
qed

section \<open>The steps of a comparison\<close>

definition flags_grow :: "diff_vars \<Rightarrow> diff_vars \<Rightarrow> bool" where
  "flags_grow v w \<longleftrightarrow> (dv_halftime v \<longrightarrow> dv_halftime w) \<and> (dv_second_half v \<longrightarrow> dv_second_half w)
     \<and> (dv_extra_time v \<longrightarrow> dv_extra_time w) \<and> (dv_penalties v \<longrightarrow> dv_penalties w)
     \<and> set (dv_event_ids v) \<subseteq> set (dv_event_ids w)"

text \<open>The score moves with the goals that are counted.\<close>

definition goals_counted :: "diff_vars \<Rightarrow> diff_vars \<Rightarrow> bool" where
  "goals_counted v w \<longleftrightarrow> dv_home w - dv_goals_home w = dv_home v - dv_goals_home v
     \<and> dv_away w - dv_goals_away w = dv_away v - dv_goals_away v
     \<and> dv_goals_home v \<le> dv_goals_home w \<and> dv_goals_away v \<le> dv_goals_away w"

definition diff_step :: "diff_ctx \<Rightarrow> diff_vars \<Rightarrow> diff_vars \<Rightarrow> bool" where
  "diff_step c v w \<longleftrightarrow>
     (\<exists>xs. emits c v xs w \<and> (\<forall>x \<in> set xs. fst x \<noteq> FULLTIME)) \<and> flags_grow v w \<and> goals_counted v w"

lemma diff_step_refl [simp]: "diff_step c v v"
  unfolding diff_step_def flags_grow_def goals_counted_def by (auto intro: exI [of _ "[]"])

lemma diff_step_trans [trans]:
  assumes "diff_step c u v" and "diff_step c v w"
  shows "diff_step c u w"
proof -
  obtain xs ys where xs: "emits c u xs v" "\<forall>x \<in> set xs. fst x \<noteq> FULLTIME"
    and ys: "emits c v ys w" "\<forall>x \<in> set ys. fst x \<noteq> FULLTIME"
    using assms unfolding diff_step_def by blast
  have "emits c u (xs @ ys) w" "\<forall>x \<in> set (xs @ ys). fst x \<noteq> FULLTIME"
    using emits_trans [OF xs ys(1)] xs(2) ys(2) by auto
  moreover have "flags_grow u w" "goals_counted u w"
    using assms by (auto simp: diff_step_def flags_grow_def goals_counted_def)
  ultimately show ?thesis unfolding diff_step_def by blast
qed

lemma diff_step_version: "diff_step c v w \<Longrightarrow> dv_version v \<le> dv_version w"
  by (auto simp: diff_step_def emits_def)

text \<open>A phase marker changes neither the score nor the known events.\<close>

definition quiet :: "diff_vars \<Rightarrow> diff_vars \<Rightarrow> bool" where
  "quiet v w \<longleftrightarrow> dv_home w = dv_home v \<and> dv_away w = dv_away v \<and> dv_goals_home w = dv_goals_home v
     \<and> dv_goals_away w = dv_goals_away v \<and> dv_event_ids w = dv_event_ids v"

lemma quiet_refl [simp]: "quiet v v"
  by (simp add: quiet_def)

lemma quiet_trans: "quiet u v \<Longrightarrow> quiet v w \<Longrightarrow> quiet u w"
  by (simp add: quiet_def)

lemma marker_step:
  assumes "0 \<le> dv_version v" and "t \<notin> {GOAL, SCORE_CORRECTED, FULLTIME}"
    and "ea_side a = None" and "ea_home_score a = None" and "ea_away_score a = None"
  shows "\<exists>w. emit c t identity m occurred a v = Inr w \<and> diff_step c v w \<and> quiet v w"
proof -
  have ok: "args_ok t a (dv_home v, dv_away v)"
    using assms(2-5) by (auto simp: args_ok_def)
  have res: "resolve t a (dv_home v, dv_away v) = (dv_home v, dv_away v)"
    using assms(2-5) by (auto simp: resolve_def)
  obtain w p e where w: "emit c t identity m occurred a v = Inr w" "emits c v [(t, p, e)] w" "same_notes v w"
    and sc: "(dv_home w, dv_away w) = (dv_home v, dv_away v)"
    using emit_emits [OF ok assms(1), of c identity m occurred] unfolding res by blast
  have "\<forall>x \<in> set [(t, p, e)]. fst x \<noteq> FULLTIME" using assms(2) by simp
  then have "diff_step c v w"
    using w(2,3) sc unfolding diff_step_def same_notes_def flags_grow_def goals_counted_def by auto
  moreover have "quiet v w" using w(3) sc by (simp add: quiet_def same_notes_def)
  ultimately show ?thesis using w(1) by blast
qed

text \<open>One rung: what the code does first, the marker, and the note that it has been emitted.\<close>

definition note_update :: "(diff_vars \<Rightarrow> diff_vars) \<Rightarrow> bool" where
  "note_update f \<longleftrightarrow> (\<forall>w. dv_emitted (f w) = dv_emitted w \<and> dv_version (f w) = dv_version w
     \<and> quiet w (f w) \<and> flags_grow w (f w))"

lemma diff_step_note:
  assumes "diff_step c v w" and "note_update f"
  shows "diff_step c v (f w)"
proof -
  have "emits c w [] (f w)" using assms(2) by (intro emits_notes [OF emits_Nil]) (simp_all add: note_update_def quiet_def)
  moreover have "flags_grow w (f w)" "goals_counted w (f w)"
    using assms(2) by (simp_all add: note_update_def quiet_def goals_counted_def)
  ultimately have "diff_step c w (f w)" unfolding diff_step_def by force
  with assms(1) show ?thesis by (rule diff_step_trans)
qed

lemma rung:
  assumes "\<exists>u. before = Inr u \<and> diff_step c v u \<and> quiet v u" and "0 \<le> dv_version v" and "note_update f"
    and "t \<notin> {GOAL, SCORE_CORRECTED, FULLTIME}"
    and "ea_side a = None" and "ea_home_score a = None" and "ea_away_score a = None"
  shows "\<exists>w. bind_r before (\<lambda>u. bind_r (emit c t identity m occurred a u) (\<lambda>w. Inr (f w))) = Inr (f w)
    \<and> diff_step c v (f w) \<and> quiet v (f w)"
proof -
  obtain u where u: "before = Inr u" "diff_step c v u" "quiet v u" using assms(1) by blast
  have "0 \<le> dv_version u" using diff_step_version [OF u(2)] assms(2) by simp
  from marker_step [OF this assms(4-7)] obtain w where
    w: "emit c t identity m occurred a u = Inr w" "diff_step c u w" "quiet u w" by blast
  have "diff_step c v (f w)" by (rule diff_step_note [OF diff_step_trans [OF u(2) w(2)] assms(3)])
  moreover have "quiet v (f w)"
    using quiet_trans [OF u(3) w(3)] assms(3) by (auto simp: note_update_def intro: quiet_trans)
  ultimately show ?thesis using u(1) w(1) by auto
qed

text \<open>When the ladder of phase markers is complete for a status.\<close>

definition halftime_done :: "diff_ctx \<Rightarrow> diff_vars \<Rightarrow> bool" where
  "halftime_done c v \<longleftrightarrow> (dc_status_code c \<in> {''HT'', ''2H'', ''ET'', ''BT'', ''P''} \<union> FULLTIME_CODES \<longrightarrow> dv_halftime v)"

definition second_half_done :: "diff_ctx \<Rightarrow> diff_vars \<Rightarrow> bool" where
  "second_half_done c v \<longleftrightarrow> (dc_status_code c \<in> {''2H'', ''ET'', ''BT'', ''P''} \<union> FULLTIME_CODES \<longrightarrow> dv_second_half v)"

definition extra_time_done :: "diff_ctx \<Rightarrow> diff_vars \<Rightarrow> bool" where
  "extra_time_done c v \<longleftrightarrow> (dc_status_code c \<in> {''ET'', ''BT'', ''P'', ''AET'', ''PEN''} \<longrightarrow> dv_extra_time v)"

definition penalties_done :: "diff_ctx \<Rightarrow> diff_vars \<Rightarrow> bool" where
  "penalties_done c v \<longleftrightarrow> (dc_status_code c \<in> {''P'', ''PEN''} \<longrightarrow> dv_penalties v)"

definition ladder_done :: "diff_ctx \<Rightarrow> diff_vars \<Rightarrow> bool" where
  "ladder_done c v \<longleftrightarrow> halftime_done c v \<and> second_half_done c v \<and> extra_time_done c v \<and> penalties_done c v"

lemmas done_defs = halftime_done_def second_half_done_def extra_time_done_def penalties_done_def

lemma ensure_halftime_step:
  assumes "0 \<le> dv_version v"
  shows "\<exists>w. ensure_halftime c v = Inr w \<and> diff_step c v w \<and> quiet v w \<and> halftime_done c w"
proof (cases "halftime_done c v")
  case True
  then have "ensure_halftime c v = Inr v" by (auto simp: ensure_halftime_def halftime_done_def)
  with True show ?thesis by simp
next
  case False
  have pre: "\<exists>u. Inr v = Inr u \<and> diff_step c v u \<and> quiet v u" by simp
  have upd: "note_update (\<lambda>w. w\<lparr>dv_halftime := True\<rparr>)"
    by (simp add: note_update_def quiet_def flags_grow_def)
  have "\<exists>w. bind_r (Inr v) (\<lambda>u. bind_r (emit c HALFTIME ''halftime'' 45
      (dc_actual_kickoff c + minutes 45) (no_args) u) (\<lambda>w. Inr (w\<lparr>dv_halftime := True\<rparr>)))
      = Inr (w\<lparr>dv_halftime := True\<rparr>) \<and> diff_step c v (w\<lparr>dv_halftime := True\<rparr>) \<and> quiet v (w\<lparr>dv_halftime := True\<rparr>)"
    by (rule rung [OF pre assms upd]) (simp_all add: no_args_def)
  then obtain w where
    "bind_r (Inr v) (\<lambda>u. bind_r (emit c HALFTIME ''halftime'' 45
      (dc_actual_kickoff c + minutes 45) (no_args) u) (\<lambda>w. Inr (w\<lparr>dv_halftime := True\<rparr>)))
      = Inr (w\<lparr>dv_halftime := True\<rparr>)"
    "diff_step c v (w\<lparr>dv_halftime := True\<rparr>)" "quiet v (w\<lparr>dv_halftime := True\<rparr>)"
    by blast
  then show ?thesis
    using False by (intro exI [of _ "w\<lparr>dv_halftime := True\<rparr>"]) (auto simp: ensure_halftime_def halftime_done_def)
qed

lemma ensure_second_half_step:
  assumes "0 \<le> dv_version v"
  shows "\<exists>w. ensure_second_half c v = Inr w \<and> diff_step c v w \<and> quiet v w \<and> second_half_done c w"
proof (cases "second_half_done c v")
  case True
  then have "ensure_second_half c v = Inr v" by (auto simp: ensure_second_half_def second_half_done_def)
  with True show ?thesis by simp
next
  case False
  have pre: "\<exists>u. ensure_halftime c v = Inr u \<and> diff_step c v u \<and> quiet v u" using ensure_halftime_step [OF assms] by blast
  have upd: "note_update (\<lambda>w. w\<lparr>dv_second_half := True\<rparr>)"
    by (simp add: note_update_def quiet_def flags_grow_def)
  have "\<exists>w. bind_r (ensure_halftime c v) (\<lambda>u. bind_r (emit c SECOND_HALF ''second-half'' 45
      (dc_actual_kickoff c + minutes 60) (no_args) u) (\<lambda>w. Inr (w\<lparr>dv_second_half := True\<rparr>)))
      = Inr (w\<lparr>dv_second_half := True\<rparr>) \<and> diff_step c v (w\<lparr>dv_second_half := True\<rparr>) \<and> quiet v (w\<lparr>dv_second_half := True\<rparr>)"
    by (rule rung [OF pre assms upd]) (simp_all add: no_args_def)
  then obtain w where
    "bind_r (ensure_halftime c v) (\<lambda>u. bind_r (emit c SECOND_HALF ''second-half'' 45
      (dc_actual_kickoff c + minutes 60) (no_args) u) (\<lambda>w. Inr (w\<lparr>dv_second_half := True\<rparr>)))
      = Inr (w\<lparr>dv_second_half := True\<rparr>)"
    "diff_step c v (w\<lparr>dv_second_half := True\<rparr>)" "quiet v (w\<lparr>dv_second_half := True\<rparr>)"
    by blast
  then show ?thesis
    using False by (intro exI [of _ "w\<lparr>dv_second_half := True\<rparr>"]) (auto simp: ensure_second_half_def second_half_done_def)
qed

lemma ensure_extra_time_step:
  assumes "0 \<le> dv_version v"
  shows "\<exists>w. ensure_extra_time c v = Inr w \<and> diff_step c v w \<and> quiet v w \<and> extra_time_done c w"
proof (cases "extra_time_done c v")
  case True
  then have "ensure_extra_time c v = Inr v" by (auto simp: ensure_extra_time_def extra_time_done_def)
  with True show ?thesis by simp
next
  case False
  have pre: "\<exists>u. ensure_second_half c v = Inr u \<and> diff_step c v u \<and> quiet v u" using ensure_second_half_step [OF assms] by blast
  have upd: "note_update (\<lambda>w. w\<lparr>dv_extra_time := True\<rparr>)"
    by (simp add: note_update_def quiet_def flags_grow_def)
  have "\<exists>w. bind_r (ensure_second_half c v) (\<lambda>u. bind_r (emit c EXTRA_TIME ''extra-time'' 90
      (dc_actual_kickoff c + minutes 90) (no_args\<lparr>ea_phase := Some ''extra_time''\<rparr>) u) (\<lambda>w. Inr (w\<lparr>dv_extra_time := True\<rparr>)))
      = Inr (w\<lparr>dv_extra_time := True\<rparr>) \<and> diff_step c v (w\<lparr>dv_extra_time := True\<rparr>) \<and> quiet v (w\<lparr>dv_extra_time := True\<rparr>)"
    by (rule rung [OF pre assms upd]) (simp_all add: no_args_def)
  then obtain w where
    "bind_r (ensure_second_half c v) (\<lambda>u. bind_r (emit c EXTRA_TIME ''extra-time'' 90
      (dc_actual_kickoff c + minutes 90) (no_args\<lparr>ea_phase := Some ''extra_time''\<rparr>) u) (\<lambda>w. Inr (w\<lparr>dv_extra_time := True\<rparr>)))
      = Inr (w\<lparr>dv_extra_time := True\<rparr>)"
    "diff_step c v (w\<lparr>dv_extra_time := True\<rparr>)" "quiet v (w\<lparr>dv_extra_time := True\<rparr>)"
    by blast
  then show ?thesis
    using False by (intro exI [of _ "w\<lparr>dv_extra_time := True\<rparr>"]) (auto simp: ensure_extra_time_def extra_time_done_def)
qed

lemma ensure_penalties_step:
  assumes "0 \<le> dv_version v"
  shows "\<exists>w. ensure_penalties c v = Inr w \<and> diff_step c v w \<and> quiet v w \<and> penalties_done c w"
proof (cases "penalties_done c v")
  case True
  then have "ensure_penalties c v = Inr v" by (auto simp: ensure_penalties_def penalties_done_def)
  with True show ?thesis by simp
next
  case False
  have pre: "\<exists>u. ensure_extra_time c v = Inr u \<and> diff_step c v u \<and> quiet v u" using ensure_extra_time_step [OF assms] by blast
  have upd: "note_update (\<lambda>w. w\<lparr>dv_penalties := True\<rparr>)"
    by (simp add: note_update_def quiet_def flags_grow_def)
  have "\<exists>w. bind_r (ensure_extra_time c v) (\<lambda>u. bind_r (emit c PENALTIES ''penalties'' 120
      (dc_actual_kickoff c + minutes 120) (no_args\<lparr>ea_phase := Some ''penalties''\<rparr>) u) (\<lambda>w. Inr (w\<lparr>dv_penalties := True\<rparr>)))
      = Inr (w\<lparr>dv_penalties := True\<rparr>) \<and> diff_step c v (w\<lparr>dv_penalties := True\<rparr>) \<and> quiet v (w\<lparr>dv_penalties := True\<rparr>)"
    by (rule rung [OF pre assms upd]) (simp_all add: no_args_def)
  then obtain w where
    "bind_r (ensure_extra_time c v) (\<lambda>u. bind_r (emit c PENALTIES ''penalties'' 120
      (dc_actual_kickoff c + minutes 120) (no_args\<lparr>ea_phase := Some ''penalties''\<rparr>) u) (\<lambda>w. Inr (w\<lparr>dv_penalties := True\<rparr>)))
      = Inr (w\<lparr>dv_penalties := True\<rparr>)"
    "diff_step c v (w\<lparr>dv_penalties := True\<rparr>)" "quiet v (w\<lparr>dv_penalties := True\<rparr>)"
    by blast
  then show ?thesis
    using False by (intro exI [of _ "w\<lparr>dv_penalties := True\<rparr>"]) (auto simp: ensure_penalties_def penalties_done_def)
qed

section \<open>Match events\<close>

definition side_ok :: "match_event \<Rightarrow> bool" where
  "side_ok e \<longleftrightarrow> me_side e = None \<or> me_side e = Some ''home'' \<or> me_side e = Some ''away''"

text \<open>After a round the event is known, or it is one that is never emitted.\<close>

definition settled_event :: "match_event \<Rightarrow> diff_vars \<Rightarrow> bool" where
  "settled_event e v \<longleftrightarrow> (case classify_event e of
       None \<Rightarrow> True
     | Some (t, side) \<Rightarrow> me_identity e \<in> set (dv_event_ids v) \<or> (t \<in> {GOAL, YELLOW_CARD, RED_CARD} \<and> \<not> truthy side))"

lemma settled_event_mono: "settled_event e v \<Longrightarrow> flags_grow v w \<Longrightarrow> settled_event e w"
  by (auto simp: settled_event_def flags_grow_def split: option.splits)

lemma classify_side: "classify_event e = Some (t, side) \<Longrightarrow> side = me_side e"
  by (auto simp: classify_event_def Let_def split: if_split_asm)

lemma classify_type: "classify_event e = Some (t, side) \<Longrightarrow> t \<in> {GOAL, RED_CARD, YELLOW_CARD, SUBSTITUTION}"
  by (auto simp: classify_event_def Let_def split: if_split_asm)

lemma truthy_sides [simp]: "truthy (Some ''home'')" "truthy (Some ''away'')" "\<not> truthy None"
  by (simp_all add: truthy_def)

definition event_emission :: "diff_ctx \<Rightarrow> match_event \<Rightarrow> football_event_type \<Rightarrow> string option \<Rightarrow> diff_vars \<Rightarrow> diff_vars result" where
  "event_emission c e t side v =
     bind_r (emit c t (''event:'' @ me_identity e) (me_minute e)
                        (dc_actual_kickoff c + minutes (me_minute e))
                        (no_args\<lparr>ea_side := side, ea_player := me_player e,
                           ea_substitute := (if t = SUBSTITUTION then me_assist e else None),
                           ea_detail := me_detail e\<rparr>) v) (\<lambda>w.
              count_goal t side (w\<lparr>dv_event_ids := dv_event_ids w @ [me_identity e]\<rparr>))"

lemma event_emission_step:
  assumes "0 \<le> dv_version v" and "t \<in> {GOAL, RED_CARD, YELLOW_CARD, SUBSTITUTION}"
    and side: "side = None \<or> side = Some ''home'' \<or> side = Some ''away''" and "t = GOAL \<Longrightarrow> side \<noteq> None"
  shows "\<exists>w. event_emission c e t side v = Inr w \<and> diff_step c v w \<and> me_identity e \<in> set (dv_event_ids w)"
proof -
  let ?a = "no_args\<lparr>ea_side := side, ea_player := me_player e,
                           ea_substitute := (if t = SUBSTITUTION then me_assist e else None),
                           ea_detail := me_detail e\<rparr>"
  let ?home = "if t = GOAL \<and> side = Some ''home'' then 1 else 0 :: int"
  let ?away = "if t = GOAL \<and> side = Some ''away'' then 1 else 0 :: int"
  have ok: "args_ok t ?a (dv_home v, dv_away v)"
    using assms(2-4) by (auto simp: args_ok_def no_args_def)
  have res: "resolve t ?a (dv_home v, dv_away v) = (dv_home v + ?home, dv_away v + ?away)"
    using assms(2) side by (auto simp: resolve_def no_args_def)
  obtain u p x where u: "emit c t (''event:'' @ me_identity e) (me_minute e)
      (dc_actual_kickoff c + minutes (me_minute e)) ?a v = Inr u" "emits c v [(t, p, x)] u" "same_notes v u"
    and sc: "dv_home u = dv_home v + ?home" "dv_away u = dv_away v + ?away"
    using emit_emits [OF ok assms(1), of c] unfolding res by blast
  let ?w = "u\<lparr>dv_event_ids := dv_event_ids u @ [me_identity e], dv_goals_home := dv_goals_home u + ?home,
      dv_goals_away := dv_goals_away u + ?away\<rparr>"
  have "count_goal t side (u\<lparr>dv_event_ids := dv_event_ids u @ [me_identity e]\<rparr>) = Inr ?w"
    using side assms(2,4) by (auto simp: count_goal_def)
  then have "event_emission c e t side v = Inr ?w" using u(1) by (simp add: event_emission_def)
  moreover have "emits c v [(t, p, x)] ?w" by (rule emits_notes [OF u(2)]) simp_all
  then have "diff_step c v ?w"
    using assms(2) u(3) sc unfolding diff_step_def
    by (intro conjI exI [of _ "[(t, p, x)]"]) (auto simp: flags_grow_def goals_counted_def same_notes_def)
  ultimately show ?thesis by (intro exI [of _ ?w]) simp
qed

lemma when_step:
  assumes "0 \<le> dv_version v" and "\<And>v. 0 \<le> dv_version v \<Longrightarrow> \<exists>w. f v = Inr w \<and> diff_step c v w"
  shows "\<exists>w. (if b then f v else Inr v) = Inr w \<and> diff_step c v w \<and> 0 \<le> dv_version w"
  using assms diff_step_version by (cases b) fastforce+

lemma diff_event_step:
  assumes "0 \<le> dv_version v" and "side_ok e"
  shows "\<exists>w. diff_event c e v = Inr w \<and> diff_step c v w \<and> settled_event e w"
proof -
  obtain v1 where 1: "(if 45 \<le> me_minute e then ensure_halftime c v else Inr v) = Inr v1" "diff_step c v v1" "0 \<le> dv_version v1"
    using when_step [OF assms(1), of "ensure_halftime c" c] ensure_halftime_step by blast
  obtain v2 where 2: "(if 45 < me_minute e then ensure_second_half c v1 else Inr v1) = Inr v2" "diff_step c v1 v2" "0 \<le> dv_version v2"
    using when_step [OF 1(3), of "ensure_second_half c" c] ensure_second_half_step by blast
  obtain v3 where 3: "(if 90 \<le> me_minute e then ensure_extra_time c v2 else Inr v2) = Inr v3" "diff_step c v2 v3" "0 \<le> dv_version v3"
    using when_step [OF 2(3), of "ensure_extra_time c" c] ensure_extra_time_step by blast
  obtain v4 where 4: "(if 120 \<le> me_minute e then ensure_penalties c v3 else Inr v3) = Inr v4" "diff_step c v3 v4" "0 \<le> dv_version v4"
    using when_step [OF 3(3), of "ensure_penalties c" c] ensure_penalties_step by blast
  have pre: "diff_step c v v4" by (rule diff_step_trans [OF diff_step_trans [OF diff_step_trans [OF 1(2) 2(2)] 3(2)] 4(2)])
  have eq: "diff_event c e v = (case classify_event e of
       None \<Rightarrow> Inr v4
     | Some (t, side) \<Rightarrow>
         if me_identity e \<in> set (dv_event_ids v4) then Inr v4
         else if t \<in> {GOAL, YELLOW_CARD, RED_CARD} \<and> \<not> truthy side then Inr v4
         else event_emission c e t side v4)"
    unfolding diff_event_def 1(1) bind_r_Inr 2(1) 3(1) 4(1) event_emission_def ..
  show ?thesis
  proof (cases "settled_event e v4")
    case True
    then have "diff_event c e v = Inr v4" unfolding eq by (auto simp: settled_event_def split: option.splits)
    with pre True show ?thesis by blast
  next
    case False
    then obtain t side where cl: "classify_event e = Some (t, side)" "me_identity e \<notin> set (dv_event_ids v4)"
      "\<not> (t \<in> {GOAL, YELLOW_CARD, RED_CARD} \<and> \<not> truthy side)"
      by (auto simp: settled_event_def split: option.splits)
    have side: "side = None \<or> side = Some ''home'' \<or> side = Some ''away''"
      using assms(2) classify_side [OF cl(1)] by (simp add: side_ok_def)
    have g: "t = GOAL \<Longrightarrow> side \<noteq> None" using cl(3) by (cases side) auto
    obtain w where w: "event_emission c e t side v4 = Inr w" "diff_step c v4 w" "me_identity e \<in> set (dv_event_ids w)"
      using event_emission_step [OF 4(3) classify_type [OF cl(1)] side g] by blast
    have "diff_event c e v = Inr w" using cl w(1) unfolding eq by auto
    then show ?thesis using diff_step_trans [OF pre w(2)] w(3) cl(1) by (auto simp: settled_event_def)
  qed
qed

lemma diff_events_step:
  "0 \<le> dv_version v \<Longrightarrow> list_all side_ok es \<Longrightarrow>
   \<exists>w. fold_r (diff_event c) es v = Inr w \<and> diff_step c v w \<and> (\<forall>e \<in> set es. settled_event e w)"
proof (induction es arbitrary: v)
  case (Cons e es)
  obtain u where u: "diff_event c e v = Inr u" "diff_step c v u" "settled_event e u"
    using diff_event_step [of v e] Cons.prems by auto
  obtain w where w: "fold_r (diff_event c) es u = Inr w" "diff_step c u w" "\<forall>e \<in> set es. settled_event e w"
    using Cons.IH [of u] Cons.prems diff_step_version [OF u(2)] by auto
  have "settled_event e w" using settled_event_mono [OF u(3)] w(2) by (simp add: diff_step_def)
  with u w diff_step_trans [OF u(2) w(2)] show ?case by simp
qed simp

section \<open>The whole comparison\<close>

lemma ladder_mono: "ladder_done c v \<Longrightarrow> flags_grow v w \<Longrightarrow> ladder_done c w"
  by (auto simp: ladder_done_def done_defs flags_grow_def)

lemma done_mono:
  "diff_step c v w \<Longrightarrow> halftime_done c v \<Longrightarrow> halftime_done c w"
  "diff_step c v w \<Longrightarrow> second_half_done c v \<Longrightarrow> second_half_done c w"
  "diff_step c v w \<Longrightarrow> extra_time_done c v \<Longrightarrow> extra_time_done c w"
  by (auto simp: diff_step_def flags_grow_def done_defs)

lemma plain_marker:
  assumes "0 \<le> dv_version v" and "t \<notin> {GOAL, SCORE_CORRECTED, FULLTIME}"
  shows "\<exists>w. emit c t identity m occurred no_args v = Inr w \<and> diff_step c v w"
proof -
  have "\<exists>w. emit c t identity m occurred no_args v = Inr w \<and> diff_step c v w \<and> quiet v w"
    by (rule marker_step [OF assms]) (simp_all add: no_args_def)
  then show ?thesis by blast
qed

lemma diff_scheduled_step:
  assumes "0 \<le> dv_version v"
  shows "\<exists>w. diff_scheduled p emit_scheduled c v = Inr w \<and> diff_step c v w \<and> 0 \<le> dv_version w"
  unfolding diff_scheduled_def
proof (rule when_step [OF assms])
  fix v :: diff_vars
  assume "0 \<le> dv_version v"
  then show "\<exists>w. emit c SCHEDULED
      (''scheduled:'' @ int_str (pv_version p) @ '':'' @ isoformat (fo_kickoff_at (dc_fixture c))) 0
      (fo_kickoff_at (dc_fixture c)) no_args v = Inr w \<and> diff_step c v w"
    by (rule plain_marker) simp
qed

lemma diff_kickoff_step:
  assumes "0 \<le> dv_version v"
  shows "\<exists>w. diff_kickoff p c v = Inr w \<and> diff_step c v w \<and> 0 \<le> dv_version w"
  unfolding diff_kickoff_def
proof (rule when_step [OF assms])
  fix v :: diff_vars
  assume "0 \<le> dv_version v"
  then show "\<exists>w. emit c KICKOFF ''kickoff'' 0
      (dc_actual_kickoff c) no_args v = Inr w \<and> diff_step c v w"
    by (rule plain_marker) simp
qed

lemma diff_facts_step:
  assumes "0 \<le> pv_version p" and "list_all side_ok (fo_events (dc_fixture c))"
  shows "\<exists>w. diff_facts p emit_scheduled c = Inr w \<and> diff_step c (diff_start p) w \<and> ladder_done c w
    \<and> (\<forall>e \<in> set (fo_events (dc_fixture c)). settled_event e w)"
proof -
  have v0: "0 \<le> dv_version (diff_start p)" using assms(1) by (simp add: diff_start_def)
  obtain v1 where 1: "diff_scheduled p emit_scheduled c (diff_start p) = Inr v1" "diff_step c (diff_start p) v1"
    "0 \<le> dv_version v1"
    using diff_scheduled_step [OF v0] by blast
  obtain v2 where 2: "diff_kickoff p c v1 = Inr v2" "diff_step c v1 v2" "0 \<le> dv_version v2"
    using diff_kickoff_step [OF 1(3)] by blast
  have ord: "list_all side_ok (event_order (fo_events (dc_fixture c)))"
    using assms(2) by (simp add: event_order_def list_all_iff)
  obtain v3 where 3: "fold_r (diff_event c) (event_order (fo_events (dc_fixture c))) v2 = Inr v3" "diff_step c v2 v3"
    "\<forall>e \<in> set (fo_events (dc_fixture c)). settled_event e v3"
    using diff_events_step [OF 2(3) ord] by (auto simp: event_order_def)
  have v3: "0 \<le> dv_version v3" using diff_step_version [OF 3(2)] 2(3) by simp
  obtain v4 where 4: "ensure_halftime c v3 = Inr v4" "diff_step c v3 v4" "halftime_done c v4"
    using ensure_halftime_step [OF v3] by blast
  have v4: "0 \<le> dv_version v4" using diff_step_version [OF 4(2)] v3 by simp
  obtain v5 where 5: "ensure_second_half c v4 = Inr v5" "diff_step c v4 v5" "second_half_done c v5"
    using ensure_second_half_step [OF v4] by blast
  have v5: "0 \<le> dv_version v5" using diff_step_version [OF 5(2)] v4 by simp
  obtain v6 where 6: "ensure_extra_time c v5 = Inr v6" "diff_step c v5 v6" "extra_time_done c v6"
    using ensure_extra_time_step [OF v5] by blast
  have v6: "0 \<le> dv_version v6" using diff_step_version [OF 6(2)] v5 by simp
  obtain v7 where 7: "ensure_penalties c v6 = Inr v7" "diff_step c v6 v7" "penalties_done c v7"
    using ensure_penalties_step [OF v6] by blast
  have run: "diff_facts p emit_scheduled c = Inr v7"
    by (simp add: diff_facts_def 1(1) 2(1) 3(1) 4(1) 5(1) 6(1) 7(1))
  have s37: "diff_step c v3 v7" by (rule diff_step_trans [OF diff_step_trans [OF diff_step_trans [OF 4(2) 5(2)] 6(2)] 7(2)])
  have "diff_step c (diff_start p) v7"
    by (rule diff_step_trans [OF diff_step_trans [OF diff_step_trans [OF 1(2) 2(2)] 3(2)] s37])
  moreover have "ladder_done c v7"
    using done_mono(1) [OF diff_step_trans [OF diff_step_trans [OF 5(2) 6(2)] 7(2)] 4(3)]
      done_mono(2) [OF diff_step_trans [OF 6(2) 7(2)] 5(3)] done_mono(3) [OF 7(2) 6(3)] 7(3)
    by (simp add: ladder_done_def)
  moreover have "\<forall>e \<in> set (fo_events (dc_fixture c)). settled_event e v7"
    using 3(3) settled_event_mono s37 by (auto simp: diff_step_def)
  ultimately show ?thesis using run by blast
qed

text \<open>The generic goals of one side.\<close>

definition score_step_ok :: "diff_ctx \<Rightarrow> diff_vars \<Rightarrow> diff_vars \<Rightarrow> bool" where
  "score_step_ok c v w \<longleftrightarrow> (\<exists>xs. emits c v xs w \<and> (\<forall>x \<in> set xs. fst x \<noteq> FULLTIME)) \<and> same_notes v w"

lemma score_step_ok_refl [simp]: "score_step_ok c v v"
  unfolding score_step_ok_def by (auto intro: exI [of _ "[]"])

lemma score_step_ok_trans: "score_step_ok c u v \<Longrightarrow> score_step_ok c v w \<Longrightarrow> score_step_ok c u w"
proof -
  assume a: "score_step_ok c u v" and b: "score_step_ok c v w"
  obtain xs ys where xs: "emits c u xs v" "\<forall>x \<in> set xs. fst x \<noteq> FULLTIME"
    and ys: "emits c v ys w" "\<forall>x \<in> set ys. fst x \<noteq> FULLTIME"
    using a b unfolding score_step_ok_def by blast
  have "emits c u (xs @ ys) w" "\<forall>x \<in> set (xs @ ys). fst x \<noteq> FULLTIME"
    using emits_trans [OF xs ys(1)] xs(2) ys(2) by auto
  moreover have "same_notes u w" using a b same_notes_trans unfolding score_step_ok_def by blast
  ultimately show ?thesis unfolding score_step_ok_def by blast
qed

lemma score_goals:
  assumes "side = ''home'' \<or> side = ''away''"
  shows "0 \<le> dv_version v \<Longrightarrow> \<exists>w. fold_r (diff_score_goal c pv m side) ns v = Inr w \<and> score_step_ok c v w
    \<and> dv_home w = dv_home v + (if side = ''home'' then int (length ns) else 0)
    \<and> dv_away w = dv_away v + (if side = ''home'' then 0 else int (length ns)) \<and> 0 \<le> dv_version w"
proof (induction ns arbitrary: v)
  case (Cons n ns)
  let ?a = "no_args\<lparr>ea_side := Some side, ea_detail := Some ''Goal detected from score change''\<rparr>"
  have ok: "args_ok GOAL ?a (dv_home v, dv_away v)" using assms by (auto simp: args_ok_def no_args_def)
  have res: "resolve GOAL ?a (dv_home v, dv_away v)
      = (dv_home v + (if side = ''home'' then 1 else 0), dv_away v + (if side = ''home'' then 0 else 1))"
    using assms by (auto simp: resolve_def no_args_def)
  obtain u p x where u: "diff_score_goal c pv m side n v = Inr u" "emits c v [(GOAL, p, x)] u" "same_notes v u"
    and sc: "dv_home u = dv_home v + (if side = ''home'' then 1 else 0)"
      "dv_away u = dv_away v + (if side = ''home'' then 0 else 1)"
    using emit_emits [OF ok Cons.prems, of c] unfolding res diff_score_goal_def by blast
  have vu: "0 \<le> dv_version u" using u(2) Cons.prems by (auto simp: emits_def)
  have "\<forall>x \<in> set [(GOAL, p, x)]. fst x \<noteq> FULLTIME" by simp
  then have su: "score_step_ok c v u" using u(2,3) unfolding score_step_ok_def by blast
  obtain w where w: "fold_r (diff_score_goal c pv m side) ns u = Inr w" "score_step_ok c u w"
    "dv_home w = dv_home u + (if side = ''home'' then int (length ns) else 0)"
    "dv_away w = dv_away u + (if side = ''home'' then 0 else int (length ns))" "0 \<le> dv_version w"
    using Cons.IH [OF vu] by blast
  show ?case
    using u(1) w sc score_step_ok_trans [OF su w(2)] by (intro exI [of _ w]) auto
qed simp

text \<open>After the scores have been aligned, the running score is the reported one.\<close>

lemma diff_scores_step:
  assumes "0 \<le> dv_version v" and "dv_home v = pv_home_score p + dv_goals_home v"
    and "dv_away v = pv_away_score p + dv_goals_away v"
    and "0 \<le> fst (reported_score p (dc_fixture c))" and "0 \<le> snd (reported_score p (dc_fixture c))"
  shows "\<exists>w. diff_scores p c m v = Inr w \<and> score_step_ok c v w \<and> 0 \<le> dv_version w
    \<and> (dv_home w, dv_away w) = reported_score p (dc_fixture c)"
proof -
  obtain rh ra where r: "reported_score p (dc_fixture c) = (rh, ra)" by (cases "reported_score p (dc_fixture c)")
  let ?eh = "pv_home_score p + dv_goals_home v" and ?ea = "pv_away_score p + dv_goals_away v"
  obtain v1 where 1: "fold_r (diff_score_goal c (pv_version p) m ''home'') [?eh + 1..rh] v = Inr v1"
      "score_step_ok c v v1" "dv_home v1 = dv_home v + int (length [?eh + 1..rh])" "dv_away v1 = dv_away v" "0 \<le> dv_version v1"
    using score_goals [of "''home''" v c "pv_version p" m "[?eh + 1..rh]"] assms(1) by auto
  obtain v2 where 2: "fold_r (diff_score_goal c (pv_version p) m ''away'') [?ea + 1..ra] v1 = Inr v2"
      "score_step_ok c v1 v2" "dv_away v2 = dv_away v1 + int (length [?ea + 1..ra])" "dv_home v2 = dv_home v1" "0 \<le> dv_version v2"
    using score_goals [of "''away''" v1 c "pv_version p" m "[?ea + 1..ra]"] 1(5) by auto
  have h: "dv_home v2 = max ?eh rh" "dv_away v2 = max ?ea ra"
    using 1(3,4) 2(3,4) assms(2,3) by auto
  show ?thesis
  proof (cases "(rh, ra) = (max ?eh rh, max ?ea ra)")
    case True
    then have "diff_scores p c m v = Inr v2"
      by (simp add: diff_scores_def Let_def r 1(1) 2(1))
    then show ?thesis using score_step_ok_trans [OF 1(2) 2(2)] 2(5) h True r by (intro exI [of _ v2]) auto
  next
    case False
    define ident where "ident = ''score-corrected:'' @ int_str (pv_version p) @ '':'' @ score_text (max ?eh rh) (max ?ea ra)
                @ '':'' @ score_text rh ra"
    define a where "a = no_args\<lparr>ea_home_score := Some rh, ea_away_score := Some ra,
        ea_detail := Some (''Provider score corrected from '' @ score_text (max ?eh rh) (max ?ea ra))\<rparr>"
    have ok: "args_ok SCORE_CORRECTED a (dv_home v2, dv_away v2)"
      using assms(4,5) by (auto simp: args_ok_def no_args_def a_def r)
    have res: "resolve SCORE_CORRECTED a (dv_home v2, dv_away v2) = (rh, ra)"
      by (simp add: resolve_def a_def)
    obtain w q x where w: "emit c SCORE_CORRECTED ident m (event_time_of (dc_fixture c)) a v2 = Inr w"
      "emits c v2 [(SCORE_CORRECTED, q, x)] w" "same_notes v2 w" "(dv_home w, dv_away w) = (rh, ra)"
      using emit_emits [OF ok 2(5), of c ident m "event_time_of (dc_fixture c)"] unfolding res by blast
    have "\<forall>x \<in> set [(SCORE_CORRECTED, q, x)]. fst x \<noteq> FULLTIME" by simp
    then have "score_step_ok c v2 w" using w(2,3) unfolding score_step_ok_def by blast
    moreover have "0 \<le> dv_version w" using w(2) 2(5) by (auto simp: emits_def)
    moreover have "diff_scores p c m v = Inr w"
      using False w(1) by (simp add: diff_scores_def Let_def r 1(1) 2(1) ident_def a_def del: append.simps)
    ultimately show ?thesis
      using score_step_ok_trans [OF 1(2) 2(2)] w(4) r by (intro exI [of _ w]) (auto intro: score_step_ok_trans)
  qed
qed

text \<open>A readable checkpoint, and a fixture the translation can produce.\<close>

definition prior_ok :: "prior \<Rightarrow> bool" where
  "prior_ok p \<longleftrightarrow> 0 \<le> pv_version p \<and> 0 \<le> pv_home_score p \<and> 0 \<le> pv_away_score p
     \<and> upper (pv_status_code p) = pv_status_code p"

definition fixture_ok :: "fixture_observation \<Rightarrow> bool" where
  "fixture_ok f \<longleftrightarrow> fixture_observation_ok f \<and> sides_ok (fo_events f)"

lemma reported_nonneg:
  "prior_ok p \<Longrightarrow> fixture_ok f \<Longrightarrow> 0 \<le> fst (reported_score p f) \<and> 0 \<le> snd (reported_score p f)"
  by (auto simp: reported_score_def prior_ok_def fixture_ok_def fixture_observation_ok_def opt_nonneg_def
      split: option.splits)

text \<open>Everything a call of \<open>diff_fixture\<close> does, in terms of the facts it emits.\<close>

definition diff_outcome :: "diff_ctx \<Rightarrow> prior \<Rightarrow> bool \<Rightarrow> int \<Rightarrow> fact list \<Rightarrow> diff_vars \<Rightarrow> bool" where
  "diff_outcome c p emit_scheduled m xs w \<longleftrightarrow>
     emits c (diff_start p) xs w \<and> (dv_home w, dv_away w) = reported_score p (dc_fixture c)
     \<and> ladder_done c w \<and> (\<forall>e \<in> set (fo_events (dc_fixture c)). settled_event e w)
     \<and> flags_grow (diff_start p) w"

lemma diff_prior_run:
  assumes "prior_ok p" and "fixture_ok (obs_content obs)"
    and c: "c = diff_ctx_of p obs corr ids ing" and m: "m = next_minute p (obs_content obs)"
  shows "\<exists>xs w. diff_prior p obs corr es ids ing = Inr (map fact_event xs, next_state p es c m w)
    \<and> diff_outcome c p es m xs w"
proof -
  let ?f = "dc_fixture c"
  have f: "?f = obs_content obs" by (simp add: c diff_ctx_of_def)
  have sides: "list_all side_ok (fo_events ?f)"
    using assms(2) by (simp add: f fixture_ok_def sides_ok_def side_ok_def[abs_def])
  have v0: "0 \<le> pv_version p" using assms(1) by (simp add: prior_ok_def)
  obtain v1 where 1: "diff_facts p es c = Inr v1" "diff_step c (diff_start p) v1" "ladder_done c v1"
    "\<forall>e \<in> set (fo_events ?f). settled_event e v1"
    using diff_facts_step [OF v0 sides] by blast
  have g: "dv_home v1 = pv_home_score p + dv_goals_home v1" "dv_away v1 = pv_away_score p + dv_goals_away v1"
    using 1(2) by (auto simp: diff_step_def goals_counted_def diff_start_def)
  have v1: "0 \<le> dv_version v1" using diff_step_version [OF 1(2)] v0 by (simp add: diff_start_def)
  note rn = reported_nonneg [OF assms(1,2), folded f]
  obtain v2 where 2: "diff_scores p c m v1 = Inr v2" "score_step_ok c v1 v2" "0 \<le> dv_version v2"
    "(dv_home v2, dv_away v2) = reported_score p ?f"
    using diff_scores_step [OF v1 g] rn by blast
  obtain xs where xs: "emits c (diff_start p) xs v1" "\<forall>x \<in> set xs. fst x \<noteq> FULLTIME"
    using 1(2) unfolding diff_step_def by blast
  obtain ys where ys: "emits c v1 ys v2" "\<forall>x \<in> set ys. fst x \<noteq> FULLTIME" and n12: "same_notes v1 v2"
    using 2(2) unfolding score_step_ok_def by blast
  have e12: "emits c (diff_start p) (xs @ ys) v2" by (rule emits_trans [OF xs ys(1)])
  have no: "\<forall>x \<in> set (xs @ ys). fst x \<noteq> FULLTIME" using xs(2) ys(2) by auto
  have grow: "flags_grow (diff_start p) v1" using 1(2) by (simp add: diff_step_def)
  have keep: "ladder_done c w \<and> (\<forall>e \<in> set (fo_events ?f). settled_event e w) \<and> flags_grow (diff_start p) w"
    if "same_notes v1 w" for w
  proof -
    have "flags_grow v1 w" using that by (simp add: same_notes_def flags_grow_def)
    moreover have "flags_grow (diff_start p) w" using grow that by (simp add: same_notes_def flags_grow_def)
    ultimately show ?thesis using 1(3,4) ladder_mono settled_event_mono by blast
  qed
  show ?thesis
  proof (cases "dc_status_code c \<in> FULLTIME_CODES \<and> \<not> pv_fulltime_emitted p")
    case False
    then have "diff_fulltime p c m v2 = Inr v2" by (auto simp: diff_fulltime_def)
    then have "diff_prior p obs corr es ids ing = Inr (dv_emitted v2, next_state p es c m v2)"
      using 1(1) 2(1) by (simp add: diff_prior_def Let_def c m)
    moreover have "dv_emitted v2 = map fact_event (xs @ ys)" using e12 by (simp add: emits_def diff_start_def)
    ultimately show ?thesis using e12 2(4) keep [OF n12] unfolding diff_outcome_def by metis
  next
    case True
    let ?a = "no_args\<lparr>ea_home_score := Some (fst (reported_score p ?f)), ea_away_score := Some (snd (reported_score p ?f))\<rparr>"
    have ok: "args_ok FULLTIME ?a (dv_home v2, dv_away v2)"
      using 2(4) by (simp add: args_ok_def no_args_def flip: 2(4))
    have res: "resolve FULLTIME ?a (dv_home v2, dv_away v2) = reported_score p ?f"
      by (simp add: resolve_def)
    obtain w q x where w: "emit c FULLTIME ''fulltime'' (max 90 m) (event_time_of ?f) ?a v2 = Inr w"
      "emits c v2 [(FULLTIME, q, x)] w" "same_notes v2 w" "(dv_home w, dv_away w) = reported_score p ?f"
      using emit_emits [OF ok 2(3), of c "''fulltime''"] unfolding res by blast
    have "diff_fulltime p c m v2 = Inr w" using True w(1) by (simp add: diff_fulltime_def)
    then have "diff_prior p obs corr es ids ing = Inr (dv_emitted w, next_state p es c m w)"
      using 1(1) 2(1) by (simp add: diff_prior_def Let_def c m)
    moreover have ew: "emits c (diff_start p) ((xs @ ys) @ [(FULLTIME, q, x)]) w"
      by (rule emits_trans [OF e12 no w(2)])
    moreover have "dv_emitted w = map fact_event ((xs @ ys) @ [(FULLTIME, q, x)])"
      using ew by (simp add: emits_def diff_start_def)
    ultimately show ?thesis
      using ew w(4) keep [OF same_notes_trans [OF n12 w(3)]] unfolding diff_outcome_def by metis
  qed
qed

lemma upper_codes:
  "prior_ok p \<Longrightarrow> upper (status_code_of p f) = status_code_of p f"
  by (simp add: status_code_of_def Let_def prior_ok_def)

lemma next_state_prior_ok:
  assumes "prior_ok p" and "fixture_ok (dc_fixture c)" and "dc_status_code c = status_code_of p (dc_fixture c)"
    and "0 \<le> dv_version w"
  shows "prior_ok (prior_of_state (next_state p es c m w))"
  using reported_nonneg [OF assms(1,2)] assms(3,4) upper_codes [OF assms(1)]
  by (simp add: prior_ok_def prior_of_state_def next_state_def Let_def)

end
