(* ===== verification/Diff_Properties.thy ===== *)
theory Diff_Properties
  imports Diff_Facts
begin

text \<open>The properties of the fixture comparison, alone and together with the reducer.\<close>

section \<open>Accepted by the projector\<close>

lemma fact_accepted:
  assumes "fact_ok c x"
  shows "\<exists>r. reduce_match_state now current (fact_event x) = Inr r"
proof -
  obtain t p e where x: "x = (t, p, e)" by (cases x)
  have fe: "football_event t p e" and g: "t = GOAL \<longrightarrow> fp_side p \<noteq> None"
    using assms by (auto simp: x fact_ok_def)
  have "\<not> (\<exists>err. reduce_match_state now current e = Inl err)"
    using reducer_rejects_only_sideless_goals_iff [OF fe, of now current] g by auto
  then show ?thesis by (cases "reduce_match_state now current e") (auto simp: x)
qed

lemma fact_event_ok: "fact_ok c x \<Longrightarrow> ev_schema_version (fact_event x) = 1 \<Longrightarrow> event_ok (fact_event x)"
  by (cases x) (simp add: fact_ok_def event_ok_def)

lemma diff_fixture_run:
  assumes "read_prior previous = Inr p" and "prior_ok p" and "fixture_ok (obs_content obs)"
  shows "\<exists>xs w c m. diff_fixture previous obs corr es ids ing = Inr (map fact_event xs, next_state p es c m w)
    \<and> c = diff_ctx_of p obs corr ids ing \<and> m = next_minute p (obs_content obs) \<and> diff_outcome c p es m xs w"
  using diff_prior_run [OF assms(2,3) refl refl, of corr es ids ing] assms(1)
  by (fastforce simp: diff_fixture_def)

lemma ctx_fields [simp]:
  "dc_fixture (diff_ctx_of p obs corr ids ing) = obs_content obs"
  "dc_status_code (diff_ctx_of p obs corr ids ing) = status_code_of p (obs_content obs)"
  by (simp_all add: diff_ctx_of_def)

lemma diff_outcome_facts:
  assumes "diff_outcome c p es m xs w"
  shows "map (\<lambda>x. ev_version (fact_event x)) xs = [pv_version p + 1..dv_version w]"
    "pv_version p \<le> dv_version w" "list_all (fact_ok c) xs"
    "\<exists>final. fold fact_score xs (pv_home_score p, pv_away_score p, False)
       = (fst (reported_score p (dc_fixture c)), snd (reported_score p (dc_fixture c)), final)"
  using assms by (auto simp: diff_outcome_def emits_def diff_start_def) (metis fst_conv snd_conv)+


lemma diff_state_ok:
  assumes "read_prior previous = Inr p" and "prior_ok p" and "fixture_ok (obs_content obs)"
    and "diff_fixture previous obs corr es ids ing = Inr (events, st)"
  shows "prior_ok (prior_of_state st)"
proof -
  obtain xs w c m where "st = next_state p es c m w" and c: "c = diff_ctx_of p obs corr ids ing"
    and out: "diff_outcome c p es m xs w"
    using diff_fixture_run [OF assms(1-3), of corr es ids ing] assms(4) by auto
  moreover have "0 \<le> dv_version w"
    using diff_outcome_facts(2) [OF out] assms(2) by (simp add: prior_ok_def)
  ultimately show ?thesis using next_state_prior_ok [OF assms(2), of c w es m] assms(3) by (simp add: c)
qed

section \<open>Agreement with the projection\<close>

lemma rising_facts:
  "list_all (fact_ok c) xs \<Longrightarrow> map (\<lambda>x. ev_version (fact_event x)) xs = [v + 1..n] \<Longrightarrow> rising_feed v xs"
proof (induction xs arbitrary: v)
  case (Cons x xs)
  obtain t p e where x: "x = (t, p, e)" by (cases x)
  have up: "[v + 1..n] \<noteq> []" using Cons.prems(2) by auto
  then have "v + 1 \<le> n" by simp
  then have "ev_version e = v + 1" "map (\<lambda>x. ev_version (fact_event x)) xs = [v + 1 + 1..n]"
    using Cons.prems(2) by (simp_all add: x upto_rec1)
  moreover have "rising_feed (v + 1) xs" using Cons.IH [OF _ calculation(2)] Cons.prems(1) by simp
  ultimately show ?case using Cons.prems(1) by (simp add: x fact_ok_def)
qed simp

lemma reduce_facts_total:
  "list_all (fact_ok c) xs \<Longrightarrow> \<exists>final. fold_r (reduce_step now) (map fact_event xs) current = Inr final"
proof (induction xs arbitrary: current)
  case (Cons x xs)
  obtain r where "reduce_match_state now current (fact_event x) = Inr r"
    using fact_accepted [of c x now current] Cons.prems by auto
  with Cons show ?case by (auto simp: reduce_step_def)
qed simp

lemma map_fact_event: "map fact_event xs = map (\<lambda>(t, p, e). e) xs"
  by (auto simp: case_prod_beta)

text \<open>
  C1.  The projection ends at the provider's score.  When the match projection shows the checkpoint's
  score, has not passed full time and is not ahead of the checkpoint's version, then projecting the
  emitted events one by one succeeds and leaves the projection at exactly the score of the new
  checkpoint, whatever mixture of match events, missing goals and corrections the observation held.
\<close>

theorem projection_follows_checkpoint:
  assumes "read_prior previous = Inr p" and "prior_ok p" and "fixture_ok (obs_content obs)"
    and "score_of current = (pv_home_score p, pv_away_score p, False)" and "version_of current \<le> pv_version p"
  shows "\<exists>events st final x. diff_fixture previous obs corr es ids ing = Inr (events, st)
    \<and> fold_r (reduce_step now) events current = Inr final
    \<and> score_of final = (st_home_score st, st_away_score st, x)"
proof -
  obtain xs w c m where run: "diff_fixture previous obs corr es ids ing = Inr (map fact_event xs, next_state p es c m w)"
    and out: "diff_outcome c p es m xs w" and c: "c = diff_ctx_of p obs corr ids ing"
    using diff_fixture_run [OF assms(1-3)] by blast
  note facts = diff_outcome_facts [OF out]
  obtain final where final: "fold_r (reduce_step now) (map fact_event xs) current = Inr final"
    using reduce_facts_total [OF facts(3)] by blast
  have "rising_feed (version_of current) xs"
    using rising_feed_mono [OF rising_facts [OF facts(3,1)] assms(5)] .
  have "fact_score = (\<lambda>(t, p, e). score_step (score_fact_of t p))"
    by (auto simp: fact_score_def fun_eq_iff)
  with feed_score [OF \<open>rising_feed (version_of current) xs\<close> final [unfolded map_fact_event]]
  have "score_of final = fold fact_score xs (score_of current)" by simp
  then obtain x where "score_of final = (fst (reported_score p (dc_fixture c)), snd (reported_score p (dc_fixture c)), x)"
    using facts(4) assms(4) by auto
  with run final show ?thesis
    by (intro exI [of _ "map fact_event xs"] exI [of _ "next_state p es c m w"] exI [of _ final] exI [of _ x])
      (simp add: next_state_def Let_def)
qed

section \<open>Repeating an observation\<close>

lemma ensure_noop:
  assumes "ladder_done c v"
  shows "ensure_halftime c v = Inr v" "ensure_second_half c v = Inr v" "ensure_extra_time c v = Inr v"
    "ensure_penalties c v = Inr v"
proof -
  have "halftime_done c v" "second_half_done c v" "extra_time_done c v" "penalties_done c v"
    using assms by (simp_all add: ladder_done_def)
  then show "ensure_halftime c v = Inr v" "ensure_second_half c v = Inr v" "ensure_extra_time c v = Inr v"
    "ensure_penalties c v = Inr v"
    unfolding done_defs ensure_halftime_def ensure_second_half_def ensure_extra_time_def ensure_penalties_def
    by (auto simp del: insert_iff Un_iff)
qed

lemma ladder_code: "dc_status_code c' = dc_status_code c \<Longrightarrow> ladder_done c' v = ladder_done c v"
  by (simp only: ladder_done_def done_defs)

lemma diff_event_noop:
  assumes "ladder_done c v" and "settled_event e v"
  shows "diff_event c e v = Inr v"
  using assms(2) ensure_noop [OF assms(1)]
  by (auto simp: diff_event_def settled_event_def split: option.splits)

lemma diff_events_noop:
  "ladder_done c v \<Longrightarrow> \<forall>e \<in> set es. settled_event e v \<Longrightarrow> fold_r (diff_event c) es v = Inr v"
  by (induction es) (simp_all add: diff_event_noop)

lemma status_again:
  assumes "prior_ok p" and "pv_status_code q = upper (status_code_of p f)"
  shows "status_code_of q f = status_code_of p f"
  unfolding status_code_of_def [of q] assms(2) upper_codes [OF assms(1)]
  by (simp add: status_code_of_def Let_def)

lemma diff_again:
  assumes "read_prior previous = Inr p" and "prior_ok p" and "fixture_ok (obs_content obs)"
    and "diff_fixture previous obs corr es ids ing = Inr (events, st)"
  shows "diff_fixture (Some (state_dict st)) obs corr' es' ids' ing' = Inr ([], st)"
proof -
  let ?f = "obs_content obs"
  obtain xs w c m where st: "st = next_state p es c m w" and c: "c = diff_ctx_of p obs corr ids ing"
    and m: "m = next_minute p ?f" and out: "diff_outcome c p es m xs w"
    using diff_fixture_run [OF assms(1-3), of corr es ids ing] assms(4) by auto
  define q where "q = prior_of_state st"
  define c' where "c' = diff_ctx_of q obs corr' ids' ing'"
  define v where "v = diff_start q"
  have fields: "pv_status_code q = upper (status_code_of p ?f)" "pv_minute q = m"
    "(pv_home_score q, pv_away_score q) = reported_score p ?f"
    "set (pv_event_ids q) = set (dv_event_ids w)" "pv_halftime_emitted q = dv_halftime w"
    "pv_second_half_emitted q = dv_second_half w" "pv_extra_time_emitted q = dv_extra_time w"
    "pv_penalties_emitted q = dv_penalties w" "pv_present q"
    by (simp_all add: q_def st prior_of_state_def next_state_def Let_def c)
  have code: "status_code_of q ?f = status_code_of p ?f" by (rule status_again [OF assms(2) fields(1)])
  have code': "dc_status_code c' = dc_status_code c" by (simp add: c'_def c code)
  have "flags_grow w v" using fields by (simp add: flags_grow_def v_def diff_start_def)
  moreover have "ladder_done c w" "\<forall>e \<in> set (fo_events ?f). settled_event e w"
    using out by (simp_all add: diff_outcome_def c)
  ultimately have "ladder_done c v" and settled: "\<forall>e \<in> set (fo_events ?f). settled_event e v"
    using ladder_mono settled_event_mono by blast+
  then have ladder: "ladder_done c' v" using ladder_code [OF code'] by simp
  have sched: "\<not> scheduled_changed q ?f"
    by (simp add: scheduled_changed_def q_def st prior_of_state_def next_state_def Let_def c)
  have kick: "is_live_or_later (dc_status_code c') \<longrightarrow> pv_kickoff_emitted q"
    and full: "dc_status_code c' \<in> FULLTIME_CODES \<longrightarrow> pv_fulltime_emitted q"
    by (simp_all add: code' q_def st prior_of_state_def next_state_def Let_def)
  have facts: "diff_facts q es' c' = Inr v"
  proof -
    have 1: "diff_scheduled q es' c' v = Inr v" using sched by (simp add: diff_scheduled_def c'_def)
    have 2: "diff_kickoff q c' v = Inr v" using kick by (auto simp: diff_kickoff_def)
    have "\<forall>e \<in> set (event_order (fo_events (dc_fixture c'))). settled_event e v"
      using settled by (simp add: event_order_def c'_def)
    from diff_events_noop [OF ladder this] show ?thesis
      by (simp only: diff_facts_def v_def [symmetric] 1 2 bind_r_Inr ensure_noop [OF ladder])
  qed
  have stale: "stale_observation q ?f" if "stale_observation p ?f"
  proof -
    have "pv_minute p \<le> pv_minute q" by (simp add: fields(2) m next_minute_def)
    moreover have "status_rank (pv_status_code p) \<le> status_rank (pv_status_code q)"
      unfolding fields(1) upper_codes [OF assms(2)] by (simp add: status_code_of_def Let_def)
    ultimately show ?thesis using that fields(9) unfolding stale_observation_def by linarith
  qed
  have rep: "reported_score q ?f = (pv_home_score q, pv_away_score q)"
  proof (cases "stale_observation q ?f")
    case True
    then show ?thesis by (simp add: reported_score_def)
  next
    case False
    then show ?thesis using fields(3) stale by (auto simp: reported_score_def split: option.splits)
  qed
  have scores: "diff_scores q c' (next_minute q ?f) v = Inr v"
    by (simp add: diff_scores_def Let_def c'_def rep v_def diff_start_def)
  have fulltime: "diff_fulltime q c' (next_minute q ?f) v = Inr v"
    using full by (auto simp: diff_fulltime_def)
  have "dv_event_ids v = st_event_ids st" "dv_version v = st_version st"
    by (simp_all add: v_def diff_start_def q_def prior_of_state_def)
  moreover have "next_minute q ?f = m" by (simp add: next_minute_def fields(2) m)
  moreover have "reported_score q ?f = reported_score p ?f" using rep fields(3) by simp
  moreover have "dv_halftime v = st_halftime_emitted st" "dv_second_half v = st_second_half_emitted st"
    "dv_extra_time v = st_extra_time_emitted st" "dv_penalties v = st_penalties_emitted st"
    by (simp_all add: v_def diff_start_def q_def prior_of_state_def)
  ultimately have "next_state q es' c' (next_minute q ?f) v = st"
    using sched code' by (auto simp: st next_state_def Let_def c'_def c q_def prior_of_state_def diff_ctx_of_def)
  then have "diff_prior q obs corr' es' ids' ing' = Inr ([], st)"
    using facts scores fulltime by (simp add: diff_prior_def Let_def c'_def v_def diff_start_def)
  then show ?thesis by (simp add: diff_fixture_def q_def)
qed

text \<open>
  Observing the same again changes nothing: comparing an observation with the checkpoint it
  produced emits no event and produces the same checkpoint, so a poll that is repeated after a crash,
  or finds the fixture unchanged, adds nothing to the event store.
\<close>

theorem diff_fixture_idempotent:
  assumes "read_prior previous = Inr p" and "prior_ok p" and "fixture_ok (obs_content obs)"
    and "diff_fixture previous obs corr es ids ing = Inr (events, st)"
  shows "diff_fixture (Some (state_dict st)) obs corr' es' ids' ing' = Inr ([], st)"
  using assms by (rule diff_again)

section \<open>Checkpoints only move forward\<close>

text \<open>
  A checkpoint never moves back: the rank of its status, its clock and its version do not
  decrease, the phase markers and known events it holds stay, and the final whistle, once recorded,
  stays recorded.  A late or reordered poll cannot undo what an earlier one established.
\<close>

theorem diff_fixture_monotone:
  assumes "read_prior previous = Inr p" and "prior_ok p" and "fixture_ok (obs_content obs)"
    and "diff_fixture previous obs corr es ids ing = Inr (events, st)"
  shows "status_rank (pv_status_code p) \<le> status_rank (st_status_code st) \<and> pv_minute p \<le> st_minute st
    \<and> pv_version p + int (length events) = st_version st
    \<and> set (pv_event_ids p) \<subseteq> set (st_event_ids st)
    \<and> (pv_kickoff_emitted p \<longrightarrow> st_kickoff_emitted st) \<and> (pv_halftime_emitted p \<longrightarrow> st_halftime_emitted st)
    \<and> (pv_second_half_emitted p \<longrightarrow> st_second_half_emitted st)
    \<and> (pv_extra_time_emitted p \<longrightarrow> st_extra_time_emitted st)
    \<and> (pv_penalties_emitted p \<longrightarrow> st_penalties_emitted st)
    \<and> (pv_fulltime_emitted p \<longrightarrow> st_fulltime_emitted st)"
proof -
  obtain xs w c m where ev: "events = map fact_event xs" and st: "st = next_state p es c m w"
    and c: "c = diff_ctx_of p obs corr ids ing" and m: "m = next_minute p (obs_content obs)"
    and out: "diff_outcome c p es m xs w"
    using diff_fixture_run [OF assms(1-3), of corr es ids ing] assms(4) by auto
  note facts = diff_outcome_facts [OF out]
  have "flags_grow (diff_start p) w" using out by (simp add: diff_outcome_def)
  moreover have "length xs = nat (dv_version w - pv_version p)"
    using arg_cong [OF facts(1), of length] by simp
  ultimately show ?thesis
    using facts(2)
    by (simp add: st ev next_state_def Let_def flags_grow_def diff_start_def c m next_minute_def status_code_of_def)
qed

section \<open>Closed instances\<close>

definition sample_fixture :: "string \<Rightarrow> int \<Rightarrow> int \<Rightarrow> match_event list \<Rightarrow> fixture_observation" where
  "sample_fixture code minute home events =
     \<lparr>fo_fixture_id = 7, fo_league_id = 39, fo_competition = ''Premier League'', fo_home_team = ''A'',
      fo_away_team = ''B'', fo_home_team_id = Some 40, fo_away_team_id = Some 41, fo_kickoff_at = 0,
      fo_actual_kickoff_at = None, fo_status_code = code, fo_status_label = None, fo_minute = minute,
      fo_home_score = Some home, fo_away_score = Some 0, fo_events = events, fo_final_verification = False\<rparr>"

definition sample_match_event :: match_event where
  "sample_match_event = \<lparr>me_identity = ''g1'', me_kind = ''Goal'', me_minute = 23, me_side = Some ''home'',
     me_player = Some ''P'', me_assist = None, me_detail = Some ''Normal Goal''\<rparr>"

definition sample_observation :: "fixture_observation \<Rightarrow> fixture_observation observation" where
  "sample_observation f = \<lparr>obs_provider_id = ''football'', obs_external_entity_id = external_entity_id f,
     obs_observed_at = minutes 40, obs_content = f, obs_provider_version = None, obs_checkpoint = None,
     obs_correlation_id = None\<rparr>"

lemma sample_fixture_ok:
  "0 \<le> minute \<Longrightarrow> minute \<le> 130 \<Longrightarrow> 0 \<le> home \<Longrightarrow> events = [] \<or> events = [sample_match_event] \<Longrightarrow>
   fixture_ok (obs_content (sample_observation (sample_fixture code minute home events)))"
  by (auto simp: fixture_ok_def sample_observation_def sample_fixture_def fixture_observation_ok_def opt_nonneg_def
      sides_ok_def sample_match_event_def match_event_ok_def)

definition empty_prior :: prior where
  "empty_prior = \<lparr>pv_present = False, pv_event_ids = [], pv_version = 0, pv_status_code = ''TBD'', pv_minute = 0,
     pv_home_score = 0, pv_away_score = 0, pv_scheduled_kickoff = None, pv_scheduled_emitted = False,
     pv_kickoff_emitted = False, pv_halftime_emitted = False, pv_second_half_emitted = False,
     pv_extra_time_emitted = False, pv_penalties_emitted = False, pv_fulltime_emitted = False,
     pv_final_verification_pending = False\<rparr>"

lemma read_nothing: "read_prior None = Inr empty_prior"
proof -
  have "upper ''TBD'' = ''TBD''" by code_simp
  then show ?thesis by (simp add: read_prior_def dict_get_or_def flag_def empty_prior_def)
qed

lemma empty_prior_ok: "prior_ok empty_prior"
proof -
  have "upper ''TBD'' = ''TBD''" by code_simp
  then show ?thesis by (simp add: prior_ok_def empty_prior_def)
qed

definition live_observation :: "fixture_observation observation" where
  "live_observation = sample_observation (sample_fixture ''2H'' 52 2 [sample_match_event])"

lemma live_observation_ok: "fixture_ok (obs_content live_observation)"
  unfolding live_observation_def by (rule sample_fixture_ok) simp_all


theorem projection_follows_checkpoint_witness:
  "\<exists>events st final x. diff_fixture None live_observation 1 True id 0 = Inr (events, st)
     \<and> fold_r (reduce_step 0) events None = Inr final \<and> score_of final = (2, 0, x)"
proof -
  have start: "score_of None = (pv_home_score empty_prior, pv_away_score empty_prior, False)"
    "version_of None \<le> pv_version empty_prior"
    by (simp_all add: score_of_def version_of_def empty_prior_def)
  obtain events st final x where r: "diff_fixture None live_observation 1 True id 0 = Inr (events, st)"
    "fold_r (reduce_step 0) events None = Inr final" "score_of final = (st_home_score st, st_away_score st, x)"
    using projection_follows_checkpoint [OF read_nothing empty_prior_ok live_observation_ok start] by blast
  have "\<not> isl (diff_fixture None live_observation 1 True id 0)
      \<and> st_home_score (snd (projr (diff_fixture None live_observation 1 True id 0))) = 2
      \<and> st_away_score (snd (projr (diff_fixture None live_observation 1 True id 0))) = 0"
    by code_simp
  with r show ?thesis by auto
qed

theorem diff_fixture_idempotent_witness:
  "\<exists>events st. diff_fixture None live_observation 1 True id 0 = Inr (events, st)
     \<and> diff_fixture (Some (state_dict st)) live_observation 2 True id 9 = Inr ([], st)"
proof -
  have "\<not> isl (diff_fixture None live_observation 1 True id 0)" by code_simp
  then obtain events st where r: "diff_fixture None live_observation 1 True id 0 = Inr (events, st)"
    by (cases "diff_fixture None live_observation 1 True id 0") auto
  from diff_fixture_idempotent [OF read_nothing empty_prior_ok live_observation_ok r, of 2 True id 9] r
  show ?thesis by blast
qed

theorem diff_fixture_monotone_witness:
  "\<exists>events st. diff_fixture None live_observation 1 True id 0 = Inr (events, st)
     \<and> int (length events) = st_version st"
proof -
  have "\<not> isl (diff_fixture None live_observation 1 True id 0)" by code_simp
  then obtain events st where r: "diff_fixture None live_observation 1 True id 0 = Inr (events, st)"
    by (cases "diff_fixture None live_observation 1 True id 0") auto
  have "pv_version empty_prior + int (length events) = st_version st"
    using diff_fixture_monotone [OF read_nothing empty_prior_ok live_observation_ok r] by blast
  with r show ?thesis by (simp add: empty_prior_def)
qed

section \<open>A goal reported after the final whistle\<close>

text \<open>
  The provider may raise a score after full time (the code polls once more for that).  The comparison
  then emits a goal, which the reducer drops because the match is over: the checkpoint has the new
  score, the projection keeps the old one, and no later observation repairs it.
\<close>

definition final_observation :: "int \<Rightarrow> fixture_observation observation" where
  "final_observation home = sample_observation (sample_fixture ''FT'' 90 home [])"

definition diff_then_project ::
  "dict option \<times> match_core option \<Rightarrow> fixture_observation observation \<Rightarrow> dict option \<times> match_core option" where
  "diff_then_project x obs = (case diff_fixture (fst x) obs 1 True id 0 of
       Inl err \<Rightarrow> x
     | Inr (events, st) \<Rightarrow> (Some (state_dict st), (case fold_r (reduce_step 0) events (snd x) of Inr final \<Rightarrow> final | Inl err \<Rightarrow> snd x)))"

theorem late_goal_lost:
  "(let x = foldl diff_then_project (None, None) [final_observation 1, final_observation 2, final_observation 2]
    in map_of (the (fst x)) ''home_score'' = Some (JInt 2) \<and> score_of (snd x) = (1, 0, True))"
  by code_simp

section \<open>A kick-off time changed during play\<close>

text \<open>
  When the provider changes the kick-off time of a match in play, the comparison emits a new schedule
  event; the reducer sets the match back to scheduled and before the match, and since the kick-off has
  been emitted before, no later unchanged observation brings it back.
\<close>

definition live_at :: "instant \<Rightarrow> fixture_observation observation" where
  "live_at kickoff = sample_observation (sample_fixture ''1H'' 20 1 []\<lparr>fo_kickoff_at := kickoff\<rparr>)"

theorem reschedule_regresses:
  "map_option (\<lambda>m. (ms_status m, ms_phase m))
     (snd (foldl diff_then_project (None, None) [live_at 0])) = Some (''live'', ''first_half'')
   \<and> map_option (\<lambda>m. (ms_status m, ms_phase m))
     (snd (foldl diff_then_project (None, None) [live_at 0, live_at (minutes 5), live_at (minutes 5)]))
     = Some (''scheduled'', ''pre_match'')"
  by code_simp

end
