(* ===== verification/Football_Store.thy ===== *)
theory Football_Store
  imports Diff_Properties Event_Store
begin

text \<open>
  Durable football checkpoints and the atomic ingestion of observations
  (\<open>backend/app/providers/football/store.py\<close>).  A checkpoint value is JSON text; the model keeps the
  value it denotes.  \<open>ingest\<close> is one transaction: the events of every observation, their outbox rows,
  the fixture checkpoints, the list of fixtures that wait for their final verification and the
  baseline marker are written together or not at all.
\<close>

section \<open>Reading and writing one checkpoint\<close>

definition BASELINE_CHECKPOINT_KEY :: string where
  "BASELINE_CHECKPOINT_KEY = ''fixture-baseline:v1''"

definition checkpoint_row :: "string \<Rightarrow> db \<Rightarrow> checkpoint_row option" where
  "checkpoint_row key d = find_checkpoint (''football'', key) (db_checkpoints d)"

definition football_row :: "instant \<Rightarrow> string \<Rightarrow> json \<Rightarrow> instant \<Rightarrow> checkpoint_row" where
  "football_row now key value observed_at =
     \<lparr>cp_provider = ''football'', cp_checkpoint_key = key, cp_value = Some value,
      cp_observed_at = Some observed_at, cp_updated_at = now\<rparr>"

text \<open>Add the row, or assign the value and time of the one that is there.\<close>

definition write_checkpoint :: "instant \<Rightarrow> string \<Rightarrow> json \<Rightarrow> instant \<Rightarrow> db \<Rightarrow> db" where
  "write_checkpoint now key value observed_at d =
     d\<lparr>db_checkpoints := save_checkpoint (football_row now key value observed_at) (db_checkpoints d)\<rparr>"

fun json_object :: "json option \<Rightarrow> dict option" where
  "json_object (Some (JDict x)) = Some x"
| "json_object _ = None"

definition get_json :: "string \<Rightarrow> db \<Rightarrow> (dict \<times> instant) option" where
  "get_json key d = (case checkpoint_row key d of None \<Rightarrow> None
     | Some row \<Rightarrow> map_option (\<lambda>v. (v, case cp_observed_at row of Some t \<Rightarrow> t | None \<Rightarrow> cp_updated_at row))
                     (json_object (cp_value row)))"

definition put_json :: "instant \<Rightarrow> string \<Rightarrow> dict \<Rightarrow> instant option \<Rightarrow> db \<Rightarrow> db" where
  "put_json now key value observed_at d =
     write_checkpoint now key (JDict value) (case observed_at of Some t \<Rightarrow> t | None \<Rightarrow> now) d"

definition list_json :: "string \<Rightarrow> db \<Rightarrow> (string \<times> dict) list" where
  "list_json pre d =
     concat (map (\<lambda>row. case json_object (cp_value row) of None \<Rightarrow> [] | Some v \<Rightarrow> [(cp_checkpoint_key row, v)])
       (filter (\<lambda>row. cp_provider row = ''football'' \<and> startswith (cp_checkpoint_key row) pre) (db_checkpoints d)))"

definition has_fixture_checkpoints :: "db \<Rightarrow> bool" where
  "has_fixture_checkpoints d =
     (\<exists>row \<in> set (db_checkpoints d). cp_provider row = ''football'' \<and> startswith (cp_checkpoint_key row) ''fixture:'')"

text \<open>\<open>_decode_pending_index\<close>: the identifiers of an index, whatever cannot be read as one left out.\<close>

fun index_items :: "json \<Rightarrow> json list" where
  "index_items (JList xs) = xs"
| "index_items (JStr s) = map (\<lambda>c. JStr [c]) s"
| "index_items (JDict d) = map (\<lambda>(k, v). JStr k) d"
| "index_items _ = []"

fun index_item :: "json \<Rightarrow> int list" where
  "index_item v = (if isdigit (py_str v) then (case py_int v of Inr n \<Rightarrow> [n] | Inl e \<Rightarrow> []) else [])"

definition decode_pending_index :: "json option \<Rightarrow> int list" where
  "decode_pending_index value = (case json_object value of None \<Rightarrow> []
     | Some d \<Rightarrow> concat (map index_item (index_items (dict_get_or d ''fixture_ids'' (JList [])))))"

section \<open>Ingestion\<close>

record poll_context =
  pc_correlation_id :: uuid
  pc_scheduled_at :: instant
  pc_checkpoint :: "string option"

text \<open>\<open>PollContext.__post_init__\<close>.\<close>

definition poll_context_new :: "uuid \<Rightarrow> py_datetime \<Rightarrow> string option \<Rightarrow> poll_context result" where
  "poll_context_new correlation scheduled checkpoint = (case to_utc scheduled of
       None \<Rightarrow> Inl (ValueError ''scheduled_at must be timezone-aware'')
     | Some t \<Rightarrow> Inr \<lparr>pc_correlation_id = correlation, pc_scheduled_at = t, pc_checkpoint = checkpoint\<rparr>)"

definition fixture_key :: "int \<Rightarrow> string" where
  "fixture_key i = ''fixture:'' @ int_str i"

text \<open>
  The environment of one transaction: the digest of the tombstones, the outbox topic, the clock, and
  the identifiers the constructed events get, in order.
\<close>

record ingest_env =
  ie_hash :: "string \<Rightarrow> string"
  ie_topic :: string
  ie_now :: instant
  ie_uuid :: "nat \<Rightarrow> uuid"

record ingest_vars =
  iv_db :: db
  iv_pending :: "int set"
  iv_count :: nat
  iv_made :: nat

text \<open>
  One round of the loop.  The row was looked up before the loop: when there was none, the comparison
  starts from nothing and the row is added, which fails when an earlier round of the same transaction
  has added it.
\<close>

definition ingest_observation ::
  "ingest_env \<Rightarrow> uuid \<Rightarrow> bool \<Rightarrow> (string \<Rightarrow> bool) \<Rightarrow> fixture_observation observation \<Rightarrow> ingest_vars
   \<Rightarrow> ingest_vars result" where
  "ingest_observation env corr establishing existed obs v =
     (let i = fo_fixture_id (obs_content obs); key = fixture_key i;
          previous = (if existed key then Option.bind (checkpoint_row key (iv_db v)) (\<lambda>row. json_object (cp_value row))
                      else None)
      in bind_r (diff_fixture previous obs corr (\<not> (establishing \<and> \<not> existed key))
                   (\<lambda>k. ie_uuid env (iv_made v + k)) (ie_now env)) (\<lambda>(events, state).
         bind_r (ingest_events (persist_event_and_outbox (ie_hash env) (ie_topic env) (ie_now env)) events (iv_db v))
           (\<lambda>(n, d).
         bind_r (ensure (existed key \<or> checkpoint_row key d = None)
                   (IntegrityError ''uq_provider_checkpoint_key'')) (\<lambda>_.
         Inr \<lparr>iv_db = write_checkpoint (ie_now env) key (JDict (state_dict state)) (obs_observed_at obs) d,
              iv_pending = (if st_final_verification_pending state then insert i (iv_pending v) else iv_pending v - {i}),
              iv_count = iv_count v + n, iv_made = iv_made v + length events\<rparr>))))"

definition baseline_value :: "poll_context \<Rightarrow> nat \<Rightarrow> bool \<Rightarrow> json" where
  "baseline_value ctx n initial_sync = JDict
     [(''version'', JInt 1), (''established_at'', JStr (isoformat (pc_scheduled_at ctx))),
      (''fixture_count'', JInt (int n)), (''initial_sync'', JBool initial_sync)]"

definition establish_empty_baseline :: "ingest_env \<Rightarrow> poll_context \<Rightarrow> db \<Rightarrow> db" where
  "establish_empty_baseline env ctx d =
     (if checkpoint_row BASELINE_CHECKPOINT_KEY d \<noteq> None then d
      else write_checkpoint (ie_now env) BASELINE_CHECKPOINT_KEY
             (baseline_value ctx 0 (\<not> has_fixture_checkpoints d)) (pc_scheduled_at ctx) d)"

definition pending_value :: "int set \<Rightarrow> json" where
  "pending_value ids = JDict [(''fixture_ids'', JList (map JInt (sorted_list_of_set ids)))]"

definition establishing_baseline :: "fixture_observation observation list \<Rightarrow> db \<Rightarrow> bool" where
  "establishing_baseline observations d \<longleftrightarrow>
     checkpoint_row BASELINE_CHECKPOINT_KEY d = None \<and>
     \<not> ((\<exists>obs \<in> set observations. checkpoint_row (fixture_key (fo_fixture_id (obs_content obs))) d \<noteq> None)
        \<or> has_fixture_checkpoints d)"

definition football_ingest ::
  "ingest_env \<Rightarrow> poll_context \<Rightarrow> fixture_observation observation list \<Rightarrow> db \<Rightarrow> (nat \<times> db) result" where
  "football_ingest env ctx observations d =
     (if observations = [] then Inr (0, establish_empty_baseline env ctx d)
      else
        (let establishing = establishing_baseline observations d;
             existed = (\<lambda>key. checkpoint_row key d \<noteq> None);
             pending = (case checkpoint_row ''pending-final'' d of None \<Rightarrow> {}
                        | Some row \<Rightarrow> set (decode_pending_index (cp_value row)))
         in bind_r (fold_r (ingest_observation env (pc_correlation_id ctx) establishing existed) observations
                      \<lparr>iv_db = d, iv_pending = pending, iv_count = 0, iv_made = 0\<rparr>) (\<lambda>v.
            let d1 = write_checkpoint (ie_now env) ''pending-final'' (pending_value (iv_pending v)) (pc_scheduled_at ctx) (iv_db v);
                d2 = (if checkpoint_row BASELINE_CHECKPOINT_KEY d = None
                      then write_checkpoint (ie_now env) BASELINE_CHECKPOINT_KEY
                             (baseline_value ctx (length observations) establishing) (pc_scheduled_at ctx) d1
                      else d1)
            in Inr (iv_count v, d2))))"

section \<open>Lemmas on checkpoints\<close>

lemma checkpoint_row_write [simp]:
  "checkpoint_row k (write_checkpoint now key value t d)
     = (if k = key then Some (football_row now key value t) else checkpoint_row k d)"
  by (simp add: checkpoint_row_def write_checkpoint_def checkpoints.lookup_put)
    (simp add: checkpoint_key_def football_row_def)

lemma write_checkpoint_frame [simp]:
  "db_events (write_checkpoint now key value t d) = db_events d"
  "db_outbox (write_checkpoint now key value t d) = db_outbox d"
  "db_timeline (write_checkpoint now key value t d) = db_timeline d"
  "db_matches (write_checkpoint now key value t d) = db_matches d"
  "db_processed (write_checkpoint now key value t d) = db_processed d"
  "db_retired (write_checkpoint now key value t d) = db_retired d"
  by (simp_all add: write_checkpoint_def)

lemma write_checkpoint_ok: "db_ok hash d \<Longrightarrow> db_ok hash (write_checkpoint now key value t d)"
  using checkpoints.ok_put [of "db_checkpoints d" "football_row now key value t"]
  by (auto simp: db_ok_defs write_checkpoint_def)

lemma persist_checkpoints:
  "persist_event_and_outbox hash topic now e d = Inr (b, d') \<Longrightarrow> db_checkpoints d' = db_checkpoints d"
  by (cases b) (auto simp: persist_True append_event_Inr dest: persist_False)

lemma ingest_events_checkpoints:
  "ingest_events (persist_event_and_outbox hash topic now) es d = Inr (n, d') \<Longrightarrow> db_checkpoints d' = db_checkpoints d"
  by (induction es arbitrary: d n) (auto simp: bind_simps dest: persist_checkpoints)

lemma checkpoint_row_cong: "db_checkpoints d' = db_checkpoints d \<Longrightarrow> checkpoint_row k d' = checkpoint_row k d"
  by (simp add: checkpoint_row_def)

text \<open>
  What is written is what is read: after \<open>put_json\<close> the key gives the value and its observation
  time back, every other key is unchanged, and no other table is touched.
\<close>

theorem put_get_json:
  "get_json k (put_json now key value t d)
     = (if k = key then Some (value, case t of Some x \<Rightarrow> x | None \<Rightarrow> now) else get_json k d)
   \<and> db_events (put_json now key value t d) = db_events d
   \<and> db_matches (put_json now key value t d) = db_matches d"
  by (simp add: get_json_def put_json_def football_row_def)

lemma fixture_key_inject [simp]: "0 \<le> i \<Longrightarrow> 0 \<le> j \<Longrightarrow> fixture_key i = fixture_key j \<longleftrightarrow> i = j"
  by (auto simp: fixture_key_def int_str_def)

lemma fixture_key_other [simp]:
  "fixture_key i \<noteq> ''pending-final''" "fixture_key i \<noteq> BASELINE_CHECKPOINT_KEY"
  "''pending-final'' \<noteq> fixture_key i" "BASELINE_CHECKPOINT_KEY \<noteq> fixture_key i"
  "''pending-final'' \<noteq> BASELINE_CHECKPOINT_KEY" "BASELINE_CHECKPOINT_KEY \<noteq> ''pending-final''"
  by (auto simp: fixture_key_def BASELINE_CHECKPOINT_KEY_def)

section \<open>Invariants of ingestion\<close>

text \<open>Every fixture checkpoint in the database can be read and compared with.\<close>

definition checkpoints_ok :: "db \<Rightarrow> bool" where
  "checkpoints_ok d \<longleftrightarrow> (\<forall>i row. checkpoint_row (fixture_key i) d = Some row \<longrightarrow>
     (\<exists>p. read_prior (json_object (cp_value row)) = Inr p \<and> prior_ok p))"

definition previous_of :: "(string \<Rightarrow> bool) \<Rightarrow> int \<Rightarrow> db \<Rightarrow> dict option" where
  "previous_of existed i d = (if existed (fixture_key i)
     then Option.bind (checkpoint_row (fixture_key i) d) (\<lambda>row. json_object (cp_value row)) else None)"

lemma previous_readable:
  assumes "checkpoints_ok d"
  shows "\<exists>p. read_prior (previous_of existed i d) = Inr p \<and> prior_ok p"
proof (cases "checkpoint_row (fixture_key i) d")
  case (Some row)
  with assms obtain p where "read_prior (json_object (cp_value row)) = Inr p" "prior_ok p"
    unfolding checkpoints_ok_def by blast
  with Some show ?thesis using read_nothing empty_prior_ok by (simp add: previous_of_def)
qed (use read_nothing empty_prior_ok in \<open>simp add: previous_of_def\<close>)

lemma ingest_observation_Inr:
  assumes "ingest_observation env corr est existed obs v = Inr w"
  obtains events st n d where
    "diff_fixture (previous_of existed (fo_fixture_id (obs_content obs)) (iv_db v)) obs corr
       (\<not> (est \<and> \<not> existed (fixture_key (fo_fixture_id (obs_content obs))))) (\<lambda>k. ie_uuid env (iv_made v + k)) (ie_now env)
     = Inr (events, st)"
    "ingest_events (persist_event_and_outbox (ie_hash env) (ie_topic env) (ie_now env)) events (iv_db v) = Inr (n, d)"
    "w = \<lparr>iv_db = write_checkpoint (ie_now env) (fixture_key (fo_fixture_id (obs_content obs))) (JDict (state_dict st))
                    (obs_observed_at obs) d,
          iv_pending = (if st_final_verification_pending st then insert (fo_fixture_id (obs_content obs)) (iv_pending v)
             else iv_pending v - {fo_fixture_id (obs_content obs)}),
          iv_count = iv_count v + n, iv_made = iv_made v + length events\<rparr>"
  using assms by (auto simp: ingest_observation_def Let_def bind_simps previous_of_def)

lemma ingest_observation_ok:
  assumes "ingest_observation env corr est existed obs v = Inr w"
    and "db_ok (ie_hash env) (iv_db v)" and "checkpoints_ok (iv_db v)" and "fixture_ok (obs_content obs)"
  shows "db_ok (ie_hash env) (iv_db w) \<and> checkpoints_ok (iv_db w)"
proof -
  obtain events st n d where
    diff: "diff_fixture (previous_of existed (fo_fixture_id (obs_content obs)) (iv_db v)) obs corr
       (\<not> (est \<and> \<not> existed (fixture_key (fo_fixture_id (obs_content obs))))) (\<lambda>k. ie_uuid env (iv_made v + k)) (ie_now env)
     = Inr (events, st)"
    and ing: "ingest_events (persist_event_and_outbox (ie_hash env) (ie_topic env) (ie_now env)) events (iv_db v) = Inr (n, d)"
    and w: "iv_db w = write_checkpoint (ie_now env) (fixture_key (fo_fixture_id (obs_content obs))) (JDict (state_dict st))
                    (obs_observed_at obs) d"
    using ingest_observation_Inr [OF assms(1)] by (metis ingest_vars.select_convs(1))
  obtain p where p: "read_prior (previous_of existed (fo_fixture_id (obs_content obs)) (iv_db v)) = Inr p" "prior_ok p"
    using previous_readable [OF assms(3)] by blast
  have st: "prior_ok (prior_of_state st)" by (rule diff_state_ok [OF p assms(4) diff])
  have "checkpoints_ok d"
    using assms(3) checkpoint_row_cong [OF ingest_events_checkpoints [OF ing]] by (simp add: checkpoints_ok_def)
  then have "checkpoints_ok (iv_db w)"
    using st unfolding checkpoints_ok_def w by (auto simp: football_row_def)
  moreover have "db_ok (ie_hash env) d" using store.ingest_ok [OF assms(2) ing] .
  ultimately show ?thesis by (simp add: w write_checkpoint_ok)
qed

lemma ingest_run_ok:
  "fold_r (ingest_observation env corr est existed) xs v = Inr w \<Longrightarrow> db_ok (ie_hash env) (iv_db v) \<Longrightarrow>
   checkpoints_ok (iv_db v) \<Longrightarrow> \<forall>obs \<in> set xs. fixture_ok (obs_content obs) \<Longrightarrow>
   db_ok (ie_hash env) (iv_db w) \<and> checkpoints_ok (iv_db w)"
proof (induction xs arbitrary: v)
  case (Cons obs xs)
  then obtain u where u: "ingest_observation env corr est existed obs v = Inr u"
    and r: "fold_r (ingest_observation env corr est existed) xs u = Inr w" by (auto simp: bind_simps)
  show ?case using Cons.IH [OF r] ingest_observation_ok [OF u] Cons.prems by simp
qed simp

lemma checkpoints_ok_write:
  "checkpoints_ok d \<Longrightarrow> (\<And>i. key \<noteq> fixture_key i) \<Longrightarrow> checkpoints_ok (write_checkpoint now key value t d)"
  by (auto simp: checkpoints_ok_def)

lemma football_ingest_ok:
  assumes "football_ingest env ctx obs d = Inr (n, d')" and "db_ok (ie_hash env) d" and "checkpoints_ok d"
    and "\<forall>x \<in> set obs. fixture_ok (obs_content x)"
  shows "db_ok (ie_hash env) d' \<and> checkpoints_ok d'"
proof (cases "obs = []")
  case True
  with assms show ?thesis
    by (auto simp: football_ingest_def establish_empty_baseline_def write_checkpoint_ok intro!: checkpoints_ok_write)
next
  case False
  then obtain v where "fold_r (ingest_observation env (pc_correlation_id ctx) (establishing_baseline obs d)
      (\<lambda>key. checkpoint_row key d \<noteq> None)) obs
      \<lparr>iv_db = d, iv_pending = (case checkpoint_row ''pending-final'' d of None \<Rightarrow> {}
          | Some row \<Rightarrow> set (decode_pending_index (cp_value row))), iv_count = 0, iv_made = 0\<rparr> = Inr v"
    and d': "d' = (let d1 = write_checkpoint (ie_now env) ''pending-final'' (pending_value (iv_pending v)) (pc_scheduled_at ctx) (iv_db v)
      in if checkpoint_row BASELINE_CHECKPOINT_KEY d = None
         then write_checkpoint (ie_now env) BASELINE_CHECKPOINT_KEY
                (baseline_value ctx (length obs) (establishing_baseline obs d)) (pc_scheduled_at ctx) d1 else d1)"
    using assms(1) by (auto simp: football_ingest_def Let_def bind_simps)
  from ingest_run_ok [OF this(1)] assms(2-4) show ?thesis
    by (auto simp: d' Let_def write_checkpoint_ok intro!: checkpoints_ok_write)
qed

section \<open>Repeating a batch\<close>

abbreviation obs_id :: "fixture_observation observation \<Rightarrow> int" where
  "obs_id x \<equiv> fo_fixture_id (obs_content x)"

text \<open>The database already holds what ingesting the observation would write.\<close>

definition settled_obs :: "db \<Rightarrow> int set \<Rightarrow> fixture_observation observation \<Rightarrow> bool" where
  "settled_obs d pending x \<longleftrightarrow> (\<exists>st row. checkpoint_row (fixture_key (obs_id x)) d = Some row
     \<and> cp_value row = Some (JDict (state_dict st))
     \<and> (\<forall>corr es ids ing. diff_fixture (Some (state_dict st)) x corr es ids ing = Inr ([], st))
     \<and> (obs_id x \<in> pending \<longleftrightarrow> st_final_verification_pending st))"

lemma ingest_observation_settles:
  assumes "ingest_observation env corr est existed x v = Inr w"
    and "checkpoints_ok (iv_db v)" and "fixture_ok (obs_content x)"
  shows "settled_obs (iv_db w) (iv_pending w) x"
proof -
  obtain events st n d where
    diff: "diff_fixture (previous_of existed (obs_id x) (iv_db v)) x corr
       (\<not> (est \<and> \<not> existed (fixture_key (obs_id x)))) (\<lambda>k. ie_uuid env (iv_made v + k)) (ie_now env) = Inr (events, st)"
    and "ingest_events (persist_event_and_outbox (ie_hash env) (ie_topic env) (ie_now env)) events (iv_db v) = Inr (n, d)"
    and w: "w = \<lparr>iv_db = write_checkpoint (ie_now env) (fixture_key (obs_id x)) (JDict (state_dict st)) (obs_observed_at x) d,
          iv_pending = (if st_final_verification_pending st then insert (obs_id x) (iv_pending v) else iv_pending v - {obs_id x}),
          iv_count = iv_count v + n, iv_made = iv_made v + length events\<rparr>"
    by (rule ingest_observation_Inr [OF assms(1)])
  obtain p where p: "read_prior (previous_of existed (obs_id x) (iv_db v)) = Inr p" "prior_ok p"
    using previous_readable [OF assms(2)] by blast
  show ?thesis
    using diff_again [OF p assms(3) diff] unfolding settled_obs_def w
    by (intro exI [of _ st]) (auto simp: football_row_def)
qed

lemma ingest_observation_other:
  assumes "ingest_observation env corr est existed x v = Inr w" and "settled_obs (iv_db v) (iv_pending v) y"
    and "obs_id x \<noteq> obs_id y" and "0 \<le> obs_id x" and "0 \<le> obs_id y"
  shows "settled_obs (iv_db w) (iv_pending w) y"
proof -
  obtain events st n d where
    "diff_fixture (previous_of existed (obs_id x) (iv_db v)) x corr
       (\<not> (est \<and> \<not> existed (fixture_key (obs_id x)))) (\<lambda>k. ie_uuid env (iv_made v + k)) (ie_now env) = Inr (events, st)"
    and ing: "ingest_events (persist_event_and_outbox (ie_hash env) (ie_topic env) (ie_now env)) events (iv_db v) = Inr (n, d)"
    and w: "w = \<lparr>iv_db = write_checkpoint (ie_now env) (fixture_key (obs_id x)) (JDict (state_dict st)) (obs_observed_at x) d,
          iv_pending = (if st_final_verification_pending st then insert (obs_id x) (iv_pending v) else iv_pending v - {obs_id x}),
          iv_count = iv_count v + n, iv_made = iv_made v + length events\<rparr>"
    by (rule ingest_observation_Inr [OF assms(1)])
  have "checkpoint_row (fixture_key (obs_id y)) (iv_db w) = checkpoint_row (fixture_key (obs_id y)) (iv_db v)"
    using assms(3-5) checkpoint_row_cong [OF ingest_events_checkpoints [OF ing]] by (simp add: w)
  moreover have "obs_id y \<in> iv_pending w \<longleftrightarrow> obs_id y \<in> iv_pending v" using assms(3) by (simp add: w)
  ultimately show ?thesis using assms(2) by (simp add: settled_obs_def)
qed

lemma ingest_run_settles:
  "fold_r (ingest_observation env corr est existed) xs v = Inr w \<Longrightarrow> db_ok (ie_hash env) (iv_db v) \<Longrightarrow>
   checkpoints_ok (iv_db v) \<Longrightarrow> \<forall>x \<in> set xs. fixture_ok (obs_content x) \<and> 0 \<le> obs_id x \<Longrightarrow>
   distinct (map obs_id xs) \<Longrightarrow> \<forall>y \<in> ys. settled_obs (iv_db v) (iv_pending v) y \<and> 0 \<le> obs_id y \<and> obs_id y \<notin> obs_id ` set xs \<Longrightarrow>
   \<forall>y \<in> ys \<union> set xs. settled_obs (iv_db w) (iv_pending w) y"
proof (induction xs arbitrary: v ys)
  case (Cons x xs)
  then obtain u where u: "ingest_observation env corr est existed x v = Inr u"
    and r: "fold_r (ingest_observation env corr est existed) xs u = Inr w" by (auto simp: bind_simps)
  have ok: "db_ok (ie_hash env) (iv_db u) \<and> checkpoints_ok (iv_db u)"
    using ingest_observation_ok [OF u] Cons.prems by simp
  have "settled_obs (iv_db u) (iv_pending u) x" using ingest_observation_settles [OF u] Cons.prems by simp
  moreover have "settled_obs (iv_db u) (iv_pending u) y" if "y \<in> ys" for y
    using ingest_observation_other [OF u] Cons.prems that by auto
  ultimately have "\<forall>y \<in> insert x ys \<union> set xs. settled_obs (iv_db w) (iv_pending w) y"
    using ok Cons.prems by (intro Cons.IH [OF r]) auto
  then show ?case by auto
qed simp

text \<open>Two databases that differ in the time stamps of their checkpoints at most.\<close>

definition same_content :: "db \<Rightarrow> db \<Rightarrow> bool" where
  "same_content d d' \<longleftrightarrow> db_events d' = db_events d \<and> db_outbox d' = db_outbox d \<and> db_matches d' = db_matches d
     \<and> db_timeline d' = db_timeline d \<and> db_processed d' = db_processed d \<and> db_retired d' = db_retired d
     \<and> (\<forall>k. map_option cp_value (checkpoint_row k d') = map_option cp_value (checkpoint_row k d))"

lemma same_content_refl [simp]: "same_content d d"
  by (simp add: same_content_def)

lemma same_content_trans: "same_content d e \<Longrightarrow> same_content e f \<Longrightarrow> same_content d f"
  by (simp add: same_content_def)

lemma same_content_write:
  assumes "map_option cp_value (checkpoint_row key d) = Some (Some value)"
  shows "same_content d (write_checkpoint now key value t d)"
  using assms by (auto simp: same_content_def football_row_def)

lemma settled_obs_content:
  assumes "settled_obs d S x" and "same_content d d'"
  shows "settled_obs d' S x"
proof -
  obtain st row where r: "checkpoint_row (fixture_key (obs_id x)) d = Some row" "cp_value row = Some (JDict (state_dict st))"
    "\<forall>corr es ids ing. diff_fixture (Some (state_dict st)) x corr es ids ing = Inr ([], st)"
    "obs_id x \<in> S \<longleftrightarrow> st_final_verification_pending st"
    using assms(1) unfolding settled_obs_def by blast
  have "map_option cp_value (checkpoint_row (fixture_key (obs_id x)) d') = Some (Some (JDict (state_dict st)))"
    using assms(2) r(1,2) by (simp add: same_content_def)
  then show ?thesis using r(3,4) unfolding settled_obs_def by auto
qed

lemma ingest_observation_again:
  assumes "settled_obs (iv_db v) (iv_pending v) x" and "existed (fixture_key (obs_id x))"
  shows "\<exists>w. ingest_observation env corr est existed x v = Inr w \<and> same_content (iv_db v) (iv_db w)
    \<and> iv_pending w = iv_pending v \<and> iv_count w = iv_count v"
proof -
  obtain st row where r: "checkpoint_row (fixture_key (obs_id x)) (iv_db v) = Some row"
    "cp_value row = Some (JDict (state_dict st))"
    "\<forall>corr es ids ing. diff_fixture (Some (state_dict st)) x corr es ids ing = Inr ([], st)"
    "obs_id x \<in> iv_pending v \<longleftrightarrow> st_final_verification_pending st"
    using assms(1) unfolding settled_obs_def by blast
  let ?d = "write_checkpoint (ie_now env) (fixture_key (obs_id x)) (JDict (state_dict st)) (obs_observed_at x) (iv_db v)"
  have "same_content (iv_db v) ?d" using r(1,2) by (intro same_content_write) simp
  moreover have "ingest_observation env corr est existed x v = Inr (v\<lparr>iv_db := ?d\<rparr>)"
    using r assms(2) by (auto simp: ingest_observation_def Let_def insert_absorb)
  ultimately show ?thesis by (intro exI [of _ "v\<lparr>iv_db := ?d\<rparr>"]) simp
qed

lemma ingest_run_again:
  "\<forall>x \<in> set xs. settled_obs (iv_db v) (iv_pending v) x \<and> existed (fixture_key (obs_id x)) \<Longrightarrow>
   \<exists>w. fold_r (ingest_observation env corr est existed) xs v = Inr w \<and> same_content (iv_db v) (iv_db w)
    \<and> iv_pending w = iv_pending v \<and> iv_count w = iv_count v"
proof (induction xs arbitrary: v)
  case (Cons x xs)
  obtain u where u: "ingest_observation env corr est existed x v = Inr u" "same_content (iv_db v) (iv_db u)"
    "iv_pending u = iv_pending v" "iv_count u = iv_count v"
    using ingest_observation_again Cons.prems by (metis list.set_intros(1))
  have "\<forall>y \<in> set xs. settled_obs (iv_db u) (iv_pending u) y \<and> existed (fixture_key (obs_id y))"
    using Cons.prems settled_obs_content [OF _ u(2)] by (simp add: u(3))
  from Cons.IH [OF this] u show ?case by (auto intro: same_content_trans)
qed simp

text \<open>The index of pending fixtures survives being written and read.\<close>

lemma set_strip: "set (strip s) \<subseteq> set s"
  unfolding strip_def using set_dropWhileD by (fastforce dest: set_dropWhileD)

lemma index_item_nonneg: "n \<in> set (index_item v) \<Longrightarrow> 0 \<le> n"
proof (cases v)
  case (JStr s)
  assume n: "n \<in> set (index_item v)"
  then have d: "isdigit s" by (cases "isdigit s") (simp_all add: JStr)
  then have dig: "list_all is_digit s" by (simp add: isdigit_def)
  have p: "parse_int s = Some n"
    using n d by (cases "parse_int s") (simp_all add: JStr)
  have "c \<noteq> CHR ''-''" if "strip s = c # cs" for c cs
  proof -
    have "c \<in> set s" using set_strip [of s] that by auto
    then have "is_digit c" using dig by (simp add: list_all_iff)
    then show ?thesis by (auto simp: is_digit_def)
  qed
  then show ?thesis using p by (auto simp: parse_int_def Let_def split: list.splits if_split_asm)
next
  case (JInt m)
  assume "n \<in> set (index_item v)"
  then have "n = m" "isdigit (int_str m)" by (cases "isdigit (int_str m)"; simp add: JInt)+
  moreover have "\<not> is_digit (CHR ''-'')" by (simp add: is_digit_def)
  ultimately show ?thesis by (auto simp: int_str_def isdigit_def split: if_split_asm)
next
  case (JBool b)
  assume n: "n \<in> set (index_item v)"
  have "\<not> isdigit (py_str v)" by (cases b) (simp_all add: JBool isdigit_def is_digit_def)
  with n show ?thesis by simp
next
  case JNull
  assume n: "n \<in> set (index_item v)"
  have "py_int v = Inl (TypeError ''int() argument'')" by (simp add: JNull)
  with n show ?thesis by (cases "isdigit (py_str v)") simp_all
next
  case (JList xs)
  assume n: "n \<in> set (index_item v)"
  have "py_int v = Inl (TypeError ''int() argument'')" by (simp add: JList)
  with n show ?thesis by (cases "isdigit (py_str v)") simp_all
next
  case (JDict d)
  assume n: "n \<in> set (index_item v)"
  have "py_int v = Inl (TypeError ''int() argument'')" by (simp add: JDict)
  with n show ?thesis by (cases "isdigit (py_str v)") simp_all
qed

lemma index_item_int: "0 \<le> n \<Longrightarrow> index_item (JInt n) = [n]"
  using nat_str_digits [of "nat n"] by (simp add: int_str_def isdigit_def)

lemma decode_pending_finite: "finite (set (decode_pending_index v)) \<and> (\<forall>i \<in> set (decode_pending_index v). 0 \<le> i)"
proof
  show "\<forall>i \<in> set (decode_pending_index v). 0 \<le> i"
    by (auto simp: decode_pending_index_def split: option.splits dest: index_item_nonneg simp del: index_item.simps)
qed simp

lemma decode_pending_value:
  assumes "finite S" and "\<forall>i \<in> S. 0 \<le> i"
  shows "set (decode_pending_index (Some (pending_value S))) = S"
proof -
  have "concat (map index_item (map JInt xs)) = xs" if "\<forall>i \<in> set xs. 0 \<le> i" for xs
    using that by (induction xs) (simp_all add: index_item_int del: index_item.simps)
  then show ?thesis
    using assms by (simp add: decode_pending_index_def pending_value_def dict_get_or_def del: map_map)
qed

lemma ingest_observation_pending:
  assumes "ingest_observation env corr est existed x v = Inr w"
  shows "iv_pending w \<subseteq> insert (obs_id x) (iv_pending v)"
  using assms by (auto simp: ingest_observation_def Let_def bind_simps split: if_split_asm)

lemma ingest_run_pending:
  "fold_r (ingest_observation env corr est existed) xs v = Inr w \<Longrightarrow> iv_pending w \<subseteq> iv_pending v \<union> obs_id ` set xs"
proof (induction xs arbitrary: v)
  case (Cons x xs)
  then obtain u where u: "ingest_observation env corr est existed x v = Inr u"
    and r: "fold_r (ingest_observation env corr est existed) xs u = Inr w" by (auto simp: bind_simps)
  show ?case using Cons.IH [OF r] ingest_observation_pending [OF u] by auto
qed simp

lemma ingest_run_other:
  assumes "fold_r (ingest_observation env corr est existed) xs v = Inr w" and "\<And>i. key \<noteq> fixture_key i"
  shows "checkpoint_row key (iv_db w) = checkpoint_row key (iv_db v)"
  using assms(1)
proof (induction xs arbitrary: v)
  case (Cons x xs)
  then obtain u where u: "ingest_observation env corr est existed x v = Inr u"
    and r: "fold_r (ingest_observation env corr est existed) xs u = Inr w" by (auto simp: bind_simps)
  have "checkpoint_row key (iv_db u) = checkpoint_row key (iv_db v)"
  proof -
    obtain events st n d where "diff_fixture (previous_of existed (obs_id x) (iv_db v)) x corr
       (\<not> (est \<and> \<not> existed (fixture_key (obs_id x)))) (\<lambda>k. ie_uuid env (iv_made v + k)) (ie_now env) = Inr (events, st)"
      and ing: "ingest_events (persist_event_and_outbox (ie_hash env) (ie_topic env) (ie_now env)) events (iv_db v) = Inr (n, d)"
      and u: "u = \<lparr>iv_db = write_checkpoint (ie_now env) (fixture_key (obs_id x)) (JDict (state_dict st)) (obs_observed_at x) d,
          iv_pending = (if st_final_verification_pending st then insert (obs_id x) (iv_pending v) else iv_pending v - {obs_id x}),
          iv_count = iv_count v + n, iv_made = iv_made v + length events\<rparr>"
      by (rule ingest_observation_Inr [OF u])
    show ?thesis using assms(2) checkpoint_row_cong [OF ingest_events_checkpoints [OF ing]] by (simp add: u)
  qed
  then show ?case using Cons.IH [OF r] by simp
qed simp

text \<open>The state a batch leaves, for batches that are not empty.\<close>

definition pending_of :: "db \<Rightarrow> int set" where
  "pending_of d = (case checkpoint_row ''pending-final'' d of None \<Rightarrow> {}
     | Some row \<Rightarrow> set (decode_pending_index (cp_value row)))"

lemma football_ingest_Inr:
  assumes "xs \<noteq> []"
  shows "football_ingest env ctx xs d = Inr (n, d') \<longleftrightarrow>
    (\<exists>v. fold_r (ingest_observation env (pc_correlation_id ctx) (establishing_baseline xs d)
           (\<lambda>key. checkpoint_row key d \<noteq> None)) xs
           \<lparr>iv_db = d, iv_pending = pending_of d, iv_count = 0, iv_made = 0\<rparr> = Inr v
       \<and> n = iv_count v
       \<and> d' = (let d1 = write_checkpoint (ie_now env) ''pending-final'' (pending_value (iv_pending v)) (pc_scheduled_at ctx) (iv_db v)
            in if checkpoint_row BASELINE_CHECKPOINT_KEY d = None
               then write_checkpoint (ie_now env) BASELINE_CHECKPOINT_KEY
                      (baseline_value ctx (length xs) (establishing_baseline xs d)) (pc_scheduled_at ctx) d1 else d1))"
  using assms by (auto simp: football_ingest_def pending_of_def Let_def bind_simps)

lemma settled_obs_write:
  assumes "settled_obs d S x" and "key \<noteq> fixture_key (obs_id x)"
  shows "settled_obs (write_checkpoint now key value t d) S x"
  using assms by (auto simp: settled_obs_def)

lemma ingest_then_settled:
  assumes "football_ingest env ctx xs d = Inr (n, d')" and ne: "xs \<noteq> []"
    and "db_ok (ie_hash env) d" and "checkpoints_ok d"
    and valid: "\<forall>x \<in> set xs. fixture_ok (obs_content x)" and dist: "distinct (map obs_id xs)"
  shows "\<forall>x \<in> set xs. settled_obs d' (pending_of d') x"
    and "checkpoint_row BASELINE_CHECKPOINT_KEY d' \<noteq> None"
    and "\<exists>row. checkpoint_row ''pending-final'' d' = Some row \<and> cp_value row = Some (pending_value (pending_of d'))"
proof -
  let ?v0 = "\<lparr>iv_db = d, iv_pending = pending_of d, iv_count = 0, iv_made = 0\<rparr>"
  obtain v where run: "fold_r (ingest_observation env (pc_correlation_id ctx) (establishing_baseline xs d)
           (\<lambda>key. checkpoint_row key d \<noteq> None)) xs ?v0 = Inr v"
    and d': "d' = (let d1 = write_checkpoint (ie_now env) ''pending-final'' (pending_value (iv_pending v)) (pc_scheduled_at ctx) (iv_db v)
            in if checkpoint_row BASELINE_CHECKPOINT_KEY d = None
               then write_checkpoint (ie_now env) BASELINE_CHECKPOINT_KEY
                      (baseline_value ctx (length xs) (establishing_baseline xs d)) (pc_scheduled_at ctx) d1 else d1)"
    using assms(1) unfolding football_ingest_Inr [OF ne] by blast
  have pos: "\<forall>x \<in> set xs. fixture_ok (obs_content x) \<and> 0 \<le> obs_id x"
    using valid by (auto simp: fixture_ok_def fixture_observation_ok_def)
  have set: "\<forall>x \<in> {} \<union> set xs. settled_obs (iv_db v) (iv_pending v) x"
    using ingest_run_settles [OF run _ _ pos dist, of "{}"] assms(3,4) by simp
  have "iv_pending v \<subseteq> pending_of d \<union> obs_id ` set xs" using ingest_run_pending [OF run] by simp
  moreover have "finite (pending_of d)" "\<forall>i \<in> pending_of d. 0 \<le> i"
    using decode_pending_finite by (auto simp: pending_of_def split: option.splits)
  ultimately have fin: "finite (iv_pending v)" "\<forall>i \<in> iv_pending v. 0 \<le> i"
    using pos by (auto intro: finite_subset)
  have row: "\<exists>row. checkpoint_row ''pending-final'' d' = Some row \<and> cp_value row = Some (pending_value (iv_pending v))"
    by (simp add: d' Let_def football_row_def)
  then obtain r where "checkpoint_row ''pending-final'' d' = Some r" "cp_value r = Some (pending_value (iv_pending v))"
    by blast
  then have pend: "pending_of d' = iv_pending v"
    by (simp add: pending_of_def decode_pending_value [OF fin])
  show "\<forall>x \<in> set xs. settled_obs d' (pending_of d') x"
  proof
    fix x assume "x \<in> set xs"
    then have "settled_obs (iv_db v) (iv_pending v) x" using set by simp
    then have pf: "settled_obs (write_checkpoint (ie_now env) ''pending-final'' val t (iv_db v)) (iv_pending v) x" for val :: json and t
      by (rule settled_obs_write) simp
    have "settled_obs d' (iv_pending v) x"
      unfolding d' Let_def by (simp only: split: if_split) (intro conjI impI TrueI settled_obs_write pf fixture_key_other)
    then show "settled_obs d' (pending_of d') x" by (simp only: pend)
  qed
  show "\<exists>row. checkpoint_row ''pending-final'' d' = Some row \<and> cp_value row = Some (pending_value (pending_of d'))"
    using row pend by simp
  have other: "checkpoint_row BASELINE_CHECKPOINT_KEY (iv_db v) = checkpoint_row BASELINE_CHECKPOINT_KEY d"
    using ingest_run_other [OF run, of BASELINE_CHECKPOINT_KEY] by simp
  show "checkpoint_row BASELINE_CHECKPOINT_KEY d' \<noteq> None"
    by (simp add: d' Let_def football_row_def other)
qed

section \<open>Properties\<close>

text \<open>
  Ingesting observations keeps the store consistent: when the transaction commits, the database
  is well-formed, every fixture checkpoint in it can be read and compared with again, and for each
  fixture of the batch a checkpoint is there.
\<close>

theorem football_ingest_invariant:
  assumes "football_ingest env ctx xs d = Inr (n, d')" and "db_ok (ie_hash env) d" and "checkpoints_ok d"
    and "\<forall>x \<in> set xs. fixture_ok (obs_content x)" and "distinct (map obs_id xs)"
  shows "db_ok (ie_hash env) d' \<and> checkpoints_ok d'
    \<and> (\<forall>x \<in> set xs. checkpoint_row (fixture_key (obs_id x)) d' \<noteq> None)
    \<and> checkpoint_row BASELINE_CHECKPOINT_KEY d' \<noteq> None"
proof (cases "xs = []")
  case True
  with assms show ?thesis
    using football_ingest_ok [OF assms(1-4)]
    by (auto simp: football_ingest_def establish_empty_baseline_def split: if_split_asm)
next
  case False
  note ne = False
  have "checkpoint_row (fixture_key (obs_id x)) d' \<noteq> None" if "x \<in> set xs" for x
    using ingest_then_settled(1) [OF assms(1) ne assms(2-5)] that by (auto simp: settled_obs_def)
  then show ?thesis
    using football_ingest_ok [OF assms(1-4)] ingest_then_settled(2) [OF assms(1) ne assms(2-5)] by blast
qed


definition sample_ingest_env :: ingest_env where
  "sample_ingest_env = \<lparr>ie_hash = id, ie_topic = ''t'', ie_now = 0, ie_uuid = id\<rparr>"

definition sample_context :: poll_context where
  "sample_context = \<lparr>pc_correlation_id = 1, pc_scheduled_at = 0, pc_checkpoint = None\<rparr>"

lemma sample_ingest:
  obtains n d where "football_ingest sample_ingest_env sample_context [live_observation] empty_db = Inr (n, d)"
proof -
  have "\<not> isl (football_ingest sample_ingest_env sample_context [live_observation] empty_db)" by code_simp
  then show thesis
    using that by (cases "football_ingest sample_ingest_env sample_context [live_observation] empty_db") auto
qed

lemma sample_ingest_hyps:
  "db_ok (ie_hash sample_ingest_env) empty_db" "checkpoints_ok empty_db"
  "\<forall>x \<in> set [live_observation]. fixture_ok (obs_content x)" "distinct (map obs_id [live_observation])"
  using live_observation_ok empty_db_ok
  by (simp_all add: checkpoints_ok_def checkpoint_row_def find_checkpoint_def empty_db_def)

theorem football_ingest_invariant_witness:
  "\<exists>n d. football_ingest sample_ingest_env sample_context [live_observation] empty_db = Inr (n, d)
     \<and> db_ok id d \<and> checkpoint_row ''fixture:7'' d \<noteq> None"
proof -
  obtain n d where r: "football_ingest sample_ingest_env sample_context [live_observation] empty_db = Inr (n, d)"
    by (rule sample_ingest)
  have "fixture_key (obs_id live_observation) = ''fixture:7''" by code_simp
  with football_ingest_invariant [OF r sample_ingest_hyps] r show ?thesis
    by (auto simp: sample_ingest_env_def)
qed


end
