(* ===== verification/Urls.thy ===== *)
theory Urls
  imports Values
begin

text \<open>
  The part of \<open>urllib.parse\<close> (Python 3.13) that the runtime boundary and the settings rely on:
  \<open>urlsplit\<close> and the \<open>hostname\<close>, \<open>port\<close>, \<open>username\<close> and \<open>password\<close> of its result.  Strings hold
  8-bit characters, as a header decoded as Latin-1 does; on these the Unicode normalisation check of
  \<open>urlsplit\<close> never fires.
\<close>

section \<open>Partitions of a string\<close>

definition partition_at :: "char \<Rightarrow> string \<Rightarrow> string \<times> bool \<times> string" where
  "partition_at c s = (takeWhile (\<lambda>x. x \<noteq> c) s, c \<in> set s, tl (dropWhile (\<lambda>x. x \<noteq> c) s))"

definition rpartition_at :: "char \<Rightarrow> string \<Rightarrow> string \<times> bool \<times> string" where
  "rpartition_at c s =
     (if c \<in> set s
      then (rev (tl (dropWhile (\<lambda>x. x \<noteq> c) (rev s))), True, rev (takeWhile (\<lambda>x. x \<noteq> c) (rev s)))
      else ([], False, s))"

definition before :: "char \<Rightarrow> string \<Rightarrow> string" where "before c s = fst (partition_at c s)"
definition after :: "char \<Rightarrow> string \<Rightarrow> string" where "after c s = snd (snd (partition_at c s))"

text \<open>\<open>s.split(c)\<close>.\<close>

fun split_on :: "char \<Rightarrow> string \<Rightarrow> string list" where
  "split_on c [] = [[]]"
| "split_on c (x # s) =
     (if x = c then [] # split_on c s
      else (case split_on c s of [] \<Rightarrow> [[x]] | p # ps \<Rightarrow> (x # p) # ps))"

lemma partition_append: "c \<notin> set a \<Longrightarrow> before c (a @ c # b) = a" "c \<notin> set a \<Longrightarrow> after c (a @ c # b) = b"
  by (induction a) (auto simp: before_def after_def partition_at_def)

lemma partition_none [simp]: "c \<notin> set s \<Longrightarrow> before c s = s" "c \<notin> set s \<Longrightarrow> after c s = []"
  by (induction s) (auto simp: before_def after_def partition_at_def)

lemma partition_join: "c \<in> set s \<Longrightarrow> before c s @ c # after c s = s"
  by (induction s) (auto simp: before_def after_def partition_at_def)

lemma before_no [simp]: "c \<notin> set (before c s)"
  by (auto simp: before_def partition_at_def dest: set_takeWhileD)

section \<open>IP addresses in brackets\<close>

definition is_hex :: "char \<Rightarrow> bool" where
  "is_hex c = (let n = (of_char c :: int) in is_digit c \<or> (65 \<le> n \<and> n \<le> 70) \<or> (97 \<le> n \<and> n \<le> 102))"

definition ipv4_octet :: "string \<Rightarrow> bool" where
  "ipv4_octet s \<longleftrightarrow> isdigit s \<and> length s \<le> 3 \<and> (length s > 1 \<longrightarrow> hd s \<noteq> CHR ''0'') \<and> digits_int s \<le> 255"

definition ipv4_ok :: "string \<Rightarrow> bool" where
  "ipv4_ok s \<longleftrightarrow> length (split_on (CHR ''.'') s) = 4 \<and> list_all ipv4_octet (split_on (CHR ''.'') s)"

definition hextet :: "string \<Rightarrow> bool" where
  "hextet s \<longleftrightarrow> s \<noteq> [] \<and> length s \<le> 4 \<and> list_all is_hex s"

text \<open>
  The groups of an IPv6 address: an IPv4 tail counts as two groups; at most one inner group is
  empty, and a leading or trailing empty group only beside it.
\<close>

definition ipv6_groups :: "string list \<Rightarrow> bool" where
  "ipv6_groups ps =
     (let n = length ps; empties = filter (\<lambda>i. ps ! i = []) [1..<n - 1]
      in 3 \<le> n \<and> n \<le> 9 \<and>
        (case empties of
           [] \<Rightarrow> n = 8 \<and> list_all hextet ps
         | [i] \<Rightarrow>
            (let hi = take i ps; lo = drop (Suc i) ps;
                 hi' = (if hd ps = [] then tl hi else hi);
                 lo' = (if last ps = [] then butlast lo else lo)
             in (hd ps = [] \<longrightarrow> hi' = []) \<and> (last ps = [] \<longrightarrow> lo' = [])
                \<and> length hi' + length lo' \<le> 7 \<and> list_all hextet hi' \<and> list_all hextet lo')
         | _ \<Rightarrow> False))"

definition ipv6_body :: "string \<Rightarrow> bool" where
  "ipv6_body s =
     (let ps = split_on (CHR '':'') s
      in 3 \<le> length ps \<and>
        (if CHR ''.'' \<in> set (last ps)
         then ipv4_ok (last ps) \<and> ipv6_groups (butlast ps @ [''0'', ''0''])
         else ipv6_groups ps))"

definition ipv6_ok :: "string \<Rightarrow> bool" where
  "ipv6_ok s \<longleftrightarrow> CHR ''/'' \<notin> set s
     \<and> (CHR ''%'' \<in> set s \<longrightarrow> after (CHR ''%'') s \<noteq> [] \<and> CHR ''%'' \<notin> set (after (CHR ''%'') s))
     \<and> ipv6_body (before (CHR ''%'') s)"

text \<open>A future address: \<open>v\<close>, hexadecimal digits, a dot and something more.\<close>

definition ipvfuture_ok :: "string \<Rightarrow> bool" where
  "ipvfuture_ok s = (CHR ''.'' \<in> set s \<and> before (CHR ''.'') (tl s) \<noteq> []
     \<and> list_all is_hex (before (CHR ''.'') (tl s)) \<and> after (CHR ''.'') (tl s) \<noteq> [])"

definition bracketed_host_ok :: "string \<Rightarrow> bool" where
  "bracketed_host_ok s = (if startswith s ''v'' then ipvfuture_ok s else ipv6_ok s)"

definition bracketed_netloc_ok :: "string \<Rightarrow> bool" where
  "bracketed_netloc_ok netloc =
     (let hp = snd (snd (rpartition_at (CHR ''@'') netloc))
      in if CHR ''['' \<in> set hp
         then before (CHR ''['') hp = [] \<and>
           (let b = after (CHR ''['') hp; port = after (CHR '']'') b
            in (port \<noteq> [] \<longrightarrow> startswith port '':'') \<and> bracketed_host_ok (before (CHR '']'') b))
         else bracketed_host_ok (before (CHR '':'') hp))"

section \<open>Splitting a URL\<close>

record url =
  u_scheme :: string
  u_netloc :: string
  u_path :: string
  u_query :: string
  u_fragment :: string

definition c0_or_space :: "char \<Rightarrow> bool" where
  "c0_or_space c = ((of_char c :: int) \<le> 32)"

definition unsafe_url_char :: "char \<Rightarrow> bool" where
  "unsafe_url_char c = (let n = (of_char c :: int) in n = 9 \<or> n = 10 \<or> n = 13)"

definition clean_url :: "string \<Rightarrow> string" where
  "clean_url s = filter (\<lambda>c. \<not> unsafe_url_char c) (dropWhile c0_or_space s)"

definition is_alpha :: "char \<Rightarrow> bool" where
  "is_alpha c = (let n = (of_char c :: int) in (65 \<le> n \<and> n \<le> 90) \<or> (97 \<le> n \<and> n \<le> 122))"

definition scheme_char :: "char \<Rightarrow> bool" where
  "scheme_char c = (is_alpha c \<or> is_digit c \<or> c \<in> {CHR ''+'', CHR ''-'', CHR ''.''})"

definition split_scheme :: "string \<Rightarrow> string \<times> string" where
  "split_scheme s =
     (let p = before (CHR '':'') s
      in if CHR '':'' \<in> set s \<and> p \<noteq> [] \<and> is_alpha (hd p) \<and> list_all scheme_char p
         then (casefold p, after (CHR '':'') s) else ([], s))"

definition netloc_char :: "char \<Rightarrow> bool" where
  "netloc_char c = (c \<notin> {CHR ''/'', CHR ''?'', CHR ''#''})"

definition split_netloc :: "string \<Rightarrow> string \<times> string" where
  "split_netloc s =
     (if take 2 s = ''//'' then (takeWhile netloc_char (drop 2 s), dropWhile netloc_char (drop 2 s)) else ([], s))"

definition brackets_ok :: "string \<Rightarrow> bool" where
  "brackets_ok netloc \<longleftrightarrow> (CHR ''['' \<in> set netloc \<longleftrightarrow> CHR '']'' \<in> set netloc)
     \<and> (CHR ''['' \<in> set netloc \<longrightarrow> bracketed_netloc_ok netloc)"

definition urlsplit :: "string \<Rightarrow> url result" where
  "urlsplit s =
     (let (scheme, r1) = split_scheme (clean_url s); (netloc, r2) = split_netloc r1;
          r3 = before (CHR ''#'') r2; fragment = after (CHR ''#'') r2
      in if brackets_ok netloc
         then Inr \<lparr>u_scheme = scheme, u_netloc = netloc, u_path = before (CHR ''?'') r3,
                   u_query = after (CHR ''?'') r3, u_fragment = fragment\<rparr>
         else Inl (ValueError ''Invalid IPv6 URL''))"

section \<open>The parts of the network location\<close>

definition hostinfo :: "string \<Rightarrow> string \<times> string" where
  "hostinfo netloc =
     (let h = snd (snd (rpartition_at (CHR ''@'') netloc))
      in if CHR ''['' \<in> set h
         then (let b = after (CHR ''['') h in (before (CHR '']'') b, after (CHR '':'') (after (CHR '']'') b)))
         else (before (CHR '':'') h, after (CHR '':'') h))"

definition hostname :: "url \<Rightarrow> string option" where
  "hostname u =
     (let h = fst (hostinfo (u_netloc u))
      in if h = [] then None
         else Some (casefold (before (CHR ''%'') h)
                @ (if CHR ''%'' \<in> set h then CHR ''%'' # after (CHR ''%'') h else [])))"

definition url_port :: "url \<Rightarrow> int option result" where
  "url_port u =
     (let p = snd (hostinfo (u_netloc u))
      in if p = [] then Inr None
         else if \<not> isdigit p then Inl (ValueError ''Port could not be cast to integer value'')
         else if 65535 < digits_int p then Inl (ValueError ''Port out of range 0-65535'')
         else Inr (Some (digits_int p)))"

definition username :: "url \<Rightarrow> string option" where
  "username u = (case rpartition_at (CHR ''@'') (u_netloc u) of
     (userinfo, have, _) \<Rightarrow> if have then Some (before (CHR '':'') userinfo) else None)"

definition password :: "url \<Rightarrow> string option" where
  "password u = (case rpartition_at (CHR ''@'') (u_netloc u) of
     (userinfo, have, _) \<Rightarrow> if have \<and> CHR '':'' \<in> set userinfo then Some (after (CHR '':'') userinfo) else None)"

end
