(* ===== verification/Config.thy ===== *)
theory Config
  imports Complex_Main Urls
begin

text \<open>
  \<open>backend/app/core/config.py\<close>: the settings, their validation, and what the runtime mode makes of
  them.  Reading the environment and the \<open>.env\<close> file is pydantic-settings'; the values it hands to the
  validators are the input here.  A coordinate is the rational number its float denotes.
\<close>

datatype runtime_mode = PERSONAL_LOCAL | PUBLIC_DEMO

text \<open>The provider configuration: everything that demo mode discards.\<close>

record provider_settings =
  api_football_key :: "string option"
  spotify_client_id :: "string option"
  spotify_client_secret :: "string option"
  spotify_redirect_uri :: "string option"
  github_owner :: "string option"
  github_token :: "string option"
  github_webhook_secret :: "string option"
  google_client_id :: "string option"
  google_client_secret :: "string option"
  google_redirect_uri :: "string option"
  weather_latitude :: "rat option"
  weather_longitude :: "rat option"
  weather_timezone :: "string option"
  credential_encryption_key :: "string option"

record settings =
  runtime_mode :: runtime_mode
  database_url :: string
  public_demo_database_url :: "string option"
  public_demo_allowed_hosts :: "string list"
  public_demo_allowed_origins :: "string list"
  kafka_bootstrap_servers :: string
  kafka_topic :: string
  kafka_consumer_group :: string
  service_name :: string
  frontend_base_url :: string
  demo_step_seconds :: rat
  run_background_services :: bool
  providers :: provider_settings
  github_webhook_allowed_hosts :: "string list"
  retention_days :: int

section \<open>Field validators\<close>

text \<open>
  The raw value of an allowlist: text, to be read as JSON, or a value already.  \<open>json.loads\<close> is
  represented by its outcome, \<open>None\<close> when the text is not JSON.
\<close>

datatype raw_list = Raw_text "json option" | Raw_value json

definition list_items :: "json \<Rightarrow> string list result" where
  "list_items v = (case v of
      JNull \<Rightarrow> Inr []
    | JList xs \<Rightarrow> Inr (map (\<lambda>x. strip (py_str x)) xs)
    | _ \<Rightarrow> Inl (ValidationError ''allowlists must be arrays''))"

fun parse_allowlist :: "raw_list \<Rightarrow> string list result" where
  "parse_allowlist (Raw_text None) = Inl (ValidationError ''allowlists must be JSON arrays'')"
| "parse_allowlist (Raw_text (Some v)) = list_items v"
| "parse_allowlist (Raw_value v) = list_items v"

text \<open>\<open>_HOST_LABEL\<close>: at most 63 lower-case letters, digits and hyphens, no hyphen at either end.\<close>

definition label_char :: "char \<Rightarrow> bool" where
  "label_char c = (is_digit c \<or> (let n = (of_char c :: int) in 97 \<le> n \<and> n \<le> 122))"

definition host_label :: "string \<Rightarrow> bool" where
  "host_label s \<longleftrightarrow> s \<noteq> [] \<and> length s \<le> 63 \<and> label_char (hd s) \<and> label_char (last s)
     \<and> list_all (\<lambda>c. label_char c \<or> c = CHR ''-'') s"

definition webhook_host :: "string \<Rightarrow> string result" where
  "webhook_host item =
     (let host = rstrip_char (CHR ''.'') (casefold item)
      in if host = [] \<or> 253 < length host \<or> \<not> list_all host_label (split_on (CHR ''.'') host)
         then Inl (ValidationError ''GitHub webhook allowed hosts must be exact hostnames'') else Inr host)"

fun map_r :: "('a \<Rightarrow> 'b result) \<Rightarrow> 'a list \<Rightarrow> 'b list result" where
  "map_r f [] = Inr []"
| "map_r f (x # xs) = bind_r (f x) (\<lambda>y. bind_r (map_r f xs) (\<lambda>ys. Inr (y # ys)))"

definition validate_github_webhook_hosts :: "string list \<Rightarrow> string list result" where
  "validate_github_webhook_hosts = map_r webhook_host"

text \<open>A coordinate: unset, blank text, or a number (other text does not parse as a float).\<close>

datatype raw_coordinate = Unset | Text string | Number rat

fun blank_weather_coordinates_are_unset :: "raw_coordinate \<Rightarrow> raw_coordinate" where
  "blank_weather_coordinates_are_unset (Text s) = (if strip s = [] then Unset else Text s)"
| "blank_weather_coordinates_are_unset v = v"

definition coordinate :: "(string \<Rightarrow> rat option) \<Rightarrow> rat \<Rightarrow> raw_coordinate \<Rightarrow> rat option result" where
  "coordinate float bound v =
     (let check = (\<lambda>x. if - bound \<le> x \<and> x \<le> bound then Inr (Some x) else Inl (ValidationError ''coordinate''))
      in case blank_weather_coordinates_are_unset v of
           Unset \<Rightarrow> Inr None
         | Number x \<Rightarrow> check x
         | Text s \<Rightarrow> (case float s of None \<Rightarrow> Inl (ValidationError ''float'') | Some x \<Rightarrow> check x))"

section \<open>The boundary between the modes\<close>

definition no_providers :: provider_settings where
  "no_providers = \<lparr>api_football_key = None, spotify_client_id = None, spotify_client_secret = None,
     spotify_redirect_uri = None, github_owner = None, github_token = None, github_webhook_secret = None,
     google_client_id = None, google_client_secret = None, google_redirect_uri = None,
     weather_latitude = None, weather_longitude = None, weather_timezone = None,
     credential_encryption_key = None\<rparr>"

definition slash_free :: "string \<Rightarrow> string" where
  "slash_free s = rev (dropWhile (\<lambda>c. c = CHR ''/'') (rev (dropWhile (\<lambda>c. c = CHR ''/'') s)))"

definition or_none :: "string option \<Rightarrow> string" where
  "or_none s = (case s of None \<Rightarrow> [] | Some x \<Rightarrow> x)"

definition exact_origin :: "url \<Rightarrow> bool" where
  "exact_origin u \<longleftrightarrow> u_scheme u \<in> {''http'', ''https''} \<and> truthy (hostname u)
     \<and> username u = None \<and> password u = None \<and> u_path u \<in> {'''', ''/''} \<and> u_query u = [] \<and> u_fragment u = []"

text \<open>The settings check parses an origin outside its \<open>try\<close>; a \<open>ValueError\<close> is a validation error either way.\<close>

definition demo_origin_ok :: "string \<Rightarrow> unit result" where
  "demo_origin_ok origin =
     bind_r (urlsplit origin) (\<lambda>u. bind_r (url_port u) (\<lambda>_.
       ensure (exact_origin u) (ValueError ''PUBLIC_DEMO origins must be exact HTTP(S) origins'')))"

definition demo_host_ok :: "string \<Rightarrow> unit result" where
  "demo_host_ok host =
     ensure (case urlsplit (''//'' @ host) of
         Inl _ \<Rightarrow> False
       | Inr u \<Rightarrow> truthy (hostname u) \<and> u_path u = [] \<and> u_query u = [] \<and> u_fragment u = []
                 \<and> username u = None \<and> \<not> isl (url_port u))
       (ValueError ''PUBLIC_DEMO hosts must be exact host names'')"

definition database_name :: "url \<Rightarrow> string" where
  "database_name u = slash_free (u_path u)"

definition demo_database_ok :: "string \<Rightarrow> string \<Rightarrow> unit result" where
  "demo_database_ok personal_url demo_url =
     bind_r (urlsplit personal_url) (\<lambda>personal. bind_r (urlsplit demo_url) (\<lambda>demo.
     bind_r (ensure (u_scheme demo \<in> {''postgresql'', ''postgresql+asyncpg''} \<and> truthy (hostname demo)
         \<and> database_name demo \<noteq> [] \<and> truthy (username demo))
       (ValueError ''PUBLIC_DEMO database URL must identify a database and role'')) (\<lambda>_.
     bind_r (ensure (casefold (or_none (username personal)) \<noteq> casefold (or_none (username demo)))
       (ValueError ''PUBLIC_DEMO database must use a dedicated database role'')) (\<lambda>_.
     ensure (casefold (database_name personal) \<noteq> casefold (database_name demo))
       (ValueError ''PUBLIC_DEMO database name must differ from the personal database'')))))"

definition for_each :: "('a \<Rightarrow> unit result) \<Rightarrow> 'a list \<Rightarrow> unit result" where
  "for_each f xs = fold_r (\<lambda>x _. f x) xs ()"

definition enforce_runtime_mode_boundaries :: "settings \<Rightarrow> settings result" where
  "enforce_runtime_mode_boundaries s = (case runtime_mode s of
      PERSONAL_LOCAL \<Rightarrow> Inr s
    | PUBLIC_DEMO \<Rightarrow>
        bind_r (ensure (truthy (public_demo_database_url s))
          (ValueError ''PUBLIC_DEMO requires PUBLIC_DEMO_DATABASE_URL'')) (\<lambda>_.
        bind_r (ensure (public_demo_allowed_hosts s \<noteq> [] \<and> public_demo_allowed_origins s \<noteq> [])
          (ValueError ''PUBLIC_DEMO requires explicit host and origin allowlists'')) (\<lambda>_.
        bind_r (ensure (\<not> list_ex (\<lambda>item. CHR ''*'' \<in> set item)
              (public_demo_allowed_hosts s @ public_demo_allowed_origins s))
          (ValueError ''PUBLIC_DEMO allowlists cannot contain wildcards'')) (\<lambda>_.
        bind_r (for_each demo_origin_ok (public_demo_allowed_origins s)) (\<lambda>_.
        bind_r (for_each demo_host_ok (public_demo_allowed_hosts s)) (\<lambda>_.
        bind_r (demo_database_ok (database_url s) (or_none (public_demo_database_url s))) (\<lambda>_.
        Inr (s\<lparr>providers := no_providers, github_webhook_allowed_hosts := []\<rparr>))))))))"

section \<open>Construction\<close>

record settings_input =
  si_settings :: settings \<comment> \<open>the fields without validators of their own, as read\<close>
  si_demo_hosts :: raw_list
  si_demo_origins :: raw_list
  si_webhook_hosts :: raw_list
  si_latitude :: raw_coordinate
  si_longitude :: raw_coordinate

definition settings_new :: "(string \<Rightarrow> rat option) \<Rightarrow> settings_input \<Rightarrow> settings result" where
  "settings_new float i =
     bind_r (parse_allowlist (si_demo_hosts i)) (\<lambda>hosts.
     bind_r (parse_allowlist (si_demo_origins i)) (\<lambda>origins.
     bind_r (bind_r (parse_allowlist (si_webhook_hosts i)) validate_github_webhook_hosts) (\<lambda>webhook.
     bind_r (coordinate float 90 (si_latitude i)) (\<lambda>lat.
     bind_r (coordinate float 180 (si_longitude i)) (\<lambda>lon.
     bind_r (ensure (30 \<le> retention_days (si_settings i) \<and> retention_days (si_settings i) \<le> 3650)
       (ValidationError ''retention_days'')) (\<lambda>_.
     enforce_runtime_mode_boundaries
       ((si_settings i)\<lparr>public_demo_allowed_hosts := hosts, public_demo_allowed_origins := origins,
          github_webhook_allowed_hosts := webhook,
          providers := (providers (si_settings i))\<lparr>weather_latitude := lat, weather_longitude := lon\<rparr>\<rparr>)))))))"

section \<open>What the settings answer\<close>

definition runtime_database_url :: "settings \<Rightarrow> string" where
  "runtime_database_url s = (if runtime_mode s = PUBLIC_DEMO then or_none (public_demo_database_url s) else database_url s)"

definition allowed_origins :: "settings \<Rightarrow> string list" where
  "allowed_origins s = (if runtime_mode s = PUBLIC_DEMO then public_demo_allowed_origins s
     else [''http://localhost:5173'', ''http://127.0.0.1:5173'', ''http://127.0.0.1:5174'', ''http://tauri.localhost''])"

definition settings_repr :: "settings \<Rightarrow> string" where
  "settings_repr s = ''Settings(runtime_mode='' @ [char_of (39::nat)]
     @ (case runtime_mode s of PERSONAL_LOCAL \<Rightarrow> ''PERSONAL_LOCAL'' | PUBLIC_DEMO \<Rightarrow> ''PUBLIC_DEMO'')
     @ [char_of (39::nat)] @ '', database_url=<redacted>)''"

definition has :: "string option \<Rightarrow> bool" where
  "has v = (case v of None \<Rightarrow> False | Some s \<Rightarrow> s \<noteq> [] \<and> strip s \<noteq> [])"

definition provider_configuration :: "settings \<Rightarrow> (string \<times> bool) list" where
  "provider_configuration s =
     (let p = providers s in
      if runtime_mode s = PUBLIC_DEMO
      then map (\<lambda>k. (k, False)) [''football'', ''spotify'', ''github'', ''gmail'', ''weather'']
      else
       [(''football'', has (api_football_key p)),
        (''spotify'', list_all has [spotify_client_id p, spotify_client_secret p, spotify_redirect_uri p]),
        (''github'', has (github_owner p) \<and> (has (github_token p) \<or> has (github_webhook_secret p))),
        (''gmail'', list_all has [google_client_id p, google_client_secret p, google_redirect_uri p]),
        (''weather'', weather_latitude p \<noteq> None \<and> weather_longitude p \<noteq> None \<and> has (weather_timezone p))])"

section \<open>Demo mode is isolated\<close>

lemma for_each_Inr: "for_each f xs = Inr u \<longleftrightarrow> (\<forall>x \<in> set xs. f x = Inr ())"
  unfolding for_each_def by (induction xs) (auto simp: bind_simps)

lemma boundaries_demo:
  assumes "enforce_runtime_mode_boundaries s = Inr t" "runtime_mode s = PUBLIC_DEMO"
  shows "t = s\<lparr>providers := no_providers, github_webhook_allowed_hosts := []\<rparr>"
    and "truthy (public_demo_database_url s)"
    and "public_demo_allowed_hosts s \<noteq> []" "public_demo_allowed_origins s \<noteq> []"
    and "demo_database_ok (database_url s) (or_none (public_demo_database_url s)) = Inr ()"
    and "\<forall>o' \<in> set (public_demo_allowed_origins s). demo_origin_ok o' = Inr ()"
    and "\<forall>h \<in> set (public_demo_allowed_hosts s). demo_host_ok h = Inr ()"
  using assms by (auto simp: enforce_runtime_mode_boundaries_def bind_simps for_each_Inr)

lemma boundaries_mode:
  "enforce_runtime_mode_boundaries s = Inr t \<Longrightarrow> runtime_mode t = runtime_mode s"
  by (auto simp: enforce_runtime_mode_boundaries_def bind_simps split: runtime_mode.splits)

lemma settings_new_Inr:
  assumes "settings_new float i = Inr t"
  obtains s where "enforce_runtime_mode_boundaries s = Inr t" "30 \<le> retention_days s" "retention_days s \<le> 3650"
    and "runtime_mode s = runtime_mode (si_settings i)" "database_url s = database_url (si_settings i)"
    and "public_demo_database_url s = public_demo_database_url (si_settings i)"
    and "retention_days s = retention_days (si_settings i)"
  using assms by (auto simp: settings_new_def bind_simps intro!: that)

text \<open>
  Demo mode cannot reach personal data.  Settings that validate in demo mode hold no provider
  credential and report every provider as not configured, trust no webhook host, and run on the
  demo database, whose URL names a role and a database that both differ from the personal ones; the
  trusted hosts and origins are explicit.
\<close>

theorem demo_mode_isolated:
  assumes "settings_new float i = Inr s" and "runtime_mode s = PUBLIC_DEMO"
  shows "providers s = no_providers \<and> github_webhook_allowed_hosts s = []
    \<and> (\<forall>(p, configured) \<in> set (provider_configuration s). \<not> configured)
    \<and> public_demo_allowed_hosts s \<noteq> [] \<and> allowed_origins s \<noteq> []
    \<and> (\<exists>personal demo. urlsplit (database_url s) = Inr personal \<and> urlsplit (runtime_database_url s) = Inr demo
         \<and> truthy (username demo) \<and> database_name demo \<noteq> []
         \<and> casefold (or_none (username personal)) \<noteq> casefold (or_none (username demo))
         \<and> casefold (database_name personal) \<noteq> casefold (database_name demo))"
proof -
  obtain s0 where s0: "enforce_runtime_mode_boundaries s0 = Inr s" using settings_new_Inr [OF assms(1)] by blast
  then have mode: "runtime_mode s0 = PUBLIC_DEMO" using boundaries_mode assms(2) by simp
  note facts = boundaries_demo [OF s0 mode]
  have "\<exists>personal demo. urlsplit (database_url s0) = Inr personal
      \<and> urlsplit (or_none (public_demo_database_url s0)) = Inr demo
      \<and> truthy (username demo) \<and> database_name demo \<noteq> []
      \<and> casefold (or_none (username personal)) \<noteq> casefold (or_none (username demo))
      \<and> casefold (database_name personal) \<noteq> casefold (database_name demo)"
    using facts(5) by (auto simp: demo_database_ok_def bind_simps)
  then show ?thesis
    using facts(3,4) mode unfolding facts(1)
    by (simp add: provider_configuration_def allowed_origins_def runtime_database_url_def)
qed

definition sample_settings :: settings where
  "sample_settings = \<lparr>runtime_mode = PUBLIC_DEMO, database_url = ''postgresql+asyncpg://livepulse:pw@localhost:5432/livepulse'',
     public_demo_database_url = Some ''postgresql://demo:pw@localhost/demo'', public_demo_allowed_hosts = [],
     public_demo_allowed_origins = [], kafka_bootstrap_servers = ''localhost:19092'',
     kafka_topic = ''livepulse.events.football.v1'', kafka_consumer_group = ''livepulse-projector-v1'',
     service_name = ''livepulse-api'', frontend_base_url = ''http://127.0.0.1:5173'', demo_step_seconds = 6,
     run_background_services = True, providers = no_providers\<lparr>github_token := Some ''t''\<rparr>,
     github_webhook_allowed_hosts = [], retention_days = 365\<rparr>"

definition sample_settings_input :: settings_input where
  "sample_settings_input = \<lparr>si_settings = sample_settings,
     si_demo_hosts = Raw_text (Some (JList [JStr ''demo.example.org''])),
     si_demo_origins = Raw_text (Some (JList [JStr ''https://demo.example.org''])),
     si_webhook_hosts = Raw_value JNull, si_latitude = Text '' '', si_longitude = Unset\<rparr>"

theorem demo_mode_isolated_witness:
  "\<exists>s. settings_new (\<lambda>_. None) sample_settings_input = Inr s \<and> providers s = no_providers"
proof -
  have "case settings_new (\<lambda>_. None) sample_settings_input of Inl _ \<Rightarrow> False | Inr s \<Rightarrow> runtime_mode s = PUBLIC_DEMO"
    by code_simp
  then obtain s where s: "settings_new (\<lambda>_. None) sample_settings_input = Inr s" "runtime_mode s = PUBLIC_DEMO"
    by (auto split: sum.splits)
  from demo_mode_isolated [OF this] s(1) show ?thesis by blast
qed

end
