(* ===== verification/Security.thy ===== *)
theory Security
  imports Config
begin

text \<open>
  \<open>backend/app/core/security.py\<close>: the middleware that rejects untrusted hosts and origins before any
  route runs.  A header is a pair of byte strings; the application behind the middleware and the
  ASGI transport are represented by what the middleware does: hand the request on, or send messages.
\<close>

record scope =
  sc_type :: string
  sc_headers :: "(string \<times> string) list"
  sc_method :: "string option"
  sc_path :: "string option"

datatype asgi_message =
    Websocket_close int
  | Response_start int "(string \<times> string) list"
  | Response_body string

datatype outcome = Forward | Send "asgi_message list"

section \<open>Parsing\<close>

definition parse_host :: "string \<Rightarrow> string option" where
  "parse_host value =
     (if value = [] \<or> CHR ''@'' \<in> set value \<or> CHR ''/'' \<in> set value \<or> CHR 0x5C \<in> set value then None
      else case urlsplit (''//'' @ value) of
        Inl _ \<Rightarrow> None
      | Inr u \<Rightarrow>
          if u_path u \<noteq> [] \<or> u_query u \<noteq> [] \<or> u_fragment u \<noteq> [] then None
          else if isl (url_port u) then None
          else (case hostname u of None \<Rightarrow> None
            | Some h \<Rightarrow> if h \<noteq> [] then Some (rstrip_char (CHR ''.'') (casefold h)) else None))"

definition normal_host :: "string \<Rightarrow> string" where
  "normal_host h = rstrip_char (CHR ''.'') (casefold h)"

definition parse_origin :: "string \<Rightarrow> (string \<times> string \<times> int option) option" where
  "parse_origin value = (case urlsplit value of
      Inl _ \<Rightarrow> None
    | Inr u \<Rightarrow>
        if \<not> exact_origin u then None
        else (case url_port u of
            Inl _ \<Rightarrow> None
          | Inr port \<Rightarrow>
              (let h = normal_host (or_none (hostname u));
                   p = (case port of Some n \<Rightarrow> if n \<noteq> 0 then '':'' @ int_str n else [] | None \<Rightarrow> [])
               in Some (u_scheme u @ ''://'' @ h @ p, h, port))))"

section \<open>Trust\<close>

definition LOOPBACK :: "string set" where
  "LOOPBACK = {''localhost'', ''127.0.0.1'', ''::1''}"

definition trusted_host :: "string \<Rightarrow> settings \<Rightarrow> bool" where
  "trusted_host host_header s = (case parse_host host_header of
      None \<Rightarrow> False
    | Some h \<Rightarrow> if runtime_mode s = PERSONAL_LOCAL then h \<in> LOOPBACK
                else Some h \<in> set (map parse_host (public_demo_allowed_hosts s)))"

definition header_char_bad :: "char \<Rightarrow> bool" where
  "header_char_bad c = (let n = (of_char c :: int) in n \<le> 32 \<or> n = 127)"

definition trusted_github_webhook_ingress :: "string \<Rightarrow> scope \<Rightarrow> settings \<Rightarrow> bool" where
  "trusted_github_webhook_ingress host_header sc s =
     (if runtime_mode s \<noteq> PERSONAL_LOCAL \<or> sc_type sc \<noteq> ''http'' \<or> sc_method sc \<noteq> Some ''POST''
         \<or> sc_path sc \<noteq> Some ''/api/v1/webhooks/github'' then False
      else if list_ex header_char_bad host_header then False
      else if endswith host_header '':'' then False
      else case urlsplit (''//'' @ host_header) of
          Inl _ \<Rightarrow> False
        | Inr u \<Rightarrow> (case hostname u of
              None \<Rightarrow> False
            | Some raw \<Rightarrow> if endswith raw ''..'' then False
                else (case parse_host host_header of None \<Rightarrow> False
                  | Some h \<Rightarrow> h \<in> set (github_webhook_allowed_hosts s))))"

definition trusted_origin :: "string \<Rightarrow> settings \<Rightarrow> bool" where
  "trusted_origin origin s = (case parse_origin origin of
      None \<Rightarrow> False
    | Some p \<Rightarrow>
        if runtime_mode s = PERSONAL_LOCAL \<and> fst (snd p) \<notin> LOOPBACK \<and> origin \<noteq> ''http://tauri.localhost'' then False
        else Some p \<in> set (map parse_origin (allowed_origins s)))"

definition private_provider_path :: "scope \<Rightarrow> bool" where
  "private_provider_path sc =
     (let path = or_none (sc_path sc) in
      startswith path ''/api/v1/providers/'' \<or> startswith path ''/api/v1/webhooks/'' \<or> startswith path ''/api/v1/football'')"

section \<open>The middleware\<close>

definition reject :: "scope \<Rightarrow> int \<Rightarrow> string \<Rightarrow> asgi_message list" where
  "reject sc status code =
     (if sc_type sc = ''websocket'' then [Websocket_close 1008]
      else
       (let body = ''{'' @ [CHR 0x22] @ ''error'' @ [CHR 0x22] @ '':{'' @ [CHR 0x22] @ ''code'' @ [CHR 0x22] @ '':''
              @ [CHR 0x22] @ code @ [CHR 0x22] @ ''}}''
        in [Response_start status [(''content-type'', ''application/json''),
              (''content-length'', int_str (int (length body))), (''cache-control'', ''no-store'')],
            Response_body body]))"

text \<open>The headers as a dictionary: of two with the same name the last one counts.\<close>

definition header :: "scope \<Rightarrow> string \<Rightarrow> string option" where
  "header sc name = map_of (rev (map (\<lambda>(k, v). (casefold k, v)) (sc_headers sc))) name"

definition host_of :: "scope \<Rightarrow> string" where
  "host_of sc = or_none (header sc ''host'')"

definition origin_of :: "scope \<Rightarrow> string option" where
  "origin_of sc = (if truthy (header sc ''origin'') then header sc ''origin'' else None)"

definition boundary :: "settings \<Rightarrow> scope \<Rightarrow> outcome" where
  "boundary s sc =
     (if sc_type sc \<notin> {''http'', ''websocket''} then Forward
      else if \<not> (trusted_host (host_of sc) s \<or> trusted_github_webhook_ingress (host_of sc) sc s)
        then Send (reject sc 400 ''untrusted_host'')
      else if (case origin_of sc of None \<Rightarrow> False | Some o' \<Rightarrow> \<not> trusted_origin o' s)
        then Send (reject sc 403 ''untrusted_origin'')
      else if runtime_mode s = PUBLIC_DEMO \<and> private_provider_path sc
        then Send (reject sc 404 ''not_found'')
      else Forward)"

section \<open>What a loopback host header looks like\<close>

text \<open>
  The host headers that mean this machine: one of the three names in any case, possibly with
  trailing dots or in brackets, possibly with a port, possibly with an empty query or fragment mark;
  \<open>urlsplit\<close> drops tabs and line breaks anywhere.
\<close>

definition loopback_form :: "string \<Rightarrow> bool" where
  "loopback_form h \<longleftrightarrow> (\<exists>n \<in> LOOPBACK. \<exists>k port tail.
     (casefold (filter (\<lambda>c. \<not> unsafe_url_char c) h) = n @ replicate k (CHR ''.'') @ port @ tail
      \<or> casefold (filter (\<lambda>c. \<not> unsafe_url_char c) h) = ''['' @ n @ replicate k (CHR ''.'') @ '']'' @ port @ tail)
     \<and> (port = [] \<or> (\<exists>ds. port = CHR '':'' # ds \<and> list_all is_digit ds \<and> digits_int ds \<le> 65535))
     \<and> tail \<in> {[], ''?'', ''#'', ''?#''})"

lemma rstrip_char_append: "\<exists>k. s = rstrip_char c s @ replicate k c"
proof -
  have "rev s = takeWhile (\<lambda>x. x = c) (rev s) @ dropWhile (\<lambda>x. x = c) (rev s)" by simp
  then have "s = rstrip_char c s @ rev (takeWhile (\<lambda>x. x = c) (rev s))"
    unfolding rstrip_char_def by (metis rev_append rev_rev_ident)
  moreover have "takeWhile (\<lambda>x. x = c) (rev s) = replicate (length (takeWhile (\<lambda>x. x = c) (rev s))) c"
    by (rule replicate_eqI [symmetric, THEN sym]) (auto dest: set_takeWhileD)
  ultimately show ?thesis by (metis rev_replicate)
qed

lemma char_lower_idem [simp]: "char_lower (char_lower c) = char_lower c"
  by (auto simp: char_lower_def Let_def)

lemma casefold_simps [simp]:
  "casefold (s @ t) = casefold s @ casefold t" "casefold [] = []" "casefold (c # s) = char_lower c # casefold s"
  "casefold (casefold s) = casefold s"
  by (simp_all add: casefold_def)

lemma char_lower_fixed: "is_digit c \<Longrightarrow> char_lower c = c"
  by (auto simp: char_lower_def is_digit_def Let_def)

lemma casefold_digits: "list_all is_digit s \<Longrightarrow> casefold s = s"
  by (induction s) (simp_all add: char_lower_fixed)

lemma char_lower_marks [simp]:
  "char_lower (CHR '':'') = CHR '':''" "char_lower (CHR ''['') = CHR ''[''" "char_lower (CHR '']'') = CHR '']''"
  "char_lower (CHR ''?'') = CHR ''?''" "char_lower (CHR ''#'') = CHR ''#''" "char_lower (CHR ''%'') = CHR ''%''"
  by (simp_all add: char_lower_def)

text \<open>The address part \<open>//host\<close> splits without a scheme.\<close>

lemma urlsplit_authority:
  assumes "urlsplit (''//'' @ h) = Inr u"
  shows "u_netloc u = takeWhile netloc_char (filter (\<lambda>c. \<not> unsafe_url_char c) h)"
    and "u_path u = before (CHR ''?'') (before (CHR ''#'') (dropWhile netloc_char (filter (\<lambda>c. \<not> unsafe_url_char c) h)))"
    and "u_query u = after (CHR ''?'') (before (CHR ''#'') (dropWhile netloc_char (filter (\<lambda>c. \<not> unsafe_url_char c) h)))"
    and "u_fragment u = after (CHR ''#'') (dropWhile netloc_char (filter (\<lambda>c. \<not> unsafe_url_char c) h))"
    and "brackets_ok (u_netloc u)"
proof -
  let ?c = "filter (\<lambda>c. \<not> unsafe_url_char c) h"
  have clean: "clean_url (''//'' @ h) = ''//'' @ ?c"
    by (simp add: clean_url_def c0_or_space_def unsafe_url_char_def)
  have "split_scheme (''//'' @ ?c) = ([], ''//'' @ ?c)"
    by (simp add: split_scheme_def before_def partition_at_def is_alpha_def Let_def)
  then show "u_netloc u = takeWhile netloc_char ?c"
    and "u_path u = before (CHR ''?'') (before (CHR ''#'') (dropWhile netloc_char ?c))"
    and "u_query u = after (CHR ''?'') (before (CHR ''#'') (dropWhile netloc_char ?c))"
    and "u_fragment u = after (CHR ''#'') (dropWhile netloc_char ?c)" and "brackets_ok (u_netloc u)"
    using assms unfolding urlsplit_def clean by (auto simp: split_netloc_def Let_def split: if_splits)
qed

lemma empty_marks:
  assumes "before (CHR ''?'') (before (CHR ''#'') r) = []" "after (CHR ''?'') (before (CHR ''#'') r) = []"
    "after (CHR ''#'') r = []"
  shows "r \<in> {[], ''?'', ''#'', ''?#''}"
proof -
  have q: "before (CHR ''#'') r = [] \<or> before (CHR ''#'') r = ''?''"
    using assms(1,2) partition_join [of "CHR ''?''" "before (CHR ''#'') r"]
    by (cases "CHR ''?'' \<in> set (before (CHR ''#'') r)") auto
  show ?thesis
  proof (cases "CHR ''#'' \<in> set r")
    case True
    with q partition_join [OF True] assms(3) show ?thesis by auto
  next
    case False
    with q show ?thesis by auto
  qed
qed

text \<open>The name and the port of a network location without user information.\<close>

lemma hostinfo_shape:
  assumes "CHR ''@'' \<notin> set netloc" "brackets_ok netloc"
  shows "\<exists>rest. (netloc = fst (hostinfo netloc) @ rest \<or> netloc = ''['' @ fst (hostinfo netloc) @ '']'' @ rest)
    \<and> (rest = [] \<and> snd (hostinfo netloc) = [] \<or> rest = CHR '':'' # snd (hostinfo netloc))"
proof (cases "CHR ''['' \<in> set netloc")
  case True
  let ?b = "after (CHR ''['') netloc"
  have br: "bracketed_netloc_ok netloc" "CHR '']'' \<in> set netloc"
    using True assms(2) by (simp_all add: brackets_ok_def)
  have n: "netloc = CHR ''['' # ?b"
    using br(1) True partition_join [OF True] assms(1) by (simp add: bracketed_netloc_ok_def rpartition_at_def)
  then have "CHR '']'' \<in> set ?b" using br(2) list.set(2) [of "CHR ''[''" ?b] by (auto simp del: list.set(2))
  then have b: "?b = before (CHR '']'') ?b @ CHR '']'' # after (CHR '']'') ?b"
    by (simp add: partition_join)
  let ?r = "after (CHR '']'') ?b"
  have host: "hostinfo netloc = (before (CHR '']'') ?b, after (CHR '':'') ?r)"
    using True assms(1) by (simp add: hostinfo_def rpartition_at_def Let_def)
  have "?r = [] \<or> startswith ?r '':''"
    using br(1) True assms(1) by (auto simp: bracketed_netloc_ok_def rpartition_at_def Let_def)
  then have "?r = [] \<and> after (CHR '':'') ?r = [] \<or> ?r = CHR '':'' # after (CHR '':'') ?r"
    by (cases ?r) (auto simp: startswith_def after_def partition_at_def)
  then show ?thesis
    using n b by (intro exI [of _ ?r]) (simp add: host)
next
  case False
  then have host: "hostinfo netloc = (before (CHR '':'') netloc, after (CHR '':'') netloc)"
    using assms(1) by (simp add: hostinfo_def rpartition_at_def Let_def)
  show ?thesis
  proof (cases "CHR '':'' \<in> set netloc")
    case True
    then show ?thesis using partition_join [OF True] by (intro exI [of _ "CHR '':'' # after (CHR '':'') netloc"]) (simp add: host)
  next
    case False
    then show ?thesis by (intro exI [of _ "[]"]) (simp add: host)
  qed
qed

lemma loopback_name:
  assumes "hostname u = Some hn" "normal_host hn \<in> LOOPBACK"
  shows "\<exists>n \<in> LOOPBACK. \<exists>k. casefold (fst (hostinfo (u_netloc u))) = n @ replicate k (CHR ''.'')"
proof -
  let ?h = "fst (hostinfo (u_netloc u))"
  have hn: "hn = casefold (before (CHR ''%'') ?h)
      @ (if CHR ''%'' \<in> set ?h then CHR ''%'' # after (CHR ''%'') ?h else [])"
    using assms(1) by (auto simp: hostname_def Let_def split: if_splits)
  obtain k where k: "casefold hn = normal_host hn @ replicate k (CHR ''.'')"
    using rstrip_char_append [of "casefold hn" "CHR ''.''"] by (auto simp: normal_host_def)
  have "CHR ''%'' \<notin> set (casefold hn)"
    using assms(2) unfolding k by (auto simp: LOOPBACK_def)
  then have "CHR ''%'' \<notin> set ?h" by (auto simp: hn split: if_splits)
  then have "casefold ?h = casefold hn" by (simp add: hn)
  then show ?thesis using assms(2) k by auto
qed

lemma trusted_local_host:
  assumes "trusted_host h s" "runtime_mode s = PERSONAL_LOCAL"
  shows "loopback_form h"
proof -
  let ?c = "filter (\<lambda>c. \<not> unsafe_url_char c) h"
  obtain u hn where at: "CHR ''@'' \<notin> set h" and u: "urlsplit (''//'' @ h) = Inr u"
    and empty: "u_path u = []" "u_query u = []" "u_fragment u = []" and port: "\<not> isl (url_port u)"
    and hn: "hostname u = Some hn" "normal_host hn \<in> LOOPBACK"
    using assms by (auto simp: trusted_host_def parse_host_def normal_host_def
        split: option.splits sum.splits if_splits)
  note parts = urlsplit_authority [OF u]
  have tail: "dropWhile netloc_char ?c \<in> {[], ''?'', ''#'', ''?#''}"
    using empty parts(2-4) by (intro empty_marks) simp_all
  have c: "?c = u_netloc u @ dropWhile netloc_char ?c" by (simp add: parts(1))
  have "CHR ''@'' \<notin> set (u_netloc u)" using at by (auto simp: parts(1) dest: set_takeWhileD)
  from hostinfo_shape [OF this parts(5)] obtain rest H P where
    netloc: "u_netloc u = H @ rest \<or> u_netloc u = ''['' @ H @ '']'' @ rest"
    and rest: "rest = [] \<and> P = [] \<or> rest = CHR '':'' # P"
    and H: "H = fst (hostinfo (u_netloc u))" and P: "P = snd (hostinfo (u_netloc u))"
    by blast
  obtain n k where n: "n \<in> LOOPBACK" "casefold H = n @ replicate k (CHR ''.'')"
    using loopback_name [OF hn] unfolding H by blast
  have digits: "list_all is_digit P" "digits_int P \<le> 65535"
    using port unfolding P by (auto simp: url_port_def Let_def isdigit_def digits_int_def split: if_splits)
  have fixed: "casefold r = r" if "r \<in> {[], ''?'', ''#'', ''?#''}" for r
    using that by auto
  have fold: "casefold rest = rest" "casefold (dropWhile netloc_char ?c) = dropWhile netloc_char ?c"
  proof -
    show "casefold rest = rest" using rest casefold_digits [OF digits(1)] by (elim disjE) simp_all
    show "casefold (dropWhile netloc_char ?c) = dropWhile netloc_char ?c" by (rule fixed [OF tail])
  qed
  have nl: "casefold (u_netloc u) = n @ replicate k (CHR ''.'') @ rest
      \<or> casefold (u_netloc u) = ''['' @ n @ replicate k (CHR ''.'') @ '']'' @ rest"
    using netloc by (elim disjE) (simp_all add: n(2) fold(1))
  have "casefold ?c = casefold (u_netloc u @ dropWhile netloc_char ?c)" using c by metis
  then have "casefold ?c = casefold (u_netloc u) @ dropWhile netloc_char ?c"
    unfolding casefold_simps(1) fold(2) .
  then have "casefold ?c = n @ replicate k (CHR ''.'') @ rest @ dropWhile netloc_char ?c
      \<or> casefold ?c = ''['' @ n @ replicate k (CHR ''.'') @ '']'' @ rest @ dropWhile netloc_char ?c"
    using nl by (metis append_assoc)
  moreover have "rest = [] \<or> (\<exists>ds. rest = CHR '':'' # ds \<and> list_all is_digit ds \<and> digits_int ds \<le> 65535)"
    using rest digits by blast
  ultimately show ?thesis
    unfolding loopback_form_def using n(1) tail by blast
qed
section \<open>What the middleware lets through\<close>

lemma boundary_Forward:
  assumes "boundary s sc = Forward" "sc_type sc \<in> {''http'', ''websocket''}"
  shows "trusted_host (host_of sc) s \<or> trusted_github_webhook_ingress (host_of sc) sc s"
    and "origin_of sc = Some o' \<Longrightarrow> trusted_origin o' s"
    and "runtime_mode s = PUBLIC_DEMO \<Longrightarrow> \<not> private_provider_path sc"
  using assms by (auto simp: boundary_def split: if_splits option.splits)

lemma webhook_ingress:
  assumes "trusted_github_webhook_ingress h sc s"
  shows "runtime_mode s = PERSONAL_LOCAL" "sc_type sc = ''http''" "sc_method sc = Some ''POST''"
    "sc_path sc = Some ''/api/v1/webhooks/github''" "\<exists>x \<in> set (github_webhook_allowed_hosts s). parse_host h = Some x"
  using assms by (auto simp: trusted_github_webhook_ingress_def split: if_splits sum.splits option.splits)

lemma local_origins:
  "runtime_mode s = PERSONAL_LOCAL \<Longrightarrow> map parse_origin (allowed_origins s) =
     [Some (''http://localhost:5173'', ''localhost'', Some 5173), Some (''http://127.0.0.1:5173'', ''127.0.0.1'', Some 5173),
      Some (''http://127.0.0.1:5174'', ''127.0.0.1'', Some 5174), Some (''http://tauri.localhost'', ''tauri.localhost'', None)]"
proof -
  assume "runtime_mode s = PERSONAL_LOCAL"
  then have "allowed_origins s = [''http://localhost:5173'', ''http://127.0.0.1:5173'', ''http://127.0.0.1:5174'', ''http://tauri.localhost'']"
    by (simp add: allowed_origins_def)
  moreover have "map parse_origin [''http://localhost:5173'', ''http://127.0.0.1:5173'', ''http://127.0.0.1:5174'', ''http://tauri.localhost''] =
     [Some (''http://localhost:5173'', ''localhost'', Some 5173), Some (''http://127.0.0.1:5173'', ''127.0.0.1'', Some 5173),
      Some (''http://127.0.0.1:5174'', ''127.0.0.1'', Some 5174), Some (''http://tauri.localhost'', ''tauri.localhost'', None)]"
    by code_simp
  ultimately show ?thesis by simp
qed

text \<open>
  C13.  The local runtime answers this machine only.  In personal mode a request or websocket
  reaches the application only when its host header is a form of \<open>localhost\<close>, \<open>127.0.0.1\<close> or \<open>::1\<close>, or
  it is the GitHub webhook's POST under a configured host name; and when the browser names an
  origin, that origin normalises to one of the four the program knows.  A rebound domain name
  never reaches a route.
\<close>

theorem boundary_local_only:
  assumes "boundary s sc = Forward" and "sc_type sc \<in> {''http'', ''websocket''}"
    and "runtime_mode s = PERSONAL_LOCAL"
  shows "(loopback_form (host_of sc)
      \<or> sc_type sc = ''http'' \<and> sc_method sc = Some ''POST'' \<and> sc_path sc = Some ''/api/v1/webhooks/github''
        \<and> (\<exists>x \<in> set (github_webhook_allowed_hosts s). parse_host (host_of sc) = Some x))
    \<and> (case origin_of sc of None \<Rightarrow> True
       | Some o' \<Rightarrow> \<exists>x h p. parse_origin o' = Some (x, h, p) \<and> x \<in> set (allowed_origins s)
           \<and> (h \<in> LOOPBACK \<or> o' = ''http://tauri.localhost''))"
proof
  show "loopback_form (host_of sc)
      \<or> sc_type sc = ''http'' \<and> sc_method sc = Some ''POST'' \<and> sc_path sc = Some ''/api/v1/webhooks/github''
        \<and> (\<exists>x \<in> set (github_webhook_allowed_hosts s). parse_host (host_of sc) = Some x)"
    using boundary_Forward(1) [OF assms(1,2)] trusted_local_host [OF _ assms(3)] webhook_ingress by blast
  show "case origin_of sc of None \<Rightarrow> True
       | Some o' \<Rightarrow> \<exists>x h p. parse_origin o' = Some (x, h, p) \<and> x \<in> set (allowed_origins s)
           \<and> (h \<in> LOOPBACK \<or> o' = ''http://tauri.localhost'')"
  proof (cases "origin_of sc")
    case (Some o')
    then have t: "trusted_origin o' s" by (rule boundary_Forward(2) [OF assms(1,2)])
    then obtain x h p where p: "parse_origin o' = Some (x, h, p)" by (auto simp: trusted_origin_def split: option.splits)
    moreover have "Some (x, h, p) \<in> set (map parse_origin (allowed_origins s))"
      and h: "h \<in> LOOPBACK \<or> o' = ''http://tauri.localhost''"
      using t p assms(3) by (auto simp: trusted_origin_def split: if_splits)
    then have "x \<in> set (allowed_origins s)"
      unfolding local_origins [OF assms(3)] using assms(3) by (auto simp: allowed_origins_def)
    ultimately show ?thesis using Some h by simp
  qed simp
qed

definition sample_scope :: scope where
  "sample_scope = \<lparr>sc_type = ''websocket'', sc_headers = [(''Host'', ''LocalHost:8000''), (''Origin'', ''http://localhost:5173'')],
     sc_method = None, sc_path = Some ''/ws''\<rparr>"

theorem boundary_local_only_witness:
  "boundary (sample_settings\<lparr>runtime_mode := PERSONAL_LOCAL\<rparr>) sample_scope = Forward
   \<and> loopback_form (host_of sample_scope)"
proof -
  have f: "boundary (sample_settings\<lparr>runtime_mode := PERSONAL_LOCAL\<rparr>) sample_scope = Forward" by code_simp
  from boundary_local_only [OF f] f show ?thesis by (simp add: sample_scope_def)
qed

text \<open>
  The public demo exposes no provider.  Under settings that validate in demo mode, a request
  that reaches the application asks for no provider, webhook or football path, names a host and, if
  it names one, an origin of the explicit allowlists, and finds no provider credential in the settings.
\<close>

theorem boundary_demo_public:
  assumes "settings_new float i = Inr s" and "runtime_mode s = PUBLIC_DEMO"
    and "boundary s sc = Forward" and "sc_type sc \<in> {''http'', ''websocket''}"
  shows "\<not> private_provider_path sc \<and> providers s = no_providers
    \<and> (\<exists>v \<in> set (public_demo_allowed_hosts s). parse_host (host_of sc) = parse_host v \<and> parse_host v \<noteq> None)
    \<and> (\<forall>o'. origin_of sc = Some o' \<longrightarrow>
         (\<exists>v \<in> set (public_demo_allowed_origins s). parse_origin o' = parse_origin v \<and> parse_origin v \<noteq> None))"
proof -
  have "trusted_host (host_of sc) s"
    using boundary_Forward(1) [OF assms(3,4)] webhook_ingress(1) assms(2) by fastforce
  then obtain h v where "parse_host (host_of sc) = Some h" "v \<in> set (public_demo_allowed_hosts s)" "parse_host v = Some h"
    using assms(2) by (auto simp: trusted_host_def split: option.splits)
  then have "\<exists>v \<in> set (public_demo_allowed_hosts s). parse_host (host_of sc) = parse_host v \<and> parse_host v \<noteq> None"
    by (intro bexI [of _ v]) simp_all
  moreover have "\<exists>v \<in> set (public_demo_allowed_origins s). parse_origin o' = parse_origin v \<and> parse_origin v \<noteq> None"
    if org: "origin_of sc = Some o'" for o'
  proof -
    obtain p v where "parse_origin o' = Some p" "v \<in> set (public_demo_allowed_origins s)" "parse_origin v = Some p"
      using boundary_Forward(2) [OF assms(3,4) org] assms(2)
      by (auto simp: trusted_origin_def allowed_origins_def split: option.splits)
    then show ?thesis by (intro bexI [of _ v]) simp_all
  qed
  moreover have "providers s = no_providers"
  proof -
    obtain s0 where s0: "enforce_runtime_mode_boundaries s0 = Inr s" using settings_new_Inr [OF assms(1)] by blast
    then have "runtime_mode s0 = PUBLIC_DEMO" using boundaries_mode assms(2) by simp
    from boundaries_demo(1) [OF s0 this] show ?thesis by simp
  qed
  ultimately show ?thesis
    using boundary_Forward(3) [OF assms(3,4,2)] by blast
qed

definition sample_demo_scope :: scope where
  "sample_demo_scope = \<lparr>sc_type = ''http'', sc_headers = [(''host'', ''Demo.Example.org'')],
     sc_method = Some ''GET'', sc_path = Some ''/api/v1/state''\<rparr>"

theorem boundary_demo_public_witness:
  "\<exists>s. settings_new (\<lambda>_. None) sample_settings_input = Inr s \<and> boundary s sample_demo_scope = Forward
     \<and> providers s = no_providers"
proof -
  have "case settings_new (\<lambda>_. None) sample_settings_input of Inl _ \<Rightarrow> False
      | Inr s \<Rightarrow> runtime_mode s = PUBLIC_DEMO \<and> boundary s sample_demo_scope = Forward"
    by code_simp
  then obtain s where s: "settings_new (\<lambda>_. None) sample_settings_input = Inr s" "runtime_mode s = PUBLIC_DEMO"
    and f: "boundary s sample_demo_scope = Forward"
    by (auto split: sum.splits)
  from boundary_demo_public [OF s f] s(1) f show ?thesis by (auto simp: sample_demo_scope_def)
qed

text \<open>
  A rejection is a complete answer that tells nothing but its code: a websocket is closed with
  code 1008; an HTTP request gets one response, of status 400, 403 or 404, whose declared length is
  the length of its body, and is never handed on as well.  Other kinds of connection are not touched.
\<close>

theorem boundary_rejections:
  assumes "boundary s sc = Send ms"
  shows "sc_type sc = ''websocket'' \<and> ms = [Websocket_close 1008]
    \<or> sc_type sc = ''http'' \<and> (\<exists>status hs body. ms = [Response_start status hs, Response_body body]
         \<and> status \<in> {400, 403, 404} \<and> map_of hs ''content-length'' = Some (int_str (int (length body)))
         \<and> map_of hs ''cache-control'' = Some ''no-store'')"
proof -
  have "\<exists>status code. status \<in> {400, 403, 404} \<and> ms = reject sc status code" and t: "sc_type sc \<in> {''http'', ''websocket''}"
    using assms by (auto simp: boundary_def split: if_splits)
  then show ?thesis
    by (cases "sc_type sc = ''websocket''") (auto simp: reject_def Let_def)
qed

theorem boundary_rejections_witness:
  "\<exists>ms. boundary sample_settings sample_scope = Send ms \<and> ms = [Websocket_close 1008]"
proof -
  have "boundary sample_settings sample_scope \<noteq> Forward" by code_simp
  then obtain ms where ms: "boundary sample_settings sample_scope = Send ms"
    by (cases "boundary sample_settings sample_scope") auto
  from boundary_rejections [OF ms] ms show ?thesis by (auto simp: sample_scope_def)
qed

end
