(* ===== verification/Retention.thy ===== *)
theory Retention
  imports Config Char_Order Event_Store Projector
begin

text \<open>
  \<open>backend/app/maintenance/retention.py\<close>: one bounded pruning batch of the event history.  The
  whole of \<open>apply_retention\<close> is one transaction, hence a function from the database to the report
  and the next database.  The hash is the one of the event store (SHA-256, a parameter).
\<close>

record retention_report =
  rr_cutoff :: string
  rr_dry_run :: bool
  rr_eligible_events :: nat
  rr_eligible_timeline_rows :: nat
  rr_eligible_inactive_match_projections :: nat
  rr_removed_timeline_rows :: nat
  rr_removed_inactive_match_projections :: nat
  rr_protected_active_match_events :: nat
  rr_deferred_unpublished_events :: nat
  rr_deferred_unprojected_events :: nat
  rr_retained_last_state_events :: nat
  rr_retained_connections_and_checkpoints :: bool

section \<open>What is protected\<close>

definition active_match_id :: "db \<Rightarrow> string option" where
  "active_match_id d = (case db_demo d of None \<Rightarrow> None | Some m \<Rightarrow> m)"

definition live_match_ids :: "db \<Rightarrow> string set" where
  "live_match_ids d =
     ms_match_id ` set (filter (\<lambda>m. casefold (ms_status m) \<in> {''live'', ''halftime''}) (db_matches d))"

definition protected_subjects :: "db \<Rightarrow> string set" where
  "protected_subjects d = live_match_ids d \<union>
     (case active_match_id d of Some s \<Rightarrow> if s \<noteq> [] then {s} else {} | None \<Rightarrow> {})"

text \<open>A match row that is kept, because it is recent or its match is protected.\<close>

definition row_kept :: "instant \<Rightarrow> db \<Rightarrow> match_state \<Rightarrow> bool" where
  "row_kept cutoff d m \<longleftrightarrow> ms_updated_at m \<ge> cutoff \<or> ms_match_id m \<in> protected_subjects d"

definition last_state_event_ids :: "instant \<Rightarrow> db \<Rightarrow> uuid set" where
  "last_state_event_ids cutoff d =
     \<Union> (set (map (\<lambda>m. case ms_last_event_id m of None \<Rightarrow> {} | Some i \<Rightarrow> if row_kept cutoff d m then {i} else {})
       (db_matches d)))"

section \<open>The counting queries\<close>

definition old_event :: "instant \<Rightarrow> event \<Rightarrow> bool" where
  "old_event cutoff e \<longleftrightarrow> ev_ingested_at e < cutoff"

text \<open>The outer join with the outbox: no row, or a row that is not published.\<close>

definition is_published :: "db \<Rightarrow> event \<Rightarrow> bool" where
  "is_published d e = (case find_row ob_event_id (ev_event_id e) (db_outbox d) of
     None \<Rightarrow> False | Some r \<Rightarrow> ob_published_at r \<noteq> None)"

definition is_match_event :: "event \<Rightarrow> bool" where
  "is_match_event e = startswith (ev_event_type e) match_prefix"

definition protected_event :: "db \<Rightarrow> event \<Rightarrow> bool" where
  "protected_event d e \<longleftrightarrow> is_match_event e \<and> ev_subject_id e \<in> protected_subjects d"

definition count_events :: "(event \<Rightarrow> bool) \<Rightarrow> db \<Rightarrow> nat" where
  "count_events p d = length (filter p (db_events d))"

definition deferred_unpublished :: "instant \<Rightarrow> db \<Rightarrow> nat" where
  "deferred_unpublished cutoff d = count_events (\<lambda>e. old_event cutoff e \<and> \<not> is_published d e) d"

definition deferred_unprojected :: "instant \<Rightarrow> db \<Rightarrow> nat" where
  "deferred_unprojected cutoff d =
     count_events (\<lambda>e. old_event cutoff e \<and> is_published d e \<and> \<not> is_processed (ev_event_id e) d) d"

definition protected_active :: "instant \<Rightarrow> db \<Rightarrow> nat" where
  "protected_active cutoff d = count_events (\<lambda>e. old_event cutoff e \<and> protected_event d e) d"

definition retained_last :: "instant \<Rightarrow> db \<Rightarrow> nat" where
  "retained_last cutoff d =
     count_events (\<lambda>e. old_event cutoff e \<and> ev_event_id e \<in> last_state_event_ids cutoff d) d"

section \<open>The batch\<close>

definition prunable :: "instant \<Rightarrow> db \<Rightarrow> event \<Rightarrow> bool" where
  "prunable cutoff d e \<longleftrightarrow>
     old_event cutoff e \<and> is_published d e \<and> is_processed (ev_event_id e) d \<and>
     ev_event_id e \<notin> last_state_event_ids cutoff d \<and> \<not> protected_event d e"

definition eligible_batch :: "instant \<Rightarrow> nat \<Rightarrow> db \<Rightarrow> event list" where
  "eligible_batch cutoff max_events d =
     take max_events (sort_key (\<lambda>e. (ev_ingested_at e, ev_event_id e)) (filter (prunable cutoff d) (db_events d)))"

definition stale_ids :: "instant \<Rightarrow> uuid set \<Rightarrow> db \<Rightarrow> string list" where
  "stale_ids cutoff ids d = remdups (map ms_match_id (filter (\<lambda>m. \<not> row_kept cutoff d m \<and>
     (case ms_last_event_id m of None \<Rightarrow> False | Some i \<Rightarrow> i \<in> ids)) (db_matches d)))"

definition subject_event_ids :: "db \<Rightarrow> string \<Rightarrow> uuid list" where
  "subject_event_ids d s = map ev_event_id (filter (\<lambda>e. is_match_event e \<and> ev_subject_id e = s) (db_events d))"

definition inactive_to_remove :: "instant \<Rightarrow> uuid set \<Rightarrow> db \<Rightarrow> string list" where
  "inactive_to_remove cutoff ids d =
     filter (\<lambda>s. subject_event_ids d s \<noteq> [] \<and> set (subject_event_ids d s) \<subseteq> ids) (stale_ids cutoff ids d)"

text \<open>
  The tombstones of a batch: a hash that is there already is not written again.  Adding a row
  whose key is taken, or two rows with one key, fails the flush.
\<close>

definition tombstones_for :: "(string \<Rightarrow> string) \<Rightarrow> instant \<Rightarrow> event list \<Rightarrow> db \<Rightarrow> retired_row list" where
  "tombstones_for hash now es d =
     map (\<lambda>e. \<lparr>rt_event_id = ev_event_id e, rt_dedupe_hash = hash (ev_dedupe_key e), rt_retired_at = now\<rparr>)
       (filter (\<lambda>e. hash (ev_dedupe_key e) \<notin> rt_dedupe_hash ` set (db_retired d)) es)"

definition add_tombstones :: "retired_row list \<Rightarrow> db \<Rightarrow> db result" where
  "add_tombstones rs d =
     (if distinct (map rt_event_id (db_retired d @ rs)) \<and> distinct (map rt_dedupe_hash (db_retired d @ rs))
      then Inr (d\<lparr>db_retired := db_retired d @ rs\<rparr>) else Inl (IntegrityError ''retired_events''))"

definition prune :: "(string \<Rightarrow> string) \<Rightarrow> instant \<Rightarrow> event list \<Rightarrow> string list \<Rightarrow> db \<Rightarrow> db result" where
  "prune hash now es ss d =
     bind_r (if es = [] then Inr d
       else bind_r (add_tombstones (tombstones_for hash now es d) d) (\<lambda>d1.
         Inr (delete_events (\<lambda>e. ev_event_id e \<in> set (map ev_event_id es)) d1)))
     (\<lambda>d2. Inr (delete_matches ss d2))"

definition timeline_count :: "event list \<Rightarrow> db \<Rightarrow> nat" where
  "timeline_count es d = length (filter (\<lambda>r. tl_event_id r \<in> ev_event_id ` set es) (db_timeline d))"

section \<open>The operation\<close>

record retention_args =
  ra_mode :: runtime_mode
  ra_days :: int
  ra_now :: instant
  ra_dry_run :: bool
  ra_max_events :: int

definition cutoff_of :: "retention_args \<Rightarrow> instant" where
  "cutoff_of a = ra_now a - days (ra_days a)"

definition apply_retention :: "(string \<Rightarrow> string) \<Rightarrow> retention_args \<Rightarrow> db \<Rightarrow> (retention_report \<times> db) result" where
  "apply_retention hash a d =
     bind_r (ensure (ra_mode a = PERSONAL_LOCAL)
       (RuntimeError ''retention maintenance is available only in PERSONAL_LOCAL mode'')) (\<lambda>_.
     bind_r (ensure (\<not> ra_days a < 30) (ValueError ''retention must be at least 30 days'')) (\<lambda>_.
     bind_r (ensure (\<not> ra_max_events a < 1) (ValueError ''max_events must be positive'')) (\<lambda>_.
      (let cutoff = cutoff_of a;
           eligible = eligible_batch cutoff (nat (ra_max_events a)) d;
           ids = ev_event_id ` set eligible;
           inactive = inactive_to_remove cutoff ids d;
           timeline = timeline_count eligible d
       in bind_r (if ra_dry_run a then Inr d else prune hash (ra_now a) eligible inactive d) (\<lambda>d'.
          Inr (\<lparr>rr_cutoff = isoformat cutoff, rr_dry_run = ra_dry_run a,
            rr_eligible_events = length eligible, rr_eligible_timeline_rows = timeline,
            rr_eligible_inactive_match_projections = length inactive,
            rr_removed_timeline_rows = (if ra_dry_run a then 0 else timeline),
            rr_removed_inactive_match_projections = (if ra_dry_run a then 0 else length inactive),
            rr_protected_active_match_events = protected_active cutoff d,
            rr_deferred_unpublished_events = deferred_unpublished cutoff d,
            rr_deferred_unprojected_events = deferred_unprojected cutoff d,
            rr_retained_last_state_events = retained_last cutoff d,
            rr_retained_connections_and_checkpoints = True\<rparr>, d'))))))"

section \<open>What one batch does\<close>

lemma eligible_batch_prunable: "e \<in> set (eligible_batch cutoff n d) \<Longrightarrow> e \<in> set (db_events d) \<and> prunable cutoff d e"
  by (auto simp: eligible_batch_def dest: in_set_takeD)

lemma eligible_batch_length: "length (eligible_batch cutoff n d) = min (length (filter (prunable cutoff d) (db_events d))) n"
  by (simp add: eligible_batch_def)

lemma eligible_batch_distinct:
  assumes "unique_ok d" shows "distinct (map ev_event_id (eligible_batch cutoff n d))"
    and "distinct (map ev_dedupe_key (eligible_batch cutoff n d))"
  using assms unfolding eligible_batch_def
  by (auto simp: unique_ok_def take_map [symmetric] distinct_map intro!: distinct_take
      intro: inj_on_subset dest: in_set_takeD)

lemma apply_retention_Inr:
  "apply_retention hash a d = Inr (r, d') \<longleftrightarrow>
     ra_mode a = PERSONAL_LOCAL \<and> 30 \<le> ra_days a \<and> 1 \<le> ra_max_events a \<and>
     (let es = eligible_batch (cutoff_of a) (nat (ra_max_events a)) d;
          ss = inactive_to_remove (cutoff_of a) (ev_event_id ` set es) d
      in (if ra_dry_run a then d' = d else prune hash (ra_now a) es ss d = Inr d')
         \<and> r = \<lparr>rr_cutoff = isoformat (cutoff_of a), rr_dry_run = ra_dry_run a,
            rr_eligible_events = length es, rr_eligible_timeline_rows = timeline_count es d,
            rr_eligible_inactive_match_projections = length ss,
            rr_removed_timeline_rows = (if ra_dry_run a then 0 else timeline_count es d),
            rr_removed_inactive_match_projections = (if ra_dry_run a then 0 else length ss),
            rr_protected_active_match_events = protected_active (cutoff_of a) d,
            rr_deferred_unpublished_events = deferred_unpublished (cutoff_of a) d,
            rr_deferred_unprojected_events = deferred_unprojected (cutoff_of a) d,
            rr_retained_last_state_events = retained_last (cutoff_of a) d,
            rr_retained_connections_and_checkpoints = True\<rparr>)"
  by (auto simp: apply_retention_def bind_simps Let_def)

lemma add_tombstones_Inr:
  "add_tombstones rs d = Inr d' \<longleftrightarrow>
     distinct (map rt_event_id (db_retired d @ rs)) \<and> distinct (map rt_dedupe_hash (db_retired d @ rs))
     \<and> d' = d\<lparr>db_retired := db_retired d @ rs\<rparr>"
  by (auto simp: add_tombstones_def)

lemma prune_Inr:
  assumes "prune hash now es ss d = Inr d'" and "es = [] \<longrightarrow> ss = []"
  obtains d1 where "add_tombstones (tombstones_for hash now es d) d = Inr d1 \<or> es = [] \<and> d1 = d"
    and "d' = delete_matches ss (delete_events (\<lambda>e. ev_event_id e \<in> set (map ev_event_id es)) d1)"
  using assms by (auto simp: prune_def bind_simps delete_matches_def delete_events_def Let_def split: if_splits)

text \<open>The state between the inserts and the delete is consistent but for the batch itself.\<close>

lemma tombstones_then_delete_ok:
  assumes "db_ok hash d" and "set es \<subseteq> set (db_events d)"
    and inj: "inj_on hash (ev_dedupe_key ` set (db_events d))"
    and "add_tombstones (tombstones_for hash now es d) d = Inr d1"
  shows "db_ok hash (delete_events (\<lambda>e. ev_event_id e \<in> set (map ev_event_id es)) d1)"
proof -
  let ?p = "\<lambda>e. ev_event_id e \<in> set (map ev_event_id es)"
  have d1: "d1 = d\<lparr>db_retired := db_retired d @ tombstones_for hash now es d\<rparr>"
    and dist: "distinct (map rt_event_id (db_retired d1))" "distinct (map rt_dedupe_hash (db_retired d1))"
    using assms(4) by (auto simp: add_tombstones_Inr)
  have "unique_ok d1"
    using assms(1) dist by (simp add: d1 db_ok_def schema_ok_def unique_ok_def)
  moreover have "foreign_ok d1" "sequence_ok d1"
    using assms(1) by (simp_all add: d1 db_ok_def schema_ok_def foreign_ok_def sequence_ok_def)
  moreover have "outbox_complete d1" "timeline_matches d1"
    using assms(1) by (simp_all add: d1 db_ok_def outbox_complete_def timeline_matches_def projected_ids_def)
  moreover have "tombstones_ok hash (delete_events ?p d1)"
  proof -
    have "hash (ev_dedupe_key e) \<noteq> hash (ev_dedupe_key f)"
      if "e \<in> set (db_events d)" "ev_event_id e \<notin> ev_event_id ` set es" "f \<in> set es" for e f
      using that assms(2) inj event_by_dedupe [of d e f] assms(1)
      by (auto simp: db_ok_def schema_ok_def dest!: inj_onD)
    then show ?thesis
      using assms(1) by (fastforce simp: tombstones_ok_def d1 tombstones_for_def db_ok_def)
  qed
  ultimately show ?thesis
    unfolding db_ok_def schema_ok_def
    by (intro conjI delete_events_unique delete_events_foreign delete_events_sequence
        delete_events_outbox_complete delete_events_timeline) blast+
qed

lemma inactive_empty [simp]: "inactive_to_remove cutoff {} d = []"
  by (simp add: inactive_to_remove_def stale_ids_def filter_empty_conv split: option.splits)

lemma prune_facts:
  assumes "db_ok hash d" and "set es \<subseteq> set (db_events d)"
    and "inj_on hash (ev_dedupe_key ` set (db_events d))" and "es = [] \<longrightarrow> ss = []"
    and "prune hash now es ss d = Inr d'"
  shows "db_ok hash d'"
    and "db_events d' = filter (\<lambda>e. e \<notin> set es) (db_events d)"
    and "db_matches d' = filter (\<lambda>m. ms_match_id m \<notin> set ss) (db_matches d)"
    and "db_retired d' = db_retired d @ tombstones_for hash now es d"
    and "db_demo d' = db_demo d" and "db_connections d' = db_connections d"
    and "db_checkpoints d' = db_checkpoints d"
    and "db_outbox d' = filter (\<lambda>r. ob_event_id r \<notin> ev_event_id ` set es) (db_outbox d)"
    and "db_timeline d' = filter (\<lambda>r. tl_event_id r \<notin> ev_event_id ` set es) (db_timeline d)"
    and "db_processed d' = filter (\<lambda>r. pr_event_id r \<notin> ev_event_id ` set es) (db_processed d)"
proof -
  obtain d1 where d1: "add_tombstones (tombstones_for hash now es d) d = Inr d1 \<or> es = [] \<and> d1 = d"
    and d': "d' = delete_matches ss (delete_events (\<lambda>e. ev_event_id e \<in> set (map ev_event_id es)) d1)"
    using prune_Inr [OF assms(5,4)] by blast
  have d1': "d1 = d\<lparr>db_retired := db_retired d @ tombstones_for hash now es d\<rparr>"
    using d1 by (auto simp: add_tombstones_Inr tombstones_for_def)
  have same: "e \<in> set (db_events d) \<Longrightarrow> ev_event_id e \<in> ev_event_id ` set es \<longleftrightarrow> e \<in> set es" for e
    using assms(1,2) event_by_id [of d e] by (auto simp: db_ok_def schema_ok_def)
  have gone: "i \<in> ev_event_id ` {e \<in> set (db_events d). ev_event_id e \<in> ev_event_id ` set es}
      \<longleftrightarrow> i \<in> ev_event_id ` set es" for i
    using assms(2) by auto
  show "db_ok hash d'"
    using d1 assms(1) tombstones_then_delete_ok [OF assms(1-3), of now d1]
    by (auto simp: d' intro: delete_matches_ok delete_events_ok)
  show "db_events d' = filter (\<lambda>e. e \<notin> set es) (db_events d)"
    using same by (auto simp: d' d1' intro!: filter_cong)
  show "db_matches d' = filter (\<lambda>m. ms_match_id m \<notin> set ss) (db_matches d)"
    "db_retired d' = db_retired d @ tombstones_for hash now es d"
    "db_demo d' = db_demo d" "db_connections d' = db_connections d" "db_checkpoints d' = db_checkpoints d"
    by (simp_all add: d' d1')
  show "db_outbox d' = filter (\<lambda>r. ob_event_id r \<notin> ev_event_id ` set es) (db_outbox d)"
    "db_timeline d' = filter (\<lambda>r. tl_event_id r \<notin> ev_event_id ` set es) (db_timeline d)"
    "db_processed d' = filter (\<lambda>r. pr_event_id r \<notin> ev_event_id ` set es) (db_processed d)"
    using gone by (simp_all add: d' d1' delete_events_def Let_def)
qed

section \<open>Properties of one run\<close>

lemma apply_retention_cases:
  assumes "db_ok hash d" and "inj_on hash (ev_dedupe_key ` set (db_events d))"
    and "apply_retention hash a d = Inr (r, d')"
  obtains (Preview) "ra_dry_run a" "d' = d"
  | (Apply) es ss where "\<not> ra_dry_run a" "es = eligible_batch (cutoff_of a) (nat (ra_max_events a)) d"
      "ss = inactive_to_remove (cutoff_of a) (ev_event_id ` set es) d"
      "prune hash (ra_now a) es ss d = Inr d'" "set es \<subseteq> set (db_events d)" "es = [] \<longrightarrow> ss = []"
      "rr_eligible_events r = length es"
  using assms(3) eligible_batch_prunable [of _ "cutoff_of a" "nat (ra_max_events a)" d]
  by (cases "ra_dry_run a") (auto simp: apply_retention_Inr Let_def intro!: that(2))

lemma inactive_not_kept:
  "s \<in> set (inactive_to_remove cutoff ids d) \<Longrightarrow> unique_ok d \<Longrightarrow> m \<in> set (db_matches d) \<Longrightarrow>
   ms_match_id m = s \<Longrightarrow> \<not> row_kept cutoff d m"
  by (auto simp: inactive_to_remove_def stale_ids_def unique_ok_def distinct_map dest: inj_onD)

lemma tombstones_for_retired:
  "e \<in> set es \<Longrightarrow> hash (ev_dedupe_key e) \<in> rt_dedupe_hash ` set (db_retired d @ tombstones_for hash now es d)"
  by (cases "hash (ev_dedupe_key e) \<in> rt_dedupe_hash ` set (db_retired d)")
    (auto simp: tombstones_for_def image_Un image_image)

text \<open>
  C12.  Pruning is safe.  A run that returns keeps the database well-formed and takes events only:
  each one it takes is older than the cutoff, published, projected, not of a live or active match
  and not the one a kept match row rests on, and leaves a tombstone of its deduplication key; their
  number is the report's, at most the bound; match rows that are recent or protected stay, and so
  do connections, checkpoints and the demo control row; a preview changes nothing.
\<close>

theorem retention_safe:
  assumes "db_ok hash d" and "inj_on hash (ev_dedupe_key ` set (db_events d))"
    and "apply_retention hash a d = Inr (r, d')"
  shows "db_ok hash d' \<and> set (db_events d') \<subseteq> set (db_events d)
    \<and> (\<forall>e \<in> set (db_events d) - set (db_events d').
         prunable (cutoff_of a) d e \<and> is_retired hash (ev_dedupe_key e) d')
    \<and> card (set (db_events d) - set (db_events d')) = (if ra_dry_run a then 0 else rr_eligible_events r)
    \<and> int (rr_eligible_events r) \<le> ra_max_events a
    \<and> (\<forall>m \<in> set (db_matches d). row_kept (cutoff_of a) d m \<longrightarrow> m \<in> set (db_matches d'))
    \<and> db_connections d' = db_connections d \<and> db_checkpoints d' = db_checkpoints d \<and> db_demo d' = db_demo d
    \<and> (ra_dry_run a \<longrightarrow> d' = d)"
proof -
  have bound: "int (rr_eligible_events r) \<le> ra_max_events a"
    using assms(3) by (auto simp: apply_retention_Inr Let_def eligible_batch_length)
  show ?thesis
  proof (cases rule: apply_retention_cases [OF assms])
    case 1
    with bound assms(1) show ?thesis by simp
  next
    case (2 es ss)
    note facts = prune_facts [OF assms(1) 2(5) assms(2) 2(6,4)]
    have u: "unique_ok d" using assms(1) by (simp add: db_ok_def schema_ok_def)
    have removed: "set (db_events d) - set (db_events d') = set es"
      using 2(5) by (auto simp: facts(2))
    have "card (set es) = length es"
      using eligible_batch_distinct(1) [OF u] 2(2) by (metis distinct_card distinct_map)
    moreover have "prunable (cutoff_of a) d e \<and> is_retired hash (ev_dedupe_key e) d'" if "e \<in> set es" for e
      using eligible_batch_prunable [of e] that 2(2) tombstones_for_retired [OF that, of hash d "ra_now a"]
      by (simp add: is_retired_def facts(4) image_Un)
    moreover have "m \<in> set (db_matches d')" if "m \<in> set (db_matches d)" "row_kept (cutoff_of a) d m" for m
      using inactive_not_kept [of _ "cutoff_of a" "ev_event_id ` set es" d m] u that 2(3) by (auto simp: facts(3))
    ultimately show ?thesis
      using facts(1,2,5,6,7) removed bound 2(1,7) by auto
  qed
qed

text \<open>
  What was pruned stays gone.  After a run, a provider that offers a pruned fact again is
  answered as for a duplicate, and an old broker record of a pruned event is not projected: both
  leave the database as it is.
\<close>

theorem pruned_events_stay_gone:
  assumes "db_ok hash d" and "inj_on hash (ev_dedupe_key ` set (db_events d))"
    and "apply_retention hash a d = Inr (r, d')"
    and "e \<in> set (db_events d)" and "e \<notin> set (db_events d')" and "ev_dedupe_key f = ev_dedupe_key e"
  shows "persist_event_and_outbox hash topic now f d' = Inr (False, d')
    \<and> process_canonical_event clk e d' = Inr (None, d')"
proof (cases rule: apply_retention_cases [OF assms(1-3)])
  case 1
  with assms show ?thesis by simp
next
  case (2 es ss)
  note facts = prune_facts [OF assms(1) 2(5) assms(2) 2(6,4)]
  have e: "e \<in> set es"
    using assms(4,5) by (auto simp: facts(2))
  then have "hash (ev_dedupe_key f) \<in> rt_dedupe_hash ` set (db_retired d')"
    using tombstones_for_retired [OF e, of hash d "ra_now a"] assms(6) by (simp add: facts(4) image_Un)
  moreover have "\<not> is_stored (ev_event_id e) d'"
  proof
    assume "is_stored (ev_event_id e) d'"
    then obtain x where "x \<in> set (db_events d)" "x \<notin> set es" "ev_event_id x = ev_event_id e"
      by (auto simp: is_stored_iff facts(2))
    moreover have "unique_ok d" using assms(1) by (simp add: db_ok_def schema_ok_def)
    ultimately show False using event_by_id assms(4) e by metis
  qed
  ultimately show ?thesis
    by (simp add: persist_event_and_outbox_def is_retired_def process_canonical_event_def image_Un)
qed

definition sample_retention_db :: db where
  "sample_retention_db = \<lparr>db_events = [sample_goal],
     db_outbox = [(new_outbox_row ''t'' 0 sample_goal 1)\<lparr>ob_published_at := Some 5\<rparr>],
     db_matches = [], db_timeline = [timeline_row_of sample_goal 1],
     db_processed = [processed_row_of sample_clock sample_goal], db_retired = [], db_demo = None,
     db_connections = [], db_checkpoints = [], db_next_outbox = 2, db_next_cursor = 2\<rparr>"

definition sample_retention_args :: retention_args where
  "sample_retention_args = \<lparr>ra_mode = PERSONAL_LOCAL, ra_days = 30, ra_now = days 40,
     ra_dry_run = False, ra_max_events = 1000\<rparr>"

lemma sample_retention_db_ok: "db_ok (\<lambda>k. k) sample_retention_db"
  unfolding db_ok_def schema_ok_def
  by (intro conjI) (simp_all add: unique_ok_def foreign_ok_def sequence_ok_def outbox_complete_def
      timeline_matches_def projected_ids_def tombstones_ok_def sample_retention_db_def
      new_outbox_row_def timeline_row_of_def Collect_conv_if)

lemma sample_retention_run:
  "\<exists>r d'. apply_retention (\<lambda>k. k) sample_retention_args sample_retention_db = Inr (r, d') \<and> db_events d' = []"
proof -
  have "case apply_retention (\<lambda>k. k) sample_retention_args sample_retention_db of
      Inl _ \<Rightarrow> False | Inr (r, d') \<Rightarrow> db_events d' = []"
    by code_simp
  then show ?thesis by (auto split: sum.splits)
qed

theorem retention_safe_witness:
  "\<exists>r d'. apply_retention (\<lambda>k. k) sample_retention_args sample_retention_db = Inr (r, d')
     \<and> db_ok (\<lambda>k. k) d' \<and> is_retired (\<lambda>k. k) (ev_dedupe_key sample_goal) d'"
proof -
  obtain r d' where run: "apply_retention (\<lambda>k. k) sample_retention_args sample_retention_db = Inr (r, d')"
    and e: "db_events d' = []" using sample_retention_run by blast
  have "sample_goal \<in> set (db_events sample_retention_db)"
    by (simp add: sample_retention_db_def)
  with retention_safe [OF sample_retention_db_ok _ run] e run show ?thesis
    by (auto simp: inj_on_def)
qed

theorem pruned_events_stay_gone_witness:
  "\<exists>r d'. apply_retention (\<lambda>k. k) sample_retention_args sample_retention_db = Inr (r, d')
     \<and> persist_event_and_outbox (\<lambda>k. k) ''t'' 0 sample_goal d' = Inr (False, d')"
proof -
  obtain r d' where run: "apply_retention (\<lambda>k. k) sample_retention_args sample_retention_db = Inr (r, d')"
    and e: "db_events d' = []" using sample_retention_run by blast
  have "sample_goal \<in> set (db_events sample_retention_db)"
    by (simp add: sample_retention_db_def)
  with pruned_events_stay_gone [OF sample_retention_db_ok _ run, where e = sample_goal and f = sample_goal] e run
  show ?thesis by (auto simp: inj_on_def)
qed

section \<open>Repeated runs\<close>

text \<open>Runs one after the other with the same arguments, as an operator repeats the command.\<close>

fun retention_passes :: "(string \<Rightarrow> string) \<Rightarrow> retention_args \<Rightarrow> nat \<Rightarrow> db \<Rightarrow> db result" where
  "retention_passes hash a 0 d = Inr d"
| "retention_passes hash a (Suc n) d =
     bind_r (apply_retention hash a d) (\<lambda>(r, d'). retention_passes hash a n d')"

definition ids_unretired :: "db \<Rightarrow> bool" where
  "ids_unretired d \<longleftrightarrow> event_ids d \<inter> rt_event_id ` set (db_retired d) = {}"

lemma distinct_tombstones:
  assumes "db_ok hash d" "ids_unretired d" "inj_on hash (ev_dedupe_key ` set (db_events d))"
    and es: "set es \<subseteq> set (db_events d)" "distinct (map ev_event_id es)" "distinct (map ev_dedupe_key es)"
  shows "distinct (map rt_event_id (db_retired d @ tombstones_for hash now es d))"
    and "distinct (map rt_dedupe_hash (db_retired d @ tombstones_for hash now es d))"
proof -
  let ?new = "filter (\<lambda>e. hash (ev_dedupe_key e) \<notin> rt_dedupe_hash ` set (db_retired d)) es"
  have r: "distinct (map rt_event_id (db_retired d))" "distinct (map rt_dedupe_hash (db_retired d))"
    using assms(1) by (simp_all add: db_ok_def schema_ok_def unique_ok_def)
  have ids: "map rt_event_id (tombstones_for hash now es d) = map ev_event_id ?new"
    and hs: "map rt_dedupe_hash (tombstones_for hash now es d) = map (\<lambda>e. hash (ev_dedupe_key e)) ?new"
    by (simp_all add: tombstones_for_def)
  have "rt_event_id ` set (db_retired d) \<inter> ev_event_id ` set ?new = {}"
    using assms(2) es(1) unfolding ids_unretired_def by fastforce
  then show "distinct (map rt_event_id (db_retired d @ tombstones_for hash now es d))"
    using r(1) es(2) unfolding map_append distinct_append ids
    by (simp add: distinct_map_filter)
  have "inj_on (\<lambda>e. hash (ev_dedupe_key e)) (set es)"
  proof (rule inj_onI)
    fix x y assume "x \<in> set es" "y \<in> set es" "hash (ev_dedupe_key x) = hash (ev_dedupe_key y)"
    then show "x = y"
      using assms(3) es(1,3) unfolding distinct_map inj_on_def by blast
  qed
  then have "distinct (map (\<lambda>e. hash (ev_dedupe_key e)) ?new)"
    using es(2) by (auto simp: distinct_map inj_on_def)
  then show "distinct (map rt_dedupe_hash (db_retired d @ tombstones_for hash now es d))"
    using r(2) unfolding map_append distinct_append hs by (auto simp: image_iff)
qed

lemma prune_total:
  assumes "db_ok hash d" "ids_unretired d" "inj_on hash (ev_dedupe_key ` set (db_events d))"
    and "set es \<subseteq> set (db_events d)" "distinct (map ev_event_id es)" "distinct (map ev_dedupe_key es)"
  shows "\<exists>d'. prune hash now es ss d = Inr d'"
  using distinct_tombstones [OF assms] by (simp add: prune_def add_tombstones_def)

text \<open>A run does not change which of the remaining events can be pruned.\<close>

lemma protected_after:
  assumes "db_matches d' = filter (\<lambda>m. ms_match_id m \<notin> set (inactive_to_remove cutoff ids d)) (db_matches d)"
    and "db_demo d' = db_demo d" and u: "unique_ok d"
  shows "protected_subjects d' = protected_subjects d"
    and "last_state_event_ids cutoff d' = last_state_event_ids cutoff d"
proof -
  have kept: "m \<in> set (db_matches d')" if "m \<in> set (db_matches d)" "row_kept cutoff d m" for m
    using inactive_not_kept [OF _ u that(1) refl] that assms(1) by auto
  have "live_match_ids d' = live_match_ids d"
  proof
    show "live_match_ids d \<subseteq> live_match_ids d'"
    proof
      fix s assume "s \<in> live_match_ids d"
      then obtain m where m: "m \<in> set (db_matches d)" "s = ms_match_id m"
        "casefold (ms_status m) \<in> {''live'', ''halftime''}"
        by (auto simp: live_match_ids_def)
      have "s \<in> live_match_ids d" by fact
      then have "row_kept cutoff d m" using m(2) by (simp add: row_kept_def protected_subjects_def)
      with kept m show "s \<in> live_match_ids d'" by (auto simp: live_match_ids_def)
    qed
  qed (auto simp: live_match_ids_def assms(1))
  then show p: "protected_subjects d' = protected_subjects d"
    by (simp add: protected_subjects_def active_match_id_def assms(2))
  then have rk: "row_kept cutoff d' m = row_kept cutoff d m" for m
    by (simp add: row_kept_def)
  show "last_state_event_ids cutoff d' = last_state_event_ids cutoff d"
    using kept by (fastforce simp: last_state_event_ids_def rk assms(1) split: option.splits if_splits)
qed

lemma find_row_filter:
  "(\<And>r. r \<in> set rs \<Longrightarrow> key r = k \<Longrightarrow> P r) \<Longrightarrow> find_row key k (filter P rs) = find_row key k rs"
  by (induction rs) (auto simp: find_row_def)

lemma prunable_after:
  assumes "db_ok hash d" and es: "set es \<subseteq> set (db_events d)"
    and "inj_on hash (ev_dedupe_key ` set (db_events d))" and "es = [] \<longrightarrow> ss = []"
    and "prune hash now es ss d = Inr d'" and "ss = inactive_to_remove cutoff (ev_event_id ` set es) d"
    and e: "e \<in> set (db_events d')"
  shows "prunable cutoff d' e = prunable cutoff d e"
proof -
  note facts = prune_facts [OF assms(1-5)]
  have u: "unique_ok d" using assms(1) by (simp add: db_ok_def schema_ok_def)
  have out: "ev_event_id e \<notin> ev_event_id ` set es"
    using e es event_by_id [OF u] by (auto simp: facts(2))
  have "is_published d' e = is_published d e"
    using out by (simp add: is_published_def facts(8) find_row_filter)
  moreover have "is_processed (ev_event_id e) d' = is_processed (ev_event_id e) d"
    using out by (auto simp: is_processed_iff projected_ids_def facts(10))
  ultimately show ?thesis
    using protected_after [OF facts(3) [unfolded assms(6)] facts(5) u]
    by (simp add: prunable_def protected_event_def)
qed

lemma filter_length_minus:
  assumes "distinct xs" "distinct ys" "set ys \<subseteq> set (filter P xs)"
    and "\<And>x. x \<in> set xs \<Longrightarrow> x \<notin> set ys \<Longrightarrow> Q x = P x"
  shows "length (filter Q (filter (\<lambda>x. x \<notin> set ys) xs)) = length (filter P xs) - length ys"
proof -
  have "set (filter Q (filter (\<lambda>x. x \<notin> set ys) xs)) = set (filter P xs) - set ys"
    using assms(4) by auto
  then show ?thesis
    using assms(1-3) by (metis card_Diff_subset distinct_card distinct_filter finite_set)
qed

lemma retention_pass:
  assumes "db_ok hash d" "ids_unretired d" and inj: "inj_on hash (ev_dedupe_key ` set (db_events d))"
    and a: "ra_mode a = PERSONAL_LOCAL" "30 \<le> ra_days a" "1 \<le> ra_max_events a" "\<not> ra_dry_run a"
  obtains r d' where "apply_retention hash a d = Inr (r, d')" "db_ok hash d'" "ids_unretired d'"
    "set (db_events d') \<subseteq> set (db_events d)"
    "length (filter (prunable (cutoff_of a) d') (db_events d'))
       = length (filter (prunable (cutoff_of a) d) (db_events d)) - nat (ra_max_events a)"
proof -
  let ?n = "nat (ra_max_events a)"
  let ?es = "eligible_batch (cutoff_of a) ?n d"
  let ?ss = "inactive_to_remove (cutoff_of a) (ev_event_id ` set ?es) d"
  have u: "unique_ok d" using assms(1) by (simp add: db_ok_def schema_ok_def)
  have es: "set ?es \<subseteq> set (db_events d)" and p: "set ?es \<subseteq> set (filter (prunable (cutoff_of a) d) (db_events d))"
    using eligible_batch_prunable by auto
  note dist = eligible_batch_distinct [OF u, of "cutoff_of a" ?n]
  obtain d' where d': "prune hash (ra_now a) ?es ?ss d = Inr d'"
    using prune_total [OF assms(1,2) inj es dist] by blast
  have empty: "?es = [] \<longrightarrow> ?ss = []" by auto
  note facts = prune_facts [OF assms(1) es inj empty d']
  obtain r where run: "apply_retention hash a d = Inr (r, d')"
    using d' a by (simp add: apply_retention_Inr Let_def)
  have "ids_unretired d'"
    unfolding ids_unretired_def
  proof (rule equals0I)
    fix i assume "i \<in> event_ids d' \<inter> rt_event_id ` set (db_retired d')"
    then obtain e where e: "e \<in> set (db_events d)" "e \<notin> set ?es" "i = ev_event_id e"
      and "i \<in> rt_event_id ` set (db_retired d) \<or> i \<in> ev_event_id ` set ?es"
      by (auto simp: facts(2,4) tombstones_for_def)
    then show False
      using assms(2) event_by_id [OF u e(1)] es unfolding ids_unretired_def by blast
  qed
  moreover have "length (filter (prunable (cutoff_of a) d') (db_events d'))
       = length (filter (prunable (cutoff_of a) d) (db_events d)) - length ?es"
    unfolding facts(2)
  proof (rule filter_length_minus)
    show "distinct (db_events d)" using u by (auto simp: unique_ok_def distinct_map)
    show "distinct ?es" using dist(1) by (simp add: distinct_map)
    show "prunable (cutoff_of a) d' x = prunable (cutoff_of a) d x"
      if "x \<in> set (db_events d)" "x \<notin> set ?es" for x
      using that by (intro prunable_after [OF assms(1) es inj empty d' refl]) (simp add: facts(2))
  qed (rule p)
  ultimately show thesis
    using that [OF run facts(1)] by (auto simp: facts(2) eligible_batch_length)
qed

lemma retention_passes_drain:
  assumes "db_ok hash d" "ids_unretired d" "inj_on hash (ev_dedupe_key ` set (db_events d))"
    and "ra_mode a = PERSONAL_LOCAL" "30 \<le> ra_days a" "1 \<le> ra_max_events a" "\<not> ra_dry_run a"
    and "length (filter (prunable (cutoff_of a) d) (db_events d)) \<le> n * nat (ra_max_events a)"
  shows "\<exists>d'. retention_passes hash a n d = Inr d' \<and> db_ok hash d'
    \<and> filter (prunable (cutoff_of a) d') (db_events d') = []"
  using assms
proof (induction n arbitrary: d)
  case 0
  then show ?case by simp
next
  case (Suc n)
  obtain r d1 where run: "apply_retention hash a d = Inr (r, d1)" and ok: "db_ok hash d1" "ids_unretired d1"
    and sub: "set (db_events d1) \<subseteq> set (db_events d)"
    and len: "length (filter (prunable (cutoff_of a) d1) (db_events d1))
       = length (filter (prunable (cutoff_of a) d) (db_events d)) - nat (ra_max_events a)"
    using retention_pass [OF Suc.prems(1-7)] by blast
  have "inj_on hash (ev_dedupe_key ` set (db_events d1))"
    using Suc.prems(3) sub by (meson image_mono inj_on_subset)
  then have "\<exists>d'. retention_passes hash a n d1 = Inr d' \<and> db_ok hash d'
    \<and> filter (prunable (cutoff_of a) d') (db_events d') = []"
    using Suc.prems(4-8) len by (intro Suc.IH ok) auto
  with run show ?case by simp
qed

text \<open>
  Retention makes progress and never raises on a consistent store: as many runs as there are
  batches of prunable events leave none, whatever the batch size.
\<close>

theorem retention_drains:
  assumes "db_ok hash d" "ids_unretired d" "inj_on hash (ev_dedupe_key ` set (db_events d))"
    and "ra_mode a = PERSONAL_LOCAL" "30 \<le> ra_days a" "1 \<le> ra_max_events a" "\<not> ra_dry_run a"
    and "length (filter (prunable (cutoff_of a) d) (db_events d)) \<le> n * nat (ra_max_events a)"
  shows "\<exists>d'. retention_passes hash a n d = Inr d' \<and> db_ok hash d'
    \<and> filter (prunable (cutoff_of a) d') (db_events d') = []"
  by (rule retention_passes_drain [OF assms])

theorem retention_drains_witness:
  "\<exists>d'. retention_passes (\<lambda>k. k) sample_retention_args 1 sample_retention_db = Inr d'
     \<and> filter (prunable (days 10) d') (db_events d') = []"
proof -
  have "ids_unretired sample_retention_db" by (simp add: ids_unretired_def sample_retention_db_def)
  moreover have "length (filter (prunable (cutoff_of sample_retention_args) sample_retention_db)
      (db_events sample_retention_db)) \<le> 1"
    by (simp add: sample_retention_db_def)
  ultimately show ?thesis
    using retention_drains [OF sample_retention_db_ok, where a = sample_retention_args and n = 1]
    by (auto simp: sample_retention_args_def cutoff_of_def inj_on_def)
qed

section \<open>A match row that is never removed\<close>

text \<open>
  A row is a candidate only while its last event is in the batch, and is removed only when all
  events of its match are.  When a cutoff falls between the final whistle and a later fact that
  left the row alone, the whistle is pruned first; the later run that prunes the rest does not see
  the row any more, and no run ever will.
\<close>

definition whistle :: event where
  "whistle = (sample_event 1 FULLTIME 1 ''w'' 0 (sample_payload None))\<lparr>ev_ingested_at := hours 1\<rparr>"

definition late_fact :: event where
  "late_fact = (sample_event 2 GOAL 2 ''g'' 0 (sample_payload (Some ''home'')))\<lparr>ev_ingested_at := hours 2\<rparr>"

definition finished_match_db :: db where
  "finished_match_db = \<lparr>db_events = [whistle, late_fact],
     db_outbox = [(new_outbox_row ''t'' 0 whistle 1)\<lparr>ob_published_at := Some 5\<rparr>,
       (new_outbox_row ''t'' 0 late_fact 2)\<lparr>ob_published_at := Some 5\<rparr>],
     db_matches = [\<lparr>ms_match_id = ''m1'', ms_home_team = ''A'', ms_away_team = ''B'', ms_competition = ''C'',
       ms_home_score = 0, ms_away_score = 0, ms_status = ''fulltime'', ms_minute = 90, ms_phase = ''fulltime'',
       ms_version = 1, ms_last_event_id = Some 1, ms_last_event_type = Some (fet_value FULLTIME), ms_updated_at = hours 1\<rparr>],
     db_timeline = [timeline_row_of whistle 1, timeline_row_of late_fact 2],
     db_processed = [processed_row_of sample_clock whistle, processed_row_of sample_clock late_fact],
     db_retired = [], db_demo = None, db_connections = [], db_checkpoints = [],
     db_next_outbox = 3, db_next_cursor = 3\<rparr>"

theorem finished_match_row_leaks:
  "case apply_retention (\<lambda>k. k) (sample_retention_args\<lparr>ra_now := days 30 + minutes 90\<rparr>) finished_match_db of
     Inl _ \<Rightarrow> False
   | Inr (r1, d1) \<Rightarrow>
       (case apply_retention (\<lambda>k. k) (sample_retention_args\<lparr>ra_now := days 60\<rparr>) d1 of
          Inl _ \<Rightarrow> False
        | Inr (r2, d2) \<Rightarrow> db_events d2 = [] \<and> map ms_match_id (db_matches d2) = [''m1''])"
  by code_simp

end
