(* ===== verification/Purge.thy ===== *)
theory Purge
  imports Config Storage
begin

text \<open>
  \<open>backend/app/maintenance/purge.py\<close>: the deletion of personal data, and the blanking of provider
  values in the local configuration file.  Deleting the broker topic is a call of the Kafka client:
  whether it raises is a parameter.  A file is \<open>None\<close> when it does not exist, else its text as
  Python reads it in text mode, where a line ends in a newline character only.
\<close>

section \<open>The configuration file\<close>

definition LOCAL_PROVIDER_CONFIG_KEYS :: "string list" where
  "LOCAL_PROVIDER_CONFIG_KEYS =
     [''API_FOOTBALL_KEY'', ''SPOTIFY_CLIENT_ID'', ''SPOTIFY_CLIENT_SECRET'', ''SPOTIFY_REDIRECT_URI'',
      ''GITHUB_OWNER'', ''GITHUB_TOKEN'', ''GITHUB_WEBHOOK_SECRET'', ''GITHUB_WEBHOOK_ALLOWED_HOSTS'',
      ''GOOGLE_CLIENT_ID'', ''GOOGLE_CLIENT_SECRET'', ''GOOGLE_REDIRECT_URI'', ''WEATHER_LATITUDE'',
      ''WEATHER_LONGITUDE'', ''WEATHER_TIMEZONE'', ''CREDENTIAL_ENCRYPTION_KEY'']"

text \<open>
  \<open>splitlines(keepends=True)\<close>: the line boundaries of \<open>str\<close> among 8-bit characters.  In text mode
  no carriage return is left in the text.
\<close>

definition is_break :: "char \<Rightarrow> bool" where
  "is_break c = (let n = (of_char c :: nat) in n \<in> {10, 11, 12, 13, 28, 29, 30, 133})"

fun splitlines :: "string \<Rightarrow> string list" where
  "splitlines [] = []"
| "splitlines (c # s) =
     (if is_break c then [c] # splitlines s
      else (case splitlines s of
          [] \<Rightarrow> [[c]]
        | l # ls \<Rightarrow> (c # l) # ls))"

definition is_newline :: "char \<Rightarrow> bool" where
  "is_newline c = (let n = (of_char c :: nat) in n = 10 \<or> n = 13)"

definition line_content :: "string \<Rightarrow> string" where
  "line_content l = rev (dropWhile is_newline (rev l))"

definition line_end :: "string \<Rightarrow> string" where
  "line_end l = drop (length (line_content l)) l"

definition lstrip :: "string \<Rightarrow> string" where
  "lstrip s = dropWhile is_space s"

definition is_assignment :: "string \<Rightarrow> bool" where
  "is_assignment content = (CHR ''='' \<in> set content \<and> \<not> startswith (lstrip content) ''#'')"

definition assigned_name :: "string \<Rightarrow> string" where
  "assigned_name content = strip (takeWhile (\<lambda>c. c \<noteq> CHR ''='') content)"

definition is_provider_line :: "string \<Rightarrow> bool" where
  "is_provider_line l =
     (is_assignment (line_content l) \<and> assigned_name (line_content l) \<in> set LOCAL_PROVIDER_CONFIG_KEYS)"

definition clean_line :: "string \<Rightarrow> string" where
  "clean_line l =
     (if is_provider_line l then assigned_name (line_content l) @ ''='' @ line_end l else l)"

definition clear_local_provider_config_file :: "string option \<Rightarrow> bool \<times> string option" where
  "clear_local_provider_config_file file = (case file of
      None \<Rightarrow> (False, None)
    | Some text \<Rightarrow>
        (let lines = splitlines text; changed = list_ex is_provider_line lines
         in (changed, Some (if changed then concat (map clean_line lines) else text))))"

section \<open>Lines of a file\<close>

fun lines_ok :: "string list \<Rightarrow> bool" where
  "lines_ok [] = True"
| "lines_ok (l # ls) \<longleftrightarrow> l \<noteq> [] \<and> (\<forall>c \<in> set (butlast l). \<not> is_break c)
     \<and> (ls \<noteq> [] \<longrightarrow> is_break (last l)) \<and> lines_ok ls"

lemma splitlines_eq_Nil [simp]: "splitlines s = [] \<longleftrightarrow> s = []"
  by (cases s) (auto split: list.splits)

lemma splitlines_ok: "lines_ok (splitlines s)"
  by (induction s) (auto split: list.splits)

lemma concat_splitlines: "concat (splitlines s) = s"
  by (induction s) (auto split: list.splits)

lemma splitlines_line:
  assumes "\<forall>c \<in> set b. \<not> is_break c"
  shows "is_break c \<Longrightarrow> splitlines (b @ c # s) = (b @ [c]) # splitlines s"
    and "b \<noteq> [] \<Longrightarrow> splitlines b = [b]"
proof -
  show "is_break c \<Longrightarrow> splitlines (b @ c # s) = (b @ [c]) # splitlines s"
    using assms by (induction b) auto
  show "b \<noteq> [] \<Longrightarrow> splitlines b = [b]"
    using assms
  proof (induction b)
    case (Cons a b)
    then show ?case by (cases "b = []") auto
  qed simp
qed

lemma splitlines_concat: "lines_ok ls \<Longrightarrow> splitlines (concat ls) = ls"
proof (induction ls)
  case (Cons l ls)
  then obtain b c where l: "l = b @ [c]" and b: "\<forall>x \<in> set b. \<not> is_break x"
    by (cases l rule: rev_cases) auto
  show ?case
  proof (cases "is_break c")
    case True
    with Cons l b show ?thesis by (simp add: splitlines_line(1))
  next
    case False
    then have "ls = []" using Cons.prems l by auto
    moreover have "splitlines l = [l]"
      using b False by (intro splitlines_line(2)) (auto simp: l)
    ultimately show ?thesis by simp
  qed
qed simp

text \<open>Text whose only line boundary is the newline character.\<close>

definition newline_text :: "string \<Rightarrow> bool" where
  "newline_text s \<longleftrightarrow> (\<forall>c \<in> set s. is_break c \<longrightarrow> c = CHR 0x0A)"

lemma newline_text_append [simp]: "newline_text (s @ t) \<longleftrightarrow> newline_text s \<and> newline_text t"
  by (auto simp: newline_text_def)

lemma is_newline_break: "is_newline c \<Longrightarrow> is_break c"
  by (auto simp: is_newline_def is_break_def Let_def)

lemma line_parts:
  assumes "l \<noteq> []" "\<forall>c \<in> set (butlast l). \<not> is_break c" "newline_text l"
  shows "line_content l @ line_end l = l"
    and "\<forall>c \<in> set (line_content l). \<not> is_break c"
    and "line_end l = (if is_break (last l) then [CHR 0x0A] else [])"
proof -
  obtain b c where l: "l = b @ [c]" using assms(1) by (cases l rule: rev_cases) auto
  have nb: "\<forall>x \<in> set b. \<not> is_newline x" using assms(2) is_newline_break by (auto simp: l)
  have drop: "dropWhile is_newline (rev b) = rev b"
    using nb by (cases b rule: rev_cases) auto
  show "line_content l @ line_end l = l"
    by (metis append_take_drop_id line_content_def line_end_def rev_rev_ident takeWhile_dropWhile_id
        take_is_prefix append_eq_conv_conj rev_append)
  show "\<forall>c \<in> set (line_content l). \<not> is_break c"
    "line_end l = (if is_break (last l) then [CHR 0x0A] else [])"
  proof -
    have nl: "is_newline (CHR 0x0A)" by (simp add: is_newline_def)
    show "\<forall>x \<in> set (line_content l). \<not> is_break x"
      "line_end l = (if is_break (last l) then [CHR 0x0A] else [])"
      using assms(2,3) drop is_newline_break [of c] nl
      by (cases "is_break c"; auto simp: l line_content_def line_end_def newline_text_def)+
  qed
qed

lemma clean_line_ok:
  assumes "lines_ok ls" "newline_text (concat ls)"
  shows "lines_ok (map clean_line ls)" and "newline_text (concat (map clean_line ls))"
proof -
  have name: "set (assigned_name s) \<subseteq> set s" for s
    by (auto simp: assigned_name_def strip_def dest!: set_dropWhileD dest: set_takeWhileD)
  have eq: "\<not> is_break (CHR ''='')" and nl: "is_break (CHR 0x0A)" by (simp_all add: is_break_def)
  have step: "clean_line l \<noteq> [] \<and> (\<forall>c \<in> set (butlast (clean_line l)). \<not> is_break c)
      \<and> (is_break (last l) \<longrightarrow> is_break (last (clean_line l))) \<and> newline_text (clean_line l)"
    if l: "l \<noteq> []" "\<forall>c \<in> set (butlast l). \<not> is_break c" "newline_text l" for l
  proof (cases "is_provider_line l")
    case True
    have n: "\<forall>c \<in> set (assigned_name (line_content l)). \<not> is_break c"
      using line_parts(2) [OF l] name by blast
    show ?thesis
      using True n eq nl line_parts(3) [OF l]
      by (cases "is_break (last l)")
        (auto simp: clean_line_def newline_text_def butlast_append)
  next
    case False
    with l show ?thesis by (simp add: clean_line_def)
  qed
  have "lines_ok (map clean_line ls) \<and> newline_text (concat (map clean_line ls))"
    using assms
  proof (induction ls)
    case (Cons l ls)
    then have l: "lines_ok ls" "newline_text (concat ls)" "l \<noteq> []" "newline_text l"
      "\<forall>c \<in> set (butlast l). \<not> is_break c" "ls \<noteq> [] \<longrightarrow> is_break (last l)" by simp_all
    then show ?case using Cons.IH step [OF l(3,5,4)] by simp
  qed (simp add: newline_text_def)
  then show "lines_ok (map clean_line ls)" "newline_text (concat (map clean_line ls))" by blast+
qed

text \<open>Cleaning a cleaned line does nothing, and it keeps no value.\<close>

lemma clean_line_parts:
  assumes "l \<noteq> []" "\<forall>c \<in> set (butlast l). \<not> is_break c" "newline_text l" "is_provider_line l"
  shows "line_content (clean_line l) = assigned_name (line_content l) @ ''=''"
    and "line_end (clean_line l) = line_end l"
proof -
  have nl: "is_newline (CHR 0x0A)" "\<not> is_newline (CHR ''='')" by (simp_all add: is_newline_def)
  show "line_content (clean_line l) = assigned_name (line_content l) @ ''=''"
    "line_end (clean_line l) = line_end l"
    using assms(4) line_parts(3) [OF assms(1-3)] nl
    by (auto simp: clean_line_def line_content_def line_end_def)
qed

lemma strip_strip [simp]: "strip (strip s) = strip s"
proof -
  let ?u = "dropWhile is_space s"
  have u: "?u = [] \<or> \<not> is_space (hd ?u)"
    using dropWhile_eq_self_iff [of is_space ?u] by simp
  have pre: "prefix (strip s) ?u"
    unfolding strip_def by (metis prefixI rev_append rev_rev_ident takeWhile_dropWhile_id)
  have "dropWhile is_space (strip s) = strip s"
    unfolding dropWhile_eq_self_iff using u pre
    by (cases "strip s"; cases ?u) (simp_all add: prefix_def)
  moreover have "dropWhile is_space (rev (strip s)) = rev (strip s)"
    by (simp add: strip_def)
  ultimately show ?thesis by (simp add: strip_def [of "strip s"])
qed

lemma assigned_name_no_eq: "CHR ''='' \<notin> set (assigned_name s)"
  by (auto simp: assigned_name_def strip_def dest!: set_dropWhileD dest: set_takeWhileD)

lemma assigned_name_again: "assigned_name (assigned_name s @ ''='') = assigned_name s"
proof -
  have "takeWhile (\<lambda>c. c \<noteq> CHR ''='') (assigned_name s @ ''='') = assigned_name s"
    using assigned_name_no_eq [of s] by (subst takeWhile_append2) auto
  then show ?thesis by (simp add: assigned_name_def [of "assigned_name s @ ''=''"]) (simp add: assigned_name_def)
qed

lemma clean_line_again:
  assumes "l \<noteq> []" "\<forall>c \<in> set (butlast l). \<not> is_break c" "newline_text l"
  shows "clean_line (clean_line l) = clean_line l"
proof (cases "is_provider_line l")
  case True
  note parts = clean_line_parts [OF assms True]
  show ?thesis
    by (cases "is_provider_line (clean_line l)")
      (simp_all add: clean_line_def [of "clean_line l"] parts assigned_name_again, simp add: clean_line_def True)
qed (simp add: clean_line_def)

lemma lines_ok_mem:
  "lines_ok ls \<Longrightarrow> l \<in> set ls \<Longrightarrow> l \<noteq> [] \<and> (\<forall>c \<in> set (butlast l). \<not> is_break c)"
  by (induction ls) auto

lemma map_clean_id: "\<not> list_ex is_provider_line ls \<Longrightarrow> map clean_line ls = ls"
  by (induction ls) (auto simp: clean_line_def)

lemma clear_config_lines:
  assumes "newline_text text" "clear_local_provider_config_file (Some text) = (changed, Some text')"
  shows "splitlines text' = map clean_line (splitlines text)" and "newline_text text'"
proof -
  have text': "text' = concat (map clean_line (splitlines text))"
    using assms(2) map_clean_id [of "splitlines text"]
    by (auto simp: clear_local_provider_config_file_def Let_def concat_splitlines split: if_splits)
  have ok: "lines_ok (splitlines text)" "newline_text (concat (splitlines text))"
    using assms(1) by (simp_all add: splitlines_ok concat_splitlines)
  show "splitlines text' = map clean_line (splitlines text)" "newline_text text'"
    unfolding text' using clean_line_ok [OF ok] by (simp_all add: splitlines_concat)
qed

text \<open>
  Blanking the configuration file removes every provider value and nothing else.  In a file
  whose lines end in newlines the lines of the result correspond one to one to those of the file: a line that
  assigns a provider key becomes that key with an empty value, every other line is unchanged; and
  blanking the result again leaves it as it is.
\<close>

theorem clear_config_blanks:
  assumes "newline_text text" "clear_local_provider_config_file (Some text) = (changed, Some text')"
  shows "list_all2 (\<lambda>l l'. if is_provider_line l
      then line_content l' = assigned_name (line_content l) @ ''='' else l' = l)
      (splitlines text) (splitlines text')
    \<and> (changed \<longleftrightarrow> list_ex is_provider_line (splitlines text))
    \<and> snd (clear_local_provider_config_file (Some text')) = Some text'"
proof -
  let ?ls = "splitlines text"
  note res = clear_config_lines [OF assms]
  have l: "l \<noteq> []" "\<forall>c \<in> set (butlast l). \<not> is_break c" "newline_text l" if "l \<in> set ?ls" for l
  proof -
    show "l \<noteq> []" "\<forall>c \<in> set (butlast l). \<not> is_break c"
      using lines_ok_mem [OF splitlines_ok that] by auto
    have "newline_text (concat ?ls)" using assms(1) by (simp add: concat_splitlines)
    with that show "newline_text l" by (auto simp: newline_text_def)
  qed
  have "list_all2 (\<lambda>l l'. if is_provider_line l
      then line_content l' = assigned_name (line_content l) @ ''='' else l' = l) ?ls (map clean_line ?ls)"
    using clean_line_parts(1) [OF l] by (auto simp: list_all2_map2 clean_line_def list.rel_refl_strong intro!: list.rel_refl_strong)
  moreover have "map clean_line (map clean_line ?ls) = map clean_line ?ls"
    using clean_line_again [OF l] by simp
  then have "concat (map clean_line (splitlines text')) = text'"
    using concat_splitlines [of text'] unfolding res(1) by metis
  then have "snd (clear_local_provider_config_file (Some text')) = Some text'"
    by (simp add: clear_local_provider_config_file_def Let_def)
  ultimately show ?thesis
    using assms(2) res(1) by (auto simp: clear_local_provider_config_file_def Let_def)
qed

section \<open>The purge\<close>

record purge_report =
  pu_dry_run :: bool
  pu_canonical_events :: nat
  pu_outbox_rows :: nat
  pu_timeline_rows :: nat
  pu_processed_event_rows :: nat
  pu_retired_event_tombstones :: nat
  pu_match_state_rows :: nat
  pu_provider_checkpoints :: nat
  pu_provider_connections :: nat
  pu_local_provider_configuration_cleared :: bool
  pu_broker_topic :: string
  pu_broker_history_deleted :: bool

record purge_args =
  pa_mode :: runtime_mode
  pa_kafka_topic :: string
  pa_include_provider_connections :: bool
  pa_dry_run :: bool
  pa_broker_topic :: "string option"
  pa_delete_broker_history :: bool
  pa_clear_local_provider_configuration :: bool

definition purge_tables :: "bool \<Rightarrow> db \<Rightarrow> db" where
  "purge_tables include_connections d =
     (let d1 = delete_events (\<lambda>_. True) d;
          d2 = d1\<lparr>db_matches := [], db_checkpoints := [], db_retired := [],
                 db_demo := map_option (\<lambda>_. None) (db_demo d1)\<rparr>
      in if include_connections then d2\<lparr>db_connections := []\<rparr> else d2)"

definition purge_topic :: "purge_args \<Rightarrow> string" where
  "purge_topic a = (if truthy (pa_broker_topic a) then the (pa_broker_topic a) else pa_kafka_topic a)"

text \<open>
  The state is the database, the configuration file and the broker's topics; \<open>delete_topic\<close> is what
  the broker client does to the topics, or the exception it raises.
\<close>

record purge_state =
  ps_db :: db
  ps_file :: "string option"
  ps_topics :: "string list"

definition purge_personal_data ::
  "(string \<Rightarrow> string list \<Rightarrow> string list result) \<Rightarrow> purge_args \<Rightarrow> purge_state \<Rightarrow> (purge_report \<times> purge_state) result" where
  "purge_personal_data delete_topic a s =
     bind_r (ensure (pa_mode a = PERSONAL_LOCAL)
       (RuntimeError ''personal-data purge is unavailable in PUBLIC_DEMO mode'')) (\<lambda>_.
     let d = ps_db s; topic = purge_topic a;
         report = (\<lambda>cleared. \<lparr>pu_dry_run = pa_dry_run a,
           pu_canonical_events = length (db_events d), pu_outbox_rows = length (db_outbox d),
           pu_timeline_rows = length (db_timeline d), pu_processed_event_rows = length (db_processed d),
           pu_retired_event_tombstones = length (db_retired d), pu_match_state_rows = length (db_matches d),
           pu_provider_checkpoints = length (db_checkpoints d),
           pu_provider_connections = (if pa_include_provider_connections a then length (db_connections d) else 0),
           pu_local_provider_configuration_cleared = cleared, pu_broker_topic = topic,
           pu_broker_history_deleted = (\<not> pa_dry_run a \<and> pa_delete_broker_history a)\<rparr>)
     in if pa_dry_run a then Inr (report False, s)
        else
          bind_r (if pa_delete_broker_history a then delete_topic topic (ps_topics s) else Inr (ps_topics s)) (\<lambda>topics.
          let d' = purge_tables (pa_include_provider_connections a) d;
              config = (if pa_clear_local_provider_configuration a
                then clear_local_provider_config_file (ps_file s) else (False, ps_file s))
          in Inr (report (fst config), \<lparr>ps_db = d', ps_file = snd config, ps_topics = topics\<rparr>)))"

theorem clear_config_blanks_witness:
  "newline_text (''# x'' @ [CHR 0x0A] @ ''GITHUB_TOKEN=s'' @ [CHR 0x0A]) \<and>
   snd (clear_local_provider_config_file (Some (''# x'' @ [CHR 0x0A] @ ''GITHUB_TOKEN='' @ [CHR 0x0A])))
     = Some (''# x'' @ [CHR 0x0A] @ ''GITHUB_TOKEN='' @ [CHR 0x0A])"
proof -
  let ?t = "''# x'' @ [CHR 0x0A] @ ''GITHUB_TOKEN=s'' @ [CHR 0x0A]"
  have ok: "newline_text ?t" by (simp add: newline_text_def is_break_def)
  have "clear_local_provider_config_file (Some ?t)
      = (True, Some (''# x'' @ [CHR 0x0A] @ ''GITHUB_TOKEN='' @ [CHR 0x0A]))"
    by code_simp
  from clear_config_blanks [OF ok this] ok show ?thesis by simp
qed

section \<open>What a purge leaves\<close>

lemma delete_all_events:
  assumes "foreign_ok d"
  shows "db_events (delete_events (\<lambda>_. True) d) = []" "db_outbox (delete_events (\<lambda>_. True) d) = []"
    "db_timeline (delete_events (\<lambda>_. True) d) = []" "db_processed (delete_events (\<lambda>_. True) d) = []"
  using assms by (auto simp: foreign_ok_def delete_events_def Let_def filter_empty_conv)


definition sample_purge_args :: purge_args where
  "sample_purge_args = \<lparr>pa_mode = PERSONAL_LOCAL, pa_kafka_topic = ''t'', pa_include_provider_connections = False,
     pa_dry_run = False, pa_broker_topic = None, pa_delete_broker_history = True,
     pa_clear_local_provider_configuration = False\<rparr>"


text \<open>
  A line in a form that the settings loader accepts but the cleaner does not recognise keeps its
  value: the \<open>export\<close> prefix, and a key in lower case.
\<close>

theorem exported_value_survives:
  "clear_local_provider_config_file (Some (''export GITHUB_TOKEN=s'' @ [CHR 0x0A]))
     = (False, Some (''export GITHUB_TOKEN=s'' @ [CHR 0x0A]))
   \<and> clear_local_provider_config_file (Some ''github_token=s'') = (False, Some ''github_token=s'')"
  by code_simp

end
