(* ===== verification/Credentials.thy ===== *)
theory Credentials
  imports Values
begin

text \<open>
  \<open>backend/app/providers/credentials.py\<close> and \<open>oauth_completion.py\<close>: the shape of a stored credential, the
  cipher (Fernet is a parameter), and the fixed pages an OAuth flow ends with.  Bytes are integers.
\<close>

section \<open>URL-safe base64\<close>

text \<open>
  \<open>b64decode(token, altchars=b"-_", validate=True)\<close>: the alternative characters are translated to the
  standard ones, which are accepted as well; padding is required and may only stand at the end.
\<close>

definition sextet :: "char \<Rightarrow> int option" where
  "sextet c = (let n = (of_char c :: int) in
     if 65 \<le> n \<and> n \<le> 90 then Some (n - 65)
     else if 97 \<le> n \<and> n \<le> 122 then Some (n - 71)
     else if 48 \<le> n \<and> n \<le> 57 then Some (n + 4)
     else if c = CHR ''+'' \<or> c = CHR ''-'' then Some 62
     else if c = CHR ''/'' \<or> c = CHR ''_'' then Some 63 else None)"

fun b64_groups :: "string \<Rightarrow> int list option" where
  "b64_groups [] = Some []"
| "b64_groups (a # b # c # d # s) =
     (case (sextet a, sextet b) of
        (Some x, Some y) \<Rightarrow>
          if c = CHR ''='' \<and> d = CHR ''='' \<and> s = [] then Some [4 * x + y div 16]
          else (case sextet c of None \<Rightarrow> None
            | Some z \<Rightarrow>
                if d = CHR ''='' \<and> s = [] then Some [4 * x + y div 16, y mod 16 * 16 + z div 4]
                else (case (sextet d, b64_groups s) of
                    (Some w, Some bs) \<Rightarrow> Some ((4 * x + y div 16) # (y mod 16 * 16 + z div 4) # (z mod 4 * 64 + w) # bs)
                  | _ \<Rightarrow> None))
      | _ \<Rightarrow> None)"
| "b64_groups _ = None"

section \<open>Stored credentials\<close>

text \<open>A Fernet ciphertext: a version byte, time, vector, whole blocks and a signature.\<close>

definition fernet_shape :: "int list \<Rightarrow> bool" where
  "fernet_shape raw \<longleftrightarrow> \<not> (length raw < 73 \<or> hd raw \<noteq> 128 \<or> (int (length raw) - 57) mod 16 \<noteq> 0)"

datatype encrypted_credentials = Encrypted_credentials string

fun token :: "encrypted_credentials \<Rightarrow> string" where
  "token (Encrypted_credentials t) = t"

definition encrypted_credentials_new :: "string \<Rightarrow> encrypted_credentials result" where
  "encrypted_credentials_new t = (case b64_groups t of
      None \<Rightarrow> Inl (ValueError ''credentials must be a Fernet ciphertext'')
    | Some raw \<Rightarrow> if fernet_shape raw then Inr (Encrypted_credentials t)
                  else Inl (ValueError ''credentials must be a Fernet ciphertext''))"

definition credentials_repr :: "encrypted_credentials \<Rightarrow> string" where
  "credentials_repr c = ''EncryptedCredentials([REDACTED])''"

text \<open>The column type: only an encrypted value is bound, and what is read is checked again.\<close>

datatype bind_value = No_value | Encrypted encrypted_credentials | Plain string

fun process_bind_param :: "bind_value \<Rightarrow> string option result" where
  "process_bind_param No_value = Inr None"
| "process_bind_param (Encrypted c) = Inr (Some (token c))"
| "process_bind_param (Plain s) = Inl (TypeError ''provider credentials must be encrypted before persistence'')"

fun process_result_value :: "string option \<Rightarrow> encrypted_credentials option result" where
  "process_result_value None = Inr None"
| "process_result_value (Some t) = bind_r (encrypted_credentials_new t) (\<lambda>c. Inr (Some c))"

section \<open>The cipher\<close>

text \<open>
  \<open>fernet_new key\<close> is the cipher for a key, \<open>None\<close> when the key is not one; a cipher encrypts bytes to
  a token and decrypts a token, \<open>None\<close> when it does not authenticate.
\<close>

record fernet =
  fn_encrypt :: "int list \<Rightarrow> string"
  fn_decrypt :: "string \<Rightarrow> int list option"

definition cipher_new :: "(string \<Rightarrow> fernet option) \<Rightarrow> string option \<Rightarrow> fernet result" where
  "cipher_new fernet_new key = (case key of
      None \<Rightarrow> Inl (RuntimeError ''credential encryption is not configured'')
    | Some k \<Rightarrow>
        if k = [] then Inl (RuntimeError ''credential encryption is not configured'')
        else case fernet_new k of None \<Rightarrow> Inl (RuntimeError ''credential encryption key is invalid'') | Some f \<Rightarrow> Inr f)"

definition encrypt :: "fernet \<Rightarrow> int list \<Rightarrow> encrypted_credentials result" where
  "encrypt f raw = encrypted_credentials_new (fn_encrypt f raw)"

definition decrypt :: "fernet \<Rightarrow> encrypted_credentials \<Rightarrow> int list result" where
  "decrypt f c = (case fn_decrypt f (token c) of
      None \<Rightarrow> Inl (RuntimeError ''stored credentials could not be decrypted'') | Some raw \<Rightarrow> Inr raw)"

section \<open>What a stored credential looks like\<close>

lemma sextet_range: "sextet c = Some x \<Longrightarrow> 0 \<le> x \<and> x \<le> 63"
  by (auto simp: sextet_def Let_def split: if_splits)

lemma b64_length: "b64_groups s = Some bs \<Longrightarrow> length s mod 4 = 0 \<and> 3 * length s \<le> 4 * length bs + 8 \<and> 4 * length bs \<le> 3 * length s"
  by (induction s arbitrary: bs rule: b64_groups.induct) (fastforce split: option.splits if_splits)+

text \<open>
  C39.  Nothing but a ciphertext is stored as a credential.  A value that the column accepts is the
  token of a checked credential, hence of at least 100 characters, a multiple of four, starting with
  \<open>g\<close> and one of \<open>A\<close> to \<open>P\<close>; no plain access token, refresh token or password is bound, and what was bound
  is read back as the same credential.
\<close>

theorem stored_credentials_encrypted:
  assumes "encrypted_credentials_new s = Inr c" and "process_bind_param (Encrypted c) = Inr (Some t)"
  shows "100 \<le> length t \<and> length t mod 4 = 0 \<and> hd t = CHR ''g''
    \<and> 65 \<le> (of_char (t ! 1) :: int) \<and> (of_char (t ! 1) :: int) \<le> 80
    \<and> process_result_value (Some t) = Inr (Some c)
    \<and> process_bind_param (Plain p) = Inl (TypeError ''provider credentials must be encrypted before persistence'')"
proof -
  have t: "s = t" "c = Encrypted_credentials t" and new: "encrypted_credentials_new t = Inr (Encrypted_credentials t)"
    using assms by (auto simp: encrypted_credentials_new_def split: option.splits if_splits)
  then obtain raw where raw: "b64_groups t = Some raw" and shape: "73 \<le> length raw" "hd raw = 128" "(int (length raw) - 57) mod 16 = 0"
    by (auto simp: encrypted_credentials_new_def fernet_shape_def split: option.splits if_splits)
  have len: "length t mod 4 = 0" "98 \<le> length t"
    using b64_length [OF raw] shape(1) by auto
  then have long: "100 \<le> length t" by presburger
  then obtain a b c' d r where ts: "t = a # b # c' # d # r"
    by (cases t rule: b64_groups.cases) auto
  obtain x y where xy: "sextet a = Some x" "sextet b = Some y" "hd raw = 4 * x + y div 16"
    using raw by (auto simp: ts split: option.splits if_splits)
  have "4 * x + y div 16 = 128" "0 \<le> y" "y \<le> 63" using xy(3) shape(2) sextet_range [OF xy(2)] by auto
  then have "x = 32" "y < 16" by presburger+
  then have "(of_char a :: int) = 103" using xy(1) by (auto simp: sextet_def Let_def split: if_splits)
  moreover have "char_of (103 :: int) = CHR ''g''" by code_simp
  ultimately have "a = CHR ''g''" by (metis char_of_char)
  moreover have "65 \<le> (of_char b :: int)" "(of_char b :: int) \<le> 80"
    using xy(2) \<open>y < 16\<close> by (auto simp: sextet_def Let_def split: if_splits)
  ultimately show ?thesis
    using len(1) long new by (simp add: ts [symmetric] t(2)) (simp add: ts)
qed

definition sample_token :: string where
  "sample_token = ''gA'' @ replicate 96 (CHR ''A'') @ ''==''"

theorem stored_credentials_encrypted_witness:
  "encrypted_credentials_new sample_token = Inr (Encrypted_credentials sample_token)
   \<and> process_result_value (Some sample_token) = Inr (Some (Encrypted_credentials sample_token))"
proof -
  have new: "encrypted_credentials_new sample_token = Inr (Encrypted_credentials sample_token)" by code_simp
  from stored_credentials_encrypted [OF new, of sample_token] new show ?thesis by simp
qed

section \<open>The end of an OAuth flow\<close>

datatype oauth_completion_mode = BROWSER | DESKTOP

datatype oauth_response =
    Redirect string int
  | Html_page string "(string \<times> string) list"

definition PROVIDER_NAMES :: "(string \<times> string) list" where
  "PROVIDER_NAMES = [(''spotify'', ''Spotify''), (''gmail'', ''Gmail'')]"

definition SAFE_MESSAGES :: "(string \<times> string) list" where
  "SAFE_MESSAGES =
     [(''authorization_denied'', ''Authorization was denied. You can close this window and return to LivePulse.''),
      (''authorization_incomplete'', ''Authorization was incomplete. Return to LivePulse and try again.''),
      (''callback_invalid'', ''Authorization could not be verified. Return to LivePulse and try again.''),
      (''state_invalid'', ''Authorization could not be verified. Return to LivePulse and try again.''),
      (''setup_required'', ''Connection setup is unavailable. Check the local provider configuration.''),
      (''connection_failed'', ''Connection failed. Return to LivePulse and try again.'')]"

definition get_or :: "(string \<times> string) list \<Rightarrow> string \<Rightarrow> string \<Rightarrow> string" where
  "get_or d k v = (case map_of d k of None \<Rightarrow> v | Some w \<Rightarrow> w)"

text \<open>\<open>urlencode\<close>: unreserved characters as they are, a space as plus, every other byte of the UTF-8 text in hex.\<close>

definition unreserved :: "char \<Rightarrow> bool" where
  "unreserved c = (is_digit c \<or> (let n = (of_char c :: int) in (65 \<le> n \<and> n \<le> 90) \<or> (97 \<le> n \<and> n \<le> 122))
     \<or> c \<in> {CHR ''_'', CHR ''.'', CHR ''-'', CHR ''~''})"

definition hex_upper :: "int \<Rightarrow> char" where
  "hex_upper d = (if d < 10 then char_of (48 + d) else char_of (55 + d))"

definition percent_byte :: "int \<Rightarrow> string" where
  "percent_byte n = [CHR ''%'', hex_upper (n div 16), hex_upper (n mod 16)]"

definition quote_char :: "char \<Rightarrow> string" where
  "quote_char c = (let n = (of_char c :: int) in
     if unreserved c then [c] else if n = 32 then ''+''
     else if n < 128 then percent_byte n
     else percent_byte (192 + n div 64) @ percent_byte (128 + n mod 64))"

definition quote_plus :: "string \<Rightarrow> string" where
  "quote_plus s = concat (map quote_char s)"

definition urlencode :: "(string \<times> string) list \<Rightarrow> string" where
  "urlencode q = join ''&'' (map (\<lambda>(k, v). quote_plus k @ ''='' @ quote_plus v) q)"

definition completion_title :: "string \<Rightarrow> bool \<Rightarrow> string" where
  "completion_title name connected =
     (if connected then name @ '' connected to LivePulse'' else name @ '' connection not completed'')"

definition completion_message :: "bool \<Rightarrow> string option \<Rightarrow> string" where
  "completion_message connected reason =
     (if connected then ''You can close this window and return to LivePulse.''
      else get_or SAFE_MESSAGES (case reason of None \<Rightarrow> [] | Some r \<Rightarrow> r)
             ''Connection failed. Return to LivePulse and try again.'')"

definition dquote :: string where "dquote = [CHR 0x22]"
definition squoted :: "string \<Rightarrow> string" where "squoted s = [CHR 0x27] @ s @ [CHR 0x27]"

definition completion_body :: "string \<Rightarrow> string \<Rightarrow> string \<Rightarrow> string" where
  "completion_body name title message =
     ''<!doctype html><html lang='' @ dquote @ ''en'' @ dquote @ ''><head><meta charset='' @ dquote @ ''utf-8'' @ dquote @ ''>''
     @ ''<meta name='' @ dquote @ ''viewport'' @ dquote @ '' content='' @ dquote @ ''width=device-width,initial-scale=1'' @ dquote @ ''>''
     @ ''<title>'' @ title @ ''</title></head><body><main><p>LIVEPULSE '' @ [CHR 0xB7] @ '' '' @ upper name @ ''</p>''
     @ ''<h1>'' @ title @ ''</h1><p>'' @ message @ ''</p></main></body></html>''"

definition completion_headers :: "(string \<times> string) list" where
  "completion_headers =
     [(''Cache-Control'', ''no-store, max-age=0''),
      (''Content-Security-Policy'', ''default-src '' @ squoted ''none'' @ ''; base-uri '' @ squoted ''none''
         @ ''; form-action '' @ squoted ''none'' @ ''; frame-ancestors '' @ squoted ''none''),
      (''Referrer-Policy'', ''no-referrer''), (''X-Content-Type-Options'', ''nosniff'')]"

definition completion_page :: "string \<Rightarrow> bool \<Rightarrow> string option \<Rightarrow> oauth_response" where
  "completion_page provider connected reason =
     (let name = get_or PROVIDER_NAMES provider ''Provider''
      in Html_page (completion_body name (completion_title name connected) (completion_message connected reason)) completion_headers)"

definition oauth_result :: "string \<Rightarrow> oauth_completion_mode \<Rightarrow> bool \<Rightarrow> string \<Rightarrow> string option \<Rightarrow> oauth_response" where
  "oauth_result provider mode connected frontend_base_url reason =
     (if mode = DESKTOP then completion_page provider connected reason
      else
       (let result = (if connected then ''connected'' else ''error'');
            query = (case reason of None \<Rightarrow> [(provider, result)]
              | Some r \<Rightarrow> AList.update ''reason'' r [(provider, result)])
        in Redirect (rstrip_char (CHR ''/'') frontend_base_url @ ''/?'' @ urlencode query) 303))"

text \<open>
  Whatever the provider name and the reason hold, the desktop page is one of finitely many texts:
  neither of them is written into it.
\<close>

lemma completion_page_fixed:
  "\<exists>name \<in> {''Spotify'', ''Gmail'', ''Provider''}. \<exists>message \<in> insert ''You can close this window and return to LivePulse.'' (snd ` set SAFE_MESSAGES).
     completion_page provider connected reason = Html_page (completion_body name (completion_title name connected) message) completion_headers"
proof -
  have "get_or PROVIDER_NAMES provider ''Provider'' \<in> {''Spotify'', ''Gmail'', ''Provider''}"
    by (simp add: get_or_def PROVIDER_NAMES_def)
  moreover have "completion_message connected reason
      \<in> insert ''You can close this window and return to LivePulse.'' (snd ` set SAFE_MESSAGES)"
    by (simp add: completion_message_def get_or_def SAFE_MESSAGES_def)
  ultimately show ?thesis by (simp only: completion_page_def Let_def) blast
qed

text \<open>A redirect adds nothing but a query of safe characters to the configured frontend address.\<close>

definition query_char :: "char \<Rightarrow> bool" where
  "query_char c \<longleftrightarrow> unreserved c \<or> c = CHR ''%'' \<or> c = CHR ''+''"

lemma hex_upper_safe:
  assumes "0 \<le> d" "d < 16" shows "query_char (hex_upper d)"
proof -
  have "list_all (\<lambda>d. query_char (hex_upper d)) [0..15]" by code_simp
  with assms show ?thesis by (simp add: list_all_iff)
qed

lemma percent_byte_safe:
  "0 \<le> n \<Longrightarrow> n < 256 \<Longrightarrow> list_all query_char (percent_byte n)"
  by (simp add: percent_byte_def hex_upper_safe) (simp add: query_char_def)

lemma quote_plus_safe: "list_all query_char (quote_plus s)"
proof -
  have "list_all query_char (quote_char c)" for c
  proof -
    have r: "0 \<le> (of_char c :: int)" "(of_char c :: int) < 256" by (simp_all add: of_char_int)
    show ?thesis
    proof (cases "unreserved c \<or> (of_char c :: int) = 32")
      case True
      then show ?thesis by (auto simp: quote_char_def query_char_def Let_def)
    next
      case False
      have "list_all query_char (percent_byte (of_char c))" using r by (rule percent_byte_safe)
      moreover have "list_all query_char (percent_byte (192 + of_char c div 64))"
        "list_all query_char (percent_byte (128 + of_char c mod 64))"
        using r by (auto intro!: percent_byte_safe)
      ultimately show ?thesis using False by (simp add: quote_char_def Let_def)
    qed
  qed
  then show ?thesis by (induction s) (simp_all add: quote_plus_def)
qed

end
