(* ===== verification/Provider_Health.thy ===== *)
theory Provider_Health
  imports Config Football_Models
begin

text \<open>
  \<open>backend/app/providers/status.py\<close>: the registry of provider health.  The registry is a dictionary
  from provider names to their last state; an operation is given the time its clock shows.
\<close>

datatype provider_status =
    Ps_healthy | Ps_degraded | Ps_stale | Ps_connecting | Ps_resyncing | Ps_rate_limited
  | Ps_auth_failure | Ps_provider_failure | Ps_unavailable | Ps_disconnected | Ps_unknown

definition PROVIDER_IDS :: "string list" where
  "PROVIDER_IDS = [''football'', ''spotify'', ''github'', ''gmail'', ''weather'']"

record provider_health =
  ph_provider :: string
  ph_status :: provider_status
  ph_configured :: bool
  ph_checked_at :: "instant option"
  ph_last_success_at :: "instant option"
  ph_last_failure_at :: "instant option"
  ph_last_observation_at :: "instant option"
  ph_last_message_observation_at :: "instant option"
  ph_consecutive_failures :: int
  ph_rate_limited_until :: "instant option"
  ph_detail_code :: string

definition code_text_char :: "char \<Rightarrow> bool" where
  "code_text_char c = (is_digit c \<or> (let n = (of_char c :: int) in 97 \<le> n \<and> n \<le> 122)
     \<or> c \<in> {CHR ''_'', CHR ''.'', CHR ''-''})"

text \<open>The pattern of a detail code, in the model and in the scheduler's \<open>_safe_error_code\<close>.\<close>

definition detail_code_ok :: "string \<Rightarrow> bool" where
  "detail_code_ok s \<longleftrightarrow> s \<noteq> [] \<and> length s \<le> 64 \<and> list_all code_text_char s"

definition opt_aware :: "py_datetime option \<Rightarrow> instant option result" where
  "opt_aware t = (case t of None \<Rightarrow> Inr None
     | Some v \<Rightarrow> bind_r (require_aware ''provider health timestamps must be timezone-aware'' v) (\<lambda>i. Inr (Some i)))"

type_synonym health_registry = "(string \<times> provider_health) list"

record report_args =
  rp_configured :: bool
  rp_succeeded :: bool
  rp_observed :: bool
  rp_failed :: bool
  rp_rate_limited_until :: "py_datetime option"
  rp_last_message_observation_at :: "py_datetime option"

definition report_defaults :: report_args where
  "report_defaults = \<lparr>rp_configured = True, rp_succeeded = False, rp_observed = False, rp_failed = False,
     rp_rate_limited_until = None, rp_last_message_observation_at = None\<rparr>"

definition failures_of :: "health_registry \<Rightarrow> string \<Rightarrow> int" where
  "failures_of reg provider = (case map_of reg provider of None \<Rightarrow> 0 | Some h \<Rightarrow> ph_consecutive_failures h)"

definition kept :: "(provider_health \<Rightarrow> 'a option) \<Rightarrow> health_registry \<Rightarrow> string \<Rightarrow> 'a option" where
  "kept f reg provider = (case map_of reg provider of None \<Rightarrow> None | Some h \<Rightarrow> f h)"

definition report :: "instant \<Rightarrow> string \<Rightarrow> provider_status \<Rightarrow> string \<Rightarrow> report_args \<Rightarrow> health_registry
    \<Rightarrow> (provider_health \<times> health_registry) result" where
  "report now provider status code a reg =
     bind_r (ensure (provider_id_ok provider) (ValidationError ''provider'')) (\<lambda>_.
     bind_r (ensure (detail_code_ok code) (ValidationError ''detail_code'')) (\<lambda>_.
     bind_r (opt_aware (rp_rate_limited_until a)) (\<lambda>until.
     bind_r (opt_aware (rp_last_message_observation_at a)) (\<lambda>message.
      (let state = \<lparr>ph_provider = provider, ph_status = status, ph_configured = rp_configured a,
             ph_checked_at = Some now,
             ph_last_success_at = (if rp_succeeded a then Some now else kept ph_last_success_at reg provider),
             ph_last_failure_at = (if rp_failed a then Some now else kept ph_last_failure_at reg provider),
             ph_last_observation_at = (if rp_observed a then Some now else kept ph_last_observation_at reg provider),
             ph_last_message_observation_at =
               (if message \<noteq> None then message else kept ph_last_message_observation_at reg provider),
             ph_consecutive_failures = (if rp_failed a then failures_of reg provider + 1 else 0),
             ph_rate_limited_until = until, ph_detail_code = code\<rparr>
       in Inr (state, AList.update provider state reg))))))"

definition success :: "instant \<Rightarrow> string \<Rightarrow> bool \<Rightarrow> bool \<Rightarrow> health_registry \<Rightarrow> (provider_health \<times> health_registry) result" where
  "success now provider observed configured reg =
     (if \<not> configured
      then report now provider Ps_disconnected ''configuration_missing'' (report_defaults\<lparr>rp_configured := False\<rparr>) reg
      else report now provider Ps_healthy (if observed then ''poll_succeeded'' else ''check_succeeded'')
             (report_defaults\<lparr>rp_succeeded := True, rp_observed := observed\<rparr>) reg)"

definition AUTH_CODES :: "string list" where
  "AUTH_CODES = [''authentication_failed'', ''authorization_expired'', ''authorization_required'',
     ''authorization_exchange_failed'', ''not_authenticated'', ''reconnect_required'',
     ''stored_credentials_unavailable'', ''github_unauthorized'', ''github_forbidden'', ''permission_denied'']"

definition failure_status :: "string \<Rightarrow> bool \<Rightarrow> int \<Rightarrow> provider_status" where
  "failure_status code immediate_unavailable count =
     (if code \<in> set AUTH_CODES then Ps_auth_failure
      else if immediate_unavailable \<or> count \<ge> 3 then Ps_unavailable else Ps_provider_failure)"

definition failure :: "instant \<Rightarrow> string \<Rightarrow> string \<Rightarrow> py_datetime option \<Rightarrow> bool \<Rightarrow> health_registry
    \<Rightarrow> (provider_health \<times> health_registry) result" where
  "failure now provider code rate_limited_until immediate_unavailable reg =
     report now provider (failure_status code immediate_unavailable (failures_of reg provider + 1)) code
       (report_defaults\<lparr>rp_failed := True, rp_rate_limited_until := rate_limited_until\<rparr>) reg"

definition rate_limited :: "instant \<Rightarrow> string \<Rightarrow> string \<Rightarrow> py_datetime \<Rightarrow> health_registry
    \<Rightarrow> (provider_health \<times> health_registry) result" where
  "rate_limited now provider code until reg =
     report now provider Ps_rate_limited code
       (report_defaults\<lparr>rp_failed := True, rp_rate_limited_until := Some until\<rparr>) reg"

text \<open>The snapshot: a state for each of the five providers, one that never reported included.\<close>

definition unreported :: "string \<Rightarrow> bool \<Rightarrow> provider_health" where
  "unreported provider is_configured =
     \<lparr>ph_provider = provider, ph_status = (if is_configured then Ps_unknown else Ps_disconnected),
      ph_configured = is_configured, ph_checked_at = None, ph_last_success_at = None,
      ph_last_failure_at = None, ph_last_observation_at = None, ph_last_message_observation_at = None,
      ph_consecutive_failures = 0, ph_rate_limited_until = None,
      ph_detail_code = (if is_configured then ''implementation_pending'' else ''configuration_missing'')\<rparr>"

definition snapshot :: "settings \<Rightarrow> health_registry \<Rightarrow> (string \<times> provider_health) list" where
  "snapshot s reg = map (\<lambda>p. (p, case map_of reg p of
      Some h \<Rightarrow> h
    | None \<Rightarrow> unreported p (map_of (provider_configuration s) p = Some True))) PROVIDER_IDS"

section \<open>What the registry tells\<close>

datatype health_action =
    Success string bool bool
  | Failure string string "py_datetime option" bool
  | Limited string string py_datetime

fun action_provider :: "health_action \<Rightarrow> string" where
  "action_provider (Success p _ _) = p"
| "action_provider (Failure p _ _ _) = p"
| "action_provider (Limited p _ _) = p"

fun is_failure :: "health_action \<Rightarrow> bool" where
  "is_failure (Success _ _ _) = False"
| "is_failure (Failure _ _ _ _) = True"
| "is_failure (Limited _ _ _) = True"

fun act_on :: "instant \<Rightarrow> health_action \<Rightarrow> health_registry \<Rightarrow> (provider_health \<times> health_registry) result" where
  "act_on now (Success p observed configured) reg = success now p observed configured reg"
| "act_on now (Failure p code until immediate) reg = failure now p code until immediate reg"
| "act_on now (Limited p code until) reg = rate_limited now p code until reg"

definition health_step :: "instant \<times> health_action \<Rightarrow> health_registry \<Rightarrow> health_registry result" where
  "health_step x reg = bind_r (act_on (fst x) (snd x) reg) (\<lambda>(h, reg'). Inr reg')"

text \<open>The abstract view: failures of a provider since its last success, and its latest action.\<close>

definition streak :: "string \<Rightarrow> health_action list \<Rightarrow> nat" where
  "streak p acts = length (takeWhile is_failure (rev (filter (\<lambda>a. action_provider a = p) acts)))"

fun status_after :: "health_action \<Rightarrow> nat \<Rightarrow> provider_status" where
  "status_after (Success _ _ configured) n = (if configured then Ps_healthy else Ps_disconnected)"
| "status_after (Failure _ code _ immediate) n = failure_status code immediate (int n)"
| "status_after (Limited _ _ _) n = Ps_rate_limited"

lemma streak_snoc [simp]:
  "streak p (acts @ [a]) = (if action_provider a = p then if is_failure a then Suc (streak p acts) else 0 else streak p acts)"
  by (simp add: streak_def)

lemma report_Inr:
  assumes "report now p status code a reg = Inr (h, reg')"
  shows "reg' = AList.update p h reg" "ph_status h = status"
    "ph_consecutive_failures h = (if rp_failed a then failures_of reg p + 1 else 0)"
  using assms by (auto simp: report_def bind_simps Let_def)

text \<open>Every action is one report.\<close>

fun action_code :: "health_action \<Rightarrow> string" where
  "action_code (Success _ observed configured) =
     (if \<not> configured then ''configuration_missing'' else if observed then ''poll_succeeded'' else ''check_succeeded'')"
| "action_code (Failure _ code _ _) = code"
| "action_code (Limited _ code _) = code"

fun action_args :: "health_action \<Rightarrow> report_args" where
  "action_args (Success _ observed configured) =
     (if configured then report_defaults\<lparr>rp_succeeded := True, rp_observed := observed\<rparr>
      else report_defaults\<lparr>rp_configured := False\<rparr>)"
| "action_args (Failure _ _ until _) = report_defaults\<lparr>rp_failed := True, rp_rate_limited_until := until\<rparr>"
| "action_args (Limited _ _ until) = report_defaults\<lparr>rp_failed := True, rp_rate_limited_until := Some until\<rparr>"

definition next_count :: "health_action \<Rightarrow> health_registry \<Rightarrow> int" where
  "next_count a reg = (if is_failure a then failures_of reg (action_provider a) + 1 else 0)"

lemma action_args_failed [simp]: "rp_failed (action_args a) = is_failure a"
  by (cases a) (simp_all add: report_defaults_def)

lemma act_on_report:
  assumes "int n = next_count a reg"
  shows "act_on now a reg = report now (action_provider a) (status_after a n) (action_code a) (action_args a) reg"
  using assms by (cases a) (simp_all add: success_def failure_def rate_limited_def next_count_def)

lemma act_on_Inr:
  assumes "act_on now a reg = Inr (h, reg')" and "int n = next_count a reg"
  shows "reg' = AList.update (action_provider a) h reg" "ph_consecutive_failures h = next_count a reg"
    and "ph_status h = status_after a n"
  using report_Inr [OF assms(1) [unfolded act_on_report [OF assms(2)]]] by (simp_all add: next_count_def)

lemma health_step_Inr: "health_step x reg = Inr reg' \<longleftrightarrow> (\<exists>h. act_on (fst x) (snd x) reg = Inr (h, reg'))"
  by (auto simp: health_step_def bind_simps)

text \<open>
  The registry shows each provider's latest outcome and its failures in a row.  After any
  accepted sequence of successes, failures and rate limits of any providers, the failure count of a
  provider is the number of its failures since its last success, and its status is the one its
  latest action calls for: healthy after a success, rate limited after a rate limit, an
  authentication failure for the codes that need the user, and otherwise unavailable from the third
  failure in a row (or at once, when the failure is permanent).
\<close>

theorem health_registry_refines:
  assumes "fold_r health_step acts [] = Inr reg"
  shows "failures_of reg p = int (streak p (map snd acts))
    \<and> map_option ph_status (map_of reg p)
      = (case rev (filter (\<lambda>a. action_provider a = p) (map snd acts)) of
           [] \<Rightarrow> None | a # _ \<Rightarrow> Some (status_after a (streak p (map snd acts))))"
  using assms
proof (induction acts arbitrary: reg p rule: rev_induct)
  case Nil
  then show ?case by (simp add: failures_of_def streak_def)
next
  case (snoc x acts)
  then obtain reg0 h where run: "fold_r health_step acts [] = Inr reg0"
    and act: "act_on (fst x) (snd x) reg0 = Inr (h, reg)"
    by (auto simp: fold_r_append bind_r_eq_Inr health_step_Inr)
  note IH = snoc.IH [OF run, of p]
  let ?n = "if is_failure (snd x) then Suc (streak (action_provider (snd x)) (map snd acts)) else 0"
  have "int ?n = next_count (snd x) reg0"
    using snoc.IH [OF run, of "action_provider (snd x)"] by (simp add: next_count_def)
  note facts = act_on_Inr [OF act this]
  show ?case
  proof (cases "action_provider (snd x) = p")
    case True
    then have "failures_of reg p = ph_consecutive_failures h" "map_of reg p = Some h"
      by (simp_all add: failures_of_def facts(1) update_conv)
    moreover have "failures_of reg0 p = int (streak p (map snd acts))" using IH by blast
    ultimately show ?thesis
      using True facts(2,3) by (auto simp: next_count_def)
  next
    case False
    then have "map_of reg p = map_of reg0 p" by (simp add: facts(1) update_conv)
    with IH False show ?thesis by (simp add: failures_of_def) (simp split: list.splits)
  qed
qed

theorem health_registry_refines_witness:
  "\<exists>reg. fold_r health_step [(1, Failure ''gmail'' ''poll_timeout'' None False), (2, Failure ''gmail'' ''poll_timeout'' None False),
        (3, Success ''github'' True True), (4, Failure ''gmail'' ''poll_timeout'' None False)] [] = Inr reg
     \<and> map_option ph_status (map_of reg ''gmail'') = Some Ps_unavailable"
proof -
  let ?acts = "[(1, Failure ''gmail'' ''poll_timeout'' None False), (2, Failure ''gmail'' ''poll_timeout'' None False),
        (3, Success ''github'' True True), (4, Failure ''gmail'' ''poll_timeout'' None False)] :: (instant \<times> health_action) list"
  have "\<not> isl (fold_r health_step ?acts [])" by code_simp
  then obtain reg where reg: "fold_r health_step ?acts [] = Inr reg" by (cases "fold_r health_step ?acts []") auto
  from health_registry_refines [OF reg, of "''gmail''"] reg show ?thesis
    by (auto simp: streak_def failure_status_def AUTH_CODES_def)
qed

end
