(* ===== verification/Commands.thy ===== *)
theory Commands
  imports Football_Models
begin

text \<open>
  \<open>backend/app/providers/commands.py\<close> and \<open>registry.py\<close>: the validated command requests and results,
  and the capability registries.
\<close>

section \<open>Command requests\<close>

datatype spotify_command = Play | Pause | Next_track | Previous_track | Seek | Volume | Transfer_device

fun command_value :: "spotify_command \<Rightarrow> string" where
  "command_value Play = ''spotify.play''"
| "command_value Pause = ''spotify.pause''"
| "command_value Next_track = ''spotify.next''"
| "command_value Previous_track = ''spotify.previous''"
| "command_value Seek = ''spotify.seek''"
| "command_value Volume = ''spotify.volume''"
| "command_value Transfer_device = ''spotify.transfer_device''"

datatype command_error =
    Provider_unavailable | Not_authenticated | Unsupported_command | Invalid_state | Rate_limited | Provider_error

record command_arguments =
  position_seconds :: "int option"
  volume_percent :: "int option"
  device_id :: "string option"

definition opt_between :: "int \<Rightarrow> int \<Rightarrow> int option \<Rightarrow> bool" where
  "opt_between lo hi x = (case x of None \<Rightarrow> True | Some n \<Rightarrow> lo \<le> n \<and> n \<le> hi)"

definition command_arguments_new :: "command_arguments \<Rightarrow> command_arguments result" where
  "command_arguments_new a =
     bind_r (ensure (opt_between 0 86400 (position_seconds a)) (ValidationError ''position_seconds'')) (\<lambda>_.
     bind_r (ensure (opt_between 0 100 (volume_percent a)) (ValidationError ''volume_percent'')) (\<lambda>_.
     bind_r (ensure (case device_id a of None \<Rightarrow> True | Some d \<Rightarrow> 1 \<le> length d \<and> length d \<le> 200)
       (ValidationError ''device_id'')) (\<lambda>_. Inr a)))"

datatype argument_name = Position_seconds | Volume_percent | Device_id

fun required_argument :: "spotify_command \<Rightarrow> argument_name option" where
  "required_argument Seek = Some Position_seconds"
| "required_argument Volume = Some Volume_percent"
| "required_argument Transfer_device = Some Device_id"
| "required_argument _ = None"

fun present :: "command_arguments \<Rightarrow> argument_name \<Rightarrow> bool" where
  "present a Position_seconds = (position_seconds a \<noteq> None)"
| "present a Volume_percent = (volume_percent a \<noteq> None)"
| "present a Device_id = (device_id a \<noteq> None)"

definition present_count :: "command_arguments \<Rightarrow> nat" where
  "present_count a = length (filter (present a) [Position_seconds, Volume_percent, Device_id])"

record command_request =
  rq_command :: spotify_command
  rq_arguments :: command_arguments
  rq_correlation_id :: uuid

definition validate_arguments_for_command :: "command_request \<Rightarrow> command_request result" where
  "validate_arguments_for_command r = (case required_argument (rq_command r) of
      None \<Rightarrow> if present_count (rq_arguments r) \<noteq> 0
              then Inl (ValidationError ''this command does not accept arguments'') else Inr r
    | Some n \<Rightarrow> if \<not> present (rq_arguments r) n then Inl (ValidationError ''argument required'')
                else if present_count (rq_arguments r) \<noteq> 1 then Inl (ValidationError ''accepts only its argument'')
                else Inr r)"

definition command_request_new :: "spotify_command \<Rightarrow> command_arguments \<Rightarrow> uuid \<Rightarrow> command_request result" where
  "command_request_new c a i =
     bind_r (command_arguments_new a) (\<lambda>a'.
       validate_arguments_for_command \<lparr>rq_command = c, rq_arguments = a', rq_correlation_id = i\<rparr>)"

section \<open>Command results\<close>

record command_state_hint =
  hint_subject_id :: "string option"
  hint_state :: "string option"
  hint_observed_at :: "instant option"

definition command_state_hint_new :: "string option \<Rightarrow> string option \<Rightarrow> py_datetime option \<Rightarrow> command_state_hint result" where
  "command_state_hint_new subject state observed =
     bind_r (ensure (opt_max 200 subject) (ValidationError ''subject_id'')) (\<lambda>_.
     bind_r (ensure (opt_max 64 state) (ValidationError ''state'')) (\<lambda>_.
     bind_r (case observed of None \<Rightarrow> Inr None
       | Some t \<Rightarrow> bind_r (require_aware ''observed_at must be timezone-aware'' t) (\<lambda>i. Inr (Some i))) (\<lambda>o'.
     Inr \<lparr>hint_subject_id = subject, hint_state = state, hint_observed_at = o'\<rparr>)))"

record command_result =
  cr_success :: bool
  cr_provider :: string
  cr_error_code :: "command_error option"
  cr_message :: string
  cr_resulting_state_hint :: "command_state_hint option"

definition command_result_new :: "command_result \<Rightarrow> command_result result" where
  "command_result_new r =
     bind_r (ensure (provider_id_ok (cr_provider r)) (ValidationError ''provider'')) (\<lambda>_.
     bind_r (ensure (length (cr_message r) \<le> 240) (ValidationError ''message'')) (\<lambda>_.
     bind_r (ensure (\<not> (cr_success r \<and> cr_error_code r \<noteq> None))
       (ValidationError ''successful command results cannot include an error code'')) (\<lambda>_.
     bind_r (ensure (\<not> (\<not> cr_success r \<and> cr_error_code r = None))
       (ValidationError ''failed command results require a stable error code'')) (\<lambda>_. Inr r))))"

section \<open>Capability registries\<close>

text \<open>
  A capability is given by its \<open>provider_id\<close> attribute, \<open>None\<close> when it has none or one that is not
  text, and what else it carries.
\<close>

record 'c capability =
  cap_provider_id :: "string option"
  cap_object :: 'c

type_synonym 'c capabilities = "(string \<times> 'c capability) list"

definition register_capability :: "'c capabilities \<Rightarrow> 'c capability \<Rightarrow> 'c capabilities result" where
  "register_capability reg c = (case cap_provider_id c of
      None \<Rightarrow> Inl (ValueError ''provider capability must have a non-empty provider_id'')
    | Some p \<Rightarrow>
        if strip p = [] then Inl (ValueError ''provider capability must have a non-empty provider_id'')
        else if p \<in> fst ` set reg then Inl (ValueError (''provider capability already registered: '' @ p))
        else Inr (reg @ [(p, c)]))"

record ('p, 'w, 'c) provider_registry =
  reg_poll_sources :: "'p capabilities"
  reg_webhook_sources :: "'w capabilities"
  reg_command_targets :: "'c capabilities"

definition new_registry :: "('p, 'w, 'c) provider_registry" where
  "new_registry = \<lparr>reg_poll_sources = [], reg_webhook_sources = [], reg_command_targets = []\<rparr>"

definition poll_sources :: "('p, 'w, 'c) provider_registry \<Rightarrow> 'p capability list" where
  "poll_sources r = map snd (reg_poll_sources r)"

definition register_poll_source :: "'p capability \<Rightarrow> ('p, 'w, 'c) provider_registry \<Rightarrow> ('p, 'w, 'c) provider_registry result" where
  "register_poll_source c r = bind_r (register_capability (reg_poll_sources r) c) (\<lambda>x. Inr (r\<lparr>reg_poll_sources := x\<rparr>))"

definition register_webhook_source :: "'w capability \<Rightarrow> ('p, 'w, 'c) provider_registry \<Rightarrow> ('p, 'w, 'c) provider_registry result" where
  "register_webhook_source c r = bind_r (register_capability (reg_webhook_sources r) c) (\<lambda>x. Inr (r\<lparr>reg_webhook_sources := x\<rparr>))"

definition register_command_target :: "'c capability \<Rightarrow> ('p, 'w, 'c) provider_registry \<Rightarrow> ('p, 'w, 'c) provider_registry result" where
  "register_command_target c r = bind_r (register_capability (reg_command_targets r) c) (\<lambda>x. Inr (r\<lparr>reg_command_targets := x\<rparr>))"

definition command_target :: "string \<Rightarrow> ('p, 'w, 'c) provider_registry \<Rightarrow> 'c capability option" where
  "command_target p r = map_of (reg_command_targets r) p"

definition webhook_source :: "string \<Rightarrow> ('p, 'w, 'c) provider_registry \<Rightarrow> 'w capability option" where
  "webhook_source p r = map_of (reg_webhook_sources r) p"

section \<open>What validation gives\<close>

text \<open>The arguments a command takes, as a type: exactly its own, within its range.\<close>

fun well_typed :: "spotify_command \<Rightarrow> command_arguments \<Rightarrow> bool" where
  "well_typed Seek a \<longleftrightarrow> (\<exists>n. a = \<lparr>position_seconds = Some n, volume_percent = None, device_id = None\<rparr> \<and> 0 \<le> n \<and> n \<le> 86400)"
| "well_typed Volume a \<longleftrightarrow> (\<exists>n. a = \<lparr>position_seconds = None, volume_percent = Some n, device_id = None\<rparr> \<and> 0 \<le> n \<and> n \<le> 100)"
| "well_typed Transfer_device a \<longleftrightarrow>
     (\<exists>d. a = \<lparr>position_seconds = None, volume_percent = None, device_id = Some d\<rparr> \<and> 1 \<le> length d \<and> length d \<le> 200)"
| "well_typed _ a \<longleftrightarrow> a = \<lparr>position_seconds = None, volume_percent = None, device_id = None\<rparr>"

text \<open>
  A command request carries exactly what its command needs.  The constructor accepts a command
  with arguments if and only if they are the one argument of that command, within its range (a
  position of at most a day, a volume of at most 100 per cent, a device name of 1 to 200
  characters), or none at all for a command without one; it then returns the request unchanged.
\<close>

theorem command_request_typed:
  "command_request_new c a i = Inr r
     \<longleftrightarrow> well_typed c a \<and> r = \<lparr>rq_command = c, rq_arguments = a, rq_correlation_id = i\<rparr>"
proof -
  obtain p v d where a: "a = \<lparr>position_seconds = p, volume_percent = v, device_id = d\<rparr>" by (cases a) auto
  show ?thesis
    unfolding a command_request_new_def command_arguments_new_def validate_arguments_for_command_def
      present_count_def opt_between_def
    by (cases c; cases p; cases v; cases d) (auto simp: bind_simps split: if_splits)
qed

text \<open>Registering keeps the earlier capabilities and their order, and no two share a name.\<close>

lemma register_capability_distinct:
  assumes "register_capability reg c = Inr reg'" and "distinct (map fst reg)"
  shows "distinct (map fst reg')" and "\<exists>p. cap_provider_id c = Some p \<and> strip p \<noteq> [] \<and> reg' = reg @ [(p, c)]"
  using assms by (auto simp: register_capability_def split: option.splits if_splits)

lemma registered_found:
  assumes "register_capability reg c = Inr reg'" and "distinct (map fst reg)" and "map_of reg q = Some x"
  shows "map_of reg' q = Some x"
  using register_capability_distinct(2) [OF assms(1,2)] assms(3) by (auto simp: map_add_def)

lemma command_result_consistent:
  "command_result_new r = Inr r' \<Longrightarrow> r' = r \<and> (cr_success r \<longleftrightarrow> cr_error_code r = None) \<and> length (cr_message r) \<le> 240"
  by (auto simp: command_result_new_def bind_simps)

end
