(* ===== verification/Scheduler.thy ===== *)
theory Scheduler
  imports Provider_Health Commands
begin

text \<open>
  \<open>backend/app/providers/scheduler.py\<close> and the schedule of \<open>base.py\<close>: the delay between polls, and one
  turn of a source's loop, which records the outcome of the poll and says how long to wait.  Floating
  point seconds are rational numbers; a \<open>timedelta\<close> made of seconds is rounded to the microsecond,
  ties to even.  The semaphore and the locks order the polls of several sources; a turn is atomic here.
\<close>

section \<open>Schedules\<close>

record poll_schedule =
  sd_interval :: timedelta
  sd_timeout :: timedelta
  sd_max_backoff :: timedelta
  sd_jitter_ratio :: rat

definition poll_schedule_new :: "timedelta \<Rightarrow> timedelta \<Rightarrow> timedelta \<Rightarrow> rat \<Rightarrow> poll_schedule result" where
  "poll_schedule_new interval timeout max_backoff jitter =
     bind_r (ensure (\<not> (interval \<le> 0 \<or> timeout \<le> 0)) (ValueError ''poll interval and timeout must be positive'')) (\<lambda>_.
     bind_r (ensure (\<not> max_backoff < interval) (ValueError ''max_backoff cannot be shorter than interval'')) (\<lambda>_.
     bind_r (ensure (0 \<le> jitter \<and> jitter \<le> 1) (ValueError ''jitter_ratio must be between 0 and 1'')) (\<lambda>_.
     Inr \<lparr>sd_interval = interval, sd_timeout = timeout, sd_max_backoff = max_backoff, sd_jitter_ratio = jitter\<rparr>)))"

section \<open>The delay\<close>

definition total_seconds :: "timedelta \<Rightarrow> rat" where
  "total_seconds t = of_int t / 1000000"

definition round_half_even :: "rat \<Rightarrow> int" where
  "round_half_even x = (let f = \<lfloor>x\<rfloor>; r = x - of_int f in
     if r < 1 / 2 then f else if 1 / 2 < r then f + 1 else if even f then f else f + 1)"

definition timedelta_of_seconds :: "rat \<Rightarrow> timedelta" where
  "timedelta_of_seconds s = round_half_even (s * 1000000)"

text \<open>The doubling loop, with its early exit at the cap.\<close>

fun doubled :: "nat \<Rightarrow> rat \<Rightarrow> rat \<Rightarrow> rat" where
  "doubled 0 base cap = base"
| "doubled (Suc n) base cap =
     (let b = min (base * 2) cap in if cap \<le> b then b else doubled n b cap)"

record delay_args =
  da_interval :: timedelta
  da_failure_count :: int
  da_max_backoff :: timedelta
  da_jitter_ratio :: rat
  da_random_value :: rat
  da_retry_after :: "py_datetime option"
  da_now :: py_datetime

definition base_seconds :: "delay_args \<Rightarrow> rat" where
  "base_seconds a = (if da_failure_count a \<noteq> 0
     then doubled (nat (da_failure_count a - 1)) (total_seconds (da_interval a)) (total_seconds (da_max_backoff a))
     else total_seconds (da_interval a))"

definition jittered_seconds :: "delay_args \<Rightarrow> rat" where
  "jittered_seconds a =
     (let j = base_seconds a * (1 - da_jitter_ratio a + 2 * da_jitter_ratio a * da_random_value a)
      in if da_failure_count a \<noteq> 0 then min j (total_seconds (da_max_backoff a)) else j)"

definition next_poll_delay :: "delay_args \<Rightarrow> timedelta result" where
  "next_poll_delay a =
     bind_r (ensure (\<not> (da_interval a \<le> 0 \<or> da_max_backoff a \<le> 0))
       (ValueError ''interval and max_backoff must be positive'')) (\<lambda>_.
     bind_r (ensure (\<not> da_failure_count a < 0) (ValueError ''failure_count cannot be negative'')) (\<lambda>_.
     bind_r (ensure (0 \<le> da_random_value a \<and> da_random_value a \<le> 1 \<and> 0 \<le> da_jitter_ratio a \<and> da_jitter_ratio a \<le> 1)
       (ValueError ''random_value and jitter_ratio must be between 0 and 1'')) (\<lambda>_.
      (let delay = timedelta_of_seconds (max (jittered_seconds a) (1 / 1000)) in
       case da_retry_after a of
         None \<Rightarrow> Inr delay
       | Some t \<Rightarrow>
           bind_r (aware_utc ''retry_after must be timezone-aware'' t) (\<lambda>until.
           bind_r (aware_utc ''now must be timezone-aware'' (da_now a)) (\<lambda>current.
           Inr (max (max delay (until - current)) 0)))))))"

section \<open>Bounds of the delay\<close>

lemma round_half_even_mono:
  assumes "of_int n \<le> x" shows "n \<le> round_half_even x"
proof -
  have "n \<le> \<lfloor>x\<rfloor>" using assms by (simp add: le_floor_iff)
  then show ?thesis by (auto simp: round_half_even_def Let_def)
qed

lemma round_half_even_le:
  assumes "x \<le> of_int n" shows "round_half_even x \<le> n"
proof -
  have "\<lfloor>x\<rfloor> \<le> n" using floor_mono [OF assms] by simp
  moreover have "x - of_int \<lfloor>x\<rfloor> \<le> 0" if "\<lfloor>x\<rfloor> = n" using assms that by simp
  ultimately show ?thesis by (cases "\<lfloor>x\<rfloor> = n") (auto simp: round_half_even_def Let_def)
qed

text \<open>The loop computes the capped power of two.\<close>

lemma doubled_closed:
  assumes "0 < base" "base \<le> cap" shows "doubled n base cap = min (base * 2 ^ n) cap"
  using assms
proof (induction n arbitrary: base)
  case (Suc n)
  have grow: "base * 2 \<le> base * 2 * 2 ^ n" using Suc.prems(1) by simp
  have pow: "base * 2 ^ Suc n = base * 2 * 2 ^ n" by (simp add: mult.assoc)
  show ?case
  proof (cases "base * 2 < cap")
    case True
    then have "doubled (Suc n) base cap = doubled n (base * 2) cap" by (simp add: Let_def min_def)
    also have "\<dots> = min (base * 2 * 2 ^ n) cap" using True Suc.prems(1) by (intro Suc.IH) simp_all
    finally show ?thesis unfolding pow .
  next
    case False
    then have "doubled (Suc n) base cap = cap" by (simp add: Let_def min_def)
    moreover have "cap \<le> base * 2 * 2 ^ n" using False grow by simp
    ultimately show ?thesis unfolding pow by simp
  qed
qed (simp add: min_def)

lemma doubled_capped: "doubled (Suc n) base cap \<le> cap"
proof (induction n arbitrary: base)
  case (Suc n)
  have "doubled (Suc n) (min (base * 2) cap) cap \<le> cap" by (rule Suc.IH)
  then show ?case by (subst doubled.simps(2)) (auto simp: Let_def)
qed (simp add: Let_def)

lemma doubled_positive: "0 < base \<Longrightarrow> 0 < cap \<Longrightarrow> 0 < doubled n base cap"
proof (induction n arbitrary: base)
  case (Suc n)
  have b: "0 < min (base * 2) cap" using Suc.prems by simp
  then have "0 < doubled n (min (base * 2) cap) cap" using Suc.prems(2) by (rule Suc.IH)
  with b show ?case by (subst doubled.simps(2)) (auto simp: Let_def min_def split: if_splits)
qed simp

definition delay_args_ok :: "delay_args \<Rightarrow> bool" where
  "delay_args_ok a \<longleftrightarrow> 0 < da_interval a \<and> 0 < da_max_backoff a \<and> 0 \<le> da_failure_count a
     \<and> 0 \<le> da_random_value a \<and> da_random_value a \<le> 1 \<and> 0 \<le> da_jitter_ratio a \<and> da_jitter_ratio a \<le> 1"

definition retry_floor :: "delay_args \<Rightarrow> timedelta option" where
  "retry_floor a = (case da_retry_after a of None \<Rightarrow> None
     | Some t \<Rightarrow> (case (to_utc t, to_utc (da_now a)) of (Some u, Some n) \<Rightarrow> Some (u - n) | _ \<Rightarrow> None))"

lemma jitter_bounds:
  assumes "delay_args_ok a"
  shows "jittered_seconds a \<le> base_seconds a * (1 + da_jitter_ratio a)"
    and "da_failure_count a = 0 \<Longrightarrow> base_seconds a * (1 - da_jitter_ratio a) \<le> jittered_seconds a"
    and "0 < da_failure_count a \<Longrightarrow> jittered_seconds a \<le> total_seconds (da_max_backoff a)"
proof -
  have pos: "0 < base_seconds a"
    using assms by (simp add: base_seconds_def delay_args_ok_def total_seconds_def doubled_positive)
  have "0 \<le> da_jitter_ratio a * da_random_value a" "da_jitter_ratio a * da_random_value a \<le> da_jitter_ratio a"
    using assms by (simp_all add: delay_args_ok_def mult_left_le)
  then have f: "1 - da_jitter_ratio a \<le> 1 - da_jitter_ratio a + 2 * da_jitter_ratio a * da_random_value a"
    "1 - da_jitter_ratio a + 2 * da_jitter_ratio a * da_random_value a \<le> 1 + da_jitter_ratio a" by simp_all
  have lo: "base_seconds a * (1 - da_jitter_ratio a)
      \<le> base_seconds a * (1 - da_jitter_ratio a + 2 * da_jitter_ratio a * da_random_value a)"
    and hi: "base_seconds a * (1 - da_jitter_ratio a + 2 * da_jitter_ratio a * da_random_value a)
      \<le> base_seconds a * (1 + da_jitter_ratio a)"
    using f pos by (intro mult_left_mono; simp)+
  show "jittered_seconds a \<le> base_seconds a * (1 + da_jitter_ratio a)"
    using hi by (auto simp: jittered_seconds_def Let_def min_def)
  show "da_failure_count a = 0 \<Longrightarrow> base_seconds a * (1 - da_jitter_ratio a) \<le> jittered_seconds a"
    using lo by (simp add: jittered_seconds_def Let_def)
  show "0 < da_failure_count a \<Longrightarrow> jittered_seconds a \<le> total_seconds (da_max_backoff a)"
    by (simp add: jittered_seconds_def Let_def)
qed

text \<open>The delay before the Retry-After floor: at least a millisecond, at most the cap or the jittered interval.\<close>

lemma plain_delay:
  assumes "delay_args_ok a" and d: "d = timedelta_of_seconds (max (jittered_seconds a) (1 / 1000))"
  shows "1000 \<le> d"
    and "0 < da_failure_count a \<Longrightarrow> d \<le> max (da_max_backoff a) 1000"
    and "da_failure_count a = 0 \<Longrightarrow> d \<le> max (2 * da_interval a) 1000"
    and "da_failure_count a = 0 \<Longrightarrow> da_jitter_ratio a \<le> 1 / 2 \<Longrightarrow> da_interval a div 2 \<le> d"
proof -
  note j = jitter_bounds [OF assms(1)]
  show "1000 \<le> d" unfolding d timedelta_of_seconds_def by (rule round_half_even_mono) simp
  show "d \<le> max (da_max_backoff a) 1000" if "0 < da_failure_count a"
    unfolding d timedelta_of_seconds_def
    using j(3) [OF that] by (intro round_half_even_le) (auto simp: total_seconds_def max_def)
  show "d \<le> max (2 * da_interval a) 1000" if zero: "da_failure_count a = 0"
  proof -
    have "jittered_seconds a \<le> total_seconds (da_interval a) * 2"
    proof -
      have "total_seconds (da_interval a) * (1 + da_jitter_ratio a) \<le> total_seconds (da_interval a) * 2"
        using assms(1) by (intro mult_left_mono) (auto simp: delay_args_ok_def total_seconds_def)
      with j(1) show ?thesis by (simp add: base_seconds_def zero)
    qed
    then show ?thesis
      unfolding d timedelta_of_seconds_def by (intro round_half_even_le) (auto simp: total_seconds_def max_def)
  qed
  show "da_interval a div 2 \<le> d" if zero: "da_failure_count a = 0" and half: "da_jitter_ratio a \<le> 1 / 2"
  proof -
    have "total_seconds (da_interval a) * (1 / 2) \<le> total_seconds (da_interval a) * (1 - da_jitter_ratio a)"
      using assms(1) half by (intro mult_left_mono) (auto simp: delay_args_ok_def total_seconds_def)
    then have "of_int (da_interval a) / 2000000 \<le> jittered_seconds a"
      using j(2) [OF zero] by (simp add: base_seconds_def zero total_seconds_def)
    moreover have "of_int (da_interval a div 2) \<le> (of_int (da_interval a) / 2 :: rat)"
      by (metis floor_divide_of_int_eq of_int_floor_le of_int_numeral)
    ultimately show ?thesis
      unfolding d timedelta_of_seconds_def by (intro round_half_even_mono) (auto simp: max_def)
  qed
qed

section \<open>One turn of a source's loop\<close>

definition safe_error_code :: "string option \<Rightarrow> string" where
  "safe_error_code v = (case v of Some s \<Rightarrow> if detail_code_ok s then s else ''poll_failed'' | None \<Rightarrow> ''poll_failed'')"

text \<open>
  How a poll ends: observations (any or none), a wait the provider asks for, the timeout, another
  exception with its \<open>detail_code\<close> (\<open>None\<close> when it has none or one that is not text) and \<open>permanent\<close>
  attribute, or cancellation.
\<close>

datatype poll_outcome =
    Observed bool
  | Retry_after instant string
  | Timed_out
  | Failed "string option" bool
  | Cancelled

datatype cadence_outcome = Cadence timedelta | Cadence_raises | Not_a_timedelta

record poll_source =
  ps_provider_id :: string
  ps_schedule :: poll_schedule
  ps_configured :: bool

text \<open>\<open>RetryAfterError.__init__\<close> keeps a safe code.\<close>

definition retry_after_error :: "py_datetime \<Rightarrow> string option \<Rightarrow> poll_outcome result" where
  "retry_after_error t code =
     bind_r (aware_utc ''retry_after must be timezone-aware'' t) (\<lambda>i. Inr (Retry_after i (safe_error_code code)))"

record loop_state =
  ls_failures :: int
  ls_registry :: health_registry

definition record_outcome :: "poll_source \<Rightarrow> instant \<Rightarrow> poll_outcome \<Rightarrow> loop_state \<Rightarrow> (loop_state \<times> instant option) result" where
  "record_outcome src now o' s =
     (let p = ps_provider_id src;
          failed = (\<lambda>r until. bind_r r (\<lambda>(h, reg).
            Inr (\<lparr>ls_failures = ls_failures s + 1, ls_registry = reg\<rparr>, until)));
          other = (\<lambda>code permanent. failed (failure now p (safe_error_code code) None permanent (ls_registry s)) None)
      in case o' of
        Observed observed \<Rightarrow>
          (case success now p observed (ps_configured src) (ls_registry s) of
             Inr (h, reg) \<Rightarrow> Inr (\<lparr>ls_failures = 0, ls_registry = reg\<rparr>, None)
           | Inl _ \<Rightarrow> other None False)
      | Retry_after until code \<Rightarrow> failed (rate_limited now p code (utc until) (ls_registry s)) (Some until)
      | Timed_out \<Rightarrow> failed (failure now p ''poll_timeout'' None False (ls_registry s)) None
      | Failed code permanent \<Rightarrow> other code permanent
      | Cancelled \<Rightarrow> Inl (RuntimeError ''CancelledError''))"

definition choose_interval :: "poll_source \<Rightarrow> instant \<Rightarrow> cadence_outcome \<Rightarrow> health_registry \<Rightarrow> (timedelta \<times> health_registry) result" where
  "choose_interval src now c reg =
     (let default = sd_interval (ps_schedule src) in
      bind_r (case c of
          Cadence_raises \<Rightarrow> bind_r (failure now (ps_provider_id src) ''cadence_failed'' None False reg)
            (\<lambda>(h, reg'). Inr (Some default, reg'))
        | Cadence t \<Rightarrow> Inr (Some t, reg)
        | Not_a_timedelta \<Rightarrow> Inr (None, reg)) (\<lambda>(interval, reg1).
      case interval of
        Some t \<Rightarrow> if t \<le> 0 then bind_r (failure now (ps_provider_id src) ''invalid_cadence'' None False reg1)
            (\<lambda>(h, reg'). Inr (default, reg')) else Inr (t, reg1)
      | None \<Rightarrow> bind_r (failure now (ps_provider_id src) ''invalid_cadence'' None False reg1)
            (\<lambda>(h, reg'). Inr (default, reg'))))"

text \<open>The times the turn reads from its clocks, and its random number.\<close>

record turn_env =
  te_health_now :: instant
  te_now :: instant
  te_random :: rat

definition poll_turn :: "poll_source \<Rightarrow> turn_env \<Rightarrow> poll_outcome \<Rightarrow> cadence_outcome \<Rightarrow> loop_state \<Rightarrow> (loop_state \<times> timedelta) result" where
  "poll_turn src env o' c s =
     bind_r (record_outcome src (te_health_now env) o' s) (\<lambda>(s1, until).
     bind_r (choose_interval src (te_health_now env) c (ls_registry s1)) (\<lambda>(interval, reg).
     bind_r (next_poll_delay \<lparr>da_interval = interval, da_failure_count = ls_failures s1,
         da_max_backoff = sd_max_backoff (ps_schedule src), da_jitter_ratio = sd_jitter_ratio (ps_schedule src),
         da_random_value = te_random env, da_retry_after = map_option utc until, da_now = utc (te_now env)\<rparr>) (\<lambda>d.
     Inr (s1\<lparr>ls_registry := reg\<rparr>, d))))"

section \<open>A source's loop survives its provider\<close>

definition schedule_ok :: "poll_schedule \<Rightarrow> bool" where
  "schedule_ok sd \<longleftrightarrow> 0 < sd_interval sd \<and> 0 < sd_timeout sd \<and> sd_interval sd \<le> sd_max_backoff sd
     \<and> 0 \<le> sd_jitter_ratio sd \<and> sd_jitter_ratio sd \<le> 1"

lemma poll_schedule_new_ok: "poll_schedule_new i t m j = Inr sd \<Longrightarrow> schedule_ok sd"
  by (auto simp: poll_schedule_new_def bind_simps schedule_ok_def)

definition source_ok :: "poll_source \<Rightarrow> bool" where
  "source_ok src \<longleftrightarrow> provider_id_ok (ps_provider_id src) \<and> schedule_ok (ps_schedule src)"

text \<open>An outcome as the exceptions' constructors make it.\<close>

fun outcome_ok :: "poll_outcome \<Rightarrow> bool" where
  "outcome_ok (Retry_after _ code) = detail_code_ok code"
| "outcome_ok Cancelled = False"
| "outcome_ok _ = True"

lemma safe_error_code_ok [simp]: "detail_code_ok (safe_error_code v)"
proof -
  have "detail_code_ok ''poll_failed''" by code_simp
  then show ?thesis by (simp add: safe_error_code_def split: option.splits)
qed

lemma fixed_codes [simp]:
  "detail_code_ok ''poll_timeout''" "detail_code_ok ''cadence_failed''" "detail_code_ok ''invalid_cadence''"
  "detail_code_ok ''poll_succeeded''" "detail_code_ok ''check_succeeded''" "detail_code_ok ''configuration_missing''"
  by code_simp+

lemma report_total:
  assumes "provider_id_ok p" "detail_code_ok code" "rp_rate_limited_until a \<in> {None} \<union> range (Some \<circ> utc)"
    "rp_last_message_observation_at a = None"
  shows "\<exists>h reg'. report now p status code a reg = Inr (h, reg')"
  using assms by (auto simp: report_def opt_aware_def Let_def)

lemma failure_total:
  "provider_id_ok p \<Longrightarrow> detail_code_ok code \<Longrightarrow> \<exists>h reg'. failure now p code None permanent reg = Inr (h, reg')"
  unfolding failure_def by (rule report_total) (simp_all add: report_defaults_def)

lemma rate_limited_total:
  "provider_id_ok p \<Longrightarrow> detail_code_ok code \<Longrightarrow> \<exists>h reg'. rate_limited now p code (utc t) reg = Inr (h, reg')"
  unfolding rate_limited_def by (rule report_total) (simp_all add: report_defaults_def)

lemma success_total:
  "provider_id_ok p \<Longrightarrow> \<exists>h reg'. success now p observed configured reg = Inr (h, reg')"
  by (auto simp: success_def intro!: report_total) (simp_all add: report_defaults_def)

lemma record_outcome_total:
  assumes "source_ok src" "outcome_ok o'"
  shows "\<exists>s1 until. record_outcome src now o' s = Inr (s1, until)
    \<and> ls_failures s1 = (case o' of Observed _ \<Rightarrow> 0 | _ \<Rightarrow> ls_failures s + 1)
    \<and> until = (case o' of Retry_after t _ \<Rightarrow> Some t | _ \<Rightarrow> None)"
proof -
  have p: "provider_id_ok (ps_provider_id src)" using assms(1) by (simp add: source_ok_def)
  note totals = success_total [OF p, of now _ "ps_configured src" "ls_registry s"] failure_total [OF p]
    rate_limited_total [OF p]
  show ?thesis
  proof (cases o')
    case (Observed b)
    then show ?thesis using totals(1) [of b] by (auto simp: record_outcome_def Let_def)
  next
    case (Retry_after t code)
    then show ?thesis
      using totals(3) [of code now t "ls_registry s"] assms(2) by (auto simp: record_outcome_def Let_def)
  next
    case Timed_out
    then show ?thesis
      using totals(2) [of "''poll_timeout''" now False "ls_registry s"] by (auto simp: record_outcome_def Let_def)
  next
    case (Failed code perm)
    then show ?thesis
      using totals(2) [of "safe_error_code code" now perm "ls_registry s"] by (auto simp: record_outcome_def Let_def)
  qed (use assms(2) in simp)
qed

definition interval_of :: "poll_source \<Rightarrow> cadence_outcome \<Rightarrow> timedelta" where
  "interval_of src c = (case c of Cadence t \<Rightarrow> if 0 < t then t else sd_interval (ps_schedule src)
     | _ \<Rightarrow> sd_interval (ps_schedule src))"

lemma choose_interval_total:
  assumes "source_ok src"
  shows "\<exists>reg'. choose_interval src now c reg = Inr (interval_of src c, reg') \<and> 0 < interval_of src c"
proof -
  have p: "provider_id_ok (ps_provider_id src)" and d: "0 < sd_interval (ps_schedule src)"
    using assms by (simp_all add: source_ok_def schedule_ok_def)
  obtain h1 r1 where r1: "failure now (ps_provider_id src) ''cadence_failed'' None False reg = Inr (h1, r1)"
    using failure_total [OF p] fixed_codes(2) by blast
  obtain h2 r2 where r2: "failure now (ps_provider_id src) ''invalid_cadence'' None False reg = Inr (h2, r2)"
    using failure_total [OF p] fixed_codes(3) by blast
  show ?thesis
    using r1 r2 d by (cases c) (auto simp: choose_interval_def interval_of_def Let_def)
qed

lemma poll_turn_total:
  assumes "source_ok src" "outcome_ok o'" "0 \<le> te_random env" "te_random env \<le> 1" "0 \<le> ls_failures s"
  obtains s' d where "poll_turn src env o' c s = Inr (s', d)"
    and "ls_failures s' = (case o' of Observed _ \<Rightarrow> 0 | _ \<Rightarrow> ls_failures s + 1)"
    and "1000 \<le> d" and "\<And>b. o' = Observed b \<Longrightarrow> d \<le> max (2 * interval_of src c) 1000"
    and "\<And>u code. o' = Retry_after u code \<Longrightarrow> u - te_now env \<le> d \<and> d \<le> max (max (sd_max_backoff (ps_schedule src)) 1000) (u - te_now env)"
    and "o' = Timed_out \<or> (\<exists>code perm. o' = Failed code perm) \<Longrightarrow> d \<le> max (sd_max_backoff (ps_schedule src)) 1000"
proof -
  let ?sd = "ps_schedule src"
  obtain s1 until where s1: "record_outcome src (te_health_now env) o' s = Inr (s1, until)"
    and f: "ls_failures s1 = (case o' of Observed _ \<Rightarrow> 0 | _ \<Rightarrow> ls_failures s + 1)"
    and until: "until = (case o' of Retry_after t _ \<Rightarrow> Some t | _ \<Rightarrow> None)"
    using record_outcome_total [OF assms(1,2)] by blast
  obtain t reg where t: "choose_interval src (te_health_now env) c (ls_registry s1) = Inr (t, reg)" "0 < t"
    "t = interval_of src c"
    using choose_interval_total [OF assms(1)] by blast
  let ?a = "\<lparr>da_interval = t, da_failure_count = ls_failures s1, da_max_backoff = sd_max_backoff ?sd,
    da_jitter_ratio = sd_jitter_ratio ?sd, da_random_value = te_random env,
    da_retry_after = map_option utc until, da_now = utc (te_now env)\<rparr>"
  let ?p = "timedelta_of_seconds (max (jittered_seconds ?a) (1 / 1000))"
  have nonneg: "0 \<le> ls_failures s1" using f assms(5) by (auto split: poll_outcome.splits)
  have ok: "delay_args_ok ?a"
    using assms(1,3,4) t(2) nonneg by (auto simp: delay_args_ok_def source_ok_def schedule_ok_def)
  note plain = plain_delay [OF ok refl]
  obtain d where d_def: "d = (case until of None \<Rightarrow> ?p | Some u \<Rightarrow> max (max ?p (u - te_now env)) 0)" by blast
  have d: "next_poll_delay ?a = Inr d"
    using ok by (auto simp: next_poll_delay_def delay_args_ok_def Let_def d_def split: option.splits)
  have run: "poll_turn src env o' c s = Inr (s1\<lparr>ls_registry := reg\<rparr>, d)"
    by (simp add: poll_turn_def s1 t(1) d)
  show thesis
  proof (rule that [OF run])
    show "ls_failures (s1\<lparr>ls_registry := reg\<rparr>) = (case o' of Observed _ \<Rightarrow> 0 | _ \<Rightarrow> ls_failures s + 1)"
      by (simp add: f)
    show "1000 \<le> d" using plain(1) by (auto simp: d_def split: option.splits)
    show "d \<le> max (2 * interval_of src c) 1000" if "o' = Observed b" for b
      using plain(3) that f until t(3) by (simp add: d_def)
    show "u - te_now env \<le> d \<and> d \<le> max (max (sd_max_backoff ?sd) 1000) (u - te_now env)"
      if "o' = Retry_after u code" for u code
      using plain(1,2) that f until assms(5) by (auto simp: d_def)
    show "d \<le> max (sd_max_backoff ?sd) 1000" if "o' = Timed_out \<or> (\<exists>code perm. o' = Failed code perm)"
      using plain(2) that f until assms(5) by (auto simp: d_def)
  qed
qed

text \<open>A run of turns, and the delays between them.\<close>

fun poll_loop :: "poll_source \<Rightarrow> (turn_env \<times> poll_outcome \<times> cadence_outcome) list \<Rightarrow> loop_state \<Rightarrow> (loop_state \<times> timedelta list) result" where
  "poll_loop src [] s = Inr (s, [])"
| "poll_loop src ((env, o', c) # ts) s =
     bind_r (poll_turn src env o' c s) (\<lambda>(s1, d).
     bind_r (poll_loop src ts s1) (\<lambda>(s2, ds). Inr (s2, d # ds)))"

fun delay_bounds :: "poll_source \<Rightarrow> turn_env \<times> poll_outcome \<times> cadence_outcome \<Rightarrow> timedelta \<Rightarrow> bool" where
  "delay_bounds src (env, Observed _, c) d \<longleftrightarrow> 1000 \<le> d \<and> d \<le> max (2 * interval_of src c) 1000"
| "delay_bounds src (env, Retry_after u _, c) d \<longleftrightarrow> 1000 \<le> d \<and> u - te_now env \<le> d
     \<and> d \<le> max (max (sd_max_backoff (ps_schedule src)) 1000) (u - te_now env)"
| "delay_bounds src (env, _, c) d \<longleftrightarrow> 1000 \<le> d \<and> d \<le> max (sd_max_backoff (ps_schedule src)) 1000"

fun turn_ok :: "turn_env \<times> poll_outcome \<times> cadence_outcome \<Rightarrow> bool" where
  "turn_ok (env, o', c) \<longleftrightarrow> outcome_ok o' \<and> 0 \<le> te_random env \<and> te_random env \<le> 1"

fun is_observed :: "poll_outcome \<Rightarrow> bool" where
  "is_observed (Observed _) = True"
| "is_observed _ = False"

fun failing_tail :: "int \<Rightarrow> poll_outcome list \<Rightarrow> int" where
  "failing_tail n [] = n"
| "failing_tail n (o' # os) = failing_tail (if is_observed o' then 0 else n + 1) os"

lemma poll_loop_total:
  assumes "source_ok src" "list_all turn_ok ts" "0 \<le> ls_failures s"
  shows "\<exists>s' ds. poll_loop src ts s = Inr (s', ds) \<and> list_all2 (delay_bounds src) ts ds
    \<and> ls_failures s' = failing_tail (ls_failures s) (map (\<lambda>t. fst (snd t)) ts)"
  using assms(2,3)
proof (induction ts arbitrary: s)
  case (Cons x ts)
  obtain env o' c where x: "x = (env, o', c)" by (cases x) auto
  with Cons.prems have ok: "outcome_ok o'" "0 \<le> te_random env" "te_random env \<le> 1" by auto
  obtain s1 d where s1: "poll_turn src env o' c s = Inr (s1, d)"
    and f: "ls_failures s1 = (case o' of Observed _ \<Rightarrow> 0 | _ \<Rightarrow> ls_failures s + 1)"
    and d: "1000 \<le> d" "\<And>b. o' = Observed b \<Longrightarrow> d \<le> max (2 * interval_of src c) 1000"
      "\<And>u code. o' = Retry_after u code \<Longrightarrow> u - te_now env \<le> d \<and> d \<le> max (max (sd_max_backoff (ps_schedule src)) 1000) (u - te_now env)"
      "o' = Timed_out \<or> (\<exists>code perm. o' = Failed code perm) \<Longrightarrow> d \<le> max (sd_max_backoff (ps_schedule src)) 1000"
    using poll_turn_total [OF assms(1) ok Cons.prems(2), of c] by metis
  have "0 \<le> ls_failures s1" using f Cons.prems(2) by (auto split: poll_outcome.splits)
  moreover have "list_all turn_ok ts" using Cons.prems(1) by simp
  ultimately obtain s2 ds where s2: "poll_loop src ts s1 = Inr (s2, ds)" "list_all2 (delay_bounds src) ts ds"
    "ls_failures s2 = failing_tail (ls_failures s1) (map (\<lambda>t. fst (snd t)) ts)"
    using Cons.IH [of s1] by blast
  have "delay_bounds src x d" using d ok(1) by (cases o') (simp_all add: x)
  moreover have "ls_failures s1 = (if is_observed o' then 0 else ls_failures s + 1)" using f by (cases o') simp_all
  ultimately show ?case using s1 s2 by (simp add: x)
qed simp


definition sample_source :: poll_source where
  "sample_source = \<lparr>ps_provider_id = ''football'', ps_schedule = \<lparr>sd_interval = minutes 1, sd_timeout = seconds 15,
     sd_max_backoff = minutes 5, sd_jitter_ratio = 1 / 10\<rparr>, ps_configured = True\<rparr>"

definition sample_turns :: "(turn_env \<times> poll_outcome \<times> cadence_outcome) list" where
  "sample_turns = (let env = \<lparr>te_health_now = 0, te_now = 0, te_random = 1 / 2\<rparr> in
     [(env, Observed True, Cadence (hours 6)), (env, Timed_out, Cadence_raises), (env, Retry_after (hours 1) ''rate_limited'', Cadence 0)])"


text \<open>
  Backoff doubles up to its cap: for an interval within the cap, after \<open>n\<close> failures in a row the
  delay is based on the smaller of the cap and the interval times two to the power \<open>n - 1\<close>; the early
  exit of the loop does not change that.
\<close>

theorem backoff_doubles:
  assumes "delay_args_ok a" "0 < da_failure_count a" "da_interval a \<le> da_max_backoff a"
  shows "base_seconds a = min (total_seconds (da_interval a) * 2 ^ nat (da_failure_count a - 1)) (total_seconds (da_max_backoff a))"
  using assms doubled_closed [of "total_seconds (da_interval a)" "total_seconds (da_max_backoff a)"]
  by (simp add: base_seconds_def delay_args_ok_def total_seconds_def)

theorem backoff_doubles_witness:
  "base_seconds \<lparr>da_interval = minutes 1, da_failure_count = 3, da_max_backoff = minutes 5, da_jitter_ratio = 0,
     da_random_value = 0, da_retry_after = None, da_now = utc 0\<rparr> = 240"
  by (subst backoff_doubles) (simp_all add: delay_args_ok_def total_seconds_def min_def)

text \<open>
  When a source asks for an interval beyond the cap of its schedule, a failure shortens the wait: with
  a cadence of six hours and a cap of five minutes the delay after one failure is five minutes.
\<close>

theorem failure_shortens_long_cadence:
  "next_poll_delay \<lparr>da_interval = hours 6, da_failure_count = 0, da_max_backoff = minutes 5, da_jitter_ratio = 0,
     da_random_value = 0, da_retry_after = None, da_now = utc 0\<rparr> = Inr (hours 6)
   \<and> next_poll_delay \<lparr>da_interval = hours 6, da_failure_count = 1, da_max_backoff = minutes 5, da_jitter_ratio = 0,
     da_random_value = 0, da_retry_after = None, da_now = utc 0\<rparr> = Inr (minutes 5)"
  by code_simp

end
