(* ===== verification/Football_Service.thy ===== *)
theory Football_Service
  imports Football_Models Char_Order
begin

text \<open>
  The read-only view of the football fixtures the API serves
  (\<open>backend/app/providers/football/service.py\<close>).
\<close>

text \<open>The cadence the source decided last; \<open>interval_seconds\<close> is kept as the time span it prints.\<close>

record cadence_view =
  cv_interval :: timedelta
  cv_reason :: string
  cv_request_cost :: int
  cv_decided_at :: string

record fixture_service =
  fv_fixtures :: "(int \<times> fixture_observation) list"
  fv_last_observation_at :: "instant option"
  fv_quota :: "dict option"
  fv_cadence :: "cadence_view option"

definition service_new :: fixture_service where
  "service_new = \<lparr>fv_fixtures = [], fv_last_observation_at = None, fv_quota = None, fv_cadence = None\<rparr>"

text \<open>A dictionary comprehension over the fixtures: one entry per identifier, the last value wins.\<close>

definition by_fixture_id :: "fixture_observation list \<Rightarrow> (int \<times> fixture_observation) list" where
  "by_fixture_id fixtures = fold (\<lambda>f. AList.update (fo_fixture_id f) f) fixtures []"

definition replace_fixtures :: "fixture_observation list \<Rightarrow> instant option \<Rightarrow> fixture_service \<Rightarrow> fixture_service" where
  "replace_fixtures fixtures observed_at s =
     s\<lparr>fv_fixtures := by_fixture_id fixtures,
       fv_last_observation_at := (if observed_at \<noteq> None then observed_at else fv_last_observation_at s)\<rparr>"

definition normalized_match_state :: "string \<Rightarrow> string" where
  "normalized_match_state status_code =
     (let code = upper status_code
      in if code = ''NS'' then ''scheduled''
         else if code = ''TBD'' then ''delayed''
         else if code \<in> {''1H'', ''2H'', ''ET'', ''BT'', ''P'', ''LIVE''} then ''live''
         else if code = ''HT'' then ''halftime''
         else if code \<in> {''FT'', ''AET'', ''PEN''} then ''fulltime''
         else if code = ''PST'' then ''postponed''
         else if code \<in> {''CANC'', ''ABD'', ''AWD'', ''WO''} then ''cancelled''
         else if code \<in> {''SUSP'', ''INT''} then ''suspended''
         else ''unknown'')"

definition phases :: "(string \<times> string) list" where
  "phases = [(''NS'', ''pre_match''), (''TBD'', ''delayed''), (''1H'', ''first_half''), (''HT'', ''halftime''),
     (''2H'', ''second_half''), (''ET'', ''extra_time''), (''BT'', ''extra_time''), (''P'', ''penalties''),
     (''LIVE'', ''unknown''), (''FT'', ''fulltime''), (''AET'', ''fulltime''), (''PEN'', ''fulltime''),
     (''PST'', ''postponed''), (''CANC'', ''cancelled''), (''ABD'', ''cancelled''), (''AWD'', ''cancelled''),
     (''WO'', ''cancelled''), (''SUSP'', ''suspended''), (''INT'', ''suspended'')]"

definition normalized_match_phase :: "string \<Rightarrow> string" where
  "normalized_match_phase status_code =
     (case map_of phases (upper status_code) of Some p \<Rightarrow> p | None \<Rightarrow> ''unknown'')"

definition summary_of :: "fixture_observation \<Rightarrow> fixture_summary result" where
  "summary_of f = fixture_summary_new
     \<lparr>sm_fixture_id = fo_fixture_id f, sm_subject_id = external_entity_id f, sm_competition = fo_competition f,
      sm_home_team = fo_home_team f, sm_away_team = fo_away_team f, sm_kickoff_at = fo_kickoff_at f,
      sm_status = (case fo_status_label f of Some l \<Rightarrow> if l \<noteq> [] then l else fo_status_code f | None \<Rightarrow> fo_status_code f),
      sm_state = normalized_match_state (fo_status_code f), sm_phase = normalized_match_phase (fo_status_code f),
      sm_minute = fo_minute f, sm_home_score = fo_home_score f, sm_away_score = fo_away_score f\<rparr>"

definition fixture_order :: "fixture_observation list \<Rightarrow> fixture_observation list" where
  "fixture_order fixtures = sort_key (\<lambda>f. (fo_kickoff_at f, fo_fixture_id f)) fixtures"

definition summaries :: "fixture_observation list \<Rightarrow> fixture_summary list result" where
  "summaries fixtures =
     fold_r (\<lambda>f acc. bind_r (summary_of f) (\<lambda>s. Inr (acc @ [s]))) (fixture_order fixtures) []"

definition stored_fixtures :: "fixture_service \<Rightarrow> fixture_observation list" where
  "stored_fixtures s = map snd (fv_fixtures s)"

definition today_fixtures :: "instant \<Rightarrow> fixture_service \<Rightarrow> fixture_summary list result" where
  "today_fixtures current s =
     summaries (filter (\<lambda>f. date_of (fo_kickoff_at f) = date_of current) (stored_fixtures s))"

definition upcoming_fixtures :: "instant \<Rightarrow> timedelta \<Rightarrow> fixture_service \<Rightarrow> fixture_summary list result" where
  "upcoming_fixtures current within s =
     summaries (filter (\<lambda>f. current < fo_kickoff_at f \<and> fo_kickoff_at f \<le> current + within
                            \<and> fo_status_code f \<in> {''NS'', ''TBD'', ''PST''}) (stored_fixtures s))"

definition live_fixture_list :: "fixture_service \<Rightarrow> fixture_summary list result" where
  "live_fixture_list s =
     summaries (filter (\<lambda>f. fo_status_code f \<in> {''1H'', ''HT'', ''2H'', ''ET'', ''BT'', ''P'', ''LIVE''}) (stored_fixtures s))"

record service_snapshot =
  sn_last_observation_at :: "string option"
  sn_cadence :: "cadence_view option"
  sn_today :: "fixture_summary list"
  sn_upcoming :: "fixture_summary list"
  sn_live :: "fixture_summary list"

definition service_snapshot_of :: "instant \<Rightarrow> fixture_service \<Rightarrow> service_snapshot result" where
  "service_snapshot_of now s =
     bind_r (today_fixtures now s) (\<lambda>t.
     bind_r (upcoming_fixtures now (days 7) s) (\<lambda>u.
     bind_r (live_fixture_list s) (\<lambda>l.
     Inr \<lparr>sn_last_observation_at = map_option isoformat (fv_last_observation_at s), sn_cadence = fv_cadence s,
          sn_today = t, sn_upcoming = u, sn_live = l\<rparr>)))"

section \<open>The view never fails\<close>

lemma state_valid: "normalized_match_state code \<in> set summary_states"
  by (simp add: normalized_match_state_def summary_states_def Let_def)

lemma phase_valid: "normalized_match_phase code \<in> set summary_phases"
proof (cases "map_of phases (upper code)")
  case (Some p)
  then have "p \<in> snd ` set phases" by (metis image_eqI map_of_SomeD snd_conv)
  moreover have "snd ` set phases \<subseteq> set summary_phases" by (simp add: phases_def summary_phases_def)
  ultimately show ?thesis using Some by (auto simp: normalized_match_phase_def)
qed (simp add: normalized_match_phase_def summary_phases_def)

lemma summary_of_total: "\<exists>s. summary_of f = Inr s \<and> sm_fixture_id s = fo_fixture_id f
    \<and> sm_kickoff_at s = fo_kickoff_at f \<and> sm_state s = normalized_match_state (fo_status_code f)"
  by (simp add: summary_of_def fixture_summary_new_def state_valid phase_valid)

lemma summaries_fold:
  "\<exists>ss. fold_r (\<lambda>f acc. bind_r (summary_of f) (\<lambda>s. Inr (acc @ [s]))) fs acc = Inr (acc @ ss)
     \<and> map (\<lambda>s. (sm_kickoff_at s, sm_fixture_id s)) ss = map (\<lambda>f. (fo_kickoff_at f, fo_fixture_id f)) fs"
proof (induction fs arbitrary: acc)
  case (Cons f fs)
  obtain s where s: "summary_of f = Inr s" "sm_fixture_id s = fo_fixture_id f" "sm_kickoff_at s = fo_kickoff_at f"
    using summary_of_total [of f] by blast
  obtain ss where "fold_r (\<lambda>f acc. bind_r (summary_of f) (\<lambda>s. Inr (acc @ [s]))) fs (acc @ [s]) = Inr ((acc @ [s]) @ ss)"
    "map (\<lambda>s. (sm_kickoff_at s, sm_fixture_id s)) ss = map (\<lambda>f. (fo_kickoff_at f, fo_fixture_id f)) fs"
    using Cons.IH [of "acc @ [s]"] by blast
  with s show ?case by (intro exI [of _ "s # ss"]) simp
qed simp

lemma summaries_total:
  "\<exists>ss. summaries fs = Inr ss \<and> sorted (map (\<lambda>s. (sm_kickoff_at s, sm_fixture_id s)) ss)
     \<and> sm_fixture_id ` set ss = fo_fixture_id ` set fs \<and> length ss = length fs"
proof -
  obtain ss where ss: "summaries fs = Inr ss"
    "map (\<lambda>s. (sm_kickoff_at s, sm_fixture_id s)) ss = map (\<lambda>f. (fo_kickoff_at f, fo_fixture_id f)) (fixture_order fs)"
    using summaries_fold [of "fixture_order fs" "[]"] by (auto simp: summaries_def)
  have "map sm_fixture_id ss = map fo_fixture_id (fixture_order fs)"
    using arg_cong [OF ss(2), of "map snd"] by (simp add: comp_def)
  then have "set (map sm_fixture_id ss) = set (map fo_fixture_id (fixture_order fs))" by (rule arg_cong)
  moreover have "sorted (map (\<lambda>s. (sm_kickoff_at s, sm_fixture_id s)) ss)"
    unfolding ss(2) by (simp add: fixture_order_def)
  moreover have "length ss = length fs"
    using arg_cong [OF ss(2), of length] by (simp add: fixture_order_def)
  ultimately show ?thesis using ss(1) by (simp add: fixture_order_def)
qed

text \<open>A fixture is stored under its own identifier, and once.\<close>

definition keyed :: "(int \<times> fixture_observation) list \<Rightarrow> bool" where
  "keyed d \<longleftrightarrow> distinct (map fst d) \<and> (\<forall>x \<in> set d. fst x = fo_fixture_id (snd x))"

lemma keyed_Nil [simp]: "keyed []"
  by (simp add: keyed_def)

lemma update_entries: "set (AList.update k v d) \<subseteq> insert (k, v) (set d)"
  by (induction d) auto

lemma keyed_update: "keyed d \<Longrightarrow> keyed (AList.update (fo_fixture_id f) f d)"
  using update_entries [of "fo_fixture_id f" f d] by (auto simp: keyed_def distinct_update)

lemma keyed_updates: "keyed d \<Longrightarrow> keyed (fold (\<lambda>f. AList.update (fo_fixture_id f) f) fs d)"
  by (induction fs arbitrary: d) (simp_all add: keyed_update)

lemma keyed_by_fixture_id [simp]: "keyed (by_fixture_id fs)"
  by (simp add: by_fixture_id_def keyed_updates)

lemma keyed_ids: "keyed d \<Longrightarrow> map fo_fixture_id (map snd d) = map fst d"
  by (induction d) (auto simp: keyed_def)

lemma keyed_distinct: "keyed d \<Longrightarrow> distinct (map fo_fixture_id (map snd d))"
  by (simp only: keyed_ids) (simp add: keyed_def)

lemma updates_entries: "snd ` set (fold (\<lambda>f. AList.update (fo_fixture_id f) f) fs d) \<subseteq> snd ` set d \<union> set fs"
proof (induction fs arbitrary: d)
  case (Cons f fs)
  have "snd ` set (AList.update (fo_fixture_id f) f d) \<subseteq> insert f (snd ` set d)"
    using update_entries [of "fo_fixture_id f" f d] by auto
  with Cons.IH [of "AList.update (fo_fixture_id f) f d"] show ?case by auto
qed simp

end
