(* ===== verification/Football_Api.thy ===== *)
theory Football_Api
  imports Football_Models
begin

text \<open>
  The quota-aware API-Football client (\<open>backend/app/providers/football/api.py\<close>): the daily budget with
  its persisted snapshots, one request with every way it can fail, paging, and the batching of
  fixture ids.  The HTTP transport, the validation of a response body by \<open>pydantic\<close> and
  \<open>email.utils.parsedate_to_datetime\<close> are parameters.
\<close>

section \<open>Errors\<close>

text \<open>
  \<open>Overflow\<close> is not an error of the client: it is the \<open>OverflowError\<close> of a date out of range, which
  no handler of the client catches.
\<close>

datatype api_error =
    Authentication_error
  | Transient_error string
  | Rate_limit_error instant string
  | Api_error string bool
  | Overflow

fun detail_code :: "api_error \<Rightarrow> string option" where
  "detail_code Authentication_error = Some ''authentication_failed''"
| "detail_code (Transient_error code) = Some code"
| "detail_code (Rate_limit_error t code) = Some code"
| "detail_code (Api_error code permanent) = Some code"
| "detail_code Overflow = None"

fun permanent :: "api_error \<Rightarrow> bool" where
  "permanent Authentication_error = True"
| "permanent (Api_error code p) = p"
| "permanent _ = False"

definition quota_budget_error :: "instant \<Rightarrow> api_error" where
  "quota_budget_error retry_after = Rate_limit_error retry_after ''daily_budget_depleted''"

section \<open>The daily budget\<close>

definition integer :: "json \<Rightarrow> int \<Rightarrow> int" where
  "integer value fallback = (case py_int value of Inr n \<Rightarrow> n | Inl e \<Rightarrow> fallback)"

definition positive_int :: "json \<Rightarrow> int \<Rightarrow> int" where
  "positive_int value fallback = (let candidate = integer value fallback in if 0 < candidate then candidate else fallback)"

definition optional_nonnegative_int :: "json \<Rightarrow> int option" where
  "optional_nonnegative_int value = (case py_int value of Inr n \<Rightarrow> if 0 \<le> n then Some n else None | Inl e \<Rightarrow> None)"

definition header :: "(string \<times> string) list \<Rightarrow> string \<Rightarrow> json" where
  "header headers name = (case filter (\<lambda>(k, v). casefold k = casefold name) headers of
     [] \<Rightarrow> JNull | (k, v) # _ \<Rightarrow> JStr v)"

text \<open>\<open>bg_saved\<close> are the snapshots handed to the \<open>persist\<close> callback, in order.\<close>

record budget =
  bg_daily_limit :: int
  bg_safety_reserve :: int
  bg_requests_used :: int
  bg_requests_remaining_header :: "int option"
  bg_per_minute_remaining :: "int option"
  bg_day :: "int option"
  bg_saved :: "dict list"

definition budget_new :: "int \<Rightarrow> int \<Rightarrow> budget" where
  "budget_new daily_limit safety_reserve = \<lparr>bg_daily_limit = daily_limit, bg_safety_reserve = safety_reserve,
     bg_requests_used = 0, bg_requests_remaining_header = None, bg_per_minute_remaining = None,
     bg_day = None, bg_saved = []\<rparr>"

definition reset :: "int \<Rightarrow> budget \<Rightarrow> budget" where
  "reset current_day b = b\<lparr>bg_day := Some current_day, bg_requests_used := 0,
     bg_requests_remaining_header := None, bg_per_minute_remaining := None\<rparr>"

definition ensure_day :: "instant \<Rightarrow> budget \<Rightarrow> budget" where
  "ensure_day now b = (if bg_day b = Some (date_of now) then b else reset (date_of now) b)"

definition local_remaining :: "budget \<Rightarrow> int" where
  "local_remaining b = max 0 (bg_daily_limit b - bg_requests_used b)"

definition remaining :: "budget \<Rightarrow> int" where
  "remaining b = (case bg_requests_remaining_header b of
     None \<Rightarrow> local_remaining b | Some h \<Rightarrow> min (local_remaining b) h)"

definition next_reset :: "instant \<Rightarrow> instant" where
  "next_reset now = days (date_of now + 1)"

definition can_request :: "instant \<Rightarrow> budget \<Rightarrow> bool \<times> budget" where
  "can_request now b = (let b' = ensure_day now b in (bg_safety_reserve b' < remaining b', b'))"

definition opt_json :: "int option \<Rightarrow> json" where
  "opt_json v = (case v of None \<Rightarrow> JNull | Some n \<Rightarrow> JInt n)"

definition budget_dict :: "instant \<Rightarrow> budget \<Rightarrow> dict" where
  "budget_dict now b =
     [(''day'', JStr (date_isoformat (date_of now))), (''requests_used'', JInt (bg_requests_used b)),
      (''requests_remaining'', JInt (remaining b)),
      (''requests_remaining_header'', opt_json (bg_requests_remaining_header b)),
      (''local_remaining'', JInt (local_remaining b)),
      (''requests_per_minute_remaining'', opt_json (bg_per_minute_remaining b)),
      (''daily_limit'', JInt (bg_daily_limit b)), (''safety_reserve'', JInt (bg_safety_reserve b)),
      (''next_reset_at'', JStr (isoformat (next_reset now)))]"

definition budget_snapshot :: "instant \<Rightarrow> budget \<Rightarrow> dict \<times> budget" where
  "budget_snapshot now b = (let b' = ensure_day now b in (budget_dict now b', b'))"

definition save :: "instant \<Rightarrow> budget \<Rightarrow> budget" where
  "save now b = (let (snapshot, b') = budget_snapshot now b in b'\<lparr>bg_saved := bg_saved b' @ [snapshot]\<rparr>)"

definition restore :: "dict \<Rightarrow> instant \<Rightarrow> budget \<Rightarrow> budget" where
  "restore snapshot now b =
     (if dict_get_or snapshot ''day'' JNull \<noteq> JStr (date_isoformat (date_of now)) then reset (date_of now) b
      else b\<lparr>bg_day := Some (date_of now),
             bg_daily_limit := positive_int (dict_get_or snapshot ''daily_limit'' JNull) 100,
             bg_requests_used := max 0 (integer (dict_get_or snapshot ''requests_used'' JNull) 0),
             bg_requests_remaining_header := optional_nonnegative_int (dict_get_or snapshot ''requests_remaining_header'' JNull),
             bg_per_minute_remaining := optional_nonnegative_int (dict_get_or snapshot ''requests_per_minute_remaining'' JNull)\<rparr>)"

definition reserve :: "instant \<Rightarrow> budget \<Rightarrow> (api_error + unit) \<times> budget" where
  "reserve now b =
     (let (ok, b') = can_request now (ensure_day now b)
      in if \<not> ok then (Inl (quota_budget_error (next_reset now)), b')
         else (Inr (), save now (b'\<lparr>bg_requests_used := bg_requests_used b' + 1\<rparr>)))"

definition update_headers :: "(string \<times> string) list \<Rightarrow> instant \<Rightarrow> budget \<Rightarrow> budget" where
  "update_headers headers now b =
     (let b' = ensure_day now b;
          daily_limit = optional_nonnegative_int (header headers ''x-ratelimit-requests-limit'');
          daily_remaining = optional_nonnegative_int (header headers ''x-ratelimit-requests-remaining'');
          minute_remaining = optional_nonnegative_int (header headers ''x-ratelimit-remaining'');
          b1 = (case daily_limit of Some n \<Rightarrow> if n \<noteq> 0 then b'\<lparr>bg_daily_limit := n\<rparr> else b' | None \<Rightarrow> b');
          b2 = (case daily_remaining of Some n \<Rightarrow> b1\<lparr>bg_requests_remaining_header := Some n\<rparr> | None \<Rightarrow> b1);
          b3 = (case minute_remaining of Some n \<Rightarrow> b2\<lparr>bg_per_minute_remaining := Some n\<rparr> | None \<Rightarrow> b2)
      in save now b3)"

section \<open>One request\<close>

text \<open>The latest instant a \<open>datetime\<close> can hold, 9999-12-31T23:59:59.999999.\<close>

definition MAX_INSTANT :: instant where
  "MAX_INSTANT = 253402300799999999"

definition plus_instant :: "instant \<Rightarrow> timedelta \<Rightarrow> (api_error + instant)" where
  "plus_instant now delta = (if now + delta \<le> MAX_INSTANT then Inr (now + delta) else Inl Overflow)"

text \<open>
  \<open>_retry_after\<close>: a number of seconds, a date, or a minute.  \<open>parse_date\<close> is
  \<open>parsedate_to_datetime\<close>, \<open>None\<close> where it raises; a date without a zone is taken as UTC.
\<close>

definition retry_after :: "(string \<Rightarrow> py_datetime option) \<Rightarrow> string option \<Rightarrow> instant \<Rightarrow> (api_error + instant)" where
  "retry_after parse_date value now =
     (let minute = plus_instant now (minutes 1)
      in case value of None \<Rightarrow> minute | Some text \<Rightarrow>
        if text = [] then minute
        else (case parse_int (strip text) of
          Some n \<Rightarrow> plus_instant now (seconds (max 0 n))
        | None \<Rightarrow> (case parse_date text of
            Some (Naive w) \<Rightarrow> Inr (max w now)
          | Some (Aware w off) \<Rightarrow> Inr (max (w - off) now)
          | None \<Rightarrow> minute)))"

datatype exchange =
    Timeout_exchange
  | Transport_failure
  | Response int "(string \<times> string) list" "json option"

type_synonym params = "(string \<times> string) list"

record api_env =
  en_now :: "nat \<Rightarrow> instant"
  en_get :: "nat \<Rightarrow> string \<Rightarrow> params \<Rightarrow> exchange"
  en_parse_date :: "string \<Rightarrow> py_datetime option"
  en_envelope :: "json \<Rightarrow> json api_envelope option"

text \<open>\<open>ac_turn\<close> counts the calls of \<open>_request\<close>, \<open>ac_sent\<close> records those that reached the transport.\<close>

record api_client =
  ac_budget :: budget
  ac_turn :: nat
  ac_sent :: "(instant \<times> string \<times> params) list"

fun error_values :: "json \<Rightarrow> json list" where
  "error_values (JDict d) = map snd d"
| "error_values (JList xs) = xs"
| "error_values _ = []"

definition error_text :: "json \<Rightarrow> string" where
  "error_text errors = join '' '' (map (\<lambda>v. casefold (py_str v)) (error_values errors))"

definition envelope_error :: "instant \<Rightarrow> string \<Rightarrow> api_error" where
  "envelope_error now text =
     (if list_ex (contains text) [''unauthorized'', ''invalid api key'', ''token''] then Authentication_error
      else if contains text ''rate'' \<and> contains text ''limit'' then Rate_limit_error (next_reset now) ''rate_limited''
      else Api_error ''provider_response_error'' True)"

text \<open>What the response means, after the headers have updated the budget.\<close>

definition read_response :: "api_env \<Rightarrow> instant \<Rightarrow> budget \<Rightarrow> int \<Rightarrow> (string \<times> string) list \<Rightarrow> json option \<Rightarrow> (api_error + dict)" where
  "read_response env now b status headers body =
     (if status = 401 \<or> status = 403 then Inl Authentication_error
      else if status = 429 then
        (case retry_after (en_parse_date env)
                (case header headers ''Retry-After'' of JStr v \<Rightarrow> Some v | _ \<Rightarrow> None) now of
           Inl e \<Rightarrow> Inl e
         | Inr t \<Rightarrow> Inl (Rate_limit_error (if remaining b = 0 then max t (next_reset now) else t) ''rate_limited''))
      else if 500 \<le> status \<and> status \<le> 599 then Inl (Transient_error ''provider_server_error'')
      else if 400 \<le> status then Inl (Api_error ''provider_request_rejected'' True)
      else (case Option.bind body (\<lambda>v. map_option (\<lambda>e. (v, e)) (en_envelope env v)) of
          None \<Rightarrow> Inl (Transient_error ''invalid_provider_response'')
        | Some (v, envelope) \<Rightarrow>
            if error_values (ae_errors envelope) \<noteq> [] then Inl (envelope_error now (error_text (ae_errors envelope)))
            else (case v of JDict d \<Rightarrow> Inr d | _ \<Rightarrow> Inl (Transient_error ''invalid_provider_response''))))"

definition request :: "api_env \<Rightarrow> string \<Rightarrow> params \<Rightarrow> api_client \<Rightarrow> (api_error + dict) \<times> api_client" where
  "request env path params c =
     (let turn = ac_turn c; now = en_now env turn; (ok, b) = can_request now (ac_budget c);
          c0 = c\<lparr>ac_turn := Suc turn\<rparr>
      in if \<not> ok then (Inl (quota_budget_error (next_reset now)), c0\<lparr>ac_budget := b\<rparr>)
         else (case reserve now b of
             (Inl e, b1) \<Rightarrow> (Inl e, c0\<lparr>ac_budget := b1\<rparr>)
           | (Inr _, b1) \<Rightarrow>
               (let sent = (\<lambda>b'. c0\<lparr>ac_budget := b', ac_sent := ac_sent c @ [(now, path, params)]\<rparr>)
                in case en_get env turn path params of
                     Timeout_exchange \<Rightarrow> (Inl (Transient_error ''provider_timeout''), sent b1)
                   | Transport_failure \<Rightarrow> (Inl (Transient_error ''provider_transport_failure''), sent b1)
                   | Response status headers body \<Rightarrow>
                       (let b2 = update_headers headers now b1
                        in (read_response env now b2 status headers body, sent b2)))))"


section \<open>Paging and batching\<close>

type_synonym 'a call = "api_client \<Rightarrow> (api_error + 'a) \<times> api_client"

definition bind_a :: "'a call \<Rightarrow> ('a \<Rightarrow> 'b call) \<Rightarrow> 'b call" where
  "bind_a m f c = (case m c of (Inl e, c') \<Rightarrow> (Inl e, c') | (Inr x, c') \<Rightarrow> f x c')"

definition return_a :: "'a \<Rightarrow> 'a call" where
  "return_a x c = (Inr x, c)"

definition fail_a :: "api_error \<Rightarrow> 'a call" where
  "fail_a e c = (Inl e, c)"

text \<open>\<open>validate\<close> is \<open>model_validate\<close> of the response model, \<open>None\<close> where it raises.\<close>

definition typed_response :: "(dict \<Rightarrow> 'r api_envelope option) \<Rightarrow> dict \<Rightarrow> 'r api_envelope call" where
  "typed_response validate body = (case validate body of
     None \<Rightarrow> fail_a (Transient_error ''invalid_provider_response'') | Some e \<Rightarrow> return_a e)"

fun more_pages :: "api_env \<Rightarrow> (dict \<Rightarrow> 'r api_envelope option) \<Rightarrow> string \<Rightarrow> params \<Rightarrow> int list \<Rightarrow> 'r list \<Rightarrow> 'r list call" where
  "more_pages env validate path params [] results = return_a results"
| "more_pages env validate path params (page # pages) results =
     bind_a (request env path (AList.update ''page'' (int_str page) params)) (\<lambda>body.
     bind_a (typed_response validate body) (\<lambda>paged.
     more_pages env validate path params pages (results @ ae_response paged)))"

definition all_pages :: "api_env \<Rightarrow> (dict \<Rightarrow> 'r api_envelope option) \<Rightarrow> string \<Rightarrow> params \<Rightarrow> 'r list call" where
  "all_pages env validate path params =
     bind_a (request env path params) (\<lambda>body.
     bind_a (typed_response validate body) (\<lambda>first.
     more_pages env validate path params [pg_current (ae_paging first) + 1..pg_total (ae_paging first)]
       (ae_response first)))"

definition leagues_current :: "api_env \<Rightarrow> (dict \<Rightarrow> league_record api_envelope option) \<Rightarrow> league_record list call" where
  "leagues_current env validate = all_pages env validate ''/leagues'' [(''current'', ''true'')]"

definition leagues_search ::
  "api_env \<Rightarrow> (dict \<Rightarrow> league_record api_envelope option) \<Rightarrow> string \<Rightarrow> bool \<Rightarrow> league_record list call" where
  "leagues_search env validate query current_only =
     bind_a (request env ''/leagues'' ((''search'', query) # (if current_only then [(''current'', ''true'')] else []))) (\<lambda>body.
     bind_a (typed_response validate body) (\<lambda>e. return_a (ae_response e)))"

definition fixtures_by_date ::
  "api_env \<Rightarrow> (dict \<Rightarrow> fixture_record api_envelope option) \<Rightarrow> int \<Rightarrow> fixture_record list call" where
  "fixtures_by_date env validate day =
     all_pages env validate ''/fixtures'' [(''date'', date_isoformat day), (''timezone'', ''UTC'')]"

definition fixtures_by_competition_window ::
  "api_env \<Rightarrow> (dict \<Rightarrow> fixture_record api_envelope option) \<Rightarrow> int \<Rightarrow> int option \<Rightarrow> int \<Rightarrow> int \<Rightarrow> fixture_record list call" where
  "fixtures_by_competition_window env validate league_id season start end_day =
     all_pages env validate ''/fixtures''
       ([(''league'', int_str league_id), (''from'', date_isoformat start), (''to'', date_isoformat end_day),
         (''timezone'', ''UTC'')] @ (case season of None \<Rightarrow> [] | Some y \<Rightarrow> [(''season'', int_str y)]))"

definition id_list :: "int list \<Rightarrow> string" where
  "id_list ids = join ''-'' (map int_str ids)"

definition live_fixtures ::
  "api_env \<Rightarrow> (dict \<Rightarrow> fixture_record api_envelope option) \<Rightarrow> int list \<Rightarrow> fixture_record list call" where
  "live_fixtures env validate league_ids =
     (if league_ids = [] then return_a []
      else all_pages env validate ''/fixtures'' [(''live'', id_list (sorted_list_of_set (set league_ids)))])"

definition MAX_FIXTURE_IDS :: nat where
  "MAX_FIXTURE_IDS = 20"

function batches :: "nat \<Rightarrow> 'a list \<Rightarrow> 'a list list" where
  "batches n xs = (if xs = [] \<or> n = 0 then [] else take n xs # batches n (drop n xs))"
  by pat_completeness auto
termination by (relation "measure (length \<circ> snd)") auto

declare batches.simps [simp del]

fun fetch_batches ::
  "api_env \<Rightarrow> (dict \<Rightarrow> fixture_record api_envelope option) \<Rightarrow> int list list \<Rightarrow> fixture_record list \<Rightarrow> fixture_record list call" where
  "fetch_batches env validate [] fixtures = return_a fixtures"
| "fetch_batches env validate (batch # rest) fixtures =
     bind_a (request env ''/fixtures'' [(''ids'', id_list batch)]) (\<lambda>body.
     bind_a (typed_response validate body) (\<lambda>e.
     fetch_batches env validate rest (fixtures @ ae_response e)))"

definition fixtures_by_ids ::
  "api_env \<Rightarrow> (dict \<Rightarrow> fixture_record api_envelope option) \<Rightarrow> int list \<Rightarrow> fixture_record list call" where
  "fixtures_by_ids env validate fixture_ids =
     fetch_batches env validate (batches MAX_FIXTURE_IDS (sorted_list_of_set (set fixture_ids))) []"

text \<open>\<open>_wait_for_request_slot\<close>: how long a request waits after the one before it.\<close>

definition slot_delay :: "timedelta \<Rightarrow> instant option \<Rightarrow> instant \<Rightarrow> timedelta" where
  "slot_delay min_interval last_started now =
     (if min_interval \<le> 0 then 0
      else case last_started of None \<Rightarrow> 0 | Some t \<Rightarrow> max 0 (min_interval - (now - t)))"

section \<open>Lemmas\<close>

lemma slot_delay_spaces:
  "0 < min_interval \<Longrightarrow> t + min_interval \<le> now + slot_delay min_interval (Some t) now"
  by (simp add: slot_delay_def)

lemma batches_concat: "0 < n \<Longrightarrow> concat (batches n xs) = xs"
  by (induction n xs rule: batches.induct) (subst batches.simps, auto)

lemma batches_bounded: "b \<in> set (batches n xs) \<Longrightarrow> b \<noteq> [] \<and> length b \<le> n"
  by (induction n xs rule: batches.induct) (subst (asm) (2) batches.simps, auto split: if_splits)

lemma ensure_day_facts [simp]:
  "bg_day (ensure_day now b) = Some (date_of now)"
  "bg_saved (ensure_day now b) = bg_saved b"
  "bg_safety_reserve (ensure_day now b) = bg_safety_reserve b"
  "bg_daily_limit (ensure_day now b) = bg_daily_limit b"
  by (auto simp: ensure_day_def reset_def)

lemma ensure_day_same: "bg_day b = Some (date_of now) \<Longrightarrow> ensure_day now b = b"
  by (simp add: ensure_day_def)

lemma save_eq: "bg_day b = Some (date_of now) \<Longrightarrow> save now b = b\<lparr>bg_saved := bg_saved b @ [budget_dict now b]\<rparr>"
  by (simp add: save_def budget_snapshot_def ensure_day_same Let_def)

lemma reserve_cases:
  "reserve now b =
     (let b' = ensure_day now b in
      if bg_safety_reserve b < remaining b'
      then (Inr (), let b1 = b'\<lparr>bg_requests_used := bg_requests_used b' + 1\<rparr>
                    in b1\<lparr>bg_saved := bg_saved b1 @ [budget_dict now b1]\<rparr>)
      else (Inl (quota_budget_error (next_reset now)), b'))"
  by (simp add: reserve_def can_request_def ensure_day_same save_eq Let_def)

lemma update_headers_facts:
  assumes "bg_day b = Some (date_of now)"
  shows "\<exists>b'. update_headers headers now b = b'\<lparr>bg_saved := bg_saved b @ [budget_dict now b']\<rparr>
    \<and> bg_day b' = bg_day b \<and> bg_requests_used b' = bg_requests_used b \<and> bg_safety_reserve b' = bg_safety_reserve b
    \<and> (bg_daily_limit b' = bg_daily_limit b
       \<or> optional_nonnegative_int (header headers ''x-ratelimit-requests-limit'') = Some (bg_daily_limit b'))"
  using assms
  by (auto simp: update_headers_def ensure_day_same Let_def save_eq split: option.splits)

lemma integer_simps [simp]:
  "integer (JInt n) f = n" "optional_nonnegative_int (opt_json (Some n)) = (if 0 \<le> n then Some n else None)"
  "optional_nonnegative_int (opt_json None) = None"
  by (simp_all add: integer_def optional_nonnegative_int_def opt_json_def)

lemma restore_dict:
  "restore (budget_dict t b) now x =
     (if date_isoformat (date_of t) \<noteq> date_isoformat (date_of now) then reset (date_of now) x
      else x\<lparr>bg_day := Some (date_of now),
             bg_daily_limit := (if 0 < bg_daily_limit b then bg_daily_limit b else 100),
             bg_requests_used := max 0 (bg_requests_used b),
             bg_requests_remaining_header := optional_nonnegative_int (opt_json (bg_requests_remaining_header b)),
             bg_per_minute_remaining := optional_nonnegative_int (opt_json (bg_per_minute_remaining b))\<rparr>)"
  by (simp add: restore_def budget_dict_def dict_get_or_def positive_int_def Let_def)


section \<open>The quota over days and restarts\<close>

text \<open>
  Besides requests, the process may stop and start again: the new client begins with a new budget and
  restores the last snapshot that was persisted (\<open>FootballPollSource.initialize\<close>).
\<close>

definition restart :: "instant \<Rightarrow> api_client \<Rightarrow> api_client" where
  "restart now c =
     (let fresh = (budget_new 100 5)\<lparr>bg_saved := bg_saved (ac_budget c)\<rparr>
      in c\<lparr>ac_turn := Suc (ac_turn c),
           ac_budget := (if bg_saved fresh = [] then fresh else restore (last (bg_saved fresh)) now fresh)\<rparr>)"

datatype api_action = Request string params | Restart

fun api_step :: "api_env \<Rightarrow> api_action \<Rightarrow> api_client \<Rightarrow> api_client" where
  "api_step env (Request path params) c = snd (request env path params c)"
| "api_step env Restart c = restart (en_now env (ac_turn c)) c"

definition sent_on :: "int \<Rightarrow> api_client \<Rightarrow> nat" where
  "sent_on day c = length (filter (\<lambda>x. date_of (fst x) = day) (ac_sent c))"

definition fresh_client :: api_client where
  "fresh_client = \<lparr>ac_budget = budget_new 100 5, ac_turn = 0, ac_sent = []\<rparr>"

text \<open>The two things the quota rests on: days do not go back, and no limit above \<open>limit\<close> is reported.\<close>

definition days_forward :: "api_env \<Rightarrow> bool" where
  "days_forward env \<longleftrightarrow> (\<forall>i. date_of (en_now env i) \<le> date_of (en_now env (Suc i)))"

definition limits_reported :: "api_env \<Rightarrow> int \<Rightarrow> bool" where
  "limits_reported env limit \<longleftrightarrow> (\<forall>turn path ps status headers body n.
     en_get env turn path ps = Response status headers body \<longrightarrow>
     optional_nonnegative_int (header headers ''x-ratelimit-requests-limit'') = Some n \<longrightarrow> n \<le> limit)"

text \<open>
  The counter of a budget covers the requests of its day, and nothing was sent on a later day; the same
  holds for the last snapshot.
\<close>

definition covers :: "api_client \<Rightarrow> int \<Rightarrow> int \<Rightarrow> bool" where
  "covers c day used \<longleftrightarrow> int (sent_on day c) \<le> used \<and> (\<forall>later > day. sent_on later c = 0)"

definition today :: "api_env \<Rightarrow> api_client \<Rightarrow> int" where
  "today env c = date_of (en_now env (ac_turn c))"

definition saved_ok :: "int \<Rightarrow> int \<Rightarrow> api_client \<Rightarrow> dict list \<Rightarrow> bool" where
  "saved_ok limit day c saved \<longleftrightarrow> (if saved = [] then ac_sent c = []
     else \<exists>t b. last saved = budget_dict t b \<and> date_of t \<le> day \<and> covers c (date_of t) (bg_requests_used b)
            \<and> bg_daily_limit b \<le> limit)"

definition budget_ok :: "int \<Rightarrow> int \<Rightarrow> api_client \<Rightarrow> budget \<Rightarrow> bool" where
  "budget_ok limit day c b \<longleftrightarrow> bg_safety_reserve b = 5 \<and> bg_daily_limit b \<le> limit
     \<and> (case bg_day b of None \<Rightarrow> bg_saved b = [] \<and> ac_sent c = []
        | Some d \<Rightarrow> d \<le> day \<and> covers c d (bg_requests_used b))"

definition quota_ok :: "int \<Rightarrow> int \<Rightarrow> api_client \<Rightarrow> bool" where
  "quota_ok limit day c \<longleftrightarrow> budget_ok limit day c (ac_budget c) \<and> saved_ok limit day c (bg_saved (ac_budget c))
     \<and> (\<forall>d. int (sent_on d c) \<le> max 0 (limit - 5))"

lemma covers_later: "covers c d u \<Longrightarrow> d < d' \<Longrightarrow> covers c d' 0"
  by (simp add: covers_def)

lemma sent_on_empty: "ac_sent c = [] \<Longrightarrow> sent_on d c = 0"
  by (simp add: sent_on_def)

lemma covers_empty: "ac_sent c = [] \<Longrightarrow> 0 \<le> u \<Longrightarrow> covers c d u"
  by (simp add: covers_def sent_on_empty)

lemma budget_ok_ensure_day:
  assumes "budget_ok limit (date_of now) c b"
  shows "budget_ok limit (date_of now) c (ensure_day now b)" "covers c (date_of now) (bg_requests_used (ensure_day now b))"
proof -
  show *: "covers c (date_of now) (bg_requests_used (ensure_day now b))"
  proof (cases "bg_day b")
    case None
    with assms show ?thesis by (simp add: budget_ok_def ensure_day_def reset_def covers_empty)
  next
    case (Some d)
    with assms have "d \<le> date_of now" "covers c d (bg_requests_used b)" by (auto simp: budget_ok_def)
    with Some show ?thesis
      using covers_later [of c d _ "date_of now"] by (cases "d = date_of now") (auto simp: ensure_day_def reset_def)
  qed
  from assms show "budget_ok limit (date_of now) c (ensure_day now b)" using * by (simp add: budget_ok_def)
qed

lemma reserve_ok:
  assumes "budget_ok limit (date_of now) c b" "reserve now b = (Inr u, b1)" "0 \<le> bg_requests_used b \<or> True"
  shows "\<exists>b0. b1 = b0\<lparr>bg_saved := bg_saved b @ [budget_dict now b0]\<rparr> \<and> bg_day b0 = Some (date_of now)
    \<and> bg_safety_reserve b0 = 5 \<and> bg_daily_limit b0 \<le> limit
    \<and> int (sent_on (date_of now) c) + 1 \<le> bg_requests_used b0 \<and> bg_requests_used b0 \<le> limit - 5"
proof -
  note e = budget_ok_ensure_day [OF assms(1)]
  let ?b = "ensure_day now b"
  from assms(1) have r: "bg_safety_reserve b = 5" "bg_daily_limit ?b \<le> limit" by (simp_all add: budget_ok_def)
  from assms(2) r have "5 < remaining ?b" by (simp add: reserve_cases Let_def split: if_splits)
  then have "5 < local_remaining ?b" by (simp add: remaining_def split: option.splits)
  then have "bg_requests_used ?b + 1 \<le> limit - 5" using r by (simp add: local_remaining_def)
  moreover have "int (sent_on (date_of now) c) \<le> bg_requests_used ?b" using e(2) by (simp add: covers_def)
  ultimately show ?thesis
    using assms(2) r by (intro exI [of _ "?b\<lparr>bg_requests_used := bg_requests_used ?b + 1\<rparr>"])
      (auto simp: reserve_cases Let_def split: if_splits)
qed

lemma remaining_saved [simp]: "remaining (b\<lparr>bg_saved := ss\<rparr>) = remaining b"
    "local_remaining (b\<lparr>bg_saved := ss\<rparr>) = local_remaining b"
  by (simp_all add: remaining_def local_remaining_def cong: option.case_cong)

lemma budget_dict_saved [simp]: "budget_dict t (b\<lparr>bg_saved := ss\<rparr>) = budget_dict t b"
  by (simp add: budget_dict_def)

text \<open>What the rest of the step relies on: a request was sent today and is counted.\<close>

lemma quota_ok_sent:
  assumes "quota_ok limit day c" "date_of now = day" "bg_day b0 = Some day" "bg_safety_reserve b0 = 5"
    "bg_daily_limit b0 \<le> limit" "int (sent_on day c) + 1 \<le> bg_requests_used b0" "int (sent_on day c) + 1 \<le> limit - 5"
    "\<forall>later > day. sent_on later c = 0"
  shows "quota_ok limit day (c\<lparr>ac_turn := n, ac_budget := b0\<lparr>bg_saved := ss @ [budget_dict now b0]\<rparr>,
    ac_sent := ac_sent c @ [(now, path, ps)]\<rparr>)"
proof -
  let ?c = "c\<lparr>ac_turn := n, ac_budget := b0\<lparr>bg_saved := ss @ [budget_dict now b0]\<rparr>, ac_sent := ac_sent c @ [(now, path, ps)]\<rparr>"
  have sent: "sent_on d ?c = sent_on d c + (if d = day then 1 else 0)" for d
    using assms(2) by (simp add: sent_on_def)
  then have "covers ?c day (bg_requests_used b0)" using assms(6,8) by (simp add: covers_def)
  moreover have "\<forall>d. int (sent_on d ?c) \<le> max 0 (limit - 5)"
    using sent assms(1,7) by (auto simp: quota_ok_def)
  ultimately show ?thesis using assms(2-5) by (auto simp: quota_ok_def budget_ok_def saved_ok_def)
qed

lemma quota_ok_budget:
  assumes "quota_ok limit day c" "budget_ok limit day c b" "bg_saved b = bg_saved (ac_budget c)"
  shows "quota_ok limit day (c\<lparr>ac_turn := n, ac_budget := b\<rparr>)"
proof -
  have "sent_on d (c\<lparr>ac_turn := n, ac_budget := b\<rparr>) = sent_on d c" for d by (simp add: sent_on_def)
  then have "covers (c\<lparr>ac_turn := n, ac_budget := b\<rparr>) d u \<longleftrightarrow> covers c d u" for d u by (simp add: covers_def)
  with assms show ?thesis
    by (auto simp: quota_ok_def budget_ok_def saved_ok_def sent_on_def split: option.splits)
qed

lemma quota_ok_later:
  assumes "quota_ok limit day c" "day \<le> day'"
  shows "quota_ok limit day' c"
  using assms by (fastforce simp: quota_ok_def budget_ok_def saved_ok_def split: option.splits if_splits)

lemma can_request_budget: "can_request now b = (bg_safety_reserve b < remaining (ensure_day now b), ensure_day now b)"
  by (simp add: can_request_def Let_def)

lemma request_quota_ok:
  assumes ok: "quota_ok limit (today env c) c"
    and limit: "limits_reported env limit"
  shows "quota_ok limit (today env c) (snd (request env path ps c))"
proof -
  let ?now = "en_now env (ac_turn c)" and ?b = "ensure_day (en_now env (ac_turn c)) (ac_budget c)"
  have day: "today env c = date_of ?now" by (simp add: today_def)
  have b: "budget_ok limit (date_of ?now) c ?b" "covers c (date_of ?now) (bg_requests_used ?b)"
    using budget_ok_ensure_day [of limit ?now c "ac_budget c"] ok by (simp_all add: quota_ok_def day)
  have later: "\<forall>later > date_of ?now. sent_on later c = 0" using b(2) by (simp add: covers_def)
  obtain r b1 where r: "reserve ?now ?b = (r, b1)" by fastforce
  show ?thesis
  proof (cases "bg_safety_reserve (ac_budget c) < remaining ?b")
    case False
    then show ?thesis
      using quota_ok_budget [OF ok, of ?b "Suc (ac_turn c)"] b(1)
      by (simp add: request_def can_request_budget Let_def day)
  next
    case True
    then obtain u where u: "r = Inr u" using r by (auto simp: reserve_cases ensure_day_same Let_def)
    obtain b0 where b0: "b1 = b0\<lparr>bg_saved := bg_saved ?b @ [budget_dict ?now b0]\<rparr>" "bg_day b0 = Some (date_of ?now)"
      "bg_safety_reserve b0 = 5" "bg_daily_limit b0 \<le> limit"
      "int (sent_on (date_of ?now) c) + 1 \<le> bg_requests_used b0" "bg_requests_used b0 \<le> limit - 5"
      using reserve_ok [OF b(1)] r u by blast
    note sent = quota_ok_sent [where n = "Suc (ac_turn c)" and path = path and ps = ps, OF ok [unfolded day] refl]
    have c1: "quota_ok limit (date_of ?now) (c\<lparr>ac_turn := Suc (ac_turn c), ac_budget := b1,
        ac_sent := ac_sent c @ [(?now, path, ps)]\<rparr>)"
      using sent [of b0 "bg_saved ?b"] b0 later by simp
    have c2: "quota_ok limit (date_of ?now) (c\<lparr>ac_turn := Suc (ac_turn c),
        ac_budget := update_headers headers ?now b1, ac_sent := ac_sent c @ [(?now, path, ps)]\<rparr>)"
      if get: "en_get env (ac_turn c) path ps = Response status headers body" for status headers body
    proof -
      have "bg_day b1 = Some (date_of ?now)" using b0 by simp
      from update_headers_facts [OF this, of headers] obtain b' where b':
        "update_headers headers ?now b1 = b'\<lparr>bg_saved := bg_saved b1 @ [budget_dict ?now b']\<rparr>"
        "bg_day b' = bg_day b1" "bg_requests_used b' = bg_requests_used b1" "bg_safety_reserve b' = bg_safety_reserve b1"
        "bg_daily_limit b' = bg_daily_limit b1
         \<or> optional_nonnegative_int (header headers ''x-ratelimit-requests-limit'') = Some (bg_daily_limit b')" by blast
      have "bg_daily_limit b' \<le> limit" using b'(5) limit get b0(1,4) unfolding limits_reported_def by fastforce
      then show ?thesis
        using sent [of b' "bg_saved b1"] b' b0 later by simp
    qed
    show ?thesis
      using c1 c2 True by (simp add: request_def can_request_budget Let_def day r u split: exchange.splits)
  qed
qed

lemma restart_quota_ok:
  assumes ok: "quota_ok limit (date_of now) c" and "100 \<le> limit"
  shows "quota_ok limit (date_of now) (restart now c)"
proof -
  let ?fresh = "(budget_new 100 5)\<lparr>bg_saved := bg_saved (ac_budget c)\<rparr>"
  let ?b = "if bg_saved ?fresh = [] then ?fresh else restore (last (bg_saved ?fresh)) now ?fresh"
  have "budget_ok limit (date_of now) c ?b"
  proof (cases "bg_saved (ac_budget c) = []")
    case True
    with ok assms(2) show ?thesis by (auto simp: quota_ok_def budget_ok_def saved_ok_def budget_new_def)
  next
    case False
    with ok obtain t b where b: "last (bg_saved (ac_budget c)) = budget_dict t b" "date_of t \<le> date_of now"
      "covers c (date_of t) (bg_requests_used b)" "bg_daily_limit b \<le> limit" by (auto simp: quota_ok_def saved_ok_def)
    have "covers c (date_of now) (max 0 (bg_requests_used b))"
      using b(2,3) by (cases "date_of t = date_of now") (auto simp: covers_def)
    moreover have "covers c (date_of now) 0" if "date_isoformat (date_of t) \<noteq> date_isoformat (date_of now)"
      using b(2) that covers_later [OF b(3), of "date_of now"] by (cases "date_of t = date_of now") auto
    ultimately show ?thesis
      using False b(1,4) assms(2) by (auto simp: budget_ok_def restore_dict budget_new_def reset_def)
  qed
  moreover have "bg_saved ?b = bg_saved (ac_budget c)" by (simp add: restore_def reset_def)
  ultimately show ?thesis
    using quota_ok_budget [OF ok] by (simp add: restart_def Let_def)
qed

lemma api_run_quota_ok:
  assumes "days_forward env" and "100 \<le> limit"
    and "limits_reported env limit"
    and "quota_ok limit (today env c) c"
  shows "quota_ok limit (today env (fold (api_step env) actions c)) (fold (api_step env) actions c)"
  using assms(4)
proof (induction actions arbitrary: c)
  case (Cons a actions)
  have turn: "ac_turn (api_step env a c) = Suc (ac_turn c)"
    by (cases a) (simp_all add: request_def restart_def Let_def split: sum.splits prod.splits exchange.splits)
  have "quota_ok limit (today env c) (api_step env a c)"
    using request_quota_ok [OF Cons.prems assms(3)] restart_quota_ok [OF Cons.prems [unfolded today_def] assms(2)]
    by (cases a) (simp_all add: today_def)
  then have "quota_ok limit (today env (api_step env a c)) (api_step env a c)"
    using quota_ok_later assms(1) by (simp add: today_def turn days_forward_def)
  then show ?case using Cons.IH by simp
qed simp

text \<open>
  C9.  The daily quota holds across failures and restarts.  Whatever the transport answers and
  however often the process restarts: if the clock does not go back a day and the limit the provider
  reports is never above some limit of a hundred or more, then on no UTC day are more requests sent
  than that limit less the reserve of five.
\<close>

theorem daily_quota_respected:
  assumes "days_forward env" and "100 \<le> limit"
    and "limits_reported env limit"
  shows "int (sent_on day (fold (api_step env) actions fresh_client)) \<le> limit - 5"
proof -
  have "quota_ok limit (today env fresh_client) fresh_client"
    using assms(2) by (simp add: quota_ok_def budget_ok_def saved_ok_def fresh_client_def budget_new_def sent_on_def)
  then have "quota_ok limit (today env (fold (api_step env) actions fresh_client)) (fold (api_step env) actions fresh_client)"
    by (rule api_run_quota_ok [OF assms])
  then show ?thesis using assms(2) by (auto simp: quota_ok_def)
qed

definition sample_api_env :: api_env where
  "sample_api_env = \<lparr>en_now = (\<lambda>i. days (int i div 200)),
     en_get = (\<lambda>turn path ps. if even turn then Timeout_exchange
       else Response 200 [(''X-RateLimit-Requests-Limit'', ''100'')] (Some (JDict []))),
     en_parse_date = (\<lambda>t. None),
     en_envelope = (\<lambda>v. Some \<lparr>ae_errors = JList [], ae_results = 0, ae_paging = \<lparr>pg_current = 1, pg_total = 1\<rparr>, ae_response = []\<rparr>)\<rparr>"

theorem daily_quota_respected_witness:
  "int (sent_on 0 (fold (api_step sample_api_env) (concat (replicate 150 [Request ''/fixtures'' [], Restart])) fresh_client)) \<le> 95"
proof -
  have "optional_nonnegative_int (header [(''X-RateLimit-Requests-Limit'', ''100'')] ''x-ratelimit-requests-limit'') = Some 100"
    by code_simp
  then have "limits_reported sample_api_env 100"
    by (auto simp: limits_reported_def sample_api_env_def split: if_splits)
  moreover have "days_forward sample_api_env"
    by (simp add: days_forward_def sample_api_env_def date_of_def zdiv_mono1)
  ultimately show ?thesis using daily_quota_respected [of sample_api_env 100] by simp
qed

section \<open>A Retry-After out of range\<close>

text \<open>
  A number of seconds that leads beyond the year 9999 raises \<open>OverflowError\<close>, which the handler around
  it does not catch: the rate limit surfaces as an error without a code instead of a date to wait for.
\<close>

theorem retry_after_out_of_range:
  "retry_after parse_date (Some ''999999999999'') 0 = Inl Overflow"
proof -
  have "parse_int (strip ''999999999999'') = Some 999999999999" by code_simp
  then show ?thesis by (simp add: retry_after_def plus_instant_def MAX_INSTANT_def Let_def)
qed

end
