(* ===== verification/Leagues.thy ===== *)
theory Leagues
  imports Football_Models
begin

text \<open>
  The locked catalog of competitions and its resolution against the provider's league metadata
  (\<open>backend/app/providers/football/leagues.py\<close>).
\<close>

record competition =
  co_canonical_name :: string
  co_aliases :: "string set"
  co_countries :: "string set"

definition LOCKED_COMPETITIONS :: "competition list" where
  "LOCKED_COMPETITIONS =
    [\<lparr>co_canonical_name = ''Premier League'', co_aliases = {''premier league'', ''epl''}, co_countries = {''england''}\<rparr>,
     \<lparr>co_canonical_name = ''La Liga'', co_aliases = {''la liga'', ''laliga''}, co_countries = {''spain''}\<rparr>,
     \<lparr>co_canonical_name = ''Bundesliga'', co_aliases = {''bundesliga''}, co_countries = {''germany''}\<rparr>,
     \<lparr>co_canonical_name = ''Ligue 1'', co_aliases = {''ligue 1''}, co_countries = {''france''}\<rparr>,
     \<lparr>co_canonical_name = ''EFL Championship'', co_aliases = {''efl championship'', ''championship''},
       co_countries = {''england''}\<rparr>,
     \<lparr>co_canonical_name = ''UEFA Champions League'',
       co_aliases = {''uefa champions league'', ''champions league'', ''ucl''}, co_countries = {''europe'', ''world''}\<rparr>,
     \<lparr>co_canonical_name = ''UEFA Europa League'',
       co_aliases = {''uefa europa league'', ''europa league'', ''uel''}, co_countries = {''europe'', ''world''}\<rparr>,
     \<lparr>co_canonical_name = ''FA Cup'', co_aliases = {''fa cup''}, co_countries = {''england''}\<rparr>,
     \<lparr>co_canonical_name = ''Carabao Cup'', co_aliases = {''carabao cup'', ''league cup'', ''efl cup''},
       co_countries = {''england''}\<rparr>,
     \<lparr>co_canonical_name = ''Serie A'', co_aliases = {''serie a''}, co_countries = {''italy''}\<rparr>,
     \<lparr>co_canonical_name = ''MLS'', co_aliases = {''mls'', ''major league soccer''},
       co_countries = {''usa'', ''united states''}\<rparr>]"

section \<open>Names\<close>

text \<open>
  NFKD followed by dropping the combining marks, on the characters up to 255: an accented letter
  becomes its base letter, a compatibility character its plain form.  The four whose normal form lies
  outside this range (the micro sign and the three fractions) are kept.
\<close>

definition base_char :: "char \<Rightarrow> char" where
  "base_char c =
     (let n = (of_char c :: int); within = (\<lambda>a b. a \<le> n \<and> n \<le> b);
          letter = (\<lambda>u. if 224 \<le> n then char_of (of_char u + 32 :: int) else u)
      in if n \<in> {160, 168, 175, 180, 184} then CHR '' ''
         else if n = 170 then CHR ''a'' else if n = 186 then CHR ''o''
         else if n = 178 then CHR ''2'' else if n = 179 then CHR ''3'' else if n = 185 then CHR ''1''
         else if within 192 197 \<or> within 224 229 then letter (CHR ''A'')
         else if n = 199 \<or> n = 231 then letter (CHR ''C'')
         else if within 200 203 \<or> within 232 235 then letter (CHR ''E'')
         else if within 204 207 \<or> within 236 239 then letter (CHR ''I'')
         else if n = 209 \<or> n = 241 then letter (CHR ''N'')
         else if within 210 214 \<or> within 242 246 then letter (CHR ''O'')
         else if within 217 220 \<or> within 249 252 then letter (CHR ''U'')
         else if n = 221 \<or> n = 253 \<or> n = 255 then letter (CHR ''Y'')
         else c)"

definition casefold_char :: "char \<Rightarrow> string" where
  "casefold_char c =
     (let n = (of_char c :: int)
      in if n = 223 then ''ss'' else if n \<in> {198, 208, 216, 222} then [char_of (n + 32)] else [char_lower c])"

definition any_space :: "char \<Rightarrow> bool" where
  "any_space c = (is_space c \<or> (of_char c :: int) \<in> {133, 160})"

text \<open>\<open>re.sub(r"\s+", " ", text)\<close>; the flag says whether the character before was a space.\<close>

fun squeeze :: "bool \<Rightarrow> string \<Rightarrow> string" where
  "squeeze after [] = []"
| "squeeze after (c # cs) =
     (if any_space c then (if after then squeeze True cs else CHR '' '' # squeeze True cs)
      else c # squeeze False cs)"

definition normalize_name :: "string \<Rightarrow> string" where
  "normalize_name value =
     (let folded = concat (map casefold_char (map base_char value));
          replaced = concat (map (\<lambda>c. if c = CHR ''&'' then ''and'' else [c]) folded)
      in strip (squeeze False replaced))"

definition spec_matches :: "string \<Rightarrow> string \<Rightarrow> competition \<Rightarrow> bool" where
  "spec_matches normalized normalized_country spec \<longleftrightarrow>
     normalized \<in> co_aliases spec \<and> (normalized_country = [] \<or> normalized_country \<in> co_countries spec)"

definition competition_spec :: "string \<Rightarrow> string option \<Rightarrow> competition option" where
  "competition_spec name country =
     List.find (spec_matches (normalize_name name) (normalize_name (case country of None \<Rightarrow> [] | Some c \<Rightarrow> c)))
       LOCKED_COMPETITIONS"

definition canonical_competition :: "string \<Rightarrow> string option \<Rightarrow> string option" where
  "canonical_competition name country = map_option co_canonical_name (competition_spec name country)"

section \<open>Resolution\<close>

definition country_name :: "league_record \<Rightarrow> string option" where
  "country_name r = (case lr_country r of None \<Rightarrow> None
     | Some (Country_object n) \<Rightarrow> Some n | Some (Country_text n) \<Rightarrow> Some n)"

definition record_spec :: "league_record \<Rightarrow> competition option" where
  "record_spec r = competition_spec (li_name (lr_league r)) (country_name r)"

text \<open>A dictionary of sets: the values under one key, and the entry it leaves when there is exactly one.\<close>

definition add_candidate :: "string \<Rightarrow> int list \<Rightarrow> (string \<Rightarrow> int list) \<Rightarrow> string \<Rightarrow> int list" where
  "add_candidate name ids m = m(name := fold List.insert ids (m name))"

definition singletons :: "string list \<Rightarrow> (string \<Rightarrow> int list) \<Rightarrow> (string \<times> int) list" where
  "singletons names m = concat (map (\<lambda>c. case m c of [i] \<Rightarrow> [(c, i)] | _ \<Rightarrow> []) names)"

definition resolve_league_catalog :: "league_record list \<Rightarrow> (string \<times> int) list" where
  "resolve_league_catalog records =
     singletons (map co_canonical_name LOCKED_COMPETITIONS)
       (fold (\<lambda>r m. case record_spec r of None \<Rightarrow> m
                | Some spec \<Rightarrow> add_candidate (co_canonical_name spec) [li_id (lr_league r)] m)
          records (\<lambda>_. []))"

definition resolve_league_metadata :: "league_record list \<Rightarrow> (string \<times> int) list \<times> (string \<times> int) list" where
  "resolve_league_metadata records =
     (let catalog = resolve_league_catalog records;
          seasons = fold (\<lambda>r m. case record_spec r of None \<Rightarrow> m
                | Some spec \<Rightarrow>
                    if map_of catalog (co_canonical_name spec) = Some (li_id (lr_league r))
                    then add_candidate (co_canonical_name spec) (map ls_year (filter ls_current (lr_seasons r))) m else m)
              records (\<lambda>_. [])
      in (catalog, singletons (map fst catalog) seasons))"

section \<open>What the resolution gives\<close>

lemma set_fold_insert [simp]: "set (fold List.insert xs ys) = set xs \<union> set ys"
  by (induction xs arbitrary: ys) auto

lemma distinct_fold_insert [simp]: "distinct (fold List.insert xs ys) \<longleftrightarrow> distinct ys"
  by (induction xs arbitrary: ys) auto

lemma add_candidate_apply:
  "set (add_candidate k ids m n) = (if n = k then set ids else {}) \<union> set (m n)"
  "distinct (add_candidate k ids m n) \<longleftrightarrow> distinct (m n)"
  by (simp_all add: add_candidate_def)

text \<open>The values a loop over the records collects under a name.\<close>

definition gathered :: "(league_record \<Rightarrow> (string \<times> int list) option) \<Rightarrow> league_record list \<Rightarrow> string \<Rightarrow> int set" where
  "gathered f records n = (\<Union>r \<in> set records. case f r of Some (k, ids) \<Rightarrow> if k = n then set ids else {} | None \<Rightarrow> {})"

lemma fold_candidates:
  assumes "\<And>r m. step r m = (case f r of None \<Rightarrow> m | Some (k, ids) \<Rightarrow> add_candidate k ids m)"
  shows "set (fold step records m n) = gathered f records n \<union> set (m n)
    \<and> (distinct (m n) \<longrightarrow> distinct (fold step records m n))"
proof (induction records arbitrary: m)
  case (Cons r rs)
  show ?case
  proof (cases "f r")
    case (Some x)
    with Cons.IH [of "step r m"] show ?thesis
      by (cases x) (auto simp: assms gathered_def add_candidate_apply)
  qed (use Cons.IH [of m] in \<open>simp add: assms gathered_def\<close>)
qed (simp add: gathered_def)

lemma singletons_mem:
  assumes "distinct (m c)"
  shows "(c, i) \<in> set (singletons names m) \<longleftrightarrow> c \<in> set names \<and> set (m c) = {i}"
proof -
  have "(case m c of [j] \<Rightarrow> j = i | _ \<Rightarrow> False) \<longleftrightarrow> set (m c) = {i}"
    using assms by (cases "m c" rule: remdups_adj.cases) (auto split: list.splits)
  then show ?thesis by (force simp: singletons_def split: list.splits)
qed

lemma singletons_keys: "map fst (singletons names m) = filter (\<lambda>c. length (m c) = 1) names"
  by (induction names) (auto simp: singletons_def split: list.splits)

lemma canonical_names_distinct: "distinct (map co_canonical_name LOCKED_COMPETITIONS)"
  by (simp add: LOCKED_COMPETITIONS_def)

definition competition_of :: "league_record \<Rightarrow> string option" where
  "competition_of r = canonical_competition (li_name (lr_league r)) (country_name r)"

lemma competition_of: "competition_of r = map_option co_canonical_name (record_spec r)"
  by (simp add: competition_of_def canonical_competition_def record_spec_def)

lemma catalog_mem:
  "(c, i) \<in> set (resolve_league_catalog records) \<longleftrightarrow>
     c \<in> co_canonical_name ` set LOCKED_COMPETITIONS
     \<and> {li_id (lr_league r) | r. r \<in> set records \<and> competition_of r = Some c} = {i}"
proof -
  let ?f = "\<lambda>r. map_option (\<lambda>spec. (co_canonical_name spec, [li_id (lr_league r)])) (record_spec r)"
  let ?step = "\<lambda>r m. case record_spec r of None \<Rightarrow> m
    | Some spec \<Rightarrow> add_candidate (co_canonical_name spec) [li_id (lr_league r)] m"
  have step: "?step r m = (case ?f r of None \<Rightarrow> m | Some (k, ids) \<Rightarrow> add_candidate k ids m)" for r m
    by (simp split: option.splits)
  note fold = fold_candidates [where step = ?step and f = ?f, OF step, of records "\<lambda>_. []" c]
  have "gathered ?f records c = {li_id (lr_league r) | r. r \<in> set records \<and> competition_of r = Some c}"
    by (auto simp: gathered_def competition_of split: option.splits if_splits)
  then show ?thesis
    using fold by (simp add: resolve_league_catalog_def singletons_mem)
qed

lemma catalog_distinct: "distinct (map fst (resolve_league_catalog records))"
  by (simp only: resolve_league_catalog_def singletons_keys distinct_filter canonical_names_distinct)

lemma seasons_mem:
  "(c, y) \<in> set (snd (resolve_league_metadata records)) \<longleftrightarrow>
     (\<exists>i. (c, i) \<in> set (resolve_league_catalog records)
       \<and> {ls_year s | s r. r \<in> set records \<and> competition_of r = Some c \<and> li_id (lr_league r) = i
            \<and> s \<in> set (lr_seasons r) \<and> ls_current s} = {y})"
proof -
  let ?cat = "resolve_league_catalog records"
  let ?f = "\<lambda>r. case record_spec r of None \<Rightarrow> None | Some spec \<Rightarrow>
      if map_of ?cat (co_canonical_name spec) = Some (li_id (lr_league r))
      then Some (co_canonical_name spec, map ls_year (filter ls_current (lr_seasons r))) else None"
  let ?step = "\<lambda>r m. case record_spec r of None \<Rightarrow> m | Some spec \<Rightarrow>
      if map_of ?cat (co_canonical_name spec) = Some (li_id (lr_league r))
      then add_candidate (co_canonical_name spec) (map ls_year (filter ls_current (lr_seasons r))) m else m"
  have step: "?step r m = (case ?f r of None \<Rightarrow> m | Some (k, ids) \<Rightarrow> add_candidate k ids m)" for r m
    by (simp split: option.splits)
  note fold = fold_candidates [where step = ?step and f = ?f, OF step, of records "\<lambda>_. []" c]
  have cat: "(c, i) \<in> set ?cat \<longleftrightarrow> map_of ?cat c = Some i" for i
    using catalog_distinct [of records] by (auto intro: map_of_is_SomeI dest: map_of_SomeD)
  have gathered: "gathered ?f records c = {ls_year s | s r. r \<in> set records \<and> competition_of r = Some c
      \<and> map_of ?cat c = Some (li_id (lr_league r)) \<and> s \<in> set (lr_seasons r) \<and> ls_current s}" (is "_ = ?years")
    by (auto simp: gathered_def competition_of split: option.splits if_splits) blast+
  have key: "c \<in> fst ` set ?cat \<longleftrightarrow> (\<exists>i. map_of ?cat c = Some i)"
    by (metis domIff dom_map_of_conv_image_fst not_None_eq)
  have "(c, y) \<in> set (snd (resolve_league_metadata records)) \<longleftrightarrow> (\<exists>i. map_of ?cat c = Some i) \<and> ?years = {y}"
    using fold key by (simp add: resolve_league_metadata_def Let_def singletons_mem gathered)
  then show ?thesis by (cases "map_of ?cat c") (simp_all add: cat eq_commute [where a = "li_id _"])
qed

text \<open>
  The catalog holds exactly the unambiguous competitions.  A locked competition resolves to an
  identifier when that is the one identifier among all records that name it, and to a season when
  that is the one current season of those records; every name resolves once.
\<close>

theorem catalog_unambiguous:
  "((c, i) \<in> set (fst (resolve_league_metadata records)) \<longleftrightarrow>
      c \<in> co_canonical_name ` set LOCKED_COMPETITIONS
      \<and> {li_id (lr_league r) | r. r \<in> set records \<and> competition_of r = Some c} = {i})
   \<and> ((c, y) \<in> set (snd (resolve_league_metadata records)) \<longleftrightarrow>
      (\<exists>i. (c, i) \<in> set (fst (resolve_league_metadata records))
        \<and> {ls_year s | s r. r \<in> set records \<and> competition_of r = Some c \<and> li_id (lr_league r) = i
             \<and> s \<in> set (lr_seasons r) \<and> ls_current s} = {y}))
   \<and> distinct (map fst (fst (resolve_league_metadata records)))"
  using catalog_mem [of c i records] seasons_mem [of c y records] catalog_distinct [of records]
  by (simp add: resolve_league_metadata_def Let_def)

lemma canonical_names_resolve:
  "\<forall>spec \<in> set LOCKED_COMPETITIONS. competition_spec (co_canonical_name spec) None = Some spec"
  by code_simp

end
