(* ===== verification/Cadence.thy ===== *)
theory Cadence
  imports Football_Models
begin

text \<open>
  The quota-aware polling policy for football
  (\<open>backend/app/providers/football/cadence.py\<close>).  The decision is built in the order of the code: the
  interval the fixtures ask for, the guard of the per-minute quota, the floors of the daily quota.
\<close>

record cadence_decision =
  cd_interval :: timedelta
  cd_reason :: string

definition LIVE_PLAY_CODES :: "string set" where
  "LIVE_PLAY_CODES = {''1H'', ''2H'', ''ET'', ''BT'', ''P'', ''LIVE''}"

definition UPCOMING_CODES :: "string set" where
  "UPCOMING_CODES = {''NS'', ''TBD'', ''PST''}"

definition live_items :: "fixture_observation list \<Rightarrow> fixture_observation list" where
  "live_items items = filter (\<lambda>f. fo_status_code f \<in> LIVE_PLAY_CODES) items"

definition halftime :: "fixture_observation list \<Rightarrow> bool" where
  "halftime items = list_ex (\<lambda>f. fo_status_code f = ''HT'') items"

definition is_live_window :: "fixture_observation list \<Rightarrow> bool" where
  "is_live_window items = (live_items items \<noteq> [] \<or> halftime items)"

definition upcoming :: "instant \<Rightarrow> fixture_observation list \<Rightarrow> instant list" where
  "upcoming current items = map fo_kickoff_at
     (filter (\<lambda>f. fo_status_code f \<in> UPCOMING_CODES \<and> current < fo_kickoff_at f) items)"

definition until_cadence :: "timedelta \<Rightarrow> timedelta \<times> string" where
  "until_cadence until_kickoff =
     (if until_kickoff \<le> minutes 5 then (seconds 150, ''upcoming_match_within_5m'')
      else if until_kickoff \<le> minutes 30 then (minutes 5, ''upcoming_match_within_30m'')
      else if until_kickoff \<le> hours 3 then (minutes 30, ''upcoming_match_within_3h'')
      else if until_kickoff \<le> hours 6 then (hours 1, ''upcoming_match_within_6h'')
      else (min (hours 12) (max (hours 3) (until_kickoff - hours 6)), ''upcoming_match_discovery''))"

definition fixture_cadence :: "instant \<Rightarrow> int \<Rightarrow> fixture_observation list \<Rightarrow> timedelta \<times> string" where
  "fixture_cadence current request_cost items =
     (if list_ex fo_final_verification items then (minutes 2, ''final_verification_pending'')
      else if live_items items \<noteq> [] then (seconds (150 * request_cost), ''active_live_match'')
      else if halftime items then (minutes (5 * request_cost), ''halftime_match'')
      else if upcoming current items = [] then (hours 12, ''no_live_or_upcoming_match'')
      else until_cadence (Min (set (upcoming current items)) - current))"

definition minute_guard :: "int option \<Rightarrow> bool \<Rightarrow> timedelta \<times> string \<Rightarrow> timedelta \<times> string" where
  "minute_guard minute_remaining live_window c =
     (case minute_remaining of
        Some m \<Rightarrow> if m \<le> 1 \<and> live_window then (max (fst c) (minutes 1), ''minute_quota_tight'') else c
      | None \<Rightarrow> c)"

definition live_floor :: "int \<Rightarrow> string \<Rightarrow> timedelta \<times> string" where
  "live_floor quota_remaining reason =
     (if quota_remaining \<le> 15 then (minutes 10, ''daily_quota_degraded_10m'')
      else if quota_remaining \<le> 30 then (minutes 5, ''daily_quota_degraded_5m'')
      else if quota_remaining \<le> 50 then (minutes 3, ''daily_quota_degraded_3m'')
      else (0, reason))"

definition quota_floor :: "int \<Rightarrow> int \<Rightarrow> bool \<Rightarrow> timedelta \<times> string \<Rightarrow> timedelta \<times> string" where
  "quota_floor quota_remaining request_cost live_window c =
     (if live_window then
        (let floor = live_floor quota_remaining (snd c)
         in if fst floor \<noteq> 0 then (max (fst c) (fst floor * request_cost), snd floor) else c)
      else if quota_remaining \<le> 15 then (max (fst c) (minutes 10), ''daily_quota_tight_no_live_match'')
      else if quota_remaining \<le> 30 then (max (fst c) (minutes 5), ''daily_quota_low_no_live_match'')
      else c)"

definition adaptive_cadence_decision ::
  "fixture_observation list \<Rightarrow> py_datetime \<Rightarrow> int \<Rightarrow> int option \<Rightarrow> int \<Rightarrow> cadence_decision result" where
  "adaptive_cadence_decision items now quota_remaining minute_remaining request_cost =
     bind_r (aware_utc ''now must be timezone-aware'' now) (\<lambda>current.
     bind_r (ensure (1 \<le> request_cost) (ValueError ''request_cost must be positive'')) (\<lambda>_.
     if quota_remaining \<le> 5 then Inr \<lparr>cd_interval = hours 12, cd_reason = ''daily_budget_exhausted''\<rparr>
     else
       (let c = quota_floor quota_remaining request_cost (is_live_window items)
                  (minute_guard minute_remaining (is_live_window items) (fixture_cadence current request_cost items))
        in Inr \<lparr>cd_interval = fst c, cd_reason = snd c\<rparr>)))"

definition adaptive_cadence ::
  "fixture_observation list \<Rightarrow> py_datetime \<Rightarrow> int \<Rightarrow> int option \<Rightarrow> int \<Rightarrow> timedelta result" where
  "adaptive_cadence items now quota_remaining minute_remaining request_cost =
     bind_r (adaptive_cadence_decision items now quota_remaining minute_remaining request_cost)
       (\<lambda>d. Inr (cd_interval d))"

section \<open>The decision is total and within its bounds\<close>

text \<open>The most requests the policy spends in a live window: one per so much time.\<close>

definition live_rate :: "int \<Rightarrow> timedelta" where
  "live_rate quota = (if quota \<le> 15 then minutes 10 else if quota \<le> 30 then minutes 5
     else if quota \<le> 50 then minutes 3 else 0)"

lemma until_cadence_bounds:
  assumes "0 < u"
  shows "seconds 150 \<le> fst (until_cadence u)" "fst (until_cadence u) \<le> hours 12"
    "fst (until_cadence u) \<le> max u (seconds 150)"
  using assms by (auto simp: until_cadence_def min_def max_def)

lemma upcoming_Min:
  assumes "upcoming now items \<noteq> []"
  shows "0 < Min (set (upcoming now items)) - now"
proof -
  have "Min (set (upcoming now items)) \<in> set (upcoming now items)" using assms by (intro Min_in) auto
  moreover have "\<forall>t \<in> set (upcoming now items). now < t" by (auto simp: upcoming_def)
  ultimately show ?thesis by (simp del: Min_in)
qed

lemma fixture_cadence_bounds:
  assumes "1 \<le> cost"
  shows "minutes 2 \<le> fst (fixture_cadence now cost items) \<and>
    (is_live_window items \<longrightarrow> fst (fixture_cadence now cost items) \<le> minutes (5 * cost))"
  using assms until_cadence_bounds(1) [OF upcoming_Min [of now items]]
  by (auto simp: fixture_cadence_def is_live_window_def)

lemma fixture_cadence_kickoff:
  assumes "1 \<le> cost" "f \<in> set items" "fo_status_code f \<in> UPCOMING_CODES" "now < fo_kickoff_at f"
  shows "fst (fixture_cadence now cost items) \<le> max (fo_kickoff_at f - now) (minutes (5 * cost))"
proof -
  have mem: "fo_kickoff_at f \<in> set (upcoming now items)" using assms by (auto simp: upcoming_def)
  then have le: "Min (set (upcoming now items)) \<le> fo_kickoff_at f" by simp
  have ne: "upcoming now items \<noteq> []" using mem by auto
  from until_cadence_bounds(3) [OF upcoming_Min [OF ne]] le ne assms(1) show ?thesis
    by (auto simp: fixture_cadence_def max_def split: if_splits)
qed

lemma minute_guard_bounds:
  "fst c \<le> fst (minute_guard m w c)" "fst (minute_guard m w c) \<le> max (fst c) (minutes 1)"
  by (auto simp: minute_guard_def split: option.splits)

lemma quota_floor_bounds:
  assumes "1 \<le> cost"
  shows "fst c \<le> fst (quota_floor q cost w c)" "w \<Longrightarrow> live_rate q * cost \<le> fst (quota_floor q cost w c) \<or> 50 < q"
    and "fst (quota_floor q cost w c) \<le> max (fst c) (minutes (10 * cost))"
  using assms by (auto simp: quota_floor_def live_floor_def live_rate_def Let_def max_def)

lemma cadence_limits:
  assumes "now = Aware t z" "current = t - z" "1 \<le> cost" "5 < quota"
  shows "\<exists>d. adaptive_cadence_decision items now quota m cost = Inr d
    \<and> minutes 2 \<le> cd_interval d
    \<and> (is_live_window items \<longrightarrow> live_rate quota * cost \<le> cd_interval d \<and> cd_interval d \<le> minutes (10 * cost))
    \<and> (\<forall>f \<in> set items. fo_status_code f \<in> UPCOMING_CODES \<longrightarrow> current < fo_kickoff_at f \<longrightarrow>
         current + cd_interval d \<le> max (fo_kickoff_at f) (current + minutes (10 * cost)))"
proof -
  let ?w = "is_live_window items"
  let ?c = "fixture_cadence current cost items"
  let ?g = "minute_guard m ?w ?c"
  let ?d = "quota_floor quota cost ?w ?g"
  have "adaptive_cadence_decision items now quota m cost = Inr \<lparr>cd_interval = fst ?d, cd_reason = snd ?d\<rparr>"
    using assms by (simp add: adaptive_cadence_decision_def Let_def)
  moreover have "minutes 2 \<le> fst ?d"
    using fixture_cadence_bounds [OF assms(3), of current items] minute_guard_bounds(1) [of ?c m ?w]
      quota_floor_bounds(1) [OF assms(3), of ?g quota ?w] by linarith
  moreover have "live_rate quota * cost \<le> fst ?d \<and> fst ?d \<le> minutes (10 * cost)" if w: ?w
  proof
    show "live_rate quota * cost \<le> fst ?d"
      using quota_floor_bounds(2) [OF assms(3) w, of quota ?g] \<open>minutes 2 \<le> fst ?d\<close> assms(3)
      by (auto simp: live_rate_def)
    show "fst ?d \<le> minutes (10 * cost)"
      using quota_floor_bounds(3) [OF assms(3), of quota ?w ?g] minute_guard_bounds(2) [of m ?w ?c]
        fixture_cadence_bounds [OF assms(3), of current items] w assms(3) by linarith
  qed
  moreover have "current + fst ?d \<le> max (fo_kickoff_at f) (current + minutes (10 * cost))"
    if "f \<in> set items" "fo_status_code f \<in> UPCOMING_CODES" "current < fo_kickoff_at f" for f
    using fixture_cadence_kickoff [OF assms(3) that] minute_guard_bounds(2) [of m ?w ?c]
      quota_floor_bounds(3) [OF assms(3), of quota ?w ?g] assms(3) by linarith
  ultimately show ?thesis by auto
qed

text \<open>
  The polling policy neither overspends nor oversleeps.  With more than the reserve of five
  requests left, whatever the fixtures show: the decision exists and waits two minutes at least;
  while a match is live a poll of so many requests is followed by at least three, five or ten
  minutes per request once fifty, thirty or fifteen are left, and by ten minutes per request at
  most; and no poll is put off past the kick-off of a match that is not yet under way, or ten minutes per
  request, whichever is later.
\<close>

theorem cadence_bounded:
  assumes "now = Aware t z" "current = t - z" "1 \<le> cost" "5 < quota"
  shows "\<exists>d. adaptive_cadence_decision items now quota m cost = Inr d
    \<and> minutes 2 \<le> cd_interval d
    \<and> (is_live_window items \<longrightarrow> live_rate quota * cost \<le> cd_interval d \<and> cd_interval d \<le> minutes (10 * cost))
    \<and> (\<forall>f \<in> set items. fo_status_code f \<in> UPCOMING_CODES \<longrightarrow> current < fo_kickoff_at f \<longrightarrow>
         current + cd_interval d \<le> max (fo_kickoff_at f) (current + minutes (10 * cost)))"
  by (rule cadence_limits [OF assms])

definition polled_fixture :: "string \<Rightarrow> instant \<Rightarrow> fixture_observation" where
  "polled_fixture code kickoff = \<lparr>fo_fixture_id = 7, fo_league_id = 39, fo_competition = ''Premier League'',
     fo_home_team = ''A'', fo_away_team = ''B'', fo_home_team_id = None, fo_away_team_id = None,
     fo_kickoff_at = kickoff, fo_actual_kickoff_at = None, fo_status_code = code, fo_status_label = None,
     fo_minute = 0, fo_home_score = None, fo_away_score = None, fo_events = [], fo_final_verification = False\<rparr>"

theorem cadence_bounded_witness:
  "\<exists>d. adaptive_cadence_decision [polled_fixture ''NS'' (hours 2), polled_fixture ''2H'' 0] (utc 0) 20 None 2 = Inr d
     \<and> minutes 10 \<le> cd_interval d \<and> cd_interval d \<le> minutes 20"
proof -
  have "is_live_window [polled_fixture ''NS'' (hours 2), polled_fixture ''2H'' 0]"
    by (simp add: is_live_window_def live_items_def polled_fixture_def LIVE_PLAY_CODES_def)
  with cadence_bounded [of "utc 0" 0 0 0 2 20 "[polled_fixture ''NS'' (hours 2), polled_fixture ''2H'' 0]" None]
  show ?thesis by (auto simp: live_rate_def)
qed

end
