(* ===== verification/Football_Source.thy ===== *)
theory Football_Source
  imports Football_Service Football_Normalize Football_Store Football_Api Leagues Cadence Scheduler
begin

text \<open>
  The football poll source (\<open>backend/app/providers/football/source.py\<close>) over the client, the checkpoint
  store, the fixture service and the health registry, and the part of the application's observation
  handler that serves it (\<open>persist_provider_observations\<close> in \<open>backend/app/api/routes.py\<close>).

  A poll is not a transaction: an exception leaves what was assigned and written before it.  An
  operation is therefore a function from the state to an error or a value, with the state it leaves.
\<close>

section \<open>State and sequencing\<close>

datatype source_error = Api_failure api_error | Python_error py_error

record football_source =
  so_api :: api_client
  so_initialized :: bool
  so_catalog :: "(string \<times> int) list"
  so_seasons :: "(string \<times> int) list"
  so_catalog_loaded_at :: "instant option"
  so_fixtures :: "(int \<times> fixture_observation) list"
  so_pending_final_ids :: "int set"
  so_last_live_request_cost :: int
  so_cadence_decision :: "cadence_decision option"
  so_service :: fixture_service
  so_last_observation_at :: "instant option"
  so_store :: db
  so_health :: health_registry

type_synonym 'a step = "football_source \<Rightarrow> (source_error + 'a) \<times> football_source"

definition bind_s :: "'a step \<Rightarrow> ('a \<Rightarrow> 'b step) \<Rightarrow> 'b step" where
  "bind_s m f s = (case m s of (Inl e, s') \<Rightarrow> (Inl e, s') | (Inr x, s') \<Rightarrow> f x s')"

definition return_s :: "'a \<Rightarrow> 'a step" where
  "return_s x s = (Inr x, s)"

definition read_s :: "(football_source \<Rightarrow> 'a) \<Rightarrow> 'a step" where
  "read_s f s = (Inr (f s), s)"

definition assign_s :: "(football_source \<Rightarrow> football_source) \<Rightarrow> unit step" where
  "assign_s f s = (Inr (), f s)"

definition lift_s :: "'a result \<Rightarrow> 'a step" where
  "lift_s r s = (case r of Inl e \<Rightarrow> (Inl (Python_error e), s) | Inr x \<Rightarrow> (Inr x, s))"

text \<open>
  The environment of a poll: the client's, the clock, the validation of responses and of stored
  fixtures (\<open>model_validate\<close>, \<open>model_dump\<close>), the digest of the identities, and the transaction of
  the checkpoint store.
\<close>

record source_env =
  se_api :: api_env
  se_clock :: "nat \<Rightarrow> instant"
  se_leagues :: "dict \<Rightarrow> league_record api_envelope option"
  se_fixtures :: "dict \<Rightarrow> fixture_record api_envelope option"
  se_load :: "json \<Rightarrow> fixture_observation option"
  se_dump :: "fixture_observation \<Rightarrow> json"
  se_digest :: "string \<Rightarrow> string"
  se_ingest :: ingest_env

definition clock :: "source_env \<Rightarrow> instant step" where
  "clock env = read_s (\<lambda>s. se_clock env (ac_turn (so_api s)))"

definition source_new :: "db \<Rightarrow> health_registry \<Rightarrow> football_source" where
  "source_new store health = \<lparr>so_api = fresh_client, so_initialized = False, so_catalog = [], so_seasons = [],
     so_catalog_loaded_at = None, so_fixtures = [], so_pending_final_ids = {}, so_last_live_request_cost = 1,
     so_cadence_decision = None, so_service = service_new, so_last_observation_at = None,
     so_store = store, so_health = health\<rparr>"

text \<open>\<open>from_configuration\<close>: no source without a key.\<close>

definition from_configuration :: "string option \<Rightarrow> db \<Rightarrow> health_registry \<Rightarrow> football_source option" where
  "from_configuration api_key store health = (case api_key of None \<Rightarrow> None
     | Some k \<Rightarrow> if strip k = [] then None else Some (source_new store health))"

definition football_schedule :: "poll_schedule result" where
  "football_schedule = poll_schedule_new (hours 6) (minutes 4) (hours 12) (8 / 100)"

text \<open>
  A call of the client.  Every snap its budget persisted meanwhile went through \<open>persist_quota\<close>: to
  the checkpoint \<open>quota:daily\<close> and to the service.
\<close>

definition persist_quota :: "instant \<Rightarrow> dict \<Rightarrow> football_source \<Rightarrow> football_source" where
  "persist_quota now snap s =
     s\<lparr>so_store := put_json now ''quota:daily'' snap (Some now) (so_store s),
       so_service := (so_service s)\<lparr>fv_quota := Some snap\<rparr>\<rparr>"

definition call_api :: "source_env \<Rightarrow> 'a call \<Rightarrow> 'a step" where
  "call_api env m s =
     (let (r, c) = m (so_api s); old = bg_saved (ac_budget (so_api s)); now = se_clock env (ac_turn (so_api s));
          s' = fold (persist_quota now) (drop (length old) (bg_saved (ac_budget c))) (s\<lparr>so_api := c\<rparr>)
      in case r of Inl e \<Rightarrow> (Inl (Api_failure e), s') | Inr x \<Rightarrow> (Inr x, s'))"

section \<open>Initialisation and the catalog\<close>

definition initialize :: "source_env \<Rightarrow> unit step" where
  "initialize env s =
     (if so_initialized s then (Inr (), s)
      else
        (let now = se_clock env (ac_turn (so_api s)); b = ac_budget (so_api s);
             b1 = (case get_json ''quota:daily'' (so_store s) of None \<Rightarrow> b | Some (q, t) \<Rightarrow> restore q now b);
             (snap, b2) = budget_snapshot now b1
         in (Inr (), s\<lparr>so_api := (so_api s)\<lparr>ac_budget := b2\<rparr>, so_service := (so_service s)\<lparr>fv_quota := Some snap\<rparr>,
                       so_initialized := True\<rparr>)))"

text \<open>\<open>{str(name): int(value) for ...}\<close>, which raises at the first value that is no number.\<close>

definition int_values :: "dict \<Rightarrow> (string \<times> int) list result" where
  "int_values d = fold_r (\<lambda>(k, v) acc. bind_r (py_int v) (\<lambda>n. Inr (AList.update k n acc))) d []"

definition CATALOG_TTL :: timedelta where "CATALOG_TTL = days 7"
definition CALENDAR_TTL :: timedelta where "CALENDAR_TTL = hours 20"
definition LIVE_LOOKAHEAD :: timedelta where "LIVE_LOOKAHEAD = hours 6"
definition DISCOVERY_HORIZON_DAYS :: int where "DISCOVERY_HORIZON_DAYS = 7"

definition cached_json :: "string \<Rightarrow> timedelta \<Rightarrow> instant \<Rightarrow> football_source \<Rightarrow> (dict \<times> instant) option" where
  "cached_json key ttl now s = (case get_json key (so_store s) of
     Some (v, t) \<Rightarrow> if now - t < ttl then Some (v, t) else None | None \<Rightarrow> None)"

definition int_dict :: "(string \<times> int) list \<Rightarrow> json" where
  "int_dict xs = JDict (map (\<lambda>(k, n). (k, JInt n)) xs)"

definition load_catalog :: "source_env \<Rightarrow> instant \<Rightarrow> unit step" where
  "load_catalog env now =
     bind_s (call_api env (leagues_current (se_api env) (se_leagues env))) (\<lambda>records.
     assign_s (\<lambda>s. let (catalog, seasons) = resolve_league_metadata records in
       s\<lparr>so_catalog := catalog, so_seasons := seasons, so_catalog_loaded_at := Some now,
         so_store := put_json (se_clock env (ac_turn (so_api s))) ''league-catalog''
           [(''resolved'', int_dict catalog), (''seasons'', int_dict seasons)] (Some now) (so_store s)\<rparr>))"

definition ensure_catalog :: "source_env \<Rightarrow> instant \<Rightarrow> unit step" where
  "ensure_catalog env now =
     bind_s (read_s so_catalog_loaded_at) (\<lambda>loaded.
     if (case loaded of Some t \<Rightarrow> now - t < CATALOG_TTL | None \<Rightarrow> False) then return_s ()
     else bind_s (read_s (cached_json ''league-catalog'' CATALOG_TTL now)) (\<lambda>cached.
       case cached of
         Some (value, t) \<Rightarrow>
           (case map_of value ''resolved'' of
              Some (JDict catalog) \<Rightarrow>
                bind_s (lift_s (int_values catalog)) (\<lambda>c.
                bind_s (assign_s (\<lambda>s. s\<lparr>so_catalog := c\<rparr>)) (\<lambda>_.
                bind_s (case dict_get_or value ''seasons'' (JDict []) of
                          JDict seasons \<Rightarrow> bind_s (lift_s (int_values seasons)) (\<lambda>y. assign_s (\<lambda>s. s\<lparr>so_seasons := y\<rparr>))
                        | _ \<Rightarrow> return_s ()) (\<lambda>_.
                assign_s (\<lambda>s. s\<lparr>so_catalog_loaded_at := Some t\<rparr>))))
            | _ \<Rightarrow> load_catalog env now)
       | None \<Rightarrow> load_catalog env now))"

section \<open>Fixtures\<close>

text \<open>\<open>_normalize_records\<close>: the inverted catalog names the competition of a league.\<close>

definition normalize_records :: "source_env \<Rightarrow> fixture_record list \<Rightarrow> fixture_observation list step" where
  "normalize_records env records =
     bind_s (read_s so_catalog) (\<lambda>catalog.
     let canonical = map_of (rev (map (\<lambda>(name, i). (i, name)) catalog))
     in lift_s (fold_r (\<lambda>r acc. bind_r (normalize_fixture (se_digest env) r canonical False) (\<lambda>f.
          Inr (case f of None \<Rightarrow> acc | Some x \<Rightarrow> acc @ [x]))) records []))"

definition merge_records :: "fixture_observation list \<Rightarrow> fixture_observation list \<Rightarrow> fixture_observation list" where
  "merge_records first second = map snd (by_fixture_id (first @ second))"

definition deserialize_fixtures :: "source_env \<Rightarrow> json \<Rightarrow> fixture_observation list" where
  "deserialize_fixtures env items = (case items of
     JList xs \<Rightarrow> List.map_filter (se_load env) xs | _ \<Rightarrow> [])"

definition LIVE_STATUS :: "string set" where
  "LIVE_STATUS = {''1H'', ''HT'', ''2H'', ''ET'', ''BT'', ''P'', ''LIVE''}"

definition should_poll_live :: "fixture_observation list \<Rightarrow> instant \<Rightarrow> bool" where
  "should_poll_live fixtures now = list_ex (\<lambda>f. fo_status_code f \<in> LIVE_STATUS
     \<or> (fo_status_code f \<in> UPCOMING_CODES \<and> now - hours 4 \<le> fo_kickoff_at f \<and> fo_kickoff_at f \<le> now + LIVE_LOOKAHEAD)) fixtures"

definition calendar_key :: "int \<Rightarrow> int \<Rightarrow> string" where
  "calendar_key start end_day = ''calendar-window:'' @ date_isoformat start @ '':'' @ date_isoformat end_day"

fun fetch_windows :: "source_env \<Rightarrow> int \<Rightarrow> int \<Rightarrow> (string \<times> int) list \<Rightarrow> fixture_record list \<Rightarrow> fixture_record list step" where
  "fetch_windows env start end_day [] records = return_s records"
| "fetch_windows env start end_day ((competition, league_id) # rest) records =
     bind_s (read_s (\<lambda>s. map_of (so_seasons s) competition)) (\<lambda>season.
     bind_s (call_api env (fixtures_by_competition_window (se_api env) (se_fixtures env) league_id season start end_day))
       (\<lambda>more. fetch_windows env start end_day rest (records @ more)))"

definition put_calendar :: "source_env \<Rightarrow> string \<Rightarrow> fixture_observation list \<Rightarrow> instant \<Rightarrow> unit step" where
  "put_calendar env key fixtures now = assign_s (\<lambda>s.
     s\<lparr>so_store := put_json (se_clock env (ac_turn (so_api s))) key
         [(''items'', JList (map (se_dump env) fixtures))] (Some now) (so_store s)\<rparr>)"

definition calendar_window :: "source_env \<Rightarrow> int \<Rightarrow> int \<Rightarrow> instant \<Rightarrow> fixture_observation list step" where
  "calendar_window env start end_day now =
     (let key = calendar_key start end_day
      in bind_s (read_s (cached_json key CALENDAR_TTL now)) (\<lambda>cached.
         case cached of
           Some (value, t) \<Rightarrow> return_s (deserialize_fixtures env (dict_get_or value ''items'' (JList [])))
         | None \<Rightarrow>
             bind_s (read_s so_catalog) (\<lambda>catalog.
             bind_s (fetch_windows env start end_day catalog []) (\<lambda>records.
             bind_s (normalize_records env records) (\<lambda>fixtures.
             bind_s (put_calendar env key fixtures now) (\<lambda>_. return_s fixtures))))))"

definition pending_final_verification_ids :: "int list step" where
  "pending_final_verification_ids = read_s (\<lambda>s. case get_json ''pending-final'' (so_store s) of
     None \<Rightarrow> []
   | Some (value, t) \<Rightarrow> (case dict_get_or value ''fixture_ids'' (JList []) of
       JList xs \<Rightarrow> sorted_list_of_set (set (concat (map index_item xs))) | _ \<Rightarrow> []))"

section \<open>One poll\<close>

type_synonym fixture_index = "(int \<times> fixture_observation) list"

definition index_with :: "fixture_observation list \<Rightarrow> fixture_index \<Rightarrow> fixture_index" where
  "index_with fixtures d = fold (\<lambda>f. AList.update (fo_fixture_id f) f) fixtures d"

definition details_needed :: "fixture_record list \<Rightarrow> fixture_observation list \<Rightarrow> instant \<Rightarrow> int list" where
  "details_needed live_records known now =
     (let live_ids = map (\<lambda>r. fi_id (fr_fixture r)) live_records
      in map (\<lambda>r. fi_id (fr_fixture r)) (filter (\<lambda>r. fr_events r = None) live_records)
         @ map fo_fixture_id (filter (\<lambda>f. fo_fixture_id f \<notin> set live_ids
             \<and> (fo_status_code f \<in> LIVE_STATUS
                \<or> (fo_status_code f \<in> UPCOMING_CODES \<and> now - hours 4 \<le> fo_kickoff_at f \<and> fo_kickoff_at f \<le> now))) known))"

definition kickoff_dates :: "fixture_observation list \<Rightarrow> int set" where
  "kickoff_dates fixtures = (\<lambda>f. date_of (fo_kickoff_at f)) ` set fixtures"

text \<open>\<open>{item.fixture.id: item for item in detailed}\<close>.\<close>

definition records_by_id :: "fixture_record list \<Rightarrow> fixture_record list" where
  "records_by_id records = map snd (fold (\<lambda>r. AList.update (fi_id (fr_fixture r)) r) records [])"

definition live_poll :: "source_env \<Rightarrow> instant \<Rightarrow> fixture_index \<Rightarrow> (fixture_index \<times> int set) step" where
  "live_poll env now by_id =
     bind_s (read_s (\<lambda>s. (bg_requests_used (ac_budget (so_api s)), map snd (so_catalog s)))) (\<lambda>(before, leagues).
     bind_s (call_api env (live_fixtures (se_api env) (se_fixtures env) leagues)) (\<lambda>live_records.
     bind_s (normalize_records env live_records) (\<lambda>normalized_live.
     (let details = details_needed live_records (map snd by_id) now
      in bind_s (if details = [] then return_s normalized_live
           else bind_s (call_api env (fixtures_by_ids (se_api env) (se_fixtures env) details)) (\<lambda>detailed.
                bind_s (normalize_records env (records_by_id detailed)) (\<lambda>more.
                return_s (merge_records normalized_live more)))) (\<lambda>live.
         bind_s (assign_s (\<lambda>s. s\<lparr>so_last_live_request_cost :=
             max 1 (bg_requests_used (ac_budget (so_api s)) - before)\<rparr>)) (\<lambda>_.
         return_s (index_with live by_id, kickoff_dates live)))))))"

definition final_poll :: "source_env \<Rightarrow> int set \<Rightarrow> fixture_index \<Rightarrow> (fixture_index \<times> int set) step" where
  "final_poll env pending by_id =
     bind_s (call_api env (fixtures_by_ids (se_api env) (se_fixtures env) (sorted_list_of_set pending))) (\<lambda>records.
     bind_s (normalize_records env records) (\<lambda>snapshots.
     return_s (index_with (map (\<lambda>f. f\<lparr>fo_final_verification := True\<rparr>) snapshots) by_id, kickoff_dates snapshots)))"

text \<open>\<open>store.ingest([], context)\<close>: the empty batch establishes the baseline.\<close>

definition ingest_step :: "source_env \<Rightarrow> poll_context \<Rightarrow> fixture_observation observation list \<Rightarrow> nat step" where
  "ingest_step env ctx observations s = (case football_ingest (se_ingest env) ctx observations (so_store s) of
     Inl e \<Rightarrow> (Inl (Python_error e), s) | Inr (n, d) \<Rightarrow> (Inr n, s\<lparr>so_store := d\<rparr>))"

definition publish_fixtures :: "fixture_index \<Rightarrow> instant \<Rightarrow> unit step" where
  "publish_fixtures by_id now = assign_s (\<lambda>s. s\<lparr>so_fixtures := by_id,
     so_service := replace_fixtures (map snd by_id) (Some now) (so_service s), so_last_observation_at := Some now\<rparr>)"

definition observations_of :: "poll_context \<Rightarrow> instant \<Rightarrow> fixture_index \<Rightarrow> fixture_observation observation list result" where
  "observations_of ctx now by_id =
     fold_r (\<lambda>f acc. bind_r (observation_new ''football'' (external_entity_id f) (utc now) f
                (Some (fo_status_code f)) None (Some (pc_correlation_id ctx))) (\<lambda>x. Inr (acc @ [x])))
       (fixture_order (map snd by_id)) []"

definition observe_football :: "source_env \<Rightarrow> poll_context \<Rightarrow> fixture_observation observation list step" where
  "observe_football env ctx =
     bind_s (initialize env) (\<lambda>_.
     bind_s (clock env) (\<lambda>now.
     bind_s (ensure_catalog env now) (\<lambda>_.
     bind_s (read_s so_catalog) (\<lambda>catalog.
     if catalog = [] then
       bind_s (publish_fixtures [] now) (\<lambda>_. bind_s (ingest_step env ctx []) (\<lambda>_. return_s []))
     else
       (let today = date_of now; horizon_end = today + (DISCOVERY_HORIZON_DAYS - 1)
        in bind_s (calendar_window env today horizon_end now) (\<lambda>window.
           bind_s pending_final_verification_ids (\<lambda>stored.
           bind_s (assign_s (\<lambda>s. s\<lparr>so_pending_final_ids := set stored \<union> so_pending_final_ids s\<rparr>)) (\<lambda>_.
           bind_s (read_s so_pending_final_ids) (\<lambda>pending.
           (let by_id = index_with window []
            in bind_s (if should_poll_live (map snd by_id) now then live_poll env now by_id
                       else return_s (by_id, {})) (\<lambda>(by_id1, dates1).
               bind_s (if pending \<noteq> {} then final_poll env pending by_id1 else return_s (by_id1, {})) (\<lambda>(by_id2, dates2).
               bind_s (if dates1 \<union> dates2 = {} then return_s ()
                       else put_calendar env (calendar_key today horizon_end)
                              (map (\<lambda>x. (snd x)\<lparr>fo_final_verification := False\<rparr>) by_id2) now) (\<lambda>_.
               bind_s (publish_fixtures by_id2 now) (\<lambda>_.
               bind_s (if by_id2 = [] then ingest_step env ctx [] else return_s 0) (\<lambda>_.
               lift_s (observations_of ctx now by_id2))))))))))))))))"

definition observations_persisted :: "unit step" where
  "observations_persisted =
     bind_s pending_final_verification_ids (\<lambda>pending.
     assign_s (\<lambda>s.
       (let fixtures = map (\<lambda>(i, f). (i, if fo_final_verification f \<and> i \<notin> set pending
                                            then f\<lparr>fo_final_verification := False\<rparr> else f)) (so_fixtures s)
        in s\<lparr>so_pending_final_ids := set pending, so_fixtures := fixtures,
             so_service := replace_fixtures (map snd fixtures) (so_last_observation_at s) (so_service s)\<rparr>)))"

section \<open>The turn the scheduler sees\<close>

text \<open>The handler is called for a poll that observed something.\<close>

definition observe_and_handle :: "source_env \<Rightarrow> poll_context \<Rightarrow> fixture_observation observation list step" where
  "observe_and_handle env ctx =
     bind_s (observe_football env ctx) (\<lambda>observations.
     if observations = [] then return_s []
     else bind_s (ingest_step env ctx observations) (\<lambda>_. bind_s observations_persisted (\<lambda>_. return_s observations)))"

text \<open>
  What the loop makes of it: \<open>observe\<close> turns a rate limit into \<open>RetryAfterError\<close>; any other exception
  is read through its attributes \<open>detail_code\<close> and \<open>permanent\<close>.
\<close>

fun outcome_of :: "source_error + 'a list \<Rightarrow> poll_outcome" where
  "outcome_of (Inr xs) = Observed (xs \<noteq> [])"
| "outcome_of (Inl (Api_failure (Rate_limit_error t code))) = Retry_after t (safe_error_code (Some code))"
| "outcome_of (Inl (Api_failure e)) = Failed (detail_code e) (permanent e)"
| "outcome_of (Inl (Python_error e)) = Failed None False"

section \<open>Cadence\<close>

definition decision_view :: "cadence_decision \<Rightarrow> int \<Rightarrow> instant \<Rightarrow> cadence_view" where
  "decision_view d cost scheduled_at = \<lparr>cv_interval = cd_interval d, cv_reason = cd_reason d,
     cv_request_cost = cost, cv_decided_at = isoformat scheduled_at\<rparr>"

definition cadence_fixtures :: "football_source \<Rightarrow> fixture_observation list" where
  "cadence_fixtures s = map (\<lambda>(i, f). if fo_fixture_id f \<in> so_pending_final_ids s
     then f\<lparr>fo_final_verification := True\<rparr> else f) (so_fixtures s)"

definition source_cadence :: "instant \<Rightarrow> poll_context \<Rightarrow> timedelta step" where
  "source_cadence health_now ctx =
     bind_s (assign_s (\<lambda>s. s\<lparr>so_api := (so_api s)\<lparr>ac_budget := ensure_day (pc_scheduled_at ctx) (ac_budget (so_api s))\<rparr>\<rparr>)) (\<lambda>_.
     bind_s (read_s (\<lambda>s. (ac_budget (so_api s), cadence_fixtures s, so_last_live_request_cost s))) (\<lambda>(b, fixtures, cost).
     bind_s (lift_s (adaptive_cadence_decision fixtures (utc (pc_scheduled_at ctx)) (remaining b)
               (bg_per_minute_remaining b) cost)) (\<lambda>decision.
     (let reset_at = next_reset (pc_scheduled_at ctx);
          exhausted = remaining b \<le> bg_safety_reserve b;
          final = (if exhausted then \<lparr>cd_interval = max (reset_at - pc_scheduled_at ctx) (seconds 1),
                                      cd_reason = ''daily_budget_exhausted''\<rparr> else decision)
      in bind_s (if exhausted then
            bind_s (read_s so_health) (\<lambda>reg.
            bind_s (lift_s (rate_limited health_now ''football'' (cd_reason final) (utc reset_at) reg)) (\<lambda>(h, reg').
            assign_s (\<lambda>s. s\<lparr>so_health := reg'\<rparr>)))
          else if startswith (cd_reason final) ''daily_quota_'' then
            bind_s (read_s so_health) (\<lambda>reg.
            bind_s (lift_s (report health_now ''football'' Ps_degraded (cd_reason final) report_defaults reg)) (\<lambda>(h, reg').
            assign_s (\<lambda>s. s\<lparr>so_health := reg'\<rparr>)))
          else return_s ()) (\<lambda>_.
         bind_s (assign_s (\<lambda>s. s\<lparr>so_cadence_decision := Some final,
             so_service := (so_service s)\<lparr>fv_cadence := Some (decision_view final cost (pc_scheduled_at ctx))\<rparr>\<rparr>)) (\<lambda>_.
         return_s (cd_interval final)))))))"


section \<open>What a step leaves and delivers\<close>

text \<open>
  A step keeps an invariant whether it returns or raises, and what it returns has a property.
\<close>

definition delivers :: "(football_source \<Rightarrow> bool) \<Rightarrow> 'a step \<Rightarrow> ('a \<Rightarrow> bool) \<Rightarrow> bool" where
  "delivers I m Q \<longleftrightarrow> (\<forall>s. I s \<longrightarrow> I (snd (m s)) \<and> (\<forall>x. fst (m s) = Inr x \<longrightarrow> Q x))"

lemma delivers_bind:
  assumes "delivers I m Q" "\<And>x. Q x \<Longrightarrow> delivers I (f x) R"
  shows "delivers I (bind_s m f) R"
proof -
  have "I (snd (bind_s m f s)) \<and> (\<forall>y. fst (bind_s m f s) = Inr y \<longrightarrow> R y)" if "I s" for s
  proof -
    obtain r s' where r: "m s = (r, s')" by fastforce
    with assms(1) that have "I s'" "\<And>x. r = Inr x \<Longrightarrow> Q x" unfolding delivers_def by (metis fst_conv snd_conv)+
    then show ?thesis using assms(2) by (cases r) (auto simp: bind_s_def r delivers_def)
  qed
  then show ?thesis by (simp add: delivers_def)
qed

lemma delivers_return: "Q x \<Longrightarrow> delivers I (return_s x) Q"
  by (simp add: delivers_def return_s_def)

lemma delivers_read: "(\<And>s. I s \<Longrightarrow> Q (f s)) \<Longrightarrow> delivers I (read_s f) Q"
  by (simp add: delivers_def read_s_def)

lemma delivers_assign: "(\<And>s. I s \<Longrightarrow> I (f s)) \<Longrightarrow> delivers I (assign_s f) (\<lambda>_. True)"
  by (simp add: delivers_def assign_s_def)

lemma delivers_lift: "(\<And>x. r = Inr x \<Longrightarrow> Q x) \<Longrightarrow> delivers I (lift_s r) Q"
  by (auto simp: delivers_def lift_s_def split: sum.splits)

lemma delivers_weaken: "delivers I m Q \<Longrightarrow> (\<And>x. Q x \<Longrightarrow> R x) \<Longrightarrow> delivers I m R"
  by (auto simp: delivers_def)

lemma delivers_if: "(b \<Longrightarrow> delivers I m Q) \<Longrightarrow> (\<not> b \<Longrightarrow> delivers I n Q) \<Longrightarrow> delivers I (if b then m else n) Q"
  by simp

section \<open>The client only appends to what it has saved\<close>

definition appends :: "'a call \<Rightarrow> bool" where
  "appends m \<longleftrightarrow> (\<forall>c. prefix (bg_saved (ac_budget c)) (bg_saved (ac_budget (snd (m c)))))"

lemma appends_bind: "appends m \<Longrightarrow> (\<And>x. appends (f x)) \<Longrightarrow> appends (bind_a m f)"
  unfolding appends_def bind_a_def
  by (auto split: prod.splits sum.splits) (metis prefix_order.trans snd_conv)+

lemma appends_simple [simp]: "appends (return_a x)" "appends (fail_a e)" "appends (typed_response v b)"
  by (simp_all add: appends_def return_a_def fail_a_def typed_response_def split: option.splits)

lemma reserve_appends: "prefix (bg_saved b) (bg_saved (snd (reserve now b)))"
  by (simp add: reserve_cases Let_def)

lemma update_headers_appends: "prefix (bg_saved b) (bg_saved (update_headers h now b))"
  by (simp add: update_headers_def save_def budget_snapshot_def Let_def split: option.splits)

lemma appends_request [simp]: "appends (request env path ps)"
proof -
  have "prefix (bg_saved (ac_budget c)) (bg_saved (ac_budget (snd (request env path ps c))))" for c
  proof -
    let ?b = "ensure_day (en_now env (ac_turn c)) (ac_budget c)"
    obtain r b1 where r: "reserve (en_now env (ac_turn c)) ?b = (r, b1)" by fastforce
    then have "prefix (bg_saved (ac_budget c)) (bg_saved b1)"
      using reserve_appends [of ?b "en_now env (ac_turn c)"] by simp
    then show ?thesis
      using update_headers_appends prefix_order.trans
      by (fastforce simp: request_def can_request_budget Let_def r split: sum.splits exchange.splits)
  qed
  then show ?thesis by (simp add: appends_def)
qed

lemma appends_more_pages [simp]: "appends (more_pages env validate path ps pages acc)"
  by (induction pages arbitrary: acc) (auto intro!: appends_bind)

lemma appends_fetch_batches [simp]: "appends (fetch_batches env validate bs acc)"
  by (induction bs arbitrary: acc) (auto intro!: appends_bind)

lemma appends_calls [simp]:
  "appends (all_pages env validate path ps)" "appends (leagues_current env vl)"
  "appends (fixtures_by_competition_window env vf i y a b)" "appends (live_fixtures env vf ids)"
  "appends (fixtures_by_ids env vf ids)"
  by (auto simp: all_pages_def leagues_current_def fixtures_by_competition_window_def live_fixtures_def
      fixtures_by_ids_def intro!: appends_bind)

section \<open>The invariant of a poll\<close>

text \<open>
  The store is consistent; what the client last persisted is the row the next process will restore;
  every known fixture is valid and under its own identifier.
\<close>

definition quota_recorded :: "football_source \<Rightarrow> bool" where
  "quota_recorded s \<longleftrightarrow> (let saved = bg_saved (ac_budget (so_api s)) in
     saved \<noteq> [] \<longrightarrow> (\<exists>t. get_json ''quota:daily'' (so_store s) = Some (last saved, t)))"

definition source_inv :: "source_env \<Rightarrow> football_source \<Rightarrow> bool" where
  "source_inv env s \<longleftrightarrow> db_ok (ie_hash (se_ingest env)) (so_store s) \<and> checkpoints_ok (so_store s)
     \<and> quota_recorded s \<and> keyed (so_fixtures s) \<and> (\<forall>x \<in> set (so_fixtures s). fixture_ok (snd x))"

lemma get_json_put [simp]:
  "get_json k (put_json now key value t d)
     = (if k = key then Some (value, case t of Some x \<Rightarrow> x | None \<Rightarrow> now) else get_json k d)"
  by (simp add: get_json_def put_json_def football_row_def)

lemma put_json_ok:
  assumes "db_ok hash d" "checkpoints_ok d" "\<And>i. key \<noteq> fixture_key i"
  shows "db_ok hash (put_json now key value t d)" "checkpoints_ok (put_json now key value t d)"
  using assms by (simp_all add: put_json_def write_checkpoint_ok checkpoints_ok_write)

lemma put_json_checkpoints: "checkpoints_ok d \<Longrightarrow> (\<And>i. key \<noteq> fixture_key i) \<Longrightarrow> checkpoints_ok (put_json now key value t d)"
  by (simp add: put_json_def checkpoints_ok_write)

lemma other_keys [simp]:
  "''quota:daily'' \<noteq> fixture_key i" "''league-catalog'' \<noteq> fixture_key i" "calendar_key a b \<noteq> fixture_key i"
  "''quota:daily'' \<noteq> ''league-catalog''" "''quota:daily'' \<noteq> calendar_key a b"
  "''quota:daily'' \<noteq> BASELINE_CHECKPOINT_KEY" "''quota:daily'' \<noteq> ''pending-final''"
  by (simp_all add: fixture_key_def calendar_key_def BASELINE_CHECKPOINT_KEY_def)

text \<open>A write under a key of its own.\<close>

lemma source_inv_put:
  assumes "source_inv env s" "\<And>i. key \<noteq> fixture_key i" "''quota:daily'' \<noteq> key"
  shows "source_inv env (s\<lparr>so_store := put_json now key value t (so_store s)\<rparr>)"
  using assms put_json_ok [of "ie_hash (se_ingest env)" "so_store s" key]
  by (simp add: source_inv_def quota_recorded_def Let_def)

lemma persist_quota_simps [simp]:
  "so_api (persist_quota now q s) = so_api s" "so_fixtures (persist_quota now q s) = so_fixtures s"
  "so_store (persist_quota now q s) = put_json now ''quota:daily'' q (Some now) (so_store s)"
  by (simp_all add: persist_quota_def)

lemma persist_quota_fold:
  "let s' = fold (persist_quota now) news s in
     so_api s' = so_api s \<and> so_fixtures s' = so_fixtures s
     \<and> (db_ok hash (so_store s) \<longrightarrow> checkpoints_ok (so_store s) \<longrightarrow> db_ok hash (so_store s') \<and> checkpoints_ok (so_store s'))
     \<and> (if news = [] then so_store s' = so_store s
        else get_json ''quota:daily'' (so_store s') = Some (last news, now))"
proof (induction news arbitrary: s rule: rev_induct)
  case (snoc x news)
  from snoc [of s] show ?case by (auto simp: Let_def put_json_ok)
qed simp

lemma call_api_delivers:
  assumes "appends m"
  shows "delivers (source_inv env) (call_api env m) (\<lambda>_. True)"
proof -
  have "source_inv env (snd (call_api env m s))" if inv: "source_inv env s" for s
  proof -
    obtain r c where r: "m (so_api s) = (r, c)" by fastforce
    let ?old = "bg_saved (ac_budget (so_api s))"
    obtain news where news: "bg_saved (ac_budget c) = ?old @ news"
      using assms r unfolding appends_def by (metis prefixE snd_conv)
    let ?now = "se_clock env (ac_turn (so_api s))"
    let ?s = "fold (persist_quota ?now) news (s\<lparr>so_api := c\<rparr>)"
    note f = persist_quota_fold [of ?now news "s\<lparr>so_api := c\<rparr>" "ie_hash (se_ingest env)", unfolded Let_def]
    have "source_inv env ?s"
    proof (cases "news = []")
      case True
      with inv f news show ?thesis by (simp add: source_inv_def quota_recorded_def Let_def)
    next
      case False
      with inv f news show ?thesis by (simp add: source_inv_def quota_recorded_def Let_def)
    qed
    moreover have "snd (call_api env m s) = ?s"
      by (cases r) (simp_all add: call_api_def r news Let_def)
    ultimately show ?thesis by simp
  qed
  then show ?thesis by (simp add: delivers_def)
qed

section \<open>Every part of a poll keeps the invariant\<close>

definition loads_ok :: "source_env \<Rightarrow> bool" where
  "loads_ok env \<longleftrightarrow> (\<forall>v f. se_load env v = Some f \<longrightarrow> fixture_ok f)"

definition index_ok :: "fixture_index \<Rightarrow> bool" where
  "index_ok d \<longleftrightarrow> keyed d \<and> (\<forall>x \<in> set d. fixture_ok (snd x))"

lemma fixture_ok_final [simp]: "fixture_ok (f\<lparr>fo_final_verification := b\<rparr>) = fixture_ok f"
  by (simp add: fixture_ok_def fixture_observation_ok_def)

lemma index_ok_with:
  assumes "index_ok d" "\<forall>f \<in> set fs. fixture_ok f"
  shows "index_ok (index_with fs d)"
proof -
  have "snd x \<in> snd ` set d \<union> set fs" if "x \<in> set (index_with fs d)" for x
    using updates_entries [of fs d] that unfolding index_with_def by blast
  then have "\<forall>x \<in> set (index_with fs d). fixture_ok (snd x)" using assms by (fastforce simp: index_ok_def)
  then show ?thesis using assms(1) keyed_updates [of d fs] by (simp add: index_ok_def index_with_def)
qed

lemma normalize_fixture_ok:
  assumes "normalize_fixture digest r comps final = Inr (Some f)"
  shows "fixture_ok f"
  using assms
  by (auto simp: normalize_fixture_def fixture_observation_new_def fixture_ok_def sides_ok_def Let_def bind_simps
      split: option.splits dest!: normalize_events_ok)

lemma normalize_fold_ok:
  "fold_r (\<lambda>r acc. bind_r (normalize_fixture digest r comps final) (\<lambda>f.
      Inr (case f of None \<Rightarrow> acc | Some x \<Rightarrow> acc @ [x]))) records acc = Inr fs
   \<Longrightarrow> \<forall>f \<in> set acc. fixture_ok f \<Longrightarrow> \<forall>f \<in> set fs. fixture_ok f"
proof (induction records arbitrary: acc)
  case (Cons r records)
  then obtain x where x: "normalize_fixture digest r comps final = Inr x"
    and rest: "fold_r (\<lambda>r acc. bind_r (normalize_fixture digest r comps final) (\<lambda>f.
      Inr (case f of None \<Rightarrow> acc | Some x \<Rightarrow> acc @ [x]))) records (case x of None \<Rightarrow> acc | Some y \<Rightarrow> acc @ [y]) = Inr fs"
    by (auto simp: bind_simps)
  show ?case
    by (rule Cons.IH [OF rest]) (use Cons.prems(2) normalize_fixture_ok x in \<open>auto split: option.splits\<close>)
qed simp

lemma normalize_records_delivers:
  "delivers I (normalize_records env records) (\<lambda>fs. \<forall>f \<in> set fs. fixture_ok f)"
  unfolding normalize_records_def Let_def
  by (rule delivers_bind [OF delivers_read [where Q = "\<lambda>_. True"]], simp, rule delivers_lift)
    (auto dest: normalize_fold_ok)

lemma initialize_delivers: "delivers (source_inv env) (initialize env) (\<lambda>_. True)"
proof -
  have saved: "bg_saved (restore q now b) = bg_saved b" for q now b by (simp add: restore_def reset_def)
  show ?thesis
    by (auto simp: delivers_def initialize_def source_inv_def quota_recorded_def Let_def budget_snapshot_def saved
        split: option.splits)
qed

lemma load_catalog_delivers: "delivers (source_inv env) (load_catalog env now) (\<lambda>_. True)"
proof -
  have "source_inv env (s\<lparr>so_catalog := c, so_seasons := y, so_catalog_loaded_at := l,
      so_store := put_json n ''league-catalog'' v t (so_store s)\<rparr>)" if "source_inv env s" for s c y l n v t
    using source_inv_put [OF that, of "''league-catalog''" n v t] by (simp add: source_inv_def quota_recorded_def)
  then show ?thesis
    unfolding load_catalog_def
    by (intro delivers_bind [OF call_api_delivers] delivers_assign) (simp_all add: Let_def split: prod.splits)
qed

lemma source_inv_fields [simp]:
  "source_inv env (s\<lparr>so_catalog := c\<rparr>) = source_inv env s" "source_inv env (s\<lparr>so_seasons := y\<rparr>) = source_inv env s"
  "source_inv env (s\<lparr>so_catalog_loaded_at := t\<rparr>) = source_inv env s"
  "source_inv env (s\<lparr>so_pending_final_ids := p\<rparr>) = source_inv env s"
  "source_inv env (s\<lparr>so_last_live_request_cost := n\<rparr>) = source_inv env s"
  by (simp_all add: source_inv_def quota_recorded_def)

lemma read_any: "delivers I (read_s f) (\<lambda>_. True)"
  by (simp add: delivers_def read_s_def)

lemma lift_any: "delivers I (lift_s r) (\<lambda>_. True)"
  by (rule delivers_lift) simp

lemma ensure_catalog_delivers: "delivers (source_inv env) (ensure_catalog env now) (\<lambda>_. True)"
  unfolding ensure_catalog_def
  by (intro delivers_bind [OF read_any] delivers_if delivers_return TrueI)
    (auto intro!: load_catalog_delivers delivers_bind [where Q = "\<lambda>_. True"] lift_any delivers_assign delivers_return
       split: option.splits json.splits)

lemma fetch_windows_delivers: "delivers (source_inv env) (fetch_windows env a b cs acc) (\<lambda>_. True)"
  by (induction cs arbitrary: acc)
    (auto intro!: delivers_return delivers_bind [OF read_any] delivers_bind [OF call_api_delivers])

lemma put_calendar_delivers: "delivers (source_inv env) (put_calendar env (calendar_key a b) fs now) (\<lambda>_. True)"
  unfolding put_calendar_def by (rule delivers_assign) (simp add: source_inv_put)

lemma deserialize_ok: "loads_ok env \<Longrightarrow> \<forall>f \<in> set (deserialize_fixtures env v). fixture_ok f"
  by (auto simp: deserialize_fixtures_def loads_ok_def map_filter_def split: json.splits)

lemma calendar_window_delivers:
  assumes "loads_ok env"
  shows "delivers (source_inv env) (calendar_window env a b now) (\<lambda>fs. \<forall>f \<in> set fs. fixture_ok f)"
  unfolding calendar_window_def Let_def
  by (rule delivers_bind [OF read_any])
    (auto intro!: delivers_return deserialize_ok [OF assms] delivers_bind [OF read_any]
       delivers_bind [OF fetch_windows_delivers] delivers_bind [OF normalize_records_delivers]
       delivers_bind [OF put_calendar_delivers] split: option.splits)

lemma merge_records_mem: "f \<in> set (merge_records xs ys) \<Longrightarrow> f \<in> set xs \<or> f \<in> set ys"
  using updates_entries [of "xs @ ys" "[]"] by (auto simp: merge_records_def by_fixture_id_def)

lemma live_poll_delivers:
  assumes "index_ok d"
  shows "delivers (source_inv env) (live_poll env now d) (\<lambda>r. index_ok (fst r))"
  unfolding live_poll_def Let_def
  by (rule delivers_bind [OF read_any])
    (auto intro!: delivers_bind [OF call_api_delivers] delivers_bind [OF normalize_records_delivers]
       delivers_bind [where Q = "\<lambda>fs. \<forall>f \<in> set fs. fixture_ok f"] delivers_return
       delivers_bind [OF delivers_assign] index_ok_with [OF assms] dest!: merge_records_mem split: prod.splits)

lemma final_poll_delivers:
  assumes "index_ok d"
  shows "delivers (source_inv env) (final_poll env pending d) (\<lambda>r. index_ok (fst r))"
  unfolding final_poll_def
  by (auto intro!: delivers_bind [OF call_api_delivers] delivers_bind [OF normalize_records_delivers]
       delivers_return index_ok_with [OF assms])

section \<open>A whole poll\<close>

definition valid_batch :: "poll_context \<Rightarrow> fixture_observation observation list \<Rightarrow> bool" where
  "valid_batch ctx xs \<longleftrightarrow> distinct (map obs_id xs)
     \<and> sorted (map (\<lambda>x. (fo_kickoff_at (obs_content x), obs_id x)) xs)
     \<and> (\<forall>x \<in> set xs. fixture_ok (obs_content x) \<and> obs_external_entity_id x = external_entity_id (obs_content x)
          \<and> obs_provider_id x = ''football'' \<and> obs_correlation_id x = Some (pc_correlation_id ctx))"

lemma observation_new_fields:
  "observation_new p e t c v k i = Inr x \<Longrightarrow> obs_content x = c \<and> obs_provider_id x = p
     \<and> obs_external_entity_id x = e \<and> obs_correlation_id x = i"
  by (auto simp: observation_new_def bind_simps)

lemma observations_fold:
  assumes "fold_r (\<lambda>f acc. bind_r (observation_new ''football'' (external_entity_id f) (utc now) f
      (Some (fo_status_code f)) None (Some i)) (\<lambda>x. Inr (acc @ [x]))) fs acc = Inr xs"
  shows "\<exists>ys. xs = acc @ ys \<and> map obs_content ys = fs
    \<and> (\<forall>y \<in> set ys. obs_provider_id y = ''football'' \<and> obs_external_entity_id y = external_entity_id (obs_content y)
         \<and> obs_correlation_id y = Some i)"
  using assms
proof (induction fs arbitrary: acc)
  case (Cons f fs)
  then obtain x where x: "observation_new ''football'' (external_entity_id f) (utc now) f (Some (fo_status_code f)) None (Some i) = Inr x"
    and rest: "fold_r (\<lambda>f acc. bind_r (observation_new ''football'' (external_entity_id f) (utc now) f
      (Some (fo_status_code f)) None (Some i)) (\<lambda>x. Inr (acc @ [x]))) fs (acc @ [x]) = Inr xs"
    by (auto simp: bind_simps)
  from Cons.IH [OF rest] obtain ys where ys: "xs = (acc @ [x]) @ ys" "map obs_content ys = fs"
    "\<forall>y \<in> set ys. obs_provider_id y = ''football'' \<and> obs_external_entity_id y = external_entity_id (obs_content y)
         \<and> obs_correlation_id y = Some i" by blast
  then show ?case using observation_new_fields [OF x] by (intro exI [of _ "x # ys"]) auto
qed simp

lemma observations_of_valid:
  assumes "observations_of ctx now d = Inr xs" "index_ok d"
  shows "valid_batch ctx xs"
proof -
  let ?fs = "fixture_order (map snd d)"
  obtain ys where ys: "xs = [] @ ys" "map obs_content ys = ?fs"
    and fields: "\<forall>y \<in> set ys. obs_provider_id y = ''football'' \<and> obs_external_entity_id y = external_entity_id (obs_content y)
         \<and> obs_correlation_id y = Some (pc_correlation_id ctx)"
    using observations_fold [OF assms(1) [unfolded observations_of_def]] by blast
  have "map obs_id xs = map fo_fixture_id ?fs"
    using arg_cong [OF ys(2), of "map fo_fixture_id"] ys(1) by (simp add: comp_def)
  moreover have "distinct (map fo_fixture_id ?fs)"
  proof -
    have "distinct (map snd d) \<and> inj_on fo_fixture_id (set (map snd d))"
      using keyed_distinct [of d] assms(2) unfolding index_ok_def by (simp only: distinct_map)
    then show ?thesis by (simp only: fixture_order_def distinct_map distinct_sort set_sort simp_thms)
  qed
  moreover have "map (\<lambda>x. (fo_kickoff_at (obs_content x), obs_id x)) xs = map (\<lambda>f. (fo_kickoff_at f, fo_fixture_id f)) ?fs"
    using arg_cong [OF ys(2), of "map (\<lambda>f. (fo_kickoff_at f, fo_fixture_id f))"] ys(1) by (simp add: comp_def)
  moreover have "fixture_ok (obs_content x)" if "x \<in> set xs" for x
  proof -
    have "obs_content x \<in> set ?fs" using that ys(1) by (simp flip: ys(2))
    then show ?thesis using assms(2) by (auto simp: fixture_order_def index_ok_def)
  qed
  ultimately show ?thesis
    using fields ys(1) by (simp add: valid_batch_def fixture_order_def)
qed

lemma publish_fixtures_delivers:
  "index_ok d \<Longrightarrow> delivers (source_inv env) (publish_fixtures d now) (\<lambda>_. True)"
  unfolding publish_fixtures_def
  by (rule delivers_assign) (auto simp: source_inv_def quota_recorded_def index_ok_def)

lemma football_ingest_quota:
  assumes "football_ingest env ctx xs d = Inr (n, d')"
  shows "get_json ''quota:daily'' d' = get_json ''quota:daily'' d"
proof -
  have "checkpoint_row ''quota:daily'' d' = checkpoint_row ''quota:daily'' d"
  proof (cases "xs = []")
    case True
    with assms show ?thesis by (auto simp: football_ingest_def establish_empty_baseline_def)
  next
    case False
    with assms obtain v where "fold_r (ingest_observation env (pc_correlation_id ctx) (establishing_baseline xs d)
           (\<lambda>key. checkpoint_row key d \<noteq> None)) xs
           \<lparr>iv_db = d, iv_pending = pending_of d, iv_count = 0, iv_made = 0\<rparr> = Inr v"
      and d': "d' = (let d1 = write_checkpoint (ie_now env) ''pending-final'' (pending_value (iv_pending v)) (pc_scheduled_at ctx) (iv_db v)
            in if checkpoint_row BASELINE_CHECKPOINT_KEY d = None
               then write_checkpoint (ie_now env) BASELINE_CHECKPOINT_KEY
                      (baseline_value ctx (length xs) (establishing_baseline xs d)) (pc_scheduled_at ctx) d1 else d1)"
      by (auto simp: football_ingest_Inr)
    from ingest_run_other [OF this(1), of "''quota:daily''"] d' show ?thesis by (simp add: Let_def)
  qed
  then show ?thesis by (simp add: get_json_def)
qed

lemma source_inv_ingest:
  assumes "source_inv env s" "football_ingest (se_ingest env) ctx xs (so_store s) = Inr (n, d')"
    "\<forall>x \<in> set xs. fixture_ok (obs_content x)"
  shows "source_inv env (s\<lparr>so_store := d'\<rparr>)"
  using assms(1) football_ingest_ok [OF assms(2) _ _ assms(3)] football_ingest_quota [OF assms(2)]
  by (simp add: source_inv_def quota_recorded_def)

lemma ingest_step_delivers:
  "\<forall>x \<in> set xs. fixture_ok (obs_content x) \<Longrightarrow> delivers (source_inv env) (ingest_step env ctx xs) (\<lambda>_. True)"
  by (auto simp: delivers_def ingest_step_def source_inv_ingest split: sum.splits)

lemma observe_football_delivers:
  assumes "loads_ok env"
  shows "delivers (source_inv env) (observe_football env ctx) (valid_batch ctx)"
proof -
  have empty: "valid_batch ctx []" "index_ok []" by (simp_all add: valid_batch_def index_ok_def)
  note steps = delivers_bind [OF publish_fixtures_delivers] delivers_bind [OF ingest_step_delivers]
    delivers_bind [OF put_calendar_delivers]
  have rest: "delivers (source_inv env)
      (bind_s (if b then return_s () else put_calendar env (calendar_key t h) fs now) (\<lambda>_.
       bind_s (publish_fixtures d now) (\<lambda>_.
       bind_s (if d = [] then ingest_step env ctx [] else return_s 0) (\<lambda>_. lift_s (observations_of ctx now d)))))
      (valid_batch ctx)" if "index_ok d" for b t h fs d now
    by (intro delivers_bind [where Q = "\<lambda>_. True"] delivers_if delivers_return put_calendar_delivers
        publish_fixtures_delivers that ingest_step_delivers delivers_lift observations_of_valid) (auto intro: that)
  show ?thesis
    unfolding observe_football_def clock_def Let_def
  proof (intro delivers_bind [OF initialize_delivers] delivers_bind [OF read_any] delivers_bind [OF ensure_catalog_delivers]
      delivers_if, goal_cases)
    case (1 u now v c)
    show ?case
      by (intro delivers_bind [OF publish_fixtures_delivers] delivers_bind [OF ingest_step_delivers] delivers_return)
        (simp_all add: empty)
  next
    case (2 u now v c)
    show ?case
    proof (intro delivers_bind [OF calendar_window_delivers [OF assms]], goal_cases)
      case (1 window)
      then have ix: "index_ok (index_with window [])" using index_ok_with [OF empty(2)] by simp
      show ?case
        unfolding pending_final_verification_ids_def
      proof (intro delivers_bind [OF read_any] delivers_bind [OF delivers_assign], goal_cases)
        case (2 a b pending)
        show ?case
        proof (rule delivers_bind [where Q = "\<lambda>r. index_ok (fst r)"], goal_cases)
          case 1
          show ?case by (intro delivers_if live_poll_delivers delivers_return) (simp_all add: ix)
        next
          case (2 r)
          then show ?case
          proof (cases r)
            case (Pair d1 k1)
            show ?thesis unfolding Pair prod.case
            proof (rule delivers_bind [where Q = "\<lambda>r. index_ok (fst r)"], goal_cases)
              case 1
              show ?case by (intro delivers_if final_poll_delivers delivers_return) (use 2 Pair in simp_all)
            next
              case (2 q)
              then show ?case by (cases q) (simp add: rest)
            qed
          qed
        qed
      qed simp
    qed
  qed
qed

lemma keyed_map: "keyed d \<Longrightarrow> (\<And>i f. fo_fixture_id (g i f) = fo_fixture_id f) \<Longrightarrow> keyed (map (\<lambda>(i, f). (i, g i f)) d)"
proof -
  assume k: "keyed d" and g: "\<And>i f. fo_fixture_id (g i f) = fo_fixture_id f"
  have "map fst (map (\<lambda>(i, f). (i, g i f)) d) = map fst d" by (simp add: case_prod_beta)
  then have "distinct (map fst (map (\<lambda>(i, f). (i, g i f)) d))" using k by (simp only: keyed_def)
  with k g show ?thesis unfolding keyed_def by auto
qed

lemma observations_persisted_delivers: "delivers (source_inv env) observations_persisted (\<lambda>_. True)"
proof -
  have "source_inv env (s\<lparr>so_pending_final_ids := p, so_fixtures := map (\<lambda>(i, f). (i, if fo_final_verification f \<and> i \<notin> P
      then f\<lparr>fo_final_verification := False\<rparr> else f)) (so_fixtures s), so_service := v\<rparr>)"
    if "source_inv env s" for s p P v
  proof -
    have "keyed (map (\<lambda>(i, f). (i, if fo_final_verification f \<and> i \<notin> P
      then f\<lparr>fo_final_verification := False\<rparr> else f)) (so_fixtures s))"
      by (rule keyed_map) (use that in \<open>simp_all add: source_inv_def\<close>)
    moreover have "\<forall>x \<in> set (so_fixtures s). fixture_ok (snd x)" using that by (simp add: source_inv_def)
    ultimately show ?thesis using that by (auto simp: source_inv_def quota_recorded_def)
  qed
  then show ?thesis
    unfolding observations_persisted_def pending_final_verification_ids_def Let_def
    by (intro delivers_bind [OF read_any] delivers_assign) blast
qed

lemma observations_persisted_store: "so_store (snd (observations_persisted s)) = so_store s"
  by (simp add: observations_persisted_def pending_final_verification_ids_def bind_s_def read_s_def assign_s_def Let_def)

lemma observe_and_handle_facts:
  assumes "loads_ok env" "source_inv env s" "observe_and_handle env ctx s = (r, s')"
  shows "source_inv env s' \<and> (\<forall>xs. r = Inr xs \<longrightarrow> valid_batch ctx xs
    \<and> (\<forall>x \<in> set xs. checkpoint_row (fixture_key (obs_id x)) (so_store s') \<noteq> None))"
proof -
  obtain r1 s1 where o1: "observe_football env ctx s = (r1, s1)" by fastforce
  then have s1: "source_inv env s1" "\<And>xs. r1 = Inr xs \<Longrightarrow> valid_batch ctx xs"
    using observe_football_delivers [OF assms(1), of ctx] assms(2) unfolding delivers_def by (metis fst_conv snd_conv)+
  show ?thesis
  proof (cases "\<exists>xs. r1 = Inr xs \<and> xs \<noteq> []")
    case False
    then show ?thesis
      using assms(3) s1 by (cases r1) (auto simp: observe_and_handle_def bind_s_def o1 return_s_def)
  next
    case True
    then obtain xs where xs: "r1 = Inr xs" "xs \<noteq> []" by blast
    with s1 have batch: "valid_batch ctx xs" by blast
    then have ok: "\<forall>x \<in> set xs. fixture_ok (obs_content x)" "distinct (map obs_id xs)" by (simp_all add: valid_batch_def)
    show ?thesis
    proof (cases "football_ingest (se_ingest env) ctx xs (so_store s1)")
      case (Inl e)
      then show ?thesis using assms(3) s1(1) xs by (auto simp: observe_and_handle_def bind_s_def o1 ingest_step_def)
    next
      case (Inr y)
      obtain n d where y: "y = (n, d)" by fastforce
      let ?s2 = "s1\<lparr>so_store := d\<rparr>"
      have ingest: "football_ingest (se_ingest env) ctx xs (so_store s1) = Inr (n, d)" using Inr y by simp
      note s2 = source_inv_ingest [OF s1(1) ingest ok(1)]
      obtain r3 s3 where p: "observations_persisted ?s2 = (r3, s3)" by fastforce
      have s3: "source_inv env s3" "so_store s3 = d"
        using observations_persisted_delivers [of env] s2 observations_persisted_store [of ?s2] p
        unfolding delivers_def by (metis snd_conv, simp)
      have "\<exists>u. r3 = Inr u"
        using p by (auto simp: observations_persisted_def pending_final_verification_ids_def bind_s_def read_s_def assign_s_def)
      then have out: "r = Inr xs" "s' = s3"
        using assms(3) xs ingest p by (auto simp: observe_and_handle_def bind_s_def o1 ingest_step_def return_s_def)
      have "checkpoint_row (fixture_key (obs_id x)) d \<noteq> None" if "x \<in> set xs" for x
        using ingest_then_settled(1) [OF ingest xs(2) _ _ ok] that s1(1)
        by (auto simp: settled_obs_def source_inv_def)
      then show ?thesis using out s3 batch by simp
    qed
  qed
qed


definition sample_source_env :: source_env where
  "sample_source_env = \<lparr>se_api = sample_api_env, se_clock = (\<lambda>i. 0), se_leagues = (\<lambda>d. None), se_fixtures = (\<lambda>d. None),
     se_load = (\<lambda>v. Some (polled_fixture ''NS'' (days 2))), se_dump = (\<lambda>f. JNull), se_digest = id,
     se_ingest = sample_ingest_env\<rparr>"

definition sample_store :: db where
  "sample_store = put_json 0 (calendar_key 0 6) [(''items'', JList [JNull])] None
     (put_json 0 ''league-catalog'' [(''resolved'', JDict [(''Premier League'', JInt 39)])] None empty_db)"


section \<open>A restart\<close>

text \<open>
  What \<open>Football_Api.restart\<close> does to the client is what a new source does when it is initialised on
  the store the old process left, up to the log of snapshots and the start of the day.
\<close>

lemma initialize_restarts:
  assumes "quota_recorded s" "bg_saved (ac_budget (so_api s)) \<noteq> []" "se_clock env 0 = now"
  shows "(ac_budget (so_api (snd (initialize env (source_new (so_store s) h)))))\<lparr>bg_saved := ss\<rparr>
    = (ensure_day now (ac_budget (restart now (so_api s))))\<lparr>bg_saved := ss\<rparr>"
proof -
  obtain t where row: "get_json ''quota:daily'' (so_store s) = Some (last (bg_saved (ac_budget (so_api s))), t)"
    using assms(1,2) by (auto simp: quota_recorded_def Let_def)
  have "(ensure_day now (restore q now b))\<lparr>bg_saved := ss\<rparr> = ensure_day now (restore q now (b\<lparr>bg_saved := ss\<rparr>))" for q b
    by (simp add: restore_def reset_def ensure_day_def)
  from this [of _ "budget_new 100 5"] this [of _ "(budget_new 100 5)\<lparr>bg_saved := bg_saved (ac_budget (so_api s))\<rparr>"]
  show ?thesis
    using assms(2,3)
    by (simp add: initialize_def source_new_def fresh_client_def row restart_def budget_snapshot_def Let_def)
qed

section \<open>The interval the source asks for\<close>

definition decision_reasons :: "string list" where
  "decision_reasons = [''daily_budget_exhausted'', ''final_verification_pending'', ''active_live_match'',
     ''halftime_match'', ''no_live_or_upcoming_match'', ''upcoming_match_within_5m'', ''upcoming_match_within_30m'',
     ''upcoming_match_within_3h'', ''upcoming_match_within_6h'', ''upcoming_match_discovery'', ''minute_quota_tight'',
     ''daily_quota_degraded_10m'', ''daily_quota_degraded_5m'', ''daily_quota_degraded_3m'',
     ''daily_quota_tight_no_live_match'', ''daily_quota_low_no_live_match'']"

lemma fixture_cadence_reason: "snd (fixture_cadence now cost items) \<in> set decision_reasons"
  by (simp add: fixture_cadence_def until_cadence_def decision_reasons_def)

lemma decision_reason:
  assumes "adaptive_cadence_decision items now q m cost = Inr d"
  shows "cd_reason d \<in> set decision_reasons"
proof -
  have guard: "snd (minute_guard m w c) \<in> set decision_reasons" if "snd c \<in> set decision_reasons" for w c
    using that by (auto simp: minute_guard_def decision_reasons_def split: option.splits)
  have floor: "snd (quota_floor q cost w c) \<in> set decision_reasons" if "snd c \<in> set decision_reasons" for w c
    using that by (auto simp: quota_floor_def live_floor_def decision_reasons_def Let_def)
  have "''daily_budget_exhausted'' \<in> set decision_reasons" by (simp add: decision_reasons_def)
  then show ?thesis
    using assms floor [OF guard [OF fixture_cadence_reason]]
    by (auto simp: adaptive_cadence_decision_def bind_simps Let_def split: if_splits)
qed

lemma reasons_ok: "\<forall>r \<in> set decision_reasons. detail_code_ok r"
  by code_simp

lemma football_id: "provider_id_ok ''football''"
  by code_simp

lemma next_reset_later: "t < next_reset t"
  using div_mult_mod_eq [of t 86400000000] pos_mod_bound [of 86400000000 t]
  by (simp add: next_reset_def date_of_def)

lemma decision_total:
  assumes "1 \<le> cost"
  shows "\<exists>d. adaptive_cadence_decision items (utc t) q m cost = Inr d \<and> 0 < cd_interval d"
proof (cases "q \<le> 5")
  case True
  with assms show ?thesis by (simp add: adaptive_cadence_decision_def)
next
  case False
  with cadence_limits [where now = "utc t" and t = t and z = 0 and current = t and cost = cost and quota = q
      and items = items and m = m] assms show ?thesis by fastforce
qed

lemma source_cadence_facts:
  assumes "1 \<le> so_last_live_request_cost s" "bg_safety_reserve (ac_budget (so_api s)) = 5"
  shows "\<exists>d s'. source_cadence health_now ctx s = (Inr d, s') \<and> 0 < d
    \<and> (remaining (ensure_day (pc_scheduled_at ctx) (ac_budget (so_api s))) \<le> 5 \<longrightarrow>
         next_reset (pc_scheduled_at ctx) \<le> pc_scheduled_at ctx + d
         \<and> map_option ph_status (map_of (so_health s') ''football'') = Some Ps_rate_limited)
    \<and> so_store s' = so_store s \<and> so_fixtures s' = so_fixtures s
    \<and> map_option cv_interval (fv_cadence (so_service s')) = Some d"
proof -
  let ?b = "ensure_day (pc_scheduled_at ctx) (ac_budget (so_api s))"
  let ?fixtures = "cadence_fixtures s"
  have same: "cadence_fixtures (s\<lparr>so_api := c\<rparr>) = ?fixtures" for c by (simp add: cadence_fixtures_def)
  obtain d where d: "adaptive_cadence_decision ?fixtures (utc (pc_scheduled_at ctx)) (remaining ?b)
      (bg_per_minute_remaining ?b) (so_last_live_request_cost s) = Inr d" "0 < cd_interval d"
    using decision_total [OF assms(1)] by blast
  note unfold = source_cadence_def bind_s_def assign_s_def read_s_def lift_s_def return_s_def Let_def same d(1)
  show ?thesis
  proof (cases "remaining ?b \<le> 5")
    case True
    have code: "detail_code_ok ''daily_budget_exhausted''" using reasons_ok by (simp add: decision_reasons_def)
    obtain h reg where r: "rate_limited health_now ''football'' ''daily_budget_exhausted'' (utc (next_reset (pc_scheduled_at ctx))) (so_health s) = Inr (h, reg)"
      using rate_limited_total [OF football_id code] by blast
    then have "map_option ph_status (map_of reg ''football'') = Some Ps_rate_limited"
      by (auto simp: rate_limited_def report_def bind_simps Let_def update_Some_unfold)
    with True r show ?thesis
      using next_reset_later [of "pc_scheduled_at ctx"]
      by (simp add: unfold assms(2) decision_view_def max_def)
  next
    case False
    have code: "detail_code_ok (cd_reason d)" using decision_reason [OF d(1)] reasons_ok by blast
    have "\<exists>h reg. report health_now ''football'' Ps_degraded (cd_reason d) report_defaults (so_health s) = Inr (h, reg)"
      by (rule report_total [OF football_id code]) (simp_all add: report_defaults_def)
    then obtain h reg where "report health_now ''football'' Ps_degraded (cd_reason d) report_defaults (so_health s) = Inr (h, reg)"
      by blast
    with False d(2) show ?thesis by (simp add: unfold assms(2) decision_view_def)
  qed
qed

end
