(* ===== verification/Simulator.thy ===== *)
theory Simulator
  imports Projector Health Realtime
begin

text \<open>
  The demo scenario (\<open>backend/app/simulator/comeback.py\<close>) and the two routes that start and reset it
  (\<open>start_demo\<close>, \<open>reset_demo\<close> and \<open>_run_demo_scenario\<close> in \<open>backend/app/api/routes.py\<close>).  Each step of the
  scenario is a transaction of its own; what the rest of the program commits between two of them is
  an argument.
\<close>

section \<open>The scenario\<close>

type_synonym scenario_step = "football_event_type \<times> int \<times> string option \<times> string option"

definition SCENARIO :: "scenario_step list" where
  "SCENARIO =
    [(SCHEDULED, 0, None, None), (KICKOFF, 0, None, None), (GOAL, 28, Some ''home'', Some ''M. Vale''),
     (YELLOW_CARD, 37, Some ''away'', Some ''J. Reed''), (HALFTIME, 45, None, None), (SECOND_HALF, 45, None, None),
     (GOAL, 58, Some ''away'', Some ''A. Noor''), (RED_CARD, 71, Some ''away'', Some ''J. Reed''),
     (GOAL, 84, Some ''home'', Some ''M. Vale''), (FULLTIME, 90, None, None)]"

definition opt_str :: "string option \<Rightarrow> json" where
  "opt_str s = (case s of None \<Rightarrow> JNull | Some x \<Rightarrow> JStr x)"

definition step_payload :: "scenario_step \<Rightarrow> dict" where
  "step_payload = (\<lambda>(t, minute, side, player).
     [(''home_team'', JStr ''Northstar FC''), (''away_team'', JStr ''Harbor United''),
      (''competition'', JStr ''Premier League''), (''minute'', JInt minute),
      (''side'', opt_str side), (''player'', opt_str player)])"

text \<open>What the run takes from its surroundings: the clock and the identifiers of its events.\<close>

record comeback_env =
  ce_now :: "nat \<Rightarrow> instant"
  ce_uuid :: "nat \<Rightarrow> uuid"
  ce_hash :: "string \<Rightarrow> string"
  ce_topic :: string

definition step_event :: "comeback_env \<Rightarrow> string \<Rightarrow> uuid \<Rightarrow> nat \<Rightarrow> scenario_step \<Rightarrow> event result" where
  "step_event env match_id run_id n s =
     normalize_football_observation (ce_uuid env n) (ce_now env n)
       \<lparr>po_event_type = fst s, po_match_id = match_id, po_run_id = run_id, po_sequence = int n,
        po_occurred_at = utc (ce_now env n), po_observed_at = utc (ce_now env n), po_payload = step_payload s\<rparr>"

definition activate_match :: "string \<Rightarrow> db \<Rightarrow> db" where
  "activate_match match_id d = d\<lparr>db_demo := Some (Some match_id)\<rparr>"

text \<open>One step: \<open>False\<close> is the early return when the run is not the active one any more.\<close>

definition comeback_step :: "comeback_env \<Rightarrow> string \<Rightarrow> uuid \<Rightarrow> nat \<Rightarrow> scenario_step \<Rightarrow> db \<Rightarrow> (bool \<times> db) result" where
  "comeback_step env match_id run_id n s d =
     bind_r (step_event env match_id run_id n s) (\<lambda>e.
     if db_demo d \<noteq> Some (Some match_id) then Inr (False, d)
     else bind_r (persist_event_and_outbox (ce_hash env) (ce_topic env) (ce_now env n) e d) (\<lambda>(accepted, d').
       Inr (True, d')))"

fun comeback_loop ::
  "comeback_env \<Rightarrow> (nat \<Rightarrow> db \<Rightarrow> db) \<Rightarrow> string \<Rightarrow> uuid \<Rightarrow> nat \<Rightarrow> scenario_step list \<Rightarrow> db \<Rightarrow> py_error option \<times> db" where
  "comeback_loop env between match_id run_id n [] d = (None, d)"
| "comeback_loop env between match_id run_id n (s # steps) d =
     (case comeback_step env match_id run_id n s d of
        Inl err \<Rightarrow> (Some err, d)
      | Inr (False, d') \<Rightarrow> (None, d')
      | Inr (True, d') \<Rightarrow> if steps = [] then (None, d')
          else comeback_loop env between match_id run_id (Suc n) steps (between n d'))"

definition run_comeback :: "comeback_env \<Rightarrow> (nat \<Rightarrow> db \<Rightarrow> db) \<Rightarrow> string \<Rightarrow> uuid \<Rightarrow> db \<Rightarrow> py_error option \<times> db" where
  "run_comeback env between match_id run_id d = comeback_loop env between match_id run_id 1 SCENARIO d"

definition is_demo :: "event \<Rightarrow> bool" where
  "is_demo e \<longleftrightarrow> ev_source e = ''demo-football''"

definition clear_demo_data :: "db \<Rightarrow> db" where
  "clear_demo_data d =
     (let demo_matches = map ev_subject_id (filter is_demo (db_events d))
      in (delete_events is_demo (delete_matches demo_matches d))\<lparr>db_demo := Some None\<rparr>)"

section \<open>The routes\<close>

text \<open>
  \<open>scenario_task\<close> with whether it is done, \<open>active_scenario_id\<close>, and the health components.  A started
  task runs concurrently; \<open>finish_demo\<close> is the end of \<open>_run_demo_scenario\<close>.
\<close>

record demo =
  dm_task :: "(string \<times> uuid) option"
  dm_done :: bool
  dm_active_scenario_id :: "string option"
  dm_components :: components
  dm_db :: db
  dm_realtime :: manager

datatype demo_error = Scenario_already_running

definition running :: "demo \<Rightarrow> bool" where
  "running s \<longleftrightarrow> dm_task s \<noteq> None \<and> \<not> dm_done s"

definition start_demo :: "instant \<Rightarrow> uuid \<Rightarrow> uuid \<Rightarrow> demo \<Rightarrow> demo_error + string \<times> demo" where
  "start_demo now match_uuid run_id s =
     (if running s then Inl Scenario_already_running
      else
        (let match_id = ''demo-'' @ uuid_str match_uuid
         in Inr (match_id, s\<lparr>dm_task := Some (match_id, run_id), dm_done := False,
              dm_active_scenario_id := Some match_id,
              dm_components := report_component now ''demo_source'' Healthy ''scenario_running'' False [] (dm_components s),
              dm_db := activate_match match_id (dm_db s)\<rparr>)))"

datatype scenario_end = Cancelled_scenario | Failed_scenario | Complete_scenario

definition scenario_ends :: "py_error option \<Rightarrow> scenario_end" where
  "scenario_ends r = (case r of None \<Rightarrow> Complete_scenario | Some e \<Rightarrow> Failed_scenario)"

definition finish_demo :: "instant \<Rightarrow> scenario_end \<Rightarrow> demo \<Rightarrow> demo" where
  "finish_demo now r s = s\<lparr>dm_done := True, dm_components :=
     (case r of
        Cancelled_scenario \<Rightarrow> report_component now ''demo_source'' Healthy ''scenario_cancelled'' False [] (dm_components s)
      | Failed_scenario \<Rightarrow> report_component now ''demo_source'' Degraded ''scenario_failed'' False [] (dm_components s)
      | Complete_scenario \<Rightarrow> report_component now ''demo_source'' Healthy ''scenario_complete'' True [] (dm_components s))\<rparr>"

definition resync_message :: rt_message where
  "resync_message = Resync_required ''demo_reset''"

definition reset_demo :: "instant \<Rightarrow> demo \<Rightarrow> demo" where
  "reset_demo now s =
     (let s1 = (if running s then finish_demo now Cancelled_scenario s else s)
      in s1\<lparr>dm_task := None, dm_active_scenario_id := None, dm_db := clear_demo_data (dm_db s1),
           dm_components := report_component now ''demo_source'' Healthy ''idle'' False [] (dm_components s1),
           dm_realtime := publish now resync_message (dm_realtime s1)\<rparr>)"

section \<open>The story it tells\<close>

text \<open>The event of a step, written out.\<close>

definition scenario_payload :: "scenario_step \<Rightarrow> football_payload" where
  "scenario_payload = (\<lambda>(t, minute, side, player).
     \<lparr>fp_home_team = ''Northstar FC'', fp_away_team = ''Harbor United'', fp_competition = ''Premier League'',
      fp_minute = minute, fp_current_minute = None, fp_side = side, fp_player = player, fp_substitute = None,
      fp_detail = None, fp_home_score = 0, fp_away_score = 0, fp_status = None, fp_phase = None\<rparr>)"

definition scenario_event :: "comeback_env \<Rightarrow> string \<Rightarrow> uuid \<Rightarrow> nat \<Rightarrow> scenario_step \<Rightarrow> event" where
  "scenario_event env match_id run_id n s =
     \<lparr>ev_event_id = ce_uuid env n, ev_source = ''demo-football'', ev_event_type = fet_value (fst s), ev_subject_type = ''match'',
      ev_subject_id = match_id, ev_occurred_at = ce_now env n, ev_observed_at = ce_now env n, ev_ingested_at = ce_now env n,
      ev_version = int n, ev_dedupe_key = demo_dedupe_key run_id (int n), ev_schema_version = 1,
      ev_correlation_id = run_id, ev_payload = football_payload_dump (scenario_payload s)\<rparr>"

fun scenario_events :: "comeback_env \<Rightarrow> string \<Rightarrow> uuid \<Rightarrow> nat \<Rightarrow> scenario_step list \<Rightarrow> event list" where
  "scenario_events env match_id run_id n [] = []"
| "scenario_events env match_id run_id n (s # steps) =
     scenario_event env match_id run_id n s # scenario_events env match_id run_id (Suc n) steps"

definition step_ok :: "scenario_step \<Rightarrow> bool" where
  "step_ok s \<longleftrightarrow> football_payload_ok (scenario_payload s)
     \<and> football_payload_of_dict (step_payload s) = Inr (scenario_payload s) \<and> length (fet_value (fst s)) \<le> 100"

lemma scenario_ok: "list_all step_ok SCENARIO"
  by code_simp

lemma step_event_ok: "step_ok s \<Longrightarrow> 1 \<le> n \<Longrightarrow> step_event env m r n s = Inr (scenario_event env m r n s)"
  by (simp add: step_event_def step_ok_def normalize_football_observation_def scenario_event_def demo_dedupe_key_def)

text \<open>The projection of the ten events, from nothing.\<close>

lemma scenario_reduce:
  "reduce_step now (scenario_event env m r n s) current =
     (if (case current of None \<Rightarrow> False | Some c \<Rightarrow> int n \<le> ms_version c) then Inr current
      else if (case current of None \<Rightarrow> False | Some c \<Rightarrow> ms_status c = ''fulltime'' \<and> fst s \<noteq> SCORE_CORRECTED) then Inr current
      else bind_r (apply_event_type (fet_value (fst s)) (football_payload_dump (scenario_payload s))
         \<lparr>ms_match_id = m, ms_home_team = ''Northstar FC'', ms_away_team = ''Harbor United'',
          ms_competition = ''Premier League'',
          ms_home_score = (case current of Some c \<Rightarrow> ms_home_score c | None \<Rightarrow> 0),
          ms_away_score = (case current of Some c \<Rightarrow> ms_away_score c | None \<Rightarrow> 0),
          ms_status = (case current of Some c \<Rightarrow> ms_status c | None \<Rightarrow> ''scheduled''),
          ms_minute = max (case current of Some c \<Rightarrow> ms_minute c | None \<Rightarrow> 0) (fst (snd s)),
          ms_phase = (case current of Some c \<Rightarrow> ms_phase c | None \<Rightarrow> ''pre_match''),
          ms_version = int n, ms_last_event_id = Some (ce_uuid env n),
          ms_last_event_type = Some (fet_value (fst s)), ms_updated_at = now\<rparr>)
        (\<lambda>t. Inr (Some (match_core.truncate t))))"
proof -
  have "base_state now current (scenario_event env m r n s) = Inr
     \<lparr>ms_match_id = m, ms_home_team = ''Northstar FC'', ms_away_team = ''Harbor United'',
      ms_competition = ''Premier League'',
      ms_home_score = (case current of Some c \<Rightarrow> ms_home_score c | None \<Rightarrow> 0),
      ms_away_score = (case current of Some c \<Rightarrow> ms_away_score c | None \<Rightarrow> 0),
      ms_status = (case current of Some c \<Rightarrow> ms_status c | None \<Rightarrow> ''scheduled''),
      ms_minute = max (case current of Some c \<Rightarrow> ms_minute c | None \<Rightarrow> 0) (fst (snd s)),
      ms_phase = (case current of Some c \<Rightarrow> ms_phase c | None \<Rightarrow> ''pre_match''),
      ms_version = int n, ms_last_event_id = Some (ce_uuid env n),
      ms_last_event_type = Some (fet_value (fst s)), ms_updated_at = now\<rparr>"
    by (subst base_state_dump [where p = "scenario_payload s"])
      (simp_all add: scenario_event_def scenario_payload_def shown_minute_def case_prod_beta)
  then show ?thesis
    by (auto simp: reduce_step_def reduce_match_state_def is_stale_def is_late_fact_def scenario_event_def bind_r_assoc
        split: option.splits)
qed

lemma scenario_projection:
  "\<exists>c. fold_r (reduce_step now) (scenario_events env m r 1 SCENARIO) None = Inr (Some c)
     \<and> ms_home_score c = 2 \<and> ms_away_score c = 1 \<and> ms_status c = ''fulltime'' \<and> ms_minute c = 90
     \<and> ms_match_id c = m \<and> ms_version c = 10"
  by (simp add: SCENARIO_def scenario_reduce scenario_payload_def apply_defs apply_in_play_def
      stopped_def unstarted_phase_def half_phase_def match_core.truncate_def)

section \<open>A run\<close>

lemma int_str_inject: "0 \<le> i \<Longrightarrow> 0 \<le> j \<Longrightarrow> int_str i = int_str j \<longleftrightarrow> i = j"
  by (auto simp: int_str_def)

lemma demo_key_inject: "demo_dedupe_key r (int i) = demo_dedupe_key r (int j) \<longleftrightarrow> i = j"
  by (simp add: demo_dedupe_key_def int_str_inject)

text \<open>What a run needs of the store: its identifiers and keys from number \<open>n\<close> on are new.\<close>

definition run_fresh :: "comeback_env \<Rightarrow> uuid \<Rightarrow> nat \<Rightarrow> db \<Rightarrow> bool" where
  "run_fresh env r n d \<longleftrightarrow> inj (ce_uuid env)
     \<and> (\<forall>k \<ge> n. ce_uuid env k \<notin> event_ids d \<and> demo_dedupe_key r (int k) \<notin> known_keys (ce_hash env) d)"

lemma scenario_event_simps [simp]:
  "ev_event_id (scenario_event env m r n s) = ce_uuid env n"
  "ev_dedupe_key (scenario_event env m r n s) = demo_dedupe_key r (int n)"
  "ev_source (scenario_event env m r n s) = ''demo-football''"
  "ev_subject_id (scenario_event env m r n s) = m"
  by (simp_all add: scenario_event_def)

lemma db_ok_demo [simp]: "db_ok hash (d\<lparr>db_demo := x\<rparr>) = db_ok hash d"
  by (simp add: db_ok_def schema_ok_def unique_ok_def foreign_ok_def sequence_ok_def outbox_complete_def
      timeline_matches_def projected_ids_def tombstones_ok_def)

lemma outbox_ids: "db_ok hash d \<Longrightarrow> ob_event_id ` set (db_outbox d) \<subseteq> event_ids d"
  by (auto simp: db_ok_def schema_ok_def foreign_ok_def)

lemma comeback_step_persists:
  assumes "db_ok (ce_hash env) d" "db_demo d = Some (Some m)" "run_fresh env r n d" "step_ok s" "1 \<le> n"
    and "event_fits (scenario_event env m r n s)"
  shows "\<exists>d'. comeback_step env m r n s d = Inr (True, d') \<and> db_events d' = db_events d @ [scenario_event env m r n s]
    \<and> db_ok (ce_hash env) d' \<and> db_demo d' = db_demo d \<and> run_fresh env r (Suc n) d'"
proof -
  let ?e = "scenario_event env m r n s"
  let ?d = "d\<lparr>db_events := db_events d @ [?e], db_outbox := db_outbox d @ [new_outbox_row (ce_topic env) (ce_now env n) ?e (db_next_outbox d)],
      db_next_outbox := db_next_outbox d + 1\<rparr>"
  have new: "ce_uuid env n \<notin> event_ids d" "\<not> has_dedupe (demo_dedupe_key r (int n)) d"
    "\<not> is_retired (ce_hash env) (demo_dedupe_key r (int n)) d"
    using assms(3) by (auto simp: run_fresh_def known_keys_def)
  then have a: "append_event (ce_topic env) (ce_now env n) ?e d = Inr ?d"
    using assms(6) outbox_ids [OF assms(1)] by (auto simp: append_event_Inr)
  then have p: "persist_event_and_outbox (ce_hash env) (ce_topic env) (ce_now env n) ?e d = Inr (True, ?d)"
    using new by (simp add: persist_True)
  have "run_fresh env r (Suc n) ?d"
    using assms(3) by (auto simp: run_fresh_def known_keys_def has_dedupe_def is_retired_def demo_key_inject inj_eq)
  moreover have "db_ok (ce_hash env) ?d" using append_event_preserves [OF a assms(1)] new by simp
  ultimately show ?thesis
    using p assms(2,4,5) by (simp add: comeback_step_def step_event_ok)
qed

lemma comeback_loop_persists:
  assumes "db_ok (ce_hash env) d" "db_demo d = Some (Some m)" "run_fresh env r n d" "list_all step_ok steps" "1 \<le> n"
    and "\<And>k s. n \<le> k \<Longrightarrow> k < n + length steps \<Longrightarrow> s \<in> set steps \<Longrightarrow> event_fits (scenario_event env m r k s)"
  shows "\<exists>d'. comeback_loop env (\<lambda>k x. x) m r n steps d = (None, d')
    \<and> db_events d' = db_events d @ scenario_events env m r n steps \<and> db_ok (ce_hash env) d'"
  using assms
proof (induction steps arbitrary: n d)
  case (Cons s steps)
  obtain d1 where d1: "comeback_step env m r n s d = Inr (True, d1)"
    "db_events d1 = db_events d @ [scenario_event env m r n s]" "db_ok (ce_hash env) d1" "db_demo d1 = db_demo d"
    "run_fresh env r (Suc n) d1"
    using comeback_step_persists [of env d m r n s] Cons.prems by fastforce
  show ?case
  proof (cases "steps = []")
    case False
    obtain d' where "comeback_loop env (\<lambda>k x. x) m r (Suc n) steps d1 = (None, d')"
      "db_events d' = db_events d1 @ scenario_events env m r (Suc n) steps" "db_ok (ce_hash env) d'"
      using Cons.IH [of d1 "Suc n"] d1 Cons.prems by fastforce
    with d1 False show ?thesis by simp
  qed (use d1 in simp)
qed simp

lemma hex_digits_length [simp]: "length (hex_digits w n) = w"
  by (induction w arbitrary: n) simp_all

lemma uuid_str_length [simp]: "length (uuid_str u) = 36"
  by (simp add: uuid_str_def Let_def)

lemma scenario_fits:
  assumes "length m \<le> 100" "1 \<le> k" "k < 11" "s \<in> set SCENARIO"
  shows "event_fits (scenario_event env m r k s)"
proof -
  have "\<forall>k \<in> set [1..<11]. length (int_str (int k)) \<le> 2" by code_simp
  then have "length (int_str (int k)) \<le> 2" using assms(2,3) by simp
  moreover have "length (fet_value (fst s)) \<le> 100" using scenario_ok assms(4) by (auto simp: list_all_iff step_ok_def)
  ultimately show ?thesis
    using assms by (simp add: event_fits_def scenario_event_def demo_dedupe_key_def int32_def)
qed

text \<open>
  The demo tells its story.  On a consistent store with new identifiers a run that nothing
  disturbs returns without an error, appends exactly its ten events in order and keeps the store
  consistent; projecting these events from nothing ends at two goals to one, at full time, after
  ninety minutes.
\<close>

theorem comeback_story:
  assumes "db_ok (ce_hash env) d" "length match_id \<le> 100" "run_fresh env run_id 1 d"
  shows "\<exists>d' c. run_comeback env (\<lambda>k x. x) match_id run_id (activate_match match_id d) = (None, d')
    \<and> db_events d' = db_events d @ scenario_events env match_id run_id 1 SCENARIO \<and> db_ok (ce_hash env) d'
    \<and> fold_r (reduce_step now) (scenario_events env match_id run_id 1 SCENARIO) None = Inr (Some c)
    \<and> ms_home_score c = 2 \<and> ms_away_score c = 1 \<and> ms_status c = ''fulltime'' \<and> ms_minute c = 90"
proof -
  let ?d = "activate_match match_id d"
  have d: "db_ok (ce_hash env) ?d" "db_demo ?d = Some (Some match_id)" "run_fresh env run_id 1 ?d" "db_events ?d = db_events d"
    using assms by (simp_all add: activate_match_def run_fresh_def known_keys_def has_dedupe_def is_retired_def)
  have fits: "event_fits (scenario_event env match_id run_id k s)" if "1 \<le> k" "k < 1 + length SCENARIO" "s \<in> set SCENARIO" for k s
    using scenario_fits [OF assms(2) that(1) _ that(3)] that(2) by (simp add: SCENARIO_def)
  show ?thesis
    using comeback_loop_persists [OF d(1-3) scenario_ok _ fits] scenario_projection [of now env match_id run_id] d(4)
    by (fastforce simp: run_comeback_def)
qed

definition sample_comeback :: comeback_env where
  "sample_comeback = \<lparr>ce_now = (\<lambda>n. seconds (int n)), ce_uuid = (\<lambda>n. n), ce_hash = id, ce_topic = ''t''\<rparr>"

theorem comeback_story_witness:
  "\<exists>d'. run_comeback sample_comeback (\<lambda>k x. x) ''demo-1'' 5 (activate_match ''demo-1'' empty_db) = (None, d')
     \<and> length (db_events d') = 10"
proof -
  have "run_fresh sample_comeback 5 1 empty_db"
    by (simp add: run_fresh_def sample_comeback_def known_keys_def has_dedupe_def is_retired_def empty_db_def)
  with comeback_story [of sample_comeback empty_db "''demo-1''" 5] empty_db_ok show ?thesis
    by (fastforce simp: sample_comeback_def SCENARIO_def empty_db_def)
qed

section \<open>A reset\<close>

lemma clear_demo_data_ok: "db_ok hash d \<Longrightarrow> db_ok hash (clear_demo_data d)"
  by (simp add: clear_demo_data_def Let_def delete_events_ok delete_matches_ok)

lemma clear_demo_data_rows:
  assumes "db_ok hash d"
  shows "db_events (clear_demo_data d) = filter (\<lambda>e. \<not> is_demo e) (db_events d)"
    and "set (db_timeline (clear_demo_data d)) = {r \<in> set (db_timeline d). \<exists>e \<in> set (db_events d). ev_event_id e = tl_event_id r \<and> \<not> is_demo e}"
    and "db_matches (clear_demo_data d) = filter (\<lambda>m. \<forall>e \<in> set (db_events d). is_demo e \<longrightarrow> ev_subject_id e \<noteq> ms_match_id m) (db_matches d)"
    and "db_demo (clear_demo_data d) = Some None" "db_retired (clear_demo_data d) = db_retired d"
proof -
  have uniq: "e = e'" if "e \<in> set (db_events d)" "e' \<in> set (db_events d)" "ev_event_id e = ev_event_id e'" for e e'
  proof -
    have "inj_on ev_event_id (set (db_events d))"
      using assms by (simp add: db_ok_def schema_ok_def unique_ok_def distinct_map)
    from inj_onD [OF this that(3) that(1,2)] show ?thesis .
  qed
  have ref: "\<exists>e \<in> set (db_events d). ev_event_id e = tl_event_id r" if "r \<in> set (db_timeline d)" for r
    using assms that by (force simp: db_ok_def schema_ok_def foreign_ok_def)
  show "set (db_timeline (clear_demo_data d)) = {r \<in> set (db_timeline d). \<exists>e \<in> set (db_events d). ev_event_id e = tl_event_id r \<and> \<not> is_demo e}"
  proof -
    have "tl_event_id r \<notin> ev_event_id ` {e \<in> set (db_events d). is_demo e} \<longleftrightarrow>
        (\<exists>e \<in> set (db_events d). ev_event_id e = tl_event_id r \<and> \<not> is_demo e)" (is "?l = ?r") if "r \<in> set (db_timeline d)" for r
    proof
      assume ?l
      with ref [OF that] show ?r by force
    next
      assume ?r
      then obtain e where e: "e \<in> set (db_events d)" "ev_event_id e = tl_event_id r" "\<not> is_demo e" by blast
      show ?l
      proof
        assume "tl_event_id r \<in> ev_event_id ` {e \<in> set (db_events d). is_demo e}"
        then obtain f where "f \<in> set (db_events d)" "is_demo f" "tl_event_id r = ev_event_id f" by blast
        with uniq [of e f] e show False by simp
      qed
    qed
    then show ?thesis by (auto simp: clear_demo_data_def delete_events_def delete_matches_def Let_def)
  qed
  show "db_matches (clear_demo_data d) = filter (\<lambda>m. \<forall>e \<in> set (db_events d). is_demo e \<longrightarrow> ev_subject_id e \<noteq> ms_match_id m) (db_matches d)"
    unfolding clear_demo_data_def Let_def by (simp, rule filter_cong [OF refl]) (auto simp: image_iff)
qed (simp_all add: clear_demo_data_def Let_def delete_matches_def)

text \<open>A run that is not the active one writes nothing, whatever it has left to do.\<close>

lemma stopped_run:
  assumes "db_demo d \<noteq> Some (Some m)" "list_all step_ok steps" "1 \<le> n"
  shows "comeback_loop env between m r n steps d = (None, d)"
  using assms by (cases steps) (simp_all add: comeback_step_def step_event_ok)

text \<open>
  A reset is complete and touches the demo alone.  It removes the events of the demo with all
  rows that depend on them and the projections of its matches; every other event, timeline row and
  projection stays, the store stays consistent, and a run that was still going writes nothing more.
\<close>

theorem demo_reset_scoped:
  assumes "db_ok hash d"
  shows "db_ok hash (clear_demo_data d)
    \<and> db_events (clear_demo_data d) = filter (\<lambda>e. \<not> is_demo e) (db_events d)
    \<and> set (db_timeline (clear_demo_data d)) = {r \<in> set (db_timeline d). \<exists>e \<in> set (db_events d). ev_event_id e = tl_event_id r \<and> \<not> is_demo e}
    \<and> db_matches (clear_demo_data d) = filter (\<lambda>m. \<forall>e \<in> set (db_events d). is_demo e \<longrightarrow> ev_subject_id e \<noteq> ms_match_id m) (db_matches d)
    \<and> (1 \<le> n \<longrightarrow> list_all step_ok steps \<longrightarrow>
         comeback_loop env between m r n steps (clear_demo_data d) = (None, clear_demo_data d))"
  using clear_demo_data_rows [OF assms] clear_demo_data_ok [OF assms] stopped_run [of "clear_demo_data d" m steps n env between r]
  by simp

theorem demo_reset_scoped_witness:
  "comeback_loop sample_comeback (\<lambda>k x. x) ''demo-1'' 5 3 (drop 2 SCENARIO) (clear_demo_data empty_db) = (None, clear_demo_data empty_db)"
proof -
  have "list_all step_ok (drop 2 SCENARIO)" using scenario_ok by (auto simp: list_all_iff dest: in_set_dropD)
  with demo_reset_scoped [of id empty_db 3 "drop 2 SCENARIO"] empty_db_ok show ?thesis by simp
qed

end
