(* ===== verification/Live_State.thy ===== *)
theory Live_State
  imports Live_Api Provider_Health
begin

text \<open>
  The snapshot of \<open>GET /api/v1/live-state\<close> (\<open>live_state\<close> and \<open>_dominant_focus\<close> in
  \<open>backend/app/api/routes.py\<close>): which match is in focus, how much attention it deserves, and which of
  match, mail, builds and providers dominates.
\<close>

section \<open>The match in focus\<close>

text \<open>The match of the demo selector, or else the projection updated last among those under way.\<close>

definition demo_match :: "db \<Rightarrow> match_state option" where
  "demo_match d = (case db_demo d of
     Some (Some i) \<Rightarrow> if i \<noteq> [] then find_match i (db_matches d) else None | _ \<Rightarrow> None)"

definition newest_live_match :: "db \<Rightarrow> match_state option" where
  "newest_live_match d =
     (case sort_key (\<lambda>m. - ms_updated_at m) (filter (\<lambda>m. ms_status m \<in> {''live'', ''halftime''}) (db_matches d)) of
        [] \<Rightarrow> None | m # _ \<Rightarrow> Some m)"

definition focused_match :: "db \<Rightarrow> match_state option" where
  "focused_match d = (case demo_match d of Some m \<Rightarrow> Some m | None \<Rightarrow> newest_live_match d)"

section \<open>Candidates for the dominant focus\<close>

definition TRANSIENT_ATTENTION_TTL :: timedelta where
  "TRANSIENT_ATTENTION_TTL = seconds 12"

definition mail_types :: "string set" where
  "mail_types = {''mail.message.received'', ''mail.thread.updated''}"

definition relevant_types :: "string set" where
  "relevant_types = {''mail.message.received'', ''mail.thread.updated'', ''developer.workflow.failed'', ''developer.deployment.failed''}"

definition collect :: "'a result list \<Rightarrow> 'a list result" where
  "collect rs = fold_r (\<lambda>r acc. bind_r r (\<lambda>x. Inr (acc @ [x]))) rs []"

definition match_candidate :: "match_state \<Rightarrow> focus_state \<Rightarrow> db \<Rightarrow> dominant_focus result" where
  "match_candidate m focus d =
     (let canonical = Option.bind (ms_last_event_id m) (\<lambda>i. find (\<lambda>e. ev_event_id e = i) (db_events d));
          observed_at = (case canonical of Some e \<Rightarrow> ev_observed_at e | None \<Rightarrow> ms_updated_at m)
      in dominant_focus_new (fs_score focus) Football (fs_reason focus) (Some (ms_match_id m))
           (map_option uuid_str (ms_last_event_id m)) (fs_transient focus) (utc (ms_updated_at m)) (utc observed_at)
           (map_option utc (fs_expires_at focus)))"

definition recent_rows :: "instant \<Rightarrow> db \<Rightarrow> (timeline_row \<times> instant) list" where
  "recent_rows now d = take 50 (sort_key (\<lambda>x. - item_cursor x)
     (filter (\<lambda>x. tl_event_type (fst x) \<in> relevant_types \<and> now - TRANSIENT_ATTENTION_TTL \<le> snd x \<and> snd x \<le> now)
       (timeline_join d)))"

text \<open>The tests inside the loop: the age once more, and whether a mail is important and still there.\<close>

definition is_mail :: "timeline_row \<Rightarrow> bool" where
  "is_mail r \<longleftrightarrow> tl_event_type r \<in> mail_types"

definition row_counts :: "instant \<Rightarrow> timeline_row \<times> instant \<Rightarrow> bool" where
  "row_counts now x \<longleftrightarrow> 0 \<le> now - snd x \<and> now - snd x \<le> TRANSIENT_ATTENTION_TTL
     \<and> (is_mail (fst x) \<longrightarrow> map_of (tl_payload (fst x)) ''important'' = Some (JBool True)
          \<and> map_of (tl_payload (fst x)) ''message_removed'' \<noteq> Some (JBool True))"

definition row_candidate :: "timeline_row \<times> instant \<Rightarrow> dominant_focus result" where
  "row_candidate x =
     (let r = fst x; (priority, domain, reason) =
            (if is_mail r then (85, Gmail, ''important_mail'') else (80, Github, ''ci_failure''))
      in dominant_focus_new priority domain reason (Some (tl_subject_id r)) (Some (uuid_str (tl_event_id r))) True
           (utc (tl_occurred_at r)) (utc (snd x)) (Some (utc (snd x + TRANSIENT_ATTENTION_TTL))))"

definition persistent_provider_states :: "provider_status list" where
  "persistent_provider_states = [Ps_degraded, Ps_stale, Ps_rate_limited, Ps_auth_failure, Ps_provider_failure, Ps_unavailable]"

definition degraded_providers :: "settings \<Rightarrow> health_registry \<Rightarrow> (string \<times> provider_health) list" where
  "degraded_providers s reg =
     filter (\<lambda>(p, h). ph_configured h \<and> ph_status h \<in> set persistent_provider_states) (snapshot s reg)"

text \<open>The time stamps went out as text by \<open>isoformat\<close> and come back by \<open>fromisoformat\<close>.\<close>

definition provider_candidate :: "instant \<Rightarrow> string \<times> provider_health \<Rightarrow> dominant_focus result" where
  "provider_candidate now x =
     (let observed_at = (case ph_last_failure_at (snd x) of Some t \<Rightarrow> t
            | None \<Rightarrow> (case ph_checked_at (snd x) of Some t \<Rightarrow> t | None \<Rightarrow> now))
      in dominant_focus_new 65 System ''provider_degraded'' (Some (fst x)) None False (utc observed_at) (utc observed_at) None)"

definition focus_candidates ::
  "instant \<Rightarrow> settings \<Rightarrow> health_registry \<Rightarrow> db \<Rightarrow> match_state option \<Rightarrow> focus_state \<Rightarrow> dominant_focus list result" where
  "focus_candidates now s reg d m focus = collect
     ((case m of None \<Rightarrow> [] | Some x \<Rightarrow> [match_candidate x focus d])
      @ map row_candidate (filter (row_counts now) (recent_rows now d))
      @ map (provider_candidate now) (degraded_providers s reg))"

definition dominant_focus_of ::
  "instant \<Rightarrow> settings \<Rightarrow> health_registry \<Rightarrow> db \<Rightarrow> match_state option \<Rightarrow> focus_state \<Rightarrow> dominant_focus option result" where
  "dominant_focus_of now s reg d m focus =
     bind_r (focus_candidates now s reg d m focus) (\<lambda>cs. Inr (select_dominant_focus cs))"

section \<open>The snapshot\<close>

record live_view =
  lv_match :: "match_state option"
  lv_attention :: int
  lv_focus :: focus_state
  lv_dominant_focus :: "dominant_focus option"
  lv_updated_at :: "instant option"

definition live_state :: "instant \<Rightarrow> settings \<Rightarrow> health_registry \<Rightarrow> db \<Rightarrow> live_view result" where
  "live_state now s reg d =
     (let m = focused_match d;
          focus = (case m of None \<Rightarrow> focus_for_match ''idle'' None None now None ''football''
            | Some x \<Rightarrow> focus_for_match (ms_status x) (ms_last_event_type x) (Some (ms_updated_at x)) now
                          (Some (ms_match_id x)) ''football'')
      in bind_r (dominant_focus_of now s reg d m focus) (\<lambda>dominant.
         Inr \<lparr>lv_match = m, lv_attention = fs_score focus, lv_focus = focus, lv_dominant_focus = dominant,
              lv_updated_at = map_option ms_updated_at m\<rparr>))"

section \<open>The snapshot is always there, and ranks what it shows\<close>

lemma collect_fold: "fold_r (\<lambda>r acc. bind_r r (\<lambda>x. Inr (acc @ [x]))) (map Inr xs) acc = Inr (acc @ xs)"
  by (induction xs arbitrary: acc) simp_all

lemma reasons_valid:
  "reason_ok ''important_mail''" "reason_ok ''ci_failure''" "reason_ok ''provider_degraded''"
  "list_all reason_ok [''goal'', ''red_card'', ''yellow_card'', ''live_match'', ''halftime_break'', ''scheduled_match'', ''fulltime'', ''no_active_match'']"
  by code_simp+

lemma focus_reason_ok: "reason_ok (fs_reason (focus_for_match status latest event_at now subject source))"
  using reasons_valid(4) by (auto simp: focus_for_match_def status_focus_def Let_def)

lemma focus_score_bounds:
  "10 \<le> fs_score (focus_for_match status latest event_at now subject source)"
  "fs_score (focus_for_match status latest event_at now subject source) \<le> 100"
  by (auto simp: focus_for_match_def status_focus_def Let_def)

lemma dominant_new_utc:
  "0 \<le> p \<Longrightarrow> p \<le> 100 \<Longrightarrow> reason_ok reason \<Longrightarrow>
     \<exists>f. dominant_focus_new p k reason sub ev tr (utc c) (utc ob) (map_option utc ex) = Inr f
       \<and> df_priority f = p \<and> df_domain f = k"
  by (cases ex) (simp_all add: dominant_focus_new_def)

lemma match_candidate_ok:
  assumes "focus = focus_for_match status latest event_at now subject source"
  shows "\<exists>f. match_candidate m focus d = Inr f \<and> df_priority f = fs_score focus \<and> df_domain f = Football"
  unfolding match_candidate_def Let_def assms
  by (rule dominant_new_utc) (use focus_score_bounds [of status latest event_at now subject source] focus_reason_ok in auto)

lemma row_candidate_ok:
  "\<exists>f. row_candidate x = Inr f \<and> df_priority f = (if is_mail (fst x) then 85 else 80)
     \<and> df_domain f = (if is_mail (fst x) then Gmail else Github)"
  using dominant_new_utc [of 85 "''important_mail''" Gmail _ _ _ _ _ "Some _"]
    dominant_new_utc [of 80 "''ci_failure''" Github _ _ _ _ _ "Some _"] reasons_valid(1,2)
  by (auto simp: row_candidate_def Let_def)

lemma provider_candidate_ok: "\<exists>f. provider_candidate now x = Inr f \<and> df_priority f = 65 \<and> df_domain f = System"
  using dominant_new_utc [of 65 "''provider_degraded''" System _ _ _ _ _ None] reasons_valid(3)
  by (auto simp: provider_candidate_def Let_def)

text \<open>The priority each candidate has, in the order they are listed.\<close>

definition candidate_priorities :: "instant \<Rightarrow> settings \<Rightarrow> health_registry \<Rightarrow> db \<Rightarrow> match_state option \<Rightarrow> focus_state \<Rightarrow> int list" where
  "candidate_priorities now s reg d m focus =
     (case m of None \<Rightarrow> [] | Some x \<Rightarrow> [fs_score focus])
     @ map (\<lambda>x. if is_mail (fst x) then 85 else 80) (filter (row_counts now) (recent_rows now d))
     @ map (\<lambda>x. 65) (degraded_providers s reg)"

text \<open>Every construction succeeds, with the priority listed.\<close>

lemma list_of_candidates:
  assumes "\<And>y. y \<in> set ys \<Longrightarrow> \<exists>f. c y = Inr f \<and> df_priority f = p y"
  shows "\<exists>fs. map c ys = map Inr fs \<and> map df_priority fs = map p ys"
  using assms
proof (induction ys)
  case (Cons y ys)
  then obtain f fs where "c y = Inr f" "df_priority f = p y" "map c ys = map Inr fs" "map df_priority fs = map p ys"
    by fastforce
  then show ?case by (intro exI [of _ "f # fs"]) simp
qed simp

lemma focus_candidates_total:
  assumes "focus = focus_for_match status latest event_at now' subject source"
  shows "\<exists>fs. focus_candidates now s reg d m focus = Inr fs
    \<and> map df_priority fs = candidate_priorities now s reg d m focus"
proof -
  obtain as where as: "(case m of None \<Rightarrow> [] | Some x \<Rightarrow> [match_candidate x focus d]) = map Inr as"
    "map df_priority as = (case m of None \<Rightarrow> [] | Some x \<Rightarrow> [fs_score focus])"
  proof (cases m)
    case (Some x)
    obtain f where "match_candidate x focus d = Inr f" "df_priority f = fs_score focus"
      using match_candidate_ok [OF assms] by blast
    with that [of "[f]"] Some show ?thesis by simp
  qed (use that [of "[]"] in simp)
  let ?rows = "filter (row_counts now) (recent_rows now d)"
  have "\<exists>bs. map row_candidate ?rows = map Inr bs \<and> map df_priority bs = map (\<lambda>x. if is_mail (fst x) then 85 else 80) ?rows"
    by (rule list_of_candidates) (use row_candidate_ok in blast)
  then obtain bs where bs: "map row_candidate ?rows = map Inr bs"
    "map df_priority bs = map (\<lambda>x. if is_mail (fst x) then 85 else 80) ?rows" by blast
  have "\<exists>cs. map (provider_candidate now) (degraded_providers s reg) = map Inr cs
      \<and> map df_priority cs = map (\<lambda>x. 65) (degraded_providers s reg)"
    by (rule list_of_candidates) (use provider_candidate_ok in blast)
  then obtain cs where cs: "map (provider_candidate now) (degraded_providers s reg) = map Inr cs"
    "map df_priority cs = map (\<lambda>x. 65) (degraded_providers s reg)" by blast
  have "focus_candidates now s reg d m focus = collect (map Inr (as @ bs @ cs))"
    by (simp only: focus_candidates_def as bs cs map_append)
  also have "\<dots> = Inr (as @ bs @ cs)" using collect_fold [of "as @ bs @ cs" "[]"] by (simp only: collect_def append_Nil)
  finally have "focus_candidates now s reg d m focus = Inr (as @ bs @ cs)" .
  moreover have "map df_priority (as @ bs @ cs) = candidate_priorities now s reg d m focus"
    by (simp only: candidate_priorities_def map_append as bs cs)
  ultimately show ?thesis by blast
qed

lemma select_priority:
  "select_dominant_focus cs = (if cs = [] then None else Some (arg_min_list focus_key cs))
   \<and> (cs \<noteq> [] \<longrightarrow> df_priority (arg_min_list focus_key cs) = Max (set (map df_priority cs)))"
proof -
  have "df_priority (arg_min_list focus_key cs) = Max (set (map df_priority cs))" if "cs \<noteq> []"
  proof -
    have in_cs: "arg_min_list focus_key cs \<in> set cs" using that by (rule arg_min_list_in)
    have "df_priority x \<le> df_priority (arg_min_list focus_key cs)" if "x \<in> set cs" for x
    proof -
      have "focus_key (arg_min_list focus_key cs) \<le> focus_key x" using that by (rule arg_min_list_key_le)
      then show ?thesis by (auto simp: focus_key_def less_eq_prod_def less_prod_def)
    qed
    with in_cs show ?thesis by (intro Max_eqI [symmetric]) auto
  qed
  then show ?thesis by (simp add: select_dominant_focus_def)
qed

lemma live_state_facts:
  "\<exists>v. live_state now s reg d = Inr v \<and> lv_match v = focused_match d
    \<and> lv_attention v = fs_score (lv_focus v) \<and> 10 \<le> lv_attention v \<and> lv_attention v \<le> 100
    \<and> (let ps = candidate_priorities now s reg d (focused_match d) (lv_focus v)
       in map_option df_priority (lv_dominant_focus v) = (if ps = [] then None else Some (Max (set ps))))"
proof -
  let ?focus = "case focused_match d of None \<Rightarrow> focus_for_match ''idle'' None None now None ''football''
    | Some x \<Rightarrow> focus_for_match (ms_status x) (ms_last_event_type x) (Some (ms_updated_at x)) now
                  (Some (ms_match_id x)) ''football''"
  obtain st l e su so where focus: "?focus = focus_for_match st l e now su so"
    by (cases "focused_match d") auto
  obtain fs where fs: "focus_candidates now s reg d (focused_match d) ?focus = Inr fs"
    "map df_priority fs = candidate_priorities now s reg d (focused_match d) ?focus"
    using focus_candidates_total [OF focus] by blast
  have "fs = [] \<longleftrightarrow> candidate_priorities now s reg d (focused_match d) ?focus = []"
    using fs(2) by (metis map_is_Nil_conv)
  moreover have "map_option df_priority (select_dominant_focus fs)
      = (if fs = [] then None else Some (Max (set (candidate_priorities now s reg d (focused_match d) ?focus))))"
    using select_priority [of fs] fs(2) by auto
  ultimately show ?thesis
    using fs(1) focus_score_bounds [of st l e now su so]
    by (simp add: live_state_def dominant_focus_of_def Let_def focus)
qed

text \<open>
  The snapshot never fails and shows what deserves most attention.  Whatever the database and
  the providers hold, the route answers: with the match of the demo or else the live match updated
  last, with an attention between 10 and 100, and with a dominant focus whose priority is the highest
  among the match (its own score), mail marked important (85) and failed builds (80) of the last twelve
  seconds, and providers in trouble (65); there is none exactly when there is nothing of these.
\<close>

theorem live_state_ranks:
  "\<exists>v. live_state now s reg d = Inr v \<and> lv_match v = focused_match d
    \<and> lv_attention v = fs_score (lv_focus v) \<and> 10 \<le> lv_attention v \<and> lv_attention v \<le> 100
    \<and> (let ps = candidate_priorities now s reg d (focused_match d) (lv_focus v)
       in map_option df_priority (lv_dominant_focus v) = (if ps = [] then None else Some (Max (set ps))))"
  by (rule live_state_facts)

end
