(* ===== verification/Iso_Time.thy ===== *)
theory Iso_Time
  imports Values
begin

text \<open>
  \<open>datetime.fromisoformat\<close>, which several providers read time stamps with: a date as calendar or
  week date, with or without separators; optionally any one character and a time of day, whose
  seconds may have a fraction; optionally an offset.  \<open>None\<close> where Python raises \<open>ValueError\<close>.
\<close>

section \<open>The calendar\<close>

definition days_of_civil :: "int \<Rightarrow> int \<Rightarrow> int \<Rightarrow> int" where
  "days_of_civil y m d =
    (let y' = (if m \<le> 2 then y - 1 else y); era = y' div 400; yoe = y' mod 400;
         mp = (m + 9) mod 12; doy = (153 * mp + 2) div 5 + d - 1;
         doe = yoe * 365 + yoe div 4 - yoe div 100 + doy
     in era * 146097 + doe - 719468)"

definition leap :: "int \<Rightarrow> bool" where
  "leap y \<longleftrightarrow> y mod 4 = 0 \<and> (y mod 100 \<noteq> 0 \<or> y mod 400 = 0)"

definition days_in_month :: "int \<Rightarrow> int \<Rightarrow> int" where
  "days_in_month y m = (if m = 2 then (if leap y then 29 else 28) else if m = 4 \<or> m = 6 \<or> m = 9 \<or> m = 11 then 30 else 31)"

text \<open>The first and the last day a \<open>date\<close> can hold, 0001-01-01 and 9999-12-31.\<close>

definition MIN_DAY :: int where "MIN_DAY = -719162"
definition MAX_DAY :: int where "MAX_DAY = 2932896"

definition calendar_day :: "int \<Rightarrow> int \<Rightarrow> int \<Rightarrow> int option" where
  "calendar_day y m d =
     (if 1 \<le> y \<and> y \<le> 9999 \<and> 1 \<le> m \<and> m \<le> 12 \<and> 1 \<le> d \<and> d \<le> days_in_month y m
      then Some (days_of_civil y m d) else None)"

text \<open>Monday is weekday 0; 1970-01-01 was a Thursday.  Week 1 is the week with the first Thursday.\<close>

definition weekday :: "int \<Rightarrow> int" where
  "weekday n = (n + 3) mod 7"

definition isoweek1monday :: "int \<Rightarrow> int" where
  "isoweek1monday y = (let first = days_of_civil y 1 1; w = weekday first
     in if 3 < w then first - w + 7 else first - w)"

definition week_day :: "int \<Rightarrow> int \<Rightarrow> int \<Rightarrow> int option" where
  "week_day y week d =
     (let first = weekday (days_of_civil y 1 1);
          long = (first = 3 \<or> first = 2 \<and> leap y);
          n = isoweek1monday y + (week - 1) * 7 + (d - 1)
      in if 1 \<le> y \<and> y \<le> 9999 \<and> 1 \<le> week \<and> (week \<le> 52 \<or> week = 53 \<and> long) \<and> 1 \<le> d \<and> d \<le> 7
            \<and> MIN_DAY \<le> n \<and> n \<le> MAX_DAY
         then Some n else None)"

section \<open>The text\<close>

definition digits_at :: "nat \<Rightarrow> nat \<Rightarrow> string \<Rightarrow> int option" where
  "digits_at pos n s = (let t = take n (drop pos s) in
     if length t = n \<and> list_all is_digit t then Some (digits_int t) else None)"

definition char_at :: "nat \<Rightarrow> string \<Rightarrow> char option" where
  "char_at i s = (case drop i s of [] \<Rightarrow> None | c # _ \<Rightarrow> Some c)"

text \<open>Where the date ends, from its first characters.\<close>

definition date_end :: "string \<Rightarrow> nat option" where
  "date_end s =
     (let n = length s; run = length (takeWhile is_digit (drop 7 s)) in
      if n < 7 then None
      else if n = 7 then Some 7
      else if char_at 4 s = Some (CHR ''-'') then
        (if char_at 5 s = Some (CHR ''W'') then
           (if char_at 8 s = Some (CHR ''-'') then
              (if n = 9 then None
               else if (case char_at 10 s of None \<Rightarrow> False | Some c \<Rightarrow> is_digit c) then Some 8 else Some 10)
            else Some 8)
         else Some 10)
      else if char_at 4 s = Some (CHR ''W'') then
        (if run < 2 then Some (7 + run) else if odd run then Some 7 else Some 8)
      else Some 8)"

definition iso_date :: "string \<Rightarrow> int option" where
  "iso_date s =
     (if \<not> (length s = 7 \<or> length s = 8 \<or> length s = 10) then None else
      (let sep = (if char_at 4 s = Some (CHR ''-'') then 1 else 0); pos = 4 + sep in
       Option.bind (digits_at 0 4 s) (\<lambda>year.
       if char_at pos s = Some (CHR ''W'') then
         Option.bind (digits_at (pos + 1) 2 s) (\<lambda>week.
         if length s = pos + 3 then week_day year week 1
         else if (char_at (pos + 3) s = Some (CHR ''-'')) = (sep = 1) \<and> length s = pos + 3 + sep + 1
           then Option.bind (digits_at (pos + 3 + sep) 1 s) (week_day year week)
         else None)
       else
         Option.bind (digits_at pos 2 s) (\<lambda>month.
         if (char_at (pos + 2) s = Some (CHR ''-'')) = (sep = 1) \<and> length s = pos + 2 + sep + 2
           then Option.bind (digits_at (pos + 2 + sep) 2 s) (calendar_day year month)
         else None))))"

text \<open>
  \<open>_parse_hh_mm_ss_ff\<close>, in microseconds: hours, then minutes and seconds with or without colons,
  then a fraction of which six digits count.  The three numbers are unbounded here; the caller
  checks them.
\<close>

definition fraction :: "string \<Rightarrow> int option" where
  "fraction s = (let six = take 6 s in
     if s \<noteq> [] \<and> list_all is_digit s then Some (digits_int six * 10 ^ (6 - length six)) else None)"

definition clock_fields :: "string \<Rightarrow> (int \<times> int \<times> int \<times> int) option" where
  "clock_fields s =
     Option.bind (digits_at 0 2 s) (\<lambda>h.
     (let sep = (if char_at 2 s = Some (CHR '':'') then 1 else 0) in
      if length s = 2 then Some (h, 0, 0, 0)
      else Option.bind (digits_at (2 + sep) 2 s) (\<lambda>m.
      (let pos = 4 + sep in
       if length s = pos then Some (h, m, 0, 0)
       else if (char_at pos s = Some (CHR '':'')) \<noteq> (sep = 1) then None
       else Option.bind (digits_at (pos + sep) 2 s) (\<lambda>sec.
       (let end = pos + sep + 2 in
        case char_at end s of
          None \<Rightarrow> Some (h, m, sec, 0)
        | Some c \<Rightarrow> if c = CHR ''.'' \<or> c = CHR '','' then map_option (\<lambda>us. (h, m, sec, us)) (fraction (drop (end + 1) s))
                    else None))))))"

definition micros :: "int \<times> int \<times> int \<times> int \<Rightarrow> int" where
  "micros c = (case c of (h, m, s, us) \<Rightarrow> hours h + minutes m + seconds s + us)"

definition time_of_day :: "string \<Rightarrow> int option" where
  "time_of_day s = Option.bind (clock_fields s) (\<lambda>c. case c of (h, m, sec, us) \<Rightarrow>
     if h \<le> 23 \<and> m \<le> 59 \<and> sec \<le> 59 then Some (micros c) else None)"

definition utc_offset :: "string \<Rightarrow> int option" where
  "utc_offset s = Option.bind (clock_fields s) (\<lambda>c. if micros c < hours 24 then Some (micros c) else None)"

text \<open>The time with its offset; \<open>Some None\<close> is a naive time.\<close>

definition is_zone :: "char \<Rightarrow> bool" where
  "is_zone c \<longleftrightarrow> c = CHR ''+'' \<or> c = CHR ''-'' \<or> c = CHR ''Z''"

definition iso_clock :: "string \<Rightarrow> (int \<times> int option) option" where
  "iso_clock s =
     (let clock = takeWhile (\<lambda>c. \<not> is_zone c) s; rest = dropWhile (\<lambda>c. \<not> is_zone c) s in
      Option.bind (time_of_day clock) (\<lambda>t.
      case rest of
        [] \<Rightarrow> Some (t, None)
      | z # off \<Rightarrow>
          if z = CHR ''Z'' then (if off = [] then Some (t, Some 0) else None)
          else map_option (\<lambda>o'. (t, Some (if z = CHR ''-'' then - o' else o'))) (utc_offset off)))"

definition fromisoformat :: "string \<Rightarrow> py_datetime option" where
  "fromisoformat s =
     Option.bind (date_end s) (\<lambda>n.
     Option.bind (iso_date (take n s)) (\<lambda>day.
     if length s \<le> n then Some (Naive (days day))
     else Option.bind (iso_clock (drop (n + 1) s)) (\<lambda>(t, zone).
       case zone of None \<Rightarrow> Some (Naive (days day + t)) | Some off \<Rightarrow> Some (Aware (days day + t) off))))"

section \<open>Examples\<close>

lemma fromisoformat_examples:
  "fromisoformat ''2026-11-05T12:30:00+00:00'' = Some (utc 1793881800000000)"
  "fromisoformat ''2026-11-05'' = Some (Naive 1793836800000000)"
  "fromisoformat ''20261105T1230-0100'' = Some (Aware 1793881800000000 (- 3600000000))"
  "fromisoformat ''2026-W45-4T12:30:00.5Z'' = Some (utc 1793881800500000)"
  "fromisoformat ''2026-02-29T00:00:00Z'' = None"
  "fromisoformat ''2026-11-05T24:00Z'' = None"
  "fromisoformat ''soon'' = None"
proof -
  show "fromisoformat ''2026-11-05T12:30:00+00:00'' = Some (utc 1793881800000000)" by code_simp
  show "fromisoformat ''2026-11-05'' = Some (Naive 1793836800000000)" by code_simp
  show "fromisoformat ''20261105T1230-0100'' = Some (Aware 1793881800000000 (- 3600000000))" by code_simp
  show "fromisoformat ''2026-W45-4T12:30:00.5Z'' = Some (utc 1793881800500000)" by code_simp
  show "fromisoformat ''2026-02-29T00:00:00Z'' = None" by code_simp
  show "fromisoformat ''2026-11-05T24:00Z'' = None" by code_simp
  show "fromisoformat ''soon'' = None" by code_simp
qed

text \<open>\<open>fromisoformat\<close> reads back what \<open>isoformat\<close> prints, at the ends of the range and around a leap day.\<close>

lemma isoformat_examples:
  "fromisoformat (isoformat (0)) = Some (utc (0))"
  "fromisoformat (isoformat (-1)) = Some (utc (-1))"
  "fromisoformat (isoformat (951782399999999)) = Some (utc (951782399999999))"
  "fromisoformat (isoformat (951782400000000)) = Some (utc (951782400000000))"
  "fromisoformat (isoformat (-62135596800000000)) = Some (utc (-62135596800000000))"
  "fromisoformat (isoformat (253402300799999999)) = Some (utc (253402300799999999))"
proof -
  show "fromisoformat (isoformat (0)) = Some (utc (0))" by code_simp
  show "fromisoformat (isoformat (-1)) = Some (utc (-1))" by code_simp
  show "fromisoformat (isoformat (951782399999999)) = Some (utc (951782399999999))" by code_simp
  show "fromisoformat (isoformat (951782400000000)) = Some (utc (951782400000000))" by code_simp
  show "fromisoformat (isoformat (-62135596800000000)) = Some (utc (-62135596800000000))" by code_simp
  show "fromisoformat (isoformat (253402300799999999)) = Some (utc (253402300799999999))" by code_simp
qed

section \<open>Conversion to UTC\<close>

text \<open>\<open>astimezone(UTC)\<close> raises \<open>OverflowError\<close> when the instant is before year 1 or after year 9999.\<close>

definition MIN_TIME :: instant where "MIN_TIME = -62135596800000000"
definition MAX_TIME :: instant where "MAX_TIME = 253402300799999999"

definition in_range :: "instant \<Rightarrow> instant result" where
  "in_range t = (if MIN_TIME \<le> t \<and> t \<le> MAX_TIME then Inr t else Inl (OverflowError ''date value out of range''))"

lemma in_range_Inr: "in_range t = Inr u \<longleftrightarrow> u = t \<and> MIN_TIME \<le> t \<and> t \<le> MAX_TIME"
  by (auto simp: in_range_def)

text \<open>\<open>value.replace("Z", "+00:00")\<close>.\<close>

definition zulu :: "string \<Rightarrow> string" where
  "zulu s = concat (map (\<lambda>c. if c = CHR ''Z'' then ''+00:00'' else [c]) s)"

end
