(* ===== verification/Outcomes.thy ===== *)
theory Outcomes
  imports Iso_Time Config
begin

text \<open>
  Partial correctness of computations that may raise: a postcondition that is proved by following
  the structure of the definition.  The rules of \<open>yields_intros\<close> take it apart.
\<close>

text \<open>What holds of the value a computation returns, if it returns one.\<close>

definition yields :: "('a \<Rightarrow> bool) \<Rightarrow> 'e + 'a \<Rightarrow> bool" where
  "yields P r \<longleftrightarrow> (\<forall>x. r = Inr x \<longrightarrow> P x)"

named_theorems yields_intros

lemma yields_Inr [yields_intros]: "P x \<Longrightarrow> yields P (Inr x)"
  by (simp add: yields_def)

lemma yields_Inl [yields_intros]: "yields P (Inl e)"
  by (simp add: yields_def)

lemma yields_if [yields_intros]: "yields P r \<Longrightarrow> yields P s \<Longrightarrow> yields P (if c then r else s)"
  by (simp add: yields_def)

lemma yields_option [yields_intros]:
  "yields P r \<Longrightarrow> (\<And>x. yields P (f x)) \<Longrightarrow> yields P (case v of None \<Rightarrow> r | Some x \<Rightarrow> f x)"
  by (simp split: option.split)

lemma yields_dict [yields_intros]:
  "(\<And>x. yields P (f x)) \<Longrightarrow> P [] \<Longrightarrow> yields P (case v of JDict x \<Rightarrow> f x | _ \<Rightarrow> Inr [])"
  by (cases v) (simp_all add: yields_def)

lemma yields_bind: "yields Q r \<Longrightarrow> (\<And>x. Q x \<Longrightarrow> yields P (f x)) \<Longrightarrow> yields P (bind_r r f)"
  by (auto simp: yields_def bind_simps)

lemma yields_any: "(\<And>x. yields P (f x)) \<Longrightarrow> yields P (bind_r r f)"
  by (auto simp: yields_def bind_simps)

lemma yields_ensure [yields_intros]: "(c \<Longrightarrow> yields P (f ())) \<Longrightarrow> yields P (bind_r (ensure c e) f)"
  by (auto simp: yields_def bind_simps)

lemma yieldsD: "yields P r \<Longrightarrow> r = Inr x \<Longrightarrow> P x"
  by (simp add: yields_def)

lemma yields_map_r: "(\<And>x. x \<in> set xs \<Longrightarrow> yields P (f x)) \<Longrightarrow> yields (list_all P) (map_r f xs)"
proof (induction xs)
  case (Cons x xs)
  then have "yields P (f x)" "yields (list_all P) (map_r f xs)" by simp_all
  then show ?case by (auto simp: yields_def bind_simps)
qed (simp add: yields_def)

lemma map_r_Inr: "map_r f xs = Inr ys \<longleftrightarrow> list_all2 (\<lambda>x y. f x = Inr y) xs ys"
  by (induction xs arbitrary: ys) (auto simp: bind_simps list_all2_Cons1)

section \<open>Programs with state and exceptions\<close>

text \<open>
  A coroutine that talks to the outside keeps the state it has reached when it raises.  \<open>attempt\<close>
  is \<open>try\<close> with a handler for every exception.
\<close>

type_synonym ('s, 'e, 'a) prog = "'s \<Rightarrow> ('e + 'a) \<times> 's"

definition bind_p :: "('s, 'e, 'a) prog \<Rightarrow> ('a \<Rightarrow> ('s, 'e, 'b) prog) \<Rightarrow> ('s, 'e, 'b) prog" where
  "bind_p m f s = (case m s of (Inl e, s') \<Rightarrow> (Inl e, s') | (Inr x, s') \<Rightarrow> f x s')"

definition return_p :: "'a \<Rightarrow> ('s, 'e, 'a) prog" where
  "return_p x s = (Inr x, s)"

definition raise_p :: "'e \<Rightarrow> ('s, 'e, 'a) prog" where
  "raise_p e s = (Inl e, s)"

definition read_p :: "('s \<Rightarrow> 'a) \<Rightarrow> ('s, 'e, 'a) prog" where
  "read_p f s = (Inr (f s), s)"

definition modify_p :: "('s \<Rightarrow> 's) \<Rightarrow> ('s, 'e, unit) prog" where
  "modify_p f s = (Inr (), f s)"

definition lift_p :: "(py_error \<Rightarrow> 'e) \<Rightarrow> 'a result \<Rightarrow> ('s, 'e, 'a) prog" where
  "lift_p h r s = (case r of Inl e \<Rightarrow> (Inl (h e), s) | Inr x \<Rightarrow> (Inr x, s))"

definition attempt_p :: "('s, 'e, 'a) prog \<Rightarrow> ('e \<Rightarrow> ('s, 'e, 'a) prog) \<Rightarrow> ('s, 'e, 'a) prog" where
  "attempt_p m h s = (case m s of (Inl e, s') \<Rightarrow> h e s' | (Inr x, s') \<Rightarrow> (Inr x, s'))"

fun each_p :: "('a \<Rightarrow> ('s, 'e, 'b list) prog) \<Rightarrow> 'a list \<Rightarrow> ('s, 'e, 'b list) prog" where
  "each_p f [] = return_p []"
| "each_p f (x # xs) = bind_p (f x) (\<lambda>y. bind_p (each_p f xs) (\<lambda>ys. return_p (y @ ys)))"

text \<open>The invariant \<open>I\<close> holds however the program ends; what it returns satisfies \<open>Q\<close>.\<close>

definition ensures :: "('s \<Rightarrow> bool) \<Rightarrow> ('s, 'e, 'a) prog \<Rightarrow> ('a \<Rightarrow> bool) \<Rightarrow> bool" where
  "ensures I m Q \<longleftrightarrow> (\<forall>s. I s \<longrightarrow> I (snd (m s)) \<and> (\<forall>x. fst (m s) = Inr x \<longrightarrow> Q x))"

named_theorems ensures_intros

lemma ensures_bind:
  assumes "ensures I m Q" "\<And>x. Q x \<Longrightarrow> ensures I (f x) R"
  shows "ensures I (bind_p m f) R"
proof -
  have "I (snd (bind_p m f s)) \<and> (\<forall>x. fst (bind_p m f s) = Inr x \<longrightarrow> R x)" if "I s" for s
  proof -
    obtain r s' where r: "m s = (r, s')" by (cases "m s")
    with assms(1) that have "I s'" "\<And>x. r = Inr x \<Longrightarrow> Q x" unfolding ensures_def by (metis fst_conv snd_conv)+
    then show ?thesis using assms(2) by (cases r) (auto simp: bind_p_def r ensures_def)
  qed
  then show ?thesis by (simp add: ensures_def)
qed

lemmas ensures_any = ensures_bind [where Q = "\<lambda>_. True"]

lemma ensures_attempt:
  assumes "ensures I m Q" "\<And>e. ensures I (h e) Q" shows "ensures I (attempt_p m h) Q"
proof -
  have "I (snd (attempt_p m h s)) \<and> (\<forall>x. fst (attempt_p m h s) = Inr x \<longrightarrow> Q x)" if "I s" for s
  proof -
    obtain r s' where r: "m s = (r, s')" by (cases "m s")
    with assms(1) that have "I s'" "\<And>x. r = Inr x \<Longrightarrow> Q x" unfolding ensures_def by (metis fst_conv snd_conv)+
    then show ?thesis using assms(2) by (cases r) (auto simp: attempt_p_def r ensures_def)
  qed
  then show ?thesis by (simp add: ensures_def)
qed

lemma ensures_return [ensures_intros]: "Q x \<Longrightarrow> ensures I (return_p x) Q"
  by (simp add: ensures_def return_p_def)

lemma ensures_raise [ensures_intros]: "ensures I (raise_p e) Q"
  by (simp add: ensures_def raise_p_def)

lemma ensures_read [ensures_intros]: "(\<And>s. I s \<Longrightarrow> Q (f s)) \<Longrightarrow> ensures I (read_p f) Q"
  by (simp add: ensures_def read_p_def)

lemma ensures_modify [ensures_intros]: "(\<And>s. I s \<Longrightarrow> I (g s)) \<Longrightarrow> Q () \<Longrightarrow> ensures I (modify_p g) Q"
  by (simp add: ensures_def modify_p_def)

lemma ensures_lift [ensures_intros]: "yields Q r \<Longrightarrow> ensures I (lift_p k r) Q"
  by (auto simp: ensures_def lift_p_def yields_def split: sum.splits)

lemma ensures_if [ensures_intros]: "(b \<Longrightarrow> ensures I m Q) \<Longrightarrow> (\<not> b \<Longrightarrow> ensures I n Q) \<Longrightarrow> ensures I (if b then m else n) Q"
  by simp

lemma ensures_weaken: "ensures I m Q \<Longrightarrow> (\<And>x. Q x \<Longrightarrow> R x) \<Longrightarrow> ensures I m R"
  by (auto simp: ensures_def)

lemma ensures_each:
  assumes "\<And>x. x \<in> set xs \<Longrightarrow> ensures I (f x) (list_all P)"
  shows "ensures I (each_p f xs) (list_all P)"
  using assms
proof (induction xs)
  case (Cons x xs)
  then have "ensures I (f x) (list_all P)" "ensures I (each_p f xs) (list_all P)" by simp_all
  moreover have "ensures I (return_p (ys @ zs)) (list_all P)" if "list_all P ys" "list_all P zs" for ys zs
    using that by (intro ensures_return) simp
  ultimately show ?case by (auto intro!: ensures_bind [where m = "f x"] ensures_bind [where m = "each_p f xs"])
qed (simp add: ensures_intros)

lemma ensuresD: "ensures I m Q \<Longrightarrow> I s \<Longrightarrow> m s = (r, s') \<Longrightarrow> I s' \<and> (\<forall>x. r = Inr x \<longrightarrow> Q x)"
  by (metis ensures_def fst_conv snd_conv)

end
