(* ===== verification/Github_Events.thy ===== *)
theory Github_Events
  imports Outcomes
begin

text \<open>
  \<open>backend/app/providers/github/events.py\<close>: what GitHub reports, translated before canonical events are
  made of it.  \<open>sha\<close> stands for \<open>sha256(...).hexdigest()\<close>.
\<close>

definition GITHUB_EVENT_TYPES :: "string list" where
  "GITHUB_EVENT_TYPES = [''developer.push.received'', ''developer.pull_request.opened'',
     ''developer.pull_request.merged'', ''developer.workflow.started'', ''developer.workflow.completed'',
     ''developer.workflow.failed'', ''developer.deployment.completed'', ''developer.deployment.failed'']"

record github_change =
  gc_event_type :: string
  gc_subject_type :: string
  gc_subject_id :: string
  gc_occurred_at :: instant
  gc_dedupe_key :: string
  gc_payload :: dict
  gc_checkpoint_key :: "string option"
  gc_checkpoint_value :: string

definition github_change_ok :: "github_change \<Rightarrow> bool" where
  "github_change_ok c \<longleftrightarrow> gc_event_type c \<in> set GITHUB_EVENT_TYPES \<and> length (gc_subject_id c) \<le> 100
     \<and> length (gc_dedupe_key c) \<le> 255
     \<and> (case gc_checkpoint_key c of None \<Rightarrow> True | Some k \<Rightarrow> length k \<le> 150)"

text \<open>The constructor; its time stamp is aware, which \<open>normalize_timestamp\<close> demands.\<close>

definition github_change_new :: "github_change \<Rightarrow> github_change result" where
  "github_change_new c = bind_r (ensure (github_change_ok c) (ValidationError ''GithubChange'')) (\<lambda>_. Inr c)"

lemma github_change_new_Inr: "github_change_new c = Inr d \<longleftrightarrow> d = c \<and> github_change_ok c"
  by (auto simp: github_change_new_def bind_simps)

section \<open>Reading what was sent\<close>

definition timestamp_of :: "json \<Rightarrow> instant option result" where
  "timestamp_of v = (case v of
      JStr s \<Rightarrow> if s = [] then Inr None else
        (case fromisoformat (zulu s) of
           None \<Rightarrow> Inr None
         | Some (Naive w) \<Rightarrow> Inr (Some w)
         | Some (Aware w off) \<Rightarrow> bind_r (in_range (w - off)) (\<lambda>t. Inr (Some t)))
    | _ \<Rightarrow> Inr None)"

definition text_of :: "json \<Rightarrow> string \<Rightarrow> string" where
  "text_of v dflt = (case v of JStr s \<Rightarrow> s | _ \<Rightarrow> dflt)"

definition integer_of :: "json \<Rightarrow> int \<Rightarrow> int" where
  "integer_of v dflt = (case v of JInt n \<Rightarrow> n | _ \<Rightarrow> dflt)"

definition field :: "dict \<Rightarrow> string \<Rightarrow> json" where
  "field d k = dict_get_or d k JNull"

definition nested_text :: "dict \<Rightarrow> string \<Rightarrow> string \<Rightarrow> string" where
  "nested_text d k child = (case field d k of JDict n \<Rightarrow> text_of (field n child) [] | _ \<Rightarrow> [])"

text \<open>\<open>_timestamp(a) or _timestamp(b) or ... or fallback\<close>.\<close>

fun first_timestamp :: "json list \<Rightarrow> instant \<Rightarrow> instant result" where
  "first_timestamp [] fallback = Inr fallback"
| "first_timestamp (v # vs) fallback =
     bind_r (timestamp_of v) (\<lambda>t. case t of Some x \<Rightarrow> Inr x | None \<Rightarrow> first_timestamp vs fallback)"

section \<open>Identifiers\<close>

definition repository_checkpoint_key :: "(string \<Rightarrow> string) \<Rightarrow> string \<Rightarrow> string" where
  "repository_checkpoint_key sha repository = take 16 (sha (casefold repository))"

definition repository_subject_id :: "(string \<Rightarrow> string) \<Rightarrow> string \<Rightarrow> string" where
  "repository_subject_id sha repository =
     (if length repository \<le> 70 then repository
      else take 57 repository @ ''~'' @ take 12 (sha (casefold repository)))"

definition resource_subject_id :: "(string \<Rightarrow> string) \<Rightarrow> string \<Rightarrow> string \<Rightarrow> string" where
  "resource_subject_id sha repository resource = repository_subject_id sha repository @ ''#'' @ resource"

definition github_dedupe :: "string \<Rightarrow> string \<Rightarrow> string" where
  "github_dedupe repository identity = ''github:'' @ casefold repository @ '':'' @ identity"

text \<open>The identities of the facts and the keys of their checkpoints.\<close>

definition pull_identity :: "int \<Rightarrow> string \<Rightarrow> string" where
  "pull_identity number what = ''pull-request:'' @ int_str number @ '':'' @ what"

definition pull_checkpoint :: "(string \<Rightarrow> string) \<Rightarrow> string \<Rightarrow> int \<Rightarrow> string \<Rightarrow> string" where
  "pull_checkpoint sha repository number what =
     ''pull:'' @ repository_checkpoint_key sha repository @ '':'' @ int_str number @ '':'' @ what"

definition workflow_identity :: "int \<Rightarrow> int \<Rightarrow> string \<Rightarrow> string" where
  "workflow_identity run_id attempt what =
     ''workflow:'' @ int_str run_id @ '':attempt:'' @ int_str attempt @ '':'' @ what"

definition workflow_checkpoint :: "(string \<Rightarrow> string) \<Rightarrow> string \<Rightarrow> int \<Rightarrow> int \<Rightarrow> string \<Rightarrow> string" where
  "workflow_checkpoint sha repository run_id attempt what =
     ''workflow:'' @ repository_checkpoint_key sha repository @ '':'' @ int_str run_id @ '':'' @ int_str attempt @ '':'' @ what"

definition deployment_identity :: "int \<Rightarrow> string \<Rightarrow> int \<Rightarrow> string" where
  "deployment_identity deployment_id state status_id =
     ''deployment:'' @ int_str deployment_id @ '':'' @ state @ '':'' @ int_str status_id"

definition deployment_checkpoint :: "(string \<Rightarrow> string) \<Rightarrow> string \<Rightarrow> int \<Rightarrow> string \<Rightarrow> string" where
  "deployment_checkpoint sha repository deployment_id state =
     ''deployment:'' @ repository_checkpoint_key sha repository @ '':'' @ int_str deployment_id @ '':'' @ state"

section \<open>What is kept of a pull request, a run and a deployment\<close>

definition pull_base :: "dict \<Rightarrow> int \<Rightarrow> dict" where
  "pull_base pull number =
     [(''number'', JInt number), (''title'', JStr (text_of (field pull ''title'') [])),
      (''url'', JStr (text_of (field pull ''html_url'') [])),
      (''author'', JStr (nested_text pull ''user'' ''login'')),
      (''base_ref'', JStr (nested_text pull ''base'' ''ref'')),
      (''head_ref'', JStr (nested_text pull ''head'' ''ref''))]"

definition run_attempt :: "dict \<Rightarrow> int" where
  "run_attempt run = integer_of (field run ''run_attempt'') 1"

definition run_base :: "dict \<Rightarrow> int \<Rightarrow> dict" where
  "run_base run run_id =
     [(''run_id'', JInt run_id), (''run_number'', JInt (integer_of (field run ''run_number'') 0)),
      (''workflow'', JStr (text_of (field run ''name'') ''Workflow'')),
      (''branch'', JStr (text_of (field run ''head_branch'') [])),
      (''url'', JStr (text_of (field run ''html_url'') [])),
      (''actor'', JStr (nested_text run ''actor'' ''login'')),
      (''attempt'', JInt (run_attempt run))]"

definition FAILED_CONCLUSIONS :: "string list" where
  "FAILED_CONCLUSIONS = [''failure'', ''cancelled'', ''timed_out'', ''action_required'', ''startup_failure'']"

definition workflow_outcome :: "string \<Rightarrow> string option" where
  "workflow_outcome conclusion =
     (if conclusion = ''success'' then Some ''developer.workflow.completed''
      else if conclusion \<in> set FAILED_CONCLUSIONS then Some ''developer.workflow.failed'' else None)"

definition deployment_states :: "string list" where
  "deployment_states = [''success'', ''failure'', ''error'']"

definition deployment_outcome :: "string \<Rightarrow> string" where
  "deployment_outcome state =
     (if state \<noteq> ''success'' then ''developer.deployment.failed'' else ''developer.deployment.completed'')"

definition deployment_base :: "dict \<Rightarrow> dict \<Rightarrow> int \<Rightarrow> int \<Rightarrow> string \<Rightarrow> dict" where
  "deployment_base deployment status deployment_id status_id state =
     [(''deployment_id'', JInt deployment_id), (''status_id'', JInt status_id),
      (''environment'', JStr (text_of (field deployment ''environment'') [])),
      (''ref'', JStr (text_of (field deployment ''ref'') [])), (''state'', JStr state),
      (''url'', JStr (text_of (field status ''environment_url'') []))]"

section \<open>Webhooks\<close>

text \<open>The nested function \<open>add\<close>, given the variables it closes over.\<close>

record webhook_facts =
  wf_sha :: "string \<Rightarrow> string"
  wf_repository :: string
  wf_delivery_id :: string
  wf_observed_at :: instant

definition add :: "webhook_facts \<Rightarrow> string \<Rightarrow> string \<Rightarrow> string \<Rightarrow> instant \<Rightarrow> string \<Rightarrow> dict \<Rightarrow> string option
    \<Rightarrow> github_change list \<Rightarrow> github_change list result" where
  "add w event_type subject_type subject_id occurred_at identity normalized checkpoint changes =
     bind_r (github_change_new
       \<lparr>gc_event_type = event_type, gc_subject_type = subject_type, gc_subject_id = subject_id,
        gc_occurred_at = occurred_at, gc_dedupe_key = github_dedupe (wf_repository w) identity,
        gc_payload = (''repository'', JStr (wf_repository w)) # normalized @ [(''delivery_id'', JStr (wf_delivery_id w))],
        gc_checkpoint_key = checkpoint, gc_checkpoint_value = ''1''\<rparr>) (\<lambda>c. Inr (changes @ [c]))"

definition push_changes :: "webhook_facts \<Rightarrow> dict \<Rightarrow> github_change list result" where
  "push_changes w payload =
     (let after = text_of (field payload ''after'') ''unknown'';
          ref = text_of (field payload ''ref'') ''unknown'';
          stamp = (case field payload ''head_commit'' of JDict h \<Rightarrow> field h ''timestamp'' | _ \<Rightarrow> JNull);
          commits = (case field payload ''commits'' of JList xs \<Rightarrow> int (length xs) | _ \<Rightarrow> 0)
      in bind_r (first_timestamp [stamp] (wf_observed_at w)) (\<lambda>t.
         add w ''developer.push.received'' ''repository'' (repository_subject_id (wf_sha w) (wf_repository w)) t
           (if after \<noteq> ''unknown'' then ''push:'' @ after else ''delivery:'' @ wf_delivery_id w @ '':push'')
           [(''ref'', JStr ref), (''before'', JStr (text_of (field payload ''before'') [])), (''after'', JStr after),
            (''commit_count'', JInt (integer_of (field payload ''size'') commits)),
            (''sender'', JStr (nested_text payload ''sender'' ''login''))]
           None []))"

definition pull_changes :: "webhook_facts \<Rightarrow> dict \<Rightarrow> dict \<Rightarrow> github_change list result" where
  "pull_changes w payload pull =
     (let number = integer_of (field payload ''number'') 0; action = field payload ''action'';
          sid = resource_subject_id (wf_sha w) (wf_repository w) (''PR-'' @ int_str number);
          checkpoint = pull_checkpoint (wf_sha w) (wf_repository w) number
      in if number < 1 then Inr []
         else if action = JStr ''opened'' then
           bind_r (first_timestamp [field pull ''created_at''] (wf_observed_at w)) (\<lambda>t.
           add w ''developer.pull_request.opened'' ''pull_request'' sid t (pull_identity number ''opened'')
             (pull_base pull number) (Some (checkpoint ''opened'')) [])
         else if action = JStr ''closed'' \<and> field pull ''merged'' = JBool True then
           bind_r (first_timestamp [field pull ''merged_at''] (wf_observed_at w)) (\<lambda>t.
           add w ''developer.pull_request.merged'' ''pull_request'' sid t (pull_identity number ''merged'')
             (pull_base pull number) (Some (checkpoint ''merged'')) [])
         else Inr [])"

definition add_started :: "webhook_facts \<Rightarrow> dict \<Rightarrow> int \<Rightarrow> github_change list result" where
  "add_started w run run_id =
     bind_r (first_timestamp [field run ''run_started_at'', field run ''created_at''] (wf_observed_at w)) (\<lambda>t.
     add w ''developer.workflow.started'' ''workflow_run''
       (resource_subject_id (wf_sha w) (wf_repository w) (''RUN-'' @ int_str run_id)) t
       (workflow_identity run_id (run_attempt run) ''started'') (run_base run run_id)
       (Some (workflow_checkpoint (wf_sha w) (wf_repository w) run_id (run_attempt run) ''started'')) [])"

definition workflow_changes :: "webhook_facts \<Rightarrow> dict \<Rightarrow> dict \<Rightarrow> github_change list result" where
  "workflow_changes w payload run =
     (let run_id = integer_of (field run ''id'') 0; action = field payload ''action'';
          conclusion = text_of (field run ''conclusion'') ''unknown''
      in if run_id < 1 then Inr []
         else if action = JStr ''in_progress'' then add_started w run run_id
         else if action = JStr ''completed'' then
           (case workflow_outcome conclusion of
              None \<Rightarrow> Inr []
            | Some outcome \<Rightarrow>
                bind_r (add_started w run run_id) (\<lambda>changes.
                bind_r (first_timestamp [field run ''updated_at'', field run ''completed_at''] (wf_observed_at w)) (\<lambda>t.
                add w outcome ''workflow_run''
                  (resource_subject_id (wf_sha w) (wf_repository w) (''RUN-'' @ int_str run_id)) t
                  (workflow_identity run_id (run_attempt run) conclusion)
                  (run_base run run_id @ [(''conclusion'', JStr conclusion)])
                  (Some (workflow_checkpoint (wf_sha w) (wf_repository w) run_id (run_attempt run) ''completed'')) changes)))
         else Inr [])"

definition deployment_changes :: "webhook_facts \<Rightarrow> dict \<Rightarrow> dict \<Rightarrow> github_change list result" where
  "deployment_changes w payload deployment =
     (case field payload ''deployment_status'' of
        JDict status \<Rightarrow>
          (let state = text_of (field status ''state'') [];
               deployment_id = integer_of (field deployment ''id'') 0;
               status_id = integer_of (field status ''id'') 0
           in if state \<notin> set deployment_states \<or> deployment_id < 1 then Inr []
              else bind_r (first_timestamp [field status ''created_at''] (wf_observed_at w)) (\<lambda>t.
                add w (deployment_outcome state) ''deployment''
                  (resource_subject_id (wf_sha w) (wf_repository w) (''DEPLOY-'' @ int_str deployment_id)) t
                  (deployment_identity deployment_id state status_id)
                  (deployment_base deployment status deployment_id status_id state)
                  (Some (deployment_checkpoint (wf_sha w) (wf_repository w) deployment_id state)) []))
      | _ \<Rightarrow> Inr [])"

definition normalize_webhook :: "(string \<Rightarrow> string) \<Rightarrow> string \<Rightarrow> dict \<Rightarrow> string \<Rightarrow> string \<Rightarrow> py_datetime
    \<Rightarrow> github_change list result" where
  "normalize_webhook sha event_name payload repository delivery_id observed_at =
     bind_r (aware_utc ''observed_at must be timezone-aware'' observed_at) (\<lambda>observed.
      (let w = \<lparr>wf_sha = sha, wf_repository = repository, wf_delivery_id = delivery_id, wf_observed_at = observed\<rparr> in
       if event_name = ''push'' then push_changes w payload
       else if event_name = ''pull_request'' then
         (case field payload ''pull_request'' of JDict pull \<Rightarrow> pull_changes w payload pull | _ \<Rightarrow> Inr [])
       else if event_name = ''workflow_run'' then
         (case field payload ''workflow_run'' of JDict run \<Rightarrow> workflow_changes w payload run | _ \<Rightarrow> Inr [])
       else if event_name = ''deployment_status'' then
         (case field payload ''deployment'' of JDict deployment \<Rightarrow> deployment_changes w payload deployment | _ \<Rightarrow> Inr [])
       else Inr []))"

section \<open>Every change is valid and belongs to its repository\<close>

definition change_of_repository :: "string \<Rightarrow> github_change \<Rightarrow> bool" where
  "change_of_repository repository c \<longleftrightarrow> github_change_ok c
     \<and> (\<exists>identity. gc_dedupe_key c = github_dedupe repository identity)
     \<and> dict_get (gc_payload c) ''repository'' = Some (JStr repository)
     \<and> gc_subject_type c \<in> {''repository'', ''pull_request'', ''workflow_run'', ''deployment''}"

lemmas yields_first = yields_any [where r = "first_timestamp vs t" for vs t]

abbreviation repository_changes :: "webhook_facts \<Rightarrow> github_change list \<Rightarrow> bool" where
  "repository_changes w \<equiv> list_all (change_of_repository (wf_repository w))"

lemma add_valid [yields_intros]:
  assumes "repository_changes w cs" "st \<in> {''repository'', ''pull_request'', ''workflow_run'', ''deployment''}"
  shows "yields (repository_changes w) (add w et st sid t i n ck cs)"
  using assms by (auto simp: yields_def add_def bind_simps github_change_new_Inr change_of_repository_def dict_get_def)

lemma changes_valid [yields_intros]:
  "yields (repository_changes w) (push_changes w payload)"
  "yields (repository_changes w) (pull_changes w payload pull)"
  "yields (repository_changes w) (add_started w run i)"
  "yields (repository_changes w) (deployment_changes w payload deployment)"
  unfolding push_changes_def pull_changes_def add_started_def deployment_changes_def Let_def
  by (intro yields_intros yields_first; simp)+

lemma workflow_changes_valid [yields_intros]:
  "yields (repository_changes w) (workflow_changes w payload run)"
  unfolding workflow_changes_def Let_def
  by (intro yields_intros yields_first yields_bind [OF changes_valid(3)]; simp)

lemma normalize_webhook_valid:
  "yields (list_all (change_of_repository repository))
     (normalize_webhook sha event payload repository delivery observed)"
proof -
  let ?P = "list_all (change_of_repository repository)"
  let ?w = "\<lambda>t. \<lparr>wf_sha = sha, wf_repository = repository, wf_delivery_id = delivery, wf_observed_at = t\<rparr>"
  have "yields ?P (push_changes (?w t) p)" "yields ?P (pull_changes (?w t) p q)"
    "yields ?P (workflow_changes (?w t) p q)" "yields ?P (deployment_changes (?w t) p q)" for t p q
    using changes_valid [of "?w t"] workflow_changes_valid [of "?w t"] by simp_all
  then show ?thesis
    unfolding normalize_webhook_def Let_def by (intro yields_intros yields_any; simp)
qed

end
