(* ===== verification/Github_Store.thy ===== *)
theory Github_Store
  imports Github_Events Event_Store Football_Models
begin

text \<open>
  \<open>backend/app/providers/github/storage.py\<close>: the checkpoints of GitHub and the transactions that append
  its changes.  What a checkpoint says is never read, only whether it is there; its text is kept as
  what \<open>json.loads\<close> makes of it, as for every checkpoint row.
\<close>

record github_env =
  ge_hash :: "string \<Rightarrow> string"
  ge_topic :: string
  ge_now :: instant
  ge_uuid :: "nat \<Rightarrow> uuid"
  ge_loads :: "string \<Rightarrow> json option"

section \<open>Checkpoints\<close>

definition github_row :: "github_env \<Rightarrow> string \<Rightarrow> string \<Rightarrow> instant \<Rightarrow> checkpoint_row" where
  "github_row env key v observed_at =
     \<lparr>cp_provider = ''github'', cp_checkpoint_key = key, cp_value = ge_loads env v,
      cp_observed_at = Some observed_at, cp_updated_at = ge_now env\<rparr>"

definition github_checkpoint :: "string \<Rightarrow> db \<Rightarrow> checkpoint_row option" where
  "github_checkpoint key d = find_checkpoint (''github'', key) (db_checkpoints d)"

text \<open>The dictionary of the rows found, by key.\<close>

definition github_checkpoints :: "string list \<Rightarrow> db \<Rightarrow> (string \<times> json option) list" where
  "github_checkpoints keys d =
     (if keys = [] then []
      else map (\<lambda>r. (cp_checkpoint_key r, cp_value r))
             (filter (\<lambda>r. cp_provider r = ''github'' \<and> cp_checkpoint_key r \<in> set keys) (db_checkpoints d)))"

definition upsert_checkpoint :: "github_env \<Rightarrow> string \<Rightarrow> string \<Rightarrow> instant \<Rightarrow> db \<Rightarrow> db" where
  "upsert_checkpoint env key v observed_at d =
     d\<lparr>db_checkpoints := save_checkpoint (github_row env key v observed_at) (db_checkpoints d)\<rparr>"

section \<open>Appending changes\<close>

definition change_event :: "github_env \<Rightarrow> uuid \<Rightarrow> nat \<Rightarrow> github_change observation \<Rightarrow> event result" where
  "change_event env fallback n obs =
     (let c = obs_content obs in
      canonical_event_new (ge_uuid env n) ''github'' (gc_event_type c) (gc_subject_type c) (gc_subject_id c)
        (utc (gc_occurred_at c)) (utc (obs_observed_at obs)) (utc (ge_now env)) 1 (gc_dedupe_key c) 1
        (case obs_correlation_id obs of Some u \<Rightarrow> u | None \<Rightarrow> fallback) (gc_payload c))"

definition persist_change :: "github_env \<Rightarrow> uuid \<Rightarrow> nat \<Rightarrow> github_change observation \<Rightarrow> db \<Rightarrow> (bool \<times> db) result" where
  "persist_change env fallback n obs d =
     bind_r (change_event env fallback n obs) (\<lambda>e.
     bind_r (persist_event_and_outbox (ge_hash env) (ge_topic env) (ge_now env) e d) (\<lambda>(new, d').
     Inr (new, if truthy (gc_checkpoint_key (obs_content obs))
               then upsert_checkpoint env (the (gc_checkpoint_key (obs_content obs)))
                      (gc_checkpoint_value (obs_content obs)) (obs_observed_at obs) d'
               else d')))"

fun persist_in_session :: "github_env \<Rightarrow> uuid \<Rightarrow> nat \<Rightarrow> github_change observation list \<Rightarrow> db \<Rightarrow> (nat \<times> db) result" where
  "persist_in_session env fallback n [] d = Inr (0, d)"
| "persist_in_session env fallback n (obs # rest) d =
     bind_r (persist_change env fallback n obs d) (\<lambda>(new, d').
     bind_r (persist_in_session env fallback (Suc n) rest d') (\<lambda>(k, d'').
     Inr (if new then k + 1 else k, d'')))"

definition persist_observations :: "github_env \<Rightarrow> uuid \<Rightarrow> github_change observation list \<Rightarrow> db \<Rightarrow> (nat \<times> db) result" where
  "persist_observations env correlation observations d = persist_in_session env correlation 0 observations d"

text \<open>Claim the delivery, then append; the identifiers follow the one of the fallback correlation.\<close>

definition delivery_key :: "string \<Rightarrow> string" where
  "delivery_key delivery_id = ''delivery:'' @ delivery_id"

definition persist_webhook_delivery ::
  "github_env \<Rightarrow> string \<Rightarrow> string \<Rightarrow> github_change observation list \<Rightarrow> instant \<Rightarrow> db \<Rightarrow> (bool \<times> db) result" where
  "persist_webhook_delivery env delivery_id event_name observations observed_at d =
     (if github_checkpoint (delivery_key delivery_id) d \<noteq> None then Inr (False, d)
      else bind_r (persist_in_session env (ge_uuid env 0) 1 observations
             (upsert_checkpoint env (delivery_key delivery_id) (take 255 event_name) observed_at d)) (\<lambda>(n, d').
           Inr (True, d')))"

section \<open>What the transactions keep\<close>

lemma github_checkpoint_upsert [simp]:
  "github_checkpoint k (upsert_checkpoint env key v t d) =
     (if k = key then Some (github_row env key v t) else github_checkpoint k d)"
  by (simp add: github_checkpoint_def upsert_checkpoint_def checkpoints.lookup_put)
     (simp add: checkpoint_key_def github_row_def)

lemma upsert_checkpoint_frame [simp]:
  "db_events (upsert_checkpoint env key v t d) = db_events d"
  "db_retired (upsert_checkpoint env key v t d) = db_retired d"
  "known_keys hash (upsert_checkpoint env key v t d) = known_keys hash d"
  by (simp_all add: upsert_checkpoint_def known_keys_def has_dedupe_def is_retired_def)

lemma upsert_checkpoint_ok: "db_ok hash d \<Longrightarrow> db_ok hash (upsert_checkpoint env key v t d)"
  using checkpoints.ok_put [of "db_checkpoints d" "github_row env key v t"]
  by (auto simp: db_ok_defs upsert_checkpoint_def)

lemma github_checkpoints_iff:
  "key \<in> set keys \<Longrightarrow> key \<in> fst ` set (github_checkpoints keys d) \<longleftrightarrow> github_checkpoint key d \<noteq> None"
  by (force simp: github_checkpoints_def github_checkpoint_def find_checkpoint_def find_row_None checkpoint_key_def)

lemma append_event_checkpoints: "append_event topic now e d = Inr d' \<Longrightarrow> db_checkpoints d' = db_checkpoints d"
  by (auto simp: append_event_Inr)

lemma persist_event_checkpoints:
  "persist_event_and_outbox hash topic now e d = Inr (b, d') \<Longrightarrow> db_checkpoints d' = db_checkpoints d"
  using persist_True [of hash topic now e d d'] persist_False [of hash topic now e d d'] append_event_checkpoints
  by (cases b) auto

lemma persist_event_events:
  "persist_event_and_outbox hash topic now e d = Inr (b, d') \<Longrightarrow> db_events d' = db_events d @ (if b then [e] else [])"
  using persist_True [of hash topic now e d d'] persist_False [of hash topic now e d d']
  by (cases b) (auto simp: append_event_Inr)

text \<open>A stored change is an event of GitHub that carries it.\<close>

definition carries :: "event \<Rightarrow> github_change \<Rightarrow> bool" where
  "carries e c \<longleftrightarrow> ev_source e = ''github'' \<and> ev_event_type e = gc_event_type c \<and> ev_subject_type e = gc_subject_type c
     \<and> ev_subject_id e = gc_subject_id c \<and> ev_dedupe_key e = gc_dedupe_key c \<and> ev_payload e = gc_payload c"

lemma change_event_carries: "change_event env fb n obs = Inr e \<Longrightarrow> carries e (obs_content obs)"
  by (auto simp: change_event_def canonical_event_new_def bind_simps carries_def Let_def)

lemma change_event_fits:
  assumes "change_event env fb n obs = Inr e" "github_change_ok (obs_content obs)"
    "length (gc_subject_type (obs_content obs)) \<le> 50"
  shows "event_fits e"
proof -
  have "list_all (\<lambda>t. length t \<le> 100) GITHUB_EVENT_TYPES" by code_simp
  with assms show ?thesis
    by (auto simp: change_event_def canonical_event_new_def bind_simps event_fits_def github_change_ok_def
        int32_def list_all_iff Let_def)
qed

definition keeps :: "github_env \<Rightarrow> github_change list \<Rightarrow> db \<Rightarrow> db \<Rightarrow> bool" where
  "keeps env cs d d' \<longleftrightarrow> (db_ok (ge_hash env) d \<longrightarrow> db_ok (ge_hash env) d')
     \<and> (\<exists>es. db_events d' = db_events d @ es \<and> (\<forall>e \<in> set es. \<exists>c \<in> set cs. carries e c))
     \<and> (\<forall>k. github_checkpoint k d \<noteq> None \<longrightarrow> github_checkpoint k d' \<noteq> None)
     \<and> known_keys (ge_hash env) d' = known_keys (ge_hash env) d \<union> gc_dedupe_key ` set cs"

lemma keeps_trans: "keeps env cs d e \<Longrightarrow> keeps env cs' e f \<Longrightarrow> keeps env (cs @ cs') d f"
  unfolding keeps_def by (auto simp: Un_assoc image_Un) (metis Un_iff append_assoc set_append)+

lemma persist_change_keeps:
  assumes "persist_change env fb n obs d = Inr (b, d')"
  shows "keeps env [obs_content obs] d d'"
    and "truthy (gc_checkpoint_key (obs_content obs)) \<longrightarrow>
      github_checkpoint (the (gc_checkpoint_key (obs_content obs))) d' \<noteq> None"
proof -
  obtain e d1 where e: "change_event env fb n obs = Inr e"
    and p: "persist_event_and_outbox (ge_hash env) (ge_topic env) (ge_now env) e d = Inr (b, d1)"
    and d': "d' = (if truthy (gc_checkpoint_key (obs_content obs))
               then upsert_checkpoint env (the (gc_checkpoint_key (obs_content obs)))
                      (gc_checkpoint_value (obs_content obs)) (obs_observed_at obs) d1 else d1)"
    using assms by (auto simp: persist_change_def bind_simps)
  note c = change_event_carries [OF e]
  have known: "known_keys (ge_hash env) d1 = insert (ev_dedupe_key e) (known_keys (ge_hash env) d)"
    using store.persist_known_grows [OF p] .
  have "db_ok (ge_hash env) d \<longrightarrow> db_ok (ge_hash env) d'"
    using store.persist_ok [OF _ p] by (simp add: d' upsert_checkpoint_ok)
  moreover have "github_checkpoint k d1 = github_checkpoint k d" for k
    using persist_event_checkpoints [OF p] by (simp add: github_checkpoint_def)
  ultimately show "keeps env [obs_content obs] d d'"
    using persist_event_events [OF p] c known
    by (auto simp: keeps_def d' carries_def split: if_splits)
  show "truthy (gc_checkpoint_key (obs_content obs)) \<longrightarrow>
      github_checkpoint (the (gc_checkpoint_key (obs_content obs))) d' \<noteq> None"
    by (simp add: d')
qed

lemma keeps_refl: "keeps env [] d d"
  by (simp add: keeps_def)

lemma persist_in_session_keeps:
  assumes "persist_in_session env fb n obs d = Inr (k, d')"
  shows "keeps env (map obs_content obs) d d'"
    and "\<forall>x \<in> set obs. truthy (gc_checkpoint_key (obs_content x)) \<longrightarrow>
      github_checkpoint (the (gc_checkpoint_key (obs_content x))) d' \<noteq> None"
proof -
  have "keeps env (map obs_content obs) d d' \<and> (\<forall>x \<in> set obs. truthy (gc_checkpoint_key (obs_content x)) \<longrightarrow>
      github_checkpoint (the (gc_checkpoint_key (obs_content x))) d' \<noteq> None)"
    using assms
  proof (induction obs arbitrary: n d k)
    case (Cons x obs)
    then obtain b d1 k1 where p: "persist_change env fb n x d = Inr (b, d1)"
      and r: "persist_in_session env fb (Suc n) obs d1 = Inr (k1, d')"
      by (auto simp: bind_simps)
    note one = persist_change_keeps [OF p] and more = Cons.IH [OF r]
    have "keeps env (map obs_content (x # obs)) d d'"
      using keeps_trans [OF one(1) conjunct1 [OF more]] by simp
    moreover have "truthy (gc_checkpoint_key (obs_content x)) \<longrightarrow>
      github_checkpoint (the (gc_checkpoint_key (obs_content x))) d' \<noteq> None"
      using one(2) more by (simp add: keeps_def)
    ultimately show ?case using more by simp
  qed (simp add: keeps_refl)
  then show "keeps env (map obs_content obs) d d'"
    "\<forall>x \<in> set obs. truthy (gc_checkpoint_key (obs_content x)) \<longrightarrow>
      github_checkpoint (the (gc_checkpoint_key (obs_content x))) d' \<noteq> None" by simp_all
qed

text \<open>
  Offering known changes again succeeds and counts nothing.  The two producers of a change may
  differ in everything but its dedupe key.
\<close>

lemma persist_known_changes:
  assumes "\<forall>x \<in> set obs. github_change_ok (obs_content x) \<and> length (gc_subject_type (obs_content x)) \<le> 50
      \<and> gc_dedupe_key (obs_content x) \<noteq> [] \<and> gc_dedupe_key (obs_content x) \<in> known_keys (ge_hash env) d"
  shows "\<exists>d'. persist_in_session env fb n obs d = Inr (0, d') \<and> db_events d' = db_events d \<and> db_outbox d' = db_outbox d"
  using assms
proof (induction obs arbitrary: n d)
  case (Cons x obs)
  let ?c = "obs_content x"
  obtain e where e: "change_event env fb n x = Inr e"
    using Cons.prems by (auto simp: change_event_def Let_def)
  have "event_fits e" using change_event_fits [OF e] Cons.prems by simp
  moreover have "ev_dedupe_key e = gc_dedupe_key ?c" using change_event_carries [OF e] by (simp add: carries_def)
  ultimately have "persist_event_and_outbox (ge_hash env) (ge_topic env) (ge_now env) e d = Inr (False, d)"
    using Cons.prems by (intro store.persist_known) simp_all
  moreover have "db_outbox (upsert_checkpoint env k v t d) = db_outbox d" for k v t
    by (simp add: upsert_checkpoint_def)
  ultimately obtain d1 where d1: "persist_change env fb n x d = Inr (False, d1)"
      "known_keys (ge_hash env) d1 = known_keys (ge_hash env) d" "db_events d1 = db_events d" "db_outbox d1 = db_outbox d"
    using e by (simp add: persist_change_def)
  from Cons.IH [of d1 "Suc n"] Cons.prems d1 obtain d' where
    "persist_in_session env fb (Suc n) obs d1 = Inr (0, d')" "db_events d' = db_events d1" "db_outbox d' = db_outbox d1"
    by auto
  with d1 show ?case by simp
qed simp

text \<open>With new identifiers nothing can fail.\<close>

lemma persist_fresh_event:
  assumes "db_ok hash d" "event_fits e" "ev_event_id e \<notin> event_ids d"
  shows "\<exists>b d'. persist_event_and_outbox hash topic now e d = Inr (b, d')"
proof (cases "ev_dedupe_key e \<in> known_keys hash d")
  case True
  then show ?thesis using store.persist_known [OF assms(2)] by blast
next
  case False
  have "ev_event_id e \<notin> ob_event_id ` set (db_outbox d)" using assms(1,3) by (auto simp: db_ok_defs)
  with False assms have "append_event topic now e d = Inr (d\<lparr>db_events := db_events d @ [e],
      db_outbox := db_outbox d @ [new_outbox_row topic now e (db_next_outbox d)], db_next_outbox := db_next_outbox d + 1\<rparr>)"
    by (simp add: append_event_Inr known_keys_def)
  with False show ?thesis by (intro exI [of _ True]) (simp add: persist_event_and_outbox_def known_keys_def)
qed

definition storable :: "github_change \<Rightarrow> bool" where
  "storable c \<longleftrightarrow> github_change_ok c \<and> length (gc_subject_type c) \<le> 50 \<and> gc_dedupe_key c \<noteq> []"

lemma change_of_repository_storable: "change_of_repository r c \<Longrightarrow> storable c"
  by (auto simp: change_of_repository_def storable_def github_dedupe_def)

lemma persist_fresh_changes:
  assumes "db_ok (ge_hash env) d" "\<forall>x \<in> set obs. storable (obs_content x)"
    "inj (ge_uuid env)" "\<forall>i \<ge> n. ge_uuid env i \<notin> event_ids d"
  shows "\<exists>k d'. persist_in_session env fb n obs d = Inr (k, d')"
  using assms
proof (induction obs arbitrary: n d)
  case (Cons x obs)
  let ?c = "obs_content x"
  have ok: "storable ?c" using Cons.prems(2) by simp
  then obtain e where e: "change_event env fb n x = Inr e" "ev_event_id e = ge_uuid env n"
    by (auto simp: change_event_def Let_def storable_def)
  have "event_fits e" using change_event_fits [OF e(1)] ok by (simp add: storable_def)
  with persist_fresh_event Cons.prems(1,4) e(2) obtain b d1 where
    p: "persist_event_and_outbox (ge_hash env) (ge_topic env) (ge_now env) e d = Inr (b, d1)" by fastforce
  then obtain d2 where d2: "persist_change env fb n x d = Inr (b, d2)" and ev: "db_events d2 = db_events d1"
    using e(1) by (simp add: persist_change_def)
  have "db_ok (ge_hash env) d2" using persist_change_keeps(1) [OF d2] Cons.prems(1) by (simp add: keeps_def)
  moreover have "\<forall>i \<ge> Suc n. ge_uuid env i \<notin> event_ids d2"
    using persist_event_events [OF p] ev e(2) Cons.prems(3,4)
    by (auto simp: inj_eq) (metis Suc_leD imageI)+
  ultimately obtain k d' where "persist_in_session env fb (Suc n) obs d2 = Inr (k, d')"
    using Cons.IH [of d2 "Suc n"] Cons.prems(2,3) by auto
  with d2 show ?case by simp
qed simp

text \<open>One delivery, once.\<close>

lemma delivery_outcome:
  assumes "persist_webhook_delivery env i event obs t d = Inr (b, d')"
  shows "b \<longleftrightarrow> github_checkpoint (delivery_key i) d = None" "\<not> b \<Longrightarrow> d' = d"
    "github_checkpoint (delivery_key i) d' \<noteq> None" "keeps env (if b then map obs_content obs else []) d d'"
proof -
  have kept: "keeps env (map obs_content obs) d d'" "github_checkpoint (delivery_key i) d' \<noteq> None"
    if "persist_in_session env (ge_uuid env 0) 1 obs
          (upsert_checkpoint env (delivery_key i) (take 255 event) t d) = Inr (k, d')" for k
    using persist_in_session_keeps(1) [OF that] upsert_checkpoint_ok [of "ge_hash env" d]
    by (auto simp: keeps_def)
  show "b \<longleftrightarrow> github_checkpoint (delivery_key i) d = None" "\<not> b \<Longrightarrow> d' = d"
    "github_checkpoint (delivery_key i) d' \<noteq> None" "keeps env (if b then map obs_content obs else []) d d'"
    using assms kept by (auto simp: persist_webhook_delivery_def bind_simps keeps_refl split: if_splits)
qed

end
