(* ===== verification/Github_Health.thy ===== *)
theory Github_Health
  imports Provider_Health
begin

text \<open>
  \<open>backend/app/providers/github/health.py\<close>: the two capabilities of the GitHub provider, deliveries and
  reconciliation, and the status they have together.  The tracker reports to the shared registry.
\<close>

record github_tracker =
  gt_last_webhook_received_at :: "instant option"
  gt_last_reconciliation_at :: "instant option"
  gt_last_reconciliation_success_at :: "instant option"
  gt_rate_limited_until :: "instant option"
  gt_status :: provider_status
  gt_detail :: string

definition tracker_new :: github_tracker where
  "tracker_new = \<lparr>gt_last_webhook_received_at = None, gt_last_reconciliation_at = None,
     gt_last_reconciliation_success_at = None, gt_rate_limited_until = None, gt_status = Ps_unknown,
     gt_detail = ''not_observed''\<rparr>"

definition webhook_configured :: "settings \<Rightarrow> bool" where
  "webhook_configured s = (has (github_owner (providers s)) \<and> has (github_webhook_secret (providers s)))"

definition reconciliation_configured :: "settings \<Rightarrow> bool" where
  "reconciliation_configured s = (has (github_owner (providers s)) \<and> has (github_token (providers s)))"

text \<open>The registry's clock shows \<open>now\<close>; its answer is not used.\<close>

definition report_github :: "instant \<Rightarrow> provider_status \<Rightarrow> string \<Rightarrow> report_args \<Rightarrow> health_registry \<Rightarrow> health_registry result" where
  "report_github now status code a reg = bind_r (report now ''github'' status code a reg) (\<lambda>(h, reg'). Inr reg')"

definition initialize_github :: "settings \<Rightarrow> instant \<Rightarrow> github_tracker \<times> health_registry \<Rightarrow> (github_tracker \<times> health_registry) result" where
  "initialize_github s now st =
     (let webhook = webhook_configured s; rest = reconciliation_configured s;
          tr = (if \<not> rest then (fst st)\<lparr>gt_status := Ps_disconnected, gt_detail := ''token_missing''\<rparr>
                else (fst st)\<lparr>gt_status := Ps_connecting, gt_detail := ''awaiting_reconciliation''\<rparr>)
      in bind_r (report_github now
             (if rest then Ps_connecting else if webhook then Ps_degraded else Ps_disconnected)
             (if rest then ''awaiting_reconciliation'' else if webhook then ''reconciliation_disconnected'' else ''configuration_missing'')
             (report_defaults\<lparr>rp_configured := webhook \<or> rest\<rparr>) (snd st)) (\<lambda>reg. Inr (tr, reg)))"

definition note_webhook :: "settings \<Rightarrow> instant \<Rightarrow> github_tracker \<times> health_registry \<Rightarrow> (github_tracker \<times> health_registry) result" where
  "note_webhook s now st =
     (let tr = (fst st)\<lparr>gt_last_webhook_received_at := Some now\<rparr> in
      if reconciliation_configured s then Inr (tr, snd st)
      else bind_r (report_github now Ps_degraded ''reconciliation_disconnected''
             (report_defaults\<lparr>rp_succeeded := True, rp_observed := True\<rparr>) (snd st)) (\<lambda>reg. Inr (tr, reg)))"

definition note_attempt :: "instant \<Rightarrow> github_tracker \<Rightarrow> github_tracker" where
  "note_attempt now tr =
     (let t = tr\<lparr>gt_last_reconciliation_at := Some now\<rparr> in
      if gt_status tr \<in> {Ps_unknown, Ps_connecting}
      then t\<lparr>gt_status := Ps_connecting, gt_detail := ''reconciliation_in_progress''\<rparr> else t)"

definition note_success :: "instant \<Rightarrow> github_tracker \<Rightarrow> github_tracker" where
  "note_success now tr = tr\<lparr>gt_last_reconciliation_at := Some now, gt_last_reconciliation_success_at := Some now,
     gt_status := Ps_healthy, gt_detail := ''reconciliation_succeeded'', gt_rate_limited_until := None\<rparr>"

definition note_failure :: "string \<Rightarrow> instant \<Rightarrow> instant option \<Rightarrow> github_tracker \<Rightarrow> github_tracker" where
  "note_failure code now until tr = tr\<lparr>gt_last_reconciliation_at := Some now,
     gt_status := (if until \<noteq> None \<or> contains code ''rate_limit'' then Ps_rate_limited
       else if code \<in> {''github_unauthorized'', ''github_forbidden''} then Ps_auth_failure else Ps_provider_failure),
     gt_detail := code, gt_rate_limited_until := until\<rparr>"

section \<open>The snapshot\<close>

definition combined_status :: "provider_status \<Rightarrow> provider_status \<Rightarrow> provider_status" where
  "combined_status webhook rest =
     (if rest \<in> {Ps_auth_failure, Ps_rate_limited, Ps_provider_failure, Ps_unavailable} then rest
      else if rest = Ps_stale then Ps_stale
      else if rest = Ps_healthy then Ps_healthy
      else if webhook \<noteq> Ps_disconnected \<and> rest = Ps_disconnected then Ps_degraded
      else if Ps_degraded \<in> {webhook, rest} then Ps_degraded
      else if Ps_connecting \<in> {webhook, rest} \<or> Ps_resyncing \<in> {webhook, rest} then Ps_connecting
      else if webhook = rest \<and> rest = Ps_disconnected then Ps_disconnected
      else Ps_unknown)"

record capability_view =
  cv_configured :: bool
  cv_status :: provider_status
  cv_detail_code :: string

record github_view =
  gv_configured :: bool
  gv_status :: provider_status
  gv_webhook :: capability_view
  gv_last_received_at :: "string option"
  gv_reconciliation :: capability_view
  gv_last_attempt_at :: "string option"
  gv_last_success_at :: "string option"
  gv_rate_limited_until :: "string option"

definition webhook_view :: "settings \<Rightarrow> github_tracker \<Rightarrow> capability_view" where
  "webhook_view s tr =
     (if webhook_configured s
      then \<lparr>cv_configured = True,
            cv_status = (if gt_last_webhook_received_at tr \<noteq> None then Ps_healthy else Ps_connecting),
            cv_detail_code = (if gt_last_webhook_received_at tr \<noteq> None then ''webhook_delivery_verified'' else ''awaiting_delivery'')\<rparr>
      else \<lparr>cv_configured = False, cv_status = Ps_disconnected, cv_detail_code = ''configuration_missing''\<rparr>)"

definition reconciliation_view :: "settings \<Rightarrow> instant \<Rightarrow> github_tracker \<Rightarrow> capability_view" where
  "reconciliation_view s now tr =
     (let configured = reconciliation_configured s in
      if configured \<and> (case gt_last_reconciliation_at tr of None \<Rightarrow> False | Some t \<Rightarrow> now - t > minutes 20)
      then \<lparr>cv_configured = configured, cv_status = Ps_stale, cv_detail_code = ''reconciliation_stale''\<rparr>
      else if configured then \<lparr>cv_configured = configured, cv_status = gt_status tr, cv_detail_code = gt_detail tr\<rparr>
      else \<lparr>cv_configured = configured, cv_status = Ps_disconnected, cv_detail_code = ''token_missing''\<rparr>)"

definition github_snapshot :: "settings \<Rightarrow> instant \<Rightarrow> github_tracker \<Rightarrow> github_view" where
  "github_snapshot s now tr =
     (let webhook = webhook_view s tr; rest = reconciliation_view s now tr in
      \<lparr>gv_configured = (cv_configured webhook \<or> cv_configured rest),
       gv_status = combined_status (cv_status webhook) (cv_status rest),
       gv_webhook = webhook, gv_last_received_at = map_option isoformat (gt_last_webhook_received_at tr),
       gv_reconciliation = rest, gv_last_attempt_at = map_option isoformat (gt_last_reconciliation_at tr),
       gv_last_success_at = map_option isoformat (gt_last_reconciliation_success_at tr),
       gv_rate_limited_until = map_option isoformat (gt_rate_limited_until tr)\<rparr>)"

section \<open>What the tracker tells\<close>

lemma github_id_ok [simp]: "provider_id_ok ''github''"
  by code_simp

lemma github_codes_ok [simp]:
  "detail_code_ok ''reconciliation_disconnected''" "detail_code_ok ''awaiting_reconciliation''"
  "detail_code_ok ''configuration_missing''"
  by (code_simp, code_simp, code_simp)

text \<open>Reporting never fails: the codes are well-formed and the times aware.\<close>

lemma report_github_total:
  "detail_code_ok code \<Longrightarrow> \<exists>reg'. report_github now status code (report_defaults\<lparr>rp_configured := c, rp_succeeded := x, rp_observed := y\<rparr>) reg = Inr reg'"
  by (simp add: report_github_def report_def report_defaults_def opt_aware_def Let_def)

lemma note_webhook_total: "\<exists>st'. note_webhook s now st = Inr st' \<and> gt_last_webhook_received_at (fst st') = Some now"
proof (cases "reconciliation_configured s")
  case False
  have "\<exists>reg. report_github now Ps_degraded ''reconciliation_disconnected''
      (report_defaults\<lparr>rp_succeeded := True, rp_observed := True\<rparr>) (snd st) = Inr reg"
    using report_github_total [of "''reconciliation_disconnected''" now Ps_degraded True True True "snd st"]
    by (simp add: report_defaults_def)
  with False show ?thesis by (auto simp: note_webhook_def Let_def)
qed (simp add: note_webhook_def Let_def)

text \<open>The history of the tracker: what it was told, and when.\<close>

datatype tracker_event = Webhook_received | Attempted | Succeeded | Failed string "instant option"

fun track :: "instant \<times> tracker_event \<Rightarrow> github_tracker \<Rightarrow> github_tracker" where
  "track (now, Webhook_received) tr = tr\<lparr>gt_last_webhook_received_at := Some now\<rparr>"
| "track (now, Attempted) tr = note_attempt now tr"
| "track (now, Succeeded) tr = note_success now tr"
| "track (now, Failed code until) tr = note_failure code now until tr"

text \<open>The abstract view: its last outcome, and the time it last tried.\<close>

fun outcome :: "tracker_event \<Rightarrow> bool" where
  "outcome Succeeded = True"
| "outcome (Failed code until) = True"
| "outcome _ = False"

fun last_outcome :: "(instant \<times> tracker_event) list \<Rightarrow> tracker_event option" where
  "last_outcome [] = None"
| "last_outcome ((t, e) # es) = (if outcome e then Some e else last_outcome es)"

fun last_try :: "(instant \<times> tracker_event) list \<Rightarrow> instant option" where
  "last_try [] = None"
| "last_try ((t, e) # es) = (if e \<noteq> Webhook_received then Some t else last_try es)"

lemma combined_healthy: "combined_status w r = Ps_healthy \<longleftrightarrow> r = Ps_healthy"
  by (cases r) (simp_all add: combined_status_def)

lemma track_history:
  "(gt_status (fold track es tracker_new) = Ps_healthy \<longleftrightarrow> last_outcome (rev es) = Some Succeeded)
   \<and> gt_last_reconciliation_at (fold track es tracker_new) = last_try (rev es)"
proof (induction es rule: rev_induct)
  case (snoc x es)
  obtain t e where x: "x = (t, e)" by (cases x)
  show ?case
    using snoc.IH by (cases e) (auto simp: x note_attempt_def note_success_def note_failure_def Let_def)
qed (simp add: tracker_new_def)

text \<open>
  GitHub is shown as healthy exactly when it is.  Whatever the tracker was told and in
  whatever order, the combined status is healthy if and only if reconciliation is configured, its last
  outcome was a success, and it was last tried at most twenty minutes ago: a delivery alone, an old
  success or one that a failure followed never shows as healthy.
\<close>

theorem github_healthy_iff:
  "gv_status (github_snapshot s now (fold track es tracker_new)) = Ps_healthy \<longleftrightarrow>
     reconciliation_configured s \<and> last_outcome (rev es) = Some Succeeded
     \<and> (\<exists>t. last_try (rev es) = Some t \<and> now - t \<le> minutes 20)"
proof -
  have "last_try es \<noteq> None" if "last_outcome es \<noteq> None" for es
    using that by (induction es rule: last_outcome.induct) (auto split: if_splits)
  then have "\<exists>t. last_try (rev es) = Some t" if "last_outcome (rev es) = Some Succeeded"
    using that by (metis not_None_eq option.distinct(1))
  with track_history [of es] show ?thesis
    by (auto simp: github_snapshot_def Let_def combined_healthy reconciliation_view_def split: option.splits)
qed

end
