(* ===== verification/Github_Webhook.thy ===== *)
theory Github_Webhook
  imports Github_Store Github_Health
begin

text \<open>
  \<open>backend/app/providers/github/webhook.py\<close>, \<open>security.py\<close> and the routes of \<open>router.py\<close>: a signed
  delivery from its headers and bytes to the store.  \<open>hmac\<close> stands for the hexadecimal HMAC-SHA256 of
  a body under a secret, \<open>json\<close> for \<open>json.loads\<close> of a body (\<open>None\<close> where it raises).
\<close>

record webhook_env = github_env +
  we_hmac :: "string \<Rightarrow> string \<Rightarrow> string"
  we_json :: "string \<Rightarrow> json option"
  we_correlation :: uuid

abbreviation store_env :: "webhook_env \<Rightarrow> github_env" where
  "store_env env \<equiv> github_env.truncate env"

lemma store_env_simps [simp]:
  "ge_hash (store_env env) = ge_hash env" "ge_uuid (store_env env) = ge_uuid env"
  by (simp_all add: github_env.truncate_def)

section \<open>The signature\<close>

definition hex_digit :: "char \<Rightarrow> bool" where
  "hex_digit c = (is_digit c \<or> (let n = (of_char c :: int) in 97 \<le> n \<and> n \<le> 102 \<or> 65 \<le> n \<and> n \<le> 70))"

definition verify_signature :: "(string \<Rightarrow> string \<Rightarrow> string) \<Rightarrow> string option \<Rightarrow> string option \<Rightarrow> string \<Rightarrow> bool" where
  "verify_signature hmac secret signature raw_body =
     (case (secret, signature) of
        (Some k, Some sig) \<Rightarrow>
          if k = [] \<or> sig = [] \<or> \<not> startswith sig ''sha256='' then False
          else (let supplied = drop 7 sig in
                if length supplied = 64 \<and> list_all hex_digit supplied then hmac k raw_body = supplied else False)
      | _ \<Rightarrow> False)"

section \<open>Headers and target\<close>

type_synonym headers = "(string \<times> string) list"

definition github_header :: "headers \<Rightarrow> string \<Rightarrow> string option" where
  "github_header headers name = map_of (rev (map (\<lambda>(k, v). (casefold k, v)) headers)) name"

definition header_or :: "headers \<Rightarrow> string \<Rightarrow> string" where
  "header_or headers name = (case github_header headers name of None \<Rightarrow> [] | Some v \<Rightarrow> v)"

definition delivery_char :: "char \<Rightarrow> bool" where
  "delivery_char c = (is_digit c \<or> is_alpha c \<or> c \<in> set ''._-'')"

definition delivery_id_ok :: "string \<Rightarrow> bool" where
  "delivery_id_ok s \<longleftrightarrow> 1 \<le> length s \<and> length s \<le> 64 \<and> list_all delivery_char s"

definition MONITORED_GITHUB_REPOSITORIES :: "string list" where
  "MONITORED_GITHUB_REPOSITORIES = [''Strata'', ''Tandem'', ''OptiScale'', ''LivePulse'', ''Portfolio'']"

definition LOCKED_GITHUB_REPOSITORIES :: "string list" where
  "LOCKED_GITHUB_REPOSITORIES = map casefold MONITORED_GITHUB_REPOSITORIES"

text \<open>The full name of the repository a payload is about, if it is one of the configured owner's.\<close>

definition configured_target :: "settings \<Rightarrow> dict \<Rightarrow> string option" where
  "configured_target s payload =
     (let repository = (case field payload ''repository'' of JDict r \<Rightarrow> r | _ \<Rightarrow> []);
          name = field repository ''name''; full_name = field repository ''full_name'';
          login = (case field repository ''owner'' of JDict o' \<Rightarrow> field o' ''login'' | _ \<Rightarrow> JNull);
          owner = (case github_owner (providers s) of None \<Rightarrow> [] | Some x \<Rightarrow> x)
      in case (name, login, full_name) of
           (JStr n, JStr l, JStr f) \<Rightarrow>
             if casefold l \<noteq> casefold owner \<or> casefold f \<noteq> casefold (owner @ ''/'' @ n)
                \<or> casefold n \<notin> set LOCKED_GITHUB_REPOSITORIES
             then None else Some f
         | _ \<Rightarrow> None)"

definition change_observation :: "instant \<Rightarrow> uuid \<Rightarrow> github_change \<Rightarrow> github_change observation result" where
  "change_observation observed correlation c =
     observation_new ''github'' (gc_subject_id c) (utc observed) c (Some (gc_dedupe_key c))
       (Some (gc_checkpoint_value c)) (Some correlation)"

section \<open>Processing\<close>

datatype webhook_result =
    Accepted | Duplicate | Ignored_unconfigured_repository | Unconfigured
  | Invalid_signature | Missing_signature | Missing_delivery_id | Invalid_delivery_id

record webhook_state =
  ws_db :: db
  ws_health :: "github_tracker \<times> health_registry"

definition webhook_observations :: "webhook_env \<Rightarrow> string \<Rightarrow> dict \<Rightarrow> string \<Rightarrow> string \<Rightarrow> instant
    \<Rightarrow> github_change observation list result" where
  "webhook_observations env event_name payload repository delivery_id received =
     bind_r (normalize_webhook (ge_hash env) event_name payload repository delivery_id (utc received))
       (map_r (change_observation received (we_correlation env)))"

text \<open>Everything after the delivery was noted: what it is about, and the transaction.\<close>

definition deliver :: "webhook_env \<Rightarrow> settings \<Rightarrow> headers \<Rightarrow> string \<Rightarrow> string \<Rightarrow> instant \<Rightarrow> db
    \<Rightarrow> ((webhook_result \<times> github_change observation list) \<times> db) result" where
  "deliver env s headers raw_body delivery_id received d =
     (case we_json env raw_body of
        Some (JDict payload) \<Rightarrow>
          (case configured_target s payload of
             None \<Rightarrow> Inr ((Ignored_unconfigured_repository, []), d)
           | Some repository \<Rightarrow>
               bind_r (webhook_observations env (header_or headers ''x-github-event'') payload repository delivery_id received) (\<lambda>obs.
               bind_r (persist_webhook_delivery (store_env env) delivery_id (header_or headers ''x-github-event'') obs received d) (\<lambda>(claimed, d').
               Inr ((if claimed then Accepted else Duplicate, obs), d'))))
      | _ \<Rightarrow> Inr ((Accepted, []), d))"

definition process :: "webhook_env \<Rightarrow> settings \<Rightarrow> headers \<Rightarrow> string \<Rightarrow> instant \<Rightarrow> webhook_state
    \<Rightarrow> (webhook_result \<times> github_change observation list) result \<times> webhook_state" where
  "process env s headers raw_body received st =
     (let signature = github_header headers ''x-hub-signature-256'';
          delivery_id = strip (header_or headers ''x-github-delivery'')
      in if \<not> truthy signature then (Inr (Missing_signature, []), st)
         else if \<not> verify_signature (we_hmac env) (github_webhook_secret (providers s)) signature raw_body
           then (Inr (Invalid_signature, []), st)
         else if \<not> webhook_configured s then (Inr (Unconfigured, []), st)
         else if delivery_id = [] then (Inr (Missing_delivery_id, []), st)
         else if \<not> delivery_id_ok delivery_id then (Inr (Invalid_delivery_id, []), st)
         else (case note_webhook s received (ws_health st) of
             Inl e \<Rightarrow> (Inl e, st)
           | Inr health \<Rightarrow>
               (let st' = st\<lparr>ws_health := health\<rparr> in
                case deliver env s headers raw_body delivery_id received (ws_db st) of
                  Inl e \<Rightarrow> (Inl e, st')
                | Inr (answer, d) \<Rightarrow> (Inr answer, st'\<lparr>ws_db := d\<rparr>))))"

text \<open>The adapter interface: the same checks, without effects.\<close>

definition verify :: "webhook_env \<Rightarrow> settings \<Rightarrow> headers \<Rightarrow> string \<Rightarrow> bool" where
  "verify env s headers body =
     verify_signature (we_hmac env) (github_webhook_secret (providers s)) (github_header headers ''x-hub-signature-256'') body"

definition normalize_delivery :: "webhook_env \<Rightarrow> settings \<Rightarrow> headers \<Rightarrow> string \<Rightarrow> instant
    \<Rightarrow> github_change observation list result" where
  "normalize_delivery env s headers body observed =
     (let delivery_id = strip (header_or headers ''x-github-delivery'') in
      if \<not> verify env s headers body \<or> \<not> webhook_configured s \<or> \<not> delivery_id_ok delivery_id then Inr []
      else (case we_json env body of
          Some (JDict payload) \<Rightarrow>
            (case configured_target s payload of
               None \<Rightarrow> Inr []
             | Some repository \<Rightarrow>
                 webhook_observations env (header_or headers ''x-github-event'') payload repository delivery_id observed)
        | _ \<Rightarrow> Inr []))"

section \<open>The routes\<close>

datatype http_answer = Http_error int string | Webhook_answer webhook_result nat

definition github_webhook :: "webhook_env \<Rightarrow> settings \<Rightarrow> headers \<Rightarrow> string \<Rightarrow> instant \<Rightarrow> webhook_state
    \<Rightarrow> http_answer result \<times> webhook_state" where
  "github_webhook env s headers raw_body now st =
     (case process env s headers raw_body now st of
        (Inl e, st') \<Rightarrow> (Inl e, st')
      | (Inr (status, changes), st') \<Rightarrow>
          (Inr (if status \<in> {Missing_signature, Invalid_signature} then Http_error 401 ''GitHub webhook signature is invalid''
                else if status = Unconfigured then Http_error 503 ''GitHub webhook is not configured''
                else if status \<in> {Missing_delivery_id, Invalid_delivery_id}
                  then Http_error 400 ''GitHub delivery identity is required''
                else Webhook_answer status (length changes)), st'))"

definition github_provider_health :: "settings \<Rightarrow> instant \<Rightarrow> webhook_state \<Rightarrow> github_view" where
  "github_provider_health s now st = github_snapshot s now (fst (ws_health st))"

section \<open>A delivery that has an effect is signed, configured and about the owner's repository\<close>

definition signed :: "webhook_env \<Rightarrow> settings \<Rightarrow> headers \<Rightarrow> string \<Rightarrow> bool" where
  "signed env s headers body \<longleftrightarrow> (\<exists>secret. github_webhook_secret (providers s) = Some secret \<and> secret \<noteq> []
     \<and> github_header headers ''x-hub-signature-256'' = Some (''sha256='' @ we_hmac env secret body))"

lemma startswith_drop: "startswith s p \<Longrightarrow> length p = n \<Longrightarrow> s = p @ drop n s"
  by (metis append_take_drop_id startswith_def)

lemma verify_signature_signed:
  assumes "verify_signature hmac secret signature body"
  shows "\<exists>k. secret = Some k \<and> k \<noteq> [] \<and> signature = Some (''sha256='' @ hmac k body)"
proof -
  obtain k sig where s: "secret = Some k" "signature = Some sig" "k \<noteq> []" "startswith sig ''sha256=''" "hmac k body = drop 7 sig"
    using assms unfolding verify_signature_def Let_def by (auto split: option.splits if_splits)
  have sig: "sig = ''sha256='' @ hmac k body" unfolding s(5) by (rule startswith_drop [OF s(4)]) simp
  show ?thesis
  proof (intro exI conjI)
    show "secret = Some k" "k \<noteq> []" by (rule s)+
    show "signature = Some (''sha256='' @ hmac k body)" using s(2) sig by (simp only:)
  qed
qed

lemma verify_signed: "verify env s headers body \<Longrightarrow> signed env s headers body"
  unfolding verify_def signed_def using verify_signature_signed by blast

definition delivery_of :: "headers \<Rightarrow> string" where
  "delivery_of headers = strip (header_or headers ''x-github-delivery'')"

lemma webhook_observations_valid:
  "yields (\<lambda>obs. list_all (change_of_repository repository) (map obs_content obs))
     (webhook_observations env event payload repository i t)"
proof -
  have "yields (\<lambda>obs. map obs_content obs = cs) (map_r (change_observation t (we_correlation env)) cs)" for cs
    by (induction cs) (auto simp: yields_def bind_simps change_observation_def observation_new_def)
  then show ?thesis
    unfolding webhook_observations_def
    by (intro yields_bind [OF normalize_webhook_valid]) (fastforce simp: yields_def)
qed

lemma deliver_effect:
  assumes "deliver env s headers body i t d = Inr ((status, obs), d')" "d' \<noteq> d"
  shows "\<exists>payload repository. we_json env body = Some (JDict payload) \<and> configured_target s payload = Some repository
    \<and> webhook_observations env (header_or headers ''x-github-event'') payload repository i t = Inr obs
    \<and> persist_webhook_delivery (store_env env) i (header_or headers ''x-github-event'') obs t d = Inr (True, d')
    \<and> status = Accepted"
proof -
  have dup: "d' = d" if "persist_webhook_delivery e i n x u d = Inr (False, d')" for e n x u
    using delivery_outcome(2) [OF that] by simp
  show ?thesis
    using assms by (auto simp: deliver_def bind_simps split: option.splits json.splits if_splits dest: dup)
qed

lemma process_effect:
  assumes "process env s headers body t st = (r, st')" "st' \<noteq> st"
  shows "signed env s headers body" "webhook_configured s" "delivery_id_ok (delivery_of headers)"
    "(\<exists>e. r = Inl e) \<and> ws_db st' = ws_db st
     \<or> (\<exists>x. r = Inr x \<and> deliver env s headers body (delivery_of headers) t (ws_db st) = Inr (x, ws_db st'))"
  using assms verify_signed [of env s headers body]
  by (auto simp: process_def Let_def verify_def delivery_of_def split: if_splits sum.splits prod.splits)

lemma github_webhook_process:
  assumes "github_webhook env s headers body t st = (r, st')"
  obtains x where "process env s headers body t st = (x, st')" "isl x \<longleftrightarrow> isl r"
  using assms by (auto simp: github_webhook_def split: prod.splits sum.splits)

definition new_events :: "db \<Rightarrow> db \<Rightarrow> event list" where
  "new_events d d' = drop (length (db_events d)) (db_events d')"

lemma process_db_change:
  assumes "process env s headers body t st = (r, st')" "ws_db st' \<noteq> ws_db st"
  obtains payload repository obs where
    "we_json env body = Some (JDict payload)" "configured_target s payload = Some repository"
    "webhook_observations env (header_or headers ''x-github-event'') payload repository (delivery_of headers) t = Inr obs"
    "persist_webhook_delivery (store_env env) (delivery_of headers) (header_or headers ''x-github-event'') obs t
       (ws_db st) = Inr (True, ws_db st')"
    "r = Inr (Accepted, obs)"
proof -
  have "st' \<noteq> st" using assms(2) by auto
  from process_effect(4) [OF assms(1) this] assms(2) obtain x where x: "r = Inr x"
    "deliver env s headers body (delivery_of headers) t (ws_db st) = Inr (x, ws_db st')" by auto
  obtain status obs where "x = (status, obs)" by (cases x)
  with deliver_effect [of env s headers body "delivery_of headers" t "ws_db st" status obs "ws_db st'"] x assms(2) that
  show thesis by blast
qed

lemma process_keeps:
  assumes "process env s headers body t st = (r, st')" "ws_db st' \<noteq> ws_db st"
  shows "\<exists>payload repository. we_json env body = Some (JDict payload) \<and> configured_target s payload = Some repository
      \<and> (\<forall>e \<in> set (new_events (ws_db st) (ws_db st')). ev_source e = ''github''
           \<and> dict_get (ev_payload e) ''repository'' = Some (JStr repository))"
    and "db_ok (ge_hash env) (ws_db st) \<Longrightarrow> db_ok (ge_hash env) (ws_db st')"
    and "take (length (db_events (ws_db st))) (db_events (ws_db st')) = db_events (ws_db st)"
proof -
  obtain payload repository obs where j: "we_json env body = Some (JDict payload)" "configured_target s payload = Some repository"
    and o: "webhook_observations env (header_or headers ''x-github-event'') payload repository (delivery_of headers) t = Inr obs"
    and p: "persist_webhook_delivery (store_env env) (delivery_of headers) (header_or headers ''x-github-event'') obs t
       (ws_db st) = Inr (True, ws_db st')"
    using process_db_change [OF assms] by metis
  have k: "keeps (store_env env) (map obs_content obs) (ws_db st) (ws_db st')" using delivery_outcome(4) [OF p] by simp
  then show "db_ok (ge_hash env) (ws_db st) \<Longrightarrow> db_ok (ge_hash env) (ws_db st')"
    by (simp add: keeps_def)
  obtain es where es: "db_events (ws_db st') = db_events (ws_db st) @ es" "\<forall>e \<in> set es. \<exists>c \<in> obs_content ` set obs. carries e c"
    using k by (auto simp: keeps_def)
  then show "take (length (db_events (ws_db st))) (db_events (ws_db st')) = db_events (ws_db st)" by simp
  have "\<forall>c \<in> obs_content ` set obs. change_of_repository repository c"
    using yieldsD [OF webhook_observations_valid o] by (simp add: list_all_iff)
  with es have "\<forall>e \<in> set es. ev_source e = ''github'' \<and> dict_get (ev_payload e) ''repository'' = Some (JStr repository)"
    by (fastforce simp: carries_def change_of_repository_def)
  with j es(1) show "\<exists>payload repository. we_json env body = Some (JDict payload) \<and> configured_target s payload = Some repository
      \<and> (\<forall>e \<in> set (new_events (ws_db st) (ws_db st')). ev_source e = ''github''
           \<and> dict_get (ev_payload e) ''repository'' = Some (JStr repository))"
    by (auto simp: new_events_def)
qed

text \<open>
  C14.  Nobody but GitHub writes through the webhook.  A request that changes anything carries the
  HMAC of its exact bytes under the configured secret, which is not empty, and a well-formed delivery
  identity.  One that changes the database is about a monitored repository of the configured owner;
  it only appends, every event it appends comes from GitHub and names that repository, and the
  database stays consistent.
\<close>

theorem webhook_authentic:
  assumes "github_webhook env s headers body now st = (r, st')" "st' \<noteq> st"
  shows "signed env s headers body \<and> webhook_configured s \<and> delivery_id_ok (delivery_of headers)
    \<and> (ws_db st' \<noteq> ws_db st \<longrightarrow>
        take (length (db_events (ws_db st))) (db_events (ws_db st')) = db_events (ws_db st)
        \<and> (db_ok (ge_hash env) (ws_db st) \<longrightarrow> db_ok (ge_hash env) (ws_db st'))
        \<and> (\<exists>payload repository. we_json env body = Some (JDict payload) \<and> configured_target s payload = Some repository
            \<and> (\<forall>e \<in> set (new_events (ws_db st) (ws_db st')). ev_source e = ''github''
                 \<and> dict_get (ev_payload e) ''repository'' = Some (JStr repository))))"
proof -
  obtain x where p: "process env s headers body now st = (x, st')" by (rule github_webhook_process [OF assms(1)])
  show ?thesis using process_effect(1-3) [OF p assms(2)] process_keeps [OF p] by blast
qed

section \<open>Each delivery takes effect once\<close>

definition claimed :: "string \<Rightarrow> webhook_state \<Rightarrow> bool" where
  "claimed i st \<longleftrightarrow> github_checkpoint (delivery_key i) (ws_db st) \<noteq> None"

text \<open>The deliveries that changed the database, in a sequence of requests; each has its own environment.\<close>

type_synonym webhook_request = "webhook_env \<times> headers \<times> string \<times> instant"

fun effective :: "settings \<Rightarrow> webhook_request list \<Rightarrow> webhook_state \<Rightarrow> string list" where
  "effective s [] st = []"
| "effective s ((env, headers, body, now) # rs) st =
     (let st' = snd (github_webhook env s headers body now st)
      in (if ws_db st' \<noteq> ws_db st then [delivery_of headers] else []) @ effective s rs st')"

lemma process_claims:
  assumes "process env s headers body t st = (r, st')"
  shows "claimed i st \<Longrightarrow> claimed i st'"
    and "ws_db st' \<noteq> ws_db st \<Longrightarrow> \<not> claimed (delivery_of headers) st \<and> claimed (delivery_of headers) st' \<and> \<not> isl r"
proof -
  have changed: "\<not> claimed (delivery_of headers) st \<and> claimed (delivery_of headers) st' \<and> \<not> isl r
      \<and> (\<forall>k. claimed k st \<longrightarrow> claimed k st')" if ch: "ws_db st' \<noteq> ws_db st"
  proof -
    obtain payload repository obs where p: "persist_webhook_delivery (store_env env) (delivery_of headers)
        (header_or headers ''x-github-event'') obs t (ws_db st) = Inr (True, ws_db st')" and r: "r = Inr (Accepted, obs)"
      using process_db_change [OF assms ch] by metis
    show ?thesis using delivery_outcome [OF p] r by (simp add: claimed_def keeps_def)
  qed
  then show "ws_db st' \<noteq> ws_db st \<Longrightarrow> \<not> claimed (delivery_of headers) st \<and> claimed (delivery_of headers) st' \<and> \<not> isl r"
    by blast
  show "claimed i st \<Longrightarrow> claimed i st'" using changed by (cases "ws_db st' = ws_db st") (auto simp: claimed_def)
qed

lemma effective_fresh: "claimed i st \<Longrightarrow> i \<notin> set (effective s rs st)"
proof (induction rs arbitrary: st)
  case (Cons q rs)
  obtain env headers body now where q: "q = (env, headers, body, now)" by (cases q)
  obtain r st' where w: "github_webhook env s headers body now st = (r, st')"
    by (cases "github_webhook env s headers body now st")
  then obtain x where p: "process env s headers body now st = (x, st')" by (rule github_webhook_process)
  have "i \<notin> set (effective s rs st')" using Cons.IH process_claims(1) [OF p Cons.prems] by blast
  moreover have "delivery_of headers \<noteq> i" if "ws_db st' \<noteq> ws_db st"
    using process_claims(2) [OF p that] Cons.prems by auto
  ultimately show ?case by (auto simp: q w Let_def)
qed simp

lemma effective_distinct: "distinct (effective s rs st)"
proof (induction rs arbitrary: st)
  case (Cons q rs)
  obtain env headers body now where q: "q = (env, headers, body, now)" by (cases q)
  obtain r st' where w: "github_webhook env s headers body now st = (r, st')"
    by (cases "github_webhook env s headers body now st")
  then obtain x where p: "process env s headers body now st = (x, st')" by (rule github_webhook_process)
  have "delivery_of headers \<notin> set (effective s rs st')" if "ws_db st' \<noteq> ws_db st"
    using effective_fresh process_claims(2) [OF p that] by blast
  with Cons.IH show ?case by (auto simp: q w Let_def)
qed simp

text \<open>
  C15.  A delivery takes effect at most once, and a failed one not at all.  In any sequence of
  requests, repeated, forged and interleaved as they may be, no delivery identity changes the database
  twice; and a request that ends in an exception leaves the database as it was, so that GitHub's
  redelivery is processed like the first.
\<close>

theorem webhook_exactly_once:
  "distinct (effective s rs st)
   \<and> (isl (fst (github_webhook env s headers body now st)) \<longrightarrow> ws_db (snd (github_webhook env s headers body now st)) = ws_db st)"
proof -
  obtain r st' where w: "github_webhook env s headers body now st = (r, st')"
    by (cases "github_webhook env s headers body now st")
  then obtain x where p: "process env s headers body now st = (x, st')" "isl x = isl r" by (rule github_webhook_process)
  show ?thesis using effective_distinct process_claims(2) [OF p(1)] p(2) w by auto
qed

section \<open>A signed delivery is accepted\<close>

lemma verify_truthy: "verify env s headers body \<Longrightarrow> truthy (github_header headers ''x-hub-signature-256'')"
  by (auto simp: verify_def verify_signature_def truthy_def split: option.splits if_splits)

definition deliverable :: "webhook_env \<Rightarrow> settings \<Rightarrow> headers \<Rightarrow> string \<Rightarrow> instant \<Rightarrow> github_change observation list \<Rightarrow> bool" where
  "deliverable env s headers body now obs \<longleftrightarrow>
     verify env s headers body \<and> webhook_configured s \<and> delivery_id_ok (delivery_of headers)
     \<and> (\<exists>payload repository. we_json env body = Some (JDict payload) \<and> configured_target s payload = Some repository
         \<and> webhook_observations env (header_or headers ''x-github-event'') payload repository (delivery_of headers) now = Inr obs)"

lemma deliver_accepts:
  assumes "deliverable env s headers body now obs" "\<not> claimed (delivery_of headers) st"
    and "db_ok (ge_hash env) (ws_db st)" "inj (ge_uuid env)" "\<forall>i. ge_uuid env i \<notin> event_ids (ws_db st)"
  shows "\<exists>d'. deliver env s headers body (delivery_of headers) now (ws_db st) = Inr ((Accepted, obs), d')
    \<and> keeps (store_env env) (map obs_content obs) (ws_db st) d'
    \<and> (\<forall>x \<in> set obs. truthy (gc_checkpoint_key (obs_content x)) \<longrightarrow>
         github_checkpoint (the (gc_checkpoint_key (obs_content x))) d' \<noteq> None)"
proof -
  let ?i = "delivery_of headers" let ?ev = "header_or headers ''x-github-event''" let ?e = "store_env env"
  obtain payload repository where j: "we_json env body = Some (JDict payload)" "configured_target s payload = Some repository"
    and o: "webhook_observations env ?ev payload repository ?i now = Inr obs"
    using assms(1) by (auto simp: deliverable_def)
  let ?d = "upsert_checkpoint ?e (delivery_key ?i) (take 255 ?ev) now (ws_db st)"
  have "\<forall>x \<in> set obs. storable (obs_content x)"
    using yieldsD [OF webhook_observations_valid o] change_of_repository_storable by (auto simp: list_all_iff)
  moreover have "db_ok (ge_hash ?e) ?d" using assms(3) by (intro upsert_checkpoint_ok) simp
  ultimately obtain k d' where p: "persist_in_session ?e (ge_uuid ?e 0) 1 obs ?d = Inr (k, d')"
    using persist_fresh_changes [of ?e ?d obs 1 "ge_uuid ?e 0"] assms(4,5) by auto
  then have w: "persist_webhook_delivery ?e ?i ?ev obs now (ws_db st) = Inr (True, d')"
    using assms(2) by (simp add: persist_webhook_delivery_def claimed_def)
  have "deliver env s headers body ?i now (ws_db st) = Inr ((Accepted, obs), d')"
    using j o w by (simp add: deliver_def)
  with delivery_outcome(4) [OF w] persist_in_session_keeps(2) [OF p] show ?thesis by auto
qed

text \<open>
  A genuine delivery is not lost.  A signed delivery with a new identity about a monitored
  repository, whose changes are valid, is answered as accepted with the number of its changes; each
  change is known to the event store afterwards, and its checkpoint is set, so that neither a repeated
  webhook nor reconciliation stores it again.
\<close>

theorem webhook_accepts:
  assumes "deliverable env s headers body now obs" "\<not> claimed (delivery_of headers) st"
    and "db_ok (ge_hash env) (ws_db st)" "inj (ge_uuid env)" "\<forall>i. ge_uuid env i \<notin> event_ids (ws_db st)"
  shows "\<exists>st'. github_webhook env s headers body now st = (Inr (Webhook_answer Accepted (length obs)), st')
    \<and> (\<forall>x \<in> set obs. gc_dedupe_key (obs_content x) \<in> known_keys (ge_hash env) (ws_db st')
        \<and> (truthy (gc_checkpoint_key (obs_content x)) \<longrightarrow>
             github_checkpoint (the (gc_checkpoint_key (obs_content x))) (ws_db st') \<noteq> None))"
proof -
  obtain d' where d: "deliver env s headers body (delivery_of headers) now (ws_db st) = Inr ((Accepted, obs), d')"
    and k: "keeps (store_env env) (map obs_content obs) (ws_db st) d'"
    and c: "\<forall>x \<in> set obs. truthy (gc_checkpoint_key (obs_content x)) \<longrightarrow>
         github_checkpoint (the (gc_checkpoint_key (obs_content x))) d' \<noteq> None"
    using deliver_accepts [OF assms] by blast
  obtain health where h: "note_webhook s now (ws_health st) = Inr health" using note_webhook_total by blast
  have checks: "verify env s headers body" "webhook_configured s" "delivery_id_ok (delivery_of headers)" "delivery_of headers \<noteq> []"
    using assms(1) by (auto simp: deliverable_def delivery_id_ok_def)
  have "process env s headers body now st = (Inr (Accepted, obs), st\<lparr>ws_health := health, ws_db := d'\<rparr>)"
    using checks verify_truthy [OF checks(1)] h d unfolding process_def verify_def delivery_of_def Let_def by simp
  then show ?thesis using k c by (auto simp: github_webhook_def keeps_def)
qed

section \<open>A concrete delivery\<close>

definition sample_webhook_env :: webhook_env where
  "sample_webhook_env = \<lparr>ge_hash = id, ge_topic = ''t'', ge_now = 0, ge_uuid = id, ge_loads = (\<lambda>v. None),
     we_hmac = (\<lambda>k b. replicate 64 (CHR ''a'')),
     we_json = (\<lambda>b. Some (JDict [(''repository'', JDict [(''name'', JStr ''LivePulse''), (''full_name'', JStr ''Raj/LivePulse''),
         (''owner'', JDict [(''login'', JStr ''raj'')])]),
       (''action'', JStr ''opened''), (''number'', JInt 7), (''pull_request'', JDict [(''title'', JStr ''Add'')])])),
     we_correlation = 5\<rparr>"

definition sample_headers :: headers where
  "sample_headers = [(''X-Hub-Signature-256'', ''sha256='' @ replicate 64 (CHR ''a'')), (''X-GitHub-Delivery'', ''d-1''),
     (''X-GitHub-Event'', ''pull_request'')]"

definition sample_github_settings :: settings where
  "sample_github_settings = sample_settings\<lparr>providers := no_providers\<lparr>github_owner := Some ''Raj'',
     github_token := Some ''t'', github_webhook_secret := Some ''s''\<rparr>\<rparr>"

definition sample_webhook_state :: webhook_state where
  "sample_webhook_state = \<lparr>ws_db = empty_db, ws_health = (tracker_new, [])\<rparr>"

lemma sample_deliverable:
  obtains o' where "deliverable sample_webhook_env sample_github_settings sample_headers [] 0 [o']"
proof -
  let ?t = "configured_target sample_github_settings (case we_json sample_webhook_env [] of Some (JDict p) \<Rightarrow> p | _ \<Rightarrow> [])"
  have "verify sample_webhook_env sample_github_settings sample_headers []" by code_simp
  moreover have "webhook_configured sample_github_settings" by code_simp
  moreover have "delivery_id_ok (delivery_of sample_headers)" by code_simp
  moreover have "?t = Some ''Raj/LivePulse''" by code_simp
  moreover have "(case webhook_observations sample_webhook_env (header_or sample_headers ''x-github-event'')
      (case we_json sample_webhook_env [] of Some (JDict p) \<Rightarrow> p | _ \<Rightarrow> []) ''Raj/LivePulse'' (delivery_of sample_headers) 0 of
      Inr [x] \<Rightarrow> True | _ \<Rightarrow> False)" by code_simp
  ultimately show thesis using that
    by (auto simp: deliverable_def sample_webhook_env_def split: sum.splits list.splits)
qed

lemma sample_state_hyps:
  "\<not> claimed i sample_webhook_state" "db_ok h (ws_db sample_webhook_state)" "inj (ge_uuid sample_webhook_env)"
  "\<forall>i. ge_uuid sample_webhook_env i \<notin> event_ids (ws_db sample_webhook_state)"
  by (simp_all add: claimed_def github_checkpoint_def find_checkpoint_def sample_webhook_state_def empty_db_ok sample_webhook_env_def)
     (simp_all add: empty_db_def)

theorem webhook_accepts_witness:
  "\<exists>st'. github_webhook sample_webhook_env sample_github_settings sample_headers [] 0 sample_webhook_state
     = (Inr (Webhook_answer Accepted 1), st')"
proof -
  obtain o' where "deliverable sample_webhook_env sample_github_settings sample_headers [] 0 [o']" by (rule sample_deliverable)
  from webhook_accepts [OF this sample_state_hyps] show ?thesis by auto
qed

theorem webhook_authentic_witness:
  "signed sample_webhook_env sample_github_settings sample_headers []"
proof -
  let ?r = "github_webhook sample_webhook_env sample_github_settings sample_headers [] 0 sample_webhook_state"
  have "gt_last_webhook_received_at (fst (ws_health (snd ?r))) = Some 0" by code_simp
  then have "snd ?r \<noteq> sample_webhook_state" by (auto simp: sample_webhook_state_def tracker_new_def)
  with webhook_authentic [of sample_webhook_env sample_github_settings sample_headers "[]" 0 sample_webhook_state "fst ?r" "snd ?r"]
  show ?thesis by simp
qed

text \<open>A push whose commit is too long for a dedupe key: the request ends in an exception.\<close>

definition oversized_env :: webhook_env where
  "oversized_env = sample_webhook_env\<lparr>we_json := (\<lambda>b. Some (JDict [(''repository'', JDict [(''name'', JStr ''LivePulse''),
       (''full_name'', JStr ''Raj/LivePulse''), (''owner'', JDict [(''login'', JStr ''raj'')])]),
     (''after'', JStr (replicate 240 (CHR ''a'')))]))\<rparr>"

definition push_headers :: headers where
  "push_headers = sample_headers @ [(''X-GitHub-Event'', ''push'')]"

theorem webhook_exactly_once_witness:
  "isl (fst (github_webhook oversized_env sample_github_settings push_headers [] 0 sample_webhook_state))
   \<and> ws_db (snd (github_webhook oversized_env sample_github_settings push_headers [] 0 sample_webhook_state)) = ws_db sample_webhook_state"
proof -
  have "isl (fst (github_webhook oversized_env sample_github_settings push_headers [] 0 sample_webhook_state))" by code_simp
  with webhook_exactly_once [of sample_github_settings "[]" sample_webhook_state oversized_env push_headers "[]" 0] show ?thesis by blast
qed

end
