(* ===== verification/Github_Client.thy ===== *)
theory Github_Client
  imports Github_Webhook Credentials
begin

text \<open>
  \<open>backend/app/providers/github/client.py\<close>: one request and what each answer means.  The transport, the
  parsing of a body and \<open>parsedate_to_datetime\<close> are parameters.
\<close>

section \<open>Errors\<close>

record github_api_error =
  ga_status_code :: int
  ga_detail_code :: string
  ga_retry_after :: "instant option"

text \<open>What a request ends with: an error of the API, cancellation, or another exception.\<close>

datatype github_failure = Github_error github_api_error | Github_cancelled | Github_raised py_error

definition retry_time :: "(string \<Rightarrow> py_datetime option) \<Rightarrow> headers \<Rightarrow> instant \<Rightarrow> instant option result" where
  "retry_time parse_date headers now =
     (let retry = github_header headers ''retry-after''; reset = github_header headers ''x-ratelimit-reset'';
          later = (if truthy reset then
            (case parse_int (the reset) of
               None \<Rightarrow> Inr None
             | Some n \<Rightarrow> (case in_range (seconds n) of Inl e \<Rightarrow> Inr None | Inr t \<Rightarrow> Inr (Some t)))
            else Inr None)
      in if truthy retry then
           (case parse_int (the retry) of
              Some n \<Rightarrow> bind_r (in_range (now + seconds (max 0 n))) (\<lambda>t. Inr (Some t))
            | None \<Rightarrow>
                (case parse_date (the retry) of
                   Some (Naive w) \<Rightarrow> Inr None
                 | Some (Aware w off) \<Rightarrow> (case in_range (w - off) of Inl e \<Rightarrow> later | Inr t \<Rightarrow> Inr (Some t))
                 | None \<Rightarrow> later))
         else later)"

definition api_error_of :: "int \<Rightarrow> string \<Rightarrow> instant option \<Rightarrow> github_failure" where
  "api_error_of status code retry =
     Github_error \<lparr>ga_status_code = status, ga_detail_code = code, ga_retry_after = retry\<rparr>"

definition normalize_api_error :: "(string \<Rightarrow> py_datetime option) \<Rightarrow> int \<Rightarrow> headers \<Rightarrow> instant \<Rightarrow> github_failure" where
  "normalize_api_error parse_date status headers now =
     (case retry_time parse_date headers now of
        Inl e \<Rightarrow> Github_raised e
      | Inr retry \<Rightarrow>
          if status = 429 \<or> status = 403 \<and> (retry \<noteq> None \<or> github_header headers ''x-ratelimit-remaining'' = Some ''0'')
            then api_error_of status ''github_rate_limited'' retry
          else if status = 401 then api_error_of status ''github_unauthorized'' None
          else if status = 403 then api_error_of status ''github_forbidden'' None
          else if 500 \<le> status \<and> status \<le> 599 then api_error_of status ''github_server_error'' None
          else api_error_of status ''github_api_error'' None)"

section \<open>Requests\<close>

datatype github_exchange =
    Network_error
  | Cancelled_exchange
  | Other_exception py_error
  | Github_response int headers string

text \<open>The state is the number of requests sent; the world answers the \<open>n\<close>-th.\<close>

record rest_env =
  re_send :: "nat \<Rightarrow> string \<Rightarrow> headers \<Rightarrow> github_exchange"
  re_now :: "nat \<Rightarrow> instant"
  re_json :: "string \<Rightarrow> json option"
  re_parse_date :: "string \<Rightarrow> py_datetime option"

type_synonym 'a rest = "(nat, github_failure, 'a) prog"

definition API_ROOT :: string where "API_ROOT = ''https://api.github.com''"

definition request_headers :: "string \<Rightarrow> headers" where
  "request_headers tok = [(''Accept'', ''application/vnd.github+json''), (''Authorization'', ''Bearer '' @ tok),
     (''X-GitHub-Api-Version'', ''2022-11-28''), (''User-Agent'', ''LivePulse/1.0'')]"

definition read_exchange :: "rest_env \<Rightarrow> nat \<Rightarrow> github_exchange \<Rightarrow> github_failure + json" where
  "read_exchange env turn x = (case x of
      Network_error \<Rightarrow> Inl (api_error_of 0 ''github_network_error'' None)
    | Cancelled_exchange \<Rightarrow> Inl Github_cancelled
    | Other_exception e \<Rightarrow> Inl (Github_raised e)
    | Github_response status headers body \<Rightarrow>
        if \<not> (200 \<le> status \<and> status < 300)
        then Inl (normalize_api_error (re_parse_date env) status headers (re_now env turn))
        else (case re_json env body of
            None \<Rightarrow> Inl (api_error_of status ''github_invalid_response'' None) | Some v \<Rightarrow> Inr v))"

definition get_json :: "rest_env \<Rightarrow> string \<Rightarrow> string \<Rightarrow> (string \<times> string) list \<Rightarrow> json rest" where
  "get_json env tok path params turn =
     (let query = (if params = [] then [] else ''?'' @ urlencode params);
          url = API_ROOT @ path @ query
      in (read_exchange env turn (re_send env turn url (request_headers tok)), Suc turn))"

lemma get_json_any [ensures_intros]: "ensures (\<lambda>_. True) (get_json env tok path params) (\<lambda>_. True)"
  by (simp add: ensures_def)

section \<open>Which errors say what\<close>

text \<open>
  A rate limit is told from a refusal by its headers.  GitHub sends \<open>X-RateLimit-Reset\<close> with every
  answer; a refusal (403) with requests left is still reported as a rate limit, because the reset
  time counts as a retry time.
\<close>

lemma forbidden_reported_as_rate_limit:
  "normalize_api_error (\<lambda>_. None) 403 [(''X-RateLimit-Remaining'', ''4999''), (''X-RateLimit-Reset'', ''1793881800'')] 0
   = api_error_of 403 ''github_rate_limited'' (Some (seconds 1793881800))"
  by code_simp

text \<open>A \<open>Retry-After\<close> beyond the year 9999 raises an exception that is not an error of the API.\<close>

lemma retry_after_overflows:
  "normalize_api_error (\<lambda>_. None) 429 [(''Retry-After'', ''999999999999'')] 0
   = Github_raised (OverflowError ''date value out of range'')"
  by code_simp

end
