(* ===== verification/Github_Reconcile.thy ===== *)
theory Github_Reconcile
  imports Github_Client Scheduler
begin

text \<open>
  \<open>backend/app/providers/github/reconcile.py\<close> and the GitHub branch of the handler in
  \<open>api/routes.py\<close>: the poll that catches up on what webhooks missed.
\<close>

section \<open>Candidates\<close>

record reconcile_facts =
  rf_sha :: "string \<Rightarrow> string"
  rf_repository :: string
  rf_observed_at :: instant

definition make_change :: "reconcile_facts \<Rightarrow> string \<Rightarrow> string \<Rightarrow> string \<Rightarrow> instant \<Rightarrow> string \<Rightarrow> dict \<Rightarrow> string
    \<Rightarrow> github_change result" where
  "make_change w event_type subject_type subject_id occurred_at identity payload checkpoint =
     github_change_new
       \<lparr>gc_event_type = event_type, gc_subject_type = subject_type, gc_subject_id = subject_id,
        gc_occurred_at = occurred_at, gc_dedupe_key = github_dedupe (rf_repository w) identity,
        gc_payload = (''repository'', JStr (rf_repository w)) # payload,
        gc_checkpoint_key = Some checkpoint, gc_checkpoint_value = ''1''\<rparr>"

text \<open>A time stamp without an offset is not believed here.\<close>

definition timestamp_or :: "json \<Rightarrow> instant option \<Rightarrow> instant option result" where
  "timestamp_or v fallback = (case v of
      JStr s \<Rightarrow> if s = [] then Inr fallback else
        (case fromisoformat (zulu s) of
           None \<Rightarrow> Inr fallback
         | Some (Naive w) \<Rightarrow> Inr fallback
         | Some (Aware w off) \<Rightarrow> bind_r (in_range (w - off)) (\<lambda>t. Inr (Some t)))
    | _ \<Rightarrow> Inr fallback)"

definition timestamp_at :: "json \<Rightarrow> instant \<Rightarrow> instant result" where
  "timestamp_at v fallback = bind_r (timestamp_or v (Some fallback)) (\<lambda>t. Inr (the t))"

definition concat_r :: "'a list list result \<Rightarrow> 'a list result" where
  "concat_r r = bind_r r (\<lambda>xs. Inr (concat xs))"

definition pull_candidate :: "reconcile_facts \<Rightarrow> dict \<Rightarrow> github_change list result" where
  "pull_candidate w pull =
     (let number = integer_of (field pull ''number'') 0;
          sid = resource_subject_id (rf_sha w) (rf_repository w) (''PR-'' @ int_str number);
          checkpoint = pull_checkpoint (rf_sha w) (rf_repository w) number
      in if number < 1 then Inr [] else
         bind_r (timestamp_at (field pull ''created_at'') (rf_observed_at w)) (\<lambda>t.
         bind_r (make_change w ''developer.pull_request.opened'' ''pull_request'' sid t
                   (pull_identity number ''opened'') (pull_base pull number) (checkpoint ''opened'')) (\<lambda>opened.
         if json_truthy (field pull ''merged_at'') then
           bind_r (timestamp_at (field pull ''merged_at'') (rf_observed_at w)) (\<lambda>u.
           bind_r (make_change w ''developer.pull_request.merged'' ''pull_request'' sid u
                     (pull_identity number ''merged'') (pull_base pull number) (checkpoint ''merged'')) (\<lambda>merged.
           Inr [opened, merged]))
         else Inr [opened])))"

definition run_candidate :: "reconcile_facts \<Rightarrow> dict \<Rightarrow> github_change list result" where
  "run_candidate w run =
     (let run_id = integer_of (field run ''id'') 0; attempt = run_attempt run;
          sid = resource_subject_id (rf_sha w) (rf_repository w) (''RUN-'' @ int_str run_id);
          checkpoint = workflow_checkpoint (rf_sha w) (rf_repository w) run_id attempt;
          status = text_of (field run ''status'') [];
          conclusion = text_of (field run ''conclusion'') ''unknown''
      in if run_id < 1 then Inr [] else
         bind_r (timestamp_or (field run ''run_started_at'') None) (\<lambda>started_at.
         bind_r (case started_at of
             None \<Rightarrow> Inr []
           | Some t \<Rightarrow>
               if status = ''in_progress'' \<or> status = ''completed'' then
                 bind_r (make_change w ''developer.workflow.started'' ''workflow_run'' sid t
                   (workflow_identity run_id attempt ''started'') (run_base run run_id) (checkpoint ''started'')) (\<lambda>c. Inr [c])
               else Inr []) (\<lambda>started.
         if status = ''completed'' then
           (case workflow_outcome conclusion of
              None \<Rightarrow> Inr started
            | Some event_type \<Rightarrow>
                bind_r (timestamp_at (field run ''updated_at'') (rf_observed_at w)) (\<lambda>t.
                bind_r (make_change w event_type ''workflow_run'' sid t
                  (workflow_identity run_id attempt conclusion)
                  (run_base run run_id @ [(''conclusion'', JStr conclusion)]) (checkpoint ''completed'')) (\<lambda>c.
                Inr (started @ [c]))))
         else Inr started)))"

definition deployment_candidate :: "reconcile_facts \<Rightarrow> dict \<Rightarrow> dict \<Rightarrow> github_change list result" where
  "deployment_candidate w deployment status =
     (let deployment_id = integer_of (field deployment ''id'') 0;
          state = text_of (field status ''state'') [];
          status_id = integer_of (field status ''id'') 0
      in if state \<notin> set deployment_states then Inr [] else
         bind_r (timestamp_at (field status ''created_at'') (rf_observed_at w)) (\<lambda>t.
         bind_r (make_change w (deployment_outcome state) ''deployment''
           (resource_subject_id (rf_sha w) (rf_repository w) (''DEPLOY-'' @ int_str deployment_id)) t
           (deployment_identity deployment_id state status_id)
           (deployment_base deployment status deployment_id status_id state)
           (deployment_checkpoint (rf_sha w) (rf_repository w) deployment_id state)) (\<lambda>c. Inr [c])))"

section \<open>The changes of one repository\<close>

fun dicts_of :: "json \<Rightarrow> dict list" where
  "dicts_of (JList xs) = concat (map (\<lambda>x. case x of JDict d \<Rightarrow> [d] | _ \<Rightarrow> []) xs)"
| "dicts_of _ = []"

definition json_list :: "rest_env \<Rightarrow> string \<Rightarrow> string \<Rightarrow> (string \<times> string) list \<Rightarrow> dict list rest" where
  "json_list env tok path params = bind_p (get_json env tok path params) (\<lambda>v. return_p (dicts_of v))"

definition workflow_runs :: "json \<Rightarrow> dict list" where
  "workflow_runs v = (case v of JDict d \<Rightarrow> dicts_of (field d ''workflow_runs'') | _ \<Rightarrow> [])"

text \<open>\<open>quote(s, safe="")\<close>: as in a query, but a space is \<open>%20\<close>.\<close>

definition quote :: "string \<Rightarrow> string" where
  "quote s = concat (map (\<lambda>c. if c = CHR '' '' then ''%20'' else quote_char c) s)"

definition deployment_step :: "rest_env \<Rightarrow> string \<Rightarrow> string \<Rightarrow> reconcile_facts \<Rightarrow> dict \<Rightarrow> github_change list rest" where
  "deployment_step env tok path w deployment =
     (let deployment_id = integer_of (field deployment ''id'') 0 in
      if deployment_id < 1 then return_p [] else
      bind_p (json_list env tok (path @ ''/deployments/'' @ int_str deployment_id @ ''/statuses'') [(''per_page'', ''1'')]) (\<lambda>statuses.
      case statuses of
        [] \<Rightarrow> return_p []
      | status # _ \<Rightarrow> lift_p Github_raised (deployment_candidate w deployment status)))"

record reconciliation_source =
  rs_owner :: string
  rs_token :: string
  rs_repos :: "string list"

definition source_new :: "settings \<Rightarrow> reconciliation_source result" where
  "source_new s =
     (let p = providers s in
      bind_r (ensure (truthy (github_owner p) \<and> truthy (github_token p))
        (ValueError ''GitHub reconciliation requires owner and token configuration'')) (\<lambda>_.
      Inr \<lparr>rs_owner = the (github_owner p), rs_token = the (github_token p), rs_repos = MONITORED_GITHUB_REPOSITORIES\<rparr>))"

definition GITHUB_SCHEDULE :: poll_schedule where
  "GITHUB_SCHEDULE = \<lparr>sd_interval = minutes 5, sd_timeout = seconds 90, sd_max_backoff = minutes 30,
     sd_jitter_ratio = 15 / 100\<rparr>"

definition github_cadence :: "timedelta" where
  "github_cadence = sd_interval GITHUB_SCHEDULE"

definition repository_changes :: "rest_env \<Rightarrow> (string \<Rightarrow> string) \<Rightarrow> reconciliation_source \<Rightarrow> instant \<Rightarrow> string
    \<Rightarrow> github_change list rest" where
  "repository_changes env sha src observed_at repository =
     (let w = \<lparr>rf_sha = sha, rf_repository = rs_owner src @ ''/'' @ repository, rf_observed_at = observed_at\<rparr>;
          path = ''/repos/'' @ quote (rs_owner src) @ ''/'' @ quote repository; tok = rs_token src
      in bind_p (json_list env tok (path @ ''/pulls'')
           [(''state'', ''all''), (''sort'', ''updated''), (''direction'', ''desc''), (''per_page'', ''10'')]) (\<lambda>pulls.
         bind_p (lift_p Github_raised (concat_r (map_r (pull_candidate w) pulls))) (\<lambda>changes.
         bind_p (get_json env tok (path @ ''/actions/runs'') [(''per_page'', ''10'')]) (\<lambda>result.
         bind_p (lift_p Github_raised (concat_r (map_r (run_candidate w) (workflow_runs result)))) (\<lambda>more.
         bind_p (json_list env tok (path @ ''/deployments'') [(''per_page'', ''3'')]) (\<lambda>deployments.
         bind_p (each_p (deployment_step env tok path w) deployments) (\<lambda>last.
         return_p (changes @ more @ last))))))))"

section \<open>One poll\<close>

text \<open>What a poll raises: its own exceptions, or \<open>RetryAfterError\<close> in place of an error with a retry time.\<close>

datatype reconcile_error = Reconcile_retry_after instant string | Reconcile_failed github_failure

record reconcile_env =
  ce_rest :: rest_env
  ce_sha :: "string \<Rightarrow> string"
  ce_observed :: instant
  ce_failed :: instant

definition checkpoint_keys :: "github_change list \<Rightarrow> string list" where
  "checkpoint_keys cs = concat (map (\<lambda>c. if truthy (gc_checkpoint_key c) then [the (gc_checkpoint_key c)] else []) cs)"

definition fresh_changes :: "github_change list \<Rightarrow> db \<Rightarrow> github_change list" where
  "fresh_changes candidates d =
     (let checkpoints = github_checkpoints (checkpoint_keys candidates) d in
      filter (\<lambda>c. \<not> truthy (gc_checkpoint_key c) \<or> the (gc_checkpoint_key c) \<notin> fst ` set checkpoints) candidates)"

definition failed_poll :: "instant \<Rightarrow> instant \<Rightarrow> github_failure \<Rightarrow> github_tracker \<Rightarrow> reconcile_error \<times> github_tracker" where
  "failed_poll observed failed e tr = (case e of
      Github_cancelled \<Rightarrow> (Reconcile_failed e, note_failure ''github_poll_cancelled'' observed None tr)
    | Github_error a \<Rightarrow>
        ((case ga_retry_after a of None \<Rightarrow> Reconcile_failed e | Some t \<Rightarrow> Reconcile_retry_after t (safe_error_code (Some (ga_detail_code a)))),
         note_failure (ga_detail_code a) failed (ga_retry_after a) tr)
    | Github_raised x \<Rightarrow> (Reconcile_failed e, note_failure ''github_reconciliation_failed'' failed None tr))"

definition reconcile_observe :: "reconcile_env \<Rightarrow> reconciliation_source \<Rightarrow> uuid \<Rightarrow> db \<Rightarrow> github_tracker
    \<Rightarrow> (reconcile_error + github_change observation list) \<times> github_tracker" where
  "reconcile_observe env src correlation d tr =
     (let observed = ce_observed env; tr1 = note_attempt observed tr in
      case fst (each_p (repository_changes (ce_rest env) (ce_sha env) src observed) (rs_repos src) 0) of
        Inl e \<Rightarrow> (case failed_poll observed (ce_failed env) e tr1 of (x, tr2) \<Rightarrow> (Inl x, tr2))
      | Inr candidates \<Rightarrow>
          ((case map_r (change_observation observed correlation) (fresh_changes candidates d) of
              Inl e \<Rightarrow> Inl (Reconcile_failed (Github_raised e)) | Inr obs \<Rightarrow> Inr obs),
           note_success observed tr1))"

text \<open>The handler: the observations are stored, and a failure to do so is a failure of the poll.\<close>

definition reconcile_and_persist :: "reconcile_env \<Rightarrow> github_env \<Rightarrow> reconciliation_source \<Rightarrow> uuid
    \<Rightarrow> db \<times> github_tracker \<Rightarrow> (reconcile_error + github_change observation list) \<times> db \<times> github_tracker" where
  "reconcile_and_persist env genv src correlation st =
     (case reconcile_observe env src correlation (fst st) (snd st) of
        (Inl e, tr) \<Rightarrow> (Inl e, fst st, tr)
      | (Inr obs, tr) \<Rightarrow>
          (case persist_observations genv correlation obs (fst st) of
             Inl e \<Rightarrow> (Inl (Reconcile_failed (Github_raised e)), fst st, note_failure ''event_persist_failed'' (ce_failed env) None tr)
           | Inr (n, d) \<Rightarrow> (Inr obs, d, tr)))"

text \<open>How the scheduler sees the end of the poll.\<close>

fun reconcile_outcome :: "reconcile_error + 'a list \<Rightarrow> poll_outcome" where
  "reconcile_outcome (Inr xs) = Observed (xs \<noteq> [])"
| "reconcile_outcome (Inl (Reconcile_retry_after t code)) = Retry_after t code"
| "reconcile_outcome (Inl (Reconcile_failed (Github_error a))) = Failed (Some (ga_detail_code a)) False"
| "reconcile_outcome (Inl (Reconcile_failed Github_cancelled)) = Cancelled"
| "reconcile_outcome (Inl (Reconcile_failed (Github_raised e))) = Failed None False"

section \<open>What a poll says about itself\<close>

lemma github_schedule_ok: "poll_schedule_new (minutes 5) (seconds 90) (minutes 30) (15 / 100) = Inr GITHUB_SCHEDULE"
  by (simp add: poll_schedule_new_def GITHUB_SCHEDULE_def ensure_def)

lemma other_codes: "\<not> contains ''github_poll_cancelled'' ''rate_limit''" "\<not> contains ''github_reconciliation_failed'' ''rate_limit''"
  by (code_simp, code_simp)

lemma failed_poll_health:
  assumes "failed_poll observed failed e tr = (x, tr')"
  shows "gt_status tr' \<in> {Ps_rate_limited, Ps_auth_failure, Ps_provider_failure}"
    "(\<exists>code. reconcile_outcome (Inl x) = Retry_after t code) \<longleftrightarrow> gt_rate_limited_until tr' = Some t"
    "gt_rate_limited_until tr' = Some t \<Longrightarrow> gt_status tr' = Ps_rate_limited"
proof -
  have "gt_status tr' \<in> {Ps_rate_limited, Ps_auth_failure, Ps_provider_failure}
    \<and> ((\<exists>code. reconcile_outcome (Inl x) = Retry_after t code) \<longleftrightarrow> gt_rate_limited_until tr' = Some t)
    \<and> (gt_rate_limited_until tr' = Some t \<longrightarrow> gt_status tr' = Ps_rate_limited)"
  proof (cases e)
    case (Github_error a)
    then show ?thesis using assms by (cases "ga_retry_after a") (auto simp: failed_poll_def note_failure_def split: if_splits)
  next
    case Github_cancelled
    then show ?thesis using assms other_codes by (auto simp: failed_poll_def note_failure_def simp del: contains.simps)
  next
    case (Github_raised y)
    then show ?thesis using assms other_codes by (auto simp: failed_poll_def note_failure_def simp del: contains.simps)
  qed
  then show "gt_status tr' \<in> {Ps_rate_limited, Ps_auth_failure, Ps_provider_failure}"
    "(\<exists>code. reconcile_outcome (Inl x) = Retry_after t code) \<longleftrightarrow> gt_rate_limited_until tr' = Some t"
    "gt_rate_limited_until tr' = Some t \<Longrightarrow> gt_status tr' = Ps_rate_limited" by blast+
qed

text \<open>
  The health of GitHub is the outcome of its last poll.  When the requests of a poll succeed the
  tracker is healthy and has no rate limit; when one fails it is not.  The scheduler is told to wait
  until an instant if and only if the tracker then shows a rate limit until that same instant.
\<close>

theorem github_poll_health:
  assumes "reconcile_observe env src u d tr = (r, tr')"
  shows "case fst (each_p (repository_changes (ce_rest env) (ce_sha env) src (ce_observed env)) (rs_repos src) 0) of
      Inr cs \<Rightarrow> gt_status tr' = Ps_healthy \<and> gt_rate_limited_until tr' = None
    | Inl e \<Rightarrow> isl r \<and> gt_status tr' \<in> {Ps_rate_limited, Ps_auth_failure, Ps_provider_failure}
        \<and> (\<forall>t. (\<exists>code. reconcile_outcome r = Retry_after t code) \<longleftrightarrow> gt_rate_limited_until tr' = Some t)
        \<and> (gt_rate_limited_until tr' \<noteq> None \<longrightarrow> gt_status tr' = Ps_rate_limited)"
proof (cases "fst (each_p (repository_changes (ce_rest env) (ce_sha env) src (ce_observed env)) (rs_repos src) 0)")
  case (Inl e)
  obtain x tr2 where f: "failed_poll (ce_observed env) (ce_failed env) e (note_attempt (ce_observed env) tr) = (x, tr2)"
    by (cases "failed_poll (ce_observed env) (ce_failed env) e (note_attempt (ce_observed env) tr)")
  with assms Inl have "r = Inl x" "tr' = tr2" by (simp_all add: reconcile_observe_def Let_def)
  with failed_poll_health [OF f] Inl show ?thesis by auto
next
  case (Inr cs)
  with assms show ?thesis by (auto simp: reconcile_observe_def Let_def note_success_def)
qed

theorem github_poll_health_witness:
  "\<exists>r tr'. reconcile_observe \<lparr>ce_rest = \<lparr>re_send = (\<lambda>n url hs. Github_response 429 [(''Retry-After'', ''60'')] []), re_now = (\<lambda>n. 5),
       re_json = (\<lambda>b. None), re_parse_date = (\<lambda>t. None)\<rparr>, ce_sha = id, ce_observed = 0, ce_failed = 0\<rparr>
     \<lparr>rs_owner = ''Raj'', rs_token = ''t'', rs_repos = [''LivePulse'']\<rparr> 1 empty_db tracker_new = (r, tr')
     \<and> gt_status tr' = Ps_rate_limited \<and> reconcile_outcome r = Retry_after (seconds 60 + 5) ''github_rate_limited''"
proof -
  let ?env = "\<lparr>ce_rest = \<lparr>re_send = (\<lambda>n url hs. Github_response 429 [(''Retry-After'', ''60'')] []), re_now = (\<lambda>n. 5),
       re_json = (\<lambda>b. None), re_parse_date = (\<lambda>t. None)\<rparr>, ce_sha = id, ce_observed = 0, ce_failed = 0\<rparr>"
  let ?src = "\<lparr>rs_owner = ''Raj'', rs_token = ''t'', rs_repos = [''LivePulse'']\<rparr>"
  obtain r tr' where r: "reconcile_observe ?env ?src 1 empty_db tracker_new = (r, tr')"
    by (cases "reconcile_observe ?env ?src 1 empty_db tracker_new")
  have "reconcile_outcome (fst (reconcile_observe ?env ?src 1 empty_db tracker_new)) = Retry_after (seconds 60 + 5) ''github_rate_limited''"
    by code_simp
  with r have o: "reconcile_outcome r = Retry_after (seconds 60 + 5) ''github_rate_limited''" by simp
  have "isl (fst (each_p (repository_changes (ce_rest ?env) (ce_sha ?env) ?src (ce_observed ?env)) (rs_repos ?src) 0))"
    by code_simp
  with github_poll_health [OF r] o have "gt_status tr' = Ps_rate_limited" by (auto split: sum.splits)
  with r o show ?thesis by blast
qed

end
