(* ===== verification/Github_Agreement.thy ===== *)
theory Github_Agreement
  imports Github_Reconcile
begin

text \<open>
  The two ways by which a fact about a repository reaches the store, together: they give it the same
  identity, and a poll never reports what a delivery or an earlier poll has recorded.
\<close>

section \<open>The same identity\<close>

definition same_fact :: "github_change \<Rightarrow> github_change \<Rightarrow> bool" where
  "same_fact c d \<longleftrightarrow> gc_subject_type c = gc_subject_type d \<and> gc_dedupe_key c = gc_dedupe_key d
     \<and> gc_checkpoint_key c = gc_checkpoint_key d"

text \<open>Changes of the same kind are the same fact.\<close>

definition agree :: "github_change list \<Rightarrow> github_change list \<Rightarrow> bool" where
  "agree cs ds \<longleftrightarrow> (\<forall>c \<in> set cs. \<forall>d \<in> set ds. gc_event_type c = gc_event_type d \<longrightarrow> same_fact c d)"

text \<open>The key of a change: what its kind, the repository and the resource determine.\<close>

type_synonym fact_key = "string \<times> string \<times> string \<times> string option"

definition key_of :: "github_change \<Rightarrow> fact_key" where
  "key_of c = (gc_event_type c, gc_subject_type c, gc_dedupe_key c, gc_checkpoint_key c)"

definition keyed :: "(string \<Rightarrow> fact_key) \<Rightarrow> github_change list \<Rightarrow> bool" where
  "keyed f cs \<longleftrightarrow> (\<forall>c \<in> set cs. key_of c = f (gc_event_type c))"

lemma keyed_agree:
  assumes "keyed f cs" "keyed f ds" shows "agree cs ds"
proof -
  have "key_of c = key_of d" if "c \<in> set cs" "d \<in> set ds" "gc_event_type c = gc_event_type d" for c d
    using assms that by (simp add: keyed_def)
  then show ?thesis by (simp add: agree_def same_fact_def key_of_def)
qed

lemma facts_keyed_append [simp]: "keyed f (cs @ ds) \<longleftrightarrow> keyed f cs \<and> keyed f ds"
  by (auto simp: keyed_def)

lemma facts_keyed_Nil [simp]: "keyed f []"
  by (simp add: keyed_def)

definition pull_key :: "(string \<Rightarrow> string) \<Rightarrow> string \<Rightarrow> int \<Rightarrow> string \<Rightarrow> fact_key" where
  "pull_key sha r n kind =
     (let what = (if kind = ''developer.pull_request.opened'' then ''opened'' else ''merged'')
      in (kind, ''pull_request'', github_dedupe r (pull_identity n what), Some (pull_checkpoint sha r n what)))"

definition run_key :: "(string \<Rightarrow> string) \<Rightarrow> string \<Rightarrow> int \<Rightarrow> int \<Rightarrow> string \<Rightarrow> string \<Rightarrow> fact_key" where
  "run_key sha r i n conclusion kind =
     (if kind = ''developer.workflow.started''
      then (kind, ''workflow_run'', github_dedupe r (workflow_identity i n ''started''), Some (workflow_checkpoint sha r i n ''started''))
      else (kind, ''workflow_run'', github_dedupe r (workflow_identity i n conclusion), Some (workflow_checkpoint sha r i n ''completed'')))"

definition deployment_key :: "(string \<Rightarrow> string) \<Rightarrow> string \<Rightarrow> int \<Rightarrow> string \<Rightarrow> int \<Rightarrow> string \<Rightarrow> fact_key" where
  "deployment_key sha r i state status_id kind =
     (kind, ''deployment'', github_dedupe r (deployment_identity i state status_id), Some (deployment_checkpoint sha r i state))"

lemma add_keyed [yields_intros]:
  assumes "keyed f cs" "f et = (et, st, github_dedupe (wf_repository w) i, ck)"
  shows "yields (keyed f) (add w et st sid t i n ck cs)"
  using assms by (auto simp: yields_def add_def bind_simps github_change_new_Inr key_of_def keyed_def)

lemma make_change_keyed:
  assumes "f et = (et, st, github_dedupe (rf_repository w) i, Some ck)"
  shows "yields (\<lambda>c. keyed f [c]) (make_change w et st sid t i n ck)"
  using assms by (auto simp: yields_def make_change_def github_change_new_Inr key_of_def keyed_def)

lemma workflow_outcome_kind: "workflow_outcome conclusion = Some kind \<Longrightarrow> kind \<noteq> ''developer.workflow.started''"
  by (auto simp: workflow_outcome_def split: if_splits)

lemma pull_changes_keyed:
  "yields (keyed (pull_key (wf_sha w) (wf_repository w) (integer_of (field payload ''number'') 0))) (pull_changes w payload pull)"
  unfolding pull_changes_def Let_def by (intro yields_intros yields_first; simp add: pull_key_def Let_def)

lemma add_started_keyed:
  "yields (keyed (run_key (wf_sha w) (wf_repository w) i (run_attempt run) conclusion)) (add_started w run i)"
  unfolding add_started_def by (intro yields_intros yields_first; simp add: run_key_def)

lemma yields_option_eq:
  "yields P r \<Longrightarrow> (\<And>x. v = Some x \<Longrightarrow> yields P (f x)) \<Longrightarrow> yields P (case v of None \<Rightarrow> r | Some x \<Rightarrow> f x)"
  by (simp split: option.split)

lemma workflow_changes_keyed:
  "yields (keyed (run_key (wf_sha w) (wf_repository w) (integer_of (field run ''id'') 0) (run_attempt run)
     (text_of (field run ''conclusion'') ''unknown''))) (workflow_changes w payload run)"
  unfolding workflow_changes_def Let_def
  by (intro yields_Inr yields_if add_started_keyed yields_option_eq yields_bind [OF add_started_keyed] yields_first add_keyed;
      simp add: run_key_def workflow_outcome_kind)

lemma deployment_changes_keyed:
  assumes "field payload ''deployment_status'' = JDict status"
  shows "yields (keyed (deployment_key (wf_sha w) (wf_repository w) (integer_of (field deployment ''id'') 0)
     (text_of (field status ''state'') []) (integer_of (field status ''id'') 0))) (deployment_changes w payload deployment)"
  unfolding deployment_changes_def Let_def assms json.case
  by (intro yields_intros yields_first; simp add: deployment_key_def)

lemma facts_keyed_Cons: "keyed f (c # cs) \<longleftrightarrow> keyed f [c] \<and> keyed f cs"
  by (auto simp: keyed_def)

lemma pull_candidate_keyed:
  "yields (keyed (pull_key (rf_sha w) (rf_repository w) (integer_of (field pull ''number'') 0))) (pull_candidate w pull)"
  unfolding pull_candidate_def Let_def
  by (intro yields_if yields_Inr yields_bind [OF make_change_keyed] yields_any [where r = "timestamp_at v t" for v t];
      (simp add: pull_key_def Let_def facts_keyed_Cons [of _ _ "[_]"])?)

lemma run_candidate_keyed:
  "yields (keyed (run_key (rf_sha w) (rf_repository w) (integer_of (field run ''id'') 0) (run_attempt run)
     (text_of (field run ''conclusion'') ''unknown''))) (run_candidate w run)"
proof -
  let ?K = "keyed (run_key (rf_sha w) (rf_repository w) (integer_of (field run ''id'') 0) (run_attempt run)
     (text_of (field run ''conclusion'') ''unknown''))"
  have started: "yields ?K (case s of
        None \<Rightarrow> Inr []
      | Some t \<Rightarrow> if p then bind_r (make_change w ''developer.workflow.started'' ''workflow_run'' sid t
           (workflow_identity (integer_of (field run ''id'') 0) (run_attempt run) ''started'') b
           (workflow_checkpoint (rf_sha w) (rf_repository w) (integer_of (field run ''id'') 0) (run_attempt run) ''started'')) (\<lambda>c. Inr [c])
         else Inr [])" for s p sid b
    by (intro yields_option yields_if yields_Inr yields_bind [OF make_change_keyed]; simp add: run_key_def)
  show ?thesis
    unfolding run_candidate_def Let_def
    by (intro yields_if yields_Inr yields_option_eq yields_bind [OF started] yields_bind [OF make_change_keyed]
        yields_any [where r = "timestamp_or v t" for v t] yields_any [where r = "timestamp_at v t" for v t];
      (simp add: run_key_def workflow_outcome_kind)?)
qed

lemma deployment_candidate_keyed:
  "yields (keyed (deployment_key (rf_sha w) (rf_repository w) (integer_of (field deployment ''id'') 0)
     (text_of (field status ''state'') []) (integer_of (field status ''id'') 0))) (deployment_candidate w deployment status)"
  unfolding deployment_candidate_def Let_def
  by (intro yields_if yields_Inr yields_bind [OF make_change_keyed] yields_any [where r = "timestamp_at v t" for v t];
      (simp add: deployment_key_def)?)

text \<open>The keys depend on the repository's name up to case only.\<close>

lemma keys_casefold:
  assumes "casefold r = casefold q"
  shows "pull_key sha r = pull_key sha q" "run_key sha r = run_key sha q" "deployment_key sha r = deployment_key sha q"
  using assms by (simp_all add: fun_eq_iff pull_key_def run_key_def deployment_key_def github_dedupe_def
      pull_checkpoint_def workflow_checkpoint_def deployment_checkpoint_def repository_checkpoint_key_def)

text \<open>
  C17.  Webhooks and reconciliation give a fact the same identity.  For a pull request of the same
  number, for an attempt of the same run with the same conclusion, and for a deployment with the same
  status, in a repository of the same name up to case: a change a delivery makes and one of the same
  kind a poll makes have the same dedupe key and the same checkpoint, whatever else was sent.
\<close>

theorem webhook_reconciliation_agree:
  assumes "casefold (wf_repository w) = casefold (rf_repository v)" "wf_sha w = rf_sha v"
  shows "(pull_changes w payload pull = Inr cs \<longrightarrow> pull_candidate v listed = Inr ds
        \<longrightarrow> integer_of (field payload ''number'') 0 = integer_of (field listed ''number'') 0 \<longrightarrow> agree cs ds)
    \<and> (workflow_changes w payload run = Inr cs \<longrightarrow> run_candidate v listed = Inr ds
        \<longrightarrow> integer_of (field run ''id'') 0 = integer_of (field listed ''id'') 0 \<longrightarrow> run_attempt run = run_attempt listed
        \<longrightarrow> text_of (field run ''conclusion'') ''unknown'' = text_of (field listed ''conclusion'') ''unknown'' \<longrightarrow> agree cs ds)
    \<and> (deployment_changes w payload deployment = Inr cs \<longrightarrow> deployment_candidate v listed status = Inr ds
        \<longrightarrow> field payload ''deployment_status'' = JDict status
        \<longrightarrow> integer_of (field deployment ''id'') 0 = integer_of (field listed ''id'') 0 \<longrightarrow> agree cs ds)"
proof -
  note eq = keys_casefold [OF assms(1)]
  have "agree cs ds" if "pull_changes w payload pull = Inr cs" "pull_candidate v listed = Inr ds"
      "integer_of (field payload ''number'') 0 = integer_of (field listed ''number'') 0"
    using keyed_agree [OF yieldsD [OF pull_changes_keyed that(1)]] yieldsD [OF pull_candidate_keyed that(2)]
    by (simp add: eq assms(2) that(3))
  moreover have "agree cs ds" if "workflow_changes w payload run = Inr cs" "run_candidate v listed = Inr ds"
      "integer_of (field run ''id'') 0 = integer_of (field listed ''id'') 0" "run_attempt run = run_attempt listed"
      "text_of (field run ''conclusion'') ''unknown'' = text_of (field listed ''conclusion'') ''unknown''"
    using keyed_agree [OF yieldsD [OF workflow_changes_keyed that(1)]] yieldsD [OF run_candidate_keyed that(2)]
    by (simp add: eq assms(2) that(3-5))
  moreover have "agree cs ds" if "deployment_changes w payload deployment = Inr cs" "deployment_candidate v listed status = Inr ds"
      "field payload ''deployment_status'' = JDict status" "integer_of (field deployment ''id'') 0 = integer_of (field listed ''id'') 0"
    using keyed_agree [OF yieldsD [OF deployment_changes_keyed [OF that(3)] that(1)]] yieldsD [OF deployment_candidate_keyed that(2)]
    by (simp add: eq assms(2) that(4))
  ultimately show ?thesis by blast
qed

definition sample_facts :: webhook_facts where
  "sample_facts = \<lparr>wf_sha = id, wf_repository = ''Raj/LivePulse'', wf_delivery_id = ''d-1'', wf_observed_at = 0\<rparr>"

definition sample_listing :: reconcile_facts where
  "sample_listing = \<lparr>rf_sha = id, rf_repository = ''raj/livepulse'', rf_observed_at = 99\<rparr>"

theorem webhook_reconciliation_agree_witness:
  "\<exists>c ds. pull_changes sample_facts [(''number'', JInt 7), (''action'', JStr ''opened'')] [] = Inr [c]
     \<and> pull_candidate sample_listing [(''number'', JInt 7), (''merged_at'', JStr ''soon'')] = Inr ds
     \<and> length ds = 2 \<and> same_fact c (hd ds)"
proof -
  let ?cs = "pull_changes sample_facts [(''number'', JInt 7), (''action'', JStr ''opened'')] []"
  let ?ds = "pull_candidate sample_listing [(''number'', JInt 7), (''merged_at'', JStr ''soon'')]"
  have "(case (?cs, ?ds) of (Inr [c], Inr [d, e]) \<Rightarrow> gc_event_type c = gc_event_type d | _ \<Rightarrow> False)" by code_simp
  then obtain c d e where r: "?cs = Inr [c]" "?ds = Inr [d, e]" "gc_event_type c = gc_event_type d"
    by (auto split: sum.splits list.splits)
  have "casefold (wf_repository sample_facts) = casefold (rf_repository sample_listing)" by code_simp
  from webhook_reconciliation_agree [OF this, of "[(''number'', JInt 7), (''action'', JStr ''opened'')]" "[]" "[c]"
      "[(''number'', JInt 7), (''merged_at'', JStr ''soon'')]" "[d, e]"] r
  have "agree [c] [d, e]" by (simp add: sample_facts_def sample_listing_def field_def dict_get_or_def)
  with r show ?thesis by (auto simp: agree_def)
qed

section \<open>Deliveries and polls in any order\<close>

datatype github_step =
    Delivery webhook_env headers string instant
  | Poll reconcile_env github_env uuid

text \<open>
  What a step records: the checkpoint keys of the changes it stored; nothing when it was refused,
  repeated or failed.
\<close>

definition recorded :: "github_change observation list \<Rightarrow> string list" where
  "recorded obs = checkpoint_keys (map obs_content obs)"

definition poll_state :: "webhook_state \<Rightarrow> db \<times> github_tracker" where
  "poll_state st = (ws_db st, fst (ws_health st))"

fun github_turn :: "settings \<Rightarrow> reconciliation_source \<Rightarrow> github_step \<Rightarrow> webhook_state \<Rightarrow> string list \<times> webhook_state" where
  "github_turn s src (Delivery env headers body now) st =
     (case process env s headers body now st of
        (Inr (Accepted, obs), st') \<Rightarrow> (recorded obs, st')
      | (_, st') \<Rightarrow> ([], st'))"
| "github_turn s src (Poll env genv correlation) st =
     (case reconcile_and_persist env genv src correlation (poll_state st) of
        (r, d, tr) \<Rightarrow> (case r of Inr obs \<Rightarrow> recorded obs | Inl e \<Rightarrow> [], \<lparr>ws_db = d, ws_health = (tr, snd (ws_health st))\<rparr>))"

fun is_poll :: "github_step \<Rightarrow> bool" where
  "is_poll (Poll env genv correlation) = True"
| "is_poll (Delivery env headers body now) = False"

fun github_history :: "settings \<Rightarrow> reconciliation_source \<Rightarrow> github_step list \<Rightarrow> webhook_state \<Rightarrow> (bool \<times> string list) list" where
  "github_history s src [] st = []"
| "github_history s src (x # xs) st =
     (is_poll x, fst (github_turn s src x st)) # github_history s src xs (snd (github_turn s src x st))"

definition marked :: "string \<Rightarrow> webhook_state \<Rightarrow> bool" where
  "marked k st \<longleftrightarrow> github_checkpoint k (ws_db st) \<noteq> None"

lemma recorded_iff: "k \<in> set (recorded obs) \<longleftrightarrow>
    (\<exists>x \<in> set obs. truthy (gc_checkpoint_key (obs_content x)) \<and> k = the (gc_checkpoint_key (obs_content x)))"
  by (auto simp: recorded_def checkpoint_keys_def split: if_splits)

lemma fresh_unmarked:
  assumes "c \<in> set (fresh_changes cs d)" "truthy (gc_checkpoint_key c)"
  shows "github_checkpoint (the (gc_checkpoint_key c)) d = None"
proof -
  have "the (gc_checkpoint_key c) \<in> set (checkpoint_keys cs)"
    using assms by (auto simp: fresh_changes_def Let_def checkpoint_keys_def)
  then show ?thesis
    using assms github_checkpoints_iff [of _ "checkpoint_keys cs" d] by (auto simp: fresh_changes_def Let_def)
qed

lemma map_r_change_content: "map_r (change_observation t u) cs = Inr obs \<Longrightarrow> map obs_content obs = cs"
  by (induction cs arbitrary: obs) (auto simp: bind_simps change_observation_def observation_new_def)

lemma reconcile_observe_fresh:
  assumes "reconcile_observe env src u d tr = (Inr obs, tr')" "k \<in> set (recorded obs)"
  shows "github_checkpoint k d = None"
proof -
  obtain cs where "map_r (change_observation (ce_observed env) u) (fresh_changes cs d) = Inr obs"
    using assms(1) by (auto simp: reconcile_observe_def Let_def split: sum.splits prod.splits)
  then have "map obs_content obs = fresh_changes cs d" by (rule map_r_change_content)
  then have "obs_content x \<in> set (fresh_changes cs d)" if "x \<in> set obs" for x using that by (metis image_eqI set_map)
  with assms(2) fresh_unmarked show ?thesis by (auto simp: recorded_iff)
qed

lemma poll_step:
  assumes "reconcile_and_persist env genv src u (d, tr) = (r, d', tr')"
  shows "github_checkpoint k d \<noteq> None \<Longrightarrow> github_checkpoint k d' \<noteq> None"
    and "r = Inr obs \<Longrightarrow> k \<in> set (recorded obs) \<Longrightarrow> github_checkpoint k d = None \<and> github_checkpoint k d' \<noteq> None"
    and "db_ok (ge_hash genv) d \<Longrightarrow> db_ok (ge_hash genv) d'"
proof -
  consider (same) "d' = d" "isl r" | (stored) xs n tr1 where "reconcile_observe env src u d tr = (Inr xs, tr1)" "r = Inr xs"
      "persist_in_session genv u 0 xs d = Inr (n, d')"
    using assms by (auto simp: reconcile_and_persist_def persist_observations_def split: prod.splits sum.splits)
  note cases = this
  show "github_checkpoint k d \<noteq> None \<Longrightarrow> github_checkpoint k d' \<noteq> None"
    using cases by cases (use persist_in_session_keeps(1) in \<open>fastforce simp: keeps_def\<close>)+
  show "github_checkpoint k d = None \<and> github_checkpoint k d' \<noteq> None" if "r = Inr obs" "k \<in> set (recorded obs)"
    using cases
  proof cases
    case (stored xs n tr1)
    with that(1) have "xs = obs" by simp
    with reconcile_observe_fresh [OF _ that(2)] persist_in_session_keeps(2) [OF stored(3)] stored(1) that(2)
    show ?thesis by (fastforce simp: recorded_iff)
  qed (use that in simp)
  show "db_ok (ge_hash genv) d \<Longrightarrow> db_ok (ge_hash genv) d'"
    using cases by cases (use persist_in_session_keeps(1) in \<open>fastforce simp: keeps_def\<close>)+
qed

lemma process_accepted:
  assumes "process env s headers body now st = (Inr (Accepted, obs), st')"
  shows "obs = [] \<or> persist_webhook_delivery (store_env env) (delivery_of headers) (header_or headers ''x-github-event'')
    obs now (ws_db st) = Inr (True, ws_db st')"
proof -
  have "deliver env s headers body (delivery_of headers) now (ws_db st) = Inr ((Accepted, obs), ws_db st')"
    using assms by (auto simp: process_def Let_def delivery_of_def split: if_splits sum.splits)
  then show ?thesis by (auto simp: deliver_def bind_simps split: option.splits json.splits if_splits)
qed

lemma process_marks:
  assumes "process env s headers body now st = (r, st')"
  shows "marked k st \<Longrightarrow> marked k st'"
    and "r = Inr (Accepted, obs) \<Longrightarrow> k \<in> set (recorded obs) \<Longrightarrow> marked k st'"
proof -
  show "marked k st'" if m: "marked k st"
  proof (cases "ws_db st' = ws_db st")
    case False
    then obtain obs where p: "persist_webhook_delivery (store_env env) (delivery_of headers) (header_or headers ''x-github-event'')
        obs now (ws_db st) = Inr (True, ws_db st')" using process_db_change [OF assms] by metis
    show ?thesis using delivery_outcome(4) [OF p] m by (auto simp: marked_def keeps_def)
  qed (use m in \<open>simp add: marked_def\<close>)
  show "marked k st'" if r: "r = Inr (Accepted, obs)" and k: "k \<in> set (recorded obs)"
  proof -
    have "obs \<noteq> []" using k by (auto simp: recorded_iff)
    with process_accepted [OF assms [unfolded r]] obtain n where
      "persist_in_session (store_env env) (ge_uuid (store_env env) 0) 1 obs
        (upsert_checkpoint (store_env env) (delivery_key (delivery_of headers)) (take 255 (header_or headers ''x-github-event'')) now (ws_db st)) = Inr (n, ws_db st')"
      by (auto simp: persist_webhook_delivery_def bind_simps split: if_splits)
    from persist_in_session_keeps(2) [OF this] k show ?thesis by (auto simp: marked_def recorded_iff)
  qed
qed

lemma github_turn_marks:
  shows "marked k st \<Longrightarrow> marked k (snd (github_turn s src x st))"
    and "k \<in> set (fst (github_turn s src x st)) \<Longrightarrow> marked k (snd (github_turn s src x st)) \<and> (is_poll x \<longrightarrow> \<not> marked k st)"
proof -
  have "(marked k st \<longrightarrow> marked k (snd (github_turn s src x st)))
    \<and> (k \<in> set (fst (github_turn s src x st)) \<longrightarrow> marked k (snd (github_turn s src x st)) \<and> (is_poll x \<longrightarrow> \<not> marked k st))"
  proof (cases x)
    case (Delivery env headers body now)
    obtain r st' where p: "process env s headers body now st = (r, st')" by (cases "process env s headers body now st")
    show ?thesis using process_marks [OF p, where k = k]
      by (auto simp: Delivery p split: sum.splits webhook_result.splits prod.splits)
  next
    case (Poll env genv u)
    obtain r d tr where p: "reconcile_and_persist env genv src u (ws_db st, fst (ws_health st)) = (r, d, tr)"
      by (cases "reconcile_and_persist env genv src u (ws_db st, fst (ws_health st))")
    show ?thesis using poll_step(1,2) [OF p, where k = k]
      by (auto simp: Poll poll_state_def p marked_def split: sum.splits)
  qed
  then show "marked k st \<Longrightarrow> marked k (snd (github_turn s src x st))"
    "k \<in> set (fst (github_turn s src x st)) \<Longrightarrow> marked k (snd (github_turn s src x st)) \<and> (is_poll x \<longrightarrow> \<not> marked k st)"
    by blast+
qed

lemma history_unmarked:
  "(True, ks) \<in> set (github_history s src xs st) \<Longrightarrow> k \<in> set ks \<Longrightarrow> \<not> marked k st"
proof (induction xs arbitrary: st)
  case (Cons x xs)
  then show ?case using github_turn_marks [where k = k and st = st and s = s and src = src and x = x] by fastforce
qed simp

text \<open>
  C16.  A poll never reports what is recorded already.  In any sequence of deliveries and polls, with
  whatever GitHub sends and answers and whatever fails between: no poll stores a change whose checkpoint
  an earlier delivery or an earlier poll has stored.
\<close>

theorem polls_report_only_news:
  "sorted_wrt (\<lambda>(p, ks) (q, ls). q \<longrightarrow> set ks \<inter> set ls = {}) (github_history s src xs st)"
proof (induction xs arbitrary: st)
  case (Cons x xs)
  let ?st = "snd (github_turn s src x st)"
  have "q \<longrightarrow> set (fst (github_turn s src x st)) \<inter> set ls = {}" if "(q, ls) \<in> set (github_history s src xs ?st)" for q ls
    using that history_unmarked [where ks = ls and s = s and src = src and xs = xs and st = ?st] github_turn_marks(2) [where st = st and s = s and src = src and x = x] by (cases q) auto
  then show ?case using Cons.IH by auto
qed simp

definition sample_rest :: rest_env where
  "sample_rest = \<lparr>re_send = (\<lambda>n url hs. Github_response 200 [] (if n = 0 then ''p'' else [])), re_now = (\<lambda>n. 0),
     re_json = (\<lambda>b. Some (if b = ''p'' then JList [JDict [(''number'', JInt 7)], JDict [(''number'', JInt 8)]] else JNull)),
     re_parse_date = (\<lambda>t. None)\<rparr>"

definition sample_poll :: github_step where
  "sample_poll = Poll \<lparr>ce_rest = sample_rest, ce_sha = id, ce_observed = 0, ce_failed = 0\<rparr>
     \<lparr>ge_hash = id, ge_topic = ''t'', ge_now = 0, ge_uuid = (\<lambda>i. i + 100), ge_loads = (\<lambda>v. None)\<rparr> 9"

definition sample_github_source :: reconciliation_source where
  "sample_github_source = \<lparr>rs_owner = ''Raj'', rs_token = ''t'', rs_repos = [''LivePulse'']\<rparr>"

text \<open>A delivery reports pull request 7 as opened; the poll that lists 7 and 8 reports 8; the next poll nothing.\<close>

theorem polls_report_only_news_witness:
  "map (\<lambda>(p, ks). (p, length ks)) (github_history sample_github_settings sample_github_source
     [Delivery sample_webhook_env sample_headers [] 0, sample_poll, sample_poll] sample_webhook_state)
     = [(False, 1), (True, 1), (True, 0)]
   \<and> sorted_wrt (\<lambda>(p, ks) (q, ls). q \<longrightarrow> set ks \<inter> set ls = {}) (github_history sample_github_settings sample_github_source
     [Delivery sample_webhook_env sample_headers [] 0, sample_poll, sample_poll] sample_webhook_state)"
proof
  show "map (\<lambda>(p, ks). (p, length ks)) (github_history sample_github_settings sample_github_source
     [Delivery sample_webhook_env sample_headers [] 0, sample_poll, sample_poll] sample_webhook_state)
     = [(False, 1), (True, 1), (True, 0)]" by code_simp
qed (rule polls_report_only_news)

end
