(* ===== verification/Weather_Client.thy ===== *)
theory Weather_Client
  imports Github_Client Scheduler
begin

text \<open>
  \<open>backend/app/providers/weather/client.py\<close>: the Open-Meteo request and the conditions a forecast is
  normalised to.  The transport, the validation of the raw forecast by \<open>pydantic\<close>, \<open>ZoneInfo\<close> and
  \<open>parsedate_to_datetime\<close> are parameters; floating point numbers are rational numbers.
\<close>

section \<open>Conditions\<close>

record conditions =
  wc_observed_at :: instant
  wc_local_time :: string
  wc_timezone :: string
  wc_temperature_f :: rat
  wc_apparent_temperature_f :: rat
  wc_weather_code :: int
  wc_category :: string
  wc_description :: string
  wc_precipitation_in :: rat
  wc_wind_speed_mph :: rat
  wc_high_f :: rat
  wc_low_f :: rat
  wc_precipitation_probability_max_pct :: "int option"

definition normalize_weather_code :: "int \<Rightarrow> string \<times> string" where
  "normalize_weather_code code =
     (if code = 0 then (''clear'', ''Clear'')
      else if code = 1 then (''cloudy'', ''Mainly clear'')
      else if code = 2 then (''cloudy'', ''Partly cloudy'')
      else if code = 3 then (''cloudy'', ''Overcast'')
      else if code \<in> {45, 48} then (''fog'', ''Fog'')
      else if code \<in> {51, 53, 55, 56, 57} then (''drizzle'', ''Drizzle'')
      else if code \<in> {61, 63, 65, 66, 67, 80, 81, 82} then (''rain'', ''Rain'')
      else if code \<in> {71, 73, 75, 77, 85, 86} then (''snow'', ''Snow'')
      else if code \<in> {95, 96, 99} then (''thunderstorm'', ''Thunderstorm'')
      else (''unknown'', ''Conditions unavailable''))"

section \<open>The forecast\<close>

text \<open>The models of the vendor's response; \<open>extra\<close> fields are ignored by the validation.\<close>

record raw_forecast =
  rw_time :: string
  rw_temperature_2m :: rat
  rw_apparent_temperature :: rat
  rw_weather_code :: int
  rw_precipitation :: rat
  rw_wind_speed_10m :: rat
  rw_daily_time :: "string list"
  rw_temperature_2m_max :: "rat list"
  rw_temperature_2m_min :: "rat list"
  rw_precipitation_probability_max :: "rat option list"

text \<open>A time zone: its offset at a local time, and at an instant.\<close>

record zone =
  zn_local :: "int \<Rightarrow> timedelta"
  zn_utc :: "instant \<Rightarrow> timedelta"

text \<open>\<open>isoformat()\<close> of an aware local time.\<close>

definition offset_str :: "timedelta \<Rightarrow> string" where
  "offset_str off = (let s = \<bar>off\<bar> div 1000000 in
     (if off < 0 then ''-'' else ''+'') @ pad 2 (s div 3600) @ '':'' @ pad 2 (s mod 3600 div 60)
     @ (if s mod 60 = 0 then [] else '':'' @ pad 2 (s mod 60)))"

definition local_isoformat :: "int \<Rightarrow> timedelta \<Rightarrow> string" where
  "local_isoformat wall off = (let t = isoformat wall in take (length t - 6) t @ offset_str off)"

record weather_env =
  we_send :: "nat \<Rightarrow> string \<Rightarrow> github_exchange"
  we_body :: "string \<Rightarrow> json option"
  we_now :: "nat \<Rightarrow> instant"
  we_parse_date :: "string \<Rightarrow> py_datetime option"
  we_validate :: "json \<Rightarrow> raw_forecast option"
  we_zone :: "string \<Rightarrow> zone option"

definition local_time_of :: "zone \<Rightarrow> py_datetime \<Rightarrow> (int \<times> timedelta) result" where
  "local_time_of z t = (case t of
      Naive w \<Rightarrow> Inr (w, zn_local z w)
    | Aware w off \<Rightarrow> (let u = w - off in bind_r (in_range (u + zn_utc z u)) (\<lambda>v. Inr (v, zn_utc z u))))"

definition parse_forecast :: "weather_env \<Rightarrow> json \<Rightarrow> string \<Rightarrow> conditions result" where
  "parse_forecast env payload tz =
     (case we_validate env payload of None \<Rightarrow> Inl (ValidationError ''_RawForecast'') | Some f \<Rightarrow>
      (case we_zone env tz of None \<Rightarrow> Inl (KeyError tz) | Some z \<Rightarrow>
       (case fromisoformat (rw_time f) of None \<Rightarrow> Inl (ValueError ''Invalid isoformat string'') | Some t \<Rightarrow>
        bind_r (local_time_of z t) (\<lambda>(wall, off).
        bind_r (ensure (rw_daily_time f \<noteq> [] \<and> rw_temperature_2m_max f \<noteq> [] \<and> rw_temperature_2m_min f \<noteq> [])
          (ValueError ''Open-Meteo response has no daily temperature context'')) (\<lambda>_.
        bind_r (in_range (wall - off)) (\<lambda>observed.
         (let (category, description) = normalize_weather_code (rw_weather_code f);
              probability = (case rw_precipitation_probability_max f of [] \<Rightarrow> None | p # _ \<Rightarrow> p)
          in Inr \<lparr>wc_observed_at = observed, wc_local_time = local_isoformat wall off, wc_timezone = tz,
               wc_temperature_f = rw_temperature_2m f, wc_apparent_temperature_f = rw_apparent_temperature f,
               wc_weather_code = rw_weather_code f, wc_category = category, wc_description = description,
               wc_precipitation_in = rw_precipitation f, wc_wind_speed_mph = rw_wind_speed_10m f,
               wc_high_f = hd (rw_temperature_2m_max f), wc_low_f = hd (rw_temperature_2m_min f),
               wc_precipitation_probability_max_pct = map_option round_half_even probability\<rparr>)))))))"

section \<open>The request\<close>

datatype weather_failure = Weather_error int string "instant option" | Weather_cancelled | Weather_raised py_error

type_synonym 'a weather = "(nat, weather_failure, 'a) prog"

definition weather_retry_time :: "(string \<Rightarrow> py_datetime option) \<Rightarrow> headers \<Rightarrow> instant \<Rightarrow> instant option result" where
  "weather_retry_time parse_date headers now =
     (let retry = github_header headers ''retry-after'' in
      if \<not> truthy retry then Inr None
      else (case parse_int (the retry) of
          Some n \<Rightarrow> bind_r (in_range (now + seconds (max 0 n))) (\<lambda>t. Inr (Some t))
        | None \<Rightarrow> (case parse_date (the retry) of
              Some (Aware w off) \<Rightarrow> (case in_range (w - off) of Inl e \<Rightarrow> Inr None | Inr t \<Rightarrow> Inr (Some t))
            | _ \<Rightarrow> Inr None)))"

definition CURRENT_FIELDS :: "string list" where
  "CURRENT_FIELDS = [''temperature_2m'', ''apparent_temperature'', ''weather_code'', ''precipitation'', ''wind_speed_10m'']"

definition DAILY_FIELDS :: "string list" where
  "DAILY_FIELDS = [''temperature_2m_max'', ''temperature_2m_min'', ''precipitation_probability_max'']"

definition OPEN_METEO_ENDPOINT :: string where
  "OPEN_METEO_ENDPOINT = ''https://api.open-meteo.com/v1/forecast''"

text \<open>The coordinates as \<open>str(float)\<close> prints them.\<close>

definition forecast_url :: "string \<Rightarrow> string \<Rightarrow> string \<Rightarrow> string" where
  "forecast_url latitude longitude tz = OPEN_METEO_ENDPOINT @ ''?'' @ urlencode
     [(''latitude'', latitude), (''longitude'', longitude), (''timezone'', tz),
      (''temperature_unit'', ''fahrenheit''), (''wind_speed_unit'', ''mph''), (''precipitation_unit'', ''inch''),
      (''forecast_days'', ''1''), (''current'', join '','' CURRENT_FIELDS), (''daily'', join '','' DAILY_FIELDS)]"

definition read_forecast :: "weather_env \<Rightarrow> nat \<Rightarrow> github_exchange \<Rightarrow> weather_failure + json" where
  "read_forecast env turn x = (case x of
      Network_error \<Rightarrow> Inl (Weather_error 0 ''weather_network_error'' None)
    | Cancelled_exchange \<Rightarrow> Inl Weather_cancelled
    | Other_exception e \<Rightarrow> Inl (Weather_raised e)
    | Github_response status headers body \<Rightarrow>
        if status = 429 then
          (case weather_retry_time (we_parse_date env) headers (we_now env turn) of
             Inl e \<Rightarrow> Inl (Weather_raised e)
           | Inr t \<Rightarrow> Inl (Weather_error status ''weather_rate_limited'' t))
        else if 500 \<le> status then Inl (Weather_error status ''weather_server_error'' None)
        else if \<not> (200 \<le> status \<and> status < 300) then Inl (Weather_error status ''weather_api_error'' None)
        else (case we_body env body of
            None \<Rightarrow> Inl (Weather_error status ''weather_invalid_response'' None) | Some v \<Rightarrow> Inr v))"

definition forecast :: "weather_env \<Rightarrow> string \<Rightarrow> string \<Rightarrow> string \<Rightarrow> json weather" where
  "forecast env latitude longitude tz turn =
     (read_forecast env turn (we_send env turn (forecast_url latitude longitude tz)), Suc turn)"

lemma normalize_weather_code_total:
  "fst (normalize_weather_code code) \<in> {''clear'', ''cloudy'', ''fog'', ''drizzle'', ''rain'', ''snow'', ''thunderstorm'', ''unknown''}"
  by (simp add: normalize_weather_code_def)

end
