(* ===== verification/Weather_Locations.thy ===== *)
theory Weather_Locations
  imports Weather_Client
begin

text \<open>
  \<open>backend/app/providers/weather/location.py\<close>, \<open>geocoding.py\<close> and \<open>locations.py\<close>: places, the search and
  the reverse lookup, and the durable selection with its five recent places.  \<open>uuid5\<close> is
  \<open>uuid.uuid5\<close> in the URL name space; \<open>known_zone\<close> says whether \<open>ZoneInfo\<close> accepts a name.
\<close>

section \<open>Places\<close>

record location =
  lo_id :: uuid
  lo_display_name :: string
  lo_city :: string
  lo_region :: "string option"
  lo_country :: string
  lo_latitude :: rat
  lo_longitude :: rat
  lo_timezone :: string
  lo_selected_at :: "instant option"
  lo_last_used_at :: "instant option"

definition location_ok :: "(string \<Rightarrow> bool) \<Rightarrow> location \<Rightarrow> bool" where
  "location_ok known_zone l \<longleftrightarrow>
     1 \<le> length (lo_display_name l) \<and> length (lo_display_name l) \<le> 240
     \<and> 1 \<le> length (lo_city l) \<and> length (lo_city l) \<le> 120 \<and> opt_max 120 (lo_region l)
     \<and> 1 \<le> length (lo_country l) \<and> length (lo_country l) \<le> 120
     \<and> -90 \<le> lo_latitude l \<and> lo_latitude l \<le> 90 \<and> -180 \<le> lo_longitude l \<and> lo_longitude l \<le> 180
     \<and> 1 \<le> length (lo_timezone l) \<and> length (lo_timezone l) \<le> 100 \<and> known_zone (lo_timezone l)"

definition location_new :: "(string \<Rightarrow> bool) \<Rightarrow> location \<Rightarrow> location result" where
  "location_new known_zone l = bind_r (ensure (location_ok known_zone l) (ValidationError ''WeatherLocation'')) (\<lambda>_. Inr l)"

text \<open>\<open>f"{x:.5f}"\<close>.\<close>

definition fixed5 :: "rat \<Rightarrow> string" where
  "fixed5 x = (let n = round_half_even (\<bar>x\<bar> * 100000) in
     (if x < 0 then ''-'' else []) @ int_str (n div 100000) @ ''.'' @ pad 5 (n mod 100000))"

definition local_location_id :: "(string \<Rightarrow> uuid) \<Rightarrow> string \<Rightarrow> string option \<Rightarrow> string \<Rightarrow> rat \<Rightarrow> rat \<Rightarrow> uuid" where
  "local_location_id uuid5 city region country latitude longitude =
     uuid5 (''livepulse:weather-location:'' @ join ''|''
       [casefold (strip city), casefold (strip (case region of None \<Rightarrow> [] | Some r \<Rightarrow> r)), casefold (strip country),
        fixed5 latitude, fixed5 longitude])"

fun name_parts :: "string list \<Rightarrow> string list \<Rightarrow> string list" where
  "name_parts [] parts = parts"
| "name_parts (p # ps) parts =
     (let v = strip p in
      name_parts ps (if v \<noteq> [] \<and> list_all (\<lambda>item. casefold v \<noteq> casefold item) parts then parts @ [v] else parts))"

definition display_name :: "string \<Rightarrow> string option \<Rightarrow> string \<Rightarrow> string" where
  "display_name city region country =
     join '', '' (name_parts [city, case region of None \<Rightarrow> [] | Some r \<Rightarrow> r, country] [])"

section \<open>The geocoder\<close>

record open_meteo_result =
  om_name :: string
  om_latitude :: rat
  om_longitude :: rat
  om_timezone :: string
  om_country :: string
  om_admin1 :: "string option"

record nominatim_address =
  na_city :: "string option"
  na_town :: "string option"
  na_village :: "string option"
  na_municipality :: "string option"
  na_hamlet :: "string option"
  na_suburb :: "string option"
  na_county :: "string option"
  na_state :: "string option"
  na_state_district :: "string option"
  na_region :: "string option"
  na_country :: string

datatype geo_failure = Geocoding_error string | Geo_cancelled | Geo_raised py_error

text \<open>
  The environment: the transport by turn, the clock (\<open>monotonic\<close> seconds) by its calls, the
  validation of the two responses, and the parameters above.
\<close>

record geo_env =
  go_send :: "nat \<Rightarrow> string \<Rightarrow> headers \<Rightarrow> github_exchange"
  go_clock :: "nat \<Rightarrow> rat"
  go_search :: "string \<Rightarrow> open_meteo_result list option"
  go_reverse :: "string \<Rightarrow> nominatim_address option"
  go_uuid5 :: "string \<Rightarrow> uuid"
  go_zone :: "string \<Rightarrow> bool"
  go_str :: "rat \<Rightarrow> string"

record geocoder =
  gc_turn :: nat
  gc_ticks :: nat
  gc_cache :: "(string \<times> rat \<times> location list) list"
  gc_last_reverse_at :: rat
  gc_slept :: "rat list"

type_synonym 'a geo = "(geocoder, geo_failure, 'a) prog"

definition geocoder_new :: geocoder where
  "geocoder_new = \<lparr>gc_turn = 0, gc_ticks = 0, gc_cache = [], gc_last_reverse_at = 0, gc_slept = []\<rparr>"

definition geo_clock :: "geo_env \<Rightarrow> rat geo" where
  "geo_clock env g = (Inr (go_clock env (gc_ticks g)), g\<lparr>gc_ticks := Suc (gc_ticks g)\<rparr>)"

definition geo_request :: "geo_env \<Rightarrow> string \<Rightarrow> headers \<Rightarrow> string geo" where
  "geo_request env url hs g =
     ((case go_send env (gc_turn g) url hs of
         Network_error \<Rightarrow> Inl (Geocoding_error ''location_search_unavailable'')
       | Cancelled_exchange \<Rightarrow> Inl Geo_cancelled
       | Other_exception e \<Rightarrow> Inl (Geo_raised e)
       | Github_response status rh body \<Rightarrow>
           if \<not> (200 \<le> status \<and> status < 300) then Inl (Geocoding_error ''location_search_unavailable'') else Inr body),
      g\<lparr>gc_turn := Suc (gc_turn g)\<rparr>)"

definition optional_text :: "string option \<Rightarrow> string option" where
  "optional_text v = (case v of None \<Rightarrow> None | Some s \<Rightarrow> if s \<noteq> [] \<and> strip s \<noteq> [] then Some (strip s) else None)"

definition normalize_open_meteo :: "geo_env \<Rightarrow> open_meteo_result \<Rightarrow> location result" where
  "normalize_open_meteo env r =
     (let city = strip (om_name r); region = optional_text (om_admin1 r); country = strip (om_country r) in
      location_new (go_zone env)
        \<lparr>lo_id = local_location_id (go_uuid5 env) city region country (om_latitude r) (om_longitude r),
         lo_display_name = display_name city region country, lo_city = city, lo_region = region, lo_country = country,
         lo_latitude = om_latitude r, lo_longitude = om_longitude r, lo_timezone = om_timezone r,
         lo_selected_at = None, lo_last_used_at = None\<rparr>)"

definition CACHE_TTL :: rat where "CACHE_TTL = 600"
definition CACHE_SIZE :: nat where "CACHE_SIZE = 128"

text \<open>The cache keeps its entries in order of use, the oldest first.\<close>

definition cache_put :: "string \<Rightarrow> rat \<times> location list \<Rightarrow> (string \<times> rat \<times> location list) list \<Rightarrow> (string \<times> rat \<times> location list) list" where
  "cache_put key v c = (let c' = filter (\<lambda>e. fst e \<noteq> key) c @ [(key, v)] in drop (length c' - CACHE_SIZE) c')"

definition OPEN_METEO_GEOCODING_ENDPOINT :: string where
  "OPEN_METEO_GEOCODING_ENDPOINT = ''https://geocoding-api.open-meteo.com/v1/search''"

definition search_url :: "string \<Rightarrow> string" where
  "search_url q = OPEN_METEO_GEOCODING_ENDPOINT @ ''?'' @ urlencode
     [(''name'', q), (''count'', ''6''), (''language'', ''en''), (''format'', ''json'')]"

definition search_remote :: "geo_env \<Rightarrow> string \<Rightarrow> string \<Rightarrow> location list geo" where
  "search_remote env q key =
     bind_p (geo_request env (search_url q) [(''Accept'', ''application/json'')]) (\<lambda>body.
     case go_search env body of
       None \<Rightarrow> raise_p (Geocoding_error ''location_search_invalid_response'')
     | Some results \<Rightarrow>
         bind_p (lift_p Geo_raised (map_r (normalize_open_meteo env) results)) (\<lambda>locations.
         bind_p (geo_clock env) (\<lambda>now.
         bind_p (modify_p (\<lambda>g. g\<lparr>gc_cache := cache_put key (now + CACHE_TTL, locations) (gc_cache g)\<rparr>)) (\<lambda>_.
         return_p locations))))"

definition geo_search :: "geo_env \<Rightarrow> string \<Rightarrow> location list geo" where
  "geo_search env query =
     (let q = strip query; key = casefold q in
      if \<not> (2 \<le> length q \<and> length q \<le> 80) then return_p [] else
      bind_p (geo_clock env) (\<lambda>now.
      bind_p (read_p (\<lambda>g. map_of (gc_cache g) key)) (\<lambda>cached.
      case cached of
        Some (expires, xs) \<Rightarrow>
          if expires > now then
            bind_p (modify_p (\<lambda>g. g\<lparr>gc_cache := filter (\<lambda>e. fst e \<noteq> key) (gc_cache g) @ [(key, expires, xs)]\<rparr>)) (\<lambda>_. return_p xs)
          else bind_p (modify_p (\<lambda>g. g\<lparr>gc_cache := filter (\<lambda>e. fst e \<noteq> key) (gc_cache g)\<rparr>)) (\<lambda>_. search_remote env q key)
      | None \<Rightarrow> search_remote env q key)))"

text \<open>
  The reverse lookup waits until a second has passed since the last one; \<open>gc_slept\<close> records the
  waits.
\<close>

definition OPEN_STREET_MAP_REVERSE_ENDPOINT :: string where
  "OPEN_STREET_MAP_REVERSE_ENDPOINT = ''https://nominatim.openstreetmap.org/reverse''"

definition reverse_url :: "geo_env \<Rightarrow> rat \<Rightarrow> rat \<Rightarrow> string" where
  "reverse_url env latitude longitude = OPEN_STREET_MAP_REVERSE_ENDPOINT @ ''?'' @ urlencode
     [(''lat'', go_str env latitude), (''lon'', go_str env longitude), (''format'', ''jsonv2''), (''addressdetails'', ''1'')]"

fun first_text :: "string option list \<Rightarrow> string option" where
  "first_text [] = None"
| "first_text (v # vs) = (if has v then v else first_text vs)"

fun first_truthy :: "string option list \<Rightarrow> string option" where
  "first_truthy [] = None"
| "first_truthy [v] = v"
| "first_truthy (v # vs) = (if truthy v then v else first_truthy vs)"

definition reverse_location :: "geo_env \<Rightarrow> nominatim_address \<Rightarrow> rat \<Rightarrow> rat \<Rightarrow> string \<Rightarrow> geo_failure + location" where
  "reverse_location env a latitude longitude tz =
     (case first_text [na_city a, na_town a, na_village a, na_municipality a, na_hamlet a, na_suburb a, na_county a] of
        None \<Rightarrow> Inl (Geocoding_error ''weather_location_reverse_lookup_failed'')
      | Some city \<Rightarrow>
          (let region = first_truthy [na_state a, na_state_district a, na_region a] in
           case location_new (go_zone env)
             \<lparr>lo_id = local_location_id (go_uuid5 env) city region (na_country a) latitude longitude,
              lo_display_name = display_name city region (na_country a), lo_city = city, lo_region = region,
              lo_country = na_country a, lo_latitude = latitude, lo_longitude = longitude, lo_timezone = tz,
              lo_selected_at = None, lo_last_used_at = None\<rparr> of
             Inl e \<Rightarrow> Inl (Geo_raised e) | Inr l \<Rightarrow> Inr l))"

definition reverse_configured_coordinates :: "geo_env \<Rightarrow> rat \<Rightarrow> rat \<Rightarrow> string \<Rightarrow> location geo" where
  "reverse_configured_coordinates env latitude longitude tz =
     bind_p (geo_clock env) (\<lambda>now.
     bind_p (modify_p (\<lambda>g. let wait = 1 - (now - gc_last_reverse_at g) in
       if gc_last_reverse_at g \<noteq> 0 \<and> 0 < wait then g\<lparr>gc_slept := gc_slept g @ [wait]\<rparr> else g)) (\<lambda>_.
     bind_p (geo_clock env) (\<lambda>later.
     bind_p (modify_p (\<lambda>g. g\<lparr>gc_last_reverse_at := later\<rparr>)) (\<lambda>_.
     bind_p (geo_request env (reverse_url env latitude longitude)
       [(''Accept'', ''application/json''), (''User-Agent'', ''LivePulse/0.1.0 (weather coordinate bootstrap)'')]) (\<lambda>body.
     (case go_reverse env body of
        None \<Rightarrow> raise_p (Geocoding_error ''weather_location_reverse_lookup_failed'')
      | Some a \<Rightarrow> (case reverse_location env a latitude longitude tz of Inl e \<Rightarrow> raise_p e | Inr l \<Rightarrow> return_p l)))))))"

section \<open>The selection\<close>

text \<open>
  The two tables: the recent places, and the one row of the selection (absent, or the selected
  place, which the foreign key sets to \<open>NULL\<close> when the place is deleted).
\<close>

record location_store =
  ls_rows :: "location list"
  ls_selection :: "(uuid option \<times> instant) option"

definition RECENT_LOCATION_LIMIT :: nat where "RECENT_LOCATION_LIMIT = 5"

text \<open>\<open>ORDER BY last_used_at DESC, id\<close>.\<close>

definition by_recency :: "location list \<Rightarrow> location list" where
  "by_recency rows = sort_key (\<lambda>r. - (case lo_last_used_at r of Some t \<Rightarrow> t | None \<Rightarrow> 0)) (sort_key lo_id rows)"

definition recent_locations :: "location_store \<Rightarrow> location list" where
  "recent_locations s = take RECENT_LOCATION_LIMIT (by_recency (ls_rows s))"

definition selected_location :: "location_store \<Rightarrow> location option" where
  "selected_location s = (case ls_selection s of
     Some (Some i, t) \<Rightarrow> find_row lo_id i (ls_rows s) | _ \<Rightarrow> None)"

definition select_location :: "(string \<Rightarrow> uuid) \<Rightarrow> location \<Rightarrow> instant \<Rightarrow> location_store \<Rightarrow> location \<times> location_store" where
  "select_location uuid5 candidate now s =
     (let i = local_location_id uuid5 (lo_city candidate) (lo_region candidate) (lo_country candidate)
                (lo_latitude candidate) (lo_longitude candidate);
          row = candidate\<lparr>lo_id := i, lo_selected_at := Some now, lo_last_used_at := Some now\<rparr>;
          rows = upsert lo_id row (ls_rows s);
          keep = map lo_id (take RECENT_LOCATION_LIMIT (by_recency rows));
          selection = (if i \<in> set keep then Some i else None)
      in (row, \<lparr>ls_rows = filter (\<lambda>r. lo_id r \<in> set keep) rows, ls_selection = Some (selection, now)\<rparr>))"

text \<open>\<open>bootstrap_configured_location\<close> and the reader of the poll.\<close>

definition weather_configured :: "settings \<Rightarrow> bool" where
  "weather_configured s = (weather_latitude (providers s) \<noteq> None \<and> weather_longitude (providers s) \<noteq> None
     \<and> has (weather_timezone (providers s)))"

definition bootstrap_location :: "geo_env \<Rightarrow> settings \<Rightarrow> instant \<Rightarrow> geocoder \<times> location_store
    \<Rightarrow> (geo_failure + location option) \<times> geocoder \<times> location_store" where
  "bootstrap_location env s now st =
     (case st of (g, store) \<Rightarrow>
      if selected_location store \<noteq> None \<or> \<not> weather_configured s then (Inr (selected_location store), g, store)
      else (case reverse_configured_coordinates env (the (weather_latitude (providers s)))
                   (the (weather_longitude (providers s))) (the (weather_timezone (providers s))) g of
          (Inl e, g') \<Rightarrow> (Inl e, g', store)
        | (Inr l, g') \<Rightarrow> (case select_location (go_uuid5 env) l now store of (row, store') \<Rightarrow> (Inr (Some row), g', store'))))"

definition location_for_poll :: "geo_env \<Rightarrow> settings \<Rightarrow> instant \<Rightarrow> geocoder \<times> location_store
    \<Rightarrow> (geo_failure + location option) \<times> geocoder \<times> location_store" where
  "location_for_poll env s now st =
     (if selected_location (snd st) \<noteq> None \<or> \<not> weather_configured s
      then (Inr (selected_location (snd st)), st) else bootstrap_location env s now st)"

text \<open>The state the routes show: an unavailable geocoder leaves no selection, but no error either.\<close>

definition location_state :: "geo_env \<Rightarrow> settings \<Rightarrow> instant \<Rightarrow> geocoder \<times> location_store
    \<Rightarrow> (geo_failure + location option \<times> location list) \<times> geocoder \<times> location_store" where
  "location_state env s now st =
     (if selected_location (snd st) = None \<and> weather_configured s then
        (case bootstrap_location env s now st of
           (Inr l, g, store) \<Rightarrow> (Inr (l, recent_locations store), g, store)
         | (Inl (Geocoding_error c), g, store) \<Rightarrow> (Inr (None, recent_locations store), g, store)
         | (Inl e, g, store) \<Rightarrow> (Inl e, g, store))
      else (Inr (selected_location (snd st), recent_locations (snd st)), st))"

end
