(* ===== verification/Weather_Selection.thy ===== *)
theory Weather_Selection
  imports Weather_Locations
begin

text \<open>
  What a selection leaves behind: the chosen place selected, at most five places, the least recently
  used ones gone.  The prune goes by the clock, so it can also remove the place just selected.
\<close>

definition last_used :: "location \<Rightarrow> instant" where
  "last_used r = (case lo_last_used_at r of Some t \<Rightarrow> t | None \<Rightarrow> 0)"

text \<open>The keys of the two tables, and the limit.\<close>

definition places_ok :: "location_store \<Rightarrow> bool" where
  "places_ok s \<longleftrightarrow> distinct (map lo_id (ls_rows s)) \<and> length (ls_rows s) \<le> RECENT_LOCATION_LIMIT
     \<and> (case ls_selection s of Some (Some i, t) \<Rightarrow> i \<in> lo_id ` set (ls_rows s) | _ \<Rightarrow> True)"

lemma set_by_recency [simp]: "set (by_recency rows) = set rows"
  by (simp add: by_recency_def)

lemma length_by_recency [simp]: "length (by_recency rows) = length rows"
  by (simp add: by_recency_def)

lemma sorted_by_recency: "sorted (map (\<lambda>r. - last_used r) (by_recency rows))"
  unfolding by_recency_def last_used_def [symmetric] by simp

lemma distinct_by_recency: "distinct (map lo_id rows) \<Longrightarrow> distinct (map lo_id (by_recency rows))"
  by (simp add: by_recency_def distinct_map)

lemma recent_prefix:
  assumes "a \<in> set (take n (by_recency rows))" "b \<in> set (drop n (by_recency rows))"
  shows "last_used b \<le> last_used a"
proof -
  have "sorted (map (\<lambda>r. - last_used r) (take n (by_recency rows) @ drop n (by_recency rows)))"
    using sorted_by_recency [of rows] by simp
  with assms show ?thesis unfolding map_append sorted_append by fastforce
qed

lemma hd_by_recency:
  assumes "x \<in> set rows" "\<And>r. r \<in> set rows \<Longrightarrow> r \<noteq> x \<Longrightarrow> last_used r < last_used x"
  shows "hd (by_recency rows) = x" "0 < n \<Longrightarrow> x \<in> set (take n (by_recency rows))"
proof -
  have ne: "by_recency rows \<noteq> []" using assms(1) set_by_recency [of rows] by fastforce
  then obtain h t where ht: "by_recency rows = h # t" by (cases "by_recency rows") auto
  have "h \<in> set rows" using set_by_recency [of rows] ht by (metis list.set_intros(1))
  moreover have "last_used x \<le> last_used h"
    using sorted_by_recency [of rows] assms(1) set_by_recency [of rows] by (auto simp: ht)
  ultimately have "h = x" using assms(2) [of h] by fastforce
  then show "hd (by_recency rows) = x" "0 < n \<Longrightarrow> x \<in> set (take n (by_recency rows))"
    by (simp_all add: ht take_Cons')
qed

text \<open>The rows a selection keeps are the first five by recency.\<close>

lemma kept_rows:
  assumes "distinct (map lo_id rows)"
  shows "set (filter (\<lambda>r. lo_id r \<in> set (map lo_id (take n (by_recency rows)))) rows) = set (take n (by_recency rows))"
    and "length (filter (\<lambda>r. lo_id r \<in> set (map lo_id (take n (by_recency rows)))) rows) \<le> n"
proof -
  have inj: "inj_on lo_id (set rows)" using assms by (simp add: distinct_map)
  have sub: "set (take n (by_recency rows)) \<subseteq> set rows" using set_take_subset [of n "by_recency rows"] by simp
  show eq: "set (filter (\<lambda>r. lo_id r \<in> set (map lo_id (take n (by_recency rows)))) rows) = set (take n (by_recency rows))"
    using inj sub by (auto simp: inj_on_def)
  have "distinct (filter (\<lambda>r. lo_id r \<in> set (map lo_id (take n (by_recency rows)))) rows)"
    using assms by (simp add: distinct_map)
  then have "length (filter (\<lambda>r. lo_id r \<in> set (map lo_id (take n (by_recency rows)))) rows) = card (set (take n (by_recency rows)))"
    using distinct_card eq by metis
  also have "\<dots> \<le> n" using card_length [of "take n (by_recency rows)"] by simp
  finally show "length (filter (\<lambda>r. lo_id r \<in> set (map lo_id (take n (by_recency rows)))) rows) \<le> n" .
qed

lemma select_location_effect:
  assumes "select_location uuid5 candidate now s = (row, s')" "places_ok s"
  shows "places_ok s'"
    and "\<And>r k. r \<in> set (ls_rows s) \<Longrightarrow> r \<notin> set (ls_rows s') \<Longrightarrow> lo_id r \<noteq> lo_id row \<Longrightarrow> k \<in> set (ls_rows s') \<Longrightarrow> last_used r \<le> last_used k"
    and "\<forall>r \<in> set (ls_rows s). last_used r < now \<Longrightarrow> selected_location s' = Some row \<and> hd (recent_locations s') = row"
proof -
  let ?rows = "upsert lo_id row (ls_rows s)"
  let ?keep = "map lo_id (take RECENT_LOCATION_LIMIT (by_recency ?rows))"
  have s': "s' = \<lparr>ls_rows = filter (\<lambda>r. lo_id r \<in> set ?keep) ?rows,
      ls_selection = Some (if lo_id row \<in> set ?keep then Some (lo_id row) else None, now)\<rparr>"
    and used: "last_used row = now"
    using assms(1) by (auto simp: select_location_def Let_def last_used_def)
  have d: "distinct (map lo_id ?rows)" using assms(2) by (simp add: places_ok_def)
  note kept = kept_rows [OF d, of RECENT_LOCATION_LIMIT]
  have rows: "set (ls_rows s') = set (take RECENT_LOCATION_LIMIT (by_recency ?rows))" using kept(1) by (simp add: s')
  show "places_ok s'"
    using kept d by (auto simp: places_ok_def s' distinct_map_filter simp del: set_map set_filter) (auto)
  show "last_used r \<le> last_used k" if "r \<in> set (ls_rows s)" "r \<notin> set (ls_rows s')" "lo_id r \<noteq> lo_id row" "k \<in> set (ls_rows s')" for r k
  proof -
    have "r \<in> set ?rows" using that(1,3) by (auto simp: upsert_def)
    then have "r \<in> set (by_recency ?rows)" by simp
    moreover have "r \<notin> set (take RECENT_LOCATION_LIMIT (by_recency ?rows))" using that(2) rows by simp
    ultimately have "r \<in> set (drop RECENT_LOCATION_LIMIT (by_recency ?rows))"
      by (metis append_take_drop_id Un_iff set_append)
    moreover have "k \<in> set (take RECENT_LOCATION_LIMIT (by_recency ?rows))" using that(4) rows by simp
    ultimately show ?thesis by (metis recent_prefix)
  qed
  show "selected_location s' = Some row \<and> hd (recent_locations s') = row" if "\<forall>r \<in> set (ls_rows s). last_used r < now"
  proof -
    have row: "row \<in> set ?rows" by (auto simp: upsert_def)
    have older: "last_used r < last_used row" if "r \<in> set ?rows" "r \<noteq> row" for r
      using that set_upsert [of lo_id row "ls_rows s"] \<open>\<forall>r \<in> set (ls_rows s). last_used r < now\<close> used by auto
    have in_keep: "row \<in> set (take RECENT_LOCATION_LIMIT (by_recency ?rows))"
      using row older by (rule hd_by_recency(2)) (simp_all add: RECENT_LOCATION_LIMIT_def)
    with rows have mem: "row \<in> set (ls_rows s')" by simp
    have dist: "distinct (map lo_id (ls_rows s'))" using d by (simp add: s' distinct_map_filter)
    obtain q where q: "find_row lo_id (lo_id row) (ls_rows s') = Some q"
      using mem find_row_None [of lo_id "lo_id row" "ls_rows s'"] by auto
    then have "q = row" using find_row_Some [OF q] mem dist by (auto simp: distinct_map inj_on_def)
    then have "selected_location s' = Some row" using q in_keep by (simp add: selected_location_def) (simp add: s')
    moreover have "hd (by_recency (ls_rows s')) = row"
      using mem by (rule hd_by_recency(1)) (use older in \<open>simp add: s'\<close>)
    ultimately show ?thesis by (simp add: recent_locations_def RECENT_LOCATION_LIMIT_def hd_take)
  qed
qed

text \<open>
  A selection made with a clock later than every use recorded before leaves the chosen place
  selected and first among the recent ones; at most five places with distinct identities remain, the
  selection points to one of them, and every place that was dropped had been used no later than
  every place that was kept.
\<close>

theorem weather_selection_kept:
  assumes "places_ok s" and "\<forall>r \<in> set (ls_rows s). last_used r < now"
  shows "selected_location (snd (select_location uuid5 c now s)) = Some (fst (select_location uuid5 c now s))
    \<and> hd (recent_locations (snd (select_location uuid5 c now s))) = fst (select_location uuid5 c now s)
    \<and> places_ok (snd (select_location uuid5 c now s))
    \<and> (\<forall>r \<in> set (ls_rows s) - set (ls_rows (snd (select_location uuid5 c now s))).
         lo_id r \<noteq> lo_id (fst (select_location uuid5 c now s)) \<longrightarrow>
         (\<forall>k \<in> set (ls_rows (snd (select_location uuid5 c now s))). last_used r \<le> last_used k))"
proof -
  obtain row s' where r: "select_location uuid5 c now s = (row, s')" by fastforce
  show ?thesis using select_location_effect [OF r assms(1)] assms(2) by (simp add: r)
qed

definition place :: "nat \<Rightarrow> instant \<Rightarrow> location" where
  "place n t = \<lparr>lo_id = n, lo_display_name = ''P'', lo_city = replicate (Suc n) (CHR ''p''), lo_region = None, lo_country = ''France'',
     lo_latitude = 48, lo_longitude = 2, lo_timezone = ''UTC'', lo_selected_at = Some t, lo_last_used_at = Some t\<rparr>"

definition five_places :: location_store where
  "five_places = \<lparr>ls_rows = map (\<lambda>n. place n (int n + 1)) [0..<5], ls_selection = Some (Some 4, 5)\<rparr>"

theorem weather_selection_kept_witness:
  "map lo_id (recent_locations (snd (select_location (\<lambda>s. 9) (place 6 0) 7 five_places))) = [9, 4, 3, 2, 1]
   \<and> selected_location (snd (select_location (\<lambda>s. 9) (place 6 0) 7 five_places)) = Some (fst (select_location (\<lambda>s. 9) (place 6 0) 7 five_places))"
proof
  show "map lo_id (recent_locations (snd (select_location (\<lambda>s. 9) (place 6 0) 7 five_places))) = [9, 4, 3, 2, 1]" by code_simp
  have "places_ok five_places" by code_simp
  moreover have "\<forall>r \<in> set (ls_rows five_places). last_used r < 7" by code_simp
  ultimately show "selected_location (snd (select_location (\<lambda>s. 9) (place 6 0) 7 five_places)) = Some (fst (select_location (\<lambda>s. 9) (place 6 0) 7 five_places))"
    using weather_selection_kept by blast
qed

text \<open>
  With a clock that has gone back, five places used later push the chosen one out: the selection is
  left empty, although the route answers that the place is selected.
\<close>

lemma earlier_clock_unselects:
  "selected_location (snd (select_location (\<lambda>s. 9) (place 6 0) 0 five_places)) = None"
  by code_simp

end
