(* ===== verification/Weather_Poll.thy ===== *)
theory Weather_Poll
  imports Weather_Locations Event_Store
begin

text \<open>
  \<open>backend/app/providers/weather/service.py\<close>, \<open>source.py\<close>, \<open>storage.py\<close> and \<open>router.py\<close>: the poll that
  compares conditions with the last reported ones, the transaction that stores them, and what is
  shown.  \<open>wx_dump\<close> and \<open>wx_load\<close> stand for the JSON of \<open>WeatherConditions\<close> and its validation.
\<close>

section \<open>The state service\<close>

record weather_service =
  ws_current :: "conditions option"
  ws_location_id :: "uuid option"
  ws_fetched_at :: "instant option"
  ws_last_failure_at :: "instant option"
  ws_last_failure_code :: string

definition service_new :: weather_service where
  "service_new = \<lparr>ws_current = None, ws_location_id = None, ws_fetched_at = None, ws_last_failure_at = None,
     ws_last_failure_code = ''not_observed''\<rparr>"

definition service_update :: "conditions \<Rightarrow> instant \<Rightarrow> uuid option \<Rightarrow> weather_service \<Rightarrow> weather_service" where
  "service_update c fetched i s = s\<lparr>ws_current := Some c, ws_location_id := i, ws_fetched_at := Some fetched,
     ws_last_failure_at := None, ws_last_failure_code := ''not_observed''\<rparr>"

definition service_restore :: "conditions \<Rightarrow> instant \<Rightarrow> uuid \<Rightarrow> weather_service \<Rightarrow> weather_service" where
  "service_restore c fetched i s =
     (if ws_location_id s \<noteq> Some i \<or> (case ws_fetched_at s of None \<Rightarrow> True | Some t \<Rightarrow> t \<le> fetched)
      then s\<lparr>ws_current := Some c, ws_location_id := Some i, ws_fetched_at := Some fetched\<rparr> else s)"

definition record_failure :: "string \<Rightarrow> instant \<Rightarrow> weather_service \<Rightarrow> weather_service" where
  "record_failure code now s = s\<lparr>ws_last_failure_at := Some now, ws_last_failure_code := code\<rparr>"

definition service_current :: "uuid option \<Rightarrow> weather_service \<Rightarrow> conditions option" where
  "service_current i s = (if i \<noteq> None \<and> ws_location_id s \<noteq> i then None else ws_current s)"

record weather_health =
  wh_status :: provider_status
  wh_configured :: bool
  wh_freshness :: string
  wh_detail_code :: string
  wh_last_success_at :: "string option"
  wh_last_failure_at :: "string option"

definition health_snapshot :: "settings \<Rightarrow> instant \<Rightarrow> bool option \<Rightarrow> weather_service \<Rightarrow> weather_health" where
  "health_snapshot st now configured s =
     (let is_configured = (case configured of None \<Rightarrow> weather_configured st | Some b \<Rightarrow> b);
          (status, freshness, code) =
            (if \<not> is_configured then (Ps_disconnected, ''not_configured'', ''configuration_missing'')
             else (case ws_fetched_at s of
                 None \<Rightarrow> if ws_last_failure_at s \<noteq> None then (Ps_degraded, ''unknown'', ws_last_failure_code s)
                         else (Ps_unknown, ''unknown'', ''not_observed'')
               | Some t \<Rightarrow>
                   (let age = now - t in
                    if ws_last_failure_at s \<noteq> None
                    then (Ps_degraded, (if age \<le> minutes 45 then ''fresh'' else ''stale''), ws_last_failure_code s)
                    else if age \<le> minutes 45 then (Ps_healthy, ''fresh'', ''poll_succeeded'')
                    else if age \<le> minutes 90 then (Ps_degraded, ''stale'', ''poll_stale'')
                    else (Ps_degraded, ''stale'', ''poll_overdue''))))
      in \<lparr>wh_status = status, wh_configured = is_configured, wh_freshness = freshness, wh_detail_code = code,
          wh_last_success_at = map_option isoformat (ws_fetched_at s),
          wh_last_failure_at = map_option isoformat (ws_last_failure_at s)\<rparr>)"

section \<open>Meaningful change\<close>

definition meaningful_change_reasons :: "conditions option \<Rightarrow> conditions \<Rightarrow> string list" where
  "meaningful_change_reasons baseline c = (case baseline of
      None \<Rightarrow> [''initial_observation'']
    | Some b \<Rightarrow>
        (if wc_category b \<noteq> wc_category c then [''condition_category_changed''] else [])
        @ (if 2 \<le> \<bar>wc_temperature_f b - wc_temperature_f c\<bar> then [''temperature_changed''] else [])
        @ (if 2 \<le> \<bar>wc_apparent_temperature_f b - wc_apparent_temperature_f c\<bar> then [''apparent_temperature_changed''] else [])
        @ (if 2 / 100 \<le> \<bar>wc_precipitation_in b - wc_precipitation_in c\<bar> then [''precipitation_changed''] else [])
        @ (if 5 \<le> \<bar>wc_wind_speed_mph b - wc_wind_speed_mph c\<bar> then [''wind_changed''] else [])
        @ (if 2 \<le> \<bar>wc_high_f b - wc_high_f c\<bar> \<or> 2 \<le> \<bar>wc_low_f b - wc_low_f c\<bar>
           then [''daily_temperature_range_changed''] else [])
        @ (case (wc_precipitation_probability_max_pct b, wc_precipitation_probability_max_pct c) of
             (Some p, Some q) \<Rightarrow> if 10 \<le> \<bar>p - q\<bar> then [''precipitation_probability_changed''] else []
           | _ \<Rightarrow> []))"

section \<open>The poll\<close>

record weather_sample =
  sp_location :: location
  sp_current :: conditions
  sp_meaningful_change :: bool
  sp_change_reasons :: "string list"
  sp_dedupe_key :: string

text \<open>
  The environment of a poll and of its transaction.  \<open>px_stable\<close> is the sorted JSON text of the
  conditions without their times.
\<close>

record poll_env =
  px_weather :: weather_env
  px_geo :: geo_env
  px_hash :: "string \<Rightarrow> string"
  px_topic :: string
  px_now :: instant
  px_uuid :: uuid
  wx_dump :: "conditions \<Rightarrow> json"
  wx_load :: "json \<Rightarrow> conditions option"
  px_stable :: "conditions \<Rightarrow> string"

record weather_world =
  wo_db :: db
  wo_locations :: location_store
  wo_geocoder :: geocoder
  wo_service :: weather_service
  wo_configured :: bool
  wo_turn :: nat

definition weather_dedupe_key :: "poll_env \<Rightarrow> uuid \<Rightarrow> conditions option \<Rightarrow> conditions \<Rightarrow> string" where
  "weather_dedupe_key env i baseline c =
     (let epoch = (case baseline of None \<Rightarrow> ''initial'' | Some b \<Rightarrow> isoformat (wc_observed_at b))
      in ''weather:'' @ px_hash env (uuid_str i @ '':'' @ epoch @ '':'' @ px_stable env c))"

text \<open>The text of a checkpoint, as the JSON it denotes if it is JSON; \<open>None\<close> when there is no row.\<close>

definition weather_checkpoint :: "string \<Rightarrow> db \<Rightarrow> json option option" where
  "weather_checkpoint key d = map_option cp_value (find_checkpoint (''weather'', key) (db_checkpoints d))"

definition validated :: "poll_env \<Rightarrow> json option \<Rightarrow> conditions option" where
  "validated env v = Option.bind v (wx_load env)"

definition baseline_key :: "uuid \<Rightarrow> string" where "baseline_key i = ''event_baseline:'' @ uuid_str i"
definition current_key :: "uuid \<Rightarrow> string" where "current_key i = ''current:'' @ uuid_str i"

datatype weather_error = Weather_retry_after instant string | Weather_failed weather_failure

definition failure_code_of :: "weather_failure \<Rightarrow> string" where
  "failure_code_of e = (case e of Weather_cancelled \<Rightarrow> ''weather_poll_cancelled''
     | Weather_error n code t \<Rightarrow> code | Weather_raised x \<Rightarrow> ''weather_poll_failed'')"

definition raised_by :: "weather_failure \<Rightarrow> weather_error" where
  "raised_by e = (case e of
      Weather_error n code (Some t) \<Rightarrow> Weather_retry_after t (safe_error_code (Some code))
    | _ \<Rightarrow> Weather_failed e)"

fun geo_to_weather :: "geo_failure \<Rightarrow> weather_failure" where
  "geo_to_weather Geo_cancelled = Weather_cancelled"
| "geo_to_weather (Geocoding_error c) = Weather_raised (RuntimeError c)"
| "geo_to_weather (Geo_raised e) = Weather_raised e"

text \<open>The guarded part of a poll: the place, the forecast and the saved checkpoints.\<close>

definition poll_inputs :: "poll_env \<Rightarrow> settings \<Rightarrow> instant \<Rightarrow>
    (weather_world, weather_failure, (location \<times> conditions \<times> json option option \<times> json option option) option) prog" where
  "poll_inputs env s observed_at w =
     (case location_for_poll (px_geo env) s (px_now env) (wo_geocoder w, wo_locations w) of
        (Inl e, g, store) \<Rightarrow> (Inl (geo_to_weather e), w\<lparr>wo_geocoder := g, wo_locations := store\<rparr>)
      | (Inr None, g, store) \<Rightarrow> (Inr None, w\<lparr>wo_geocoder := g, wo_locations := store, wo_configured := False\<rparr>)
      | (Inr (Some l), g, store) \<Rightarrow>
          (let w1 = w\<lparr>wo_geocoder := g, wo_locations := store, wo_configured := True\<rparr> in
           case forecast (px_weather env) (go_str (px_geo env) (lo_latitude l)) (go_str (px_geo env) (lo_longitude l)) (lo_timezone l) (wo_turn w1) of
             (Inl e, n) \<Rightarrow> (Inl e, w1\<lparr>wo_turn := n\<rparr>)
           | (Inr raw, n) \<Rightarrow>
               (case parse_forecast (px_weather env) raw (lo_timezone l) of
                  Inl e \<Rightarrow> (Inl (Weather_raised e), w1\<lparr>wo_turn := n\<rparr>)
                | Inr c \<Rightarrow> (Inr (Some (l, c, weather_checkpoint (baseline_key (lo_id l)) (wo_db w1),
                              weather_checkpoint ''has_observation'' (wo_db w1))), w1\<lparr>wo_turn := n\<rparr>))))"

text \<open>The comparison; a stored baseline that does not validate raises, outside every handler.\<close>

definition compare :: "poll_env \<Rightarrow> location \<times> conditions \<times> json option option \<times> json option option \<Rightarrow> weather_sample result" where
  "compare env x = (case x of (l, c, saved, has_observation) \<Rightarrow>
     case (case saved of None \<Rightarrow> Inr None
         | Some v \<Rightarrow> (case validated env v of None \<Rightarrow> Inl (ValidationError ''WeatherConditions'') | Some b \<Rightarrow> Inr (Some b))) of
       Inl e \<Rightarrow> Inl e
     | Inr baseline \<Rightarrow>
     (let reasons = (if baseline = None \<and> has_observation = Some (Some (JInt 1)) then [] else meaningful_change_reasons baseline c)
      in Inr \<lparr>sp_location = l, sp_current = c, sp_meaningful_change = (reasons \<noteq> []), sp_change_reasons = reasons,
           sp_dedupe_key = weather_dedupe_key env (lo_id l) baseline c\<rparr>))"

definition weather_observe :: "poll_env \<Rightarrow> settings \<Rightarrow> instant \<Rightarrow> uuid \<Rightarrow>
    (weather_world, weather_error, weather_sample observation list) prog" where
  "weather_observe env s observed_at correlation w =
     (case poll_inputs env s observed_at w of
        (Inl e, w1) \<Rightarrow> (Inl (raised_by e), w1\<lparr>wo_service := record_failure (failure_code_of e) observed_at (wo_service w1)\<rparr>)
      | (Inr None, w1) \<Rightarrow> (Inr [], w1)
      | (Inr (Some x), w1) \<Rightarrow>
          (case (case compare env x of Inl e \<Rightarrow> Inl e | Inr sample \<Rightarrow>
               observation_new ''weather'' (uuid_str (lo_id (sp_location sample))) (utc observed_at) sample
                 (Some (isoformat (wc_observed_at (sp_current sample)))) (Some (isoformat (wc_observed_at (sp_current sample))))
                 (Some correlation)) of
             Inl e \<Rightarrow> (Inl (Weather_failed (Weather_raised e)), w1) | Inr obs \<Rightarrow> (Inr [obs], w1)))"

definition WEATHER_SCHEDULE :: poll_schedule where
  "WEATHER_SCHEDULE = \<lparr>sd_interval = minutes 20, sd_timeout = seconds 20, sd_max_backoff = hours 2, sd_jitter_ratio = 1 / 10\<rparr>"

section \<open>The transaction\<close>

definition upsert_weather :: "instant \<Rightarrow> string \<Rightarrow> json \<Rightarrow> instant \<Rightarrow> db \<Rightarrow> db" where
  "upsert_weather now key v observed_at d =
     d\<lparr>db_checkpoints := save_checkpoint \<lparr>cp_provider = ''weather'', cp_checkpoint_key = key, cp_value = Some v,
        cp_observed_at = Some observed_at, cp_updated_at = now\<rparr> (db_checkpoints d)\<rparr>"

definition opt_text :: "string option \<Rightarrow> json" where
  "opt_text v = (case v of None \<Rightarrow> JNull | Some s \<Rightarrow> JStr s)"

definition build_weather_event :: "poll_env \<Rightarrow> weather_sample \<Rightarrow> instant \<Rightarrow> uuid \<Rightarrow> event option result" where
  "build_weather_event env x observed_at correlation =
     (if \<not> sp_meaningful_change x then Inr None
      else (let l = sp_location x; c = sp_current x in
        bind_r (canonical_event_new (px_uuid env) ''weather'' ''weather.conditions.updated'' ''weather_conditions''
          (uuid_str (lo_id l)) (utc (wc_observed_at c)) (utc observed_at) (utc (px_now env)) 1 (sp_dedupe_key x) 1 correlation
          [(''location'', JDict [(''id'', JStr (uuid_str (lo_id l))), (''display_name'', JStr (lo_display_name l)),
             (''city'', JStr (lo_city l)), (''region'', opt_text (lo_region l)), (''country'', JStr (lo_country l)),
             (''timezone'', JStr (lo_timezone l))]),
           (''current'', wx_dump env c), (''change_reasons'', JList (map JStr (sp_change_reasons x)))]) (\<lambda>e. Inr (Some e))))"

definition persist_weather :: "poll_env \<Rightarrow> weather_sample \<Rightarrow> instant \<Rightarrow> uuid \<Rightarrow> location_store \<Rightarrow> db \<Rightarrow> db option result" where
  "persist_weather env x observed_at correlation store d =
     (let i = lo_id (sp_location x); v = wx_dump env (sp_current x); now = px_now env;
          put = (\<lambda>key val. upsert_weather now key val observed_at)
      in if (case ls_selection store of None \<Rightarrow> False | Some (sel, t) \<Rightarrow> sel \<noteq> Some i) then Inr None
         else bind_r (build_weather_event env x observed_at correlation) (\<lambda>event.
           bind_r (case event of
               Some e \<Rightarrow> bind_r (persist_event_and_outbox (px_hash env) (px_topic env) now e d) (\<lambda>(new, d1).
                  Inr (put (baseline_key i) v d1))
             | None \<Rightarrow> Inr (if find_checkpoint (''weather'', baseline_key i) (db_checkpoints d) = None
                           then put (baseline_key i) v d else d)) (\<lambda>d2.
           Inr (Some (put ''has_observation'' (JInt 1) (put (current_key i) v d2))))))"

definition persist_sample :: "poll_env \<Rightarrow> weather_sample observation \<Rightarrow> uuid \<Rightarrow> weather_world \<Rightarrow> py_error option \<times> weather_world" where
  "persist_sample env obs correlation w =
     (let x = obs_content obs in
      case persist_weather env x (obs_observed_at obs) correlation (wo_locations w) (wo_db w) of
        Inl e \<Rightarrow> (Some e, w\<lparr>wo_service := record_failure ''event_persist_failed'' (px_now env) (wo_service w)\<rparr>)
      | Inr None \<Rightarrow> (None, w)
      | Inr (Some d) \<Rightarrow> (None, w\<lparr>wo_db := d,
            wo_service := service_update (sp_current x) (obs_observed_at obs) (Some (lo_id (sp_location x))) (wo_service w)\<rparr>))"

text \<open>A poll and the handler of its observations.\<close>

definition weather_poll :: "poll_env \<Rightarrow> settings \<Rightarrow> instant \<Rightarrow> uuid \<Rightarrow> (weather_world, weather_error, weather_sample list) prog" where
  "weather_poll env s observed_at correlation w =
     (case weather_observe env s observed_at correlation w of
        (Inr [obs], w1) \<Rightarrow>
          (case persist_sample env obs correlation w1 of
             (Some e, w2) \<Rightarrow> (Inl (Weather_failed (Weather_raised e)), w2) | (None, w2) \<Rightarrow> (Inr [obs_content obs], w2))
      | (Inr _, w1) \<Rightarrow> (Inr [], w1)
      | (Inl e, w1) \<Rightarrow> (Inl e, w1))"

section \<open>The routes\<close>

record weather_view =
  vw_location :: "location option"
  vw_recent :: "location list"
  vw_current :: "conditions option"
  vw_fetched_at :: "string option"
  vw_health :: weather_health

text \<open>\<open>reachable\<close> says whether the location store can be read at all.\<close>

definition stored_current :: "poll_env \<Rightarrow> uuid \<Rightarrow> weather_world \<Rightarrow> conditions option" where
  "stored_current env i w = Option.bind (weather_checkpoint (current_key i) (wo_db w)) (validated env)"

definition weather_current :: "poll_env \<Rightarrow> settings \<Rightarrow> instant \<Rightarrow> bool \<Rightarrow> (weather_world, geo_failure, weather_view) prog" where
  "weather_current env s now reachable w =
     (if \<not> reachable then
        (Inr \<lparr>vw_location = None, vw_recent = [], vw_current = None, vw_fetched_at = None,
           vw_health = health_snapshot s now None (wo_service w)\<rparr>, w)
      else (case location_state (px_geo env) s (px_now env) (wo_geocoder w, wo_locations w) of
          (Inl e, g, store) \<Rightarrow> (Inl e, w\<lparr>wo_geocoder := g, wo_locations := store\<rparr>)
        | (Inr (selected, recent), g, store) \<Rightarrow>
            (let w1 = w\<lparr>wo_geocoder := g, wo_locations := store\<rparr>;
                 saved = Option.bind selected (\<lambda>l. stored_current env (lo_id l) w1);
                 w2 = (case (selected, saved) of
                     (Some l, Some c) \<Rightarrow> w1\<lparr>wo_service := service_restore c (wc_observed_at c) (lo_id l) (wo_service w1)\<rparr>
                   | _ \<Rightarrow> w1);
                 shown = (case (selected, saved) of
                     (Some l, None) \<Rightarrow> service_current (Some (lo_id l)) (wo_service w2) | _ \<Rightarrow> saved)
             in (Inr \<lparr>vw_location = selected, vw_recent = recent, vw_current = shown,
                   vw_fetched_at = map_option (\<lambda>c. isoformat (wc_observed_at c)) shown,
                   vw_health = health_snapshot s now (Some (selected \<noteq> None \<or> weather_configured s)) (wo_service w2)\<rparr>, w2))))"

text \<open>
  What \<open>poll_now\<close> of the scheduler reports of a poll that was neither cut off by its timeout nor
  cancelled.
\<close>

definition poll_now_health :: "instant \<Rightarrow> bool \<Rightarrow> weather_error + 'a list \<Rightarrow> health_registry \<Rightarrow> (provider_health \<times> health_registry) result" where
  "poll_now_health now configured r reg = (case r of
      Inl (Weather_retry_after until code) \<Rightarrow> rate_limited now ''weather'' code (utc until) reg
    | Inl (Weather_failed (Weather_error n code until)) \<Rightarrow> failure now ''weather'' (safe_error_code (Some code)) None False reg
    | Inl (Weather_failed e) \<Rightarrow> failure now ''weather'' (safe_error_code (Some ''poll_failed'')) None False reg
    | Inr xs \<Rightarrow> success now ''weather'' (xs \<noteq> []) configured reg)"

text \<open>
  A selection: the place is stored, the provider reported as connecting, and a poll attempted if
  there is a scheduler; whatever exception it raises is only logged.
\<close>

definition refresh_weather :: "poll_env \<Rightarrow> settings \<Rightarrow> instant \<Rightarrow> uuid \<Rightarrow> weather_world \<Rightarrow> health_registry
    \<Rightarrow> bool \<times> weather_world \<times> health_registry" where
  "refresh_weather env s now correlation w reg =
     (case weather_poll env s now correlation w of
        (Inl (Weather_failed Weather_cancelled), w1) \<Rightarrow> (False, w1, reg)
      | (r, w1) \<Rightarrow> (True, w1, (case poll_now_health now (wo_configured w1) r reg of Inl e \<Rightarrow> reg | Inr (h, reg1) \<Rightarrow> reg1)))"

definition select_route :: "poll_env \<Rightarrow> settings \<Rightarrow> instant \<Rightarrow> uuid \<Rightarrow> bool \<Rightarrow> location \<Rightarrow> weather_world \<times> health_registry
    \<Rightarrow> (geo_failure + location option \<times> location list) \<times> weather_world \<times> health_registry" where
  "select_route env s now correlation scheduled candidate st =
     (case select_location (go_uuid5 (px_geo env)) candidate now (wo_locations (fst st)) of
        (row, store) \<Rightarrow>
          (let w0 = (fst st)\<lparr>wo_locations := store\<rparr> in
           case report now ''weather'' Ps_connecting ''location_changed'' report_defaults (snd st) of
             Inl e \<Rightarrow> (Inl (Geo_raised e), w0, snd st)
           | Inr (h, reg) \<Rightarrow>
               (case (if scheduled then refresh_weather env s now correlation w0 reg else (True, w0, reg)) of
                  (False, w1, reg1) \<Rightarrow> (Inl Geo_cancelled, w1, reg1)
                | (True, w1, reg1) \<Rightarrow>
                   (case location_state (px_geo env) s (px_now env) (wo_geocoder w1, wo_locations w1) of
                      (Inl e, g, store') \<Rightarrow> (Inl e, w1\<lparr>wo_geocoder := g, wo_locations := store'\<rparr>, reg1)
                    | (Inr (selected, recent), g, store') \<Rightarrow>
                        (Inr (if selected \<noteq> None then selected else Some row, recent),
                         w1\<lparr>wo_geocoder := g, wo_locations := store'\<rparr>, reg1)))))"

text \<open>The other routes; a store that cannot be read is answered with 503, as a geocoder that fails.\<close>

definition weather_response :: "settings \<Rightarrow> instant \<Rightarrow> weather_service \<Rightarrow> conditions option \<times> string option \<times> weather_health" where
  "weather_response st now s = (ws_current s, map_option isoformat (ws_fetched_at s), health_snapshot st now None s)"

datatype 'a weather_answer = Answered 'a | Unavailable int string string

definition weather_health_route :: "poll_env \<Rightarrow> settings \<Rightarrow> instant \<Rightarrow> (weather_world, geo_failure, weather_health) prog" where
  "weather_health_route env s now w =
     (case location_state (px_geo env) s (px_now env) (wo_geocoder w, wo_locations w) of
        (Inl e, g, store) \<Rightarrow> (Inl e, w\<lparr>wo_geocoder := g, wo_locations := store\<rparr>)
      | (Inr (selected, recent), g, store) \<Rightarrow>
          (Inr (health_snapshot s now (Some (selected \<noteq> None \<or> weather_configured s)) (wo_service w)),
           w\<lparr>wo_geocoder := g, wo_locations := store\<rparr>))"

definition weather_location_route :: "poll_env \<Rightarrow> settings \<Rightarrow> bool
    \<Rightarrow> (weather_world, geo_failure, (location option \<times> location list) weather_answer) prog" where
  "weather_location_route env s reachable w =
     (if \<not> reachable then (Inr (Unavailable 503 ''location_store_unavailable'' ''Weather location storage is unavailable.''), w)
      else (case location_state (px_geo env) s (px_now env) (wo_geocoder w, wo_locations w) of
          (Inl e, g, store) \<Rightarrow> (Inl e, w\<lparr>wo_geocoder := g, wo_locations := store\<rparr>)
        | (Inr v, g, store) \<Rightarrow> (Inr (Answered v), w\<lparr>wo_geocoder := g, wo_locations := store\<rparr>)))"

definition search_locations_route :: "poll_env \<Rightarrow> string \<Rightarrow> (weather_world, geo_failure, location list weather_answer) prog" where
  "search_locations_route env q w =
     (if \<not> (2 \<le> length q \<and> length q \<le> 80) then (Inl (Geo_raised (ValidationError ''q'')), w)
      else (case geo_search (px_geo env) q (wo_geocoder w) of
          (Inl (Geocoding_error c), g) \<Rightarrow> (Inr (Unavailable 503 c ''Location search is temporarily unavailable.''), w\<lparr>wo_geocoder := g\<rparr>)
        | (Inl e, g) \<Rightarrow> (Inl e, w\<lparr>wo_geocoder := g\<rparr>)
        | (Inr xs, g) \<Rightarrow> (Inr (Answered xs), w\<lparr>wo_geocoder := g\<rparr>)))"

section \<open>What is stored is what was last reported\<close>

lemma no_change_refl: "meaningful_change_reasons (Some c) c = []"
  by (simp add: meaningful_change_reasons_def split: option.split)

lemma weather_checkpoint_upsert [simp]:
  "weather_checkpoint k (upsert_weather now key v t d) = (if k = key then Some (Some v) else weather_checkpoint k d)"
  by (simp add: weather_checkpoint_def upsert_weather_def checkpoints.lookup_put) (simp add: checkpoint_key_def)

lemma upsert_weather_frame [simp]:
  "db_events (upsert_weather now key v t d) = db_events d" "known_keys h (upsert_weather now key v t d) = known_keys h d"
  by (simp_all add: upsert_weather_def known_keys_def has_dedupe_def is_retired_def)

lemma upsert_weather_ok: "db_ok hash d \<Longrightarrow> db_ok hash (upsert_weather now key v t d)"
  using checkpoints.ok_put [of "db_checkpoints d" "\<lparr>cp_provider = ''weather'', cp_checkpoint_key = key, cp_value = Some v,
        cp_observed_at = Some t, cp_updated_at = now\<rparr>"]
  by (auto simp: db_ok_defs upsert_weather_def)

lemma weather_keys [simp]:
  "baseline_key i \<noteq> current_key j" "current_key j \<noteq> baseline_key i" "baseline_key i \<noteq> ''has_observation''" "current_key i \<noteq> ''has_observation''"
  by (simp_all add: baseline_key_def current_key_def)

definition last_reported :: "poll_env \<Rightarrow> uuid \<Rightarrow> db \<Rightarrow> conditions option" where
  "last_reported env i d = Option.bind (weather_checkpoint (baseline_key i) d) (validated env)"

definition dumps_ok :: "poll_env \<Rightarrow> bool" where
  "dumps_ok env \<longleftrightarrow> (\<forall>c. wx_load env (wx_dump env c) = Some c)"

text \<open>The sample was made by comparing with the checkpoints of the same database.\<close>

definition sampled :: "poll_env \<Rightarrow> db \<Rightarrow> weather_sample \<Rightarrow> bool" where
  "sampled env d x \<longleftrightarrow> compare env (sp_location x, sp_current x, weather_checkpoint (baseline_key (lo_id (sp_location x))) d,
     weather_checkpoint ''has_observation'' d) = Inr x"

lemma compare_Inr:
  assumes "compare env (l, c, saved, has_observation) = Inr x"
  shows "sp_location x = l" "sp_current x = c" "sp_meaningful_change x \<longleftrightarrow> sp_change_reasons x \<noteq> []"
    "saved \<noteq> None \<Longrightarrow> \<exists>b. Option.bind saved (validated env) = Some b \<and> sp_change_reasons x = meaningful_change_reasons (Some b) c"
  using assms by (auto simp: compare_def bind_simps Let_def split: option.splits if_splits)

lemma build_weather_event_cases:
  assumes "build_weather_event env x t u = Inr r"
  shows "r = None \<longleftrightarrow> \<not> sp_meaningful_change x" "r = Some e \<Longrightarrow> ev_dedupe_key e = sp_dedupe_key x"
  using assms by (auto simp: build_weather_event_def canonical_event_new_def bind_simps Let_def split: if_splits)

lemma persist_weather_effect:
  assumes "persist_weather env x t u store d = Inr (Some d')" "sampled env d x" "dumps_ok env"
  shows "\<exists>b. last_reported env (lo_id (sp_location x)) d' = Some b \<and> meaningful_change_reasons (Some b) (sp_current x) = []"
    and "weather_checkpoint (current_key (lo_id (sp_location x))) d' = Some (Some (wx_dump env (sp_current x)))"
    and "db_ok (px_hash env) d \<Longrightarrow> db_ok (px_hash env) d'"
    and "sp_change_reasons x = [] \<Longrightarrow> db_events d' = db_events d"
    and "sp_change_reasons x \<noteq> [] \<Longrightarrow> sp_dedupe_key x \<in> known_keys (px_hash env) d'"
proof -
  let ?i = "lo_id (sp_location x)" let ?v = "wx_dump env (sp_current x)"
  let ?put = "\<lambda>key val. upsert_weather (px_now env) key val t"
  note cmp = compare_Inr [OF assms(2) [unfolded sampled_def]]
  have "(sp_change_reasons x \<noteq> [] \<and> (\<exists>e new d1. ev_dedupe_key e = sp_dedupe_key x
        \<and> persist_event_and_outbox (px_hash env) (px_topic env) (px_now env) e d = Inr (new, d1)
        \<and> d' = ?put ''has_observation'' (JInt 1) (?put (current_key ?i) ?v (?put (baseline_key ?i) ?v d1))))
    \<or> (sp_change_reasons x = [] \<and> d' = ?put ''has_observation'' (JInt 1) (?put (current_key ?i) ?v
         (if find_checkpoint (''weather'', baseline_key ?i) (db_checkpoints d) = None then ?put (baseline_key ?i) ?v d else d)))"
    using assms(1) cmp(3) build_weather_event_cases
    by (fastforce simp: persist_weather_def bind_simps Let_def split: if_splits option.splits)
  then consider (event) e new d1 where "sp_change_reasons x \<noteq> []" "ev_dedupe_key e = sp_dedupe_key x"
      "persist_event_and_outbox (px_hash env) (px_topic env) (px_now env) e d = Inr (new, d1)"
      "d' = ?put ''has_observation'' (JInt 1) (?put (current_key ?i) ?v (?put (baseline_key ?i) ?v d1))"
    | (quiet) "sp_change_reasons x = []" "d' = ?put ''has_observation'' (JInt 1) (?put (current_key ?i) ?v
         (if find_checkpoint (''weather'', baseline_key ?i) (db_checkpoints d) = None then ?put (baseline_key ?i) ?v d else d))"
    by blast
  note cases = this
  show "weather_checkpoint (current_key ?i) d' = Some (Some ?v)" using cases by cases simp_all
  show "db_ok (px_hash env) d \<Longrightarrow> db_ok (px_hash env) d'"
    using cases by cases (simp_all add: upsert_weather_ok store.persist_ok)
  show "sp_change_reasons x = [] \<Longrightarrow> db_events d' = db_events d" using cases by cases simp_all
  show "sp_change_reasons x \<noteq> [] \<Longrightarrow> sp_dedupe_key x \<in> known_keys (px_hash env) d'"
    using cases by cases (auto dest: store.persist_known_grows)
  show "\<exists>b. last_reported env ?i d' = Some b \<and> meaningful_change_reasons (Some b) (sp_current x) = []"
    using cases
  proof cases
    case quiet
    show ?thesis
    proof (cases "find_checkpoint (''weather'', baseline_key ?i) (db_checkpoints d)")
      case None
      with quiet assms(3) show ?thesis by (simp add: last_reported_def validated_def dumps_ok_def no_change_refl)
    next
      case (Some r)
      then have w: "weather_checkpoint (baseline_key ?i) d = Some (cp_value r)" by (simp add: weather_checkpoint_def)
      with cmp(4) obtain b where "validated env (cp_value r) = Some b" "sp_change_reasons x = meaningful_change_reasons (Some b) (sp_current x)"
        by auto
      with Some quiet w show ?thesis by (simp add: last_reported_def)
    qed
  qed (use assms(3) in \<open>simp add: last_reported_def validated_def dumps_ok_def no_change_refl\<close>)
qed

text \<open>Where the place of a poll comes from.\<close>

lemma selected_id: "selected_location st = Some l \<Longrightarrow> \<exists>t. ls_selection st = Some (Some (lo_id l), t)"
  by (auto simp: selected_location_def dest: find_row_Some split: option.splits)

lemma select_location_id:
  "select_location h c now st = (row, st') \<Longrightarrow> selected_location st' = Some l \<Longrightarrow> lo_id l = lo_id row"
  using selected_id [of st' l] by (auto simp: select_location_def Let_def split: if_splits)

lemma bootstrap_location_id:
  assumes "bootstrap_location env s now st = (Inr (Some l), g, st')" "selected_location st' = Some l'"
  shows "lo_id l' = lo_id l"
proof -
  obtain g0 st0 where st: "st = (g0, st0)" by (cases st)
  show ?thesis
  proof (cases "selected_location st0 \<noteq> None \<or> \<not> weather_configured s")
    case True
    with assms st show ?thesis by (auto simp: bootstrap_location_def)
  next
    case False
    obtain r g1 where r: "reverse_configured_coordinates env (the (weather_latitude (providers s)))
        (the (weather_longitude (providers s))) (the (weather_timezone (providers s))) g0 = (r, g1)" by fastforce
    show ?thesis
    proof (cases r)
      case (Inl e)
      with assms(1) False r show ?thesis by (simp add: bootstrap_location_def st)
    next
      case (Inr c)
      obtain row st1 where row: "select_location (go_uuid5 env) c now st0 = (row, st1)" by fastforce
      with assms(1) False r Inr have "l = row" "st' = st1" by (simp_all add: bootstrap_location_def st)
      with select_location_id [OF row] assms(2) show ?thesis by blast
    qed
  qed
qed

lemma location_for_poll_id:
  assumes "location_for_poll env s now st = (Inr (Some l), g, st')" "selected_location st' = Some l'"
  shows "lo_id l' = lo_id l"
proof (cases "selected_location (snd st) \<noteq> None \<or> \<not> weather_configured s")
  case True
  with assms show ?thesis by (auto simp: location_for_poll_def)
next
  case False
  then have "bootstrap_location env s now st = (Inr (Some l), g, st')" using assms(1) by (simp add: location_for_poll_def)
  then show ?thesis using assms(2) by (rule bootstrap_location_id)
qed

lemma poll_inputs_Some:
  assumes "poll_inputs env s t w = (Inr (Some x), w1)"
  obtains l c where "x = (l, c, weather_checkpoint (baseline_key (lo_id l)) (wo_db w), weather_checkpoint ''has_observation'' (wo_db w))"
    "wo_db w1 = wo_db w" "\<forall>l'. selected_location (wo_locations w1) = Some l' \<longrightarrow> lo_id l' = lo_id l"
proof -
  obtain rl g st' where L: "location_for_poll (px_geo env) s (px_now env) (wo_geocoder w, wo_locations w) = (rl, g, st')"
    by (metis surj_pair)
  obtain l where l: "rl = Inr (Some l)"
    using assms L by (auto simp: poll_inputs_def split: sum.splits option.splits)
  obtain rf n where F: "forecast (px_weather env) (go_str (px_geo env) (lo_latitude l)) (go_str (px_geo env) (lo_longitude l))
      (lo_timezone l) (wo_turn w) = (rf, n)" by fastforce
  obtain c where "x = (l, c, weather_checkpoint (baseline_key (lo_id l)) (wo_db w), weather_checkpoint ''has_observation'' (wo_db w))"
      "wo_db w1 = wo_db w" "wo_locations w1 = st'"
  proof (cases rf)
    case (Inl e)
    with assms show thesis by (simp add: poll_inputs_def L l F Let_def)
  next
    case (Inr raw)
    obtain rp where P: "parse_forecast (px_weather env) raw (lo_timezone l) = rp" by blast
    show thesis
    proof (cases rp)
      case (Inl e)
      with assms show thesis by (simp add: poll_inputs_def L l F Inr P Let_def)
    next
      case c: (Inr c)
      have "x = (l, c, weather_checkpoint (baseline_key (lo_id l)) (wo_db w), weather_checkpoint ''has_observation'' (wo_db w))
          \<and> wo_db w1 = wo_db w \<and> wo_locations w1 = st'"
        using assms by (auto simp: poll_inputs_def L l F Inr P c Let_def)
      then show thesis using that by blast
    qed
  qed
  with that location_for_poll_id [OF L [unfolded l]] show thesis by blast
qed

lemma weather_observe_Inr:
  assumes "weather_observe env s t u w = (Inr [obs], w1)"
  shows "sampled env (wo_db w1) (obs_content obs)" "wo_db w1 = wo_db w" "obs_observed_at obs = t"
    "\<And>l'. selected_location (wo_locations w1) = Some l' \<Longrightarrow> lo_id l' = lo_id (sp_location (obs_content obs))"
proof -
  obtain x where i: "poll_inputs env s t w = (Inr (Some x), w1)"
    and o: "compare env x = Inr (obs_content obs)" "obs_observed_at obs = t"
  proof -
    obtain ri w2 where R: "poll_inputs env s t w = (ri, w2)" by fastforce
    with assms obtain x where "ri = Inr (Some x)" by (auto simp: weather_observe_def split: sum.splits option.splits)
    with R assms that show thesis
      by (auto simp: weather_observe_def observation_new_def bind_simps split: sum.splits)
  qed
  obtain l c where x: "x = (l, c, weather_checkpoint (baseline_key (lo_id l)) (wo_db w), weather_checkpoint ''has_observation'' (wo_db w))"
    and d: "wo_db w1 = wo_db w" and sel: "\<forall>l'. selected_location (wo_locations w1) = Some l' \<longrightarrow> lo_id l' = lo_id l"
    by (rule poll_inputs_Some [OF i])
  note f = compare_Inr(1,2) [OF o(1) [unfolded x]]
  show "sampled env (wo_db w1) (obs_content obs)" using o(1) by (simp add: sampled_def f d x)
  show "wo_db w1 = wo_db w" "obs_observed_at obs = t" by (fact d o(2))+
  show "\<And>l'. selected_location (wo_locations w1) = Some l' \<Longrightarrow> lo_id l' = lo_id (sp_location (obs_content obs))"
    using sel by (simp add: f)
qed

definition drift_free :: "poll_env \<Rightarrow> weather_sample \<Rightarrow> db \<Rightarrow> bool" where
  "drift_free env x d \<longleftrightarrow>
     (\<exists>b. last_reported env (lo_id (sp_location x)) d = Some b \<and> meaningful_change_reasons (Some b) (sp_current x) = [])
     \<and> weather_checkpoint (current_key (lo_id (sp_location x))) d = Some (Some (wx_dump env (sp_current x)))"

lemma weather_poll_effect:
  assumes "weather_poll env s t u w = (Inr [x], w')" "dumps_ok env" "selected_location (wo_locations w') \<noteq> None"
  shows "drift_free env x (wo_db w')"
    and "db_ok (px_hash env) (wo_db w) \<Longrightarrow> db_ok (px_hash env) (wo_db w')"
    and "sp_change_reasons x = [] \<Longrightarrow> db_events (wo_db w') = db_events (wo_db w)"
    and "sp_change_reasons x \<noteq> [] \<Longrightarrow> sp_dedupe_key x \<in> known_keys (px_hash env) (wo_db w')"
    and "ws_current (wo_service w') = Some (sp_current x)"
proof -
  obtain obs w1 where o: "weather_observe env s t u w = (Inr [obs], w1)" and x: "x = obs_content obs"
    and p: "persist_sample env obs u w1 = (None, w')"
    using assms(1) by (auto simp: weather_poll_def split: prod.splits sum.splits list.splits option.splits)
  note f = weather_observe_Inr [OF o]
  have loc: "wo_locations w' = wo_locations w1"
    using p by (auto simp: persist_sample_def Let_def split: sum.splits option.splits)
  then obtain l where l: "selected_location (wo_locations w1) = Some l" using assms(3) by auto
  then have "lo_id l = lo_id (sp_location x)" using f(4) x by simp
  with selected_id [OF l] obtain t' where sel: "ls_selection (wo_locations w1) = Some (Some (lo_id (sp_location x)), t')" by auto
  obtain d where d: "persist_weather env x t u (wo_locations w1) (wo_db w1) = Inr (Some d)"
    and w': "w' = w1\<lparr>wo_db := d, wo_service := service_update (sp_current x) t (Some (lo_id (sp_location x))) (wo_service w1)\<rparr>"
  proof -
    have "persist_weather env x t u (wo_locations w1) (wo_db w1) \<noteq> Inr None"
      by (simp add: persist_weather_def sel Let_def bind_simps)
    with p that show thesis
      by (auto simp: persist_sample_def Let_def x f(3) split: sum.splits option.splits)
  qed
  note eff = persist_weather_effect [OF d f(1) [folded x] assms(2)]
  show "drift_free env x (wo_db w')" using eff(1,2) by (simp add: w' drift_free_def)
  show "db_ok (px_hash env) (wo_db w) \<Longrightarrow> db_ok (px_hash env) (wo_db w')" using eff(3) f(2) by (simp add: w')
  show "sp_change_reasons x = [] \<Longrightarrow> db_events (wo_db w') = db_events (wo_db w)" using eff(4) f(2) by (simp add: w')
  show "sp_change_reasons x \<noteq> [] \<Longrightarrow> sp_dedupe_key x \<in> known_keys (px_hash env) (wo_db w')" using eff(5) by (simp add: w')
  show "ws_current (wo_service w') = Some (sp_current x)" by (simp add: w' service_update_def)
qed

section \<open>A baseline that no longer validates\<close>

text \<open>
  The baseline is validated outside the handlers of the poll: when it does not validate (a release
  that changed the model, a damaged row), no poll reaches storage, so the row is never replaced, and
  the health of the provider is not told.
\<close>

lemma unreadable_baseline_is_final:
  assumes "weather_checkpoint (baseline_key (lo_id l)) (wo_db w) = Some v" "validated env v = None"
    and "poll_inputs env s t w = (Inr (Some (l, c, weather_checkpoint (baseline_key (lo_id l)) (wo_db w), n)), w1)"
  shows "weather_poll env s t u w = (Inl (Weather_failed (Weather_raised (ValidationError ''WeatherConditions''))), w1)
    \<and> weather_checkpoint (baseline_key (lo_id l)) (wo_db w1) = Some v \<and> wo_service w1 = wo_service w"
proof -
  have "wo_db w1 = wo_db w" by (rule poll_inputs_Some [OF assms(3)]) simp
  moreover have "wo_service w1 = wo_service w"
    using assms(3) by (auto simp: poll_inputs_def Let_def split: prod.splits sum.splits option.splits)
  ultimately show ?thesis using assms by (simp add: weather_poll_def weather_observe_def compare_def)
qed

section \<open>A concrete environment\<close>

definition ratio_json :: "rat \<Rightarrow> json" where
  "ratio_json x = (case quotient_of x of (n, d) \<Rightarrow> JList [JInt n, JInt d])"

definition json_ratio :: "json \<Rightarrow> rat" where
  "json_ratio v = (case v of JList [JInt n, JInt d] \<Rightarrow> of_int n / of_int d | _ \<Rightarrow> 0)"


definition sample_dump :: "conditions \<Rightarrow> json" where
  "sample_dump c = JList [JInt (wc_observed_at c), JStr (wc_local_time c), JStr (wc_timezone c),
     ratio_json (wc_temperature_f c), ratio_json (wc_apparent_temperature_f c), JInt (wc_weather_code c),
     JStr (wc_category c), JStr (wc_description c), ratio_json (wc_precipitation_in c), ratio_json (wc_wind_speed_mph c),
     ratio_json (wc_high_f c), ratio_json (wc_low_f c),
     (case wc_precipitation_probability_max_pct c of None \<Rightarrow> JNull | Some p \<Rightarrow> JInt p)]"

definition json_int :: "json \<Rightarrow> int" where "json_int v = (case v of JInt n \<Rightarrow> n | _ \<Rightarrow> 0)"
definition json_text :: "json \<Rightarrow> string" where "json_text v = (case v of JStr s \<Rightarrow> s | _ \<Rightarrow> [])"

definition sample_load :: "json \<Rightarrow> conditions option" where
  "sample_load v = (case v of
      JList xs \<Rightarrow> if length xs = 13 then
        Some \<lparr>wc_observed_at = json_int (xs ! 0), wc_local_time = json_text (xs ! 1), wc_timezone = json_text (xs ! 2),
          wc_temperature_f = json_ratio (xs ! 3), wc_apparent_temperature_f = json_ratio (xs ! 4),
          wc_weather_code = json_int (xs ! 5), wc_category = json_text (xs ! 6), wc_description = json_text (xs ! 7),
          wc_precipitation_in = json_ratio (xs ! 8), wc_wind_speed_mph = json_ratio (xs ! 9), wc_high_f = json_ratio (xs ! 10),
          wc_low_f = json_ratio (xs ! 11),
          wc_precipitation_probability_max_pct = (if xs ! 12 = JNull then None else Some (json_int (xs ! 12)))\<rparr>
        else None
    | _ \<Rightarrow> None)"

lemma json_ratio_inverse [simp]: "json_ratio (ratio_json x) = x"
  by (simp add: json_ratio_def ratio_json_def quotient_of_div [of x] split: prod.split)

lemma sample_load_dump: "sample_load (sample_dump c) = Some c"
  by (cases c) (simp add: sample_load_def sample_dump_def json_int_def json_text_def nth_Cons' split: option.split)

definition sample_forecast :: raw_forecast where
  "sample_forecast = \<lparr>rw_time = ''1970-01-01T00:20'', rw_temperature_2m = 70, rw_apparent_temperature = 71, rw_weather_code = 3,
     rw_precipitation = 0, rw_wind_speed_10m = 5, rw_daily_time = [''1970-01-01''], rw_temperature_2m_max = [75],
     rw_temperature_2m_min = [60], rw_precipitation_probability_max = [Some 10]\<rparr>"

definition sample_place :: location where
  "sample_place = \<lparr>lo_id = 7, lo_display_name = ''Paris, France'', lo_city = ''Paris'', lo_region = None,
     lo_country = ''France'', lo_latitude = 48, lo_longitude = 2, lo_timezone = ''UTC'', lo_selected_at = Some 0,
     lo_last_used_at = Some 0\<rparr>"

section \<open>The weather reported\<close>



definition sample_poll_env :: poll_env where
  "sample_poll_env =
     \<lparr>px_weather = \<lparr>we_send = (\<lambda>n url. Github_response 200 [] []), we_body = (\<lambda>b. Some JNull), we_now = (\<lambda>n. 0),
        we_parse_date = (\<lambda>s. None), we_validate = (\<lambda>v. Some sample_forecast),
        we_zone = (\<lambda>z. Some \<lparr>zn_local = (\<lambda>w. 0), zn_utc = (\<lambda>u. 0)\<rparr>)\<rparr>,
      px_geo = \<lparr>go_send = (\<lambda>n u h. Network_error), go_clock = (\<lambda>n. 0), go_search = (\<lambda>b. None), go_reverse = (\<lambda>b. None),
        go_uuid5 = (\<lambda>s. 7), go_zone = (\<lambda>z. True), go_str = (\<lambda>x. ''48.0'')\<rparr>,
      px_hash = (\<lambda>s. take 100 s), px_topic = ''t'', px_now = 0, px_uuid = 100, wx_dump = sample_dump, wx_load = sample_load,
      px_stable = wc_category\<rparr>"

definition sample_weather_world :: weather_world where
  "sample_weather_world = \<lparr>wo_db = empty_db, wo_locations = \<lparr>ls_rows = [sample_place], ls_selection = Some (Some 7, 0)\<rparr>,
     wo_geocoder = geocoder_new, wo_service = service_new, wo_configured = False, wo_turn = 0\<rparr>"



end
