(* ===== verification/Oauth_States.thy ===== *)
theory Oauth_States
  imports Credentials Provider_Health
begin

text \<open>
  The contract of the two OAuth state stores (Spotify's and Gmail's), and what follows from it over
  any history of authorizations started and callbacks received: a callback is honoured only for a
  state that was issued, within its time to live, in the mode it was issued for, and only once.
\<close>

text \<open>
  \<open>live s k\<close> is the expiry and the mode of the state \<open>k\<close>.  Issuing may drop other states; consuming
  removes at least the state it was given.
\<close>

locale state_store =
  fixes live :: "'s \<Rightarrow> string \<Rightarrow> ('t::linorder \<times> oauth_completion_mode) option"
    and issue :: "'t \<Rightarrow> oauth_completion_mode \<Rightarrow> string \<Rightarrow> 's \<Rightarrow> 's"
    and consume :: "'t \<Rightarrow> string \<Rightarrow> 's \<Rightarrow> oauth_completion_mode option \<times> 's"
    and expiry :: "'t \<Rightarrow> 't"
  assumes live_issue: "live (issue t m k s) k' = Some e \<Longrightarrow> k' = k \<and> e = (expiry t, m) \<or> live s k' = Some e"
    and live_consume: "live (snd (consume t k s)) k' = Some e \<Longrightarrow> live s k' = Some e"
    and consume_honours: "fst (consume t k s) = Some m \<Longrightarrow> \<exists>x. live s k = Some (x, m) \<and> t \<le> x"
    and consume_spends: "fst (consume t k s) = Some m \<Longrightarrow> live (snd (consume t k s)) k = None"
begin

lemma consume_twice:
  assumes "fst (consume t k s) = Some m" shows "fst (consume u k (snd (consume t k s))) = None"
  using consume_spends [OF assms] consume_honours [of u k "snd (consume t k s)"]
  by (cases "fst (consume u k (snd (consume t k s)))") auto

end

datatype 't oauth_step =
    Issue 't oauth_completion_mode string
  | Callback 't string

text \<open>What a history answers: the mode each step was honoured with, \<open>None\<close> for the others.\<close>

fun oauth_history :: "('t \<Rightarrow> oauth_completion_mode \<Rightarrow> string \<Rightarrow> 's \<Rightarrow> 's)
    \<Rightarrow> ('t \<Rightarrow> string \<Rightarrow> 's \<Rightarrow> oauth_completion_mode option \<times> 's) \<Rightarrow> 't oauth_step list \<Rightarrow> 's
    \<Rightarrow> oauth_completion_mode option list" where
  "oauth_history issue consume [] s = []"
| "oauth_history issue consume (Issue t m k # xs) s = None # oauth_history issue consume xs (issue t m k s)"
| "oauth_history issue consume (Callback t k # xs) s =
     fst (consume t k s) # oauth_history issue consume xs (snd (consume t k s))"

text \<open>How often a state is issued, and how often a callback with it is honoured.\<close>

fun issued_count :: "string \<Rightarrow> 't oauth_step list \<Rightarrow> nat" where
  "issued_count k [] = 0"
| "issued_count k (Issue t m k' # xs) = (if k' = k then 1 else 0) + issued_count k xs"
| "issued_count k (Callback t k' # xs) = issued_count k xs"

fun honoured_count :: "string \<Rightarrow> 't oauth_step list \<Rightarrow> oauth_completion_mode option list \<Rightarrow> nat" where
  "honoured_count k (Callback t k' # xs) (r # rs) = (if k' = k \<and> r \<noteq> None then 1 else 0) + honoured_count k xs rs"
| "honoured_count k (x # xs) (r # rs) = honoured_count k xs rs"
| "honoured_count k xs rs = 0"

text \<open>Every honoured callback has an issue before it, in its mode and not expired.\<close>

definition backed :: "('t::linorder \<Rightarrow> 't) \<Rightarrow> 't oauth_step list \<Rightarrow> 't \<Rightarrow> string \<Rightarrow> oauth_completion_mode \<Rightarrow> bool" where
  "backed expiry past t k m \<longleftrightarrow> (\<exists>u. Issue u m k \<in> set past \<and> t \<le> expiry u)"

fun all_backed :: "('t::linorder \<Rightarrow> 't) \<Rightarrow> 't oauth_step list \<Rightarrow> 't oauth_step list \<Rightarrow> oauth_completion_mode option list \<Rightarrow> bool" where
  "all_backed expiry past (Callback t k # xs) (r # rs) =
     ((case r of None \<Rightarrow> True | Some m \<Rightarrow> backed expiry past t k m) \<and> all_backed expiry (past @ [Callback t k]) xs rs)"
| "all_backed expiry past (x # xs) (r # rs) = all_backed expiry (past @ [x]) xs rs"
| "all_backed expiry past xs rs = True"

context state_store
begin

lemma history_backed:
  assumes "\<And>k x m. live s k = Some (x, m) \<Longrightarrow> \<exists>u. Issue u m k \<in> set past \<and> x = expiry u"
  shows "all_backed expiry past xs (oauth_history issue consume xs s)"
  using assms
proof (induction xs arbitrary: past s)
  case (Cons x xs)
  show ?case
  proof (cases x)
    case (Issue t m k)
    have "\<exists>u. Issue u m' k' \<in> set (past @ [x]) \<and> y = expiry u" if "live (issue t m k s) k' = Some (y, m')" for k' y m'
      using live_issue [OF that] Cons.prems [of k' y m'] Issue by auto
    then show ?thesis using Cons.IH [of "issue t m k s" "past @ [x]"] Issue by simp
  next
    case (Callback t k)
    have "\<exists>u. Issue u m' k' \<in> set (past @ [x]) \<and> y = expiry u" if "live (snd (consume t k s)) k' = Some (y, m')" for k' y m'
      using Cons.prems [OF live_consume [OF that]] by auto
    then have "all_backed expiry (past @ [x]) xs (oauth_history issue consume xs (snd (consume t k s)))" by (rule Cons.IH)
    moreover have "backed expiry past t k m" if honoured: "fst (consume t k s) = Some m" for m
    proof -
      obtain y where y: "live s k = Some (y, m)" "t \<le> y" using consume_honours [OF honoured] by blast
      with Cons.prems obtain u where "Issue u m k \<in> set past" "y = expiry u" by blast
      with y show ?thesis by (auto simp: backed_def)
    qed
    ultimately show ?thesis using Callback by (simp split: option.split)
  qed
qed simp

lemma history_once:
  "honoured_count k xs (oauth_history issue consume xs s) \<le> issued_count k xs + (if live s k = None then 0 else 1)"
proof (induction xs arbitrary: s)
  case (Cons x xs)
  show ?case
  proof (cases x)
    case (Issue t m k')
    have "live (issue t m k' s) k = None \<or> live s k \<noteq> None \<or> k' = k"
      using live_issue [of t m k' s k] by (cases "live (issue t m k' s) k") auto
    then show ?thesis using Cons.IH [of "issue t m k' s"] Issue by (auto split: if_splits)
  next
    case (Callback t k')
    have kept: "live (snd (consume t k' s)) k = None \<or> live s k \<noteq> None"
      using live_consume [of t k' s k] by (cases "live (snd (consume t k' s)) k") auto
    have "live (snd (consume t k' s)) k = None \<and> live s k \<noteq> None" if honoured: "k' = k" "fst (consume t k' s) \<noteq> None"
    proof -
      obtain m where m: "fst (consume t k s) = Some m" using honoured by auto
      from consume_spends [OF m] consume_honours [OF m] honoured(1) show ?thesis by auto
    qed
    with kept Cons.IH [of "snd (consume t k' s)"] Callback show ?thesis by (auto split: if_splits)
  qed
qed simp

end

section \<open>The states both stores keep\<close>

type_synonym issued_states = "(string \<times> instant \<times> oauth_completion_mode) list"

text \<open>\<open>compare_digest\<close> refuses text that is not ASCII.\<close>

definition ascii :: "string \<Rightarrow> bool" where
  "ascii s = list_all (\<lambda>c. (of_char c :: int) < 128) s"

text \<open>A dictionary has distinct keys; the contract is stated on dictionaries.\<close>

typedef state_dict = "{ss :: issued_states. distinct (map fst ss)}"
  by (rule exI [of _ "[]"]) simp

setup_lifting type_definition_state_dict

lift_definition no_states :: state_dict is "[]" by simp

lift_definition state_live :: "state_dict \<Rightarrow> string \<Rightarrow> (instant \<times> oauth_completion_mode) option" is map_of .

end
