(* ===== verification/Spotify_States.thy ===== *)
theory Spotify_States
  imports Oauth_States
begin

text \<open>
  \<open>backend/app/providers/spotify/auth.py\<close>: when Spotify counts as configured, and the states of its
  OAuth callbacks.  \<open>ipaddress\<close> is Python 3.13's, on the hosts \<open>urlsplit\<close> leaves.
\<close>

section \<open>Loopback addresses\<close>

definition hex_value :: "char \<Rightarrow> int" where
  "hex_value c = (let n = (of_char c :: int) in if n \<le> 57 then n - 48 else if n \<le> 70 then n - 55 else n - 87)"

definition hex_int :: "string \<Rightarrow> int" where
  "hex_int s = foldl (\<lambda>a c. 16 * a + hex_value c) 0 s"

definition ipv4_octets :: "string \<Rightarrow> int list" where
  "ipv4_octets s = map digits_int (split_on (CHR ''.'') s)"

text \<open>The groups of an address that \<open>ipv6_ok\<close> accepts; an empty inner group stands for zeros.\<close>

definition ipv6_fields :: "string \<Rightarrow> string list \<times> int list" where
  "ipv6_fields s =
     (let ps = split_on (CHR '':'') s in
      if CHR ''.'' \<in> set (last ps)
      then (case ipv4_octets (last ps) of
          [a, b, c, d] \<Rightarrow> (butlast ps, [256 * a + b, 256 * c + d]) | _ \<Rightarrow> (butlast ps, []))
      else (ps, []))"

definition ipv6_numbers :: "string \<Rightarrow> int list" where
  "ipv6_numbers s =
     (case ipv6_fields s of (ps, tail) \<Rightarrow>
        (let hi = map hex_int (takeWhile (\<lambda>p. p \<noteq> []) (if hd ps = [] then tl ps else ps));
             lo = map hex_int (rev (takeWhile (\<lambda>p. p \<noteq> []) (rev (if last ps = [] then butlast ps else ps)))) @ tail
         in if list_all (\<lambda>p. p \<noteq> []) ps then map hex_int ps @ tail
            else hi @ replicate (8 - length hi - length lo) 0 @ lo))"

text \<open>\<open>ipaddress.ip_address(host).is_loopback\<close>, \<open>False\<close> where the host is not an address.\<close>

definition is_loopback :: "string \<Rightarrow> bool" where
  "is_loopback host =
     (if ipv4_ok host then hd (ipv4_octets host) = 127
      else if ipv6_ok host then
        (let n = ipv6_numbers (before (CHR ''%'') host) in
         if take 6 n = [0, 0, 0, 0, 0, 65535] then n ! 6 div 256 = 127 else n = [0, 0, 0, 0, 0, 0, 0, 1])
      else False)"

lemma loopback_examples:
  "is_loopback ''127.0.0.1''" "is_loopback ''::1''" "is_loopback ''0:0:0:0:0:0:0:1''" "is_loopback ''::ffff:127.0.0.1''"
  "\<not> is_loopback ''10.0.0.1''" "\<not> is_loopback ''::2''" "\<not> is_loopback ''localhost''" "\<not> is_loopback ''1::''"
  by code_simp+

section \<open>The settings\<close>

text \<open>What the OAuth service raises: a stable code with an HTTP status; other exceptions; cancellation.\<close>

datatype oauth_failure = Oauth_error string "int option" | Oauth_raised py_error

definition SPOTIFY_CALLBACK_PATH :: string where
  "SPOTIFY_CALLBACK_PATH = ''/api/v1/providers/spotify/oauth/callback''"

definition oauth_code :: "string \<Rightarrow> oauth_failure" where
  "oauth_code c = Oauth_error c None"

definition redirect_ok :: "url \<Rightarrow> bool" where
  "redirect_ok u = (case hostname u of None \<Rightarrow> False | Some h \<Rightarrow>
     (u_scheme u = ''https'' \<or> u_scheme u = ''http'' \<and> is_loopback h) \<and> h \<noteq> [] \<and> casefold h \<noteq> ''localhost''
     \<and> username u = None \<and> password u = None \<and> u_fragment u = [] \<and> u_path u = SPOTIFY_CALLBACK_PATH)"

definition validate_redirect_uri :: "string option \<Rightarrow> oauth_failure + unit" where
  "validate_redirect_uri v =
     (if \<not> truthy v then Inl (oauth_code ''redirect_uri_invalid'')
      else (case urlsplit (the v) of
          Inl e \<Rightarrow> Inl (Oauth_raised e)
        | Inr u \<Rightarrow>
            (case url_port u of
               Inl e \<Rightarrow> Inl (oauth_code ''redirect_uri_invalid'')
             | Inr p \<Rightarrow> if p = Some 0 \<or> \<not> redirect_ok u then Inl (oauth_code ''redirect_uri_invalid'') else Inr ())))"

definition required_text :: "string option \<Rightarrow> string" where
  "required_text v = (case v of None \<Rightarrow> [] | Some s \<Rightarrow> strip s)"

definition complete_settings :: "(string \<Rightarrow> fernet option) \<Rightarrow> settings \<Rightarrow> oauth_failure + settings" where
  "complete_settings fernet_new s =
     (let p = providers s in
      bind_r (ensure (required_text (spotify_client_id p) \<noteq> [] \<and> required_text (spotify_client_secret p) \<noteq> []
          \<and> required_text (spotify_redirect_uri p) \<noteq> []) (oauth_code ''configuration_missing'')) (\<lambda>_.
      bind_r (ensure (required_text (credential_encryption_key p) \<noteq> [])
          (oauth_code ''credential_encryption_unavailable'')) (\<lambda>_.
      bind_r (ensure (\<not> isl (cipher_new fernet_new (credential_encryption_key p)))
          (oauth_code ''credential_encryption_unavailable'')) (\<lambda>_.
      bind_r (validate_redirect_uri (spotify_redirect_uri p)) (\<lambda>_. Inr s)))))"

definition is_spotify_configured :: "(string \<Rightarrow> fernet option) \<Rightarrow> settings \<Rightarrow> bool result" where
  "is_spotify_configured fernet_new s =
     (if map_of (provider_configuration s) ''spotify'' \<noteq> Some True then Inr False
      else if isl (cipher_new fernet_new (credential_encryption_key (providers s))) then Inr False
      else (case validate_redirect_uri (spotify_redirect_uri (providers s)) of
          Inl (Oauth_raised e) \<Rightarrow> Inl e | Inl e \<Rightarrow> Inr False | Inr _ \<Rightarrow> Inr True))"

text \<open>
  \<open>urlsplit\<close> raises outside the \<open>try\<close>: a redirect URI with a broken bracket is not reported as not
  configured, it makes every caller raise, the health endpoint and the registration at start-up too.
\<close>

lemma broken_bracket_raises:
  "validate_redirect_uri (Some ''http://[::1/api/v1/providers/spotify/oauth/callback'')
   = Inl (Oauth_raised (ValueError ''Invalid IPv6 URL''))"
  by code_simp

lemma configured_redirect:
  assumes "is_spotify_configured f s = Inr True"
  obtains u where "urlsplit (the (spotify_redirect_uri (providers s))) = Inr u" "redirect_ok u"
    "runtime_mode s = PERSONAL_LOCAL"
proof -
  have "validate_redirect_uri (spotify_redirect_uri (providers s)) = Inr ()"
    using assms by (auto simp: is_spotify_configured_def split: if_splits sum.splits oauth_failure.splits)
  moreover have "runtime_mode s = PERSONAL_LOCAL"
    using assms by (cases "runtime_mode s") (auto simp: is_spotify_configured_def provider_configuration_def split: if_splits)
  ultimately show thesis using that by (auto simp: validate_redirect_uri_def split: if_splits sum.splits)
qed

section \<open>The states\<close>

definition STATE_TTL :: timedelta where "STATE_TTL = minutes 10"

definition discard_expired :: "instant \<Rightarrow> issued_states \<Rightarrow> issued_states" where
  "discard_expired now ss = filter (\<lambda>(k, expires, m). \<not> expires \<le> now) ss"

text \<open>The text of a new state is random; here it is given.\<close>

definition create_state :: "instant \<Rightarrow> oauth_completion_mode \<Rightarrow> string \<Rightarrow> issued_states \<Rightarrow> issued_states" where
  "create_state now m state ss = AList.update state (now + STATE_TTL, m) (discard_expired now ss)"

fun find_state :: "string \<Rightarrow> issued_states \<Rightarrow> (instant \<times> oauth_completion_mode) option" where
  "find_state supplied [] = None"
| "find_state supplied ((k, v) # ss) =
     (if \<not> (ascii k \<and> ascii supplied) then None else if k = supplied then Some v else find_state supplied ss)"

definition consume_state :: "instant \<Rightarrow> string \<Rightarrow> issued_states \<Rightarrow> oauth_completion_mode option \<times> issued_states" where
  "consume_state now supplied ss =
     (let ss' = discard_expired now ss in
      if supplied = [] then (None, ss')
      else (case find_state supplied ss' of
          None \<Rightarrow> (None, ss')
        | Some (expires, m) \<Rightarrow> (if now < expires then Some m else None, AList.delete supplied ss')))"

lemma find_state_map_of: "find_state k ss = Some v \<Longrightarrow> map_of ss k = Some v"
  by (induction k ss rule: find_state.induct) (auto split: if_splits)

lemma map_of_discard: "map_of (discard_expired now ss) k = Some v \<Longrightarrow> distinct (map fst ss) \<Longrightarrow> map_of ss k = Some v"
  by (auto simp: discard_expired_def dest!: map_of_SomeD intro!: map_of_is_SomeI)

lemma distinct_discard: "distinct (map fst ss) \<Longrightarrow> distinct (map fst (discard_expired now ss))"
  by (simp add: discard_expired_def distinct_map_filter)

lift_definition state_issue :: "instant \<Rightarrow> oauth_completion_mode \<Rightarrow> string \<Rightarrow> state_dict \<Rightarrow> state_dict" is create_state
  by (simp add: create_state_def distinct_discard distinct_update)

lift_definition state_rest :: "instant \<Rightarrow> string \<Rightarrow> state_dict \<Rightarrow> state_dict" is "\<lambda>t k ss. snd (consume_state t k ss)"
  by (auto simp: consume_state_def Let_def distinct_discard distinct_delete split: option.split prod.split)

lift_definition state_mode :: "instant \<Rightarrow> string \<Rightarrow> state_dict \<Rightarrow> oauth_completion_mode option" is "\<lambda>t k ss. fst (consume_state t k ss)" .

definition state_consume :: "instant \<Rightarrow> string \<Rightarrow> state_dict \<Rightarrow> oauth_completion_mode option \<times> state_dict" where
  "state_consume t k s = (state_mode t k s, state_rest t k s)"

interpretation spotify_states: state_store state_live state_issue state_consume "\<lambda>t. t + STATE_TTL"
proof unfold_locales
  fix t :: instant and m k k' s e
  show "state_live (state_issue t m k s) k' = Some e \<Longrightarrow> k' = k \<and> e = (t + STATE_TTL, m) \<or> state_live s k' = Some e"
    by transfer (auto simp: create_state_def update_conv' split: if_splits dest: map_of_discard)
  show "state_live (snd (state_consume t k s)) k' = Some e \<Longrightarrow> state_live s k' = Some e"
    unfolding state_consume_def snd_conv
    by transfer (auto simp: consume_state_def Let_def delete_conv' split: if_splits option.splits prod.splits dest: map_of_discard)
next
  fix t :: instant and m k s
  show "fst (state_consume t k s) = Some m \<Longrightarrow> \<exists>x. state_live s k = Some (x, m) \<and> t \<le> x"
    unfolding state_consume_def fst_conv
    by transfer (auto simp: consume_state_def Let_def split: if_splits option.splits prod.splits
        dest!: find_state_map_of map_of_discard)
  show "fst (state_consume t k s) = Some m \<Longrightarrow> state_live (snd (state_consume t k s)) k = None"
    unfolding state_consume_def fst_conv snd_conv
    by transfer (auto simp: consume_state_def Let_def delete_conv' split: if_splits option.splits prod.splits)
qed

text \<open>
  No Spotify callback is accepted that the user did not start.  Over every sequence of
  authorizations started and callbacks received, at any times: a callback is accepted only with a
  state that was issued before, at most ten minutes earlier, in the mode it was issued for, and each
  issue is accepted at most once, whatever order and however often callbacks are repeated.
\<close>

theorem spotify_callback_authentic:
  "all_backed (\<lambda>t. t + STATE_TTL) [] xs (oauth_history state_issue state_consume xs no_states)
   \<and> honoured_count k xs (oauth_history state_issue state_consume xs no_states) \<le> issued_count k xs"
proof
  have none: "state_live no_states k = None" for k by transfer simp
  show "all_backed (\<lambda>t. t + STATE_TTL) [] xs (oauth_history state_issue state_consume xs no_states)"
    by (rule spotify_states.history_backed) (simp add: none)
  show "honoured_count k xs (oauth_history state_issue state_consume xs no_states) \<le> issued_count k xs"
    using spotify_states.history_once [of k xs no_states] by (simp add: none)
qed

text \<open>A state is accepted once and in time, not twice and not after ten minutes.\<close>

lemma spotify_callback_example:
  "oauth_history state_issue state_consume
     [Issue 0 DESKTOP ''a'', Issue 0 BROWSER ''b'', Callback 1 ''a'', Callback 2 ''a'', Callback (minutes 10) ''b'', Callback 3 ''c''] no_states
   = [None, None, Some DESKTOP, None, None, None]"
  by code_simp

end
