(* ===== verification/Provider_Store.thy ===== *)
theory Provider_Store
  imports Outcomes Event_Store
begin

text \<open>
  What the providers with an authorization share: the row of a connection, and \<open>str.split()\<close>.
\<close>

section \<open>The row of a connection\<close>

definition find_connection :: "string \<Rightarrow> db \<Rightarrow> connection_row option" where
  "find_connection provider d = find_row cn_provider provider (db_connections d)"

text \<open>A change of a row writes its \<open>updated_at\<close>; a row that stays the same is not written.\<close>

definition put_connection :: "instant \<Rightarrow> connection_row \<Rightarrow> db \<Rightarrow> db" where
  "put_connection now r d =
     (if find_connection (cn_provider r) d = Some r then d
      else d\<lparr>db_connections := upsert cn_provider (r\<lparr>cn_updated_at := now\<rparr>) (db_connections d)\<rparr>)"

definition new_connection :: "string \<Rightarrow> instant \<Rightarrow> connection_row" where
  "new_connection provider now = \<lparr>cn_provider = provider, cn_status = ''connected'', cn_credentials = None, cn_scopes = [],
     cn_created_at = now, cn_updated_at = now, cn_connected_at = None\<rparr>"

lemma find_put_connection:
  "find_connection k (put_connection now r d)
   = (if cn_provider r = k then Some (if find_connection k d = Some r then r else r\<lparr>cn_updated_at := now\<rparr>) else find_connection k d)"
  by (auto simp: put_connection_def find_connection_def find_row_upsert)

section \<open>Words\<close>

text \<open>\<open>s.split()\<close>.\<close>

fun words :: "string \<Rightarrow> string list" where
  "words [] = []"
| "words (c # s) =
     (if is_space c then words s
      else (case s of [] \<Rightarrow> [[c]] | d # _ \<Rightarrow> if is_space d then [c] # words s
        else (case words s of [] \<Rightarrow> [[c]] | p # ps \<Rightarrow> (c # p) # ps)))"

end
