(* ===== verification/Spotify_Auth.thy ===== *)
theory Spotify_Auth
  imports Spotify_States Provider_Store
begin

text \<open>
  \<open>backend/app/providers/spotify/health.py\<close> and the rest of \<open>auth.py\<close>: the health of the provider, the
  stored connection and the token requests.  The HTTP client is a parameter that answers the \<open>n\<close>-th
  request; JSON text and bytes are related by \<open>sy_dumps\<close> and \<open>sy_loads\<close>.
\<close>

section \<open>Health\<close>

datatype spotify_status = Disconnected | Healthy | Degraded | Rate_limited_status | Authorization_expired | Reconnect_required

record spotify_health =
  sh_status :: "spotify_status option"
  sh_detail_code :: string
  sh_last_success_at :: "instant option"
  sh_last_failure_at :: "instant option"
  sh_last_observation_at :: "instant option"
  sh_rate_limited_until :: "instant option"

definition spotify_health_new :: spotify_health where
  "spotify_health_new = \<lparr>sh_status = None, sh_detail_code = ''not_observed'', sh_last_success_at = None,
     sh_last_failure_at = None, sh_last_observation_at = None, sh_rate_limited_until = None\<rparr>"

definition is_failure :: "spotify_status \<Rightarrow> bool" where
  "is_failure s = (s \<in> {Degraded, Rate_limited_status, Authorization_expired, Reconnect_required})"

definition note_status :: "instant \<Rightarrow> spotify_status \<Rightarrow> string \<Rightarrow> bool \<Rightarrow> instant option \<Rightarrow> spotify_health \<Rightarrow> spotify_health" where
  "note_status now status code observed until h =
     \<lparr>sh_status = Some status, sh_detail_code = code,
      sh_last_success_at = (if status = Healthy then Some now else sh_last_success_at h),
      sh_last_failure_at = (if is_failure status then Some now else sh_last_failure_at h),
      sh_last_observation_at = (if observed then Some now else sh_last_observation_at h),
      sh_rate_limited_until = until\<rparr>"

text \<open>What the shared registry is told.\<close>

definition share_status :: "instant \<Rightarrow> spotify_status \<Rightarrow> string \<Rightarrow> bool \<Rightarrow> bool \<Rightarrow> instant option \<Rightarrow> health_registry
    \<Rightarrow> (provider_health \<times> health_registry) result" where
  "share_status now status code configured observed until reg =
     (if status = Healthy then report now ''spotify'' Ps_healthy code
        (report_defaults\<lparr>rp_configured := configured, rp_succeeded := True, rp_observed := observed\<rparr>) reg
      else if status = Disconnected then report now ''spotify'' Ps_disconnected code (report_defaults\<lparr>rp_configured := configured\<rparr>) reg
      else report now ''spotify'' Ps_degraded code
        (report_defaults\<lparr>rp_configured := configured, rp_failed := True, rp_rate_limited_until := map_option utc until\<rparr>) reg)"

record spotify_health_view =
  sv_status :: spotify_status
  sv_configured :: bool
  sv_connected :: bool
  sv_detail_code :: string
  sv_checked_at :: instant
  sv_last_success_at :: "instant option"
  sv_last_failure_at :: "instant option"
  sv_last_observation_at :: "instant option"
  sv_rate_limited_until :: "instant option"
  sv_freshness :: "timedelta option"

definition shown_status :: "bool \<Rightarrow> string \<Rightarrow> instant \<Rightarrow> spotify_health \<Rightarrow> spotify_status \<times> string \<times> bool" where
  "shown_status configured connection_status now h =
     (let connected = (connection_status = ''connected'') in
      if \<not> configured then (Disconnected, ''configuration_missing'', False)
      else if \<not> connected then
        (if connection_status = ''degraded'' then (Reconnect_required, ''authorization_expired'', connected)
         else (case sh_status h of
             Some Authorization_expired \<Rightarrow> (Authorization_expired, sh_detail_code h, connected)
           | Some Reconnect_required \<Rightarrow> (Reconnect_required, sh_detail_code h, connected)
           | _ \<Rightarrow> (Disconnected, ''not_connected'', connected)))
      else (case sh_status h of
          None \<Rightarrow> (Degraded, ''not_observed'', connected)
        | Some s \<Rightarrow>
            if s = Authorization_expired \<or> s = Reconnect_required then (s, sh_detail_code h, False)
            else if s = Rate_limited_status \<and> (case sh_rate_limited_until h of None \<Rightarrow> False | Some t \<Rightarrow> t \<le> now)
              then (Degraded, ''rate_limit_elapsed'', connected)
            else (s, sh_detail_code h, connected)))"

definition first_of :: "'a option list \<Rightarrow> 'a option" where
  "first_of vs = (case filter (\<lambda>v. v \<noteq> None) vs of [] \<Rightarrow> None | v # _ \<Rightarrow> v)"

definition spotify_snapshot :: "bool \<Rightarrow> string \<Rightarrow> instant option \<Rightarrow> instant \<Rightarrow> spotify_health \<Rightarrow> spotify_health_view" where
  "spotify_snapshot configured connection_status connected_at now h =
     (case shown_status configured connection_status now h of (status, code, ok) \<Rightarrow>
        \<lparr>sv_status = status, sv_configured = configured, sv_connected = ok, sv_detail_code = code,
         sv_checked_at = now, sv_last_success_at = sh_last_success_at h, sv_last_failure_at = sh_last_failure_at h,
         sv_last_observation_at = sh_last_observation_at h, sv_rate_limited_until = sh_rate_limited_until h,
         sv_freshness = map_option (\<lambda>t. max 0 (now - t))
           (first_of [sh_last_observation_at h, sh_last_success_at h, connected_at])\<rparr>)"

section \<open>The world\<close>

datatype spotify_request =
    Token_post "(string \<times> string) list" string string
  | Api_call string string string "(string \<times> string) list" json

text \<open>An answer: its status, its \<open>Retry-After\<close> header, and its body as JSON if it is JSON.\<close>

datatype spotify_answer = Http_failed | Http_cancelled | Http_answer int "string option" "json option"

record playback =
  pl_is_playing :: bool
  pl_item_type :: "string option"
  pl_item_id :: "string option"
  pl_item_uri :: "string option"
  pl_item_name :: "string option"
  pl_artists :: "string list"
  pl_album_name :: "string option"
  pl_show_name :: "string option"
  pl_artwork_url :: "string option"
  pl_progress_ms :: "int option"
  pl_duration_ms :: "int option"
  pl_device_id :: "string option"
  pl_device_name :: "string option"
  pl_device_type :: "string option"
  pl_volume_percent :: "int option"
  pl_shuffle :: "bool option"
  pl_repeat :: "string option"
  pl_context_uri :: "string option"
  pl_context_type :: "string option"
  pl_timestamp_ms :: "int option"

text \<open>The state of the provider: its database, the requests it has sent, its clock readings, its caches.\<close>

record spotify_world =
  sw_db :: db
  sw_sent :: "spotify_request list"
  sw_ticks :: nat
  sw_health :: spotify_health
  sw_registry :: health_registry
  sw_previous :: "playback option"
  sw_current :: "playback option"
  sw_observed_at :: "instant option"

record spotify_env =
  sy_settings :: settings
  sy_fernet :: "string \<Rightarrow> fernet option"
  sy_answer :: "nat \<Rightarrow> spotify_request \<Rightarrow> spotify_answer"
  sy_clock :: "nat \<Rightarrow> instant"
  sy_dumps :: "json \<Rightarrow> int list"
  sy_loads :: "int list \<Rightarrow> json option"
  sy_parse_date :: "string \<Rightarrow> py_datetime option"

text \<open>
  The exceptions of the provider.  \<open>Auth_required\<close> and \<open>Rate_limited_until\<close> are kinds of API error.
\<close>

datatype spotify_failure =
    Oauth_failure string "int option"
  | Store_failure string
  | Auth_required string
  | Rate_limited_until instant
  | Api_failure string "int option"
  | Spotify_raised py_error
  | Spotify_cancelled

type_synonym 'a spotify = "(spotify_world, spotify_failure, 'a) prog"

definition sy_now :: "spotify_env \<Rightarrow> instant spotify" where
  "sy_now env w = (Inr (sy_clock env (sw_ticks w)), w\<lparr>sw_ticks := Suc (sw_ticks w)\<rparr>)"

fun of_oauth :: "oauth_failure \<Rightarrow> spotify_failure" where
  "of_oauth (Oauth_error c s) = Oauth_failure c s"
| "of_oauth (Oauth_raised e) = Spotify_raised e"

definition lift_oauth :: "oauth_failure + 'a \<Rightarrow> 'a spotify" where
  "lift_oauth r = (case r of Inl e \<Rightarrow> raise_p (of_oauth e) | Inr x \<Rightarrow> return_p x)"

definition spotify_configured :: "spotify_env \<Rightarrow> bool spotify" where
  "spotify_configured env = lift_p Spotify_raised (is_spotify_configured (sy_fernet env) (sy_settings env))"

text \<open>\<open>SpotifyHealthRegistry.report\<close>; the caller says whether the provider is configured.\<close>

definition health_report :: "spotify_env \<Rightarrow> spotify_status \<Rightarrow> string \<Rightarrow> bool \<Rightarrow> bool \<Rightarrow> instant option \<Rightarrow> unit spotify" where
  "health_report env status code configured observed until =
     bind_p (sy_now env) (\<lambda>now.
     bind_p (modify_p (\<lambda>w. w\<lparr>sw_health := note_status now status code observed until (sw_health w)\<rparr>)) (\<lambda>_.
     bind_p (sy_now env) (\<lambda>shared.
     bind_p (read_p sw_registry) (\<lambda>reg.
     bind_p (lift_p Spotify_raised (share_status shared status code configured observed until reg)) (\<lambda>(h, reg').
     modify_p (\<lambda>w. w\<lparr>sw_registry := reg'\<rparr>))))))"

definition health_note :: "spotify_env \<Rightarrow> spotify_status \<Rightarrow> string \<Rightarrow> unit spotify" where
  "health_note env status code =
     bind_p (spotify_configured env) (\<lambda>c. health_report env status code c False None)"

section \<open>Tokens\<close>

record tokens =
  tk_access :: string
  tk_refresh :: string
  tk_expires_at :: instant
  tk_scopes :: "string list"

definition tokens_new :: "string \<Rightarrow> string \<Rightarrow> instant \<Rightarrow> string list \<Rightarrow> tokens result" where
  "tokens_new access refresh expires scopes =
     bind_r (ensure (access \<noteq> [] \<and> refresh \<noteq> []) (ValueError ''Spotify access and refresh credentials are required'')) (\<lambda>_.
     Inr \<lparr>tk_access = access, tk_refresh = refresh, tk_expires_at = expires, tk_scopes = scopes\<rparr>)"

definition tokens_json :: "tokens \<Rightarrow> json" where
  "tokens_json t = JDict [(''access_token'', JStr (tk_access t)), (''refresh_token'', JStr (tk_refresh t)),
     (''expires_at'', JStr (isoformat (tk_expires_at t))), (''scopes'', JList (map JStr (tk_scopes t)))]"

text \<open>The envelope read back; tokens that are not text, which nothing writes, count as a type error.\<close>

definition text_item :: "dict \<Rightarrow> string \<Rightarrow> string result" where
  "text_item d k = bind_r (dict_item d k) (\<lambda>v. case v of JStr s \<Rightarrow> Inr s | _ \<Rightarrow> Inl (TypeError k))"

definition scopes_of :: "json option \<Rightarrow> string list result" where
  "scopes_of v = (case v of
      None \<Rightarrow> Inr [] | Some (JList xs) \<Rightarrow> Inr (map py_str xs) | Some (JStr s) \<Rightarrow> Inr (map (\<lambda>c. [c]) s)
    | Some (JDict d) \<Rightarrow> Inr (map fst d) | _ \<Rightarrow> Inl (TypeError ''scopes''))"

definition tokens_of_json :: "json option \<Rightarrow> tokens result" where
  "tokens_of_json v = (case v of
      Some (JDict d) \<Rightarrow>
        bind_r (text_item d ''access_token'') (\<lambda>access.
        bind_r (text_item d ''refresh_token'') (\<lambda>refresh.
        bind_r (text_item d ''expires_at'') (\<lambda>e.
        bind_r (scopes_of (dict_get d ''scopes'')) (\<lambda>scopes.
        (case fromisoformat e of
           None \<Rightarrow> Inl (ValueError ''Invalid isoformat string'')
         | Some (Naive x) \<Rightarrow>
             bind_r (tokens_new access refresh 0 scopes) (\<lambda>_. Inl (ValueError ''token expiry must be timezone-aware''))
         | Some (Aware x off) \<Rightarrow>
             bind_r (tokens_new access refresh (x - off) scopes) (\<lambda>t. bind_r (in_range (x - off)) (\<lambda>_. Inr t)))))))
    | _ \<Rightarrow> Inl (ValueError ''invalid token envelope''))"

section \<open>The stored connection\<close>

fun catches_stored :: "py_error \<Rightarrow> bool" where
  "catches_stored (OverflowError s) = False"
| "catches_stored e = True"

text \<open>The column type has checked what it bound, so its check on reading is not repeated here.\<close>

definition stored_tokens :: "spotify_env \<Rightarrow> string \<Rightarrow> tokens result" where
  "stored_tokens env s =
     bind_r (cipher_new (sy_fernet env) (credential_encryption_key (providers (sy_settings env)))) (\<lambda>f.
     bind_r (decrypt f (Encrypted_credentials s)) (\<lambda>raw. tokens_of_json (sy_loads env raw)))"

definition load_tokens :: "spotify_env \<Rightarrow> tokens option spotify" where
  "load_tokens env =
     bind_p (read_p (\<lambda>w. find_connection ''spotify'' (sw_db w))) (\<lambda>row.
     (case row of
        None \<Rightarrow> return_p None
      | Some r \<Rightarrow>
          (if cn_status r \<noteq> ''connected'' then return_p None
           else (case cn_credentials r of
               None \<Rightarrow> return_p None
             | Some s \<Rightarrow> (case stored_tokens env s of
                   Inr t \<Rightarrow> return_p (Some t)
                 | Inl e \<Rightarrow> raise_p (if catches_stored e then Store_failure ''stored_credentials_unavailable'' else Spotify_raised e))))))"

definition sealed_tokens :: "spotify_env \<Rightarrow> tokens \<Rightarrow> spotify_failure + encrypted_credentials" where
  "sealed_tokens env t =
     (case cipher_new (sy_fernet env) (credential_encryption_key (providers (sy_settings env))) of
        Inl e \<Rightarrow> Inl (Store_failure ''credential_encryption_unavailable'')
      | Inr f \<Rightarrow> (case encrypt f (sy_dumps env (tokens_json t)) of Inl e \<Rightarrow> Inl (Spotify_raised e) | Inr c \<Rightarrow> Inr c))"

definition save_tokens :: "spotify_env \<Rightarrow> tokens \<Rightarrow> unit spotify" where
  "save_tokens env t =
     (case sealed_tokens env t of
        Inl e \<Rightarrow> raise_p e
      | Inr c \<Rightarrow>
          bind_p (sy_now env) (\<lambda>now.
          bind_p (sy_now env) (\<lambda>stamp.
          modify_p (\<lambda>w. w\<lparr>sw_db :=
            (let row = (case find_connection ''spotify'' (sw_db w) of None \<Rightarrow> new_connection ''spotify'' stamp | Some r \<Rightarrow> r) in
             put_connection stamp (row\<lparr>cn_status := ''connected'', cn_credentials := Some (token c), cn_scopes := tk_scopes t,
               cn_connected_at := Some (case cn_connected_at row of None \<Rightarrow> now | Some t0 \<Rightarrow> t0)\<rparr>) (sw_db w))\<rparr>))))"

definition change_connection :: "spotify_env \<Rightarrow> (connection_row \<Rightarrow> connection_row) \<Rightarrow> unit spotify" where
  "change_connection env f =
     bind_p (sy_now env) (\<lambda>stamp.
     modify_p (\<lambda>w. case find_connection ''spotify'' (sw_db w) of
         None \<Rightarrow> w | Some r \<Rightarrow> w\<lparr>sw_db := put_connection stamp (f r) (sw_db w)\<rparr>))"

definition mark_reconnect_required :: "spotify_env \<Rightarrow> unit spotify" where
  "mark_reconnect_required env = change_connection env
     (\<lambda>r. r\<lparr>cn_status := ''degraded'', cn_credentials := None, cn_scopes := []\<rparr>)"

definition disconnect_store :: "spotify_env \<Rightarrow> unit spotify" where
  "disconnect_store env = change_connection env
     (\<lambda>r. r\<lparr>cn_status := ''disconnected'', cn_credentials := None, cn_scopes := [], cn_connected_at := None\<rparr>)"

text \<open>\<open>connection_info\<close>: connected, the status, and when.\<close>

definition connection_info :: "db \<Rightarrow> bool \<times> string \<times> instant option" where
  "connection_info d = (case find_connection ''spotify'' d of
      None \<Rightarrow> (False, ''disconnected'', None)
    | Some r \<Rightarrow> (cn_status r = ''connected'' \<and> cn_credentials r \<noteq> None, cn_status r, cn_connected_at r))"

section \<open>The OAuth service\<close>

definition SPOTIFY_AUTHORIZE_URL :: string where "SPOTIFY_AUTHORIZE_URL = ''https://accounts.spotify.com/authorize''"

definition SPOTIFY_SCOPES :: "string list" where
  "SPOTIFY_SCOPES = [''user-read-playback-state'', ''user-modify-playback-state'']"

definition checked_settings :: "spotify_env \<Rightarrow> settings spotify" where
  "checked_settings env = lift_oauth (complete_settings (sy_fernet env) (sy_settings env))"

definition authorization_url :: "spotify_env \<Rightarrow> string \<Rightarrow> string spotify" where
  "authorization_url env state =
     bind_p (checked_settings env) (\<lambda>s.
     return_p (SPOTIFY_AUTHORIZE_URL @ ''?'' @ urlencode
       [(''client_id'', or_none (spotify_client_id (providers s))), (''response_type'', ''code''),
        (''redirect_uri'', or_none (spotify_redirect_uri (providers s))), (''scope'', join '' '' SPOTIFY_SCOPES), (''state'', state)]))"

definition http_send :: "spotify_env \<Rightarrow> spotify_request \<Rightarrow> spotify_answer spotify" where
  "http_send env rq w = (Inr (sy_answer env (length (sw_sent w)) rq), w\<lparr>sw_sent := sw_sent w @ [rq]\<rparr>)"

definition post_token :: "spotify_env \<Rightarrow> settings \<Rightarrow> (string \<times> string) list \<Rightarrow> (int \<times> json option) spotify" where
  "post_token env s form =
     bind_p (http_send env (Token_post form (required_text (spotify_client_id (providers s)))
       (required_text (spotify_client_secret (providers s))))) (\<lambda>a.
     case a of
       Http_failed \<Rightarrow> raise_p (Oauth_failure ''token_endpoint_unavailable'' None)
     | Http_cancelled \<Rightarrow> raise_p Spotify_cancelled
     | Http_answer status retry body \<Rightarrow> return_p (status, body))"

text \<open>\<open>None\<close> is the answer that the grant is no longer valid, where the caller allows it.\<close>

definition token_response :: "bool \<Rightarrow> int \<times> json option \<Rightarrow> spotify_failure + dict option" where
  "token_response allow_invalid_grant r = (case r of (status, body) \<Rightarrow>
     (case body of
        None \<Rightarrow> Inl (Oauth_failure ''token_response_invalid'' (Some status))
      | Some v \<Rightarrow>
          (case v of
             JDict d \<Rightarrow>
               if allow_invalid_grant \<and> status = 400 \<and> dict_get d ''error'' = Some (JStr ''invalid_grant'') then Inr None
               else if status \<noteq> 200 then Inl (Oauth_failure ''token_exchange_failed'' (Some status))
               else Inr (Some d)
           | _ \<Rightarrow> Inl (Oauth_failure ''token_exchange_failed'' (Some status)))))"

definition lift_failure :: "spotify_failure + 'a \<Rightarrow> 'a spotify" where
  "lift_failure r = (case r of Inl e \<Rightarrow> raise_p e | Inr x \<Rightarrow> return_p x)"

text \<open>\<open>isinstance(value, str) and value\<close>.\<close>

definition text_or_none :: "json option \<Rightarrow> string option" where
  "text_or_none v = (case v of Some (JStr s) \<Rightarrow> if s \<noteq> [] then Some s else None | _ \<Rightarrow> None)"

definition make_tokens :: "spotify_env \<Rightarrow> dict \<Rightarrow> string \<Rightarrow> string list \<Rightarrow> tokens spotify" where
  "make_tokens env d refresh fallback =
     (case (dict_get d ''access_token'', dict_get d ''expires_in'') of
        (Some (JStr access), Some (JInt n)) \<Rightarrow>
          if access = [] \<or> n \<le> 0 then raise_p (Oauth_failure ''token_response_invalid'' None)
          else
            bind_p (sy_now env) (\<lambda>now.
            bind_p (lift_p Spotify_raised (in_range (now + seconds n))) (\<lambda>expires.
            lift_p Spotify_raised (tokens_new access refresh expires
              (case dict_get d ''scope'' of Some (JStr s) \<Rightarrow> if strip s \<noteq> [] then words s else fallback | _ \<Rightarrow> fallback))))
      | _ \<Rightarrow> raise_p (Oauth_failure ''token_response_invalid'' None))"

definition accept_tokens :: "spotify_env \<Rightarrow> int \<Rightarrow> dict option \<Rightarrow> tokens spotify" where
  "accept_tokens env status d = (case d of
      None \<Rightarrow> raise_p (Spotify_raised (TypeError ''data''))
    | Some dict \<Rightarrow>
        (case text_or_none (dict_get dict ''refresh_token'') of
           None \<Rightarrow> raise_p (Oauth_failure ''refresh_token_missing'' (Some status))
         | Some refresh \<Rightarrow>
             bind_p (make_tokens env dict refresh SPOTIFY_SCOPES) (\<lambda>t.
             bind_p (save_tokens env t) (\<lambda>_. return_p t))))"

definition exchange_code :: "spotify_env \<Rightarrow> string \<Rightarrow> tokens spotify" where
  "exchange_code env code =
     (if code = [] then raise_p (Oauth_failure ''authorization_code_missing'' None) else
      bind_p (checked_settings env) (\<lambda>s.
      bind_p (post_token env s [(''grant_type'', ''authorization_code''), (''code'', code),
        (''redirect_uri'', or_none (spotify_redirect_uri (providers s)))]) (\<lambda>r.
      bind_p (lift_failure (token_response False r)) (\<lambda>d. accept_tokens env (fst r) d))))"

text \<open>
  A refresh.  An invalid grant erases the stored credentials and reports the expiry
  (\<open>_report_reconnect_required\<close> of the provider) before it raises.
\<close>

definition refresh_tokens :: "spotify_env \<Rightarrow> tokens \<Rightarrow> tokens spotify" where
  "refresh_tokens env old =
     bind_p (checked_settings env) (\<lambda>s.
     bind_p (post_token env s [(''grant_type'', ''refresh_token''), (''refresh_token'', tk_refresh old)]) (\<lambda>r.
     bind_p (lift_failure (token_response True r)) (\<lambda>d.
     (case d of
        None \<Rightarrow>
          bind_p (mark_reconnect_required env) (\<lambda>_.
          bind_p (health_note env Authorization_expired ''authorization_expired'') (\<lambda>_.
          raise_p (Oauth_failure ''authorization_expired'' (Some (fst r)))))
      | Some dict \<Rightarrow>
          bind_p (make_tokens env dict
            (case text_or_none (dict_get dict ''refresh_token'') of Some t \<Rightarrow> t | None \<Rightarrow> tk_refresh old)
            (tk_scopes old)) (\<lambda>t.
          bind_p (save_tokens env t) (\<lambda>_. return_p t))))))"

end
