(* ===== verification/Spotify_Client.thy ===== *)
theory Spotify_Client
  imports Spotify_Auth
begin

text \<open>
  \<open>backend/app/providers/spotify/client.py\<close>: an authorized request, with one refresh when the access
  token is about to expire or refused, and what each answer means.  The refresh lock serialises
  coroutines; here a request runs by itself.
\<close>

section \<open>Waiting times\<close>

definition parse_retry_after :: "(string \<Rightarrow> py_datetime option) \<Rightarrow> string option \<Rightarrow> instant \<Rightarrow> instant result" where
  "parse_retry_after parse_date value now =
     (let later = in_range (now + seconds 60);
          dated = (\<lambda>v. case parse_date v of
              None \<Rightarrow> later
            | Some (Naive w) \<Rightarrow> Inr (max now w)
            | Some (Aware w off) \<Rightarrow> (case in_range (w - off) of Inl e \<Rightarrow> later | Inr t \<Rightarrow> Inr (max now t)))
      in if \<not> truthy value then later
         else (case parse_int (the value) of
             None \<Rightarrow> dated (the value)
           | Some n \<Rightarrow> (case in_range (now + seconds (max 0 n)) of Inl e \<Rightarrow> dated (the value) | Inr t \<Rightarrow> Inr t)))"

definition TOKEN_REFRESH_SKEW :: timedelta where "TOKEN_REFRESH_SKEW = seconds 30"

section \<open>Errors of the OAuth service\<close>

definition handle_oauth_error :: "spotify_env \<Rightarrow> string \<Rightarrow> unit spotify" where
  "handle_oauth_error env code =
     (if code = ''authorization_expired'' then health_note env Authorization_expired ''authorization_expired''
      else if code = ''credential_encryption_unavailable'' then health_note env Reconnect_required code
      else health_note env Degraded ''token_endpoint_unavailable'')"

definition raise_oauth_error :: "spotify_env \<Rightarrow> string \<Rightarrow> 'a spotify" where
  "raise_oauth_error env code =
     bind_p (handle_oauth_error env code) (\<lambda>_.
     raise_p (if code = ''authorization_expired'' then Auth_required code
       else if code = ''configuration_missing'' then Auth_required ''reconnect_required''
       else Api_failure ''provider_unavailable'' (Some 503)))"

definition on_oauth_error :: "spotify_env \<Rightarrow> 'a spotify \<Rightarrow> 'a spotify" where
  "on_oauth_error env m = attempt_p m (\<lambda>e. case e of Oauth_failure code status \<Rightarrow> raise_oauth_error env code | _ \<Rightarrow> raise_p e)"

section \<open>The access token\<close>

definition token_fresh :: "spotify_env \<Rightarrow> tokens \<Rightarrow> bool spotify" where
  "token_fresh env t = bind_p (sy_now env) (\<lambda>now. return_p (now + TOKEN_REFRESH_SKEW < tk_expires_at t))"

text \<open>
  Under the lock the tokens are read again: another coroutine may have refreshed them.  \<open>stale\<close> is the
  access token the caller has.
\<close>

definition renewed_token :: "spotify_env \<Rightarrow> string \<Rightarrow> string spotify" where
  "renewed_token env stale =
     bind_p (load_tokens env) (\<lambda>current.
     case current of
       None \<Rightarrow> raise_p (Auth_required ''reconnect_required'')
     | Some t \<Rightarrow>
         bind_p (if tk_access t \<noteq> stale then token_fresh env t else return_p False) (\<lambda>fresh.
         if fresh then return_p (tk_access t)
         else bind_p (refresh_tokens env t) (\<lambda>t'. return_p (tk_access t'))))"

definition refresh_locked :: "spotify_env \<Rightarrow> string \<Rightarrow> string spotify" where
  "refresh_locked env stale = on_oauth_error env (renewed_token env stale)"

definition saved_tokens :: "spotify_env \<Rightarrow> tokens option spotify" where
  "saved_tokens env = attempt_p (load_tokens env) (\<lambda>e.
     case e of
       Store_failure code \<Rightarrow>
         if code = ''stored_credentials_unavailable''
         then bind_p (health_note env Reconnect_required code) (\<lambda>_. raise_p (Auth_required ''reconnect_required''))
         else raise_p e
     | _ \<Rightarrow> raise_p e)"

definition current_access_token :: "spotify_env \<Rightarrow> string spotify" where
  "current_access_token env =
     bind_p (saved_tokens env) (\<lambda>current.
     case current of
       None \<Rightarrow> bind_p (health_note env Disconnected ''not_connected'') (\<lambda>_. raise_p (Auth_required ''not_authenticated''))
     | Some t \<Rightarrow> bind_p (token_fresh env t) (\<lambda>fresh. if fresh then return_p (tk_access t) else refresh_locked env (tk_access t)))"

section \<open>Requests\<close>

definition api_send :: "spotify_env \<Rightarrow> string \<Rightarrow> string \<Rightarrow> string \<Rightarrow> (string \<times> string) list \<Rightarrow> json
    \<Rightarrow> (int \<times> string option \<times> json option) spotify" where
  "api_send env method path access params body =
     bind_p (http_send env (Api_call method path access params body)) (\<lambda>a.
     case a of
       Http_failed \<Rightarrow> raise_p (Api_failure ''provider_unavailable'' (Some 503))
     | Http_cancelled \<Rightarrow> raise_p Spotify_cancelled
     | Http_answer status retry v \<Rightarrow> return_p (status, retry, v))"

definition raise_for_response :: "spotify_env \<Rightarrow> int \<Rightarrow> string option \<Rightarrow> unit spotify" where
  "raise_for_response env status retry =
     (if 200 \<le> status \<and> status < 300 then return_p ()
      else if status = 429 then
        bind_p (sy_now env) (\<lambda>now.
        bind_p (lift_p Spotify_raised (parse_retry_after (sy_parse_date env) retry now)) (\<lambda>until.
        bind_p (spotify_configured env) (\<lambda>c.
        bind_p (health_report env Rate_limited_status ''rate_limited'' c False (Some until)) (\<lambda>_.
        raise_p (Rate_limited_until until)))))
      else if status = 403 then
        bind_p (health_note env Degraded ''forbidden'') (\<lambda>_. raise_p (Api_failure ''forbidden'' (Some status)))
      else if status = 404 then raise_p (Api_failure ''not_found'' (Some status))
      else if 500 \<le> status then
        bind_p (health_note env Degraded ''provider_unavailable'') (\<lambda>_. raise_p (Api_failure ''provider_unavailable'' (Some status)))
      else raise_p (Api_failure ''provider_error'' (Some status)))"

text \<open>After a 401: one refresh and one more attempt; a second 401 ends the authorization.\<close>

definition authorization_lost :: "spotify_env \<Rightarrow> 'a spotify" where
  "authorization_lost env =
     bind_p (mark_reconnect_required env) (\<lambda>_.
     bind_p (health_note env Authorization_expired ''authorization_expired'') (\<lambda>_.
     raise_p (Auth_required ''authorization_expired'')))"

definition sent_again :: "spotify_env \<Rightarrow> string \<Rightarrow> string \<Rightarrow> (string \<times> string) list \<Rightarrow> json \<Rightarrow> string
    \<Rightarrow> (int \<times> string option \<times> json option) spotify" where
  "sent_again env method path params body access =
     bind_p (refresh_locked env access) (\<lambda>renewed.
     bind_p (api_send env method path renewed params body) (\<lambda>second.
     if fst second = 401 then authorization_lost env else return_p second))"

definition request_player :: "spotify_env \<Rightarrow> string \<Rightarrow> string \<Rightarrow> (string \<times> string) list \<Rightarrow> json \<Rightarrow> (int \<times> json option) spotify" where
  "request_player env method path params body =
     bind_p (current_access_token env) (\<lambda>access.
     bind_p (api_send env method path access params body) (\<lambda>first.
     bind_p (if fst first = 401 then sent_again env method path params body access else return_p first) (\<lambda>(status, retry, v).
     bind_p (raise_for_response env status retry) (\<lambda>_.
     bind_p (health_note env Healthy ''api_request_succeeded'') (\<lambda>_.
     return_p (status, v))))))"

definition get_current_playback :: "spotify_env \<Rightarrow> dict option spotify" where
  "get_current_playback env =
     bind_p (request_player env ''GET'' ''/me/player'' [(''additional_types'', ''track,episode'')] JNull) (\<lambda>(status, v).
     if status = 204 then return_p None
     else (case v of Some (JDict d) \<Rightarrow> return_p (Some d) | _ \<Rightarrow> raise_p (Api_failure ''response_invalid'' (Some status))))"

fun dicts :: "json list \<Rightarrow> dict list" where
  "dicts [] = []"
| "dicts (v # vs) = (case v of JDict d \<Rightarrow> d # dicts vs | _ \<Rightarrow> dicts vs)"

definition get_available_devices :: "spotify_env \<Rightarrow> dict list spotify" where
  "get_available_devices env =
     bind_p (request_player env ''GET'' ''/me/player/devices'' [] JNull) (\<lambda>(status, v).
     case v of
       Some (JDict d) \<Rightarrow> (case dict_get d ''devices'' of
           Some (JList xs) \<Rightarrow> return_p (dicts xs) | _ \<Rightarrow> raise_p (Api_failure ''response_invalid'' (Some status)))
     | _ \<Rightarrow> raise_p (Api_failure ''response_invalid'' (Some status)))"

end
