(* ===== verification/Spotify_Playback.thy ===== *)
theory Spotify_Playback
  imports Spotify_Client Scheduler
begin

text \<open>
  \<open>backend/app/providers/spotify/playback.py\<close>: the playback snapshot, the changes between two of them,
  the events they become, the poll source and the sink.
\<close>

section \<open>Reading a payload\<close>

definition nonnegative_int :: "json option \<Rightarrow> int option" where
  "nonnegative_int v = (case v of Some (JInt n) \<Rightarrow> if 0 \<le> n then Some n else None | _ \<Rightarrow> None)"

definition bounded_int :: "json option \<Rightarrow> int \<Rightarrow> int \<Rightarrow> int option" where
  "bounded_int v lo hi = (case nonnegative_int v of Some n \<Rightarrow> if lo \<le> n \<and> n \<le> hi then Some n else None | None \<Rightarrow> None)"

text \<open>A sub-dictionary, \<open>[]\<close> when the value is absent, not a dictionary or empty.\<close>

definition sub_dict :: "dict \<Rightarrow> string \<Rightarrow> dict" where
  "sub_dict d k = (case dict_get d k of Some (JDict e) \<Rightarrow> e | _ \<Rightarrow> [])"

definition image_area :: "dict \<Rightarrow> int" where
  "image_area d = (case nonnegative_int (dict_get d ''width'') of None \<Rightarrow> 0 | Some x \<Rightarrow> x)
     * (case nonnegative_int (dict_get d ''height'') of None \<Rightarrow> 0 | Some x \<Rightarrow> x)"

text \<open>\<open>max\<close> keeps the first of the largest.\<close>

fun largest :: "dict \<Rightarrow> dict list \<Rightarrow> dict" where
  "largest best [] = best"
| "largest best (d # ds) = largest (if image_area best < image_area d then d else best) ds"

definition largest_image_url :: "json option \<Rightarrow> string option" where
  "largest_image_url v = (case v of
      Some (JList xs) \<Rightarrow>
        (case filter (\<lambda>d. text_or_none (dict_get d ''url'') \<noteq> None) (dicts xs) of
           [] \<Rightarrow> None | d # ds \<Rightarrow> text_or_none (dict_get (largest d ds) ''url''))
    | _ \<Rightarrow> None)"

definition artist_names :: "dict list \<Rightarrow> string list" where
  "artist_names ds = concat (map (\<lambda>d. case text_or_none (dict_get d ''name'') of None \<Rightarrow> [] | Some s \<Rightarrow> [s]) ds)"

text \<open>\<open>for artist in item.get("artists", [])\<close>: what is not iterable raises; text and dictionaries give no artist.\<close>

definition item_artists :: "dict \<Rightarrow> string list result" where
  "item_artists item = (case dict_get item ''artists'' of
      None \<Rightarrow> Inr [] | Some (JList xs) \<Rightarrow> Inr (artist_names (dicts xs))
    | Some (JStr s) \<Rightarrow> Inr [] | Some (JDict d) \<Rightarrow> Inr [] | _ \<Rightarrow> Inl (TypeError ''object is not iterable''))"

definition playback_ok :: "playback \<Rightarrow> bool" where
  "playback_ok p \<longleftrightarrow> opt_max 40 (pl_item_type p) \<and> opt_max 200 (pl_item_id p) \<and> opt_max 300 (pl_item_uri p)
     \<and> opt_max 500 (pl_item_name p) \<and> opt_max 500 (pl_album_name p) \<and> opt_max 500 (pl_show_name p)
     \<and> opt_max 2048 (pl_artwork_url p) \<and> opt_max 200 (pl_device_id p) \<and> opt_max 300 (pl_device_name p)
     \<and> opt_max 100 (pl_device_type p) \<and> opt_max 40 (pl_repeat p) \<and> opt_max 300 (pl_context_uri p)
     \<and> opt_max 100 (pl_context_type p)
     \<and> (\<forall>n \<in> set_option (pl_progress_ms p) \<union> set_option (pl_duration_ms p) \<union> set_option (pl_timestamp_ms p). 0 \<le> n)
     \<and> opt_between 0 100 (pl_volume_percent p)"

definition parse_playback :: "dict \<Rightarrow> playback result" where
  "parse_playback payload =
     (let item = sub_dict payload ''item''; device = sub_dict payload ''device''; context = sub_dict payload ''context'';
          album = sub_dict item ''album''; show' = sub_dict item ''show'';
          images = (case dict_get album ''images'' of Some (JList xs) \<Rightarrow> Some (JList xs) | _ \<Rightarrow> dict_get item ''images'');
          type = text_or_none (dict_get payload ''currently_playing_type'')
      in bind_r (item_artists item) (\<lambda>artists.
         let p = \<lparr>pl_is_playing = (dict_get payload ''is_playing'' = Some (JBool True)),
             pl_item_type = (if type \<noteq> None then type else text_or_none (dict_get item ''type'')),
             pl_item_id = text_or_none (dict_get item ''id''), pl_item_uri = text_or_none (dict_get item ''uri''),
             pl_item_name = text_or_none (dict_get item ''name''), pl_artists = artists,
             pl_album_name = text_or_none (dict_get album ''name''), pl_show_name = text_or_none (dict_get show' ''name''),
             pl_artwork_url = largest_image_url images, pl_progress_ms = nonnegative_int (dict_get payload ''progress_ms''),
             pl_duration_ms = nonnegative_int (dict_get item ''duration_ms''),
             pl_device_id = text_or_none (dict_get device ''id''), pl_device_name = text_or_none (dict_get device ''name''),
             pl_device_type = text_or_none (dict_get device ''type''),
             pl_volume_percent = bounded_int (dict_get device ''volume_percent'') 0 100,
             pl_shuffle = (case dict_get payload ''shuffle_state'' of Some (JBool b) \<Rightarrow> Some b | _ \<Rightarrow> None),
             pl_repeat = text_or_none (dict_get payload ''repeat_state''),
             pl_context_uri = text_or_none (dict_get context ''uri''), pl_context_type = text_or_none (dict_get context ''type''),
             pl_timestamp_ms = nonnegative_int (dict_get payload ''timestamp'')\<rparr>
         in bind_r (ensure (playback_ok p) (ValidationError ''SpotifyPlaybackSnapshot'')) (\<lambda>_. Inr p)))"

record spotify_device =
  sd_id :: "string option"
  sd_name :: string
  sd_type :: string
  sd_is_active :: bool
  sd_is_restricted :: bool
  sd_volume_percent :: "int option"
  sd_supports_volume :: bool

definition parse_device :: "dict \<Rightarrow> spotify_device result" where
  "parse_device d =
     (let v = \<lparr>sd_id = text_or_none (dict_get d ''id''),
          sd_name = (case text_or_none (dict_get d ''name'') of None \<Rightarrow> ''Spotify device'' | Some s \<Rightarrow> s),
          sd_type = (case text_or_none (dict_get d ''type'') of None \<Rightarrow> ''unknown'' | Some s \<Rightarrow> s),
          sd_is_active = (dict_get d ''is_active'' = Some (JBool True)), sd_is_restricted = (dict_get d ''is_restricted'' = Some (JBool True)),
          sd_volume_percent = bounded_int (dict_get d ''volume_percent'') 0 100,
          sd_supports_volume = (dict_get d ''supports_volume'' = Some (JBool True))\<rparr>
      in bind_r (ensure (opt_max 200 (sd_id v) \<and> length (sd_name v) \<le> 300 \<and> length (sd_type v) \<le> 100)
           (ValidationError ''SpotifyAvailableDevice'')) (\<lambda>_. Inr v))"

section \<open>Changes\<close>

datatype spotify_event = Started | Paused | Resumed | Track_changed | Device_changed | Context_changed

fun spotify_event_value :: "spotify_event \<Rightarrow> string" where
  "spotify_event_value Started = ''spotify.playback.started''"
| "spotify_event_value Paused = ''spotify.playback.paused''"
| "spotify_event_value Resumed = ''spotify.playback.resumed''"
| "spotify_event_value Track_changed = ''spotify.track.changed''"
| "spotify_event_value Device_changed = ''spotify.device.changed''"
| "spotify_event_value Context_changed = ''spotify.context.changed''"

definition item_identity :: "playback \<Rightarrow> string option" where
  "item_identity p = (if truthy (pl_item_uri p) then pl_item_uri p else pl_item_id p)"

definition device_identity :: "playback \<Rightarrow> string option \<times> string option \<times> string option" where
  "device_identity p = (pl_device_id p, pl_device_name p, pl_device_type p)"

definition context_identity :: "playback \<Rightarrow> string option \<times> string option" where
  "context_identity p = (pl_context_uri p, pl_context_type p)"

definition event_changes :: "playback option \<Rightarrow> playback \<Rightarrow> spotify_event list" where
  "event_changes previous current =
     (let was_playing = (case previous of None \<Rightarrow> False | Some p \<Rightarrow> pl_is_playing p);
          differs = (\<lambda>f. case previous of None \<Rightarrow> False | Some p \<Rightarrow> f p);
          same_item = differs (\<lambda>p. item_identity p = item_identity current)
      in (if pl_is_playing current \<and> \<not> was_playing then [if same_item then Resumed else Started]
          else if was_playing \<and> \<not> pl_is_playing current then [Paused] else [])
         @ (if truthy (item_identity current) \<and> \<not> same_item then [Track_changed] else [])
         @ (if differs (\<lambda>p. device_identity p \<noteq> device_identity current) then [Device_changed] else [])
         @ (if differs (\<lambda>p. context_identity p \<noteq> context_identity current) then [Context_changed] else []))"

record playback_change =
  pc_snapshot :: playback
  pc_event_types :: "spotify_event list"

section \<open>Events\<close>

definition json_text :: "string option \<Rightarrow> json" where
  "json_text v = (case v of None \<Rightarrow> JNull | Some s \<Rightarrow> JStr s)"

definition json_number :: "int option \<Rightarrow> json" where
  "json_number v = (case v of None \<Rightarrow> JNull | Some n \<Rightarrow> JInt n)"

fun event_payload :: "spotify_event \<Rightarrow> playback \<Rightarrow> dict" where
  "event_payload Track_changed p =
     [(''item_type'', json_text (pl_item_type p)), (''item_id'', json_text (pl_item_id p)), (''item_uri'', json_text (pl_item_uri p)),
      (''item_name'', json_text (pl_item_name p)), (''artists'', JList (map JStr (pl_artists p))),
      (''album_name'', json_text (pl_album_name p)), (''show_name'', json_text (pl_show_name p)),
      (''artwork_url'', json_text (pl_artwork_url p)), (''duration_ms'', json_number (pl_duration_ms p))]"
| "event_payload Device_changed p =
     [(''device_id'', json_text (pl_device_id p)), (''device_name'', json_text (pl_device_name p)), (''device_type'', json_text (pl_device_type p))]"
| "event_payload Context_changed p =
     [(''context_uri'', json_text (pl_context_uri p)), (''context_type'', json_text (pl_context_type p))]"
| "event_payload e p =
     [(''item_uri'', json_text (pl_item_uri p)), (''item_name'', json_text (pl_item_name p)), (''artists'', JList (map JStr (pl_artists p))),
      (''is_playing'', JBool (pl_is_playing p)), (''device_id'', json_text (pl_device_id p)),
      (''device_name'', json_text (pl_device_name p)), (''context_uri'', json_text (pl_context_uri p))]"

text \<open>\<open>se_digest\<close> is the hexadecimal SHA-256 of the canonical JSON text of a value.\<close>

record sink_env =
  se_digest :: "json \<Rightarrow> string"
  se_hash :: "string \<Rightarrow> string"
  se_topic :: string
  se_now :: instant
  se_uuid :: "nat \<Rightarrow> uuid"

text \<open>\<open>datetime.fromtimestamp(ms / 1000, UTC)\<close>; a millisecond is a whole number of microseconds.\<close>

definition occurred_at :: "playback_change observation \<Rightarrow> instant result" where
  "occurred_at obs = (case pl_timestamp_ms (pc_snapshot (obs_content obs)) of
      None \<Rightarrow> Inr (obs_observed_at obs)
    | Some ms \<Rightarrow> (case in_range (ms * 1000) of Inl e \<Rightarrow> Inl (ValueError ''year is out of range'') | Inr t \<Rightarrow> Inr t))"

definition spotify_dedupe :: "sink_env \<Rightarrow> playback_change observation \<Rightarrow> spotify_event \<Rightarrow> string" where
  "spotify_dedupe env obs e =
     ''spotify:'' @ spotify_event_value e @ '':''
     @ take 40 (se_digest env (JDict [(''event_type'', JStr (spotify_event_value e)),
         (''payload'', JDict (event_payload e (pc_snapshot (obs_content obs)))),
         (''provider_version'', JStr (or_none (obs_provider_version obs)))]))"

definition normalize_spotify :: "sink_env \<Rightarrow> playback_change observation \<Rightarrow> nat \<Rightarrow> uuid \<Rightarrow> spotify_event \<Rightarrow> event result" where
  "normalize_spotify env obs n correlation e =
     bind_r (occurred_at obs) (\<lambda>t.
     canonical_event_new (se_uuid env n) ''spotify'' (spotify_event_value e) ''spotify_playback'' ''current''
       (utc t) (utc (obs_observed_at obs)) (utc (se_now env)) 1 (spotify_dedupe env obs e) 1 correlation
       (event_payload e (pc_snapshot (obs_content obs))))"

definition correlation_of :: "playback_change observation \<Rightarrow> uuid \<Rightarrow> uuid" where
  "correlation_of obs u = (case obs_correlation_id obs of None \<Rightarrow> u | Some c \<Rightarrow> c)"

text \<open>\<open>SpotifyEventSink.handle\<close>: every event of every observation, in one transaction.\<close>

definition handle_event :: "sink_env \<Rightarrow> playback_change observation \<Rightarrow> uuid \<Rightarrow> spotify_event \<Rightarrow> nat \<times> db \<Rightarrow> (nat \<times> db) result" where
  "handle_event env obs u e st =
     bind_r (normalize_spotify env obs (fst st) (correlation_of obs u) e) (\<lambda>event.
     bind_r (persist_event_and_outbox (se_hash env) (se_topic env) (se_now env) event (snd st)) (\<lambda>(new, d).
     Inr (Suc (fst st), d)))"

definition handle_observation :: "sink_env \<Rightarrow> uuid \<Rightarrow> playback_change observation \<Rightarrow> nat \<times> db \<Rightarrow> (nat \<times> db) result" where
  "handle_observation env u obs = fold_r (handle_event env obs u) (pc_event_types (obs_content obs))"

definition sink_handle :: "sink_env \<Rightarrow> string \<Rightarrow> uuid \<Rightarrow> playback_change observation list \<Rightarrow> db \<Rightarrow> db result" where
  "sink_handle env provider u obs d =
     bind_r (ensure (provider = ''spotify'') (ValueError ''Spotify event sink only accepts Spotify observations'')) (\<lambda>_.
     bind_r (fold_r (handle_observation env u) obs (0, d)) (\<lambda>st. Inr (snd st)))"

section \<open>The poll source\<close>

definition PLAYING_INTERVAL :: timedelta where "PLAYING_INTERVAL = seconds 5"
definition PAUSED_INTERVAL :: timedelta where "PAUSED_INTERVAL = seconds 20"
definition NO_DEVICE_INTERVAL :: timedelta where "NO_DEVICE_INTERVAL = seconds 60"

definition SPOTIFY_SCHEDULE :: poll_schedule where
  "SPOTIFY_SCHEDULE = \<lparr>sd_interval = PAUSED_INTERVAL, sd_timeout = seconds 15, sd_max_backoff = minutes 5, sd_jitter_ratio = 1 / 10\<rparr>"

definition source_reset :: "unit spotify" where
  "source_reset = modify_p (\<lambda>w. w\<lparr>sw_previous := None, sw_current := None, sw_observed_at := None\<rparr>)"

definition spotify_cadence :: "spotify_world \<Rightarrow> timedelta" where
  "spotify_cadence w = (case sw_current w of
      None \<Rightarrow> NO_DEVICE_INTERVAL | Some p \<Rightarrow> if pl_is_playing p then PLAYING_INTERVAL else PAUSED_INTERVAL)"

definition playback_view :: "instant \<Rightarrow> spotify_world \<Rightarrow> playback option \<times> instant option \<times> timedelta option" where
  "playback_view now w = (sw_current w, sw_observed_at w, map_option (\<lambda>t. max 0 (now - t)) (sw_observed_at w))"

text \<open>What a poll raises: a wait, or another exception.\<close>

datatype observe_error = Poll_retry_after instant | Poll_failed spotify_failure

text \<open>The health is told of an API error that is not about the authorization.\<close>

definition failed_observe :: "spotify_env \<Rightarrow> spotify_failure \<Rightarrow> 'a spotify" where
  "failed_observe env e =
     (case e of
        Api_failure code status \<Rightarrow>
          if code \<in> {''not_authenticated'', ''authorization_expired'', ''reconnect_required''} then raise_p e
          else bind_p (health_note env Degraded code) (\<lambda>_. raise_p e)
      | Auth_required code \<Rightarrow>
          if code \<in> {''not_authenticated'', ''authorization_expired'', ''reconnect_required''} then raise_p e
          else bind_p (health_note env Degraded code) (\<lambda>_. raise_p e)
      | _ \<Rightarrow> raise_p e)"

text \<open>The observation of what changed, if anything.\<close>

definition observed_changes :: "uuid \<Rightarrow> instant \<Rightarrow> playback option \<Rightarrow> playback \<Rightarrow> playback_change observation list result" where
  "observed_changes correlation now previous p =
     (if event_changes previous p = [] then Inr []
      else bind_r (observation_new ''spotify''
          (case item_identity p of Some i \<Rightarrow> if i \<noteq> [] then i else ''current'' | None \<Rightarrow> ''current'') (utc now)
          \<lparr>pc_snapshot = p, pc_event_types = event_changes previous p\<rparr> (map_option int_str (pl_timestamp_ms p)) None
          (Some correlation)) (\<lambda>obs. Inr [obs]))"

definition playback_noted :: "spotify_env \<Rightarrow> uuid \<Rightarrow> dict option \<Rightarrow> playback_change observation list spotify" where
  "playback_noted env correlation raw =
     bind_p (sy_now env) (\<lambda>now.
     bind_p (read_p sw_previous) (\<lambda>previous.
     bind_p (lift_p Spotify_raised (case raw of None \<Rightarrow> Inr None
       | Some d \<Rightarrow> bind_r (parse_playback d) (\<lambda>p. Inr (Some p)))) (\<lambda>current.
     bind_p (modify_p (\<lambda>w. w\<lparr>sw_previous := current, sw_current := current, sw_observed_at := Some now\<rparr>)) (\<lambda>_.
     bind_p (spotify_configured env) (\<lambda>c.
     bind_p (health_report env Healthy (if current = None then ''no_active_device'' else ''playback_observed'') c True None) (\<lambda>_.
     lift_p Spotify_raised (case current of None \<Rightarrow> Inr [] | Some p \<Rightarrow> observed_changes correlation now previous p)))))))"

definition spotify_observe :: "spotify_env \<Rightarrow> uuid \<Rightarrow> playback_change observation list spotify" where
  "spotify_observe env correlation =
     bind_p (attempt_p (get_current_playback env) (failed_observe env)) (playback_noted env correlation)"

text \<open>A poll and its sink; the exceptions as the scheduler sees them.\<close>

definition spotify_poll :: "spotify_env \<Rightarrow> sink_env \<Rightarrow> uuid \<Rightarrow> spotify_world \<Rightarrow> (observe_error + playback_change observation list) \<times> spotify_world" where
  "spotify_poll env sink u w =
     (case spotify_observe env u w of
        (Inl (Rate_limited_until t), w1) \<Rightarrow> (Inl (Poll_retry_after t), w1)
      | (Inl e, w1) \<Rightarrow> (Inl (Poll_failed e), w1)
      | (Inr obs, w1) \<Rightarrow>
          (case sink_handle sink ''spotify'' u obs (sw_db w1) of
             Inl e \<Rightarrow> (Inl (Poll_failed (Spotify_raised e)), w1)
           | Inr d \<Rightarrow> (Inr obs, w1\<lparr>sw_db := d\<rparr>)))"

end
