(* ===== verification/Spotify_Provider.thy ===== *)
theory Spotify_Provider
  imports Spotify_Playback
begin

text \<open>
  \<open>backend/app/providers/spotify/commands.py\<close>, \<open>provider.py\<close> and \<open>router.py\<close>: the commands, the
  composition of the parts, and the routes.
\<close>

section \<open>Commands\<close>

text \<open>The request of a command: method, path, parameters and body.\<close>

definition request_for :: "command_request \<Rightarrow> (string \<times> string \<times> (string \<times> string) list \<times> json) result" where
  "request_for r = (let a = rq_arguments r in case rq_command r of
      Play \<Rightarrow> Inr (''PUT'', ''/me/player/play'', [], JNull)
    | Pause \<Rightarrow> Inr (''PUT'', ''/me/player/pause'', [], JNull)
    | Next_track \<Rightarrow> Inr (''POST'', ''/me/player/next'', [], JNull)
    | Previous_track \<Rightarrow> Inr (''POST'', ''/me/player/previous'', [], JNull)
    | Seek \<Rightarrow> (case position_seconds a of
          Some n \<Rightarrow> if n < 0 then Inl (ValueError ''seek requires a nonnegative position'')
            else Inr (''PUT'', ''/me/player/seek'', [(''position_ms'', int_str (n * 1000))], JNull)
        | None \<Rightarrow> Inl (ValueError ''seek requires a nonnegative position''))
    | Volume \<Rightarrow> (case volume_percent a of
          Some n \<Rightarrow> if \<not> (0 \<le> n \<and> n \<le> 100) then Inl (ValueError ''volume must be between 0 and 100'')
            else Inr (''PUT'', ''/me/player/volume'', [(''volume_percent'', int_str n)], JNull)
        | None \<Rightarrow> Inl (ValueError ''volume must be between 0 and 100''))
    | Transfer_device \<Rightarrow> (case device_id a of
          Some d \<Rightarrow> if strip d = [] \<or> list_ex (\<lambda>c. (of_char c :: int) < 32) d then Inl (ValueError ''device ID must be nonempty'')
            else Inr (''PUT'', ''/me/player'', [], JDict [(''device_ids'', JList [JStr (strip d)])])
        | None \<Rightarrow> Inl (ValueError ''device ID must be nonempty'')))"

definition command_failure :: "command_error \<Rightarrow> string \<Rightarrow> command_result spotify" where
  "command_failure code message = lift_p Spotify_raised (command_result_new
     \<lparr>cr_success = False, cr_provider = ''spotify'', cr_error_code = Some code, cr_message = message, cr_resulting_state_hint = None\<rparr>)"

definition command_success :: "command_result spotify" where
  "command_success = lift_p Spotify_raised (command_result_new
     \<lparr>cr_success = True, cr_provider = ''spotify'', cr_error_code = None, cr_message = ''Spotify command accepted'',
      cr_resulting_state_hint = None\<rparr>)"

definition retry_seconds :: "instant \<Rightarrow> instant \<Rightarrow> int" where
  "retry_seconds until now = max 0 ((until - now + 999000) div 1000000)"

text \<open>What the caller is told of an API error; other exceptions pass.\<close>

definition command_error_of :: "spotify_env \<Rightarrow> spotify_failure \<Rightarrow> command_result spotify" where
  "command_error_of env e = (case e of
      Auth_required code \<Rightarrow> command_failure Not_authenticated ''Spotify authorization is required''
    | Rate_limited_until until \<Rightarrow>
        bind_p (sy_now env) (\<lambda>now. command_failure Rate_limited
          (''Spotify rate limit; retry after '' @ int_str (retry_seconds until now) @ '' seconds''))
    | Api_failure code status \<Rightarrow>
        if status = Some 403 then command_failure Provider_error
          ''Spotify denied playback control; Premium or an allowed device may be required''
        else if status = Some 404 then command_failure Invalid_state ''Spotify has no active matching device''
        else if (case status of None \<Rightarrow> False | Some n \<Rightarrow> 500 \<le> n) then command_failure Provider_unavailable ''Spotify is temporarily unavailable''
        else command_failure Provider_error ''Spotify could not apply the command''
    | _ \<Rightarrow> raise_p e)"

text \<open>Every command of the type is supported.\<close>

definition execute_command :: "spotify_env \<Rightarrow> command_request \<Rightarrow> command_result spotify" where
  "execute_command env r = (case request_for r of
      Inl e \<Rightarrow> command_failure Invalid_state ''Spotify command arguments are invalid''
    | Inr (method, path, params, body) \<Rightarrow>
        attempt_p (bind_p (request_player env method path params body) (\<lambda>_. command_success)) (command_error_of env))"

section \<open>The provider\<close>

record spotify_connection =
  sc_connected :: bool
  sc_status :: spotify_status
  sc_health :: spotify_health_view

definition connection_status :: "spotify_env \<Rightarrow> spotify_connection spotify" where
  "connection_status env =
     bind_p (read_p (\<lambda>w. connection_info (sw_db w))) (\<lambda>(ok, status, at_time).
     bind_p (spotify_configured env) (\<lambda>c.
     bind_p (if \<not> ok \<and> status \<noteq> ''degraded''
       then health_report env Disconnected (if c then ''not_connected'' else ''configuration_missing'') c False None
       else return_p ()) (\<lambda>_.
     bind_p (spotify_configured env) (\<lambda>c'.
     bind_p (sy_now env) (\<lambda>now.
     bind_p (read_p sw_health) (\<lambda>h.
     (let v = spotify_snapshot c' status at_time now h in
      return_p \<lparr>sc_connected = (ok \<and> sv_connected v), sc_status = sv_status v, sc_health = v\<rparr>)))))))"

definition spotify_disconnect :: "spotify_env \<Rightarrow> spotify_connection spotify" where
  "spotify_disconnect env =
     bind_p (disconnect_store env) (\<lambda>_.
     bind_p source_reset (\<lambda>_.
     bind_p (health_note env Disconnected ''local_connection_removed'') (\<lambda>_.
     connection_status env)))"

definition available_devices :: "spotify_env \<Rightarrow> spotify_device list spotify" where
  "available_devices env =
     bind_p (get_available_devices env) (\<lambda>ds. lift_p Spotify_raised (map_r parse_device ds))"

section \<open>The routes\<close>

datatype spotify_reply = Oauth_page oauth_response | Redirect_to string | Livepulse_error string string int

definition oauth_page :: "spotify_env \<Rightarrow> oauth_completion_mode \<Rightarrow> bool \<Rightarrow> string option \<Rightarrow> spotify_reply" where
  "oauth_page env mode ok reason = Oauth_page (oauth_result ''spotify'' mode ok (frontend_base_url (sy_settings env)) reason)"

text \<open>The routes' state adds the store of OAuth states; the text of a new state is given.\<close>

type_synonym routed = "spotify_world \<times> state_dict"

definition start_authorization :: "spotify_env \<Rightarrow> oauth_completion_mode \<Rightarrow> string \<Rightarrow> routed \<Rightarrow> (spotify_failure + spotify_reply) \<times> routed" where
  "start_authorization env mode fresh st =
     (case sy_now env (fst st) of
        (Inl e, w) \<Rightarrow> (Inl e, w, snd st)
      | (Inr now, w) \<Rightarrow>
          (let ss = state_issue now mode fresh (snd st) in
           case authorization_url env fresh w of
             (Inr url, w1) \<Rightarrow> (Inr (Redirect_to url), w1, ss)
           | (Inl (Oauth_failure code status), w1) \<Rightarrow>
               (Inr (if mode = DESKTOP then oauth_page env mode False (Some ''setup_required'')
                     else Livepulse_error code ''Spotify OAuth is not configured'' 503), w1, ss)
           | (Inl e, w1) \<Rightarrow> (Inl e, w1, ss)))"

definition authorization_callback :: "spotify_env \<Rightarrow> string option \<Rightarrow> string option \<Rightarrow> string option \<Rightarrow> routed
    \<Rightarrow> (spotify_failure + spotify_reply) \<times> routed" where
  "authorization_callback env state code error st =
     (case sy_now env (fst st) of
        (Inl e, w) \<Rightarrow> (Inl e, w, snd st)
      | (Inr now, w) \<Rightarrow>
          (case state_consume now (or_none state) (snd st) of
             (None, ss) \<Rightarrow> (Inr (oauth_page env BROWSER False (Some ''state_invalid'')), w, ss)
           | (Some mode, ss) \<Rightarrow>
               if error \<noteq> None then (Inr (oauth_page env mode False (Some ''authorization_denied'')), w, ss)
               else if \<not> truthy code then (Inr (oauth_page env mode False (Some ''authorization_incomplete'')), w, ss)
               else
                 (case exchange_code env (the code) w of
                    (Inl (Oauth_failure c s), w1) \<Rightarrow> (Inr (oauth_page env mode False (Some ''connection_failed'')), w1, ss)
                  | (Inl e, w1) \<Rightarrow> (Inl e, w1, ss)
                  | (Inr t, w1) \<Rightarrow>
                      (case health_note env Healthy ''connected'' w1 of
                         (Inl e, w2) \<Rightarrow> (Inl e, w2, ss)
                       | (Inr _, w2) \<Rightarrow> (Inr (oauth_page env mode True None), w2, ss)))))"

definition devices_error :: "spotify_failure \<Rightarrow> spotify_reply option" where
  "devices_error e = (case e of
      Auth_required code \<Rightarrow> Some (Livepulse_error code ''Spotify authorization is required'' 401)
    | Rate_limited_until t \<Rightarrow> Some (Livepulse_error ''rate_limited'' ''Spotify is rate limited'' 429)
    | Api_failure code status \<Rightarrow>
        if status = Some 403 then Some (Livepulse_error ''forbidden'' ''Spotify denied device access'' 403)
        else if status = Some 404 then Some (Livepulse_error ''not_found'' ''Spotify devices are unavailable'' 404)
        else Some (Livepulse_error ''provider_unavailable'' ''Spotify devices could not be loaded'' 503)
    | _ \<Rightarrow> None)"

end
