(* ===== verification/Triples.thy ===== *)
theory Triples
  imports Outcomes
begin

text \<open>
  Triples for programs with state and exceptions: a precondition on the state, a postcondition for
  the value returned and one for the exception raised.  \<open>keeps f\<close> is the frequent special case that a
  program leaves a part of the state alone.
\<close>

definition triple :: "('s \<Rightarrow> bool) \<Rightarrow> ('s, 'e, 'a) prog \<Rightarrow> ('a \<Rightarrow> 's \<Rightarrow> bool) \<Rightarrow> ('e \<Rightarrow> 's \<Rightarrow> bool) \<Rightarrow> bool" where
  "triple P m Q E \<longleftrightarrow> (\<forall>s. P s \<longrightarrow> (case m s of (Inr x, s') \<Rightarrow> Q x s' | (Inl e, s') \<Rightarrow> E e s'))"

definition keeps_part :: "('s \<Rightarrow> 'b) \<Rightarrow> ('s, 'e, 'a) prog \<Rightarrow> bool" where
  "keeps_part f m \<longleftrightarrow> (\<forall>s. f (snd (m s)) = f s)"

named_theorems keeps_intros

lemma tripleI: "(\<And>s x s'. P s \<Longrightarrow> m s = (Inr x, s') \<Longrightarrow> Q x s') \<Longrightarrow> (\<And>s e s'. P s \<Longrightarrow> m s = (Inl e, s') \<Longrightarrow> E e s') \<Longrightarrow> triple P m Q E"
  by (auto simp: triple_def split: prod.split sum.split)

lemma triple_InrD: "triple P m Q E \<Longrightarrow> P s \<Longrightarrow> m s = (Inr x, s') \<Longrightarrow> Q x s'"
  by (force simp: triple_def)

lemma triple_InlD: "triple P m Q E \<Longrightarrow> P s \<Longrightarrow> m s = (Inl e, s') \<Longrightarrow> E e s'"
  by (force simp: triple_def)

lemma triple_any: "triple P m (\<lambda>_ _. True) (\<lambda>_ _. True)"
  by (rule tripleI) simp_all

lemma triple_bind: "triple P m R E \<Longrightarrow> (\<And>x. triple (R x) (f x) Q E) \<Longrightarrow> triple P (bind_p m f) Q E"
  by (fastforce simp: triple_def bind_p_def split: prod.splits sum.splits)

lemma triple_attempt: "triple P m Q F \<Longrightarrow> (\<And>e. triple (F e) (h e) Q E) \<Longrightarrow> triple P (attempt_p m h) Q E"
  by (fastforce simp: triple_def attempt_p_def split: prod.splits sum.splits)

lemma triple_return: "(\<And>s. P s \<Longrightarrow> Q x s) \<Longrightarrow> triple P (return_p x) Q E"
  by (simp add: triple_def return_p_def)

lemma triple_raise: "(\<And>s. P s \<Longrightarrow> E e s) \<Longrightarrow> triple P (raise_p e) Q E"
  by (simp add: triple_def raise_p_def)

lemma triple_read: "(\<And>s. P s \<Longrightarrow> Q (f s) s) \<Longrightarrow> triple P (read_p f) Q E"
  by (simp add: triple_def read_p_def)

lemma triple_modify: "(\<And>s. P s \<Longrightarrow> Q () (g s)) \<Longrightarrow> triple P (modify_p g) Q E"
  by (simp add: triple_def modify_p_def)

lemma triple_lift: "(\<And>s x. P s \<Longrightarrow> r = Inr x \<Longrightarrow> Q x s) \<Longrightarrow> (\<And>s e. P s \<Longrightarrow> r = Inl e \<Longrightarrow> E (k e) s) \<Longrightarrow> triple P (lift_p k r) Q E"
  by (cases r) (simp_all add: triple_def lift_p_def)

lemma triple_if: "(b \<Longrightarrow> triple P m Q E) \<Longrightarrow> (\<not> b \<Longrightarrow> triple P n Q E) \<Longrightarrow> triple P (if b then m else n) Q E"
  by simp

lemma triple_weaken:
  "triple P m Q E \<Longrightarrow> (\<And>s. P' s \<Longrightarrow> P s) \<Longrightarrow> (\<And>x s. Q x s \<Longrightarrow> Q' x s) \<Longrightarrow> (\<And>e s. E e s \<Longrightarrow> E' e s) \<Longrightarrow> triple P' m Q' E'"
  by (fastforce simp: triple_def split: prod.splits sum.splits)

lemma triple_conj:
  "triple P m Q E \<Longrightarrow> triple P m Q' E' \<Longrightarrow> triple P m (\<lambda>x s. Q x s \<and> Q' x s) (\<lambda>e s. E e s \<and> E' e s)"
  by (fastforce simp: triple_def split: prod.splits sum.splits)

text \<open>Parts of the state that are left alone.\<close>

lemma keeps_bind [keeps_intros]: "keeps_part f m \<Longrightarrow> (\<And>x. keeps_part f (g x)) \<Longrightarrow> keeps_part f (bind_p m g)"
  by (simp add: keeps_part_def bind_p_def split: prod.splits sum.splits) (metis snd_conv)

lemma keeps_attempt [keeps_intros]: "keeps_part f m \<Longrightarrow> (\<And>e. keeps_part f (h e)) \<Longrightarrow> keeps_part f (attempt_p m h)"
  by (simp add: keeps_part_def attempt_p_def split: prod.splits sum.splits) (metis snd_conv)

lemma keeps_simple [keeps_intros]:
  "keeps_part f (return_p x)" "keeps_part f (raise_p e)" "keeps_part f (read_p g)" "keeps_part f (lift_p k r)"
  by (simp_all add: keeps_part_def return_p_def raise_p_def read_p_def lift_p_def split: sum.split)

lemma keeps_modify [keeps_intros]: "(\<And>s. f (g s) = f s) \<Longrightarrow> keeps_part f (modify_p g)"
  by (simp add: keeps_part_def modify_p_def)

lemma keeps_cases [keeps_intros]:
  "keeps_part f m \<Longrightarrow> keeps_part f n \<Longrightarrow> keeps_part f (if b then m else n)"
  "keeps_part f m \<Longrightarrow> (\<And>x. keeps_part f (h x)) \<Longrightarrow> keeps_part f (case v of None \<Rightarrow> m | Some x \<Rightarrow> h x)"
  "(\<And>e. keeps_part f (l e)) \<Longrightarrow> (\<And>x. keeps_part f (h x)) \<Longrightarrow> keeps_part f (case r of Inl e \<Rightarrow> l e | Inr x \<Rightarrow> h x)"
  "(\<And>x y. keeps_part f (k x y)) \<Longrightarrow> keeps_part f (case p of (x, y) \<Rightarrow> k x y)"
  by (simp_all split: option.split sum.split prod.split)

lemma keeps_partD: "keeps_part f m \<Longrightarrow> m s = (r, s') \<Longrightarrow> f s' = f s"
  by (metis keeps_part_def snd_conv)

lemma triple_keeps: "keeps_part f m \<Longrightarrow> triple (\<lambda>s. P (f s)) m (\<lambda>_ s. P (f s)) (\<lambda>_ s. P (f s))"
  by (auto simp: triple_def keeps_part_def split: prod.split sum.split) (metis snd_conv)+

section \<open>What a program may raise\<close>

definition raises :: "('e \<Rightarrow> bool) \<Rightarrow> ('s, 'e, 'a) prog \<Rightarrow> bool" where
  "raises R m \<longleftrightarrow> (\<forall>s e. fst (m s) = Inl e \<longrightarrow> R e)"

named_theorems raises_intros

lemma raises_bind [raises_intros]: "raises R m \<Longrightarrow> (\<And>x. raises R (f x)) \<Longrightarrow> raises R (bind_p m f)"
  unfolding raises_def bind_p_def by (auto split: prod.splits sum.splits) (metis fst_conv)+

lemma raises_attempt: "raises S m \<Longrightarrow> (\<And>e. S e \<Longrightarrow> raises R (h e)) \<Longrightarrow> raises R (attempt_p m h)"
  unfolding raises_def attempt_p_def by (auto split: prod.splits sum.splits) (metis fst_conv)+

lemma raises_simple [raises_intros]:
  "raises R (return_p x)" "R e \<Longrightarrow> raises R (raise_p e)" "raises R (read_p f)" "raises R (modify_p g)"
  by (simp_all add: raises_def return_p_def raise_p_def read_p_def modify_p_def)

lemma raises_lift [raises_intros]: "(\<And>e. R (k e)) \<Longrightarrow> raises R (lift_p k r)"
  by (cases r) (simp_all add: raises_def lift_p_def)

lemma raises_cases [raises_intros]:
  "(b \<Longrightarrow> raises R m) \<Longrightarrow> (\<not> b \<Longrightarrow> raises R n) \<Longrightarrow> raises R (if b then m else n)"
  "raises R m \<Longrightarrow> (\<And>x. raises R (h x)) \<Longrightarrow> raises R (case v of None \<Rightarrow> m | Some x \<Rightarrow> h x)"
  "(\<And>x y. raises R (k x y)) \<Longrightarrow> raises R (case p of (x, y) \<Rightarrow> k x y)"
  by (simp_all split: option.split prod.split)

lemma raisesD: "raises R m \<Longrightarrow> m s = (Inl e, s') \<Longrightarrow> R e"
  by (metis fst_conv raises_def)

lemma raises_weaken: "raises R m \<Longrightarrow> (\<And>e. R e \<Longrightarrow> S e) \<Longrightarrow> raises S m"
  by (simp add: raises_def)

lemma triple_raises: "raises R m \<Longrightarrow> (\<And>e s. R e \<Longrightarrow> E e s) \<Longrightarrow> triple P m (\<lambda>_ _. True) E"
  by (auto intro!: tripleI dest: raisesD)

end
