(* ===== verification/Spotify_Facts.thy ===== *)
theory Spotify_Facts
  imports Spotify_Provider Triples
begin

text \<open>
  What the operations of the Spotify provider leave alone, how many requests they send, and what is
  stored when the authorization ends.
\<close>

section \<open>Parts that are left alone\<close>

lemma keeps_now [keeps_intros]: "(\<And>w. f (w\<lparr>sw_ticks := Suc (sw_ticks w)\<rparr>) = f w) \<Longrightarrow> keeps_part f (sy_now env)"
  by (simp add: keeps_part_def sy_now_def)

lemma keeps_configured [keeps_intros]: "keeps_part f (spotify_configured env)"
  by (simp add: spotify_configured_def keeps_intros)

lemma keeps_lift_oauth [keeps_intros]: "keeps_part f (lift_oauth r)" "keeps_part f (lift_failure r')"
  by (simp_all add: lift_oauth_def lift_failure_def keeps_simple split: sum.split)

lemma keeps_health [keeps_intros]:
  assumes "\<And>w t. f (w\<lparr>sw_ticks := t\<rparr>) = f w" "\<And>w h. f (w\<lparr>sw_health := h\<rparr>) = f w" "\<And>w r. f (w\<lparr>sw_registry := r\<rparr>) = f w"
  shows "keeps_part f (health_report env status code c observed until)" "keeps_part f (health_note env status code)"
  unfolding health_report_def health_note_def by (intro keeps_intros assms)+

lemma keeps_load [keeps_intros]: "keeps_part f (load_tokens env)"
  unfolding load_tokens_def by (intro keeps_intros)

lemma keeps_fresh [keeps_intros]: "(\<And>w t. f (w\<lparr>sw_ticks := t\<rparr>) = f w) \<Longrightarrow> keeps_part f (token_fresh env t)"
  unfolding token_fresh_def by (intro keeps_intros)

lemma keeps_settings [keeps_intros]: "keeps_part f (checked_settings env)"
  unfolding checked_settings_def by (intro keeps_intros)

lemma keeps_make [keeps_intros]: "(\<And>w t. f (w\<lparr>sw_ticks := t\<rparr>) = f w) \<Longrightarrow> keeps_part f (make_tokens env d r s)"
  unfolding make_tokens_def by (intro keeps_intros) (auto split: option.split json.split intro!: keeps_intros)

lemma keeps_oauth_error [keeps_intros]:
  assumes "\<And>w t. f (w\<lparr>sw_ticks := t\<rparr>) = f w" "\<And>w h. f (w\<lparr>sw_health := h\<rparr>) = f w" "\<And>w r. f (w\<lparr>sw_registry := r\<rparr>) = f w"
  shows "keeps_part f (handle_oauth_error env code)" "keeps_part f (raise_oauth_error env code)" "keeps_part f (raise_for_response env status retry)"
  unfolding handle_oauth_error_def raise_oauth_error_def raise_for_response_def by (intro keeps_intros assms)+

lemma keeps_connection [keeps_intros]:
  assumes "\<And>w t. f (w\<lparr>sw_ticks := t\<rparr>) = f w" "\<And>w d. f (w\<lparr>sw_db := d\<rparr>) = f w"
  shows "keeps_part f (change_connection env g)" "keeps_part f (mark_reconnect_required env)" "keeps_part f (disconnect_store env)"
    "keeps_part f (save_tokens env t)"
  unfolding mark_reconnect_required_def disconnect_store_def save_tokens_def change_connection_def
  by (intro keeps_intros assms; simp add: assms split: option.split)+

lemma keeps_send [keeps_intros]:
  assumes "\<And>w xs. f (w\<lparr>sw_sent := xs\<rparr>) = f w"
  shows "keeps_part f (http_send env rq)" "keeps_part f (post_token env s form)" "keeps_part f (api_send env m p a ps b)"
  unfolding post_token_def api_send_def
  by (auto intro!: keeps_intros simp: keeps_part_def http_send_def assms bind_p_def return_p_def raise_p_def split: spotify_answer.split)

section \<open>Requests\<close>

text \<open>
  At most \<open>n\<close> token requests and \<open>k\<close> calls of the API, each of them as \<open>A\<close> says.
\<close>

fun is_post :: "spotify_request \<Rightarrow> bool" where
  "is_post (Token_post form i s) = True"
| "is_post (Api_call m p a ps b) = False"

definition posts :: "spotify_request list \<Rightarrow> nat" where "posts rs = length (filter is_post rs)"
definition calls :: "spotify_request list \<Rightarrow> nat" where "calls rs = length (filter (\<lambda>r. \<not> is_post r) rs)"

lemma posts_simps [simp]:
  "posts [] = 0" "calls [] = 0" "posts (xs @ ys) = posts xs + posts ys" "calls (xs @ ys) = calls xs + calls ys"
  "posts [r] = (if is_post r then 1 else 0)" "calls [r] = (if is_post r then 0 else 1)"
  by (simp_all add: posts_def calls_def)

definition sends :: "nat \<Rightarrow> nat \<Rightarrow> (spotify_request \<Rightarrow> bool) \<Rightarrow> 'a spotify \<Rightarrow> bool" where
  "sends n k A m \<longleftrightarrow> (\<forall>w. \<exists>new. sw_sent (snd (m w)) = sw_sent w @ new \<and> posts new \<le> n \<and> calls new \<le> k \<and> list_all A new)"

lemma sends_none: "keeps_part sw_sent m \<Longrightarrow> sends 0 0 A m"
  by (simp add: sends_def keeps_part_def)

lemma sends_bind:
  assumes "sends n k A m" "\<And>x. sends n' k' A (f x)" shows "sends (n + n') (k + k') A (bind_p m f)"
  unfolding sends_def
proof
  fix w
  obtain r s where r: "m w = (r, s)" by (cases "m w")
  with assms(1) obtain new where new: "sw_sent s = sw_sent w @ new" "posts new \<le> n" "calls new \<le> k" "list_all A new"
    unfolding sends_def by (metis snd_conv)
  show "\<exists>new. sw_sent (snd (bind_p m f w)) = sw_sent w @ new \<and> posts new \<le> n + n' \<and> calls new \<le> k + k' \<and> list_all A new"
  proof (cases r)
    case (Inl e)
    with new r show ?thesis by (auto simp: bind_p_def)
  next
    case (Inr x)
    from assms(2) [of x] obtain more where "sw_sent (snd (f x s)) = sw_sent s @ more" "posts more \<le> n'" "calls more \<le> k'" "list_all A more"
      unfolding sends_def by blast
    with new r Inr show ?thesis by (intro exI [of _ "new @ more"]) (simp add: bind_p_def)
  qed
qed

lemma sends_attempt:
  assumes "sends n k A m" "\<And>e. sends n' k' A (h e)" shows "sends (n + n') (k + k') A (attempt_p m h)"
  unfolding sends_def
proof
  fix w
  obtain r s where r: "m w = (r, s)" by (cases "m w")
  with assms(1) obtain new where new: "sw_sent s = sw_sent w @ new" "posts new \<le> n" "calls new \<le> k" "list_all A new"
    unfolding sends_def by (metis snd_conv)
  show "\<exists>new. sw_sent (snd (attempt_p m h w)) = sw_sent w @ new \<and> posts new \<le> n + n' \<and> calls new \<le> k + k' \<and> list_all A new"
  proof (cases r)
    case (Inr x)
    with new r show ?thesis by (auto simp: attempt_p_def)
  next
    case (Inl e)
    from assms(2) [of e] obtain more where "sw_sent (snd (h e s)) = sw_sent s @ more" "posts more \<le> n'" "calls more \<le> k'" "list_all A more"
      unfolding sends_def by blast
    with new r Inl show ?thesis by (intro exI [of _ "new @ more"]) (simp add: attempt_p_def)
  qed
qed

lemma sends_more: "sends n k A m \<Longrightarrow> n \<le> n' \<Longrightarrow> k \<le> k' \<Longrightarrow> sends n' k' A m"
  by (meson sends_def order_trans)

lemma sends_seq:
  "sends n k A m \<Longrightarrow> (\<And>x. sends n' k' A (f x)) \<Longrightarrow> n + n' = N \<Longrightarrow> k + k' = K \<Longrightarrow> sends N K A (bind_p m f)"
  using sends_bind [of n k A m n' k' f] by simp

lemma sends_after: "keeps_part sw_sent m \<Longrightarrow> (\<And>x. sends n k A (f x)) \<Longrightarrow> sends n k A (bind_p m f)"
  by (rule sends_seq [of 0 0]) (simp_all add: sends_none)

lemma sends_before: "sends n k A m \<Longrightarrow> (\<And>x. keeps_part sw_sent (f x)) \<Longrightarrow> sends n k A (bind_p m f)"
  by (rule sends_seq [of n k _ _ 0 0]) (simp_all add: sends_none)

lemma sends_nothing: "keeps_part sw_sent m \<Longrightarrow> sends n k A m"
  by (rule sends_more [OF sends_none]) simp_all

lemma sends_if: "(b \<Longrightarrow> sends n k A m) \<Longrightarrow> (\<not> b \<Longrightarrow> sends n k A m') \<Longrightarrow> sends n k A (if b then m else m')"
  by simp

lemma sends_option: "sends n k A m \<Longrightarrow> (\<And>x. sends n k A (f x)) \<Longrightarrow> sends n k A (case v of None \<Rightarrow> m | Some x \<Rightarrow> f x)"
  by (simp split: option.split)

lemma sends_http: "A rq \<Longrightarrow> sends (posts [rq]) (calls [rq]) A (http_send env rq)"
  unfolding sends_def by (intro allI exI [of _ "[rq]"]) (simp add: http_send_def)

lemma keeps_answer: "keeps_part f (case a of Http_failed \<Rightarrow> raise_p e | Http_cancelled \<Rightarrow> raise_p e' | Http_answer s r b \<Rightarrow> return_p (g s r b))"
  by (simp add: keeps_simple split: spotify_answer.split)

lemma sends_post: "(\<And>i c. A (Token_post form i c)) \<Longrightarrow> sends 1 0 A (post_token env s form)"
  unfolding post_token_def
  by (rule sends_before) (use sends_http [of A "Token_post form _ _" env] in \<open>auto intro!: keeps_answer\<close>)

lemma sends_api: "A (Api_call m p a ps b) \<Longrightarrow> sends 0 1 A (api_send env m p a ps b)"
  unfolding api_send_def by (rule sends_before) (use sends_http [of A "Api_call m p a ps b" env] in \<open>auto intro!: keeps_answer\<close>)


text \<open>What goes beyond reading, health and the store.\<close>

lemma keeps_caught [keeps_intros]:
  assumes "\<And>w t. f (w\<lparr>sw_ticks := t\<rparr>) = f w" "\<And>w h. f (w\<lparr>sw_health := h\<rparr>) = f w" "\<And>w r. f (w\<lparr>sw_registry := r\<rparr>) = f w"
  shows "keeps_part f (saved_tokens env)"
    "keeps_part f (case e of Oauth_failure code status \<Rightarrow> raise_oauth_error env code | _ \<Rightarrow> raise_p e)"
  unfolding saved_tokens_def
  by (auto intro!: keeps_intros assms split: spotify_failure.split)

definition allows_refresh :: "(spotify_request \<Rightarrow> bool) \<Rightarrow> bool" where
  "allows_refresh A \<longleftrightarrow> (\<forall>r i c. A (Token_post [(''grant_type'', ''refresh_token''), (''refresh_token'', r)] i c))"

lemma refresh_sends: "allows_refresh A \<Longrightarrow> sends 1 0 A (refresh_tokens env t)"
  unfolding refresh_tokens_def
  by (intro sends_after keeps_settings sends_before sends_post keeps_intros) (simp_all add: allows_refresh_def)

lemma renewed_sends: assumes "allows_refresh A" shows "sends 1 0 A (refresh_locked env stale)"
proof -
  have "sends 1 0 A (renewed_token env stale)"
    unfolding renewed_token_def
    by (intro sends_after keeps_load sends_option sends_nothing sends_if sends_before refresh_sends [OF assms] keeps_intros) simp_all
  from sends_attempt [OF this, of 0 0] show ?thesis
    unfolding refresh_locked_def on_oauth_error_def by (simp add: sends_none keeps_caught)
qed

lemma access_sends: assumes "allows_refresh A" shows "sends 1 0 A (current_access_token env)"
  unfolding current_access_token_def
proof (rule sends_after)
  show "keeps_part sw_sent (saved_tokens env)" by (simp add: keeps_caught)
  fix current :: "tokens option"
  show "sends 1 0 A (case current of
       None \<Rightarrow> bind_p (health_note env Disconnected ''not_connected'') (\<lambda>_. raise_p (Auth_required ''not_authenticated''))
     | Some t \<Rightarrow> bind_p (token_fresh env t) (\<lambda>fresh. if fresh then return_p (tk_access t) else refresh_locked env (tk_access t)))"
    by (intro sends_option sends_after sends_if renewed_sends [OF assms] sends_nothing keeps_intros) simp_all
qed

lemma again_sends:
  assumes "allows_refresh A" "\<And>a. A (Api_call method path a params body)"
  shows "sends 1 1 A (sent_again env method path params body access)"
  unfolding sent_again_def authorization_lost_def
  by (rule sends_seq [of 1 0 _ _ 0 1], rule renewed_sends [OF assms(1)], rule sends_before, rule sends_api, rule assms(2))
     (auto intro!: keeps_intros)

text \<open>A request calls the API at most twice and asks for a token at most twice.\<close>

lemma request_sends:
  assumes "allows_refresh A" "\<And>a. A (Api_call method path a params body)"
  shows "sends 2 2 A (request_player env method path params body)"
  unfolding request_player_def
proof (rule sends_seq [of 1 0 _ _ 1 2])
  show "sends 1 0 A (current_access_token env)" by (rule access_sends [OF assms(1)])
  fix access
  show "sends 1 2 A (bind_p (api_send env method path access params body) (\<lambda>first.
     bind_p (if fst first = 401 then sent_again env method path params body access else return_p first) (\<lambda>(status, retry, v).
     bind_p (raise_for_response env status retry) (\<lambda>_.
     bind_p (health_note env Healthy ''api_request_succeeded'') (\<lambda>_.
     return_p (status, v))))))"
  proof (rule sends_seq [of 0 1 _ _ 1 1])
    show "sends 0 1 A (api_send env method path access params body)" by (rule sends_api) (rule assms(2))
    fix first :: "int \<times> string option \<times> json option"
    show "sends 1 1 A (bind_p (if fst first = 401 then sent_again env method path params body access else return_p first)
       (\<lambda>(status, retry, v). bind_p (raise_for_response env status retry) (\<lambda>_.
        bind_p (health_note env Healthy ''api_request_succeeded'') (\<lambda>_. return_p (status, v)))))"
      by (intro sends_before sends_if again_sends [OF assms] sends_nothing keeps_intros) simp_all
  qed simp_all
qed simp_all

section \<open>Commands\<close>

text \<open>The endpoint of a command, and the one request it may make of the API.\<close>

fun command_endpoint :: "spotify_command \<Rightarrow> string \<times> string" where
  "command_endpoint Play = (''PUT'', ''/me/player/play'')"
| "command_endpoint Pause = (''PUT'', ''/me/player/pause'')"
| "command_endpoint Next_track = (''POST'', ''/me/player/next'')"
| "command_endpoint Previous_track = (''POST'', ''/me/player/previous'')"
| "command_endpoint Seek = (''PUT'', ''/me/player/seek'')"
| "command_endpoint Volume = (''PUT'', ''/me/player/volume'')"
| "command_endpoint Transfer_device = (''PUT'', ''/me/player'')"

definition command_call :: "spotify_command \<Rightarrow> (string \<times> string) list \<Rightarrow> json \<Rightarrow> bool" where
  "command_call c params body = (case c of
      Seek \<Rightarrow> body = JNull \<and> (\<exists>n \<ge> 0. params = [(''position_ms'', int_str (n * 1000))])
    | Volume \<Rightarrow> body = JNull \<and> (\<exists>n \<ge> 0. n \<le> 100 \<and> params = [(''volume_percent'', int_str n)])
    | Transfer_device \<Rightarrow> params = [] \<and> (\<exists>d. d \<noteq> [] \<and> body = JDict [(''device_ids'', JList [JStr d])])
    | _ \<Rightarrow> params = [] \<and> body = JNull)"

fun command_allows :: "spotify_command \<Rightarrow> spotify_request \<Rightarrow> bool" where
  "command_allows c (Token_post form i s) = (\<exists>r. form = [(''grant_type'', ''refresh_token''), (''refresh_token'', r)])"
| "command_allows c (Api_call m p a params body) = ((m, p) = command_endpoint c \<and> command_call c params body)"

lemma request_for_allowed:
  "request_for r = Inr (m, p, params, body) \<Longrightarrow> command_allows (rq_command r) (Api_call m p a params body)"
  by (cases "rq_command r") (auto 0 4 simp: request_for_def command_call_def Let_def not_less split: option.splits if_splits)

lemma keeps_command [keeps_intros]:
  "keeps_part f (command_failure code msg)" "keeps_part f command_success"
  unfolding command_failure_def command_success_def by (intro keeps_intros)+

lemma keeps_error_of: "keeps_part sw_sent (command_error_of env e)"
  unfolding command_error_of_def by (auto split: spotify_failure.split intro!: keeps_intros)

lemma execute_sends: "sends 2 2 (command_allows (rq_command r)) (execute_command env r)"
proof (cases "request_for r")
  case (Inl e)
  then show ?thesis unfolding execute_command_def by (simp add: sends_nothing keeps_command)
next
  case (Inr q)
  obtain m p params body where q: "q = (m, p, params, body)" by (cases q)
  have "sends 2 2 (command_allows (rq_command r)) (bind_p (request_player env m p params body) (\<lambda>_. command_success))"
    by (rule sends_before [OF request_sends])
       (use request_for_allowed Inr q in \<open>auto simp: allows_refresh_def keeps_command\<close>)
  from sends_attempt [OF this, of 0 0] show ?thesis
    by (simp add: execute_command_def Inr q sends_none keeps_error_of)
qed

text \<open>Errors of the API and of the OAuth service do not leave a command.\<close>

fun provider_error :: "spotify_failure \<Rightarrow> bool" where
  "provider_error (Spotify_raised e) = False"
| "provider_error Spotify_cancelled = False"
| "provider_error (Store_failure c) = False"
| "provider_error e = True"

lemma raises_now [raises_intros]: "raises R (sy_now env)"
  by (simp add: raises_def sy_now_def)

lemma raises_configured [raises_intros]: "(\<And>e. R (Spotify_raised e)) \<Longrightarrow> raises R (spotify_configured env)"
  unfolding spotify_configured_def by (intro raises_intros)

lemma raises_health [raises_intros]:
  assumes "\<And>e. R (Spotify_raised e)"
  shows "raises R (health_report env status code c observed until)" "raises R (health_note env status code)"
    "raises R (handle_oauth_error env code)"
  unfolding health_report_def health_note_def handle_oauth_error_def by (intro raises_intros assms)+

lemma raises_connection [raises_intros]: "raises R (mark_reconnect_required env)" "raises R (disconnect_store env)"
  unfolding mark_reconnect_required_def disconnect_store_def change_connection_def by (intro raises_intros)+

lemma raises_load: "(\<And>e. R (Spotify_raised e)) \<Longrightarrow> (\<And>c. R (Store_failure c)) \<Longrightarrow> raises R (load_tokens env)"
  unfolding load_tokens_def by (auto intro!: raises_intros split: option.split sum.split)

lemma raises_save: "(\<And>e. R (Spotify_raised e)) \<Longrightarrow> (\<And>c. R (Store_failure c)) \<Longrightarrow> raises R (save_tokens env t)"
  unfolding save_tokens_def sealed_tokens_def by (auto intro!: raises_intros split: sum.split)

lemma raises_command:
  "(\<And>e. R (Spotify_raised e)) \<Longrightarrow> raises R (command_failure code msg)" "(\<And>e. R (Spotify_raised e)) \<Longrightarrow> raises R command_success"
  unfolding command_failure_def command_success_def by (intro raises_intros; simp)+

end
