(* ===== verification/Spotify_Properties.thy ===== *)
theory Spotify_Properties
  imports Spotify_Facts
begin

text \<open>
  The properties of the Spotify provider: which requests a command makes, what an authorization
  that has ended leaves behind, when a callback has any effect, and what the events tell.
\<close>

section \<open>A concrete provider\<close>

definition sample_spotify_settings :: settings where
  "sample_spotify_settings = sample_settings\<lparr>runtime_mode := PERSONAL_LOCAL, providers := no_providers\<lparr>
     spotify_client_id := Some ''id'', spotify_client_secret := Some ''secret'',
     spotify_redirect_uri := Some (''http://127.0.0.1:8000'' @ SPOTIFY_CALLBACK_PATH), credential_encryption_key := Some ''key''\<rparr>\<rparr>"

definition sample_fernet :: fernet where
  "sample_fernet = \<lparr>fn_encrypt = \<lambda>raw. sample_token, fn_decrypt = \<lambda>t. Some [1]\<rparr>"

definition sample_tokens :: json where
  "sample_tokens = JDict [(''access_token'', JStr ''a''), (''refresh_token'', JStr ''r''), (''expires_at'', JStr ''1970-01-01T01:00:00+00:00''),
     (''scopes'', JList [])]"

text \<open>A provider whose token answers are \<open>body\<close> with \<open>status\<close>, and whose API answers \<open>api\<close>.\<close>

definition sample_spotify :: "int \<Rightarrow> json \<Rightarrow> int \<Rightarrow> instant \<Rightarrow> spotify_env" where
  "sample_spotify status body api now = \<lparr>sy_settings = sample_spotify_settings, sy_fernet = \<lambda>k. Some sample_fernet,
     sy_answer = \<lambda>n r. if is_post r then Http_answer status None (Some body) else Http_answer api None None,
     sy_clock = \<lambda>n. now, sy_dumps = \<lambda>v. [1], sy_loads = \<lambda>b. Some sample_tokens, sy_parse_date = \<lambda>s. None\<rparr>"

definition sample_connection :: connection_row where
  "sample_connection = (new_connection ''spotify'' 0)\<lparr>cn_credentials := Some sample_token\<rparr>"

definition sample_spotify_world :: spotify_world where
  "sample_spotify_world = \<lparr>sw_db = empty_db\<lparr>db_connections := [sample_connection]\<rparr>, sw_sent = [], sw_ticks = 0,
     sw_health = spotify_health_new, sw_registry = [], sw_previous = None, sw_current = None, sw_observed_at = None\<rparr>"

lemma sample_configured: "is_spotify_configured (\<lambda>k. Some sample_fernet) sample_spotify_settings = Inr True"
  by code_simp

lemma sample_complete: "complete_settings (\<lambda>k. Some sample_fernet) sample_spotify_settings = Inr sample_spotify_settings"
  by code_simp
definition sample_grant :: json where
  "sample_grant = JDict [(''access_token'', JStr ''a''), (''refresh_token'', JStr ''r''), (''expires_in'', JInt 3600)]"

section \<open>The end of an authorization\<close>

definition stored_secret :: "db \<Rightarrow> string option" where
  "stored_secret d = Option.bind (find_connection ''spotify'' d) cn_credentials"

text \<open>The exceptions that say so, and what then holds.\<close>

fun ended :: "spotify_failure \<Rightarrow> bool" where
  "ended (Oauth_failure c s) = (c = ''authorization_expired'')"
| "ended (Auth_required c) = (c = ''authorization_expired'')"
| "ended e = False"

definition lost :: "spotify_world \<Rightarrow> bool" where
  "lost w \<longleftrightarrow> stored_secret (sw_db w) = None \<and> sh_status (sw_health w) = Some Authorization_expired"

abbreviation ends_lost :: "spotify_failure \<Rightarrow> spotify_world \<Rightarrow> bool" where
  "ends_lost e w \<equiv> ended e \<longrightarrow> lost w"

lemma stored_put_connection:
  "cn_provider r = k \<Longrightarrow> stored_secret (put_connection now r d) = (if k = ''spotify'' then cn_credentials r else stored_secret d)"
  by (auto simp: stored_secret_def put_connection_def find_connection_def find_row_upsert)

lemma mark_forgets: "triple (\<lambda>w. True) (mark_reconnect_required env) (\<lambda>_ w. stored_secret (sw_db w) = None) E"
  unfolding mark_reconnect_required_def change_connection_def
proof (rule triple_bind [where R = "\<lambda>_ _. True"])
  show "triple (\<lambda>w. True) (sy_now env) (\<lambda>_ _. True) E"
    by (rule triple_raises [where R = "\<lambda>_. False"]) (simp_all add: raises_intros)
  fix stamp
  show "triple (\<lambda>w. True) (modify_p (\<lambda>w. case find_connection ''spotify'' (sw_db w) of None \<Rightarrow> w
      | Some r \<Rightarrow> w\<lparr>sw_db := put_connection stamp (r\<lparr>cn_status := ''degraded'', cn_credentials := None, cn_scopes := []\<rparr>) (sw_db w)\<rparr>))
      (\<lambda>_ w. stored_secret (sw_db w) = None) E"
    by (rule triple_modify)
       (auto simp: stored_put_connection find_connection_def dest: find_row_Some split: option.split,
        simp add: stored_secret_def find_connection_def)
qed

lemma note_expired:
  "triple (\<lambda>w. stored_secret (sw_db w) = None) (health_note env Authorization_expired code) (\<lambda>_. lost) ends_lost"
proof -
  have "triple (\<lambda>w. stored_secret (sw_db w) = None) (health_note env Authorization_expired code)
     (\<lambda>_ w. stored_secret (sw_db w) = None) (\<lambda>_ w. stored_secret (sw_db w) = None)"
    by (rule triple_keeps [where f = sw_db]) (simp add: keeps_health)
  moreover have "triple (\<lambda>w. stored_secret (sw_db w) = None) (health_note env Authorization_expired code)
     (\<lambda>_ w. sh_status (sw_health w) = Some Authorization_expired) (\<lambda>e w. \<not> ended e)"
    unfolding health_note_def health_report_def
    by (auto intro!: tripleI simp: bind_p_def spotify_configured_def lift_p_def sy_now_def modify_p_def read_p_def note_status_def
        split: prod.splits sum.splits)
  ultimately show ?thesis
    by (rule triple_weaken [OF triple_conj]) (auto simp: lost_def)
qed

lemma authorization_lost_triple: "triple (\<lambda>w. True) (authorization_lost env) Q ends_lost"
  unfolding authorization_lost_def
  by (rule triple_bind, rule mark_forgets, rule triple_bind, rule note_expired, rule triple_raise) simp

text \<open>Everything else raises other exceptions.\<close>

abbreviation "goes_on \<equiv> raises (\<lambda>e. \<not> ended e)"

lemma goes_on_triple: "goes_on m \<Longrightarrow> triple (\<lambda>w. True) m (\<lambda>_ _. True) ends_lost"
  by (rule triple_raises [where R = "\<lambda>e. \<not> ended e"]) simp_all

lemma settings_code: "complete_settings f s = Inl (Oauth_error c st) \<Longrightarrow> c \<noteq> ''authorization_expired''"
  by (auto simp: complete_settings_def validate_redirect_uri_def bind_simps ensure_def oauth_code_def Let_def
      split: if_splits sum.splits)

lemma goes_on_settings: "goes_on (checked_settings env)"
proof -
  have "\<not> ended (of_oauth e)" if "complete_settings f s = Inl e" for f s e
    using settings_code [of f s] that by (cases e) auto
  then show ?thesis
    by (auto simp: checked_settings_def lift_oauth_def intro!: raises_intros split: sum.split)
qed

lemma goes_on_http: "raises R (http_send env rq)"
  by (simp add: raises_def http_send_def)

lemma goes_on_post: "goes_on (post_token env s form)"
  unfolding post_token_def by (intro raises_bind goes_on_http) (auto intro!: raises_intros split: spotify_answer.split)

lemma goes_on_api: "goes_on (api_send env m p a ps b)"
  unfolding api_send_def by (intro raises_bind goes_on_http) (auto intro!: raises_intros split: spotify_answer.split)

lemma goes_on_response: "goes_on (lift_failure (token_response allow r))"
  unfolding token_response_def lift_failure_def
  by (auto intro!: raises_intros split: sum.splits prod.splits option.splits json.splits if_splits)

lemma goes_on_make: "goes_on (make_tokens env d r s)"
  unfolding make_tokens_def by (auto intro!: raises_intros split: option.split json.split)

lemma goes_on_response_raise: "goes_on (raise_for_response env status retry)"
  unfolding raise_for_response_def by (auto intro!: raises_intros)

text \<open>A refresh, and the request around it.\<close>

lemma refresh_tokens_ends: "triple (\<lambda>w. True) (refresh_tokens env t) (\<lambda>_ _. True) ends_lost"
  unfolding refresh_tokens_def
proof (rule triple_bind, rule goes_on_triple, rule goes_on_settings,
    rule triple_bind, rule goes_on_triple, rule goes_on_post,
    rule triple_bind, rule goes_on_triple, rule goes_on_response)
  fix s r d
  show "triple (\<lambda>w. True) (case d of
        None \<Rightarrow>
          bind_p (mark_reconnect_required env) (\<lambda>_.
          bind_p (health_note env Authorization_expired ''authorization_expired'') (\<lambda>_.
          raise_p (Oauth_failure ''authorization_expired'' (Some (fst r)))))
      | Some dict \<Rightarrow>
          bind_p (make_tokens env dict
            (case text_or_none (dict_get dict ''refresh_token'') of Some t \<Rightarrow> t | None \<Rightarrow> tk_refresh t')
            (tk_scopes t')) (\<lambda>t.
          bind_p (save_tokens env t) (\<lambda>_. return_p t))) (\<lambda>_ _. True) ends_lost" for t'
  proof (cases d)
    case None
    then show ?thesis
      by simp (rule triple_bind, rule mark_forgets, rule triple_bind, rule note_expired, rule triple_raise, simp)
  next
    case (Some dict)
    then show ?thesis
      by simp (rule goes_on_triple, intro raises_bind goes_on_make raises_save raises_simple, simp_all)
  qed
qed

lemma renewed_token_ends: "triple (\<lambda>w. True) (renewed_token env stale) (\<lambda>_ _. True) ends_lost"
  unfolding renewed_token_def
proof (rule triple_bind, rule goes_on_triple, rule raises_load)
  fix current :: "tokens option"
  have fresh: "goes_on (if tk_access t \<noteq> stale then token_fresh env t else return_p False)" for t
    unfolding token_fresh_def by (intro raises_intros)
  show "triple (\<lambda>w. True) (case current of None \<Rightarrow> raise_p (Auth_required ''reconnect_required'')
      | Some t \<Rightarrow> bind_p (if tk_access t \<noteq> stale then token_fresh env t else return_p False) (\<lambda>fresh.
         if fresh then return_p (tk_access t) else bind_p (refresh_tokens env t) (\<lambda>t'. return_p (tk_access t')))) (\<lambda>_ _. True) ends_lost"
  proof (cases current)
    case None
    then show ?thesis by (simp add: triple_raise)
  next
    case (Some t)
    have "triple (\<lambda>w. True) (if b then return_p (tk_access t) else bind_p (refresh_tokens env t) (\<lambda>t'. return_p (tk_access t')))
        (\<lambda>_ _. True) ends_lost" for b
      by (rule triple_if, rule triple_return, simp, rule triple_bind, rule refresh_tokens_ends, rule triple_return, simp)
    then show ?thesis unfolding Some option.case by (intro triple_bind [OF goes_on_triple [OF fresh]])
  qed
qed simp_all

lemma refresh_locked_ends: "triple (\<lambda>w. True) (refresh_locked env stale) (\<lambda>_ _. True) ends_lost"
  unfolding refresh_locked_def on_oauth_error_def
proof (rule triple_attempt, rule renewed_token_ends)
  fix e
  have "triple (\<lambda>w. ended (Oauth_failure code status) \<longrightarrow> lost w) (raise_oauth_error env code) (\<lambda>_ _. True) ends_lost" for code status
  proof (cases "code = ''authorization_expired''")
    case True
    have "triple (\<lambda>w. lost w) (raise_oauth_error env code) (\<lambda>_ _. True) ends_lost"
      unfolding raise_oauth_error_def handle_oauth_error_def True if_True simp_thms
      by (rule triple_bind [where R = "\<lambda>_. lost"], rule triple_weaken [OF note_expired]) (auto simp: lost_def intro!: triple_raise)
    with True show ?thesis by simp
  next
    case False
    have "goes_on (raise_oauth_error env code)"
      unfolding raise_oauth_error_def using False by (intro raises_intros) auto
    from goes_on_triple [OF this] show ?thesis by (rule triple_weaken) simp_all
  qed
  then show "triple (\<lambda>w. ends_lost e w) (case e of Oauth_failure code status \<Rightarrow> raise_oauth_error env code | _ \<Rightarrow> raise_p e) (\<lambda>_ _. True) ends_lost"
    by (cases e) (auto intro!: triple_raise)
qed

lemma request_player_ends: "triple (\<lambda>w. True) (request_player env method path params body) (\<lambda>_ _. True) ends_lost"
proof -
  have load: "goes_on (saved_tokens env)"
    unfolding saved_tokens_def
    by (rule raises_attempt [OF raises_load [where R = "\<lambda>e. \<not> ended e"]]) (auto intro!: raises_intros split: spotify_failure.split)
  have access: "triple (\<lambda>w. True) (current_access_token env) (\<lambda>_ _. True) ends_lost"
    unfolding current_access_token_def
  proof (rule triple_bind, rule goes_on_triple, rule load)
    fix current :: "tokens option"
    have "goes_on (token_fresh env t)" for t unfolding token_fresh_def by (intro raises_intros)
    note fresh = goes_on_triple [OF this]
    have none: "goes_on (bind_p (health_note env Disconnected ''not_connected'') (\<lambda>_. raise_p (Auth_required ''not_authenticated'')))"
      by (intro raises_intros) simp_all
    have "triple (\<lambda>w. True) (bind_p (token_fresh env t) (\<lambda>fresh. if fresh then return_p (tk_access t) else refresh_locked env (tk_access t)))
        (\<lambda>_ _. True) ends_lost" for t
      by (rule triple_bind, rule fresh, rule triple_if, rule triple_return, simp, rule refresh_locked_ends)
    with goes_on_triple [OF none] show "triple (\<lambda>w. True) (case current of
         None \<Rightarrow> bind_p (health_note env Disconnected ''not_connected'') (\<lambda>_. raise_p (Auth_required ''not_authenticated''))
       | Some t \<Rightarrow> bind_p (token_fresh env t) (\<lambda>fresh. if fresh then return_p (tk_access t) else refresh_locked env (tk_access t)))
       (\<lambda>_ _. True) ends_lost"
      by (cases current) simp_all
  qed
  have again: "triple (\<lambda>w. True) (sent_again env method path params body a) (\<lambda>_ _. True) ends_lost" for a
    unfolding sent_again_def
    by (rule triple_bind, rule refresh_locked_ends, rule triple_bind, rule goes_on_triple, rule goes_on_api)
       (auto intro!: triple_if authorization_lost_triple triple_return)
  show ?thesis
    unfolding request_player_def
    by (rule triple_bind, rule access, rule triple_bind, rule goes_on_triple, rule goes_on_api, rule triple_bind)
       (auto intro!: triple_if again triple_return goes_on_triple raises_intros goes_on_response_raise split: prod.split)
qed

text \<open>Without stored credentials nothing is sent.\<close>

lemma load_without_secret: "stored_secret (sw_db w) = None \<Longrightarrow> load_tokens env w = (Inr None, w)"
  by (auto simp: load_tokens_def stored_secret_def bind_p_def read_p_def return_p_def split: option.splits)

lemma no_secret_no_request:
  assumes "stored_secret (sw_db w) = None"
  shows "sw_sent (snd (request_player env m p ps b w)) = sw_sent w" "isl (fst (request_player env m p ps b w))"
proof -
  let ?out = "bind_p (health_note env Disconnected ''not_connected'') (\<lambda>_. raise_p (Auth_required ''not_authenticated'') :: string spotify)"
  have t: "current_access_token env w = ?out w"
    using load_without_secret [OF assms, of env]
    by (simp add: current_access_token_def saved_tokens_def attempt_p_def bind_p_def)
  have k: "keeps_part sw_sent ?out" by (intro keeps_intros) simp_all
  have "isl (fst (?out w))" by (auto simp: bind_p_def raise_p_def split: prod.splits sum.splits)
  then obtain e w' where r: "?out w = (Inl e, w')" by (metis isl_def prod.collapse)
  with keeps_partD [OF k r] t show "sw_sent (snd (request_player env m p ps b w)) = sw_sent w" "isl (fst (request_player env m p ps b w))"
    by (simp_all add: request_player_def bind_p_def [of "current_access_token env"])
qed

text \<open>
  C21.  An authorization that Spotify no longer honours is forgotten, not retried.  When a request
  ends because the authorization has expired (the refresh was refused, or the second attempt was
  answered 401 again), no credential is stored any more, the health says so, and whatever is asked
  afterwards fails without sending anything until the user connects again.
\<close>

theorem spotify_expired_forgotten:
  assumes "request_player env m p ps b w = (Inl (Auth_required ''authorization_expired''), w')"
  shows "stored_secret (sw_db w') = None \<and> sh_status (sw_health w') = Some Authorization_expired
    \<and> sw_sent (snd (request_player env' m' p' ps' b' w')) = sw_sent w' \<and> isl (fst (request_player env' m' p' ps' b' w'))"
proof -
  have "lost w'" using triple_InlD [OF request_player_ends TrueI assms] by simp
  then show ?thesis using no_secret_no_request [of w'] by (simp add: lost_def)
qed

theorem spotify_expired_forgotten_witness:
  "\<exists>w'. request_player (sample_spotify 400 (JDict [(''error'', JStr ''invalid_grant'')]) 401 0) ''GET'' ''/me/player'' [] JNull sample_spotify_world
       = (Inl (Auth_required ''authorization_expired''), w')
     \<and> stored_secret (sw_db sample_spotify_world) \<noteq> None \<and> stored_secret (sw_db w') = None"
proof -
  let ?r = "request_player (sample_spotify 400 (JDict [(''error'', JStr ''invalid_grant'')]) 401 0) ''GET'' ''/me/player'' [] JNull sample_spotify_world"
  have "(case ?r of (Inl (Auth_required c), w) \<Rightarrow> c = ''authorization_expired'' | _ \<Rightarrow> False)" by code_simp
  then obtain w' where r: "?r = (Inl (Auth_required ''authorization_expired''), w')"
    by (auto split: prod.splits sum.splits spotify_failure.splits)
  have "stored_secret (sw_db sample_spotify_world) \<noteq> None" by code_simp
  with r spotify_expired_forgotten [OF r] show ?thesis by blast
qed

section \<open>Commands\<close>

abbreviation "no_oauth \<equiv> raises (\<lambda>e. \<forall>c s. e \<noteq> Oauth_failure c s)"

lemma no_oauth_locked: "no_oauth (refresh_locked env stale)"
  unfolding refresh_locked_def on_oauth_error_def
  by (rule raises_attempt [where S = "\<lambda>_. True"], simp add: raises_def)
     (auto simp: raise_oauth_error_def intro!: raises_intros split: spotify_failure.split)

lemma no_oauth_request: "no_oauth (request_player env m p ps b)"
proof -
  have api: "no_oauth (api_send env m p a ps b)" for a
    unfolding api_send_def by (intro raises_bind goes_on_http) (auto intro!: raises_intros split: spotify_answer.split)
  have load: "no_oauth (saved_tokens env)"
    unfolding saved_tokens_def
    by (rule raises_attempt [OF raises_load [where R = "\<lambda>e. \<forall>c s. e \<noteq> Oauth_failure c s"]])
       (auto intro!: raises_intros split: spotify_failure.split)
  have access: "no_oauth (current_access_token env)"
    unfolding current_access_token_def token_fresh_def
    by (rule raises_bind, rule load) (intro raises_intros no_oauth_locked; simp)
  have again: "no_oauth (sent_again env m p ps b a)" for a
    unfolding sent_again_def authorization_lost_def by (intro raises_intros no_oauth_locked api; simp)
  show ?thesis
    unfolding request_player_def raise_for_response_def by (intro raises_intros access api again; simp)
qed

lemma execute_raises: "raises (\<lambda>e. \<not> provider_error e) (execute_command env r)"
proof -
  have "raises (\<lambda>e. \<not> provider_error e) (command_error_of env e)" if "\<forall>c s. e \<noteq> Oauth_failure c s" for e
    using that unfolding command_error_of_def
    by (cases e) (auto intro!: raises_intros raises_command)
  moreover have "no_oauth (bind_p (request_player env m p ps b) (\<lambda>_. command_success))" for m p ps b
    by (intro raises_bind no_oauth_request raises_command) simp
  ultimately show ?thesis
    unfolding execute_command_def
    by (auto intro!: raises_command raises_attempt [where S = "\<lambda>e. \<forall>c s. e \<noteq> Oauth_failure c s"] split: sum.split prod.split)
qed

text \<open>
  A command reaches one endpoint of Spotify and no other.  Whatever the settings, the stored
  credentials and the answers, executing a command makes at most two calls of the API, all of them
  with the method and path of that command and arguments within their range, and at most two token
  requests, all of them refreshes; and an error of Spotify is answered, not raised.
\<close>

theorem spotify_command_closed:
  assumes "execute_command env r w = (res, w')"
  shows "(\<exists>new. sw_sent w' = sw_sent w @ new \<and> posts new \<le> 2 \<and> calls new \<le> 2 \<and> list_all (command_allows (rq_command r)) new)
    \<and> (case res of Inl e \<Rightarrow> \<not> provider_error e | Inr v \<Rightarrow> cr_provider v = ''spotify'')"
proof
  show "\<exists>new. sw_sent w' = sw_sent w @ new \<and> posts new \<le> 2 \<and> calls new \<le> 2 \<and> list_all (command_allows (rq_command r)) new"
    using execute_sends [of r env] assms unfolding sends_def by (metis snd_conv)
  have result: "triple (\<lambda>_. True) (command_failure c msg) (\<lambda>v _. cr_provider v = ''spotify'') (\<lambda>_ _. True)"
    "triple (\<lambda>_. True) command_success (\<lambda>v _. cr_provider v = ''spotify'') (\<lambda>_ _. True)" for c msg
    unfolding command_failure_def command_success_def by (auto intro!: triple_lift simp: command_result_new_def bind_simps)
  have error: "triple (\<lambda>_. True) (command_error_of env e) (\<lambda>v _. cr_provider v = ''spotify'') (\<lambda>_ _. True)" for e
    unfolding command_error_of_def
    by (cases e) (auto intro!: triple_raise triple_if result triple_bind [OF goes_on_triple [THEN triple_weaken]] raises_intros)
  have "triple (\<lambda>_. True) (execute_command env r) (\<lambda>v _. cr_provider v = ''spotify'') (\<lambda>_ _. True)"
    unfolding execute_command_def
    by (auto intro!: result triple_attempt [OF _ error] triple_bind [OF _ result(2)]
        intro: tripleI split: sum.split prod.split)
  then show "case res of Inl e \<Rightarrow> \<not> provider_error e | Inr v \<Rightarrow> cr_provider v = ''spotify''"
    using triple_InrD [of "\<lambda>_. True"] raisesD [OF execute_raises] assms by (fastforce split: sum.split)
qed

theorem spotify_command_closed_witness:
  "\<exists>v w' rq. execute_command (sample_spotify 200 sample_grant 204 (hours 2)) \<lparr>rq_command = Seek,
      rq_arguments = \<lparr>position_seconds = Some 90, volume_percent = None, device_id = None\<rparr>, rq_correlation_id = 0\<rparr> sample_spotify_world
      = (Inr v, w') \<and> cr_success v \<and> sw_sent w' = [rq, Api_call ''PUT'' ''/me/player/seek'' ''a'' [(''position_ms'', ''90000'')] JNull]
      \<and> command_allows Seek rq"
proof -
  let ?q = "\<lparr>rq_command = Seek, rq_arguments = \<lparr>position_seconds = Some 90, volume_percent = None, device_id = None\<rparr>, rq_correlation_id = 0\<rparr>"
  let ?r = "execute_command (sample_spotify 200 sample_grant 204 (hours 2)) ?q sample_spotify_world"
  have "(case ?r of (Inr v, w) \<Rightarrow> cr_success v \<and> length (sw_sent w) = 2
      \<and> sw_sent w ! 1 = Api_call ''PUT'' ''/me/player/seek'' ''a'' [(''position_ms'', ''90000'')] JNull | _ \<Rightarrow> False)" by code_simp
  then obtain v w' where r: "?r = (Inr v, w')" "cr_success v" "length (sw_sent w') = 2"
      "sw_sent w' ! 1 = Api_call ''PUT'' ''/me/player/seek'' ''a'' [(''position_ms'', ''90000'')] JNull"
    by (auto split: prod.splits sum.splits)
  then obtain rq where w': "sw_sent w' = [rq, Api_call ''PUT'' ''/me/player/seek'' ''a'' [(''position_ms'', ''90000'')] JNull]"
    by (cases "sw_sent w'" rule: list.exhaust; cases "tl (sw_sent w')") auto
  moreover have "sw_sent sample_spotify_world = []" by (simp add: sample_spotify_world_def)
  ultimately have "command_allows Seek rq" using spotify_command_closed [OF r(1)] by auto
  with r w' show ?thesis by blast
qed

section \<open>Callbacks\<close>

definition code_request :: "spotify_env \<Rightarrow> string \<Rightarrow> spotify_request \<Rightarrow> bool" where
  "code_request env code r \<longleftrightarrow> (\<exists>i c. r = Token_post [(''grant_type'', ''authorization_code''), (''code'', code),
     (''redirect_uri'', or_none (spotify_redirect_uri (providers (sy_settings env))))] i c)"

lemma complete_settings_same: "complete_settings f s = Inr s' \<Longrightarrow> s' = s"
  by (auto simp: complete_settings_def bind_simps Let_def)

lemma exchange_sends: "sends 1 0 (code_request env code) (exchange_code env code)"
proof -
  have post: "sends 1 0 (code_request env code) (post_token env (sy_settings env) [(''grant_type'', ''authorization_code''),
      (''code'', code), (''redirect_uri'', or_none (spotify_redirect_uri (providers (sy_settings env))))])"
    by (rule sends_post) (auto simp: code_request_def)
  have accept: "keeps_part sw_sent (accept_tokens env status d)" for status d
    unfolding accept_tokens_def by (intro keeps_intros) simp_all
  show ?thesis
  proof (cases "complete_settings (sy_fernet env) (sy_settings env)")
    case (Inl e)
    have "keeps_part sw_sent (bind_p (raise_p x) f)" for x :: spotify_failure and f :: "settings \<Rightarrow> tokens spotify"
      by (simp add: keeps_part_def bind_p_def raise_p_def)
    with Inl show ?thesis
      by (simp add: exchange_code_def checked_settings_def lift_oauth_def sends_nothing keeps_simple)
  next
    case (Inr s)
    with complete_settings_same have s: "checked_settings env = return_p (sy_settings env)"
      by (auto simp: checked_settings_def lift_oauth_def)
    have bind_return: "bind_p (return_p x) f = f x" for x and f :: "settings \<Rightarrow> tokens spotify"
      by (rule ext) (simp add: bind_p_def return_p_def)
    show ?thesis
      unfolding exchange_code_def s bind_return
      by (intro sends_if sends_nothing sends_before post keeps_intros accept)
  qed
qed

text \<open>Tokens that were exchanged are stored, in a connection that is connected.\<close>

definition connected_row :: "db \<Rightarrow> bool" where
  "connected_row d \<longleftrightarrow> (\<exists>r. find_connection ''spotify'' d = Some r \<and> cn_status r = ''connected'' \<and> cn_credentials r \<noteq> None)"

lemma save_connects: "triple (\<lambda>_. True) (save_tokens env t) (\<lambda>_ w. connected_row (sw_db w)) (\<lambda>_ _. True)"
proof (cases "sealed_tokens env t")
  case (Inr c)
  show ?thesis
    unfolding save_tokens_def Inr sum.case connected_row_def
    by (rule triple_bind [OF triple_any], rule triple_bind [OF triple_any], rule triple_modify)
       (auto simp: Let_def put_connection_def find_connection_def find_row_upsert new_connection_def dest: find_row_Some split: option.split)
qed (simp add: save_tokens_def triple_raise)

lemma saved_connects:
  "triple (\<lambda>_. True) (bind_p m (\<lambda>t. bind_p (save_tokens env t) (\<lambda>_. return_p t))) (\<lambda>_ w. connected_row (sw_db w)) (\<lambda>_ _. True)"
  by (rule triple_bind [OF triple_any], rule triple_bind [OF save_connects], rule triple_return) simp

lemma exchange_connects: "triple (\<lambda>_. True) (exchange_code env code) (\<lambda>_ w. connected_row (sw_db w)) (\<lambda>_ _. True)"
  unfolding exchange_code_def accept_tokens_def
  by (auto intro!: triple_bind [OF triple_any] saved_connects triple_raise
      intro: saved_connects [THEN triple_weaken] split: option.split)

lemma connected_secret: "connected_row d \<Longrightarrow> stored_secret d \<noteq> None"
  by (auto simp: connected_row_def stored_secret_def)

lemma pages_differ: "oauth_page env m True None \<noteq> oauth_page env m' False (Some x)"
proof -
  have "quote_plus ''connected'' = ''connected''" "quote_plus ''error'' = ''error''" by code_simp+
  then show ?thesis
    by (cases m; cases m') (auto simp: oauth_page_def oauth_result_def completion_page_def completion_title_def completion_body_def
        get_or_def PROVIDER_NAMES_def urlencode_def dest: arg_cong [where f = length])
qed

text \<open>
  C19.  A callback has no effect unless it is authentic.  If the callback route sends a request or
  changes the database, then the state it was given had been issued and had not expired, it is
  spent, the user had not refused and a code was given; the only request is the exchange of that
  code at the configured redirect address; and the page that says connected is shown only when
  credentials are stored.
\<close>

theorem spotify_callback_guarded:
  assumes "authorization_callback env state code error (w, ss) = (r, w', ss')"
  shows "(sw_sent w' \<noteq> sw_sent w \<or> sw_db w' \<noteq> sw_db w \<longrightarrow>
       error = None \<and> truthy code \<and> state_live ss' (or_none state) = None
       \<and> (\<exists>x m. state_live ss (or_none state) = Some (x, m) \<and> sy_clock env (sw_ticks w) \<le> x))
    \<and> (\<exists>new. sw_sent w' = sw_sent w @ new \<and> calls new = 0 \<and> posts new \<le> 1 \<and> list_all (code_request env (the code)) new)
    \<and> (\<forall>m. r = Inr (oauth_page env m True None) \<longrightarrow> stored_secret (sw_db w') \<noteq> None)"
proof -
  let ?now = "sy_clock env (sw_ticks w)" let ?w = "w\<lparr>sw_ticks := Suc (sw_ticks w)\<rparr>"
  obtain mode ss1 where c: "state_consume ?now (or_none state) ss = (mode, ss1)" by fastforce
  have no_page: "oauth_page env m True None \<noteq> oauth_page env m' False (Some x)" for m m' x
    by (rule pages_differ)
  show ?thesis
  proof (cases "mode = None \<or> error \<noteq> None \<or> \<not> truthy code")
    case True
    then have "w' = ?w" "\<exists>m x. r = Inr (oauth_page env m False (Some x))"
      using assms c by (auto simp: authorization_callback_def sy_now_def split: option.splits if_splits)
    then show ?thesis by (auto intro!: exI [of _ "[]"] simp: no_page [THEN not_sym])
  next
    case False
    then obtain m where m: "mode = Some m" "error = None" "truthy code" by auto
    have "fst (state_consume ?now (or_none state) ss) = Some m" using c m(1) by simp
    note spent = spotify_states.consume_spends [OF this] spotify_states.consume_honours [OF this]
    obtain e w1 where e: "exchange_code env (the code) ?w = (e, w1)" by fastforce
    have "ss' = ss1" using assms c m e by (auto simp: authorization_callback_def sy_now_def split: sum.splits prod.splits spotify_failure.splits)
    then have s: "state_live ss' (or_none state) = None" "\<exists>x. state_live ss (or_none state) = Some (x, m) \<and> ?now \<le> x"
      using spent c by simp_all
    obtain new where new: "sw_sent w1 = sw_sent w @ new" "posts new \<le> 1" "calls new \<le> 0" "list_all (code_request env (the code)) new"
      using exchange_sends [of env "the code"] e unfolding sends_def by (metis snd_conv spotify_world.select_convs(2) spotify_world.surjective spotify_world.update_convs(3))
    have health: "keeps_part sw_sent (health_note env Healthy ''connected'')" "keeps_part sw_db (health_note env Healthy ''connected'')"
      by (simp_all add: keeps_health)
    have sent: "sw_sent w' = sw_sent w1"
      using assms c m e by (auto simp: authorization_callback_def sy_now_def split: sum.splits prod.splits spotify_failure.splits dest: keeps_partD [OF health(1)])
    have db: "sw_db w' = sw_db w1"
      using assms c m e by (auto simp: authorization_callback_def sy_now_def split: sum.splits prod.splits spotify_failure.splits dest: keeps_partD [OF health(2)])
    have "stored_secret (sw_db w') \<noteq> None" if "r = Inr (oauth_page env m' True None)" for m'
    proof -
      have "\<exists>t. e = Inr t"
        using assms c m e that by (auto simp: no_page [THEN not_sym] authorization_callback_def sy_now_def split: sum.splits prod.splits spotify_failure.splits)
      with e triple_InrD [OF exchange_connects [of env "the code"], of ?w] show ?thesis using connected_secret by (fastforce simp: db)
    qed
    moreover have "\<exists>new. sw_sent w' = sw_sent w @ new \<and> calls new = 0 \<and> posts new \<le> 1 \<and> list_all (code_request env (the code)) new"
      using new sent by auto
    ultimately show ?thesis using s m by blast
  qed
qed

theorem spotify_callback_guarded_witness:
  "\<exists>w' ss' rq. authorization_callback (sample_spotify 200 sample_grant 204 1) (Some ''s'') (Some ''c'') None
       (sample_spotify_world, state_issue 0 BROWSER ''s'' no_states)
     = (Inr (oauth_page (sample_spotify 200 sample_grant 204 1) BROWSER True None), w', ss')
     \<and> sw_sent w' = [rq] \<and> code_request (sample_spotify 200 sample_grant 204 1) ''c'' rq \<and> state_live ss' ''s'' = None"
proof -
  let ?env = "sample_spotify 200 sample_grant 204 1" let ?w = "sample_spotify_world\<lparr>sw_ticks := 1\<rparr>"
  obtain ss' where ss: "state_consume 1 ''s'' (state_issue 0 BROWSER ''s'' no_states) = (Some BROWSER, ss')"
  proof -
    have "fst (state_consume 1 ''s'' (state_issue 0 BROWSER ''s'' no_states)) = Some BROWSER" by code_simp
    with that show thesis by (metis prod.collapse)
  qed
  have "(case exchange_code ?env ''c'' ?w of (Inr t, w) \<Rightarrow> length (sw_sent w) = 1 \<and> sw_registry w = [] | _ \<Rightarrow> False)" by code_simp
  then obtain t w1 where e: "exchange_code ?env ''c'' ?w = (Inr t, w1)" "length (sw_sent w1) = 1" "sw_registry w1 = []"
    by (auto split: prod.splits sum.splits)
  have "\<not> isl (share_status 1 Healthy ''connected'' True False None [])" by code_simp
  then obtain h reg where sh: "share_status 1 Healthy ''connected'' True False None [] = Inr (h, reg)"
    by (cases "share_status 1 Healthy ''connected'' True False None []") auto
  obtain w' where n: "health_note ?env Healthy ''connected'' w1 = (Inr (), w')" "sw_sent w' = sw_sent w1"
    using sample_configured
    by (simp add: health_note_def health_report_def spotify_configured_def bind_p_def lift_p_def sy_now_def modify_p_def read_p_def
        sample_spotify_def e(3) sh)
  have r: "authorization_callback ?env (Some ''s'') (Some ''c'') None (sample_spotify_world, state_issue 0 BROWSER ''s'' no_states)
      = (Inr (oauth_page ?env BROWSER True None), w', ss')"
  proof -
    have now: "sy_now ?env sample_spotify_world = (Inr 1, ?w)" by (simp add: sy_now_def sample_spotify_def sample_spotify_world_def)
    show ?thesis using ss e(1) n(1) by (simp add: authorization_callback_def now or_none_def truthy_def)
  qed
  note p = spotify_callback_guarded [OF r]
  obtain rq where "sw_sent w' = [rq]" using e(2) n(2) by (cases "sw_sent w1") auto
  with p r show ?thesis by (auto simp: or_none_def sample_spotify_world_def)
qed

section \<open>Disconnecting\<close>

text \<open>Disconnecting forgets the credentials and the cached playback, however it ends.\<close>

lemma disconnect_forgets:
  assumes "spotify_disconnect env w = (r, w')"
  shows "stored_secret (sw_db w') = None"
proof -
  let ?P = "\<lambda>w. stored_secret (sw_db w) = None"
  have "triple (\<lambda>w. True) (disconnect_store env) (\<lambda>_. ?P) (\<lambda>_. ?P)"
    unfolding disconnect_store_def change_connection_def
    by (rule triple_bind [OF triple_raises [where R = "\<lambda>_. False"]], simp add: raises_intros, simp, rule triple_modify)
       (auto simp: stored_put_connection find_connection_def dest: find_row_Some split: option.split,
        simp add: stored_secret_def find_connection_def)
  moreover have "triple ?P (bind_p source_reset (\<lambda>_. bind_p (health_note env Disconnected ''local_connection_removed'') (\<lambda>_. connection_status env)))
      (\<lambda>_. ?P) (\<lambda>_. ?P)"
    unfolding source_reset_def connection_status_def
    by (rule triple_keeps [where f = sw_db]) (auto intro!: keeps_intros simp: Let_def split: prod.split)
  ultimately have "triple (\<lambda>w. True) (spotify_disconnect env) (\<lambda>_. ?P) (\<lambda>_. ?P)"
    unfolding spotify_disconnect_def by (rule triple_bind)
  with assms show ?thesis by (cases r) (auto dest: triple_InrD triple_InlD)
qed

text \<open>
  A refresh that was under way when the user disconnected stores its tokens all the same: the
  connection is back, with credentials, although it was removed.
\<close>

lemma late_refresh_reconnects:
  assumes "refresh_tokens env t w = (Inr t', w')"
  shows "connected_row (sw_db w')"
proof -
  have "triple (\<lambda>_. True) (refresh_tokens env t) (\<lambda>_ w. connected_row (sw_db w)) (\<lambda>_ _. True)"
    unfolding refresh_tokens_def
    by (auto intro!: triple_bind [OF triple_any] saved_connects triple_raise intro: saved_connects [THEN triple_weaken] split: option.split)
  from triple_InrD [OF this TrueI assms] show ?thesis .
qed

end
