(* ===== verification/Spotify_Events.thy ===== *)
theory Spotify_Events
  imports Spotify_Properties
begin

text \<open>
  What the events of the Spotify source tell someone who sees nothing but their payloads.
\<close>

section \<open>A reader of the events\<close>

record listener =
  li_playing :: bool
  li_item :: "json \<times> json"
  li_device :: "json \<times> json"
  li_context :: json

definition new_listener :: listener where
  "new_listener = \<lparr>li_playing = False, li_item = (JNull, JNull), li_device = (JNull, JNull), li_context = JNull\<rparr>"

definition told :: "dict \<Rightarrow> string \<Rightarrow> json" where
  "told d k = (case dict_get d k of None \<Rightarrow> JNull | Some v \<Rightarrow> v)"

definition hear_playing :: "bool \<Rightarrow> dict \<Rightarrow> listener \<Rightarrow> listener" where
  "hear_playing b d l = l\<lparr>li_playing := b, li_device := (told d ''device_id'', told d ''device_name''),
     li_context := told d ''context_uri''\<rparr>"

fun hear :: "spotify_event \<Rightarrow> dict \<Rightarrow> listener \<Rightarrow> listener" where
  "hear Track_changed d l = l\<lparr>li_item := (told d ''item_uri'', told d ''item_id'')\<rparr>"
| "hear Device_changed d l = l\<lparr>li_device := (told d ''device_id'', told d ''device_name'')\<rparr>"
| "hear Context_changed d l = l\<lparr>li_context := told d ''context_uri''\<rparr>"
| "hear Started d l = hear_playing True d l"
| "hear Resumed d l = hear_playing True d l"
| "hear Paused d l = hear_playing False d l"

definition hear_events :: "spotify_event list \<Rightarrow> playback \<Rightarrow> listener \<Rightarrow> listener" where
  "hear_events es p = fold (\<lambda>e. hear e (event_payload e p)) es"

definition hear_observation :: "playback_change observation \<Rightarrow> listener \<Rightarrow> listener" where
  "hear_observation obs = hear_events (pc_event_types (obs_content obs)) (pc_snapshot (obs_content obs))"

text \<open>Any number of polls, some of which may fail.\<close>

fun listen :: "spotify_env \<Rightarrow> uuid list \<Rightarrow> spotify_world \<times> listener \<Rightarrow> spotify_world \<times> listener" where
  "listen env [] (w, l) = (w, l)"
| "listen env (u # us) (w, l) =
     (case spotify_observe env u w of
        (Inl e, w') \<Rightarrow> listen env us (w', l)
      | (Inr obs, w') \<Rightarrow> listen env us (w', fold hear_observation obs l))"

text \<open>The reader knows the item by its URI, or by its id when there is no URI, as the source does.\<close>

definition heard_item :: "json \<times> json \<Rightarrow> json" where
  "heard_item v = (case fst v of JStr s \<Rightarrow> if s \<noteq> [] then JStr s else snd v | _ \<Rightarrow> snd v)"

definition knows_item :: "playback \<Rightarrow> listener \<Rightarrow> bool" where
  "knows_item p l \<longleftrightarrow> (truthy (item_identity p) \<longrightarrow> heard_item (li_item l) = json_text (item_identity p))"

definition knows_place :: "playback \<Rightarrow> listener \<Rightarrow> bool" where
  "knows_place p l \<longleftrightarrow> (pl_is_playing p \<longrightarrow>
     li_playing l \<and> li_device l = (json_text (pl_device_id p), json_text (pl_device_name p))
     \<and> li_context l = json_text (pl_context_uri p))"

definition in_step :: "playback option \<Rightarrow> listener \<Rightarrow> bool" where
  "in_step v l \<longleftrightarrow> (case v of None \<Rightarrow> True | Some p \<Rightarrow> knows_item p l \<and> knows_place p l)"

section \<open>One change\<close>

lemmas told_simps = told_def event_payload.simps dict_get_def hear_playing_def

lemma item_text: "heard_item (json_text (pl_item_uri p), json_text (pl_item_id p)) = json_text (item_identity p)"
  by (auto simp: heard_item_def json_text_def item_identity_def truthy_def split: option.split)

lemma changes_heard:
  assumes "in_step previous l"
  shows "in_step (Some p) (hear_events (event_changes previous p) p l)"
proof -
  let ?l = "hear_events (event_changes previous p) p l"
  have "knows_item p ?l"
    using assms
    by (auto simp: in_step_def knows_item_def hear_events_def event_changes_def Let_def told_simps item_text
        split: option.splits if_splits)
  moreover have "knows_place p ?l"
    using assms
    by (auto simp: in_step_def knows_place_def hear_events_def event_changes_def Let_def told_simps
        device_identity_def context_identity_def split: option.splits if_splits)
  ultimately show ?thesis by (simp add: in_step_def)
qed

lemma no_change_heard: "in_step previous l \<Longrightarrow> event_changes previous p = [] \<Longrightarrow> in_step (Some p) l"
  using changes_heard [of previous l p] by (simp add: hear_events_def)

section \<open>One poll\<close>

text \<open>What the transport is trusted with: the time of a playback is a number of milliseconds, not of a million digits.\<close>

definition small_time :: "dict \<Rightarrow> bool" where
  "small_time d \<longleftrightarrow> (case dict_get d ''timestamp'' of Some (JInt t) \<Rightarrow> t < 10 ^ 15 | _ \<Rightarrow> True)"

definition small_answer :: "json option \<Rightarrow> bool" where
  "small_answer v \<longleftrightarrow> (case v of Some (JDict d) \<Rightarrow> small_time d | _ \<Rightarrow> True)"

definition small_times :: "spotify_env \<Rightarrow> bool" where
  "small_times env \<longleftrightarrow> (\<forall>n r status retry v. sy_answer env n r = Http_answer status retry v \<longrightarrow> small_answer v)"

lemma nat_str_length: "n < 10 ^ Suc k \<Longrightarrow> length (nat_str n) \<le> Suc k"
proof (induction k arbitrary: n)
  case (Suc k)
  then have "n div 10 < 10 ^ Suc k" by (simp add: less_mult_imp_div_less)
  with Suc.IH show ?case by (subst nat_str.simps) simp
qed (simp add: nat_str.simps)


text \<open>Requests leave the last snapshot alone.\<close>

lemma keeps_previous [keeps_intros]:
  shows "keeps_part sw_previous (refresh_locked env a)" "keeps_part sw_previous (current_access_token env)"
    "keeps_part sw_previous (failed_observe env e)" "keeps_part sw_previous (sent_again env m p ps b a)"
proof -
  have refresh: "keeps_part sw_previous (refresh_tokens env t)" for t
    unfolding refresh_tokens_def by (intro keeps_intros) simp_all
  have renewed: "keeps_part sw_previous (refresh_locked env a)" for a
    unfolding refresh_locked_def on_oauth_error_def renewed_token_def by (intro keeps_intros refresh) simp_all
  show "keeps_part sw_previous (refresh_locked env a)" by (rule renewed)
  show "keeps_part sw_previous (current_access_token env)"
    unfolding current_access_token_def by (intro keeps_intros renewed) simp_all
  show "keeps_part sw_previous (failed_observe env e)"
    unfolding failed_observe_def by (auto split: spotify_failure.split intro!: keeps_intros)
  show "keeps_part sw_previous (sent_again env m p ps b a)"
    unfolding sent_again_def authorization_lost_def by (intro keeps_intros renewed) simp_all
qed

abbreviation had :: "playback option \<Rightarrow> spotify_world \<Rightarrow> bool" where
  "had v w \<equiv> sw_previous w = v"

lemma had_any: "keeps_part sw_previous m \<Longrightarrow> ensures (had v) m (\<lambda>_. True)"
  by (simp add: ensures_def keeps_part_def)

lemma api_send_small: "small_times env \<Longrightarrow> ensures (had v) (api_send env m p a ps b) (\<lambda>x. small_answer (snd (snd x)))"
  by (auto simp: api_send_def ensures_def bind_p_def http_send_def raise_p_def return_p_def small_times_def
      split: spotify_answer.split)

lemma again_small: "small_times env \<Longrightarrow> ensures (had v) (sent_again env m p ps b a) (\<lambda>x. small_answer (snd (snd x)))"
  unfolding sent_again_def authorization_lost_def
  by (intro ensures_bind [OF had_any] ensures_bind [OF api_send_small] ensures_if ensures_intros keeps_intros; simp)

lemma request_small:
  assumes "small_times env"
  shows "ensures (had v) (request_player env m p ps b) (\<lambda>x. small_answer (snd x))"
  unfolding request_player_def
  by (intro ensures_bind [OF had_any] ensures_bind [OF api_send_small [OF assms]]
        ensures_bind [where Q = "\<lambda>x. small_answer (snd (snd x))"] ensures_if again_small assms keeps_intros;
      auto intro!: ensures_bind [OF had_any] ensures_intros keeps_intros)

lemma playback_small:
  assumes "small_times env"
  shows "ensures (had v) (get_current_playback env) (\<lambda>x. x = None \<or> small_time (the x))"
  unfolding get_current_playback_def
proof (rule ensures_bind [OF request_small [OF assms]])
  fix x :: "int \<times> json option"
  assume "small_answer (snd x)"
  then show "ensures (had v) (case x of (status, v) \<Rightarrow> if status = 204 then return_p None
     else (case v of Some (JDict d) \<Rightarrow> return_p (Some d) | _ \<Rightarrow> raise_p (Api_failure ''response_invalid'' (Some status))))
     (\<lambda>x. x = None \<or> small_time (the x))"
    by (auto simp: small_answer_def intro!: ensures_intros split: prod.split option.splits json.splits)
qed

lemma parsed:
  assumes "parse_playback d = Inr p"
  shows "playback_ok p \<and> pl_timestamp_ms p = nonnegative_int (dict_get d ''timestamp'')"
  using assms by (auto simp: parse_playback_def Let_def bind_simps ensure_def split: sum.splits if_splits)

lemma identity_bounded: "playback_ok p \<Longrightarrow> item_identity p = Some i \<Longrightarrow> length i \<le> 300"
  by (auto simp: playback_ok_def item_identity_def opt_max_def split: if_splits option.splits)

lemma version_bounded:
  assumes "small_time d" "parse_playback d = Inr p" shows "opt_max 255 (map_option int_str (pl_timestamp_ms p))"
proof (cases "pl_timestamp_ms p")
  case (Some t)
  with assms parsed [OF assms(2)] have "0 \<le> t" "t < 10 ^ 15"
    by (auto simp: small_time_def nonnegative_int_def split: option.splits json.splits if_splits)
  then have "length (int_str t) \<le> Suc 14" using nat_str_length [of "nat t" 14] by (simp add: int_str_def nat_less_iff)
  then show ?thesis by (simp add: opt_max_def Some)
qed (simp add: opt_max_def)


lemma changes_observed:
  assumes "playback_ok p" "opt_max 255 (map_option int_str (pl_timestamp_ms p))"
  shows "\<exists>obs. observed_changes u now previous p = Inr obs
     \<and> fold hear_observation obs = hear_events (event_changes previous p) p"
proof -
  have provider: "provider_id_ok ''spotify''" by code_simp
  have "opt_max 4096 None" by (simp add: opt_max_def)
  then show ?thesis
    using identity_bounded [OF assms(1)] assms(2)
    by (cases "item_identity p")
       (auto simp: observed_changes_def observation_new_def ensure_def bind_simps provider require_aware_utc
          Suc_le_eq hear_observation_def hear_events_def fun_eq_iff)
qed

text \<open>The settings say whether the provider is configured; \<open>broken_bracket_raises\<close> shows when they do not.\<close>

definition knows_config :: "spotify_env \<Rightarrow> bool" where
  "knows_config env \<longleftrightarrow> \<not> isl (is_spotify_configured (sy_fernet env) (sy_settings env))"

lemma reported:
  assumes "knows_config env" "detail_code_ok code"
  obtains w' where "bind_p (spotify_configured env) (\<lambda>c. bind_p (health_report env Healthy code c True None) k) w = k () w'"
    "sw_previous w' = sw_previous w"
proof -
  obtain c where c: "is_spotify_configured (sy_fernet env) (sy_settings env) = Inr c"
    using assms(1) by (cases "is_spotify_configured (sy_fernet env) (sy_settings env)") (auto simp: knows_config_def)
  have "provider_id_ok ''spotify''" by code_simp
  then show thesis
    using assms(2) that
    by (auto simp: bind_p_def spotify_configured_def lift_p_def c health_report_def sy_now_def modify_p_def read_p_def
        share_status_def report_def bind_simps ensure_def opt_aware_def report_defaults_def Let_def)
qed

definition told_step :: "listener \<Rightarrow> (spotify_failure + playback_change observation list) \<times> spotify_world \<Rightarrow> bool" where
  "told_step l out \<longleftrightarrow> in_step (sw_previous (snd out)) (case fst out of Inl e \<Rightarrow> l | Inr obs \<Rightarrow> fold hear_observation obs l)"

lemma noted_step:
  assumes "knows_config env" "raw = None \<or> small_time (the raw)" "in_step (sw_previous w) l"
  shows "told_step l (playback_noted env u raw w)"
proof (cases "case raw of None \<Rightarrow> Inr None | Some d \<Rightarrow> bind_r (parse_playback d) (\<lambda>p. Inr (Some p))")
  case (Inl e)
  then show ?thesis using assms(3)
    by (simp add: playback_noted_def bind_p_def sy_now_def read_p_def lift_p_def told_step_def)
next
  case (Inr current)
  let ?now = "sy_clock env (sw_ticks w)" and ?code = "if current = None then ''no_active_device'' else ''playback_observed''"
  let ?changes = "case current of None \<Rightarrow> Inr [] | Some p \<Rightarrow> observed_changes u ?now (sw_previous w) p"
  have "detail_code_ok ?code" by (cases current) (simp; code_simp)+
  from reported [OF assms(1) this, of "\<lambda>_. lift_p Spotify_raised ?changes"
      "w\<lparr>sw_ticks := Suc (sw_ticks w), sw_previous := current, sw_current := current, sw_observed_at := Some ?now\<rparr>"]
  obtain w' where "playback_noted env u raw w = lift_p Spotify_raised ?changes w'" "sw_previous w' = current"
    by (auto simp: playback_noted_def Inr bind_p_def [of "sy_now env"] bind_p_def [of "read_p sw_previous"]
        bind_p_def [of "lift_p _ _"] bind_p_def [of "modify_p _"] sy_now_def read_p_def lift_p_def modify_p_def
        cong: option.case_cong)
  moreover have "told_step l (lift_p Spotify_raised ?changes w')" if here: "sw_previous w' = current" for w'
  proof (cases current)
    case (Some p)
    with Inr obtain d where d: "raw = Some d" "parse_playback d = Inr p"
      by (auto simp: bind_simps split: option.splits sum.splits)
    from changes_observed [of p u ?now "sw_previous w"] d assms(2) parsed version_bounded
    obtain obs where "observed_changes u ?now (sw_previous w) p = Inr obs"
      "fold hear_observation obs = hear_events (event_changes (sw_previous w) p) p"
      by (metis option.sel option.distinct(1))
    then show ?thesis using changes_heard [OF assms(3), of p] by (simp add: Some told_step_def lift_p_def here)
  qed (simp add: told_step_def lift_p_def in_step_def here)
  ultimately show ?thesis by simp
qed

lemma failed_raises: "ensures (had v) (failed_observe env e) Q"
  unfolding failed_observe_def
  by (auto split: spotify_failure.split intro!: ensures_if ensures_bind [OF had_any] ensures_intros keeps_intros)

lemma observe_step:
  assumes "knows_config env" "small_times env" "in_step (sw_previous w) l"
  shows "told_step l (spotify_observe env u w)"
proof -
  have caught: "ensures (had (sw_previous w)) (attempt_p (get_current_playback env) (failed_observe env))
      (\<lambda>x. x = None \<or> small_time (the x))"
    by (rule ensures_attempt [OF playback_small [OF assms(2)] failed_raises])
  obtain r w1 where r: "attempt_p (get_current_playback env) (failed_observe env) w = (r, w1)" by fastforce
  from ensuresD [OF caught _ r] have kept: "sw_previous w1 = sw_previous w" "\<forall>x. r = Inr x \<longrightarrow> x = None \<or> small_time (the x)"
    by simp_all
  show ?thesis
  proof (cases r)
    case (Inl e)
    with r kept(1) assms(3) show ?thesis by (simp add: spotify_observe_def bind_p_def told_step_def)
  next
    case (Inr raw)
    with noted_step [OF assms(1), of raw w1 l u] kept assms(3) r show ?thesis by (simp add: spotify_observe_def bind_p_def)
  qed
qed


section \<open>A change that is lost\<close>

lemma same_silent: "event_changes (Some p) p = []"
  by (simp add: event_changes_def)

text \<open>
  The snapshot is kept before its events are stored.  When storing them fails, the poll is reported as
  failed, and the next poll, which sees the same playback, has nothing to report: the change is lost.
\<close>

lemma failed_sink_loses_change:
  assumes "knows_config env" "playback_noted env u (Some d) w = (Inr obs, w1)"
  shows "fst (playback_noted env u' (Some d) w1) = Inr []"
proof -
  obtain p where p: "parse_playback d = Inr p"
    using assms(2) by (cases "parse_playback d") (auto simp: playback_noted_def bind_p_def sy_now_def read_p_def lift_p_def bind_simps)
  have code: "detail_code_ok ''playback_observed''" by code_simp
  have noted: "\<exists>w'. playback_noted env u (Some d) w = lift_p Spotify_raised (observed_changes u (sy_clock env (sw_ticks w)) (sw_previous w) p) w'
      \<and> sw_previous w' = Some p" for u w
    by (rule reported [OF assms(1) code, of "\<lambda>_. lift_p Spotify_raised (observed_changes u (sy_clock env (sw_ticks w)) (sw_previous w) p)"
          "w\<lparr>sw_ticks := Suc (sw_ticks w), sw_previous := Some p, sw_current := Some p, sw_observed_at := Some (sy_clock env (sw_ticks w))\<rparr>"])
       (auto simp: playback_noted_def p bind_simps bind_p_def [of "sy_now env"] bind_p_def [of "read_p sw_previous"]
          bind_p_def [of "lift_p _ _"] bind_p_def [of "modify_p _"] sy_now_def read_p_def lift_p_def modify_p_def)
  have "sw_previous w1 = Some p" using noted [of u w] assms(2)
    by (cases "observed_changes u (sy_clock env (sw_ticks w)) (sw_previous w) p") (auto simp: lift_p_def)
  with noted [of u' w1] show ?thesis by (auto simp: observed_changes_def same_silent lift_p_def)
qed

section \<open>A reader at work\<close>

definition sample_playing :: dict where
  "sample_playing = [(''is_playing'', JBool True), (''timestamp'', JInt 1700000000000),
     (''item'', JDict [(''uri'', JStr ''spotify:track:a''), (''artists'', JList [])]), (''device'', JDict [(''id'', JStr ''d'')])]"

definition sample_player :: spotify_env where
  "sample_player = (sample_spotify 200 JNull 200 0)\<lparr>sy_answer := \<lambda>n r. Http_answer 200 None (Some (JDict sample_playing))\<rparr>"

lemma sample_player_ok: "knows_config sample_player" "small_times sample_player"
proof -
  show "knows_config sample_player"
    by (simp add: knows_config_def sample_player_def sample_spotify_def sample_configured)
  have "small_time sample_playing" by code_simp
  then show "small_times sample_player" by (simp add: small_times_def sample_player_def small_answer_def)
qed

lemma sample_previous:
  "map_option (\<lambda>p. (pl_is_playing p, pl_item_uri p)) (sw_previous (snd (spotify_observe sample_player 7 sample_spotify_world)))
   = Some (True, Some ''spotify:track:a'')"
  by code_simp


end
