(* ===== verification/Gmail_States.thy ===== *)
theory Gmail_States
  imports Oauth_States Urls
begin

text \<open>
  \<open>backend/app/providers/gmail/oauth.py\<close>: the states of Google's OAuth callbacks.  A state is a random
  nonce and its signature; \<open>sign\<close> is the hexadecimal HMAC-SHA256 of a nonce under a secret.
\<close>

section \<open>The store\<close>

definition GMAIL_STATE_TTL :: timedelta where "GMAIL_STATE_TTL = minutes 10"
definition STATE_CAP :: nat where "STATE_CAP = 1000"
definition STATE_DROP :: nat where "STATE_DROP = 500"

definition expires_of :: "string \<times> instant \<times> oauth_completion_mode \<Rightarrow> instant" where
  "expires_of e = fst (snd e)"

text \<open>\<open>_prune\<close>: what has expired goes; of more than a thousand the five hundred that expire first go.\<close>

definition soonest :: "issued_states \<Rightarrow> string list" where
  "soonest ss = map fst (take STATE_DROP (sort_key expires_of ss))"

definition prune_states :: "instant \<Rightarrow> issued_states \<Rightarrow> issued_states" where
  "prune_states now ss =
     (let live = filter (\<lambda>e. now \<le> expires_of e) ss in
      if STATE_CAP < length live then filter (\<lambda>e. fst e \<notin> set (soonest live)) live else live)"

definition signed_state :: "(string \<Rightarrow> string) \<Rightarrow> string \<Rightarrow> string" where
  "signed_state sign nonce = nonce @ ''.'' @ sign nonce"

text \<open>The clock is read twice, to prune and for the expiry.\<close>

definition issue_state :: "instant \<Rightarrow> instant \<Rightarrow> oauth_completion_mode \<Rightarrow> string \<Rightarrow> issued_states \<Rightarrow> issued_states" where
  "issue_state pruned now m state ss = AList.update state (now + GMAIL_STATE_TTL, m) (prune_states pruned ss)"

text \<open>
  \<open>compare_digest\<close> raises on a signature that is not ASCII, and nothing catches it here; the expected
  signature is hexadecimal.
\<close>

definition checked_state :: "(string \<Rightarrow> string) \<Rightarrow> string \<Rightarrow> bool result" where
  "checked_state sign state =
     (if 200 < length state then Inr False
      else (case partition_at (CHR ''.'') state of
          (nonce, found, signature) \<Rightarrow>
            if \<not> found \<or> nonce = [] \<or> signature = [] then Inr False
            else if \<not> ascii signature then Inl (TypeError ''comparing strings with non-ASCII characters is not supported'')
            else Inr (signature = sign nonce)))"

definition popped :: "instant \<Rightarrow> string \<Rightarrow> issued_states \<Rightarrow> oauth_completion_mode option \<times> issued_states" where
  "popped now state ss =
     ((case map_of ss state of None \<Rightarrow> None | Some (expires, m) \<Rightarrow> if now \<le> expires then Some m else None),
      prune_states now (AList.delete state ss))"

definition consume_gmail_state :: "(string \<Rightarrow> string) \<Rightarrow> instant \<Rightarrow> string \<Rightarrow> issued_states
    \<Rightarrow> oauth_completion_mode option result \<times> issued_states" where
  "consume_gmail_state sign now state ss =
     (case checked_state sign state of
        Inl e \<Rightarrow> (Inl e, ss)
      | Inr False \<Rightarrow> (Inr None, ss)
      | Inr True \<Rightarrow> (Inr (fst (popped now state ss)), snd (popped now state ss)))"

section \<open>The contract\<close>

lemma map_of_filter: "map_of (filter P ss) k = Some v \<Longrightarrow> distinct (map fst ss) \<Longrightarrow> map_of ss k = Some v"
  by (auto dest!: map_of_SomeD intro!: map_of_is_SomeI)

lemma prune_sub: "map_of (prune_states now ss) k = Some v \<Longrightarrow> distinct (map fst ss) \<Longrightarrow> map_of ss k = Some v"
  unfolding prune_states_def Let_def filter_filter by (auto split: if_splits dest: map_of_filter)

lemma distinct_prune: "distinct (map fst ss) \<Longrightarrow> distinct (map fst (prune_states now ss))"
  by (simp add: prune_states_def Let_def distinct_map_filter)

lemma prune_gone: "map_of ss k = None \<Longrightarrow> map_of (prune_states now ss) k = None"
  by (force simp: prune_states_def Let_def map_of_eq_None_iff)

lift_definition gmail_issue :: "timedelta \<Rightarrow> instant \<Rightarrow> oauth_completion_mode \<Rightarrow> string \<Rightarrow> state_dict \<Rightarrow> state_dict" is
  "\<lambda>d t. issue_state (t - d) t"
  by (simp add: issue_state_def distinct_prune distinct_update)

lift_definition gmail_rest :: "(string \<Rightarrow> string) \<Rightarrow> instant \<Rightarrow> string \<Rightarrow> state_dict \<Rightarrow> state_dict" is
  "\<lambda>sign t k ss. snd (consume_gmail_state sign t k ss)"
  by (auto simp: consume_gmail_state_def popped_def distinct_prune distinct_delete split: sum.split bool.split)

lift_definition gmail_mode :: "(string \<Rightarrow> string) \<Rightarrow> instant \<Rightarrow> string \<Rightarrow> state_dict \<Rightarrow> oauth_completion_mode option result" is
  "\<lambda>sign t k ss. fst (consume_gmail_state sign t k ss)" .

text \<open>A callback that raises is not honoured.\<close>

definition gmail_consume :: "(string \<Rightarrow> string) \<Rightarrow> instant \<Rightarrow> string \<Rightarrow> state_dict \<Rightarrow> oauth_completion_mode option \<times> state_dict" where
  "gmail_consume sign t k s = (case gmail_mode sign t k s of Inl e \<Rightarrow> None | Inr m \<Rightarrow> m, gmail_rest sign t k s)"

interpretation gmail_states: state_store state_live "gmail_issue d" "gmail_consume sign" "\<lambda>t. t + GMAIL_STATE_TTL" for d sign
proof unfold_locales
  fix t :: instant and m k k' s e
  show "state_live (gmail_issue d t m k s) k' = Some e \<Longrightarrow> k' = k \<and> e = (t + GMAIL_STATE_TTL, m) \<or> state_live s k' = Some e"
    by transfer (auto simp: issue_state_def update_conv' split: if_splits dest: prune_sub)
  show "state_live (snd (gmail_consume sign t k s)) k' = Some e \<Longrightarrow> state_live s k' = Some e"
    unfolding gmail_consume_def snd_conv
    by transfer (auto simp: consume_gmail_state_def popped_def delete_conv' distinct_delete
        split: if_splits sum.splits bool.splits dest!: prune_sub)
next
  fix t :: instant and m k s
  show "fst (gmail_consume sign t k s) = Some m \<Longrightarrow> \<exists>x. state_live s k = Some (x, m) \<and> t \<le> x"
    unfolding gmail_consume_def fst_conv
    by transfer (auto simp: consume_gmail_state_def popped_def split: if_splits sum.splits bool.splits option.splits prod.splits)
  show "fst (gmail_consume sign t k s) = Some m \<Longrightarrow> state_live (snd (gmail_consume sign t k s)) k = None"
    unfolding gmail_consume_def fst_conv snd_conv
    by transfer (auto simp: consume_gmail_state_def popped_def delete_conv' intro!: prune_gone
        split: if_splits sum.splits bool.splits option.splits prod.splits)
qed

text \<open>However many authorizations are started, the store holds at most 1,001 states.\<close>

lift_definition states_kept :: "state_dict \<Rightarrow> nat" is length .

lemma prune_bounded:
  assumes "length ss \<le> Suc STATE_CAP" shows "length (prune_states now ss) \<le> STATE_CAP"
proof -
  let ?live = "filter (\<lambda>e. now \<le> expires_of e) ss"
  have live: "length ?live \<le> Suc STATE_CAP" using assms length_filter_le le_trans by blast
  show ?thesis
  proof (cases "STATE_CAP < length ?live")
    case True
    then obtain e es where e: "sort_key expires_of ?live = e # es"
      by (cases "sort_key expires_of ?live") (auto simp: STATE_CAP_def dest: arg_cong [where f = length])
    then have "e \<in> set ?live" by (metis list.set_intros(1) set_sort)
    moreover have "fst e \<in> set (soonest ?live)" by (simp add: soonest_def e STATE_DROP_def numeral_eq_Suc)
    ultimately have "length (filter (\<lambda>e. fst e \<notin> set (soonest ?live)) ?live) < length ?live"
      by (intro length_filter_less [where x = e]) auto
    with live show ?thesis by (simp add: prune_states_def Let_def)
  qed (simp add: prune_states_def Let_def)
qed

lemma length_update: "length (AList.update k v ss) \<le> Suc (length ss)"
  by (induction ss) auto

lemma length_delete: "length (AList.delete k ss) \<le> length ss"
  by (induction ss) auto

fun oauth_after :: "('t \<Rightarrow> oauth_completion_mode \<Rightarrow> string \<Rightarrow> 's \<Rightarrow> 's)
    \<Rightarrow> ('t \<Rightarrow> string \<Rightarrow> 's \<Rightarrow> oauth_completion_mode option \<times> 's) \<Rightarrow> 't oauth_step list \<Rightarrow> 's \<Rightarrow> 's" where
  "oauth_after issue consume [] s = s"
| "oauth_after issue consume (Issue t m k # xs) s = oauth_after issue consume xs (issue t m k s)"
| "oauth_after issue consume (Callback t k # xs) s = oauth_after issue consume xs (snd (consume t k s))"

lemma kept_issue: "states_kept s \<le> Suc STATE_CAP \<Longrightarrow> states_kept (gmail_issue d t m k s) \<le> Suc STATE_CAP"
  by transfer (auto simp: issue_state_def intro!: length_update [THEN le_trans] prune_bounded)

lemma kept_consume: "states_kept s \<le> Suc STATE_CAP \<Longrightarrow> states_kept (snd (gmail_consume sign t k s)) \<le> Suc STATE_CAP"
  unfolding gmail_consume_def snd_conv
  by transfer (auto simp: consume_gmail_state_def popped_def split: sum.split bool.split
      intro!: le_SucI prune_bounded le_trans [OF length_delete])

lemma states_bounded: "states_kept s \<le> Suc STATE_CAP \<Longrightarrow> states_kept (oauth_after (gmail_issue d) (gmail_consume sign) xs s) \<le> Suc STATE_CAP"
  by (induction "gmail_issue d" "gmail_consume sign" xs s rule: oauth_after.induct) (simp_all add: kept_issue kept_consume)

text \<open>
  No Gmail callback is accepted that the user did not start.  Over every sequence of
  authorizations started and callbacks received, at any times: a callback is accepted only with a
  state that was issued before, at most ten minutes earlier, in the mode it was issued for, each issue
  is accepted at most once, and the store never holds more than 1,001 states.
\<close>

theorem gmail_callback_authentic:
  "all_backed (\<lambda>t. t + GMAIL_STATE_TTL) [] xs (oauth_history (gmail_issue d) (gmail_consume sign) xs no_states)
   \<and> honoured_count k xs (oauth_history (gmail_issue d) (gmail_consume sign) xs no_states) \<le> issued_count k xs
   \<and> states_kept (oauth_after (gmail_issue d) (gmail_consume sign) xs no_states) \<le> 1001"
proof (intro conjI)
  have none: "state_live no_states k = None" for k by transfer simp
  show "all_backed (\<lambda>t. t + GMAIL_STATE_TTL) [] xs (oauth_history (gmail_issue d) (gmail_consume sign) xs no_states)"
    by (rule gmail_states.history_backed) (simp add: none)
  show "honoured_count k xs (oauth_history (gmail_issue d) (gmail_consume sign) xs no_states) \<le> issued_count k xs"
    using gmail_states.history_once [of k xs d sign no_states] by (simp add: none)
  have "states_kept no_states = 0" by transfer simp
  then show "states_kept (oauth_after (gmail_issue d) (gmail_consume sign) xs no_states) \<le> 1001"
    using states_bounded [of no_states d sign xs] by (simp add: STATE_CAP_def)
qed

text \<open>
  A signature that is not ASCII raises a \<open>TypeError\<close> that nothing catches: the callback route answers
  with a server error where the store of the Spotify provider answers that the state is invalid.
\<close>

lemma foreign_signature_raises:
  "checked_state sign [CHR ''a'', CHR ''.'', CHR 0xE9] = Inl (TypeError ''comparing strings with non-ASCII characters is not supported'')"
  by (simp add: checked_state_def partition_at_def ascii_def)

end
