(* ===== verification/Gmail_Auth.thy ===== *)
theory Gmail_Auth
  imports Gmail_States Provider_Store
begin

text \<open>
  The rest of \<open>backend/app/providers/gmail/oauth.py\<close>: Google's token requests, the stored tokens and
  the token manager.  The HTTP client is a parameter that answers the \<open>n\<close>-th request.
\<close>

section \<open>The world\<close>

datatype gmail_request =
    Google_token "(string \<times> string) list"
  | Gmail_call string string "(string \<times> json) list" string

text \<open>An answer: its status, its \<open>Retry-After\<close> header, and its body as JSON if it is JSON.\<close>

datatype gmail_answer = Google_failed | Google_cancelled | Google_answer int "string option" "json option"

text \<open>
  The tokens in memory; an expiry read back may lack its offset.
\<close>

record google_tokens =
  gt_access :: string
  gt_refresh :: string
  gt_expires_at :: py_datetime

text \<open>
  The rows of \<open>provider_checkpoints\<close> with provider \<open>gmail\<close>, in the order of their ids.  Gmail reads the
  text of a value, the other providers its JSON, so these rows are kept apart from theirs.
\<close>

record gmail_row =
  gr_key :: string
  gr_text :: string
  gr_observed_at :: instant
  gr_updated_at :: instant

record gmail_world =
  gw_db :: db
  gw_rows :: "gmail_row list"
  gw_sent :: "gmail_request list"
  gw_ticks :: nat
  gw_cached :: "google_tokens option"
  gw_registry :: health_registry

text \<open>
  \<open>gy_sign\<close> is HMAC-SHA256; \<open>gy_int\<close> and \<open>gy_datetime\<close> what pydantic reads as an integer and as a
  datetime; \<open>gy_seconds\<close> the microseconds of \<open>timedelta(seconds=float(s))\<close>; \<open>gy_clean\<close> the NFC form
  of a snippet without tags, encoding artifacts and invisible characters; \<open>gy_decode\<close> the text of
  URL-safe base64.
\<close>

record gmail_env =
  gy_settings :: settings
  gy_fernet :: "string \<Rightarrow> fernet option"
  gy_answer :: "nat \<Rightarrow> gmail_request \<Rightarrow> gmail_answer"
  gy_clock :: "nat \<Rightarrow> instant"
  gy_dumps :: "json \<Rightarrow> string"
  gy_loads :: "string \<Rightarrow> json option"
  gy_encode :: "string \<Rightarrow> int list"
  gy_bytes :: "int list \<Rightarrow> string"
  gy_sign :: "string \<Rightarrow> string \<Rightarrow> string"
  gy_int :: "json \<Rightarrow> int option"
  gy_datetime :: "json \<Rightarrow> py_datetime option"
  gy_parse_date :: "string \<Rightarrow> py_datetime option"
  gy_seconds :: "string \<Rightarrow> int option"
  gy_clean :: "string \<Rightarrow> string"
  gy_decode :: "string \<Rightarrow> string option"

datatype gmail_failure =
    Oauth_failed string "oauth_completion_mode option"
  | Gmail_api int string
  | Gmail_retry instant
  | Gmail_http
  | Gmail_raised py_error
  | Gmail_cancelled

type_synonym 'a gmail = "(gmail_world, gmail_failure, 'a) prog"

definition gmail_now :: "gmail_env \<Rightarrow> instant gmail" where
  "gmail_now env w = (Inr (gy_clock env (gw_ticks w)), w\<lparr>gw_ticks := Suc (gw_ticks w)\<rparr>)"

definition gmail_send :: "gmail_env \<Rightarrow> gmail_request \<Rightarrow> gmail_answer gmail" where
  "gmail_send env rq w = (Inr (gy_answer env (length (gw_sent w)) rq), w\<lparr>gw_sent := gw_sent w @ [rq]\<rparr>)"

text \<open>The HTTP client raises when the request fails.\<close>

definition gmail_http :: "gmail_env \<Rightarrow> gmail_request \<Rightarrow> (int \<times> string option \<times> json option) gmail" where
  "gmail_http env rq =
     bind_p (gmail_send env rq) (\<lambda>a.
     case a of
       Google_failed \<Rightarrow> raise_p Gmail_http
     | Google_cancelled \<Rightarrow> raise_p Gmail_cancelled
     | Google_answer status retry body \<Rightarrow> return_p (status, retry, body))"

definition oauth_fails :: "string \<Rightarrow> 'a gmail" where
  "oauth_fails code = raise_p (Oauth_failed code None)"

section \<open>Configuration\<close>

abbreviation gmail_providers :: "gmail_env \<Rightarrow> provider_settings" where
  "gmail_providers env \<equiv> providers (gy_settings env)"

definition gmail_configured :: "gmail_env \<Rightarrow> bool" where
  "gmail_configured env = (map_of (provider_configuration (gy_settings env)) ''gmail'' = Some True)"

definition key_configured :: "(string \<Rightarrow> fernet option) \<Rightarrow> settings \<Rightarrow> bool" where
  "key_configured fernet_new st = (case credential_encryption_key (providers st) of
      None \<Rightarrow> False
    | Some k \<Rightarrow> strip k \<noteq> [] \<and> \<not> isl (cipher_new fernet_new (Some k)))"

definition encryption_key_configured :: "gmail_env \<Rightarrow> bool" where
  "encryption_key_configured env = key_configured (gy_fernet env) (gy_settings env)"

definition required :: "string option \<Rightarrow> string \<Rightarrow> string gmail" where
  "required v detail = (case v of
      None \<Rightarrow> oauth_fails detail | Some s \<Rightarrow> if strip s = [] then oauth_fails detail else return_p s)"

definition GMAIL_READONLY_SCOPE :: string where
  "GMAIL_READONLY_SCOPE = ''https://www.googleapis.com/auth/gmail.readonly''"

definition GOOGLE_AUTH_URL :: string where
  "GOOGLE_AUTH_URL = ''https://accounts.google.com/o/oauth2/v2/auth''"

definition google_url :: "gmail_env \<Rightarrow> string \<Rightarrow> string gmail" where
  "google_url env state =
     bind_p (required (google_redirect_uri (gmail_providers env)) ''oauth_not_configured'') (\<lambda>redirect.
     bind_p (required (google_client_id (gmail_providers env)) ''oauth_not_configured'') (\<lambda>client.
     return_p (GOOGLE_AUTH_URL @ ''?'' @ urlencode
       [(''client_id'', client), (''redirect_uri'', redirect), (''response_type'', ''code''),
        (''scope'', GMAIL_READONLY_SCOPE), (''access_type'', ''offline''), (''prompt'', ''consent''), (''state'', state)])))"

section \<open>Token answers\<close>

record token_answer =
  ta_access :: string
  ta_refresh :: "string option"
  ta_expires_in :: int
  ta_scope :: string

text \<open>A field that may be absent, with a default.\<close>

definition text_default :: "dict \<Rightarrow> string \<Rightarrow> string \<Rightarrow> string option" where
  "text_default d k v = (case dict_get d k of None \<Rightarrow> Some v | Some (JStr s) \<Rightarrow> Some s | _ \<Rightarrow> None)"

definition text_null :: "dict \<Rightarrow> string \<Rightarrow> string option option" where
  "text_null d k = (case dict_get d k of
      None \<Rightarrow> Some None | Some JNull \<Rightarrow> Some None | Some (JStr s) \<Rightarrow> Some (Some s) | _ \<Rightarrow> None)"

definition token_answer_of :: "gmail_env \<Rightarrow> json option \<Rightarrow> token_answer option" where
  "token_answer_of env v = (case v of
      Some (JDict d) \<Rightarrow>
        (case (dict_get d ''access_token'', text_null d ''refresh_token'', text_default d ''token_type'' ''Bearer'',
               Option.bind (dict_get d ''expires_in'') (gy_int env), text_default d ''scope'' []) of
           (Some (JStr a), Some r, Some _, Some n, Some s) \<Rightarrow>
             if 0 < n \<and> n \<le> 31536000 then Some \<lparr>ta_access = a, ta_refresh = r, ta_expires_in = n, ta_scope = s\<rparr> else None
         | _ \<Rightarrow> None)
    | _ \<Rightarrow> None)"

definition parse_token :: "gmail_env \<Rightarrow> json option \<Rightarrow> token_answer gmail" where
  "parse_token env v = (case token_answer_of env v of None \<Rightarrow> oauth_fails ''token_response_invalid'' | Some t \<Rightarrow> return_p t)"

definition validate_scopes :: "string \<Rightarrow> unit gmail" where
  "validate_scopes raw = (if set (words raw) = {GMAIL_READONLY_SCOPE} then return_p () else oauth_fails ''read_only_scope_required'')"

definition exchange_google_code :: "gmail_env \<Rightarrow> string \<Rightarrow> token_answer gmail" where
  "exchange_google_code env code =
     bind_p (required (google_client_id (gmail_providers env)) ''oauth_not_configured'') (\<lambda>client.
     bind_p (required (google_client_secret (gmail_providers env)) ''oauth_not_configured'') (\<lambda>secret.
     bind_p (required (google_redirect_uri (gmail_providers env)) ''oauth_not_configured'') (\<lambda>redirect.
     bind_p (gmail_http env (Google_token [(''code'', code), (''client_id'', client), (''client_secret'', secret),
       (''redirect_uri'', redirect), (''grant_type'', ''authorization_code'')])) (\<lambda>(status, retry, body).
     if 400 \<le> status then oauth_fails ''authorization_exchange_failed''
     else bind_p (parse_token env body) (\<lambda>t. bind_p (validate_scopes (ta_scope t)) (\<lambda>_. return_p t))))))"

definition google_refresh :: "gmail_env \<Rightarrow> string \<Rightarrow> token_answer gmail" where
  "google_refresh env refresh =
     bind_p (required (google_client_id (gmail_providers env)) ''oauth_not_configured'') (\<lambda>client.
     bind_p (required (google_client_secret (gmail_providers env)) ''oauth_not_configured'') (\<lambda>secret.
     bind_p (gmail_http env (Google_token [(''client_id'', client), (''client_secret'', secret), (''refresh_token'', refresh),
       (''grant_type'', ''refresh_token'')])) (\<lambda>(status, retry, body).
     if 400 \<le> status then oauth_fails (if status = 400 \<or> status = 401 then ''reconnect_required'' else ''token_refresh_failed'')
     else bind_p (parse_token env body) (\<lambda>t.
       if ta_scope t \<noteq> [] then bind_p (validate_scopes (ta_scope t)) (\<lambda>_. return_p t) else return_p t))))"

section \<open>Stored tokens\<close>

definition tokens_text :: "gmail_env \<Rightarrow> google_tokens \<Rightarrow> instant \<Rightarrow> string" where
  "tokens_text env t expires = gy_dumps env (JDict [(''access_token'', JStr (gt_access t)), (''refresh_token'', JStr (gt_refresh t)),
     (''expires_at'', JStr (isoformat expires)), (''token_type'', JStr ''Bearer'')])"

definition encrypt_google :: "gmail_env \<Rightarrow> google_tokens \<Rightarrow> instant \<Rightarrow> string gmail" where
  "encrypt_google env t expires =
     (case cipher_new (gy_fernet env) (credential_encryption_key (gmail_providers env)) of
        Inl e \<Rightarrow> oauth_fails ''credential_encryption_unavailable''
      | Inr f \<Rightarrow> lift_p Gmail_raised (bind_r (encrypt f (gy_encode env (tokens_text env t expires))) (\<lambda>c. Inr (token c))))"

text \<open>\<open>StoredTokenSet.model_validate\<close>: no other keys.\<close>

definition stored_google :: "gmail_env \<Rightarrow> json option \<Rightarrow> google_tokens option" where
  "stored_google env v = (case v of
      Some (JDict d) \<Rightarrow>
        (case (dict_get d ''access_token'', dict_get d ''refresh_token'', Option.bind (dict_get d ''expires_at'') (gy_datetime env),
               text_default d ''token_type'' ''Bearer'') of
           (Some (JStr a), Some (JStr r), Some e, Some _) \<Rightarrow>
             if list_all (\<lambda>(k, v). k \<in> {''access_token'', ''refresh_token'', ''expires_at'', ''token_type''}) d
             then Some \<lparr>gt_access = a, gt_refresh = r, gt_expires_at = e\<rparr> else None
         | _ \<Rightarrow> None)
    | _ \<Rightarrow> None)"

definition decrypt_google :: "gmail_env \<Rightarrow> string \<Rightarrow> google_tokens gmail" where
  "decrypt_google env s =
     (case bind_r (cipher_new (gy_fernet env) (credential_encryption_key (gmail_providers env))) (\<lambda>f. decrypt f (Encrypted_credentials s)) of
        Inl e \<Rightarrow> oauth_fails ''stored_credentials_unavailable''
      | Inr raw \<Rightarrow> (case stored_google env (gy_loads env (gy_bytes env raw)) of
            None \<Rightarrow> oauth_fails ''stored_credentials_unavailable'' | Some t \<Rightarrow> return_p t))"

text \<open>Comparing a time without offset with one that has an offset raises.\<close>

definition valid_until :: "google_tokens \<Rightarrow> instant \<Rightarrow> bool result" where
  "valid_until t now = (case to_utc (gt_expires_at t) of
      None \<Rightarrow> Inl (TypeError ''can't compare offset-naive and offset-aware datetimes'')
    | Some e \<Rightarrow> Inr (now + seconds 60 < e))"

definition gmail_connection :: "gmail_world \<Rightarrow> connection_row option" where
  "gmail_connection w = find_connection ''gmail'' (gw_db w)"

definition put_gmail :: "instant \<Rightarrow> connection_row \<Rightarrow> gmail_world \<Rightarrow> gmail_world" where
  "put_gmail now r w = w\<lparr>gw_db := put_connection now r (gw_db w)\<rparr>"

section \<open>The authorization\<close>

text \<open>Google may leave the refresh token out when the account has granted access before.\<close>

definition known_refresh :: "gmail_env \<Rightarrow> token_answer \<Rightarrow> string option gmail" where
  "known_refresh env t =
     (case ta_refresh t of
        Some r \<Rightarrow> return_p (Some r)
      | None \<Rightarrow> bind_p (read_p gmail_connection) (\<lambda>old.
          case Option.bind old cn_credentials of
            None \<Rightarrow> return_p None
          | Some s \<Rightarrow> bind_p (decrypt_google env s) (\<lambda>stored. return_p (Some (gt_refresh stored)))))"

definition expiry_after :: "gmail_env \<Rightarrow> int \<Rightarrow> instant gmail" where
  "expiry_after env n = bind_p (gmail_now env) (\<lambda>now. lift_p Gmail_raised (in_range (now + seconds n)))"

definition connect_gmail :: "gmail_env \<Rightarrow> string \<Rightarrow> unit gmail" where
  "connect_gmail env sealed =
     bind_p (gmail_now env) (\<lambda>now.
     bind_p (gmail_now env) (\<lambda>stamp.
     modify_p (\<lambda>w. put_gmail stamp
       ((case gmail_connection w of None \<Rightarrow> new_connection ''gmail'' stamp | Some r \<Rightarrow> r)
        \<lparr>cn_status := ''connected'', cn_credentials := Some sealed, cn_scopes := [GMAIL_READONLY_SCOPE], cn_connected_at := Some now\<rparr>) w)))"

definition complete_authorized :: "gmail_env \<Rightarrow> string \<Rightarrow> unit gmail" where
  "complete_authorized env code =
     (if \<not> gmail_configured env then oauth_fails ''oauth_not_configured''
      else if code = [] \<or> 4096 < length code then oauth_fails ''authorization_code_invalid''
      else
        bind_p (exchange_google_code env code) (\<lambda>t.
        bind_p (known_refresh env t) (\<lambda>refresh.
        case refresh of
          None \<Rightarrow> oauth_fails ''refresh_token_missing''
        | Some r \<Rightarrow>
            bind_p (validate_scopes (ta_scope t)) (\<lambda>_.
            bind_p (expiry_after env (ta_expires_in t)) (\<lambda>expires.
            bind_p (encrypt_google env \<lparr>gt_access = ta_access t, gt_refresh = r, gt_expires_at = utc expires\<rparr> expires) (\<lambda>sealed.
            connect_gmail env sealed))))))"

section \<open>The token manager\<close>

definition need_reconnect :: "gmail_env \<Rightarrow> unit gmail" where
  "need_reconnect env =
     bind_p (modify_p (\<lambda>w. w\<lparr>gw_cached := None\<rparr>)) (\<lambda>_.
     bind_p (gmail_now env) (\<lambda>stamp.
     modify_p (\<lambda>w. case gmail_connection w of None \<Rightarrow> w | Some r \<Rightarrow> put_gmail stamp (r\<lparr>cn_status := ''degraded''\<rparr>) w)))"

definition cached_access :: "gmail_env \<Rightarrow> string option gmail" where
  "cached_access env =
     bind_p (read_p gw_cached) (\<lambda>cached.
     case cached of
       None \<Rightarrow> return_p None
     | Some t \<Rightarrow> bind_p (gmail_now env) (\<lambda>now.
         bind_p (lift_p Gmail_raised (valid_until t now)) (\<lambda>ok. return_p (if ok then Some (gt_access t) else None))))"

definition stored_access :: "gmail_env \<Rightarrow> google_tokens gmail" where
  "stored_access env =
     bind_p (read_p gmail_connection) (\<lambda>row.
     case row of
       None \<Rightarrow> oauth_fails ''authorization_required''
     | Some r \<Rightarrow> (case cn_credentials r of
           None \<Rightarrow> oauth_fails ''authorization_required''
         | Some s \<Rightarrow>
             if cn_status r \<noteq> ''connected'' then oauth_fails ''reconnect_required''
             else decrypt_google env s))"

definition refreshed_answer :: "gmail_env \<Rightarrow> google_tokens \<Rightarrow> token_answer gmail" where
  "refreshed_answer env stored =
     attempt_p (google_refresh env (gt_refresh stored)) (\<lambda>e.
       if e = Oauth_failed ''reconnect_required'' None then bind_p (need_reconnect env) (\<lambda>_. raise_p e) else raise_p e)"

text \<open>The row may have gone in the meantime; its status is not looked at.\<close>

definition keep_refreshed :: "gmail_env \<Rightarrow> google_tokens \<Rightarrow> instant \<Rightarrow> unit gmail" where
  "keep_refreshed env updated expires =
     bind_p (read_p gmail_connection) (\<lambda>row.
     case row of
       None \<Rightarrow> oauth_fails ''authorization_required''
     | Some r \<Rightarrow>
         bind_p (encrypt_google env updated expires) (\<lambda>sealed.
         bind_p (gmail_now env) (\<lambda>stamp.
         bind_p (modify_p (put_gmail stamp (r\<lparr>cn_credentials := Some sealed\<rparr>))) (\<lambda>_.
         modify_p (\<lambda>w. w\<lparr>gw_cached := Some updated\<rparr>)))))"

definition renew_access :: "gmail_env \<Rightarrow> google_tokens \<Rightarrow> string gmail" where
  "renew_access env stored =
     bind_p (refreshed_answer env stored) (\<lambda>t.
     bind_p (expiry_after env (ta_expires_in t)) (\<lambda>expires.
     (let updated = \<lparr>gt_access = ta_access t,
          gt_refresh = (if truthy (ta_refresh t) then the (ta_refresh t) else gt_refresh stored), gt_expires_at = utc expires\<rparr>
      in bind_p (keep_refreshed env updated expires) (\<lambda>_. return_p (gt_access updated)))))"

definition load_access :: "gmail_env \<Rightarrow> bool \<Rightarrow> string gmail" where
  "load_access env force =
     bind_p (stored_access env) (\<lambda>stored.
     bind_p (modify_p (\<lambda>w. w\<lparr>gw_cached := Some stored\<rparr>)) (\<lambda>_.
     if force then renew_access env stored
     else bind_p (gmail_now env) (\<lambda>now.
       bind_p (lift_p Gmail_raised (valid_until stored now)) (\<lambda>ok.
       if ok then return_p (gt_access stored) else renew_access env stored))))"

definition access_token :: "gmail_env \<Rightarrow> bool \<Rightarrow> string gmail" where
  "access_token env force =
     (if force then load_access env True
      else bind_p (cached_access env) (\<lambda>cached. case cached of Some a \<Rightarrow> return_p a | None \<Rightarrow> load_access env False))"

end
