(* ===== verification/Gmail_Client.thy ===== *)
theory Gmail_Client
  imports Gmail_Auth
begin

text \<open>
  \<open>backend/app/providers/gmail/models.py\<close> and \<open>client.py\<close>: the metadata of a message, and the reads
  with one refresh when an access token is refused.
\<close>

section \<open>Metadata\<close>

record message =
  me_message_id :: string
  me_thread_id :: string
  me_sender :: string
  me_subject :: string
  me_received_at :: instant
  me_snippet :: string
  me_unread :: bool
  me_important :: bool

definition id_char :: "char \<Rightarrow> bool" where
  "id_char c = (let n = (of_char c :: int) in 65 \<le> n \<and> n \<le> 90 \<or> 97 \<le> n \<and> n \<le> 122 \<or> 48 \<le> n \<and> n \<le> 57 \<or> n = 95 \<or> n = 45)"

definition id_ok :: "string \<Rightarrow> bool" where
  "id_ok s = (s \<noteq> [] \<and> length s \<le> 100 \<and> list_all id_char s)"

definition message_ok :: "message \<Rightarrow> bool" where
  "message_ok m = (id_ok (me_message_id m) \<and> id_ok (me_thread_id m) \<and> length (me_sender m) \<le> 320
     \<and> length (me_subject m) \<le> 300 \<and> length (me_snippet m) \<le> 240)"

definition message_new :: "message \<Rightarrow> message result" where
  "message_new m = bind_r (ensure (message_ok m) (ValidationError ''GmailMessageMetadata'')) (\<lambda>_. Inr m)"

definition safe_event_metadata :: "message \<Rightarrow> dict" where
  "safe_event_metadata m =
     [(''message_id'', JStr (me_message_id m)), (''thread_id'', JStr (me_thread_id m)), (''sender'', JStr (me_sender m)),
      (''subject'', JStr (me_subject m)), (''received_at'', JStr (isoformat (me_received_at m))), (''snippet'', JStr (me_snippet m)),
      (''unread'', JBool (me_unread m)), (''important'', JBool (me_important m))]"

section \<open>Reading values\<close>

definition validated_id :: "json option \<Rightarrow> string option" where
  "validated_id v = (case v of Some (JStr s) \<Rightarrow> if id_ok s then Some s else None | _ \<Rightarrow> None)"

definition history_text_ok :: "string \<Rightarrow> bool" where
  "history_text_ok s = (s \<noteq> [] \<and> length s \<le> 32 \<and> list_all is_digit s)"

text \<open>A boolean is an integer, but its text is not digits.\<close>

definition history_id :: "json option \<Rightarrow> string gmail" where
  "history_id v =
     (case (case v of Some (JStr s) \<Rightarrow> s | Some (JInt n) \<Rightarrow> int_str n | _ \<Rightarrow> []) of
        s \<Rightarrow> if history_text_ok s then return_p s else raise_p (Gmail_api 502 ''history_id.invalid''))"

definition header_names :: "string list" where "header_names = [''from'', ''subject'', ''date'']"

fun note_header :: "json \<Rightarrow> (string \<times> string) list \<Rightarrow> (string \<times> string) list" where
  "note_header (JDict h) acc =
     (case (dict_get h ''name'', dict_get h ''value'') of
        (Some (JStr n), Some (JStr v)) \<Rightarrow> if casefold n \<in> set header_names then AList.update (casefold n) v acc else acc
      | _ \<Rightarrow> acc)"
| "note_header v acc = acc"

definition headers_of :: "json option \<Rightarrow> (string \<times> string) list" where
  "headers_of payload = (case payload of
      Some (JDict p) \<Rightarrow> (case dict_get p ''headers'' of Some (JList hs) \<Rightarrow> fold note_header hs [] | _ \<Rightarrow> [])
    | _ \<Rightarrow> [])"

definition control_char :: "char \<Rightarrow> bool" where
  "control_char c = (let n = (of_char c :: int) in n \<le> 8 \<or> n = 11 \<or> n = 12 \<or> 14 \<le> n \<and> n \<le> 31 \<or> n = 127)"

definition safe_header :: "string \<Rightarrow> nat \<Rightarrow> string" where
  "safe_header v limit = take limit (filter (\<lambda>c. \<not> control_char c) (join '' '' (words v)))"

definition safe_snippet :: "gmail_env \<Rightarrow> json option \<Rightarrow> string" where
  "safe_snippet env v = (case v of Some (JStr s) \<Rightarrow> take 240 (join '' '' (words (gy_clean env s))) | _ \<Rightarrow> [])"

text \<open>The conversion of a header date to UTC is outside the \<open>try\<close>.\<close>

definition parse_header_date :: "gmail_env \<Rightarrow> string option \<Rightarrow> instant option result" where
  "parse_header_date env v =
     (if \<not> truthy v then Inr None
      else (case gy_parse_date env (the v) of
          None \<Rightarrow> Inr None
        | Some (Naive w) \<Rightarrow> Inr (Some w)
        | Some (Aware w off) \<Rightarrow> bind_r (in_range (w - off)) (\<lambda>t. Inr (Some t))))"

definition internal_date :: "json option \<Rightarrow> instant option" where
  "internal_date v =
     (case (case v of Some (JInt n) \<Rightarrow> Some n | Some (JBool b) \<Rightarrow> Some (if b then 1 else 0) | Some (JStr s) \<Rightarrow> parse_int s | _ \<Rightarrow> None) of
        None \<Rightarrow> None
      | Some n \<Rightarrow> (case in_range (n * 1000) of Inl e \<Rightarrow> None | Inr t \<Rightarrow> Some t))"

definition received_at :: "gmail_env \<Rightarrow> dict \<Rightarrow> (string \<times> string) list \<Rightarrow> instant gmail" where
  "received_at env d headers =
     (case internal_date (dict_get d ''internalDate'') of
        Some t \<Rightarrow> return_p t
      | None \<Rightarrow>
          bind_p (lift_p Gmail_raised (parse_header_date env (map_of headers ''date''))) (\<lambda>v.
          case v of Some t \<Rightarrow> return_p t | None \<Rightarrow> gmail_now env))"

definition labels_of :: "dict \<Rightarrow> json list" where
  "labels_of d = (case dict_get d ''labelIds'' of Some (JList xs) \<Rightarrow> xs | _ \<Rightarrow> [])"

definition metadata_from_message :: "gmail_env \<Rightarrow> dict \<Rightarrow> message gmail" where
  "metadata_from_message env d =
     (case (validated_id (dict_get d ''id''), validated_id (dict_get d ''threadId'')) of
        (Some mid, Some tid) \<Rightarrow>
          (let headers = headers_of (dict_get d ''payload'');
               subject = safe_header (case map_of headers ''subject'' of Some s \<Rightarrow> s | None \<Rightarrow> []) 300
           in bind_p (received_at env d headers) (\<lambda>t.
              lift_p Gmail_raised (message_new
                \<lparr>me_message_id = mid, me_thread_id = tid,
                 me_sender = safe_header (case map_of headers ''from'' of Some s \<Rightarrow> s | None \<Rightarrow> []) 320,
                 me_subject = (if subject = [] then ''(no subject)'' else subject), me_received_at = t,
                 me_snippet = safe_snippet env (dict_get d ''snippet''),
                 me_unread = (JStr ''UNREAD'' \<in> set (labels_of d)), me_important = (JStr ''IMPORTANT'' \<in> set (labels_of d))\<rparr>)))
      | _ \<Rightarrow> raise_p (Gmail_api 502 ''messages.metadata''))"

section \<open>Requests\<close>

definition gmail_retry_after :: "gmail_env \<Rightarrow> string option \<Rightarrow> instant \<Rightarrow> instant result" where
  "gmail_retry_after env v now =
     (let later = in_range (now + minutes 1);
          dated = (\<lambda>s. case gy_parse_date env s of
              None \<Rightarrow> later
            | Some (Naive w) \<Rightarrow> Inr w
            | Some (Aware w off) \<Rightarrow> (case in_range (w - off) of Inl e \<Rightarrow> later | Inr t \<Rightarrow> Inr t))
      in if \<not> truthy v then later
         else (case gy_seconds env (the v) of
             None \<Rightarrow> dated (the v)
           | Some n \<Rightarrow> (case in_range (now + max n 0) of Inl e \<Rightarrow> dated (the v) | Inr t \<Rightarrow> Inr t)))"

definition gmail_answered :: "gmail_env \<Rightarrow> string \<Rightarrow> int \<times> string option \<times> json option \<Rightarrow> dict gmail" where
  "gmail_answered env op r = (case r of (status, retry, body) \<Rightarrow>
     (if status = 429 then
        bind_p (gmail_now env) (\<lambda>now.
        bind_p (lift_p Gmail_raised (gmail_retry_after env retry now)) (\<lambda>t. raise_p (Gmail_retry t)))
      else if 400 \<le> status then
        bind_p (if status = 401 then need_reconnect env else return_p ()) (\<lambda>_. raise_p (Gmail_api status op))
      else (case body of Some (JDict d) \<Rightarrow> return_p d | _ \<Rightarrow> raise_p (Gmail_api 502 op))))"

text \<open>Every call of the client is a \<open>GET\<close>; the method is its argument.\<close>

definition gmail_request :: "gmail_env \<Rightarrow> string \<Rightarrow> string \<Rightarrow> string \<Rightarrow> (string \<times> json) list \<Rightarrow> dict gmail" where
  "gmail_request env meth path op params =
     bind_p (access_token env False) (\<lambda>access.
     bind_p (gmail_http env (Gmail_call meth path params access)) (\<lambda>first.
     bind_p (if fst first = 401
       then bind_p (access_token env True) (\<lambda>renewed. gmail_http env (Gmail_call meth path params renewed))
       else return_p first) (gmail_answered env op)))"

definition profile_history_id :: "gmail_env \<Rightarrow> string gmail" where
  "profile_history_id env = bind_p (gmail_request env ''GET'' ''/profile'' ''profile.get'' []) (\<lambda>d. history_id (dict_get d ''historyId''))"

text \<open>\<open>data.get(key, [])[:limit]\<close>: text gives characters, which are not dictionaries; the rest raises.\<close>

definition sliced :: "nat \<Rightarrow> json option \<Rightarrow> json list result" where
  "sliced limit v = (case v of
      None \<Rightarrow> Inr [] | Some (JList xs) \<Rightarrow> Inr (take limit xs) | Some (JStr s) \<Rightarrow> Inr []
    | _ \<Rightarrow> Inl (TypeError ''object is not subscriptable''))"

fun listed_message :: "json \<Rightarrow> (string \<times> string option) list" where
  "listed_message (JDict d) = (case validated_id (dict_get d ''id'') of
      None \<Rightarrow> [] | Some m \<Rightarrow> [(m, validated_id (dict_get d ''threadId''))])"
| "listed_message v = []"

definition list_query :: "string \<Rightarrow> int \<Rightarrow> string option" where
  "list_query category age =
     (if category = ''recent'' then Some (''newer_than:'' @ int_str age @ ''d'')
      else if category = ''unread'' then Some ''is:unread''
      else if category = ''initial'' then Some (''{newer_than:'' @ int_str age @ ''d is:unread is:important}'')
      else None)"

definition list_messages :: "gmail_env \<Rightarrow> int \<Rightarrow> string \<Rightarrow> int \<Rightarrow> (string \<times> string option) list gmail" where
  "list_messages env limit category age =
     (if \<not> (1 \<le> limit \<and> limit \<le> 50) then raise_p (Gmail_raised (ValueError ''limit must be between 1 and 50''))
      else (case list_query category age of
          None \<Rightarrow> raise_p (Gmail_raised (ValueError ''unsupported Gmail message category''))
        | Some q \<Rightarrow>
            if \<not> (1 \<le> age \<and> age \<le> 30) then raise_p (Gmail_raised (ValueError ''newer_than_days must be between 1 and 30''))
            else
              bind_p (gmail_request env ''GET'' ''/messages'' ''messages.list''
                [(''q'', JStr q), (''maxResults'', JInt limit), (''fields'', JStr ''messages(id,threadId)'')]) (\<lambda>d.
              bind_p (lift_p Gmail_raised (sliced (nat limit) (dict_get d ''messages''))) (\<lambda>xs.
              return_p (concat (map listed_message xs))))))"

definition METADATA_HEADERS :: json where
  "METADATA_HEADERS = JList [JStr ''From'', JStr ''Subject'', JStr ''Date'']"

definition message_metadata :: "gmail_env \<Rightarrow> string \<Rightarrow> message gmail" where
  "message_metadata env mid =
     (if \<not> id_ok mid then raise_p (Gmail_raised (ValueError ''invalid Gmail message id''))
      else bind_p (gmail_request env ''GET'' (''/messages/'' @ mid) ''messages.get''
        [(''format'', JStr ''metadata''), (''metadataHeaders'', METADATA_HEADERS),
         (''fields'', JStr ''id,threadId,labelIds,internalDate,snippet,payload(headers)'')]) (metadata_from_message env))"

fun dicts_of :: "json list \<Rightarrow> dict list" where
  "dicts_of [] = []"
| "dicts_of (v # vs) = (case v of JDict d \<Rightarrow> d # dicts_of vs | _ \<Rightarrow> dicts_of vs)"

definition thread_messages :: "gmail_env \<Rightarrow> string \<Rightarrow> int \<Rightarrow> message list gmail" where
  "thread_messages env tid limit =
     (if \<not> id_ok tid then raise_p (Gmail_raised (ValueError ''invalid Gmail thread id''))
      else if \<not> (1 \<le> limit \<and> limit \<le> 50) then raise_p (Gmail_raised (ValueError ''limit must be between 1 and 50''))
      else bind_p (gmail_request env ''GET'' (''/threads/'' @ tid) ''threads.get''
        [(''format'', JStr ''metadata''), (''metadataHeaders'', METADATA_HEADERS),
         (''fields'', JStr ''id,messages(id,threadId,labelIds,internalDate,snippet,payload(headers))'')]) (\<lambda>d.
        bind_p (lift_p Gmail_raised (sliced (nat limit) (dict_get d ''messages''))) (\<lambda>xs.
        each_p (\<lambda>m. bind_p (metadata_from_message env m) (\<lambda>x. return_p [x])) (dicts_of xs))))"

section \<open>The history\<close>

text \<open>
  The pages of the history, until the last page or fifty records.  A server that keeps handing out new
  page tokens without records would be followed for ever; the scheduler cancels the poll after its
  timeout, and \<open>patience\<close> is the number of pages that arrive before that.
\<close>

record pages =
  pg_records :: "dict list"
  pg_token :: "string option"
  pg_seen :: "string list"

definition HISTORY_LIMIT :: nat where "HISTORY_LIMIT = 50"

definition HISTORY_TYPES :: json where
  "HISTORY_TYPES = JList [JStr ''messageAdded'', JStr ''messageDeleted'', JStr ''labelAdded'', JStr ''labelRemoved'']"

definition HISTORY_FIELDS :: string where
  "HISTORY_FIELDS = ''historyId,nextPageToken,history(id,messagesAdded(message(id,threadId)),''
     @ ''messagesDeleted(message(id,threadId)),'' @ ''labelsAdded(message(id,threadId)),labelsRemoved(message(id,threadId)))''"

definition history_params :: "string \<Rightarrow> string option \<Rightarrow> (string \<times> json) list" where
  "history_params start page =
     [(''startHistoryId'', JStr start), (''historyTypes'', HISTORY_TYPES), (''maxResults'', JInt 50), (''fields'', JStr HISTORY_FIELDS)]
     @ (case page of None \<Rightarrow> [] | Some t \<Rightarrow> [(''pageToken'', JStr t)])"

definition page_records :: "nat \<Rightarrow> dict \<Rightarrow> dict list" where
  "page_records have d = (case dict_get d ''history'' of Some (JList xs) \<Rightarrow> dicts_of (take (HISTORY_LIMIT - have) xs) | _ \<Rightarrow> [])"

text \<open>What a page says: the end with the cursor to keep, or the next page.\<close>

definition last_page :: "string \<Rightarrow> dict \<Rightarrow> string gmail" where
  "last_page start d =
     (case dict_get d ''historyId'' of
        None \<Rightarrow> return_p start
      | Some v \<Rightarrow> if json_truthy v then history_id (Some v) else return_p start)"

definition next_page :: "string \<Rightarrow> pages \<Rightarrow> dict \<Rightarrow> ((string \<times> dict list) + pages) gmail" where
  "next_page start g d =
     (let records = pg_records g @ page_records (length (pg_records g)) d;
          page = (case dict_get d ''nextPageToken'' of None \<Rightarrow> JNull | Some v \<Rightarrow> v)
      in if \<not> json_truthy page then bind_p (last_page start d) (\<lambda>h. return_p (Inl (h, records)))
         else if HISTORY_LIMIT \<le> length records then
           bind_p (history_id (dict_get (last records) ''id'')) (\<lambda>h. return_p (Inl (h, records)))
         else (case page of
             JStr t \<Rightarrow> if t \<in> set (pg_seen g) then raise_p (Gmail_api 502 ''history.pagination_invalid'')
               else return_p (Inr \<lparr>pg_records = records, pg_token = Some t, pg_seen = t # pg_seen g\<rparr>)
           | _ \<Rightarrow> raise_p (Gmail_api 502 ''history.pagination_invalid'')))"

fun history_pages :: "gmail_env \<Rightarrow> nat \<Rightarrow> string \<Rightarrow> pages \<Rightarrow> (string \<times> dict list) gmail" where
  "history_pages env 0 start g = raise_p Gmail_cancelled"
| "history_pages env (Suc n) start g =
     bind_p (gmail_request env ''GET'' ''/history'' ''history.list'' (history_params start (pg_token g))) (\<lambda>d.
     bind_p (next_page start g d) (\<lambda>r. case r of Inl x \<Rightarrow> return_p x | Inr g' \<Rightarrow> history_pages env n start g'))"

definition gmail_history :: "gmail_env \<Rightarrow> nat \<Rightarrow> string \<Rightarrow> (string \<times> dict list) gmail" where
  "gmail_history env patience start =
     bind_p (history_id (Some (JStr start))) (\<lambda>h.
     history_pages env patience h \<lparr>pg_records = [], pg_token = None, pg_seen = []\<rparr>)"

section \<open>The body of a message\<close>

text \<open>The plain text parts, in order; collecting stops once there is enough.\<close>

definition part_text :: "gmail_env \<Rightarrow> nat \<Rightarrow> dict \<Rightarrow> string list" where
  "part_text env limit part =
     (case (dict_get part ''mimeType'', dict_get part ''body'') of
        (Some (JStr mime), Some (JDict body)) \<Rightarrow>
          (case dict_get body ''data'' of
             Some (JStr s) \<Rightarrow>
               if mime \<noteq> ''text/plain'' then []
               else (let cut = take ((limit * 4 + 2) div 3 + 4) s;
                         padded = cut @ replicate ((4 - length cut mod 4) mod 4) (CHR ''='')
                     in [take limit (case gy_decode env padded of None \<Rightarrow> [] | Some t \<Rightarrow> t)])
           | _ \<Rightarrow> [])
      | _ \<Rightarrow> [])"

lemma dict_get_smaller:
  "dict_get d k = Some (JList xs) \<Longrightarrow> size_list size xs < size_list (size_prod (\<lambda>_. 0) size) d"
proof (induction d)
  case (Cons p d)
  then show ?case by (cases p) (auto simp: dict_get_def split: if_splits)
qed (simp add: dict_get_def)

function plain_text :: "gmail_env \<Rightarrow> nat \<Rightarrow> dict \<Rightarrow> string list \<Rightarrow> string list"
  and plain_texts :: "gmail_env \<Rightarrow> nat \<Rightarrow> json list \<Rightarrow> string list \<Rightarrow> string list" where
  "plain_text env limit part out =
     (if limit \<le> sum_list (map length out) then out
      else (case dict_get part ''parts'' of
          Some (JList xs) \<Rightarrow> plain_texts env limit xs (out @ part_text env limit part)
        | _ \<Rightarrow> out @ part_text env limit part))"
| "plain_texts env limit [] out = out"
| "plain_texts env limit (JDict d # xs) out = plain_texts env limit xs (plain_text env limit d out)"
| "plain_texts env limit (JNull # xs) out = plain_texts env limit xs out"
| "plain_texts env limit (JBool b # xs) out = plain_texts env limit xs out"
| "plain_texts env limit (JInt n # xs) out = plain_texts env limit xs out"
| "plain_texts env limit (JStr s # xs) out = plain_texts env limit xs out"
| "plain_texts env limit (JList ys # xs) out = plain_texts env limit xs out"
  by pat_completeness auto

termination
proof (relation "measure (case_sum (\<lambda>(env, limit, part, out). Suc (size_list (size_prod (\<lambda>_. 0) size) part))
    (\<lambda>(env, limit, xs, out). size_list size xs))", goal_cases)
  case (2 env limit part out v xs)
  then show ?case using dict_get_smaller [of part "''parts''" xs] by simp
qed auto

definition message_body :: "gmail_env \<Rightarrow> string \<Rightarrow> nat \<Rightarrow> (string \<times> string \<times> string) gmail" where
  "message_body env mid limit =
     (if \<not> id_ok mid then raise_p (Gmail_raised (ValueError ''invalid Gmail message id''))
      else if \<not> (1 \<le> limit \<and> limit \<le> 100000) then raise_p (Gmail_raised (ValueError ''max_chars must be between 1 and 100000''))
      else bind_p (gmail_request env ''GET'' (''/messages/'' @ mid) ''messages.body.get''
        [(''format'', JStr ''full''), (''fields'', JStr ''id,threadId,payload'')]) (\<lambda>d.
        bind_p (metadata_from_message env d) (\<lambda>m.
        case dict_get d ''payload'' of
          Some (JDict p) \<Rightarrow> return_p (mid, me_thread_id m, take limit (join [CHR 10] (plain_text env limit p [])))
        | Some v \<Rightarrow> if json_truthy v then raise_p (Gmail_raised (TypeError ''payload'')) else return_p (mid, me_thread_id m, [])
        | None \<Rightarrow> return_p (mid, me_thread_id m, []))))"

section \<open>The read-only service\<close>

definition checked_limit :: "int \<Rightarrow> unit gmail" where
  "checked_limit limit = (if 1 \<le> limit \<and> limit \<le> 50 then return_p () else raise_p (Gmail_raised (ValueError ''limit must be between 1 and 50'')))"

fun hydrate :: "gmail_env \<Rightarrow> nat \<Rightarrow> string list \<Rightarrow> (string \<times> string option) list \<Rightarrow> message list gmail" where
  "hydrate env limit seen [] = return_p []"
| "hydrate env limit seen ((mid, tid) # ids) =
     (if mid \<in> set seen then hydrate env limit seen ids
      else bind_p (message_metadata env mid) (\<lambda>m.
        if limit \<le> 1 then return_p [m]
        else bind_p (hydrate env (limit - 1) (mid # seen) ids) (\<lambda>ms. return_p (m # ms))))"

definition get_recent_messages :: "gmail_env \<Rightarrow> int \<Rightarrow> int \<Rightarrow> message list gmail" where
  "get_recent_messages env limit age =
     bind_p (checked_limit limit) (\<lambda>_.
     if \<not> (1 \<le> age \<and> age \<le> 30) then raise_p (Gmail_raised (ValueError ''newer_than_days must be between 1 and 30''))
     else bind_p (list_messages env limit ''recent'' age) (hydrate env (nat limit) []))"

definition get_unread_messages :: "gmail_env \<Rightarrow> int \<Rightarrow> message list gmail" where
  "get_unread_messages env limit =
     bind_p (checked_limit limit) (\<lambda>_. bind_p (list_messages env limit ''unread'' 14) (hydrate env (nat limit) []))"

definition get_thread_metadata :: "gmail_env \<Rightarrow> string \<Rightarrow> int \<Rightarrow> (string \<times> message list) gmail" where
  "get_thread_metadata env tid limit =
     bind_p (checked_limit limit) (\<lambda>_. bind_p (thread_messages env tid limit) (\<lambda>ms. return_p (tid, ms)))"

definition get_message_body :: "gmail_env \<Rightarrow> string \<Rightarrow> (string \<times> string \<times> string) gmail" where
  "get_message_body env mid = message_body env mid 100000"

end
