(* ===== verification/Gmail_Ingest.thy ===== *)
theory Gmail_Ingest
  imports Gmail_Client Football_Models
begin

text \<open>
  The second half of \<open>backend/app/providers/gmail/sync.py\<close>: the transaction that stores the events of a
  batch together with the cursor and the flags of the messages.
\<close>

section \<open>Batches\<close>

datatype mail_change = Initial | Message_added | Labels_changed | Message_removed

record delta =
  dl_metadata :: message
  dl_change :: mail_change
  dl_history_id :: "string option"

definition delta_new :: "message \<Rightarrow> mail_change \<Rightarrow> string option \<Rightarrow> delta result" where
  "delta_new m c h =
     bind_r (ensure (case h of None \<Rightarrow> True | Some s \<Rightarrow> history_text_ok s) (ValidationError ''GmailMessageDelta'')) (\<lambda>_.
     Inr \<lparr>dl_metadata = m, dl_change = c, dl_history_id = h\<rparr>)"

record batch =
  ba_history_id :: string
  ba_messages :: "delta list"
  ba_resynced :: bool

definition batch_new :: "string \<Rightarrow> delta list \<Rightarrow> bool \<Rightarrow> batch result" where
  "batch_new h ms resynced =
     bind_r (ensure (history_text_ok h \<and> length ms \<le> 5000) (ValidationError ''GmailSyncBatch'')) (\<lambda>_.
     Inr \<lparr>ba_history_id = h, ba_messages = ms, ba_resynced = resynced\<rparr>)"

section \<open>The checkpoints\<close>

definition HISTORY_CHECKPOINT :: string where "HISTORY_CHECKPOINT = ''history_id''"
definition MESSAGE_STATE_PREFIX :: string where "MESSAGE_STATE_PREFIX = ''message-state:''"
definition MESSAGE_STATE_LIMIT :: nat where "MESSAGE_STATE_LIMIT = 500"

definition state_key :: "string \<Rightarrow> string" where
  "state_key mid = MESSAGE_STATE_PREFIX @ mid"

fun get_checkpoint :: "string \<Rightarrow> gmail_row list \<Rightarrow> string option" where
  "get_checkpoint k [] = None"
| "get_checkpoint k (r # rs) = (if gr_key r = k then Some (gr_text r) else get_checkpoint k rs)"

fun set_checkpoint :: "instant \<Rightarrow> string \<Rightarrow> string \<Rightarrow> instant \<Rightarrow> gmail_row list \<Rightarrow> gmail_row list" where
  "set_checkpoint stamp k v observed [] = [\<lparr>gr_key = k, gr_text = v, gr_observed_at = observed, gr_updated_at = stamp\<rparr>]"
| "set_checkpoint stamp k v observed (r # rs) =
     (if gr_key r = k then \<lparr>gr_key = k, gr_text = v, gr_observed_at = observed, gr_updated_at = stamp\<rparr> # rs
      else r # set_checkpoint stamp k v observed rs)"

definition delete_checkpoint :: "string \<Rightarrow> gmail_row list \<Rightarrow> gmail_row list" where
  "delete_checkpoint k rs = filter (\<lambda>r. gr_key r \<noteq> k) rs"

text \<open>The newest first; of two with the same time the one inserted last.\<close>

definition newest_first :: "gmail_row list \<Rightarrow> gmail_row list" where
  "newest_first rs = sort_key (\<lambda>r. - gr_updated_at r) (rev (filter (\<lambda>r. prefix MESSAGE_STATE_PREFIX (gr_key r)) rs))"

definition trim_message_states :: "gmail_row list \<Rightarrow> gmail_row list" where
  "trim_message_states rs =
     (let old = map gr_key (drop MESSAGE_STATE_LIMIT (newest_first rs)) in filter (\<lambda>r. gr_key r \<notin> set old) rs)"

section \<open>Ingestion\<close>

record ingest_state =
  gi_db :: db
  gi_rows :: "gmail_row list"
  gi_count :: nat

text \<open>\<open>mi_stamp\<close> and \<open>mi_uuid\<close> give the clock reading and the identifier of the \<open>n\<close>-th write.\<close>

record mail_env =
  mi_hash :: "string \<Rightarrow> string"
  mi_topic :: string
  mi_now :: instant
  mi_stamp :: "nat \<Rightarrow> instant"
  mi_uuid :: "nat \<Rightarrow> uuid"
  mi_correlation :: uuid
  mi_dumps :: "json \<Rightarrow> string"
  mi_loads :: "string \<Rightarrow> json option"

definition mail_event :: "mail_env \<Rightarrow> nat \<Rightarrow> string \<Rightarrow> string \<Rightarrow> string \<Rightarrow> string \<Rightarrow> message \<Rightarrow> dict \<Rightarrow> event result" where
  "mail_event env n etype stype sid dedupe m extra =
     canonical_event_new (mi_uuid env n) ''gmail'' etype stype sid (utc (me_received_at m)) (utc (mi_now env)) (utc (mi_stamp env n))
       1 dedupe 1 (mi_correlation env) (safe_event_metadata m @ extra)"

definition persist_mail :: "mail_env \<Rightarrow> string \<Rightarrow> string \<Rightarrow> string \<Rightarrow> string \<Rightarrow> message \<Rightarrow> dict \<Rightarrow> ingest_state \<Rightarrow> ingest_state result" where
  "persist_mail env etype stype sid dedupe m extra s =
     bind_r (mail_event env (gi_count s) etype stype sid dedupe m extra) (\<lambda>e.
     bind_r (persist_event_and_outbox (mi_hash env) (mi_topic env) (mi_stamp env (gi_count s)) e (gi_db s)) (\<lambda>(new, d).
     Inr (s\<lparr>gi_db := d, gi_count := Suc (gi_count s)\<rparr>)))"

definition received_key :: "string \<Rightarrow> string" where
  "received_key mid = ''gmail:message.received:'' @ mid"

definition thread_key :: "string \<Rightarrow> string" where
  "thread_key mid = ''gmail:thread.updated:message:'' @ mid"

definition removed_key :: "string option \<Rightarrow> string \<Rightarrow> string" where
  "removed_key h mid = ''gmail:thread.updated:deleted:'' @ (case h of None \<Rightarrow> ''None'' | Some s \<Rightarrow> s) @ '':'' @ mid"

definition labels_key :: "string \<Rightarrow> string \<Rightarrow> string" where
  "labels_key h mid = ''gmail:thread.updated:labels:'' @ h @ '':'' @ mid"

definition persist_received :: "mail_env \<Rightarrow> message \<Rightarrow> ingest_state \<Rightarrow> ingest_state result" where
  "persist_received env m s =
     bind_r (persist_mail env ''mail.message.received'' ''email'' (me_message_id m) (received_key (me_message_id m)) m [] s) (\<lambda>t.
     persist_mail env ''mail.thread.updated'' ''email_thread'' (me_thread_id m) (thread_key (me_message_id m)) m [] t)"

definition persist_removed :: "mail_env \<Rightarrow> string option \<Rightarrow> message \<Rightarrow> ingest_state \<Rightarrow> ingest_state result" where
  "persist_removed env h m s =
     bind_r (persist_mail env ''mail.thread.updated'' ''email_thread'' (me_thread_id m) (removed_key h (me_message_id m)) m
       [(''message_removed'', JBool True)] s) (\<lambda>t.
     Inr (t\<lparr>gi_rows := delete_checkpoint (state_key (me_message_id m)) (gi_rows t)\<rparr>))"

text \<open>\<open>True == 1\<close>; a value that is not a number is never equal to a flag.\<close>

definition same_flag :: "json option \<Rightarrow> bool \<Rightarrow> bool" where
  "same_flag v b = (case v of Some (JBool c) \<Rightarrow> c = b | Some (JInt n) \<Rightarrow> n = of_bool b | _ \<Rightarrow> False)"

definition flags_changed :: "mail_env \<Rightarrow> string \<Rightarrow> message \<Rightarrow> bool result" where
  "flags_changed env prior m =
     (case mi_loads env prior of
        None \<Rightarrow> Inr True
      | Some (JDict d) \<Rightarrow> Inr (\<not> same_flag (dict_get d ''unread'') (me_unread m) \<or> \<not> same_flag (dict_get d ''important'') (me_important m))
      | Some v \<Rightarrow> Inl (TypeError ''previous.get''))"

definition persist_labels :: "mail_env \<Rightarrow> string \<Rightarrow> string option \<Rightarrow> message \<Rightarrow> ingest_state \<Rightarrow> ingest_state result" where
  "persist_labels env batch_id h m s =
     (case get_checkpoint (state_key (me_message_id m)) (gi_rows s) of
        None \<Rightarrow> Inr s
      | Some prior \<Rightarrow>
          bind_r (flags_changed env prior m) (\<lambda>changed.
          if changed then persist_mail env ''mail.thread.updated'' ''email_thread'' (me_thread_id m)
            (labels_key (if truthy h then the h else batch_id) (me_message_id m)) m [] s
          else Inr s))"

definition state_text :: "mail_env \<Rightarrow> message \<Rightarrow> string" where
  "state_text env m = mi_dumps env (JDict [(''thread_id'', JStr (me_thread_id m)), (''unread'', JBool (me_unread m)), (''important'', JBool (me_important m))])"

definition write_row :: "mail_env \<Rightarrow> string \<Rightarrow> string \<Rightarrow> ingest_state \<Rightarrow> ingest_state" where
  "write_row env k v s = s\<lparr>gi_rows := set_checkpoint (mi_stamp env (gi_count s)) k v (mi_now env) (gi_rows s), gi_count := Suc (gi_count s)\<rparr>"

definition keep_state :: "mail_env \<Rightarrow> message \<Rightarrow> ingest_state \<Rightarrow> ingest_state" where
  "keep_state env m = write_row env (state_key (me_message_id m)) (state_text env m)"

definition ingest_delta :: "mail_env \<Rightarrow> string \<Rightarrow> delta \<Rightarrow> ingest_state \<Rightarrow> ingest_state result" where
  "ingest_delta env batch_id x s =
     (let m = dl_metadata x in
      case dl_change x of
        Message_removed \<Rightarrow> persist_removed env (dl_history_id x) m s
      | Labels_changed \<Rightarrow> bind_r (persist_labels env batch_id (dl_history_id x) m s) (\<lambda>t. Inr (keep_state env m t))
      | _ \<Rightarrow> bind_r (persist_received env m s) (\<lambda>t. Inr (keep_state env m t)))"

definition ingest_gmail_batch :: "mail_env \<Rightarrow> batch \<Rightarrow> ingest_state \<Rightarrow> ingest_state result" where
  "ingest_gmail_batch env b s =
     bind_r (fold_r (ingest_delta env (ba_history_id b)) (ba_messages b) s) (\<lambda>t.
     (let u = write_row env HISTORY_CHECKPOINT (ba_history_id b) t
      in Inr (u\<lparr>gi_rows := trim_message_states (gi_rows u)\<rparr>)))"

text \<open>The batches of a poll, in one transaction; then the health report.\<close>

definition latest_message :: "batch observation list \<Rightarrow> instant option" where
  "latest_message obs = (case concat (map (\<lambda>o'. map (\<lambda>x. me_received_at (dl_metadata x)) (ba_messages (obs_content o'))) obs) of
      [] \<Rightarrow> None | ts \<Rightarrow> Some (Max (set ts)))"

definition ingest_batches :: "mail_env \<Rightarrow> batch observation list \<Rightarrow> ingest_state \<Rightarrow> ingest_state result" where
  "ingest_batches env obs s = fold_r (\<lambda>o'. ingest_gmail_batch env (obs_content o')) obs s"

definition ingest_gmail_observations :: "mail_env \<Rightarrow> string \<Rightarrow> batch observation list \<Rightarrow> instant
    \<Rightarrow> ingest_state \<times> health_registry \<Rightarrow> py_error option \<times> ingest_state \<times> health_registry" where
  "ingest_gmail_observations env provider obs checked st =
     (if provider \<noteq> ''gmail'' then (Some (ValueError ''Gmail ingestion received a different provider''), st)
      else (case ingest_batches env obs (fst st) of
          Inl e \<Rightarrow> (Some e, st)
        | Inr s \<Rightarrow>
            (case report checked ''gmail'' Ps_healthy ''sync_succeeded'' (report_defaults\<lparr>rp_succeeded := True,
                rp_observed := (0 < sum_list (map (\<lambda>o'. length (ba_messages (obs_content o'))) obs)),
                rp_last_message_observation_at := map_option utc (latest_message obs)\<rparr>) (snd st) of
               Inl e \<Rightarrow> (Some e, s, snd st)
             | Inr (h, reg) \<Rightarrow> (None, s, reg))))"

end
