(* ===== verification/Gmail_Sync.thy ===== *)
theory Gmail_Sync
  imports Gmail_Ingest Scheduler Char_Order
begin

text \<open>
  The first half of \<open>backend/app/providers/gmail/sync.py\<close>: what a poll reads.  The metadata requests of
  a poll run five at a time there; here they run one after another.
\<close>

section \<open>A bounded scan\<close>

definition INITIAL_LIMIT :: int where "INITIAL_LIMIT = 50"

definition fetched_message :: "gmail_env \<Rightarrow> string \<Rightarrow> message option gmail" where
  "fetched_message env mid =
     attempt_p (bind_p (message_metadata env mid) (\<lambda>m. return_p (Some m))) (\<lambda>e.
       case e of Gmail_api status op \<Rightarrow> if status = 404 then return_p None else raise_p e | _ \<Rightarrow> raise_p e)"

definition fetch_batch :: "gmail_env \<Rightarrow> string list \<Rightarrow> message option list gmail" where
  "fetch_batch env ids = each_p (\<lambda>mid. bind_p (fetched_message env mid) (\<lambda>m. return_p [m])) ids"

definition present :: "'a option list \<Rightarrow> 'a list" where
  "present ms = concat (map (\<lambda>m. case m of None \<Rightarrow> [] | Some x \<Rightarrow> [x]) ms)"

text \<open>The first of equal ids is kept.\<close>

fun first_seen :: "string list \<Rightarrow> string list \<Rightarrow> string list" where
  "first_seen seen [] = []"
| "first_seen seen (x # xs) = (if x \<in> set seen then first_seen seen xs else x # first_seen (x # seen) xs)"

definition bounded_full_sync :: "gmail_env \<Rightarrow> (string \<times> message list) gmail" where
  "bounded_full_sync env =
     bind_p (profile_history_id env) (\<lambda>baseline.
     bind_p (list_messages env INITIAL_LIMIT ''initial'' 14) (\<lambda>ids.
     bind_p (fetch_batch env (first_seen [] (map fst ids))) (\<lambda>ms.
     return_p (baseline, present ms))))"

section \<open>The changes of a history\<close>

record changes =
  ch_added :: "string list"
  ch_labels :: "(string \<times> string) list"
  ch_deleted :: "(string \<times> string \<times> string option) list"

text \<open>\<open>record.get(key, []) or []\<close>, iterated: text and dictionaries give no dictionary.\<close>

definition record_items :: "dict \<Rightarrow> string \<Rightarrow> json list result" where
  "record_items r k = (case dict_get r k of
      None \<Rightarrow> Inr []
    | Some v \<Rightarrow> if \<not> json_truthy v then Inr []
        else (case v of JList xs \<Rightarrow> Inr xs | JStr s \<Rightarrow> Inr [] | JDict d \<Rightarrow> Inr [] | _ \<Rightarrow> Inl (TypeError ''object is not iterable'')))"

text \<open>The message of an item, \<open>None\<close> when it is not a dictionary.\<close>

fun item_message :: "json \<Rightarrow> dict option" where
  "item_message (JDict i) = (case dict_get i ''message'' of None \<Rightarrow> Some [] | Some (JDict m) \<Rightarrow> Some m | _ \<Rightarrow> None)"
| "item_message v = Some []"

definition item_id :: "json \<Rightarrow> string option" where
  "item_id v = (case item_message v of
      None \<Rightarrow> None | Some m \<Rightarrow> (case dict_get m ''id'' of Some (JStr s) \<Rightarrow> Some s | _ \<Rightarrow> None))"

definition item_thread :: "json \<Rightarrow> string option" where
  "item_thread v = (case item_message v of
      None \<Rightarrow> None | Some m \<Rightarrow> (case dict_get m ''threadId'' of Some (JStr s) \<Rightarrow> Some s | _ \<Rightarrow> None))"

definition record_id :: "dict \<Rightarrow> string" where
  "record_id r = (case dict_get r ''id'' of None \<Rightarrow> [] | Some v \<Rightarrow> py_str v)"

definition all_digits :: "string \<Rightarrow> bool" where
  "all_digits s = (s \<noteq> [] \<and> list_all is_digit s)"

definition note_added :: "json \<Rightarrow> changes \<Rightarrow> changes" where
  "note_added v c = (case item_id v of None \<Rightarrow> c | Some m \<Rightarrow> c\<lparr>ch_added := m # ch_added c\<rparr>)"

definition note_deleted :: "string \<Rightarrow> json \<Rightarrow> changes \<Rightarrow> changes" where
  "note_deleted h v c = (case item_id v of
      None \<Rightarrow> c | Some m \<Rightarrow> if all_digits h then c\<lparr>ch_deleted := AList.update m (h, item_thread v) (ch_deleted c)\<rparr> else c)"

definition note_labels :: "string \<Rightarrow> json \<Rightarrow> changes \<Rightarrow> changes" where
  "note_labels h v c = (case item_id v of
      None \<Rightarrow> c | Some m \<Rightarrow> if all_digits h then c\<lparr>ch_labels := AList.update m h (ch_labels c)\<rparr> else c)"

definition note_record :: "dict \<Rightarrow> changes \<Rightarrow> changes result" where
  "note_record r c =
     bind_r (record_items r ''messagesAdded'') (\<lambda>added.
     bind_r (record_items r ''messagesDeleted'') (\<lambda>deleted.
     bind_r (record_items r ''labelsAdded'') (\<lambda>l1.
     bind_r (record_items r ''labelsRemoved'') (\<lambda>l2.
     Inr (fold (note_labels (record_id r)) (l1 @ l2) (fold (note_deleted (record_id r)) deleted (fold note_added added c)))))))"

definition changes_of :: "dict list \<Rightarrow> changes result" where
  "changes_of rs = fold_r note_record rs \<lparr>ch_added = [], ch_labels = [], ch_deleted = []\<rparr>"

text \<open>\<open>sorted((additions | set(label_changes)) - set(deletions))\<close>\<close>

definition changed_ids :: "changes \<Rightarrow> string list" where
  "changed_ids c = sort (filter (\<lambda>m. m \<notin> set (map fst (ch_deleted c))) (remdups (ch_added c @ map fst (ch_labels c))))"

definition delta_of :: "changes \<Rightarrow> string \<times> message option \<Rightarrow> delta list result" where
  "delta_of c x = (case x of
      (mid, None) \<Rightarrow> Inr []
    | (mid, Some m) \<Rightarrow>
        if mid \<in> set (ch_added c) then bind_r (delta_new m Message_added None) (\<lambda>y. Inr [y])
        else (case map_of (ch_labels c) mid of
            None \<Rightarrow> Inr [] | Some h \<Rightarrow> bind_r (delta_new m Labels_changed (Some h)) (\<lambda>y. Inr [y])))"

section \<open>A message that is gone\<close>

text \<open>\<open>payload.get(key, default)\<close>, which the model wants to be text.\<close>

definition payload_text :: "dict \<Rightarrow> string \<Rightarrow> string \<Rightarrow> string result" where
  "payload_text d k v = (case text_default d k v of None \<Rightarrow> Inl (ValidationError k) | Some s \<Rightarrow> Inr s)"

definition payload_flag :: "dict \<Rightarrow> string \<Rightarrow> bool" where
  "payload_flag d k = (case dict_get d k of None \<Rightarrow> False | Some v \<Rightarrow> json_truthy v)"

definition remembered :: "gmail_env \<Rightarrow> string \<Rightarrow> string option \<Rightarrow> dict \<Rightarrow> message option result" where
  "remembered env mid fallback d =
     (let thread = (case dict_get d ''thread_id'' of
            Some v \<Rightarrow> if json_truthy v then Some v else map_option JStr fallback | None \<Rightarrow> map_option JStr fallback)
      in case (thread, dict_get d ''received_at'') of
           (Some t, Some r) \<Rightarrow>
             if \<not> json_truthy t \<or> \<not> json_truthy r then Inr None
             else
               bind_r (case t of JStr s \<Rightarrow> Inr s | _ \<Rightarrow> Inl (ValidationError ''thread_id'')) (\<lambda>tid.
               bind_r (payload_text d ''sender'' []) (\<lambda>sender.
               bind_r (payload_text d ''subject'' ''(no subject)'') (\<lambda>subject.
               bind_r (payload_text d ''snippet'' []) (\<lambda>snippet.
               bind_r (case gy_datetime env r of None \<Rightarrow> Inl (ValidationError ''received_at'')
                 | Some at_time \<Rightarrow> require_aware ''received_at must be timezone-aware'' at_time) (\<lambda>received.
               bind_r (message_new \<lparr>me_message_id = mid, me_thread_id = tid, me_sender = sender, me_subject = subject,
                 me_received_at = received, me_snippet = snippet, me_unread = payload_flag d ''unread'',
                 me_important = payload_flag d ''important''\<rparr>) (\<lambda>m. Inr (Some m)))))))
         | _ \<Rightarrow> Inr None)"

definition previous_metadata :: "gmail_env \<Rightarrow> string \<Rightarrow> string option \<Rightarrow> db \<Rightarrow> message option result" where
  "previous_metadata env mid fallback d =
     (case find_row ev_dedupe_key (received_key mid) (db_events d) of
        None \<Rightarrow> Inr None | Some e \<Rightarrow> remembered env mid fallback (ev_payload e))"

definition removal_of :: "gmail_env \<Rightarrow> db \<Rightarrow> string \<times> string \<times> string option \<Rightarrow> delta list result" where
  "removal_of env d x = (case x of (mid, h, thread) \<Rightarrow>
     bind_r (previous_metadata env mid thread d) (\<lambda>m.
     case m of None \<Rightarrow> Inr [] | Some y \<Rightarrow> bind_r (delta_new y Message_removed (Some h)) (\<lambda>z. Inr [z])))"

definition incremental_sync :: "gmail_env \<Rightarrow> nat \<Rightarrow> string \<Rightarrow> (string \<times> delta list) gmail" where
  "incremental_sync env patience start =
     bind_p (gmail_history env patience start) (\<lambda>(latest, records).
     bind_p (lift_p Gmail_raised (changes_of records)) (\<lambda>c.
     bind_p (fetch_batch env (changed_ids c)) (\<lambda>ms.
     bind_p (lift_p Gmail_raised (map_r (delta_of c) (zip (changed_ids c) ms))) (\<lambda>changed.
     bind_p (read_p gw_db) (\<lambda>d.
     bind_p (lift_p Gmail_raised (map_r (removal_of env d) (ch_deleted c))) (\<lambda>removed.
     return_p (latest, concat changed @ concat removed)))))))"

section \<open>A poll\<close>

definition initial_deltas :: "string \<times> message list \<Rightarrow> (string \<times> delta list) result" where
  "initial_deltas x = bind_r (map_r (\<lambda>m. delta_new m Initial None) (snd x)) (\<lambda>ds. Inr (fst x, ds))"

definition full_sync :: "gmail_env \<Rightarrow> bool \<Rightarrow> ((string \<times> delta list) \<times> bool) gmail" where
  "full_sync env resynced =
     bind_p (bounded_full_sync env) (\<lambda>x. bind_p (lift_p Gmail_raised (initial_deltas x)) (\<lambda>y. return_p (y, resynced)))"

text \<open>A rejected cursor gets one fresh cursor and one bounded scan.\<close>

definition cursor_rejected :: "gmail_failure \<Rightarrow> bool" where
  "cursor_rejected e = (case e of Gmail_api status op \<Rightarrow> op = ''history.list'' \<and> (status = 400 \<or> status = 404) | _ \<Rightarrow> False)"

definition mailbox_changes :: "gmail_env \<Rightarrow> nat \<Rightarrow> ((string \<times> delta list) \<times> bool) gmail" where
  "mailbox_changes env patience =
     bind_p (read_p (\<lambda>w. get_checkpoint HISTORY_CHECKPOINT (gw_rows w))) (\<lambda>checkpoint.
     case checkpoint of
       None \<Rightarrow> full_sync env False
     | Some start \<Rightarrow>
         attempt_p (bind_p (incremental_sync env patience start) (\<lambda>x. return_p (x, False)))
           (\<lambda>e. if cursor_rejected e then full_sync env True else raise_p e))"

text \<open>Every poll makes its own token manager.\<close>

definition fresh_manager :: "unit gmail" where
  "fresh_manager = modify_p (\<lambda>w. w\<lparr>gw_cached := None\<rparr>)"

definition gmail_observe :: "gmail_env \<Rightarrow> nat \<Rightarrow> uuid \<Rightarrow> batch observation gmail" where
  "gmail_observe env patience correlation =
     (if \<not> gmail_configured env then oauth_fails ''oauth_not_configured''
      else if \<not> encryption_key_configured env then oauth_fails ''credential_encryption_unavailable''
      else
        bind_p fresh_manager (\<lambda>_.
        bind_p (mailbox_changes env patience) (\<lambda>((latest, ds), resynced).
        bind_p (lift_p Gmail_raised (batch_new latest ds resynced)) (\<lambda>b.
        bind_p (gmail_now env) (\<lambda>now.
        lift_p Gmail_raised (observation_new ''gmail'' ''mailbox'' (utc now) b (Some latest) (Some latest) (Some correlation)))))))"

definition GMAIL_SCHEDULE :: poll_schedule where
  "GMAIL_SCHEDULE = \<lparr>sd_interval = minutes 4, sd_timeout = seconds 90, sd_max_backoff = minutes 30, sd_jitter_ratio = 1 / 10\<rparr>"

text \<open>A poll and the transaction that stores it.\<close>

definition gmail_poll :: "gmail_env \<Rightarrow> mail_env \<Rightarrow> nat \<Rightarrow> uuid \<Rightarrow> gmail_world \<Rightarrow> (gmail_failure + batch observation) \<times> gmail_world" where
  "gmail_poll env menv patience u w =
     (case gmail_observe env patience u w of
        (Inl e, w1) \<Rightarrow> (Inl e, w1)
      | (Inr obs, w1) \<Rightarrow>
          (case ingest_gmail_observations (menv\<lparr>mi_correlation := u\<rparr>) ''gmail'' [obs] (mi_now menv)
             (\<lparr>gi_db = gw_db w1, gi_rows = gw_rows w1, gi_count = 0\<rparr>, gw_registry w1) of
             (failed, s, reg) \<Rightarrow>
               (case failed of Some e \<Rightarrow> Inl (Gmail_raised e) | None \<Rightarrow> Inr obs,
                w1\<lparr>gw_db := gi_db s, gw_rows := gi_rows s, gw_registry := reg\<rparr>)))"

end
