(* ===== verification/Gmail_Reading.thy ===== *)
theory Gmail_Reading
  imports Gmail_Sync Triples
begin

text \<open>
  What the reads of the Gmail provider leave alone and ask for, when reading the history ends, and
  what it returns.
\<close>

section \<open>What is left alone\<close>

text \<open>The cursor, the flags, the events and what identifies them.\<close>

definition gmail_kept :: "gmail_world \<Rightarrow> gmail_row list \<times> event list \<times> outbox_row list \<times> retired_row list" where
  "gmail_kept w = (gw_rows w, db_events (gw_db w), db_outbox (gw_db w), db_retired (gw_db w))"

lemma put_connection_kept [simp]:
  "db_events (put_connection now r d) = db_events d" "db_outbox (put_connection now r d) = db_outbox d"
  "db_retired (put_connection now r d) = db_retired d"
  by (simp_all add: put_connection_def)

lemma kept_simps [simp]:
  "gmail_kept (w\<lparr>gw_ticks := n\<rparr>) = gmail_kept w" "gmail_kept (w\<lparr>gw_sent := xs\<rparr>) = gmail_kept w"
  "gmail_kept (w\<lparr>gw_cached := c\<rparr>) = gmail_kept w" "gmail_kept (w\<lparr>gw_registry := r\<rparr>) = gmail_kept w"
  "gmail_kept (put_gmail now row w) = gmail_kept w"
  by (simp_all add: gmail_kept_def put_gmail_def)

lemma keeps_primitive [keeps_intros]:
  "keeps_part gmail_kept (gmail_now env)" "keeps_part gmail_kept (gmail_http env rq)" "keeps_part gmail_kept (oauth_fails code)"
  by (auto simp: keeps_part_def gmail_now_def gmail_http_def gmail_send_def bind_p_def oauth_fails_def raise_p_def return_p_def
      split: gmail_answer.split)

lemma keeps_token [keeps_intros]:
  "keeps_part gmail_kept (required v d)" "keeps_part gmail_kept (parse_token env b)" "keeps_part gmail_kept (validate_scopes s)"
  "keeps_part gmail_kept (decrypt_google env c)" "keeps_part gmail_kept (encrypt_google env t e)" "keeps_part gmail_kept (expiry_after env n)"
  unfolding required_def parse_token_def validate_scopes_def decrypt_google_def encrypt_google_def expiry_after_def
  by (intro keeps_intros)+

lemma keeps_modified [keeps_intros]:
  "keeps_part gmail_kept (modify_p (\<lambda>w. w\<lparr>gw_cached := c\<rparr>))" "keeps_part gmail_kept (modify_p (put_gmail now row))"
  "keeps_part gmail_kept (modify_p (\<lambda>w. case gmail_connection w of None \<Rightarrow> w | Some r \<Rightarrow> put_gmail now (f r) w))"
  by (auto intro!: keeps_modify split: option.split)

lemma keeps_manager [keeps_intros]:
  "keeps_part gmail_kept (need_reconnect env)" "keeps_part gmail_kept (cached_access env)" "keeps_part gmail_kept (stored_access env)"
  "keeps_part gmail_kept (google_refresh env r)" "keeps_part gmail_kept (keep_refreshed env t e)"
  unfolding need_reconnect_def cached_access_def stored_access_def google_refresh_def keep_refreshed_def
  by (intro keeps_intros)+

lemma keeps_access [keeps_intros]: "keeps_part gmail_kept (access_token env force)"
proof -
  have renew: "keeps_part gmail_kept (renew_access env t)" for t
    unfolding renew_access_def refreshed_answer_def Let_def by (intro keeps_intros)
  have "keeps_part gmail_kept (load_access env b)" for b
    unfolding load_access_def by (intro keeps_intros renew)
  then show ?thesis unfolding access_token_def by (intro keeps_intros)
qed

lemma keeps_request [keeps_intros]: "keeps_part gmail_kept (gmail_request env meth path op ps)"
  unfolding gmail_request_def gmail_answered_def by (auto intro!: keeps_intros split: option.split json.split)

lemma keeps_each [keeps_intros]: "(\<And>x. keeps_part f (g x)) \<Longrightarrow> keeps_part f (each_p g xs)"
  by (induction xs) (auto intro!: keeps_intros)

lemma keeps_values [keeps_intros]:
  "keeps_part gmail_kept (history_id v)" "keeps_part gmail_kept (received_at env d hs)"
  unfolding history_id_def received_at_def Let_def by (intro keeps_intros)+

lemma keeps_metadata [keeps_intros]:
  "keeps_part gmail_kept (metadata_from_message env d)" "keeps_part gmail_kept (message_metadata env m)"
proof -
  have "keeps_part gmail_kept (metadata_from_message env d)" for d
    unfolding metadata_from_message_def Let_def by (auto intro!: keeps_intros split: option.split)
  then show "keeps_part gmail_kept (metadata_from_message env d)" "keeps_part gmail_kept (message_metadata env m)"
    unfolding message_metadata_def by (auto intro!: keeps_intros)
qed

lemma keeps_listing [keeps_intros]:
  "keeps_part gmail_kept (profile_history_id env)" "keeps_part gmail_kept (list_messages env limit category age)"
  unfolding profile_history_id_def list_messages_def by (auto intro!: keeps_intros split: option.split)

lemma keeps_history [keeps_intros]: "keeps_part gmail_kept (gmail_history env p start)"
proof -
  have page: "keeps_part gmail_kept (next_page start g d)" for start g d
    unfolding next_page_def last_page_def Let_def by (auto intro!: keeps_intros split: option.split json.split)
  have "keeps_part gmail_kept (history_pages env n start g)" for n start g
    by (induction n arbitrary: g) (auto intro!: keeps_intros page split: sum.split)
  then show ?thesis unfolding gmail_history_def by (auto intro!: keeps_intros)
qed

lemma keeps_fetch [keeps_intros]: "keeps_part gmail_kept (fetch_batch env ids)"
  unfolding fetch_batch_def fetched_message_def by (auto intro!: keeps_intros split: gmail_failure.split)

lemma keeps_full [keeps_intros]: "keeps_part gmail_kept (full_sync env b)"
  unfolding full_sync_def bounded_full_sync_def by (auto intro!: keeps_intros)

lemma keeps_incremental [keeps_intros]: "keeps_part gmail_kept (incremental_sync env p start)"
  unfolding incremental_sync_def by (intro keeps_intros)

lemma observe_keeps: "keeps_part gmail_kept (gmail_observe env p u)"
  unfolding gmail_observe_def mailbox_changes_def fresh_manager_def by (auto intro!: keeps_intros split: prod.split)

section \<open>What is asked for\<close>

definition asks :: "(gmail_request \<Rightarrow> bool) \<Rightarrow> 'a gmail \<Rightarrow> bool" where
  "asks R m \<longleftrightarrow> (\<forall>w. \<exists>new. gw_sent (snd (m w)) = gw_sent w @ new \<and> list_all R new)"

named_theorems asks_intros

lemma asks_bind [asks_intros]:
  assumes "asks R m" "\<And>x. asks R (f x)" shows "asks R (bind_p m f)"
  unfolding asks_def
proof
  fix w
  obtain new where new: "gw_sent (snd (m w)) = gw_sent w @ new" "list_all R new" using assms(1) by (auto simp: asks_def)
  show "\<exists>new. gw_sent (snd (bind_p m f w)) = gw_sent w @ new \<and> list_all R new"
  proof (cases "fst (m w)")
    case (Inl e)
    with new show ?thesis by (auto simp: bind_p_def split: prod.splits)
  next
    case (Inr x)
    obtain more where "gw_sent (snd (f x (snd (m w)))) = gw_sent (snd (m w)) @ more" "list_all R more"
      using assms(2) by (fastforce simp: asks_def)
    with new Inr show ?thesis by (intro exI [of _ "new @ more"]) (auto simp: bind_p_def split: prod.splits)
  qed
qed

lemma asks_attempt [asks_intros]:
  assumes "asks R m" "\<And>e. asks R (h e)" shows "asks R (attempt_p m h)"
  unfolding asks_def
proof
  fix w
  obtain new where new: "gw_sent (snd (m w)) = gw_sent w @ new" "list_all R new" using assms(1) by (auto simp: asks_def)
  show "\<exists>new. gw_sent (snd (attempt_p m h w)) = gw_sent w @ new \<and> list_all R new"
  proof (cases "fst (m w)")
    case (Inr x)
    with new show ?thesis by (auto simp: attempt_p_def split: prod.splits)
  next
    case (Inl e)
    obtain more where "gw_sent (snd (h e (snd (m w)))) = gw_sent (snd (m w)) @ more" "list_all R more"
      using assms(2) by (fastforce simp: asks_def)
    with new Inl show ?thesis by (intro exI [of _ "new @ more"]) (auto simp: attempt_p_def split: prod.splits)
  qed
qed

lemma asks_nothing: "keeps_part gw_sent m \<Longrightarrow> asks R m"
  by (simp add: asks_def keeps_part_def)

lemma asks_http [asks_intros]: "R rq \<Longrightarrow> asks R (gmail_http env rq)"
  unfolding asks_def
  by (intro allI exI [of _ "[rq]"])
     (auto simp: gmail_http_def gmail_send_def bind_p_def raise_p_def return_p_def split: gmail_answer.split)

lemma asks_simple [asks_intros]:
  "asks R (return_p x)" "asks R (raise_p e)" "asks R (read_p g)" "asks R (lift_p k r)" "asks R (oauth_fails code)"
  "asks R (gmail_now env)" "asks R (modify_p (\<lambda>w. w\<lparr>gw_cached := c\<rparr>))" "asks R (modify_p (put_gmail now row))"
  "asks R (modify_p (\<lambda>w. case gmail_connection w of None \<Rightarrow> w | Some r \<Rightarrow> put_gmail now (f r) w))"
  by (auto simp: asks_def return_p_def raise_p_def read_p_def lift_p_def oauth_fails_def gmail_now_def modify_p_def put_gmail_def
      split: sum.split option.split)

lemma asks_cases [asks_intros]:
  "asks R m \<Longrightarrow> asks R n \<Longrightarrow> asks R (if b then m else n)"
  "asks R m \<Longrightarrow> (\<And>x. asks R (h x)) \<Longrightarrow> asks R (case v of None \<Rightarrow> m | Some x \<Rightarrow> h x)"
  "(\<And>x y. asks R (k x y)) \<Longrightarrow> asks R (case q of (x, y) \<Rightarrow> k x y)"
  by (simp_all split: option.split prod.split)

lemma asks_each [asks_intros]: "(\<And>x. asks R (g x)) \<Longrightarrow> asks R (each_p g xs)"
  by (induction xs) (auto intro!: asks_intros)

text \<open>
  What a poll may send: refreshes of the access token, and reads of the profile, the history, the list
  of messages and the metadata of single messages, never of a body.
\<close>

fun poll_allows :: "gmail_request \<Rightarrow> bool" where
  "poll_allows (Google_token form) = (map_of form ''grant_type'' = Some ''refresh_token'')"
| "poll_allows (Gmail_call meth path params access) =
     (meth = ''GET'' \<and> (path \<in> {''/profile'', ''/history'', ''/messages''}
        \<or> prefix ''/messages/'' path \<and> map_of params ''format'' = Some (JStr ''metadata'')))"

lemma asks_manager [asks_intros]: "asks poll_allows (access_token env force)"
proof -
  have refresh: "asks poll_allows (google_refresh env r)" for r
    unfolding google_refresh_def required_def parse_token_def validate_scopes_def
    by (auto intro!: asks_intros split: option.split)
  have reconnect: "asks poll_allows (need_reconnect env)" unfolding need_reconnect_def by (intro asks_intros)
  have keep: "asks poll_allows (keep_refreshed env t e)" for t e
    unfolding keep_refreshed_def encrypt_google_def by (auto intro!: asks_intros split: sum.split option.split)
  have renew: "asks poll_allows (renew_access env t)" for t
    unfolding renew_access_def refreshed_answer_def expiry_after_def Let_def by (intro asks_intros refresh reconnect keep)
  have stored: "asks poll_allows (stored_access env)"
    unfolding stored_access_def decrypt_google_def by (auto intro!: asks_intros split: option.split sum.split)
  have "asks poll_allows (load_access env b)" for b
    unfolding load_access_def by (intro asks_intros renew stored)
  then show ?thesis unfolding access_token_def cached_access_def by (intro asks_intros)
qed

lemma asks_request: "(\<And>a. poll_allows (Gmail_call meth path ps a)) \<Longrightarrow> asks poll_allows (gmail_request env meth path op ps)"
  unfolding gmail_request_def gmail_answered_def need_reconnect_def
  by (auto intro!: asks_intros split: option.split json.split)

lemma asks_metadata [asks_intros]: "asks poll_allows (message_metadata env mid)"
proof -
  have "asks poll_allows (metadata_from_message env d)" for d
    unfolding metadata_from_message_def received_at_def Let_def by (auto intro!: asks_intros split: option.split)
  then show ?thesis unfolding message_metadata_def by (auto intro!: asks_intros asks_request)
qed

lemma asks_listing [asks_intros]:
  "asks R (history_id v)" "asks poll_allows (profile_history_id env)" "asks poll_allows (list_messages env limit category age)"
proof -
  show h: "asks R (history_id v)" for R v unfolding history_id_def Let_def by (intro asks_intros)
  show "asks poll_allows (profile_history_id env)" unfolding profile_history_id_def by (intro asks_intros asks_request h) simp
  show "asks poll_allows (list_messages env limit category age)"
    unfolding list_messages_def by (auto intro!: asks_intros asks_request split: option.split)
qed

lemma asks_history [asks_intros]: "asks poll_allows (gmail_history env p start)"
proof -
  have page: "asks poll_allows (next_page start g d)" for start g d
    unfolding next_page_def last_page_def Let_def by (auto intro!: asks_intros split: option.split json.split)
  have "asks poll_allows (history_pages env n start g)" for n start g
    by (induction n arbitrary: g) (auto intro!: asks_intros asks_request page split: sum.split)
  then show ?thesis unfolding gmail_history_def by (intro asks_intros)
qed

text \<open>
  C25.  A Gmail poll only reads, and only what it needs.  Whatever Google answers, every request a poll
  sends is a refresh of the access token or a \<open>GET\<close> of the profile, the history, the message list or
  the metadata of one message; it never asks for the body of a message and never changes the mailbox.
\<close>

theorem gmail_reads_only:
  "\<exists>new. gw_sent (snd (gmail_observe env patience u w)) = gw_sent w @ new \<and> list_all poll_allows new"
proof -
  have fetch: "asks poll_allows (fetch_batch env ids)" for ids
    unfolding fetch_batch_def fetched_message_def by (auto intro!: asks_intros split: gmail_failure.split)
  have full: "asks poll_allows (full_sync env b)" for b
    unfolding full_sync_def bounded_full_sync_def by (intro asks_intros fetch)
  have "asks poll_allows (gmail_observe env patience u)"
    unfolding gmail_observe_def mailbox_changes_def incremental_sync_def fresh_manager_def
    by (auto intro!: asks_intros fetch full split: prod.split)
  then show ?thesis by (auto simp: asks_def)
qed

end
