(* ===== verification/Gmail_History.thy ===== *)
theory Gmail_History
  imports Gmail_Reading
begin

text \<open>
  Reading the history: that it ends, what it returns, and what it skips.
\<close>

section \<open>It ends\<close>

text \<open>The request is not cancelled, and page tokens come from a fixed set.\<close>

definition calm :: "gmail_env \<Rightarrow> bool" where
  "calm env \<longleftrightarrow> (\<forall>n r. gy_answer env n r \<noteq> Google_cancelled)"

definition tokens_from :: "string set \<Rightarrow> dict \<Rightarrow> bool" where
  "tokens_from T d \<longleftrightarrow> (\<forall>t. dict_get d ''nextPageToken'' = Some (JStr t) \<longrightarrow> t \<in> T)"

definition pages_from :: "gmail_env \<Rightarrow> string set \<Rightarrow> bool" where
  "pages_from env T \<longleftrightarrow> (\<forall>n r status retry d. gy_answer env n r = Google_answer status retry (Some (JDict d)) \<longrightarrow> tokens_from T d)"

abbreviation "undisturbed \<equiv> raises (\<lambda>e. e \<noteq> Gmail_cancelled)"

lemma undisturbed_http: "calm env \<Longrightarrow> undisturbed (gmail_http env rq)"
  by (auto simp: calm_def raises_def gmail_http_def gmail_send_def bind_p_def raise_p_def return_p_def split: gmail_answer.split)

lemma undisturbed_simple [raises_intros]:
  "undisturbed (gmail_now env)" "undisturbed (oauth_fails c)" "undisturbed (expiry_after env n)"
  "undisturbed (required v d)" "undisturbed (parse_token env b)" "undisturbed (validate_scopes s)"
  "undisturbed (decrypt_google env x)" "undisturbed (encrypt_google env t e)"
  by (auto simp: raises_def gmail_now_def oauth_fails_def raise_p_def return_p_def expiry_after_def bind_p_def lift_p_def
      required_def parse_token_def validate_scopes_def decrypt_google_def encrypt_google_def split: sum.splits option.splits if_splits)

lemma undisturbed_manager:
  assumes "calm env" shows "undisturbed (access_token env force)" "undisturbed (need_reconnect env)"
proof -
  show reconnect: "undisturbed (need_reconnect env)" unfolding need_reconnect_def by (intro raises_intros)
  have refresh: "undisturbed (google_refresh env r)" for r
    unfolding google_refresh_def by (auto intro!: raises_intros undisturbed_http assms)
  have refreshed: "undisturbed (refreshed_answer env t)" for t
    unfolding refreshed_answer_def
    by (rule raises_attempt [OF refresh]) (auto intro!: raises_intros reconnect)
  have keep: "undisturbed (keep_refreshed env t e)" for t e
    unfolding keep_refreshed_def by (auto intro!: raises_intros)
  have renew: "undisturbed (renew_access env t)" for t
    unfolding renew_access_def Let_def by (intro raises_intros refreshed keep)
  have stored: "undisturbed (stored_access env)" unfolding stored_access_def by (auto intro!: raises_intros)
  have "undisturbed (load_access env b)" for b
    unfolding load_access_def by (auto intro!: raises_intros renew stored)
  then show "undisturbed (access_token env force)"
    unfolding access_token_def cached_access_def by (auto intro!: raises_intros)
qed

lemma undisturbed_request: "calm env \<Longrightarrow> undisturbed (gmail_request env meth path op ps)"
  unfolding gmail_request_def gmail_answered_def
  by (auto intro!: raises_intros undisturbed_manager undisturbed_http split: option.split json.split)

lemma undisturbed_history_id [raises_intros]: "undisturbed (history_id v)"
  unfolding history_id_def Let_def by (auto intro!: raises_intros)

lemma undisturbed_page: "undisturbed (next_page start g d)"
  unfolding next_page_def last_page_def Let_def by (auto intro!: raises_intros split: json.split)

lemma http_tokens: "pages_from env T \<Longrightarrow> ensures (\<lambda>_. True) (gmail_http env rq)
   (\<lambda>(status, retry, body). \<forall>d. body = Some (JDict d) \<longrightarrow> tokens_from T d)"
  by (auto simp: ensures_def gmail_http_def gmail_send_def bind_p_def raise_p_def return_p_def pages_from_def split: gmail_answer.split)

lemma ensures_true: "ensures (\<lambda>_. True) m (\<lambda>_. True)"
  by (simp add: ensures_def)

lemma answered_tokens:
  "(\<forall>d. snd (snd r) = Some (JDict d) \<longrightarrow> P d) \<Longrightarrow> ensures (\<lambda>_. True) (gmail_answered env op r) P"
  unfolding gmail_answered_def
  by (auto intro!: ensures_intros ensures_bind [OF ensures_true] split: prod.split option.split json.split)

lemma request_tokens:
  assumes "pages_from env T" shows "ensures (\<lambda>_. True) (gmail_request env meth path op ps) (tokens_from T)"
proof -
  let ?Q = "\<lambda>(status :: int, retry :: string option, body). \<forall>d. body = Some (JDict d) \<longrightarrow> tokens_from T d"
  have retried: "ensures (\<lambda>_. True) (if fst first = 401
      then bind_p (access_token env True) (\<lambda>renewed. gmail_http env (Gmail_call meth path ps renewed)) else return_p first) ?Q"
    if "?Q first" for first
    using that by (auto intro!: ensures_if ensures_bind [OF ensures_true] http_tokens assms ensures_return)
  show ?thesis
    unfolding gmail_request_def
    by (rule ensures_bind [OF ensures_true], rule ensures_bind [OF http_tokens [OF assms]], rule ensures_bind [OF retried])
       (auto intro!: answered_tokens split: prod.splits)
qed

lemma next_page_fresh:
  assumes "next_page start g d w = (Inr (Inr g'), w')" "tokens_from T d"
  shows "\<exists>t. t \<in> T \<and> t \<notin> set (pg_seen g) \<and> pg_seen g' = t # pg_seen g"
proof -
  have "\<exists>t. dict_get d ''nextPageToken'' = Some (JStr t) \<and> t \<notin> set (pg_seen g) \<and> pg_seen g' = t # pg_seen g"
    using assms(1)
    by (auto simp: next_page_def Let_def bind_p_def return_p_def raise_p_def split: if_splits json.splits option.splits prod.splits sum.splits)
  with assms(2) show ?thesis by (auto simp: tokens_from_def)
qed

lemma pages_end:
  assumes "calm env" "pages_from env T" "finite T" "set (pg_seen g) \<subseteq> T"
    "card (T - set (pg_seen g)) < n" "card (T - set (pg_seen g)) < m"
  shows "history_pages env n start g w = history_pages env m start g w \<and> fst (history_pages env n start g w) \<noteq> Inl Gmail_cancelled"
  using assms(4-6)
proof (induction n arbitrary: m g w)
  case (Suc n)
  then obtain m' where m: "m = Suc m'" by (cases m) auto
  let ?req = "gmail_request env ''GET'' ''/history'' ''history.list'' (history_params start (pg_token g))"
  obtain r w1 where r: "?req w = (r, w1)" by fastforce
  show ?case
  proof (cases r)
    case (Inl e)
    with raisesD [OF undisturbed_request [OF assms(1)], of _ _ _ _ w e w1] r have "e \<noteq> Gmail_cancelled" by auto
    with Inl r show ?thesis by (simp add: m bind_p_def)
  next
    case (Inr d)
    have d: "tokens_from T d" using ensuresD [OF request_tokens [OF assms(2)] TrueI r] Inr by simp
    obtain s w2 where s: "next_page start g d w1 = (s, w2)" by fastforce
    show ?thesis
    proof (cases s)
      case (Inl e)
      with raisesD [OF undisturbed_page, of start g d w1 e w2] s have "e \<noteq> Gmail_cancelled" by auto
      with Inl Inr r s show ?thesis by (simp add: m bind_p_def)
    next
      case (Inr y)
      show ?thesis
      proof (cases y)
        case (Inl x)
        with Inr \<open>r = Inr d\<close> r s show ?thesis by (simp add: m bind_p_def return_p_def)
      next
        case (Inr g')
        with s \<open>s = Inr y\<close> next_page_fresh [OF _ d] obtain t where t: "t \<in> T" "t \<notin> set (pg_seen g)" "pg_seen g' = t # pg_seen g" by blast
        have "T - set (pg_seen g') = (T - set (pg_seen g)) - {t}" using t(3) by auto
        moreover have "0 < card (T - set (pg_seen g))" using t(1,2) assms(3) by (metis DiffI card_gt_0_iff empty_iff finite_Diff)
        ultimately have "card (T - set (pg_seen g')) < card (T - set (pg_seen g))" using t(1,2) assms(3) by simp
        with Suc.prems t(1,3) m have "set (pg_seen g') \<subseteq> T" "card (T - set (pg_seen g')) < n" "card (T - set (pg_seen g')) < m'" by auto
        from Suc.IH [OF this] Inr \<open>s = Inr y\<close> \<open>r = Inr d\<close> r s show ?thesis by (simp add: m bind_p_def) metis
      qed
    qed
  qed
qed simp

section \<open>A concrete mailbox\<close>

text \<open>A page's records, cursor and token of the next page.\<close>

definition page_body :: "dict list \<Rightarrow> string \<Rightarrow> string option \<Rightarrow> dict" where
  "page_body rs cursor nx =
     [(''history'', JList (map JDict rs)), (''historyId'', JStr cursor)]
     @ (case nx of None \<Rightarrow> [] | Some t \<Rightarrow> [(''nextPageToken'', JStr t)])"

text \<open>A server with a history of two pages, asked from the cursor 5.\<close>

definition sample_page :: "(string \<times> json) list \<Rightarrow> dict" where
  "sample_page ps = (if ps = history_params ''5'' None then page_body [[(''id'', JStr ''7'')]] ''9'' (Some ''t'')
     else page_body [[(''id'', JStr ''8'')]] ''9'' None)"

definition sample_gmail :: gmail_env where
  "sample_gmail = \<lparr>gy_settings = sample_settings, gy_fernet = \<lambda>k. None,
     gy_answer = \<lambda>n r. case r of Google_token fs \<Rightarrow> Google_failed | Gmail_call meth path ps a \<Rightarrow> Google_answer 200 None (Some (JDict (sample_page ps))),
     gy_clock = \<lambda>n. 0, gy_dumps = \<lambda>v. [], gy_loads = \<lambda>s. None, gy_encode = \<lambda>s. [], gy_bytes = \<lambda>b. [], gy_sign = \<lambda>k m. [],
     gy_int = \<lambda>v. None, gy_datetime = \<lambda>v. None, gy_parse_date = \<lambda>s. None, gy_seconds = \<lambda>s. None, gy_clean = \<lambda>s. s, gy_decode = \<lambda>s. None\<rparr>"

definition sample_mailbox :: gmail_world where
  "sample_mailbox = \<lparr>gw_db = empty_db, gw_rows = [], gw_sent = [], gw_ticks = 0,
     gw_cached = Some \<lparr>gt_access = ''a'', gt_refresh = ''r'', gt_expires_at = utc (hours 1)\<rparr>, gw_registry = []\<rparr>"

lemma sample_calm: "calm sample_gmail"
  by (simp add: calm_def sample_gmail_def split: gmail_request.split)

lemma sample_pages_from: "pages_from sample_gmail {''t''}"
  by (auto simp: pages_from_def sample_gmail_def tokens_from_def sample_page_def page_body_def dict_get_def split: gmail_request.splits if_splits)

section \<open>Enough patience\<close>

text \<open>
  C28.  Reading the Gmail history ends.  However the server answers, when the page tokens it hands out
  come from a finite set, at most one page more is read than there are tokens: with more patience than
  that the result is the same, and it is never the cancellation of a poll that did not end.
\<close>

theorem gmail_history_terminates:
  assumes "calm env" "finite T" "pages_from env T" "card T < n" "card T < m"
  shows "gmail_history env n start w = gmail_history env m start w \<and> fst (gmail_history env n start w) \<noteq> Inl Gmail_cancelled"
proof -
  obtain r w1 where r: "history_id (Some (JStr start)) w = (r, w1)" by fastforce
  show ?thesis
  proof (cases r)
    case (Inl e)
    with raisesD [OF undisturbed_history_id, of "Some (JStr start)" w e w1] r show ?thesis by (simp add: gmail_history_def bind_p_def)
  next
    case (Inr h)
    with pages_end [OF assms(1,3,2), of "\<lparr>pg_records = [], pg_token = None, pg_seen = []\<rparr>" n m] assms(4,5) r
    show ?thesis by (simp add: gmail_history_def bind_p_def) metis
  qed
qed

lemma gmail_history_terminates_witness:
  "gmail_history sample_gmail 2 ''5'' sample_mailbox = gmail_history sample_gmail 900 ''5'' sample_mailbox
     \<and> fst (gmail_history sample_gmail 2 ''5'' sample_mailbox) \<noteq> Inl Gmail_cancelled"
  by (rule gmail_history_terminates [OF sample_calm _ sample_pages_from]) simp_all

section \<open>What it returns\<close>

text \<open>An access token in memory that outlives the poll.\<close>

definition signed_in :: "gmail_env \<Rightarrow> gmail_world \<Rightarrow> bool" where
  "signed_in env w \<longleftrightarrow> (case gw_cached w of
      None \<Rightarrow> False
    | Some t \<Rightarrow> (case to_utc (gt_expires_at t) of None \<Rightarrow> False | Some e \<Rightarrow> \<forall>n. gy_clock env n + seconds 60 < e))"

definition answers_with :: "gmail_env \<Rightarrow> string \<Rightarrow> (string \<times> json) list \<Rightarrow> dict \<Rightarrow> bool" where
  "answers_with env path ps d \<longleftrightarrow> (\<forall>n access. gy_answer env n (Gmail_call ''GET'' path ps access) = Google_answer 200 None (Some (JDict d)))"

lemma request_answered:
  assumes "signed_in env w" "answers_with env path ps d"
  shows "\<exists>w'. gmail_request env ''GET'' path op ps w = (Inr d, w') \<and> signed_in env w'"
proof -
  obtain t e where "gw_cached w = Some t" "to_utc (gt_expires_at t) = Some e" "\<forall>n. gy_clock env n + seconds 60 < e"
    using assms(1) by (auto simp: signed_in_def split: option.splits)
  then show ?thesis
    using assms(2)
    by (simp add: gmail_request_def access_token_def cached_access_def bind_p_def read_p_def gmail_now_def valid_until_def
        lift_p_def return_p_def gmail_http_def gmail_send_def answers_with_def gmail_answered_def signed_in_def)
qed

text \<open>A server with these pages.\<close>

fun serves :: "gmail_env \<Rightarrow> string \<Rightarrow> string \<Rightarrow> string option \<Rightarrow> dict list \<Rightarrow> (string \<times> dict list) list \<Rightarrow> bool" where
  "serves env start cursor page rs [] = answers_with env ''/history'' (history_params start page) (page_body rs cursor None)"
| "serves env start cursor page rs ((t, rs') # qs) =
     (answers_with env ''/history'' (history_params start page) (page_body rs cursor (Some t)) \<and> serves env start cursor (Some t) rs' qs)"

lemma page_body_get:
  "dict_get (page_body rs cursor nx) ''history'' = Some (JList (map JDict rs))"
  "dict_get (page_body rs cursor nx) ''historyId'' = Some (JStr cursor)"
  "dict_get (page_body rs cursor nx) ''nextPageToken'' = map_option JStr nx"
  by (simp_all add: page_body_def dict_get_def split: option.split)

lemma dicts_of_map [simp]: "dicts_of (map JDict rs) = rs"
  by (induction rs) simp_all

lemma page_records_all: "have + length rs \<le> HISTORY_LIMIT \<Longrightarrow> page_records have (page_body rs cursor nx) = rs"
  by (simp add: page_records_def page_body_get)

lemma history_text_id: "history_text_ok s \<Longrightarrow> history_id (Some (JStr s)) = return_p s"
  by (simp add: history_id_def)

lemma next_page_last:
  assumes "history_text_ok cursor" "length (pg_records g) + length rs \<le> HISTORY_LIMIT"
  shows "next_page start g (page_body rs cursor None) = return_p (Inl (cursor, pg_records g @ rs))"
  using assms
  by (auto simp: next_page_def page_body_get page_records_all last_page_def history_text_id bind_p_def return_p_def fun_eq_iff
      history_text_ok_def)

lemma next_page_more:
  assumes "length (pg_records g) + length rs < HISTORY_LIMIT" "t \<noteq> []" "t \<notin> set (pg_seen g)"
  shows "next_page start g (page_body rs cursor (Some t))
    = return_p (Inr \<lparr>pg_records = pg_records g @ rs, pg_token = Some t, pg_seen = t # pg_seen g\<rparr>)"
  using assms by (simp add: next_page_def page_body_get page_records_all)

lemma pages_complete:
  assumes "serves env start cursor (pg_token g) rs qs" "signed_in env w" "history_text_ok cursor"
    "distinct (rev (pg_seen g) @ map fst qs)" "[] \<notin> set (map fst qs)"
    "length (pg_records g) + length rs + sum_list (map (length \<circ> snd) qs) < HISTORY_LIMIT" "length qs < n"
  shows "fst (history_pages env n start g w) = Inr (cursor, pg_records g @ rs @ concat (map snd qs))"
  using assms
proof (induction qs arbitrary: g rs n w)
  case Nil
  then obtain k where k: "n = Suc k" by (cases n) auto
  obtain w' where "gmail_request env ''GET'' ''/history'' ''history.list'' (history_params start (pg_token g)) w = (Inr (page_body rs cursor None), w')"
    using request_answered [OF Nil(2)] Nil(1) by (metis serves.simps(1))
  with Nil show ?case by (simp add: k bind_p_def next_page_last return_p_def)
next
  case (Cons q qs)
  obtain t rs' where q: "q = (t, rs')" by fastforce
  obtain k where k: "n = Suc k" using Cons.prems(7) by (cases n) auto
  obtain w' where w': "gmail_request env ''GET'' ''/history'' ''history.list'' (history_params start (pg_token g)) w
      = (Inr (page_body rs cursor (Some t)), w')" "signed_in env w'"
    using request_answered [OF Cons.prems(2)] Cons.prems(1) q by (metis serves.simps(2))
  let ?g = "\<lparr>pg_records = pg_records g @ rs, pg_token = Some t, pg_seen = t # pg_seen g\<rparr>"
  have "next_page start g (page_body rs cursor (Some t)) = return_p (Inr ?g)"
    by (rule next_page_more) (use Cons.prems q in auto)
  then have "fst (history_pages env n start g w) = fst (history_pages env k start ?g w')"
    by (simp add: k w' bind_p_def return_p_def)
  also have "\<dots> = Inr (cursor, pg_records ?g @ rs' @ concat (map snd qs))"
    by (rule Cons.IH) (use Cons.prems q k w'(2) in auto)
  finally show ?case by (simp add: q)
qed



section \<open>What it skips\<close>

text \<open>
  When the page that reaches fifty records is the last one, the records beyond the fiftieth are dropped
  and the cursor is the mailbox's all the same: the changes they stand for are never read.
\<close>

lemma history_overflow_skips:
  assumes "signed_in env w" "history_text_ok start" "history_text_ok cursor" "serves env start cursor None rs [(t, rs')]" "t \<noteq> []"
    "length rs < 50" "50 < length rs + length rs'" "1 < patience"
  shows "fst (gmail_history env patience start w) = Inr (cursor, rs @ take (50 - length rs) rs')"
proof -
  let ?g = "\<lparr>pg_records = [], pg_token = None, pg_seen = []\<rparr>" and ?g' = "\<lparr>pg_records = rs, pg_token = Some t, pg_seen = [t]\<rparr>"
  obtain k where k: "patience = Suc (Suc k)" using assms(8) by (cases patience; cases "patience - 1") auto
  obtain w1 where w1: "gmail_request env ''GET'' ''/history'' ''history.list'' (history_params start None) w
      = (Inr (page_body rs cursor (Some t)), w1)" "signed_in env w1"
    using request_answered [OF assms(1)] assms(4) by (metis serves.simps(2))
  obtain w2 where w2: "gmail_request env ''GET'' ''/history'' ''history.list'' (history_params start (Some t)) w1
      = (Inr (page_body rs' cursor None), w2)"
    using request_answered [OF w1(2)] assms(4) by (metis serves.simps)
  have one: "next_page start ?g (page_body rs cursor (Some t)) = return_p (Inr ?g')"
    using next_page_more [of ?g rs t start cursor] assms(5,6) by (simp add: HISTORY_LIMIT_def)
  have "page_records (length rs) (page_body rs' cursor None) = take (50 - length rs) rs'"
    by (simp add: page_records_def page_body_get HISTORY_LIMIT_def take_map)
  then have two: "next_page start ?g' (page_body rs' cursor None) = return_p (Inl (cursor, rs @ take (50 - length rs) rs'))"
    using assms(3)
    by (auto simp: next_page_def page_body_get last_page_def history_text_id bind_p_def return_p_def fun_eq_iff history_text_ok_def)
  show ?thesis
    by (simp add: gmail_history_def history_text_id assms(2) bind_p_def return_p_def k w1(1) w2 one [unfolded return_p_def] two [unfolded return_p_def])
qed

end
