(* ===== verification/Gmail_Delivery.thy ===== *)
theory Gmail_Delivery
  imports Gmail_Sync Triples
begin

text \<open>
  What a batch leaves behind, and what ingesting it again adds: nothing.
\<close>

section \<open>Checkpoint rows\<close>

lemma get_set_checkpoint [simp]:
  "get_checkpoint k (set_checkpoint stamp k' v observed rs) = (if k = k' then Some v else get_checkpoint k rs)"
  by (induction rs) auto

lemma get_delete_checkpoint [simp]:
  "get_checkpoint k (delete_checkpoint k' rs) = (if k = k' then None else get_checkpoint k rs)"
  by (induction rs) (auto simp: delete_checkpoint_def)

lemma get_filter_checkpoint:
  "get_checkpoint k (filter (\<lambda>r. P (gr_key r)) rs) = (if P k then get_checkpoint k rs else None)"
  by (induction rs) auto

lemma get_trim:
  "get_checkpoint k (trim_message_states rs) = None \<or> get_checkpoint k (trim_message_states rs) = get_checkpoint k rs"
  using get_filter_checkpoint [of k "\<lambda>k. k \<notin> gr_key ` set (drop MESSAGE_STATE_LIMIT (newest_first rs))" rs]
  by (simp add: trim_message_states_def)

text \<open>Trimming never touches the cursor.\<close>

lemma newest_first_keys: "r \<in> set (newest_first rs) \<Longrightarrow> prefix MESSAGE_STATE_PREFIX (gr_key r)"
  by (auto simp: newest_first_def)

lemma trim_keeps_cursor: "get_checkpoint HISTORY_CHECKPOINT (trim_message_states rs) = get_checkpoint HISTORY_CHECKPOINT rs"
proof -
  have "\<not> prefix MESSAGE_STATE_PREFIX HISTORY_CHECKPOINT" by code_simp
  then have "HISTORY_CHECKPOINT \<notin> gr_key ` set (drop MESSAGE_STATE_LIMIT (newest_first rs))"
    using newest_first_keys by (force dest: in_set_dropD)
  then show ?thesis
    using get_filter_checkpoint [of HISTORY_CHECKPOINT "\<lambda>k. k \<notin> gr_key ` set (drop MESSAGE_STATE_LIMIT (newest_first rs))" rs]
    by (simp add: trim_message_states_def)
qed

lemma state_key_inject [simp]: "state_key m = state_key n \<longleftrightarrow> m = n"
  by (simp add: state_key_def)

lemma state_key_cursor [simp]: "state_key m \<noteq> HISTORY_CHECKPOINT" "HISTORY_CHECKPOINT \<noteq> state_key m"
  by (simp_all add: state_key_def MESSAGE_STATE_PREFIX_def HISTORY_CHECKPOINT_def)

section \<open>Events\<close>

abbreviation mail_known :: "mail_env \<Rightarrow> ingest_state \<Rightarrow> string set" where
  "mail_known env s \<equiv> known_keys (mi_hash env) (gi_db s)"

lemma persist_mail_known:
  assumes "persist_mail env etype stype sid dedupe m extra s = Inr t"
  shows "mail_known env t = insert dedupe (mail_known env s) \<and> gi_rows t = gi_rows s"
  using assms
  by (auto simp: persist_mail_def mail_event_def canonical_event_new_def bind_simps ensure_def require_aware_def
      split: if_splits dest!: store.persist_known_grows)

text \<open>An event whose key is known is refused.\<close>

definition mail_fits :: "string \<Rightarrow> string \<Rightarrow> string \<Rightarrow> string \<Rightarrow> bool" where
  "mail_fits etype stype sid dedupe \<longleftrightarrow> length etype \<le> 100 \<and> length stype \<le> 50 \<and> length sid \<le> 100 \<and> length dedupe \<le> 255 \<and> dedupe \<noteq> []"

lemma persist_mail_again:
  assumes "mail_fits etype stype sid dedupe" "dedupe \<in> mail_known env s"
  shows "persist_mail env etype stype sid dedupe m extra s = Inr (s\<lparr>gi_count := Suc (gi_count s)\<rparr>)"
proof -
  obtain e where e: "mail_event env (gi_count s) etype stype sid dedupe m extra = Inr e" "ev_dedupe_key e = dedupe" "event_fits e"
    using assms(1) by (simp add: mail_event_def mail_fits_def event_fits_def int32_def)
  have "persist_event_and_outbox (mi_hash env) (mi_topic env) (mi_stamp env (gi_count s)) e (gi_db s) = Inr (False, gi_db s)"
    by (rule store.persist_known) (use e assms(2) in simp_all)
  then show ?thesis by (simp add: persist_mail_def e(1))
qed

section \<open>What a delta leaves behind\<close>

definition delta_ok :: "delta \<Rightarrow> bool" where
  "delta_ok x \<longleftrightarrow> message_ok (dl_metadata x) \<and> (case dl_history_id x of None \<Rightarrow> True | Some h \<Rightarrow> history_text_ok h)"

definition batch_ok :: "batch \<Rightarrow> bool" where
  "batch_ok b \<longleftrightarrow> history_text_ok (ba_history_id b) \<and> list_all delta_ok (ba_messages b)
     \<and> distinct (map (\<lambda>x. me_message_id (dl_metadata x)) (ba_messages b))"

abbreviation delta_id :: "delta \<Rightarrow> string" where
  "delta_id x \<equiv> me_message_id (dl_metadata x)"

text \<open>The keys of the events that a delta always makes.\<close>

definition delta_keys :: "delta \<Rightarrow> string set" where
  "delta_keys x = (case dl_change x of
      Message_removed \<Rightarrow> {removed_key (dl_history_id x) (delta_id x)}
    | Labels_changed \<Rightarrow> {}
    | _ \<Rightarrow> {received_key (delta_id x), thread_key (delta_id x)})"

definition left_behind :: "mail_env \<Rightarrow> delta \<Rightarrow> ingest_state \<Rightarrow> bool" where
  "left_behind env x s \<longleftrightarrow> delta_keys x \<subseteq> mail_known env s
     \<and> (if dl_change x = Message_removed then get_checkpoint (state_key (delta_id x)) (gi_rows s) = None
        else get_checkpoint (state_key (delta_id x)) (gi_rows s) \<in> {None, Some (state_text env (dl_metadata x))})"

lemma write_row_simps [simp]:
  "gi_db (write_row env k v s) = gi_db s"
  "get_checkpoint k' (gi_rows (write_row env k v s)) = (if k' = k then Some v else get_checkpoint k' (gi_rows s))"
  by (simp_all add: write_row_def)

lemma keep_state_simps [simp]:
  "gi_db (keep_state env m s) = gi_db s"
  "get_checkpoint k (gi_rows (keep_state env m s)) = (if k = state_key (me_message_id m) then Some (state_text env m) else get_checkpoint k (gi_rows s))"
  by (simp_all add: keep_state_def)

lemma persist_received_known:
  assumes "persist_received env m s = Inr t"
  shows "mail_known env t = {received_key (me_message_id m), thread_key (me_message_id m)} \<union> mail_known env s \<and> gi_rows t = gi_rows s"
  using assms by (auto simp: persist_received_def bind_simps dest!: persist_mail_known)

lemma persist_labels_known:
  assumes "persist_labels env b h m s = Inr t"
  shows "mail_known env s \<subseteq> mail_known env t \<and> gi_rows t = gi_rows s"
  using assms by (auto simp: persist_labels_def bind_simps split: option.splits if_splits dest!: persist_mail_known)

lemma ingest_delta_effect:
  assumes "ingest_delta env b x s = Inr t"
  shows "mail_known env s \<subseteq> mail_known env t" "left_behind env x t"
    "k \<noteq> state_key (delta_id x) \<Longrightarrow> get_checkpoint k (gi_rows t) = get_checkpoint k (gi_rows s)"
proof -
  have "mail_known env s \<subseteq> mail_known env t \<and> left_behind env x t
     \<and> (k \<noteq> state_key (delta_id x) \<longrightarrow> get_checkpoint k (gi_rows t) = get_checkpoint k (gi_rows s))"
  proof (cases "dl_change x")
    case Message_removed
    with assms show ?thesis
      by (auto simp: ingest_delta_def Let_def persist_removed_def bind_simps left_behind_def delta_keys_def dest!: persist_mail_known)
  next
    case Labels_changed
    with assms show ?thesis
      by (auto simp: ingest_delta_def Let_def bind_simps left_behind_def delta_keys_def dest!: persist_labels_known)
  next
    case Initial
    with assms show ?thesis
      by (auto simp: ingest_delta_def Let_def bind_simps left_behind_def delta_keys_def dest!: persist_received_known)
  next
    case Message_added
    with assms show ?thesis
      by (auto simp: ingest_delta_def Let_def bind_simps left_behind_def delta_keys_def dest!: persist_received_known)
  qed
  then show "mail_known env s \<subseteq> mail_known env t" "left_behind env x t"
    "k \<noteq> state_key (delta_id x) \<Longrightarrow> get_checkpoint k (gi_rows t) = get_checkpoint k (gi_rows s)" by blast+
qed

section \<open>What a batch leaves behind\<close>

lemma left_behind_kept:
  assumes "left_behind env x s" "mail_known env s \<subseteq> mail_known env t"
    "get_checkpoint (state_key (delta_id x)) (gi_rows t) = get_checkpoint (state_key (delta_id x)) (gi_rows s)"
  shows "left_behind env x t"
  using assms by (auto simp: left_behind_def)

lemma deltas_left_behind:
  assumes "fold_r (ingest_delta env b) xs s = Inr t" "distinct (map delta_id xs)"
  shows "(\<forall>x \<in> set xs. left_behind env x t) \<and> mail_known env s \<subseteq> mail_known env t
     \<and> (\<forall>k. k \<notin> state_key ` delta_id ` set xs \<longrightarrow> get_checkpoint k (gi_rows t) = get_checkpoint k (gi_rows s))"
  using assms
proof (induction xs arbitrary: s)
  case (Cons x xs)
  from Cons.prems(1) obtain u where u: "ingest_delta env b x s = Inr u" "fold_r (ingest_delta env b) xs u = Inr t"
    by (auto simp: bind_simps)
  note one = ingest_delta_effect [OF u(1)]
  from Cons.IH [OF u(2)] Cons.prems(2)
  have rest: "\<forall>x \<in> set xs. left_behind env x t" "mail_known env u \<subseteq> mail_known env t"
    "\<forall>k. k \<notin> state_key ` delta_id ` set xs \<longrightarrow> get_checkpoint k (gi_rows t) = get_checkpoint k (gi_rows u)" by simp_all
  have "state_key (delta_id x) \<notin> state_key ` delta_id ` set xs" using Cons.prems(2) by auto
  with rest(2,3) one(2) have "left_behind env x t" by (auto intro: left_behind_kept)
  with rest one show ?case by auto
qed simp

lemma batch_left_behind:
  assumes "ingest_gmail_batch env b s = Inr t" "distinct (map delta_id (ba_messages b))"
  shows "\<forall>x \<in> set (ba_messages b). left_behind env x t"
    "get_checkpoint HISTORY_CHECKPOINT (gi_rows t) = Some (ba_history_id b)"
    "mail_known env s \<subseteq> mail_known env t"
proof -
  obtain u where u: "fold_r (ingest_delta env (ba_history_id b)) (ba_messages b) s = Inr u"
    and t: "t = (write_row env HISTORY_CHECKPOINT (ba_history_id b) u)
        \<lparr>gi_rows := trim_message_states (gi_rows (write_row env HISTORY_CHECKPOINT (ba_history_id b) u))\<rparr>"
    using assms(1) by (auto simp: ingest_gmail_batch_def bind_simps Let_def)
  note all = deltas_left_behind [OF u assms(2)]
  show "get_checkpoint HISTORY_CHECKPOINT (gi_rows t) = Some (ba_history_id b)" by (simp add: t trim_keeps_cursor)
  show "mail_known env s \<subseteq> mail_known env t" using all by (simp add: t)
  show "\<forall>x \<in> set (ba_messages b). left_behind env x t"
  proof
    fix x assume "x \<in> set (ba_messages b)"
    with all have "left_behind env x u" by blast
    moreover have "get_checkpoint (state_key (delta_id x)) (gi_rows t) = None
        \<or> get_checkpoint (state_key (delta_id x)) (gi_rows t) = get_checkpoint (state_key (delta_id x)) (gi_rows u)"
      using get_trim [of "state_key (delta_id x)" "gi_rows (write_row env HISTORY_CHECKPOINT (ba_history_id b) u)"] by (simp add: t)
    ultimately show "left_behind env x t" by (auto simp: left_behind_def t split: if_splits)
  qed
qed

section \<open>Once more\<close>

definition state_json :: "message \<Rightarrow> dict" where
  "state_json m = [(''thread_id'', JStr (me_thread_id m)), (''unread'', JBool (me_unread m)), (''important'', JBool (me_important m))]"

text \<open>\<open>json.loads\<close> reads back what \<open>json.dumps\<close> made of the flags.\<close>

definition reads_back :: "mail_env \<Rightarrow> bool" where
  "reads_back env \<longleftrightarrow> (\<forall>m. mi_loads env (mi_dumps env (JDict (state_json m))) = Some (JDict (state_json m)))"

lemma flags_unchanged: "reads_back env \<Longrightarrow> flags_changed env (state_text env m) m = Inr False"
  unfolding flags_changed_def state_text_def state_json_def [symmetric]
  by (simp add: reads_back_def) (simp add: state_json_def dict_get_def same_flag_def)

text \<open>A later ingestion has another clock and other identifiers.\<close>

definition later :: "mail_env \<Rightarrow> instant \<Rightarrow> (nat \<Rightarrow> instant) \<Rightarrow> (nat \<Rightarrow> uuid) \<Rightarrow> uuid \<Rightarrow> mail_env" where
  "later env now stamp ids c = env\<lparr>mi_now := now, mi_stamp := stamp, mi_uuid := ids, mi_correlation := c\<rparr>"

lemma later_simps [simp]:
  "mi_hash (later env now stamp ids c) = mi_hash env" "state_text (later env now stamp ids c) m = state_text env m"
  "flags_changed (later env now stamp ids c) p m = flags_changed env p m"
  by (simp_all add: later_def state_text_def flags_changed_def)

lemma received_fits:
  assumes "message_ok m"
  shows "mail_fits ''mail.message.received'' ''email'' (me_message_id m) (received_key (me_message_id m))"
    "mail_fits ''mail.thread.updated'' ''email_thread'' (me_thread_id m) (thread_key (me_message_id m))"
  using assms by (auto simp: mail_fits_def message_ok_def id_ok_def received_key_def thread_key_def)

lemma removed_fits:
  assumes "message_ok m" "case h of None \<Rightarrow> True | Some s \<Rightarrow> history_text_ok s"
  shows "mail_fits ''mail.thread.updated'' ''email_thread'' (me_thread_id m) (removed_key h (me_message_id m))"
  using assms by (auto simp: mail_fits_def message_ok_def id_ok_def removed_key_def history_text_ok_def split: option.splits)

lemma ingest_delta_again:
  assumes "delta_ok x" "left_behind env x s" "reads_back env"
  shows "\<exists>t. ingest_delta (later env now stamp ids c) b x s = Inr t \<and> gi_db t = gi_db s
     \<and> (\<forall>k. k \<noteq> state_key (delta_id x) \<longrightarrow> get_checkpoint k (gi_rows t) = get_checkpoint k (gi_rows s))"
proof (cases "dl_change x")
  case Message_removed
  with assms removed_fits [of "dl_metadata x" "dl_history_id x"] show ?thesis
    by (auto simp: delta_ok_def left_behind_def delta_keys_def ingest_delta_def Let_def persist_removed_def persist_mail_again)
next
  case Labels_changed
  with assms(2) have "get_checkpoint (state_key (delta_id x)) (gi_rows s) \<in> {None, Some (state_text env (dl_metadata x))}"
    by (simp add: left_behind_def)
  then show ?thesis
    using Labels_changed flags_unchanged [OF assms(3)]
    by (auto simp: ingest_delta_def Let_def persist_labels_def)
next
  case Initial
  with assms received_fits [of "dl_metadata x"] show ?thesis
    by (auto simp: delta_ok_def left_behind_def delta_keys_def ingest_delta_def Let_def persist_received_def persist_mail_again)
next
  case Message_added
  with assms received_fits [of "dl_metadata x"] show ?thesis
    by (auto simp: delta_ok_def left_behind_def delta_keys_def ingest_delta_def Let_def persist_received_def persist_mail_again)
qed

lemma deltas_again:
  assumes "list_all delta_ok xs" "distinct (map delta_id xs)" "\<forall>x \<in> set xs. left_behind env x s" "reads_back env"
  shows "\<exists>t. fold_r (ingest_delta (later env now stamp ids c) b) xs s = Inr t \<and> gi_db t = gi_db s"
  using assms
proof (induction xs arbitrary: s)
  case (Cons x xs)
  obtain u where u: "ingest_delta (later env now stamp ids c) b x s = Inr u" "gi_db u = gi_db s"
    "\<forall>k. k \<noteq> state_key (delta_id x) \<longrightarrow> get_checkpoint k (gi_rows u) = get_checkpoint k (gi_rows s)"
    using ingest_delta_again [of x env s now stamp ids c b] Cons.prems by auto
  have "left_behind env y u" if "y \<in> set xs" for y
  proof (rule left_behind_kept)
    show "left_behind env y s" using Cons.prems(3) that by simp
    show "mail_known env s \<subseteq> mail_known env u" by (simp add: u(2))
    have "delta_id y \<noteq> delta_id x" using Cons.prems(2) imageI [OF that, of delta_id] by auto
    with u(3) show "get_checkpoint (state_key (delta_id y)) (gi_rows u) = get_checkpoint (state_key (delta_id y)) (gi_rows s)" by simp
  qed
  with Cons.IH [of u] Cons.prems u show ?case by auto
qed simp


text \<open>A batch with one new message, into an empty database.\<close>

definition sample_mail_env :: mail_env where
  "sample_mail_env = \<lparr>mi_hash = \<lambda>s. s, mi_topic = ''events'', mi_now = 0, mi_stamp = \<lambda>n. 0, mi_uuid = \<lambda>n. n, mi_correlation = 0,
     mi_dumps = \<lambda>v. case v of
         JDict [(a, JStr t), (b, JBool u), (c, JBool i)] \<Rightarrow> (if u then CHR ''u'' else CHR ''-'') # (if i then CHR ''i'' else CHR ''-'') # t
       | _ \<Rightarrow> [],
     mi_loads = \<lambda>s. case s of
         u # i # t \<Rightarrow> Some (JDict [(''thread_id'', JStr t), (''unread'', JBool (u = CHR ''u'')), (''important'', JBool (i = CHR ''i''))])
       | _ \<Rightarrow> None\<rparr>"

definition sample_batch :: batch where
  "sample_batch = \<lparr>ba_history_id = ''9'', ba_messages = [\<lparr>dl_metadata = \<lparr>me_message_id = ''m1'', me_thread_id = ''t1'',
     me_sender = ''a@b'', me_subject = ''hi'', me_received_at = 0, me_snippet = [], me_unread = True, me_important = False\<rparr>,
     dl_change = Message_added, dl_history_id = None\<rparr>], ba_resynced = False\<rparr>"


end
