(* ===== verification/Gmail_Routes.thy ===== *)
theory Gmail_Routes
  imports Gmail_Sync
begin

text \<open>
  The authorization of \<open>backend/app/providers/gmail/oauth.py\<close> over the store of states, and the routes
  of \<open>router.py\<close>.
\<close>

section \<open>The authorization\<close>

text \<open>The routes' state adds the states of the client secret; every route makes its own token manager.\<close>

type_synonym routed_gmail = "gmail_world \<times> state_dict"

type_synonym 'a gmail_route = "(routed_gmail, gmail_failure, 'a) prog"

definition on_world :: "'a gmail \<Rightarrow> 'a gmail_route" where
  "on_world m st = (case m (fst st) of (r, w) \<Rightarrow> (r, w, snd st))"

definition has_states :: "gmail_env \<Rightarrow> bool" where
  "has_states env = truthy (google_client_secret (gmail_providers env))"

definition state_sign :: "gmail_env \<Rightarrow> string \<Rightarrow> string" where
  "state_sign env = gy_sign env (or_none (google_client_secret (gmail_providers env)))"

definition issued_by :: "gmail_env \<Rightarrow> oauth_completion_mode \<Rightarrow> string \<Rightarrow> string gmail_route" where
  "issued_by env mode nonce =
     bind_p (on_world (gmail_now env)) (\<lambda>pruned.
     bind_p (on_world (gmail_now env)) (\<lambda>now.
     bind_p (modify_p (\<lambda>(w, ss). (w, gmail_issue (now - pruned) now mode (signed_state (state_sign env) nonce) ss))) (\<lambda>_.
     return_p (signed_state (state_sign env) nonce))))"

definition gmail_begin :: "gmail_env \<Rightarrow> oauth_completion_mode \<Rightarrow> string \<Rightarrow> string gmail_route" where
  "gmail_begin env mode nonce =
     (if \<not> gmail_configured env \<or> \<not> has_states env then on_world (oauth_fails ''oauth_not_configured'')
      else if \<not> encryption_key_configured env then on_world (oauth_fails ''credential_encryption_unavailable'')
      else bind_p (issued_by env mode nonce) (\<lambda>state. on_world (google_url env state)))"

definition consumed_mode :: "gmail_env \<Rightarrow> string \<Rightarrow> oauth_completion_mode option gmail_route" where
  "consumed_mode env state =
     bind_p (on_world (gmail_now env)) (\<lambda>now.
     bind_p (read_p (\<lambda>(w, ss). gmail_mode (state_sign env) now state ss)) (\<lambda>r.
     bind_p (modify_p (\<lambda>(w, ss). (w, gmail_rest (state_sign env) now state ss))) (\<lambda>_.
     lift_p Gmail_raised r)))"

definition consume_authorization :: "gmail_env \<Rightarrow> string \<Rightarrow> oauth_completion_mode gmail_route" where
  "consume_authorization env state =
     (if \<not> gmail_configured env \<or> \<not> has_states env then on_world (oauth_fails ''oauth_not_configured'')
      else bind_p (consumed_mode env state) (\<lambda>m.
        case m of None \<Rightarrow> on_world (oauth_fails ''oauth_state_invalid'') | Some mode \<Rightarrow> return_p mode))"

definition gmail_complete :: "gmail_env \<Rightarrow> string \<Rightarrow> string \<Rightarrow> oauth_completion_mode gmail_route" where
  "gmail_complete env state code =
     bind_p (consume_authorization env state) (\<lambda>mode.
     bind_p (attempt_p (on_world (complete_authorized env code)) (\<lambda>e.
       case e of
         Oauth_failed c m \<Rightarrow> raise_p (Oauth_failed c (Some mode))
       | Gmail_http \<Rightarrow> raise_p (Oauth_failed ''authorization_exchange_failed'' (Some mode))
       | _ \<Rightarrow> raise_p e)) (\<lambda>_. return_p mode))"

section \<open>The routes\<close>

datatype gmail_reply =
    Gmail_page oauth_response
  | Gmail_redirect string
  | Gmail_http_error int string

definition gmail_page :: "gmail_env \<Rightarrow> bool \<Rightarrow> string option \<Rightarrow> oauth_completion_mode \<Rightarrow> gmail_reply" where
  "gmail_page env ok reason mode = Gmail_page (oauth_result ''gmail'' mode ok (frontend_base_url (gy_settings env)) reason)"

definition http_error :: "string \<Rightarrow> gmail_reply" where
  "http_error code = Gmail_http_error (if code = ''oauth_not_configured'' \<or> code = ''credential_encryption_unavailable'' then 503 else 400) code"

definition oauth_start :: "gmail_env \<Rightarrow> oauth_completion_mode \<Rightarrow> string \<Rightarrow> gmail_reply gmail_route" where
  "oauth_start env mode nonce =
     attempt_p (bind_p (gmail_begin env mode nonce) (\<lambda>url. return_p (Gmail_redirect url))) (\<lambda>e.
       case e of
         Oauth_failed c m \<Rightarrow> return_p (if mode = DESKTOP then gmail_page env False (Some ''setup_required'') mode else http_error c)
       | _ \<Rightarrow> raise_p e)"

text \<open>A callback without a code: the state is spent all the same.\<close>

definition declined :: "gmail_env \<Rightarrow> string \<Rightarrow> string \<Rightarrow> gmail_reply gmail_route" where
  "declined env state reason =
     attempt_p (bind_p (consume_authorization env state) (\<lambda>mode. return_p (gmail_page env False (Some reason) mode))) (\<lambda>e.
       case e of Oauth_failed c m \<Rightarrow> return_p (gmail_page env False (Some ''state_invalid'') BROWSER) | _ \<Rightarrow> raise_p e)"

definition refusal_reason :: "string \<Rightarrow> string" where
  "refusal_reason code =
     (if code = ''oauth_state_invalid'' then ''state_invalid''
      else if code = ''authorization_code_invalid'' then ''authorization_incomplete''
      else if code = ''oauth_not_configured'' \<or> code = ''credential_encryption_unavailable'' then ''setup_required''
      else ''connection_failed'')"

definition report_pending :: "gmail_env \<Rightarrow> unit gmail" where
  "report_pending env =
     bind_p (gmail_now env) (\<lambda>now.
     bind_p (read_p gw_registry) (\<lambda>reg.
     bind_p (lift_p Gmail_raised (report now ''gmail'' Ps_degraded ''initial_sync_pending'' report_defaults reg)) (\<lambda>(h, reg').
     modify_p (\<lambda>w. w\<lparr>gw_registry := reg'\<rparr>))))"

definition refused :: "gmail_env \<Rightarrow> gmail_failure \<Rightarrow> gmail_reply option" where
  "refused env e = (case e of
      Oauth_failed c m \<Rightarrow> Some (gmail_page env False (Some (refusal_reason c)) (case m of Some mode \<Rightarrow> mode | None \<Rightarrow> BROWSER))
    | Gmail_http \<Rightarrow> Some (gmail_page env False (Some ''connection_failed'') BROWSER)
    | _ \<Rightarrow> None)"

definition oauth_callback :: "gmail_env \<Rightarrow> string \<Rightarrow> string option \<Rightarrow> string option \<Rightarrow> gmail_reply gmail_route" where
  "oauth_callback env state code error =
     (if state = [] \<or> 200 < length state \<or> (case code of None \<Rightarrow> False | Some c \<Rightarrow> 4096 < length c)
      then return_p (gmail_page env False (Some ''callback_invalid'') BROWSER)
      else if \<not> has_states env then return_p (gmail_page env False (Some ''setup_required'') BROWSER)
      else if truthy error then declined env state ''authorization_denied''
      else if \<not> truthy code then declined env state ''authorization_incomplete''
      else
        bind_p (attempt_p (bind_p (gmail_complete env state (the code)) (\<lambda>mode. return_p (Inr mode))) (\<lambda>e.
          case refused env e of Some reply \<Rightarrow> return_p (Inl reply) | None \<Rightarrow> raise_p e)) (\<lambda>r. case r of
              Inl reply \<Rightarrow> return_p reply
            | Inr mode \<Rightarrow> bind_p (on_world (report_pending env)) (\<lambda>_. return_p (gmail_page env True None mode))))"

section \<open>The connection\<close>

definition disconnect_gmail :: "gmail_env \<Rightarrow> unit gmail" where
  "disconnect_gmail env =
     bind_p (gmail_now env) (\<lambda>stamp.
     bind_p (modify_p (\<lambda>w. (case gmail_connection w of
         None \<Rightarrow> w
       | Some r \<Rightarrow> put_gmail stamp (r\<lparr>cn_status := ''disconnected'', cn_credentials := None, cn_scopes := [], cn_connected_at := None\<rparr>) w)
       \<lparr>gw_rows := []\<rparr>)) (\<lambda>_.
     bind_p (gmail_now env) (\<lambda>now.
     bind_p (read_p gw_registry) (\<lambda>reg.
     bind_p (lift_p Gmail_raised (report now ''gmail'' Ps_disconnected ''locally_disconnected'' report_defaults reg)) (\<lambda>(h, reg').
     modify_p (\<lambda>w. w\<lparr>gw_registry := reg'\<rparr>))))))"

record gmail_status =
  gs_configured :: bool
  gs_connected :: bool
  gs_status :: string

definition personal_gmail :: "gmail_env \<Rightarrow> bool" where
  "personal_gmail env = (runtime_mode (gy_settings env) = PERSONAL_LOCAL \<and> gmail_configured env)"

text \<open>\<open>reachable\<close>: the database answers.\<close>

definition gmail_connection_status :: "gmail_env \<Rightarrow> bool \<Rightarrow> gmail_world \<Rightarrow> gmail_status" where
  "gmail_connection_status env reachable w =
     (if \<not> personal_gmail env then \<lparr>gs_configured = False, gs_connected = False, gs_status = ''not_configured''\<rparr>
      else if \<not> encryption_key_configured env then \<lparr>gs_configured = True, gs_connected = False, gs_status = ''setup_required''\<rparr>
      else if \<not> reachable then \<lparr>gs_configured = True, gs_connected = False, gs_status = ''unavailable''\<rparr>
      else (let ok = (case gmail_connection w of None \<Rightarrow> False | Some r \<Rightarrow> cn_status r = ''connected'' \<and> cn_credentials r \<noteq> None)
        in \<lparr>gs_configured = True, gs_connected = ok, gs_status = (if ok then ''connected'' else ''disconnected'')\<rparr>))"

record inbox =
  ib_status :: string
  ib_configured :: bool
  ib_messages :: "message list"

definition no_inbox :: "string \<Rightarrow> bool \<Rightarrow> inbox" where
  "no_inbox status configured = \<lparr>ib_status = status, ib_configured = configured, ib_messages = []\<rparr>"

definition recent_messages :: "gmail_env \<Rightarrow> int \<Rightarrow> inbox gmail" where
  "recent_messages env limit =
     (if \<not> personal_gmail env then return_p (no_inbox ''not_configured'' False)
      else bind_p (read_p gmail_connection) (\<lambda>row.
        if (case row of None \<Rightarrow> True | Some r \<Rightarrow> cn_status r \<noteq> ''connected'') then return_p (no_inbox ''disconnected'' True)
        else bind_p fresh_manager (\<lambda>_.
          attempt_p (bind_p (get_recent_messages env limit 14) (\<lambda>ms.
            return_p \<lparr>ib_status = ''ready'', ib_configured = True, ib_messages = ms\<rparr>)) (\<lambda>e.
            case e of
              Oauth_failed c m \<Rightarrow> return_p (no_inbox ''disconnected'' True)
            | Gmail_api status op \<Rightarrow> return_p (no_inbox ''unavailable'' True)
            | Gmail_http \<Rightarrow> return_p (no_inbox ''unavailable'' True)
            | _ \<Rightarrow> raise_p e))))"

fun value_error :: "py_error \<Rightarrow> bool" where
  "value_error (ValueError s) = True"
| "value_error (ValidationError s) = True"
| "value_error e = False"

definition one_message :: "gmail_env \<Rightarrow> string \<Rightarrow> (gmail_reply + message) gmail" where
  "one_message env mid =
     (if \<not> personal_gmail env then return_p (Inl (Gmail_http_error 404 ''message_not_found''))
      else bind_p fresh_manager (\<lambda>_.
        attempt_p (bind_p (message_metadata env mid) (\<lambda>m. return_p (Inr m))) (\<lambda>e.
          case e of
            Gmail_raised x \<Rightarrow> if value_error x then return_p (Inl (Gmail_http_error 404 ''message_not_found'')) else raise_p e
          | Oauth_failed c m \<Rightarrow> return_p (Inl (Gmail_http_error 503 c))
          | Gmail_api status op \<Rightarrow> return_p (Inl (Gmail_http_error 503 ''gmail_unavailable''))
          | Gmail_http \<Rightarrow> return_p (Inl (Gmail_http_error 503 ''gmail_unavailable''))
          | _ \<Rightarrow> raise_p e)))"

end
