(* ===== verification/Gmail_Properties.thy ===== *)
theory Gmail_Properties
  imports Gmail_History Gmail_Delivery Gmail_Routes
begin

text \<open>
  The properties of the Gmail provider: the cursor moves with its events, what a batch looks like,
  what disconnecting leaves behind.
\<close>

section \<open>The cursor\<close>

lemma ingest_keys:
  assumes "fold_r (ingest_delta env b) xs s = Inr t"
  shows "list_all (\<lambda>x. delta_keys x \<subseteq> mail_known env t) xs \<and> mail_known env s \<subseteq> mail_known env t"
  using assms
proof (induction xs arbitrary: s)
  case (Cons x xs)
  then obtain u where u: "ingest_delta env b x s = Inr u" "fold_r (ingest_delta env b) xs u = Inr t" by (auto simp: bind_simps)
  from ingest_delta_effect [OF u(1)] Cons.IH [OF u(2)] show ?case by (auto simp: left_behind_def)
qed simp

lemma report_sync_succeeds:
  "\<exists>h reg'. report now ''gmail'' Ps_healthy ''sync_succeeded'' (report_defaults\<lparr>rp_succeeded := True, rp_observed := b,
     rp_last_message_observation_at := map_option utc v\<rparr>) reg = Inr (h, reg')"
proof -
  have "provider_id_ok ''gmail''" "detail_code_ok ''sync_succeeded''" by code_simp+
  then show ?thesis
    by (cases v) (simp_all add: report_def ensure_def bind_simps opt_aware_def report_defaults_def Let_def)
qed


section \<open>What a poll reports\<close>

definition some_ok :: "message option \<Rightarrow> bool" where
  "some_ok v \<longleftrightarrow> (case v of None \<Rightarrow> True | Some m \<Rightarrow> message_ok m)"

lemma message_new_ok: "yields message_ok (message_new m)"
  unfolding message_new_def by (intro yields_intros)

lemma metadata_ok: "ensures (\<lambda>_. True) (message_metadata env mid) message_ok"
proof -
  have "ensures (\<lambda>_. True) (metadata_from_message env d) message_ok" for d
    unfolding metadata_from_message_def Let_def
    by (auto intro!: ensures_intros ensures_bind [OF ensures_true] message_new_ok split: option.split)
  then show ?thesis
    unfolding message_metadata_def by (auto intro!: ensures_intros ensures_bind [OF ensures_true])
qed

lemma fetch_ok: "ensures (\<lambda>_. True) (fetch_batch env ids) (list_all some_ok)"
proof -
  have "ensures (\<lambda>_. True) (fetched_message env mid) some_ok" for mid
    unfolding fetched_message_def
    by (rule ensures_attempt, rule ensures_bind [OF metadata_ok])
       (auto intro!: ensures_intros simp: some_ok_def split: gmail_failure.split)
  then show ?thesis
    unfolding fetch_batch_def by (intro ensures_each ensures_bind ensures_return) auto
qed

lemma delta_new_ok: "message_ok m \<Longrightarrow> yields delta_ok (delta_new m c h)"
  by (auto simp: delta_new_def delta_ok_def yields_def bind_simps ensure_def split: if_splits)

lemma delta_of_ok: "some_ok (snd x) \<Longrightarrow> yields (list_all delta_ok) (delta_of c x)"
  by (auto simp: delta_of_def some_ok_def intro!: yields_intros yields_bind [OF delta_new_ok] split: prod.split option.splits)

lemma removal_ok: "yields (list_all delta_ok) (removal_of env d x)"
proof -
  have "yields some_ok (previous_metadata env mid fallback d)" for mid fallback
    unfolding previous_metadata_def remembered_def Let_def
    by (auto intro!: yields_intros yields_any yields_bind [OF message_new_ok] simp: some_ok_def split: option.split)
  moreover have "some_ok v \<Longrightarrow> yields (list_all delta_ok) (case v of None \<Rightarrow> Inr []
      | Some y \<Rightarrow> bind_r (delta_new y Message_removed (Some h)) (\<lambda>z. Inr [z]))" for v h
    by (cases v) (auto simp: some_ok_def intro!: yields_intros yields_bind [OF delta_new_ok])
  ultimately show ?thesis
    unfolding removal_of_def by (simp split: prod.split) (blast intro: yields_bind [where Q = some_ok])
qed

lemma list_all_concat: "list_all (list_all P) xss \<Longrightarrow> list_all P (concat xss)"
  by (induction xss) auto

lemma incremental_ok: "ensures (\<lambda>_. True) (incremental_sync env p start) (\<lambda>x. list_all delta_ok (snd x))"
  unfolding incremental_sync_def
proof (rule ensures_bind [OF ensures_true], clarsimp, rule ensures_bind [OF ensures_true], rule ensures_bind [OF fetch_ok])
  fix latest :: string and c and ms :: "message option list"
  assume ms: "list_all some_ok ms"
  have changed: "yields (list_all (list_all delta_ok)) (map_r (delta_of c) (zip (changed_ids c) ms))"
    by (rule yields_map_r, rule delta_of_ok) (use ms in \<open>auto simp: list_all_iff dest: set_zip_rightD\<close>)
  have removed: "yields (list_all (list_all delta_ok)) (map_r (removal_of env d) xs)" for d xs
    by (rule yields_map_r, rule removal_ok)
  show "ensures (\<lambda>_. True)
      (bind_p (lift_p Gmail_raised (map_r (delta_of c) (zip (changed_ids c) ms))) (\<lambda>changed.
       bind_p (read_p gw_db) (\<lambda>d.
       bind_p (lift_p Gmail_raised (map_r (removal_of env d) (ch_deleted c))) (\<lambda>removed.
       return_p (latest, concat changed @ concat removed))))) (\<lambda>x. list_all delta_ok (snd x))"
    by (rule ensures_bind [OF ensures_lift [OF changed]], rule ensures_bind [OF ensures_true], rule ensures_bind [OF ensures_lift [OF removed]])
       (auto intro!: ensures_return list_all_concat)
qed

lemma full_ok: "ensures (\<lambda>_. True) (full_sync env b) (\<lambda>x. list_all delta_ok (snd (fst x)))"
proof -
  have present: "list_all some_ok ms \<Longrightarrow> list_all message_ok (present ms)" for ms
    by (induction ms) (auto simp: present_def some_ok_def split: option.splits)
  have scan: "ensures (\<lambda>_. True) (bounded_full_sync env) (\<lambda>x. list_all message_ok (snd x))"
    unfolding bounded_full_sync_def
    by (rule ensures_bind [OF ensures_true], rule ensures_bind [OF ensures_true], rule ensures_bind [OF fetch_ok])
       (auto intro!: ensures_return present)
  have "yields (\<lambda>y. list_all delta_ok (snd y)) (initial_deltas x)" if "list_all message_ok (snd x)" for x
    unfolding initial_deltas_def
    by (rule yields_bind [where Q = "list_all delta_ok"], rule yields_map_r, rule delta_new_ok)
       (use that in \<open>auto simp: list_all_iff intro!: yields_intros\<close>)
  then show ?thesis
    unfolding full_sync_def by (auto intro!: ensures_bind [OF scan] ensures_bind [OF ensures_lift] ensures_return)
qed

lemma observed_ok:
  "ensures (\<lambda>_. True) (gmail_observe env p u) (\<lambda>obs. history_text_ok (ba_history_id (obs_content obs)) \<and> list_all delta_ok (ba_messages (obs_content obs)))"
proof -
  let ?B = "\<lambda>b. history_text_ok (ba_history_id b) \<and> list_all delta_ok (ba_messages b)"
  have changes: "ensures (\<lambda>_. True) (mailbox_changes env p) (\<lambda>x. list_all delta_ok (snd (fst x)))"
    unfolding mailbox_changes_def
    by (auto intro!: ensures_bind [OF ensures_true] ensures_attempt ensures_bind [OF incremental_ok] ensures_intros full_ok split: option.split)
  have batch: "list_all delta_ok ds \<Longrightarrow> yields ?B (batch_new latest ds r)" for latest ds r
    by (auto simp: batch_new_def yields_def bind_simps ensure_def split: if_splits)
  have made: "?B b \<Longrightarrow> yields (\<lambda>obs. ?B (obs_content obs)) (observation_new provider entity t b v c corr)" for provider entity t b v c corr
    by (auto simp: observation_new_def yields_def bind_simps ensure_def split: if_splits)
  have rest: "ensures (\<lambda>_. True) (bind_p (lift_p Gmail_raised (batch_new latest ds r)) (\<lambda>b. bind_p (gmail_now env) (\<lambda>now.
      lift_p Gmail_raised (observation_new ''gmail'' ''mailbox'' (utc now) b (Some latest) (Some latest) (Some u)))))
      (\<lambda>obs. ?B (obs_content obs))" if "list_all delta_ok ds" for latest ds r
    by (rule ensures_bind [OF ensures_lift [OF batch [OF that]]], rule ensures_bind [OF ensures_true], rule ensures_lift [OF made])
  show ?thesis
    unfolding gmail_observe_def oauth_fails_def
    by (rule ensures_if, rule ensures_raise, rule ensures_if, rule ensures_raise, rule ensures_bind [OF ensures_true],
        rule ensures_bind [OF changes]) (auto intro: rest split: prod.split)
qed

end
