(* ===== verification/Gmail_Privacy.thy ===== *)
theory Gmail_Privacy
  imports Gmail_Properties
begin

text \<open>
  What of a message reaches the event store, and what disconnecting leaves behind.
\<close>

section \<open>Payloads\<close>

definition text_upto :: "nat \<Rightarrow> json \<Rightarrow> bool" where
  "text_upto n v = (case v of JStr s \<Rightarrow> length s \<le> n | _ \<Rightarrow> False)"

definition is_text :: "json \<Rightarrow> bool" where
  "is_text v = (case v of JStr s \<Rightarrow> True | _ \<Rightarrow> False)"

definition flag_value :: "json \<Rightarrow> bool" where
  "flag_value v = (case v of JBool b \<Rightarrow> True | _ \<Rightarrow> False)"

text \<open>The fields a payload may have; there is none for a body or a recipient.\<close>

definition private_field :: "string \<times> json \<Rightarrow> bool" where
  "private_field x = (case x of (k, v) \<Rightarrow>
     k = ''message_id'' \<and> text_upto 100 v \<or> k = ''thread_id'' \<and> text_upto 100 v \<or> k = ''sender'' \<and> text_upto 320 v
     \<or> k = ''subject'' \<and> text_upto 300 v \<or> k = ''received_at'' \<and> is_text v \<or> k = ''snippet'' \<and> text_upto 240 v
     \<or> k \<in> {''unread'', ''important'', ''message_removed''} \<and> flag_value v)"

abbreviation private_payload :: "dict \<Rightarrow> bool" where
  "private_payload d \<equiv> list_all private_field d"

lemma safe_metadata_private: "message_ok m \<Longrightarrow> private_payload (safe_event_metadata m)"
  by (auto simp: safe_event_metadata_def private_field_def text_upto_def is_text_def flag_value_def message_ok_def id_ok_def)

definition private_event :: "event \<Rightarrow> bool" where
  "private_event e \<longleftrightarrow> (ev_source e = ''gmail'' \<longrightarrow> private_payload (ev_payload e))"

definition mail_private :: "db \<Rightarrow> bool" where
  "mail_private d \<longleftrightarrow> list_all private_event (db_events d) \<and> list_all (\<lambda>r. private_event (ob_payload r)) (db_outbox d)"

lemma persist_private:
  assumes "persist_event_and_outbox hash topic now e d = Inr (new, d')" "private_event e" "mail_private d"
  shows "mail_private d'"
proof (cases new)
  case True
  with assms show ?thesis by (auto simp: persist_True append_event_Inr mail_private_def new_outbox_row_def)
next
  case False
  with assms show ?thesis by (auto dest: persist_False)
qed

lemma persist_mail_private:
  assumes "persist_mail env etype stype sid dedupe m extra s = Inr t" "message_ok m" "private_payload extra" "mail_private (gi_db s)"
  shows "mail_private (gi_db t)"
proof -
  obtain e new d' where e: "mail_event env (gi_count s) etype stype sid dedupe m extra = Inr e"
    "persist_event_and_outbox (mi_hash env) (mi_topic env) (mi_stamp env (gi_count s)) e (gi_db s) = Inr (new, d')" "gi_db t = d'"
    using assms(1) by (auto simp: persist_mail_def bind_simps)
  have "private_event e"
    using e(1) safe_metadata_private [OF assms(2)] assms(3)
    by (auto simp: private_event_def mail_event_def canonical_event_new_def bind_simps)
  from persist_private [OF e(2) this assms(4)] e(3) show ?thesis by simp
qed

lemma ingest_delta_private:
  assumes "ingest_delta env b x s = Inr t" "delta_ok x" "mail_private (gi_db s)"
  shows "mail_private (gi_db t)"
proof -
  let ?m = "dl_metadata x"
  have m: "message_ok ?m" using assms(2) by (simp add: delta_ok_def)
  have received: "mail_private (gi_db u)" if "persist_received env ?m s = Inr u" for u
    using that assms(3) m by (auto simp: persist_received_def bind_simps dest!: persist_mail_private)
  have labels: "mail_private (gi_db u)" if "persist_labels env b h ?m s = Inr u" for u h
    using that assms(3) m by (auto simp: persist_labels_def bind_simps split: option.splits if_splits dest!: persist_mail_private)
  have removed: "mail_private (gi_db u)" if "persist_removed env h ?m s = Inr u" for u h
    using that assms(3) m
    by (auto simp: persist_removed_def bind_simps private_field_def flag_value_def dest!: persist_mail_private)
  show ?thesis
    using assms(1) received labels removed
    by (cases "dl_change x") (auto simp: ingest_delta_def Let_def bind_simps)
qed

lemma deltas_private:
  "fold_r (ingest_delta env b) xs s = Inr t \<Longrightarrow> list_all delta_ok xs \<Longrightarrow> mail_private (gi_db s) \<Longrightarrow> mail_private (gi_db t)"
  by (induction xs arbitrary: s) (auto simp: bind_simps dest: ingest_delta_private)

lemma batch_private:
  assumes "ingest_gmail_batch env b s = Inr t" "list_all delta_ok (ba_messages b)" "mail_private (gi_db s)"
  shows "mail_private (gi_db t)"
  using assms by (auto simp: ingest_gmail_batch_def bind_simps Let_def dest: deltas_private)

lemma kept_private: "gmail_kept w' = gmail_kept w \<Longrightarrow> mail_private (gw_db w') = mail_private (gw_db w)"
  by (simp add: gmail_kept_def mail_private_def)

text \<open>
  C26.  The event store learns the metadata of a message and nothing else.  However Gmail answers, every
  event and outbox row of source gmail that a poll stores has a payload of the listed fields only: ids,
  sender, subject, time, snippet and flags, each text within its bound; there is no field for a body,
  a recipient or an attachment.
\<close>

theorem gmail_events_private:
  assumes "mail_private (gw_db w)"
  shows "mail_private (gw_db (snd (gmail_poll env menv patience u w)))"
proof -
  let ?env = "menv\<lparr>mi_correlation := u\<rparr>"
  obtain r w1 where r: "gmail_observe env patience u w = (r, w1)" by fastforce
  have p: "mail_private (gw_db w1)" using kept_private [OF keeps_partD [OF observe_keeps r]] assms by simp
  show ?thesis
  proof (cases r)
    case (Inl e)
    with r p show ?thesis by (simp add: gmail_poll_def)
  next
    case (Inr obs)
    have ok: "list_all delta_ok (ba_messages (obs_content obs))"
      using ensuresD [OF observed_ok TrueI r] Inr by simp
    let ?s = "\<lparr>gi_db = gw_db w1, gi_rows = gw_rows w1, gi_count = 0\<rparr>"
    have "mail_private (gi_db t)" if "ingest_gmail_batch ?env (obs_content obs) ?s = Inr t" for t
      by (rule batch_private [OF that ok]) (simp add: p)
    with r Inr p show ?thesis
      by (cases "ingest_gmail_batch ?env (obs_content obs) ?s")
        (auto simp: gmail_poll_def ingest_gmail_observations_def ingest_batches_def bind_simps split: sum.split)
  qed
qed

lemma gmail_events_private_witness:
  "mail_private (gw_db sample_mailbox) \<and> mail_private (gw_db (snd (gmail_poll sample_gmail sample_mail_env 2 0 sample_mailbox)))"
proof -
  have p: "mail_private (gw_db sample_mailbox)" by code_simp
  show ?thesis using p gmail_events_private [OF p] by blast
qed

section \<open>Disconnecting\<close>

lemma report_disconnects:
  "\<exists>h reg'. report now ''gmail'' Ps_disconnected ''locally_disconnected'' report_defaults reg = Inr (h, reg')"
proof -
  have "provider_id_ok ''gmail''" "detail_code_ok ''locally_disconnected''" by code_simp+
  then show ?thesis by (simp add: report_def ensure_def bind_simps opt_aware_def report_defaults_def Let_def)
qed

text \<open>
  C27.  Disconnecting Gmail succeeds and forgets: the stored credentials and every cursor and flag of the
  account are gone, the event history stays, and the next use of the account, with the token manager
  that every request makes anew, is refused as not authorized without a request being sent.
\<close>

theorem gmail_disconnect_forgets:
  "\<exists>w'. disconnect_gmail env w = (Inr (), w') \<and> gw_rows w' = [] \<and> Option.bind (gmail_connection w') cn_credentials = None
     \<and> db_events (gw_db w') = db_events (gw_db w) \<and> db_outbox (gw_db w') = db_outbox (gw_db w) \<and> gw_sent w' = gw_sent w
     \<and> access_token env False (w'\<lparr>gw_cached := None\<rparr>) = (Inl (Oauth_failed ''authorization_required'' None), w'\<lparr>gw_cached := None\<rparr>)"
proof -
  obtain h reg' where rep: "report (gy_clock env (Suc (gw_ticks w))) ''gmail'' Ps_disconnected ''locally_disconnected'' report_defaults (gw_registry w)
      = Inr (h, reg')" using report_disconnects by blast
  have same: "find_connection ''gmail'' (gw_db w) = Some r \<Longrightarrow> cn_provider r = ''gmail''" for r
    by (auto simp: find_connection_def dest: find_row_Some)
  have cleared: "r = r\<lparr>cn_status := ''disconnected'', cn_credentials := None, cn_scopes := [], cn_connected_at := None\<rparr>
      \<Longrightarrow> cn_credentials r = None" for r
    by (cases r) simp
  show ?thesis
    using rep same
    by (auto dest: cleared simp: disconnect_gmail_def bind_p_def gmail_now_def modify_p_def read_p_def lift_p_def return_p_def put_gmail_def
        gmail_connection_def find_put_connection access_token_def cached_access_def load_access_def stored_access_def oauth_fails_def
        raise_p_def split: option.split)
qed

text \<open>
  A refresh that was under way when the account was disconnected stores its credentials all the same:
  only a row that is gone stops it.
\<close>

lemma late_refresh_stores:
  assumes "gmail_connection w = Some r" "cn_status r = ''disconnected''" "cn_credentials r = None" "encrypt_google env t e w = (Inr sealed, w)"
  shows "\<exists>w' r'. keep_refreshed env t e w = (Inr (), w') \<and> gmail_connection w' = Some r' \<and> cn_status r' = ''disconnected''
     \<and> cn_credentials r' = Some sealed"
proof -
  have "cn_provider r = ''gmail''"
    using assms(1) by (auto simp: gmail_connection_def find_connection_def dest: find_row_Some)
  moreover have "r = r\<lparr>cn_credentials := c\<rparr> \<Longrightarrow> cn_credentials r = c" for c by (cases r) simp
  ultimately show ?thesis
    using assms
    by (auto simp: keep_refreshed_def bind_p_def read_p_def gmail_now_def modify_p_def put_gmail_def gmail_connection_def find_put_connection)
qed

section \<open>A rate limit\<close>

text \<open>The exception for a rate limit is not among those the inbox route handles.\<close>

lemma rate_limited_inbox_raises:
  assumes "personal_gmail env" "gmail_connection w = Some r" "cn_status r = ''connected''"
    "get_recent_messages env limit 14 (w\<lparr>gw_cached := None\<rparr>) = (Inl (Gmail_retry t), w')"
  shows "recent_messages env limit w = (Inl (Gmail_retry t), w')"
  using assms
  by (simp add: recent_messages_def bind_p_def read_p_def fresh_manager_def modify_p_def attempt_p_def raise_p_def)

end
