(* ===== verification/System.thy ===== *)
theory System
  imports Consumer Outbox Retention Football_Source Simulator Github_Agreement Weather_Poll Spotify_Events Gmail_Privacy
begin

text \<open>
  The program as a whole: the transactions of its parts over the one database they share, in any
  order, and what holds however they interleave.
\<close>

section \<open>Safe changes\<close>

text \<open>
  A change keeps the database consistent, forgets no deduplication key, and stores no event whose key
  was known.
\<close>

definition safe_change :: "(string \<Rightarrow> string) \<Rightarrow> db \<Rightarrow> db \<Rightarrow> bool" where
  "safe_change hash d d' \<longleftrightarrow> (db_ok hash d \<longrightarrow> db_ok hash d' \<and> known_keys hash d \<subseteq> known_keys hash d'
     \<and> (\<forall>e \<in> set (db_events d') - set (db_events d). ev_dedupe_key e \<notin> known_keys hash d))"

named_theorems safe_changes

lemma safe_refl [safe_changes]: "safe_change hash d d"
  by (simp add: safe_change_def)

lemma safe_trans [trans]: "safe_change hash d e \<Longrightarrow> safe_change hash e f \<Longrightarrow> safe_change hash d f"
  unfolding safe_change_def by blast

text \<open>What leaves events and tombstones alone needs only to keep the database consistent.\<close>

lemma safe_frame:
  assumes "db_ok hash d \<Longrightarrow> db_ok hash d'" "db_events d' = db_events d" "db_retired d' = db_retired d"
  shows "safe_change hash d d'"
  using assms by (auto simp: safe_change_def known_keys_def has_dedupe_def is_retired_def)

lemma safe_persist:
  assumes "persist_event_and_outbox hash topic now e d = Inr (b, d')"
  shows "safe_change hash d d'"
proof (cases b)
  case True
  with assms have "persist_event_and_outbox hash topic now e d = Inr (True, d')" by simp
  from store.persist_new [OF this] store.persist_ok [OF _ assms] assms True show ?thesis
    by (auto simp: safe_change_def persist_True append_event_Inr)
next
  case False
  with assms show ?thesis by (auto dest: persist_False simp: safe_refl)
qed

lemma safe_events: "ingest_events (persist_event_and_outbox hash topic now) es d = Inr (n, d') \<Longrightarrow> safe_change hash d d'"
proof (induction es arbitrary: d n)
  case (Cons e es)
  then obtain b u m where "persist_event_and_outbox hash topic now e d = Inr (b, u)"
    "ingest_events (persist_event_and_outbox hash topic now) es u = Inr (m, d')" by (auto simp: bind_simps)
  then show ?case using safe_persist Cons.IH safe_trans by blast
qed (simp add: safe_refl)

text \<open>A fold of safe steps over a state that contains the database.\<close>

lemma safe_fold:
  assumes "fold_r f xs s = Inr t" "\<And>x s t. f x s = Inr t \<Longrightarrow> safe_change hash (g s) (g t)"
  shows "safe_change hash (g s) (g t)"
  using assms(1)
proof (induction xs arbitrary: s)
  case (Cons x xs)
  then obtain u where "f x s = Inr u" "fold_r f xs u = Inr t" by (auto simp: bind_simps)
  then show ?case using assms(2) Cons.IH safe_trans by blast
qed (simp add: safe_refl)

section \<open>The transactions are safe\<close>

lemma safe_write: "safe_change hash d (write_checkpoint now key v t d)"
  by (rule safe_frame) (simp_all add: write_checkpoint_ok)

lemma safe_put_json: "safe_change hash d (put_json now key v t d)"
  by (simp add: put_json_def safe_write)

lemma safe_football:
  assumes "football_ingest env ctx obs d = Inr (n, d')"
  shows "safe_change (ie_hash env) d d'"
proof (cases "obs = []")
  case True
  with assms show ?thesis by (auto simp: football_ingest_def establish_empty_baseline_def safe_write safe_refl)
next
  case False
  have one: "safe_change (ie_hash env) (iv_db v) (iv_db w)" if "ingest_observation env c est ex x v = Inr w" for c est ex x v w
    using ingest_observation_Inr [OF that] safe_events safe_trans [OF _ safe_write] by (metis ingest_vars.select_convs(1))
  obtain v where v: "fold_r (ingest_observation env (pc_correlation_id ctx) (establishing_baseline obs d)
           (\<lambda>key. checkpoint_row key d \<noteq> None)) obs \<lparr>iv_db = d, iv_pending = pending_of d, iv_count = 0, iv_made = 0\<rparr> = Inr v"
    and d': "d' = (let d1 = write_checkpoint (ie_now env) ''pending-final'' (pending_value (iv_pending v)) (pc_scheduled_at ctx) (iv_db v)
            in if checkpoint_row BASELINE_CHECKPOINT_KEY d = None
               then write_checkpoint (ie_now env) BASELINE_CHECKPOINT_KEY
                      (baseline_value ctx (length obs) (establishing_baseline obs d)) (pc_scheduled_at ctx) d1 else d1)"
    using assms by (auto simp: football_ingest_Inr [OF False])
  have "safe_change (ie_hash env) d (iv_db v)" using safe_fold [OF v, of "ie_hash env" iv_db] one by simp
  then have "safe_change (ie_hash env) d (write_checkpoint now k x t (iv_db v))" for now k x t
    using safe_write by (rule safe_trans)
  then show ?thesis unfolding d' Let_def by (auto intro: safe_trans [OF _ safe_write])
qed

lemma safe_upsert: "safe_change hash d (upsert_checkpoint env key v t d)"
  by (rule safe_frame) (simp_all add: upsert_checkpoint_ok)

lemma safe_change_persisted:
  assumes "persist_change env fb n x d = Inr (b, d')" shows "safe_change (ge_hash env) d d'"
  using assms
  by (auto simp: persist_change_def bind_simps split: if_splits intro: safe_persist safe_trans [OF safe_persist safe_upsert])

lemma safe_in_session: "persist_in_session env fb n obs d = Inr (k, d') \<Longrightarrow> safe_change (ge_hash env) d d'"
proof (induction obs arbitrary: n d k)
  case (Cons x obs)
  then obtain b u m where "persist_change env fb n x d = Inr (b, u)" "persist_in_session env fb (Suc n) obs u = Inr (m, d')"
    by (auto simp: bind_simps)
  then show ?case using safe_change_persisted Cons.IH safe_trans by blast
qed (simp add: safe_refl)

lemma safe_webhook:
  assumes "persist_webhook_delivery env i event obs t d = Inr (b, d')" shows "safe_change (ge_hash env) d d'"
  using assms
  by (auto simp: persist_webhook_delivery_def bind_simps safe_refl split: if_splits intro: safe_trans [OF safe_upsert safe_in_session])

lemma safe_weather_put: "safe_change hash d (upsert_weather now key v t d)"
  by (rule safe_frame) (simp_all add: upsert_weather_ok, simp add: upsert_weather_def)

lemma safe_weather:
  assumes "persist_weather env x t u store d = Inr (Some d')" shows "safe_change (px_hash env) d d'"
proof -
  obtain d2 where d2: "safe_change (px_hash env) d d2"
    and d': "d' = upsert_weather (px_now env) ''has_observation'' (JInt 1) t
        (upsert_weather (px_now env) (current_key (lo_id (sp_location x))) (wx_dump env (sp_current x)) t d2)"
    using assms
    by (auto simp: persist_weather_def bind_simps Let_def split: if_splits option.splits
        intro: safe_refl safe_weather_put safe_trans [OF safe_persist safe_weather_put] that)
  from d2 show ?thesis unfolding d' by (blast intro: safe_trans safe_weather_put)
qed

lemma safe_spotify:
  assumes "sink_handle env provider u obs d = Inr d'" shows "safe_change (se_hash env) d d'"
proof -
  have one: "safe_change (se_hash env) (snd s) (snd t)" if "handle_event env o' u e s = Inr t" for o' e s t
    using that by (auto simp: handle_event_def bind_simps intro: safe_persist)
  have "safe_change (se_hash env) (snd s) (snd t)" if "handle_observation env u o' s = Inr t" for o' s t
    using safe_fold [OF that [unfolded handle_observation_def], of "se_hash env" snd] one by blast
  then show ?thesis
    using assms safe_fold [of "handle_observation env u" obs "(0, d)" _ "se_hash env" snd]
    by (auto simp: sink_handle_def bind_simps)
qed

lemma safe_mail:
  assumes "persist_mail env etype stype sid k m extra s = Inr t" shows "safe_change (mi_hash env) (gi_db s) (gi_db t)"
  using assms by (auto simp: persist_mail_def bind_simps intro: safe_persist)

lemma safe_gmail:
  assumes "ingest_batches env obs s = Inr t" shows "safe_change (mi_hash env) (gi_db s) (gi_db t)"
proof -
  have one: "safe_change (mi_hash env) (gi_db s) (gi_db t)" if "ingest_delta env b x s = Inr t" for b x s t
    using that
    by (cases "dl_change x")
      (auto simp: ingest_delta_def Let_def bind_simps persist_removed_def persist_labels_def persist_received_def safe_refl
        split: option.splits if_splits intro: safe_mail safe_trans [OF safe_mail safe_mail])
  have "safe_change (mi_hash env) (gi_db s) (gi_db t)" if "ingest_gmail_batch env b s = Inr t" for b s t
    using that safe_fold [of "ingest_delta env (ba_history_id b)" "ba_messages b" s _ "mi_hash env" gi_db] one
    by (auto simp: ingest_gmail_batch_def bind_simps Let_def)
  then show ?thesis
    using safe_fold [OF assms [unfolded ingest_batches_def], of "mi_hash env" gi_db] by blast
qed

lemma db_ok_connections [simp]: "db_ok hash (d\<lparr>db_connections := x\<rparr>) = db_ok hash d"
  by (simp add: db_ok_def schema_ok_def unique_ok_def foreign_ok_def sequence_ok_def outbox_complete_def
      timeline_matches_def tombstones_ok_def projected_ids_def)

lemma safe_connection: "safe_change hash d (put_connection now r d)"
  by (rule safe_frame) (simp_all add: put_connection_def)

lemma safe_outbox: "same_outbox d d' \<Longrightarrow> safe_change hash d d'"
  by (rule safe_frame) (auto simp: same_outbox_ok same_outbox_other)

lemma safe_publish: "safe_change hash d (pu_db (publish_pending_once env now locked batch d broker))"
proof -
  have "safe_change hash d (pu_db (publish_pending_once env now locked batch d broker))" if "db_ok hash d"
    using that by (intro safe_outbox publish_pending_once_rows(5) [OF _ refl refl]) (simp add: db_ok_defs)
  then show ?thesis by (auto simp: safe_change_def)
qed

lemma safe_projection:
  assumes "process_canonical_event clk e d = Inr (n, d')" shows "safe_change hash d d'"
  by (rule safe_frame) (use assms in \<open>auto simp: process_preserves_ok process_Inr split: if_split_asm\<close>)

lemma safe_retention:
  assumes "inj hash" "apply_retention hash a d = Inr (r, d')" shows "safe_change hash d d'"
proof -
  have "safe_change hash d d'" if ok: "db_ok hash d"
  proof (cases rule: apply_retention_cases [OF ok _ assms(2)])
    case 1
    show ?case using assms(1) by (simp add: inj_on_def)
  next
    case 2
    then show ?thesis by (simp add: safe_refl)
  next
    case (3 es ss)
    note f = prune_facts [OF ok 3(5) inj_on_subset [OF assms(1) subset_UNIV] 3(6,4)]
    have "hash (ev_dedupe_key e) \<in> rt_dedupe_hash ` set (db_retired d')" if "e \<in> set es" for e
      using tombstones_for_retired [OF that] by (simp add: f(4))
    then have "hash (ev_dedupe_key e) \<in> rt_dedupe_hash ` set (db_retired d') \<or> e \<in> set (db_events d')"
      if "e \<in> set (db_events d)" for e using that by (auto simp: f(2))
    then have "known_keys hash d \<subseteq> known_keys hash d'"
      by (fastforce simp: known_keys_def has_dedupe_def is_retired_def f(4))
    with f(1,2) show ?thesis by (auto simp: safe_change_def)
  qed
  then show ?thesis by (auto simp: safe_change_def)
qed

lemma safe_demo:
  assumes "comeback_step env m r n s d = Inr (b, d')" shows "safe_change (ce_hash env) d d'"
  using assms by (auto simp: comeback_step_def bind_simps safe_refl split: if_splits intro: safe_persist)

section \<open>The program\<close>

text \<open>
  One transaction of the program, with whatever its part knows: a poll, a webhook, a route that changes
  a connection, a pass of the publisher, the projection of a record, a run of the retention.  A
  transaction that fails is rolled back and is no step.
\<close>

inductive system_step :: "(string \<Rightarrow> string) \<Rightarrow> db \<Rightarrow> db \<Rightarrow> bool" for hash where
  Football_polled: "ie_hash env = hash \<Longrightarrow> football_ingest env ctx fixtures d = Inr (n, d') \<Longrightarrow> system_step hash d d'"
| Football_cached: "system_step hash d (put_json now key v observed d)"
| Webhook_delivered: "ge_hash genv = hash \<Longrightarrow> persist_webhook_delivery genv i event changes t d = Inr (b, d') \<Longrightarrow> system_step hash d d'"
| Github_polled: "ge_hash genv = hash \<Longrightarrow> persist_observations genv u changes d = Inr (n, d') \<Longrightarrow> system_step hash d d'"
| Weather_polled: "px_hash penv = hash \<Longrightarrow> persist_weather penv x t u store d = Inr (Some d') \<Longrightarrow> system_step hash d d'"
| Spotify_polled: "se_hash sink = hash \<Longrightarrow> sink_handle sink provider u plays d = Inr d' \<Longrightarrow> system_step hash d d'"
| Gmail_polled: "mi_hash menv = hash \<Longrightarrow> ingest_batches menv mail s = Inr s' \<Longrightarrow> system_step hash (gi_db s) (gi_db s')"
| Connection_changed: "system_step hash d (put_connection now row d)"
| Demo_emitted: "ce_hash cenv = hash \<Longrightarrow> comeback_step cenv m run n sc d = Inr (b, d') \<Longrightarrow> system_step hash d d'"
| Published: "system_step hash d (pu_db (publish_pending_once env now locked batch d broker))"
| Projected: "process_canonical_event clk e d = Inr (ns, d') \<Longrightarrow> system_step hash d d'"
| Pruned: "apply_retention hash a d = Inr (r, d') \<Longrightarrow> system_step hash d d'"

lemma system_step_safe: "system_step hash d d' \<Longrightarrow> inj hash \<Longrightarrow> safe_change hash d d'"
  by (induction rule: system_step.induct)
    (auto intro: safe_football safe_put_json safe_webhook safe_in_session safe_weather safe_spotify safe_gmail
      safe_connection safe_demo safe_publish safe_projection safe_retention simp: persist_observations_def)

lemma system_run_safe: "(system_step hash)\<^sup>*\<^sup>* d d' \<Longrightarrow> inj hash \<Longrightarrow> safe_change hash d d'"
  by (induction rule: rtranclp_induct) (auto intro: safe_refl safe_trans system_step_safe)

text \<open>
  C2.  Every fact is stored once, whatever runs beside it.  From a consistent database, in any
  interleaving of polls, webhooks, authorizations, publisher passes, projections and retention runs, the
  database stays consistent: keys unique, references intact, every event with its outbox row, the
  timeline in step with what was projected, no stored event with a tombstone.  And no deduplication key
  is ever forgotten: a step that stores an event has never before, in the whole run, seen its key, not
  even if the first event with it has been pruned since.
\<close>

theorem system_stores_once:
  assumes "db_ok hash d" "inj hash" "(system_step hash)\<^sup>*\<^sup>* d d1" "(system_step hash)\<^sup>*\<^sup>* d1 d2" "system_step hash d2 d3"
  shows "db_ok hash d3 \<and> (\<forall>e \<in> set (db_events d3) - set (db_events d2). \<forall>f \<in> set (db_events d1). ev_dedupe_key e \<noteq> ev_dedupe_key f)"
proof -
  note s = system_run_safe [OF assms(3,2)] system_run_safe [OF assms(4,2)] system_step_safe [OF assms(5,2)]
  have known: "known_keys hash d1 \<subseteq> known_keys hash d2"
    and new: "\<forall>e \<in> set (db_events d3) - set (db_events d2). ev_dedupe_key e \<notin> known_keys hash d2"
    and ok: "db_ok hash d3" using s assms(1) by (simp_all add: safe_change_def)
  have old: "ev_dedupe_key f \<in> known_keys hash d2" if "f \<in> set (db_events d1)" for f
    using known that by (auto simp: known_keys_def has_dedupe_def)
  show ?thesis using ok new old by metis
qed

text \<open>Two mails, one after the other.\<close>

definition other_batch :: batch where
  "other_batch = sample_batch\<lparr>ba_history_id := ''12'', ba_messages := map (\<lambda>x. x\<lparr>dl_metadata := (dl_metadata x)\<lparr>me_message_id := ''m2''\<rparr>\<rparr>) (ba_messages sample_batch)\<rparr>"

definition mail_observation :: "batch \<Rightarrow> batch observation" where
  "mail_observation b = \<lparr>obs_provider_id = ''gmail'', obs_external_entity_id = ''mailbox'', obs_observed_at = 0, obs_content = b,
     obs_provider_version = None, obs_checkpoint = None, obs_correlation_id = None\<rparr>"

lemma system_stores_once_witness:
  "\<exists>d1 d3. system_step (\<lambda>s. s) empty_db d1 \<and> system_step (\<lambda>s. s) d1 d3 \<and> length (db_events d1) = 2 \<and> length (db_events d3) = 4
     \<and> db_ok (\<lambda>s. s) d3 \<and> (\<forall>e \<in> set (db_events d3) - set (db_events d1). \<forall>f \<in> set (db_events d1). ev_dedupe_key e \<noteq> ev_dedupe_key f)"
proof -
  have "(case ingest_batches sample_mail_env [mail_observation sample_batch] \<lparr>gi_db = empty_db, gi_rows = [], gi_count = 0\<rparr> of
      Inl e \<Rightarrow> False
    | Inr t \<Rightarrow> length (db_events (gi_db t)) = 2 \<and> (case ingest_batches sample_mail_env [mail_observation other_batch] t of
        Inl e \<Rightarrow> False | Inr v \<Rightarrow> length (db_events (gi_db v)) = 4))" by code_simp
  then obtain t v where t: "ingest_batches sample_mail_env [mail_observation sample_batch] \<lparr>gi_db = empty_db, gi_rows = [], gi_count = 0\<rparr> = Inr t"
    "length (db_events (gi_db t)) = 2"
    and v: "ingest_batches sample_mail_env [mail_observation other_batch] t = Inr v" "length (db_events (gi_db v)) = 4"
    by (auto split: sum.splits)
  have h: "mi_hash sample_mail_env = (\<lambda>s. s)" by (simp add: sample_mail_env_def)
  have one: "system_step (\<lambda>s. s) empty_db (gi_db t)" using Gmail_polled [OF h t(1)] by simp
  have two: "system_step (\<lambda>s. s) (gi_db t) (gi_db v)" by (rule Gmail_polled [OF h v(1)])
  have runs: "(system_step (\<lambda>s. s))\<^sup>*\<^sup>* empty_db (gi_db t)" "(system_step (\<lambda>s. s))\<^sup>*\<^sup>* (gi_db t) (gi_db t)"
    using one by blast+
  have inj: "inj (\<lambda>s :: string. s)" by (simp add: inj_on_def)
  show ?thesis
    using system_stores_once [OF empty_db_ok inj runs two] one two t(2) v(2) by blast
qed

end
