(* ===== verification/Startup.thy ===== *)
theory Startup
  imports System
begin

text \<open>
  The start of the application (\<open>lifespan\<close> in \<open>backend/app/api/routes.py\<close>): which capabilities are
  registered and what is first reported of the providers; and the function the scheduler hands
  observations to.
\<close>

section \<open>The sources\<close>

datatype source_kind = Football_source | Github_source | Spotify_source | Gmail_source | Weather_source

fun source_id :: "source_kind \<Rightarrow> string" where
  "source_id Football_source = ''football''"
| "source_id Github_source = ''github''"
| "source_id Spotify_source = ''spotify''"
| "source_id Gmail_source = ''gmail''"
| "source_id Weather_source = ''weather''"

definition capability_of :: "source_kind \<Rightarrow> source_kind capability" where
  "capability_of k = \<lparr>cap_provider_id = Some (source_id k), cap_object = k\<rparr>"

type_synonym registry = "(source_kind, source_kind, source_kind) provider_registry"

record application =
  ap_registry :: registry
  ap_health :: health_registry
  ap_tracker :: github_tracker
  ap_components :: components
  ap_football :: bool

text \<open>A source that is registered, and what is reported of it.\<close>

definition register_when :: "bool \<Rightarrow> source_kind \<Rightarrow> application \<Rightarrow> application result" where
  "register_when c k a =
     (if c then bind_r (register_poll_source (capability_of k) (ap_registry a)) (\<lambda>r. Inr (a\<lparr>ap_registry := r\<rparr>)) else Inr a)"

definition report_when :: "bool \<Rightarrow> instant \<Rightarrow> string \<Rightarrow> provider_status \<Rightarrow> string \<Rightarrow> report_args \<Rightarrow> application \<Rightarrow> application result" where
  "report_when c now provider status code args a =
     (if c then bind_r (report now provider status code args (ap_health a)) (\<lambda>(h, reg). Inr (a\<lparr>ap_health := reg\<rparr>)) else Inr a)"

definition both_capabilities :: "bool \<Rightarrow> application \<Rightarrow> application result" where
  "both_capabilities personal a =
     (if personal then
        bind_r (register_webhook_source (capability_of Github_source) (ap_registry a)) (\<lambda>r.
        bind_r (register_command_target (capability_of Spotify_source) r) (\<lambda>r'. Inr (a\<lparr>ap_registry := r'\<rparr>)))
      else Inr a)"

text \<open>\<open>tick n\<close> is the time of the \<open>n\<close>-th report.\<close>

definition start_football :: "(nat \<Rightarrow> instant) \<Rightarrow> bool \<Rightarrow> settings \<Rightarrow> application \<Rightarrow> application result" where
  "start_football tick personal s a =
     (let configured = personal \<and> map_of (provider_configuration s) ''football'' = Some True;
          made = configured \<and> (case api_football_key (providers s) of None \<Rightarrow> False | Some k \<Rightarrow> strip k \<noteq> [])
      in bind_r (register_when made Football_source (a\<lparr>ap_football := made\<rparr>)) (\<lambda>b.
         report_when made (tick 2) ''football'' Ps_connecting ''awaiting_first_observation'' report_defaults b))"

definition start_spotify :: "(string \<Rightarrow> fernet option) \<Rightarrow> (nat \<Rightarrow> instant) \<Rightarrow> bool \<Rightarrow> settings \<Rightarrow> application \<Rightarrow> application result" where
  "start_spotify fernet_new tick personal s a =
     bind_r (if personal then is_spotify_configured fernet_new s else Inr False) (\<lambda>ready.
     bind_r (register_when ready Spotify_source a) (\<lambda>b.
     report_when ready (tick 3) ''spotify'' Ps_connecting ''awaiting_first_observation'' report_defaults b))"

definition start_gmail :: "(string \<Rightarrow> fernet option) \<Rightarrow> (nat \<Rightarrow> instant) \<Rightarrow> bool \<Rightarrow> settings \<Rightarrow> application \<Rightarrow> application result" where
  "start_gmail fernet_new tick personal s a =
     (let configured = personal \<and> map_of (provider_configuration s) ''gmail'' = Some True;
          ready = configured \<and> key_configured fernet_new s
      in bind_r (register_when ready Gmail_source a) (\<lambda>b.
         report_when configured (tick 4) ''gmail'' (if ready then Ps_connecting else Ps_degraded)
           (if ready then ''awaiting_first_sync'' else ''credential_encryption_unavailable'') report_defaults b))"

definition start_weather :: "(nat \<Rightarrow> instant) \<Rightarrow> bool \<Rightarrow> settings \<Rightarrow> application \<Rightarrow> application result" where
  "start_weather tick personal s a =
     bind_r (register_when personal Weather_source a) (\<lambda>b.
     report_when personal (tick 5) ''weather'' (if weather_configured s then Ps_connecting else Ps_disconnected)
       (if weather_configured s then ''awaiting_first_observation'' else ''location_missing'')
       (report_defaults\<lparr>rp_configured := weather_configured s\<rparr>) b)"

definition start_github :: "(nat \<Rightarrow> instant) \<Rightarrow> settings \<Rightarrow> application \<Rightarrow> application result" where
  "start_github tick s a =
     bind_r (initialize_github s (tick 1) (ap_tracker a, ap_health a)) (\<lambda>(tr, reg). Inr (a\<lparr>ap_tracker := tr, ap_health := reg\<rparr>))"

definition fresh_application :: "(nat \<Rightarrow> instant) \<Rightarrow> application" where
  "fresh_application tick = \<lparr>ap_registry = new_registry, ap_health = [], ap_tracker = tracker_new,
     ap_components = report_component (tick 0) ''demo_source'' component_status.Healthy ''idle'' False [] [], ap_football = False\<rparr>"

definition start_application :: "(string \<Rightarrow> fernet option) \<Rightarrow> (nat \<Rightarrow> instant) \<Rightarrow> settings \<Rightarrow> application result" where
  "start_application fernet_new tick s =
     (let personal = (runtime_mode s = PERSONAL_LOCAL) in
      bind_r (start_github tick s (fresh_application tick)) (\<lambda>a1.
      bind_r (both_capabilities personal a1) (\<lambda>a2.
      bind_r (start_football tick personal s a2) (\<lambda>a3.
      bind_r (register_when (personal \<and> reconciliation_configured s) Github_source a3) (\<lambda>a4.
      bind_r (start_spotify fernet_new tick personal s a4) (\<lambda>a5.
      bind_r (start_gmail fernet_new tick personal s a5) (\<lambda>a6.
      start_weather tick personal s a6)))))))"

section \<open>The observations\<close>

datatype content =
    Fixture_content fixture_observation
  | Github_content github_change
  | Weather_content weather_sample
  | Spotify_content playback_change
  | Gmail_content batch

definition with_content :: "'b \<Rightarrow> 'a observation \<Rightarrow> 'b observation" where
  "with_content c x = \<lparr>obs_provider_id = obs_provider_id x, obs_external_entity_id = obs_external_entity_id x,
     obs_observed_at = obs_observed_at x, obs_content = c, obs_provider_version = obs_provider_version x,
     obs_checkpoint = obs_checkpoint x, obs_correlation_id = obs_correlation_id x\<rparr>"

text \<open>The observations of one kind; fewer than there were is an error.\<close>

fun of_kind :: "(content \<Rightarrow> 'b option) \<Rightarrow> content observation list \<Rightarrow> 'b observation list" where
  "of_kind f [] = []"
| "of_kind f (x # xs) = (case f (obs_content x) of None \<Rightarrow> of_kind f xs | Some c \<Rightarrow> with_content c x # of_kind f xs)"

fun as_fixture :: "content \<Rightarrow> fixture_observation option" where
  "as_fixture (Fixture_content c) = Some c" | "as_fixture _ = None"
fun as_github :: "content \<Rightarrow> github_change option" where
  "as_github (Github_content c) = Some c" | "as_github _ = None"
fun as_weather :: "content \<Rightarrow> weather_sample option" where
  "as_weather (Weather_content c) = Some c" | "as_weather _ = None"
fun as_spotify :: "content \<Rightarrow> playback_change option" where
  "as_spotify (Spotify_content c) = Some c" | "as_spotify _ = None"
fun as_gmail :: "content \<Rightarrow> batch option" where
  "as_gmail (Gmail_content c) = Some c" | "as_gmail _ = None"

text \<open>What a handed batch goes to.\<close>

datatype adapter_call =
    To_football "fixture_observation observation list"
  | To_github "github_change observation list"
  | To_weather "weather_sample observation list"
  | To_spotify "playback_change observation list"
  | To_gmail "batch observation list"

definition all_of :: "(content \<Rightarrow> 'b option) \<Rightarrow> string \<Rightarrow> ('b observation list \<Rightarrow> adapter_call) \<Rightarrow> content observation list \<Rightarrow> adapter_call result" where
  "all_of f name call xs = (if length (of_kind f xs) \<noteq> length xs
     then Inl (ValueError (name @ '' source returned an unexpected observation type'')) else Inr (call (of_kind f xs)))"

definition adapter_for :: "bool \<Rightarrow> string \<Rightarrow> content observation list \<Rightarrow> adapter_call result" where
  "adapter_for football provider xs =
     (if provider = ''football'' then
        (if \<not> football then Inl (ValueError ''football source returned an unexpected observation type'') else all_of as_fixture ''football'' To_football xs)
      else if provider = ''github'' then all_of as_github ''GitHub'' To_github xs
      else if provider = ''weather'' then all_of as_weather ''weather'' To_weather xs
      else if provider = ''spotify'' then all_of as_spotify ''Spotify'' To_spotify xs
      else if provider = ''gmail'' then all_of as_gmail ''Gmail'' To_gmail xs
      else Inl (ValueError ''no ingestion adapter is registered for this provider''))"

section \<open>What a start registers\<close>

definition source_ready :: "(string \<Rightarrow> fernet option) \<Rightarrow> settings \<Rightarrow> source_kind \<Rightarrow> bool" where
  "source_ready fernet_new s k \<longleftrightarrow> runtime_mode s = PERSONAL_LOCAL \<and> (case k of
      Football_source \<Rightarrow> has (api_football_key (providers s))
    | Github_source \<Rightarrow> reconciliation_configured s
    | Spotify_source \<Rightarrow> is_spotify_configured fernet_new s = Inr True
    | Gmail_source \<Rightarrow> list_all has [google_client_id (providers s), google_client_secret (providers s), google_redirect_uri (providers s)]
        \<and> key_configured fernet_new s
    | Weather_source \<Rightarrow> True)"

definition registered :: "application \<Rightarrow> source_kind list" where
  "registered a = map cap_object (poll_sources (ap_registry a))"

text \<open>The registry holds each source under its own identifier.\<close>

definition keyed_sources :: "application \<Rightarrow> bool" where
  "keyed_sources a \<longleftrightarrow> reg_poll_sources (ap_registry a) = map (\<lambda>k. (source_id k, capability_of k)) (registered a)"

lemma capability_simps [simp]: "cap_provider_id (capability_of k) = Some (source_id k)" "cap_object (capability_of k) = k"
  by (simp_all add: capability_of_def)

lemma source_id_inject [simp]: "source_id j = source_id k \<longleftrightarrow> j = k"
  by (cases j; cases k) simp_all

lemma source_id_named [simp]: "strip (source_id k) \<noteq> []"
  by (cases k; simp only: source_id.simps) code_simp+

lemma register_when_ok:
  assumes "keyed_sources a" "k \<notin> set (registered a)"
  shows "\<exists>b. register_when c k a = Inr b \<and> keyed_sources b \<and> registered b = registered a @ (if c then [k] else [])
    \<and> ap_football b = ap_football a"
proof -
  have "source_id k \<notin> fst ` set (reg_poll_sources (ap_registry a))"
    using assms by (auto simp: keyed_sources_def)
  then show ?thesis
    using assms(1)
    by (auto simp: register_when_def register_poll_source_def register_capability_def keyed_sources_def registered_def poll_sources_def)
qed

lemma report_when_ok:
  assumes "provider_id_ok p" "detail_code_ok code" "rp_rate_limited_until x = None" "rp_last_message_observation_at x = None"
  shows "\<exists>b. report_when c now p st code x a = Inr b \<and> ap_registry b = ap_registry a \<and> ap_football b = ap_football a"
  using assms by (simp add: report_when_def report_def opt_aware_def Let_def)

lemma same_registry: "ap_registry b = ap_registry a \<Longrightarrow> registered b = registered a \<and> keyed_sources b = keyed_sources a"
  by (simp add: registered_def keyed_sources_def)

text \<open>A source is registered, then reported.\<close>

lemma register_and_report:
  assumes "keyed_sources a" "k \<notin> set (registered a)" "provider_id_ok p" "detail_code_ok code"
    "rp_rate_limited_until x = None" "rp_last_message_observation_at x = None"
  shows "\<exists>b. bind_r (register_when c k a) (\<lambda>b. report_when c' now p st code x b) = Inr b \<and> keyed_sources b
    \<and> registered b = registered a @ (if c then [k] else []) \<and> ap_football b = ap_football a"
proof -
  obtain b where b: "register_when c k a = Inr b" "keyed_sources b" "registered b = registered a @ (if c then [k] else [])"
    "ap_football b = ap_football a" using register_when_ok [OF assms(1,2)] by blast
  obtain d where d: "report_when c' now p st code x b = Inr d" "ap_registry d = ap_registry b" "ap_football d = ap_football b"
    using report_when_ok [OF assms(3-6)] by blast
  with same_registry [OF d(2)] b show ?thesis by auto
qed

lemma start_codes:
  "provider_id_ok ''football''" "provider_id_ok ''spotify''" "provider_id_ok ''gmail''" "provider_id_ok ''weather''"
  "detail_code_ok ''awaiting_first_observation''" "detail_code_ok ''awaiting_first_sync''"
  "detail_code_ok ''credential_encryption_unavailable''" "detail_code_ok ''location_missing''"
  by code_simp+

lemma default_times: "rp_rate_limited_until report_defaults = None" "rp_last_message_observation_at report_defaults = None"
  by (simp_all add: report_defaults_def)

lemma configured_football: "runtime_mode s = PERSONAL_LOCAL \<Longrightarrow> map_of (provider_configuration s) ''football'' = Some (has (api_football_key (providers s)))"
  by (simp add: provider_configuration_def Let_def)

lemma configured_gmail: "runtime_mode s = PERSONAL_LOCAL \<Longrightarrow> map_of (provider_configuration s) ''gmail''
    = Some (list_all has [google_client_id (providers s), google_client_secret (providers s), google_redirect_uri (providers s)])"
  by (simp add: provider_configuration_def Let_def)

lemma start_football_ok:
  assumes "keyed_sources a" "Football_source \<notin> set (registered a)"
  shows "\<exists>b. start_football tick (runtime_mode s = PERSONAL_LOCAL) s a = Inr b \<and> keyed_sources b
    \<and> registered b = registered a @ (if source_ready f s Football_source then [Football_source] else [])
    \<and> ap_football b = source_ready f s Football_source"
proof -
  let ?c = "source_ready f s Football_source"
  have c: "(runtime_mode s = PERSONAL_LOCAL \<and> map_of (provider_configuration s) ''football'' = Some True)
      \<and> (case api_football_key (providers s) of None \<Rightarrow> False | Some k \<Rightarrow> strip k \<noteq> []) \<longleftrightarrow> ?c"
    by (auto simp: source_ready_def configured_football has_def split: option.splits)
  have a: "keyed_sources (a\<lparr>ap_football := ?c\<rparr>)" "Football_source \<notin> set (registered (a\<lparr>ap_football := ?c\<rparr>))"
    "registered (a\<lparr>ap_football := ?c\<rparr>) = registered a"
    using assms by (simp_all add: keyed_sources_def registered_def)
  show ?thesis
    unfolding start_football_def Let_def c
    using register_and_report [OF a(1,2) start_codes(1,5) default_times, of ?c ?c "tick 2" Ps_connecting] a(3) by simp
qed

lemma start_spotify_ok:
  assumes "keyed_sources a" "Spotify_source \<notin> set (registered a)" "is_spotify_configured f s = Inr ready"
  shows "\<exists>b. start_spotify f tick (runtime_mode s = PERSONAL_LOCAL) s a = Inr b \<and> keyed_sources b
    \<and> registered b = registered a @ (if source_ready f s Spotify_source then [Spotify_source] else [])
    \<and> ap_football b = ap_football a"
proof -
  have "(if runtime_mode s = PERSONAL_LOCAL then is_spotify_configured f s else Inr False) = Inr (source_ready f s Spotify_source)"
    using assms(3) by (simp add: source_ready_def)
  then show ?thesis
    using register_and_report [OF assms(1,2) start_codes(2,5) default_times] by (simp add: start_spotify_def)
qed

lemma start_gmail_ok:
  assumes "keyed_sources a" "Gmail_source \<notin> set (registered a)"
  shows "\<exists>b. start_gmail f tick (runtime_mode s = PERSONAL_LOCAL) s a = Inr b \<and> keyed_sources b
    \<and> registered b = registered a @ (if source_ready f s Gmail_source then [Gmail_source] else [])
    \<and> ap_football b = ap_football a"
proof -
  let ?c = "source_ready f s Gmail_source"
  have c: "(runtime_mode s = PERSONAL_LOCAL \<and> map_of (provider_configuration s) ''gmail'' = Some True) \<and> key_configured f s \<longleftrightarrow> ?c"
    by (auto simp: source_ready_def configured_gmail)
  have "detail_code_ok (if ?c then ''awaiting_first_sync'' else ''credential_encryption_unavailable'')"
    using start_codes(6,7) by simp
  from register_and_report [OF assms start_codes(3) this default_times] show ?thesis
    unfolding start_gmail_def Let_def c by simp
qed

lemma start_weather_ok:
  assumes "keyed_sources a" "Weather_source \<notin> set (registered a)"
  shows "\<exists>b. start_weather tick (runtime_mode s = PERSONAL_LOCAL) s a = Inr b \<and> keyed_sources b
    \<and> registered b = registered a @ (if source_ready f s Weather_source then [Weather_source] else [])
    \<and> ap_football b = ap_football a"
proof -
  have c: "source_ready f s Weather_source \<longleftrightarrow> runtime_mode s = PERSONAL_LOCAL" by (simp add: source_ready_def)
  have "detail_code_ok (if weather_configured s then ''awaiting_first_observation'' else ''location_missing'')"
    using start_codes(5,8) by simp
  from register_and_report [OF assms start_codes(4) this, of "report_defaults\<lparr>rp_configured := weather_configured s\<rparr>"] show ?thesis
    unfolding start_weather_def c by (simp add: default_times)
qed

lemma start_github_ok: "\<exists>b. start_github tick s a = Inr b \<and> ap_registry b = ap_registry a"
proof -
  let ?code = "if reconciliation_configured s then ''awaiting_reconciliation''
    else if webhook_configured s then ''reconciliation_disconnected'' else ''configuration_missing''"
  have "detail_code_ok ?code" by simp
  then show ?thesis
    by (simp add: start_github_def initialize_github_def Let_def report_github_def report_def opt_aware_def default_times)
qed

section \<open>Properties\<close>

fun kind_of :: "content \<Rightarrow> source_kind" where
  "kind_of (Fixture_content c) = Football_source"
| "kind_of (Github_content c) = Github_source"
| "kind_of (Weather_content c) = Weather_source"
| "kind_of (Spotify_content c) = Spotify_source"
| "kind_of (Gmail_content c) = Gmail_source"

lemma of_kind_all: "(\<forall>x \<in> set xs. f (obs_content x) \<noteq> None) \<Longrightarrow> length (of_kind f xs) = length xs"
  by (induction xs) auto

lemma kinds:
  "kind_of c = Football_source \<Longrightarrow> as_fixture c \<noteq> None" "kind_of c = Github_source \<Longrightarrow> as_github c \<noteq> None"
  "kind_of c = Weather_source \<Longrightarrow> as_weather c \<noteq> None" "kind_of c = Spotify_source \<Longrightarrow> as_spotify c \<noteq> None"
  "kind_of c = Gmail_source \<Longrightarrow> as_gmail c \<noteq> None"
  by (cases c; simp)+

lemma adapter_total:
  assumes "\<forall>x \<in> set xs. kind_of (obs_content x) = k" "k = Football_source \<longrightarrow> football"
  shows "\<exists>call. adapter_for football (source_id k) xs = Inr call"
  using assms by (cases k) (simp_all add: adapter_for_def all_of_def of_kind_all kinds)

lemma startup_result:
  assumes "is_spotify_configured f s = Inr ready"
  shows "\<exists>a. start_application f tick s = Inr a
    \<and> registered a = filter (source_ready f s) [Football_source, Github_source, Spotify_source, Gmail_source, Weather_source]
    \<and> ap_football a = source_ready f s Football_source"
proof -
  let ?p = "runtime_mode s = PERSONAL_LOCAL" and ?r = "source_ready f s"
  obtain a1 where a1: "start_github tick s (fresh_application tick) = Inr a1" "ap_registry a1 = new_registry"
    using start_github_ok [of tick s "fresh_application tick"] by (auto simp: fresh_application_def)
  have "\<exists>a. both_capabilities ?p a1 = Inr a \<and> reg_poll_sources (ap_registry a) = []"
    using a1(2) source_id_named [of Github_source] source_id_named [of Spotify_source]
    by (simp add: both_capabilities_def register_webhook_source_def register_command_target_def register_capability_def new_registry_def)
  then obtain a2 where a2: "both_capabilities ?p a1 = Inr a2" "keyed_sources a2" "registered a2 = []"
    by (auto simp: keyed_sources_def registered_def poll_sources_def)
  obtain a3 where a3: "start_football tick ?p s a2 = Inr a3" "keyed_sources a3"
    "registered a3 = (if ?r Football_source then [Football_source] else [])" "ap_football a3 = ?r Football_source"
    using start_football_ok [OF a2(2), of tick s f] a2(3) by auto
  have ready: "?p \<and> reconciliation_configured s \<longleftrightarrow> ?r Github_source" by (auto simp: source_ready_def)
  obtain a4 where a4: "register_when (?p \<and> reconciliation_configured s) Github_source a3 = Inr a4" "keyed_sources a4"
    "registered a4 = registered a3 @ (if ?r Github_source then [Github_source] else [])" "ap_football a4 = ap_football a3"
    unfolding ready using register_when_ok [OF a3(2), of Github_source] a3(3) by fastforce
  obtain a5 where a5: "start_spotify f tick ?p s a4 = Inr a5" "keyed_sources a5"
    "registered a5 = registered a4 @ (if ?r Spotify_source then [Spotify_source] else [])" "ap_football a5 = ap_football a4"
    using start_spotify_ok [OF a4(2) _ assms, of tick] a4(3) a3(3) by fastforce
  obtain a6 where a6: "start_gmail f tick ?p s a5 = Inr a6" "keyed_sources a6"
    "registered a6 = registered a5 @ (if ?r Gmail_source then [Gmail_source] else [])" "ap_football a6 = ap_football a5"
    using start_gmail_ok [OF a5(2), of f tick s] a5(3) a4(3) a3(3) by fastforce
  obtain a7 where a7: "start_weather tick ?p s a6 = Inr a7" "keyed_sources a7"
    "registered a7 = registered a6 @ (if ?r Weather_source then [Weather_source] else [])" "ap_football a7 = ap_football a6"
    using start_weather_ok [OF a6(2), of tick s f] a6(3) a5(3) a4(3) a3(3) by fastforce
  have start: "start_application f tick s = Inr a7"
    by (simp add: start_application_def a1(1) a2(1) a3(1) a4(1) a5(1) a6(1) a7(1))
  have reg: "registered a7 = filter ?r [Football_source, Github_source, Spotify_source, Gmail_source, Weather_source]"
    by (simp add: a7(3) a6(3) a5(3) a4(3) a3(3))
  have "ap_football a7 = ?r Football_source" by (simp add: a7(4) a6(4) a5(4) a4(4) a3(4))
  with start reg show ?thesis by blast
qed



text \<open>A redirect URI with a broken bracket keeps the whole application from starting.\<close>

lemma broken_redirect_stops_start:
  assumes "runtime_mode s = PERSONAL_LOCAL" "is_spotify_configured f s = Inl e"
  shows "isl (start_application f tick s)"
proof -
  have "isl (start_spotify f tick True s a)" for a using assms by (simp add: start_spotify_def)
  then show ?thesis
    using assms(1) by (auto simp: start_application_def Let_def bind_simps isl_def) (metis bind_r_Inl bind_r_Inr sum.exhaust)
qed

end
