(* ===== verification/System_Health.thy ===== *)
theory System_Health
  imports Startup Football_Service Live_Api
begin

text \<open>
  The health endpoint of \<open>backend/app/api/routes.py\<close>: the probes, the components, and the state shown of
  each provider, which is put together from the shared registry and what each provider knows itself.
\<close>

section \<open>Components\<close>

text \<open>A probe succeeds or raises within its time; \<open>None\<close> stands for the exception.\<close>

definition probe_postgres :: "instant \<Rightarrow> bool \<Rightarrow> components \<Rightarrow> components" where
  "probe_postgres now ok = (if ok then report_component now ''postgres'' component_status.Healthy ''query_ok'' True []
     else report_component now ''postgres'' component_status.Unavailable ''connection_failed'' False [])"

definition probe_redpanda :: "instant \<Rightarrow> bool \<Rightarrow> components \<Rightarrow> components" where
  "probe_redpanda now ok = (if ok then report_component now ''redpanda'' component_status.Healthy ''broker_connected'' True []
     else report_component now ''redpanda'' component_status.Unavailable ''broker_connection_failed'' False [])"

definition ready :: "bool \<Rightarrow> bool \<Rightarrow> string result" where
  "ready database broker = (if database \<and> broker then Inr ''ready'' else Inl (RuntimeError ''dependencies_unavailable''))"

section \<open>What is shown of a provider\<close>

text \<open>
  The values of the dictionaries; a span of time is shown in seconds.  \<open>Sh_json\<close> is a dictionary that is
  passed on as it is.
\<close>

datatype shown = Sh_none | Sh_text string | Sh_flag bool | Sh_count int | Sh_span timedelta | Sh_part "(string \<times> shown) list" | Sh_json dict

type_synonym entry = "(string \<times> shown) list"

text \<open>\<open>{**a, **b}\<close>.\<close>

definition merged :: "entry \<Rightarrow> entry \<Rightarrow> entry" where
  "merged a b = fold (\<lambda>(k, v). AList.update k v) b a"

definition text_or_none :: "string option \<Rightarrow> shown" where
  "text_or_none v = (case v of None \<Rightarrow> Sh_none | Some s \<Rightarrow> Sh_text s)"

fun status_text :: "provider_status \<Rightarrow> string" where
  "status_text Ps_healthy = ''healthy''"
| "status_text Ps_degraded = ''degraded''"
| "status_text Ps_stale = ''stale''"
| "status_text Ps_connecting = ''connecting''"
| "status_text Ps_resyncing = ''resyncing''"
| "status_text Ps_rate_limited = ''rate_limited''"
| "status_text Ps_auth_failure = ''auth_failure''"
| "status_text Ps_provider_failure = ''provider_failure''"
| "status_text Ps_unavailable = ''unavailable''"
| "status_text Ps_disconnected = ''disconnected''"
| "status_text Ps_unknown = ''unknown''"

fun spotify_text :: "spotify_status \<Rightarrow> string" where
  "spotify_text Disconnected = ''disconnected''"
| "spotify_text spotify_status.Healthy = ''healthy''"
| "spotify_text spotify_status.Degraded = ''degraded''"
| "spotify_text Rate_limited_status = ''rate_limited''"
| "spotify_text Authorization_expired = ''authorization_expired''"
| "spotify_text Reconnect_required = ''reconnect_required''"

text \<open>\<open>model_dump(mode="json")\<close>; \<open>dump_time\<close> is how pydantic prints a time.\<close>

definition dumped_time :: "(instant \<Rightarrow> string) \<Rightarrow> instant option \<Rightarrow> shown" where
  "dumped_time dump_time t = text_or_none (map_option dump_time t)"

definition health_entry :: "(instant \<Rightarrow> string) \<Rightarrow> provider_health \<Rightarrow> entry" where
  "health_entry dt h =
     [(''provider'', Sh_text (ph_provider h)), (''status'', Sh_text (status_text (ph_status h))), (''configured'', Sh_flag (ph_configured h)),
      (''checked_at'', dumped_time dt (ph_checked_at h)), (''last_success_at'', dumped_time dt (ph_last_success_at h)),
      (''last_failure_at'', dumped_time dt (ph_last_failure_at h)), (''last_observation_at'', dumped_time dt (ph_last_observation_at h)),
      (''last_message_observation_at'', dumped_time dt (ph_last_message_observation_at h)),
      (''consecutive_failures'', Sh_count (ph_consecutive_failures h)),
      (''rate_limited_until'', dumped_time dt (ph_rate_limited_until h)), (''detail_code'', Sh_text (ph_detail_code h))]"

definition cadence_entry :: "cadence_view \<Rightarrow> entry" where
  "cadence_entry c = [(''interval_seconds'', Sh_span (cv_interval c)), (''reason'', Sh_text (cv_reason c)),
     (''request_cost'', Sh_count (cv_request_cost c)), (''decided_at'', Sh_text (cv_decided_at c))]"

definition football_entry :: "fixture_service \<Rightarrow> entry \<Rightarrow> entry" where
  "football_entry fs e =
     (let e1 = (case fv_quota fs of None \<Rightarrow> e | Some q \<Rightarrow> AList.update ''quota'' (Sh_json q) e)
      in case fv_cadence fs of None \<Rightarrow> e1 | Some c \<Rightarrow> AList.update ''cadence'' (Sh_part (cadence_entry c)) e1)"

definition capability_entry :: "capability_view \<Rightarrow> entry" where
  "capability_entry c = [(''configured'', Sh_flag (cv_configured c)), (''status'', Sh_text (status_text (cv_status c))),
     (''detail_code'', Sh_text (cv_detail_code c))]"

definition github_dict :: "github_view \<Rightarrow> entry" where
  "github_dict g =
     [(''provider'', Sh_text ''github''), (''configured'', Sh_flag (gv_configured g)), (''status'', Sh_text (status_text (gv_status g))),
      (''webhook'', Sh_part (capability_entry (gv_webhook g)
         @ [(''listening'', Sh_flag True), (''last_received_at'', text_or_none (gv_last_received_at g))])),
      (''reconciliation'', Sh_part (capability_entry (gv_reconciliation g)
         @ [(''last_attempt_at'', text_or_none (gv_last_attempt_at g)), (''last_success_at'', text_or_none (gv_last_success_at g)),
            (''rate_limited_until'', text_or_none (gv_rate_limited_until g))]))]"

definition github_entry :: "string \<Rightarrow> github_view \<Rightarrow> entry \<Rightarrow> entry" where
  "github_entry checked g e = merged (merged e (github_dict g))
     [(''checked_at'', Sh_text checked),
      (''last_observation_at'', text_or_none (if truthy (gv_last_received_at g) then gv_last_received_at g else gv_last_attempt_at g)),
      (''last_success_at'', text_or_none (gv_last_success_at g)), (''rate_limited_until'', text_or_none (gv_rate_limited_until g))]"

definition weather_dict :: "weather_health \<Rightarrow> entry" where
  "weather_dict w = [(''provider'', Sh_text ''weather''), (''status'', Sh_text (status_text (wh_status w))), (''configured'', Sh_flag (wh_configured w)),
     (''freshness'', Sh_text (wh_freshness w)), (''detail_code'', Sh_text (wh_detail_code w)),
     (''last_success_at'', text_or_none (wh_last_success_at w)), (''last_failure_at'', text_or_none (wh_last_failure_at w))]"

text \<open>What the scheduler knows goes before what the weather service knows.\<close>

definition overriding :: "provider_status \<Rightarrow> bool" where
  "overriding s = (s \<in> {Ps_rate_limited, Ps_auth_failure, Ps_provider_failure, Ps_unavailable, Ps_connecting, Ps_resyncing})"

definition weather_status :: "provider_status \<Rightarrow> weather_health \<Rightarrow> string" where
  "weather_status generic w = (if overriding generic then status_text generic
     else if wh_freshness w = ''stale'' then ''stale'' else status_text (wh_status w))"

definition weather_entry :: "string \<Rightarrow> (instant \<Rightarrow> string) \<Rightarrow> provider_health \<Rightarrow> weather_health \<Rightarrow> entry" where
  "weather_entry checked dt h w = merged (merged (health_entry dt h) (weather_dict w))
     [(''status'', Sh_text (weather_status (ph_status h) w)), (''checked_at'', Sh_text checked),
      (''last_observation_at'', text_or_none (wh_last_success_at w)), (''rate_limited_until'', dumped_time dt (ph_rate_limited_until h))]"

definition spotify_view_entry :: "(instant \<Rightarrow> string) \<Rightarrow> spotify_health_view \<Rightarrow> entry" where
  "spotify_view_entry dt v =
     [(''provider'', Sh_text ''spotify''),
      (''status'', Sh_text (if sv_detail_code v = ''not_observed'' \<and> sv_connected v then ''connecting'' else spotify_text (sv_status v))),
      (''configured'', Sh_flag (sv_configured v)), (''connected'', Sh_flag (sv_connected v)), (''detail_code'', Sh_text (sv_detail_code v)),
      (''checked_at'', Sh_text (dt (sv_checked_at v))), (''last_success_at'', dumped_time dt (sv_last_success_at v)),
      (''last_failure_at'', dumped_time dt (sv_last_failure_at v)), (''last_observation_at'', dumped_time dt (sv_last_observation_at v)),
      (''rate_limited_until'', dumped_time dt (sv_rate_limited_until v)),
      (''freshness_seconds'', (case sv_freshness v of None \<Rightarrow> Sh_none | Some t \<Rightarrow> Sh_span t))]"

definition spotify_down :: "bool \<Rightarrow> string \<Rightarrow> string \<Rightarrow> entry" where
  "spotify_down configured status code = [(''provider'', Sh_text ''spotify''), (''configured'', Sh_flag configured), (''connected'', Sh_flag False),
     (''status'', Sh_text status), (''detail_code'', Sh_text code)]"

text \<open>\<open>reachable\<close>: the database answers.\<close>

definition spotify_dict :: "spotify_env \<Rightarrow> (instant \<Rightarrow> string) \<Rightarrow> bool \<Rightarrow> entry spotify" where
  "spotify_dict env dt reachable =
     bind_p (lift_p Spotify_raised (is_spotify_configured (sy_fernet env) (sy_settings env))) (\<lambda>c.
     if c then
       attempt_p
         (if reachable then bind_p (connection_status env) (\<lambda>s. return_p (spotify_view_entry dt (sc_health s)))
          else raise_p (Spotify_raised (RuntimeError ''database'')))
         (\<lambda>e. return_p (spotify_down True ''unavailable'' ''connection_store_unavailable''))
     else if map_of (provider_configuration (sy_settings env)) ''spotify'' = Some True then
       return_p (spotify_down True ''degraded''
         (if \<not> key_configured (sy_fernet env) (sy_settings env) then ''credential_encryption_unavailable'' else ''redirect_uri_invalid''))
     else return_p (spotify_down False ''disconnected'' ''configuration_missing''))"

definition spotify_shown :: "entry \<Rightarrow> entry" where
  "spotify_shown e = (if map_of e ''status'' \<in> {Some (Sh_text ''authorization_expired''), Some (Sh_text ''reconnect_required'')}
     then AList.update ''status'' (Sh_text ''auth_failure'') e else e)"

definition spotify_entry :: "string \<Rightarrow> entry \<Rightarrow> entry \<Rightarrow> entry" where
  "spotify_entry checked generic e = merged (merged generic (spotify_shown e)) [(''checked_at'', Sh_text checked)]"

text \<open>The row of Gmail, as far as the database answers.\<close>

definition gmail_connected :: "connection_row option \<Rightarrow> bool" where
  "gmail_connected row = (case row of None \<Rightarrow> False | Some r \<Rightarrow> cn_status r = ''connected'' \<and> cn_credentials r \<noteq> None)"

definition gmail_change :: "bool \<Rightarrow> bool \<Rightarrow> bool \<Rightarrow> connection_row option \<Rightarrow> provider_status \<Rightarrow> (string \<times> string) option" where
  "gmail_change configured reachable key row status =
     (if \<not> configured then Some (''disconnected'', ''configuration_missing'')
      else if \<not> reachable then Some (''unavailable'', ''connection_store_unavailable'')
      else if \<not> key then Some (''degraded'', ''credential_encryption_unavailable'')
      else if \<not> gmail_connected row then
        (if (case row of None \<Rightarrow> False | Some r \<Rightarrow> cn_status r = ''degraded'') then Some (''auth_failure'', ''reconnect_required'')
         else if status \<in> {Ps_rate_limited, Ps_provider_failure, Ps_unavailable} then None
         else Some (''disconnected'', ''authorization_required''))
      else None)"

definition gmail_entry :: "(string \<Rightarrow> fernet option) \<Rightarrow> settings \<Rightarrow> string \<Rightarrow> (instant \<Rightarrow> string) \<Rightarrow> bool \<Rightarrow> db \<Rightarrow> provider_health \<Rightarrow> entry" where
  "gmail_entry fernet_new s checked dt reachable d h =
     (let configured = (map_of (provider_configuration s) ''gmail'' = Some True);
          row = (if configured \<and> reachable then find_connection ''gmail'' d else None);
          e = merged (health_entry dt h) [(''configured'', Sh_flag configured), (''connected'', Sh_flag (gmail_connected row)), (''checked_at'', Sh_text checked)]
      in case gmail_change configured reachable (key_configured fernet_new s) row (ph_status h) of
           None \<Rightarrow> e | Some (status, code) \<Rightarrow> merged e [(''status'', Sh_text status), (''detail_code'', Sh_text code)])"

section \<open>All providers\<close>

definition demo_entry :: "string \<Rightarrow> string \<Rightarrow> string \<times> entry" where
  "demo_entry checked p = (p, [(''provider'', Sh_text p), (''configured'', Sh_flag False), (''connected'', Sh_flag False),
     (''status'', Sh_text ''disconnected''), (''detail_code'', Sh_text ''disabled_in_public_demo''), (''checked_at'', Sh_text checked)])"

text \<open>What the endpoint reads besides the world of Spotify, which holds the database and the registry.\<close>

record health_inputs =
  hi_time :: "instant \<Rightarrow> string"
  hi_reachable :: bool
  hi_football :: fixture_service
  hi_github :: github_tracker
  hi_weather :: weather_service

definition registered_health :: "settings \<Rightarrow> string \<Rightarrow> health_registry \<Rightarrow> provider_health" where
  "registered_health s p reg = (case map_of (snapshot s reg) p of
      Some h \<Rightarrow> h | None \<Rightarrow> unreported p (map_of (provider_configuration s) p = Some True))"

definition weather_known :: "settings \<Rightarrow> instant \<Rightarrow> provider_health \<Rightarrow> weather_service \<Rightarrow> weather_health" where
  "weather_known s now h w = Weather_Poll.health_snapshot s now
     (Some (map_of (provider_configuration s) ''weather'' = Some True \<or> ph_configured h)) w"

definition provider_health_snapshot :: "spotify_env \<Rightarrow> instant \<Rightarrow> health_inputs \<Rightarrow> (string \<times> entry) list spotify" where
  "provider_health_snapshot env now x =
     (let s = sy_settings env; checked = isoformat now in
      if runtime_mode s = PUBLIC_DEMO then return_p (map (demo_entry checked) [''football'', ''spotify'', ''github'', ''gmail'', ''weather''])
      else
        bind_p (read_p sw_registry) (\<lambda>reg.
        bind_p (spotify_dict env (hi_time x) (hi_reachable x)) (\<lambda>sp.
        bind_p (read_p sw_db) (\<lambda>d.
        (let generic = (\<lambda>p. registered_health s p reg); dump = (\<lambda>p. health_entry (hi_time x) (generic p))
         in return_p
           [(''football'', football_entry (hi_football x) (dump ''football'')),
            (''spotify'', spotify_entry checked (dump ''spotify'') sp),
            (''github'', github_entry checked (github_snapshot s now (hi_github x)) (dump ''github'')),
            (''gmail'', gmail_entry (sy_fernet env) s checked (hi_time x) (hi_reachable x) d (generic ''gmail'')),
            (''weather'', weather_entry checked (hi_time x) (generic ''weather'') (weather_known s now (generic ''weather'') (hi_weather x)))])))))"

record system_health_view =
  sy_status :: component_status
  sy_checked_at :: string
  sy_mode :: runtime_mode
  sy_components :: "component list"
  sy_providers :: "(string \<times> entry) list"

text \<open>\<open>pg\<close> and \<open>rp\<close> say whether the probes of PostgreSQL and Redpanda go through.\<close>

definition system_health :: "spotify_env \<Rightarrow> instant \<Rightarrow> bool \<Rightarrow> bool \<Rightarrow> manager \<Rightarrow> components \<Rightarrow> health_inputs
    \<Rightarrow> (components \<times> system_health_view) spotify" where
  "system_health env now pg rp m comps x =
     (let c1 = probe_redpanda now rp (probe_postgres now pg comps); snap = (\<lambda>n. component_snapshot now n c1);
          shown = [snap ''postgres'', snap ''redpanda'', snap ''outbox_publisher'', snap ''projector'',
            Realtime.health_snapshot now m, snap ''demo_source'']
      in bind_p (provider_health_snapshot env now x) (\<lambda>ps.
         return_p (c1, \<lparr>sy_status = overall_status shown, sy_checked_at = isoformat now, sy_mode = runtime_mode (sy_settings env),
           sy_components = shown, sy_providers = ps\<rparr>)))"

section \<open>Healthy is earned\<close>

lemma map_of_merged: "map_of (merged a b) k = (case map_of (rev b) k of None \<Rightarrow> map_of a k | Some v \<Rightarrow> Some v)"
proof (induction b rule: rev_induct)
  case (snoc x b)
  then show ?case by (cases x) (simp add: merged_def update_conv' split: option.split)
qed (simp add: merged_def)

abbreviation shown_healthy :: "entry \<Rightarrow> bool" where
  "shown_healthy e \<equiv> map_of e ''status'' = Some (Sh_text ''healthy'')"

lemma status_text_healthy: "status_text s = ''healthy'' \<longleftrightarrow> s = Ps_healthy"
  by (cases s) simp_all

lemma spotify_text_healthy: "spotify_text s = ''healthy'' \<longleftrightarrow> s = spotify_status.Healthy"
  by (cases s) simp_all

lemma football_healthy: "shown_healthy (football_entry fs (health_entry dt h)) \<longleftrightarrow> ph_status h = Ps_healthy"
  by (simp add: football_entry_def Let_def health_entry_def update_conv' eq_commute [of _ "status_text s" for s]
        status_text_healthy split: option.split)

lemma github_healthy: "shown_healthy (github_entry checked g e) \<longleftrightarrow> gv_status g = Ps_healthy"
  by (simp add: github_entry_def map_of_merged github_dict_def status_text_healthy)

lemma combined_is_healthy: "combined_status a b = Ps_healthy \<longleftrightarrow> b = Ps_healthy"
  by (auto simp: combined_status_def)

lemma github_earned:
  assumes "gv_status (github_snapshot s now tr) = Ps_healthy"
  shows "reconciliation_configured s \<and> gt_status tr = Ps_healthy \<and> (\<forall>t. gt_last_reconciliation_at tr = Some t \<longrightarrow> now - t \<le> minutes 20)"
  using assms
  by (auto simp: github_snapshot_def Let_def combined_is_healthy reconciliation_view_def split: if_splits option.splits)

lemma weather_healthy: "shown_healthy (weather_entry checked dt h w) \<Longrightarrow> wh_status w = Ps_healthy"
  by (auto simp: weather_entry_def map_of_merged weather_status_def overriding_def status_text_healthy split: if_splits)

lemma weather_earned:
  assumes "wh_status (Weather_Poll.health_snapshot s now c w) = Ps_healthy"
  shows "ws_last_failure_at w = None \<and> (\<exists>t. ws_fetched_at w = Some t \<and> now - t \<le> minutes 45)"
  using assms by (auto simp: Weather_Poll.health_snapshot_def Let_def split: if_splits option.splits prod.splits)

lemma connection_shown:
  assumes "connection_status env w = (Inr c, w')" "sv_status (sc_health c) = spotify_status.Healthy"
  shows "\<exists>r. find_connection ''spotify'' (sw_db w) = Some r \<and> cn_status r = ''connected''"
proof -
  obtain c' status at' now h where i: "snd (connection_info (sw_db w)) = (status, at')"
    and v: "sc_health c = spotify_snapshot c' status at' now h"
    using assms(1)
    by (auto simp: connection_status_def bind_p_def read_p_def return_p_def Let_def split: prod.splits sum.splits if_splits)
  have "status = ''connected''"
    using assms(2) by (auto simp: v spotify_snapshot_def shown_status_def Let_def split: prod.splits if_splits option.splits spotify_status.splits)
  with i show ?thesis by (auto simp: connection_info_def split: option.splits)
qed

lemma spotify_view_healthy:
  assumes "shown_healthy (spotify_entry checked g (spotify_view_entry dt v))"
  shows "sv_status v = spotify_status.Healthy"
  using assms
  by (cases "sv_status v")
     (auto simp: spotify_entry_def map_of_merged spotify_shown_def spotify_view_entry_def split: if_splits)

lemma spotify_down_unhealthy:
  assumes "st \<noteq> ''healthy''"
  shows "\<not> shown_healthy (spotify_entry checked g (spotify_down c st code))"
  using assms by (auto simp: spotify_entry_def map_of_merged spotify_shown_def spotify_down_def)

lemma spotify_dict_result:
  assumes "spotify_dict env dt reachable w = (Inr e, w')"
  shows "(\<exists>c w''. connection_status env w = (Inr c, w'') \<and> e = spotify_view_entry dt (sc_health c))
    \<or> e = spotify_down True ''unavailable'' ''connection_store_unavailable''
    \<or> e = spotify_down True ''degraded'' ''credential_encryption_unavailable''
    \<or> e = spotify_down True ''degraded'' ''redirect_uri_invalid''
    \<or> e = spotify_down False ''disconnected'' ''configuration_missing''"
  using assms
  by (auto simp: spotify_dict_def bind_p_def lift_p_def attempt_p_def return_p_def raise_p_def
      split: prod.splits sum.splits if_splits)

lemma spotify_healthy:
  assumes run: "spotify_dict env dt reachable w = (Inr e, w')" and shown: "shown_healthy (spotify_entry checked g e)"
  shows "\<exists>r. find_connection ''spotify'' (sw_db w) = Some r \<and> cn_status r = ''connected''"
proof -
  obtain c w'' where "connection_status env w = (Inr c, w'')" and e: "e = spotify_view_entry dt (sc_health c)"
    using spotify_dict_result [OF run] shown by (auto simp: spotify_down_unhealthy)
  moreover have "sv_status (sc_health c) = spotify_status.Healthy"
    by (rule spotify_view_healthy [OF shown [unfolded e]])
  ultimately show ?thesis by (rule_tac connection_shown)
qed

lemma gmail_unhealthy:
  assumes "gmail_change configured reachable key row s = Some (status, code)"
  shows "status \<noteq> ''healthy''"
  using assms by (auto simp: gmail_change_def split: if_splits)

lemma gmail_earned:
  assumes "shown_healthy (gmail_entry fn s checked dt reachable d h)"
  shows "reachable \<and> key_configured fn s \<and> gmail_connected (find_connection ''gmail'' d) \<and> ph_status h = Ps_healthy"
proof (cases "gmail_change (map_of (provider_configuration s) ''gmail'' = Some True) reachable (key_configured fn s)
    (if map_of (provider_configuration s) ''gmail'' = Some True \<and> reachable then find_connection ''gmail'' d else None) (ph_status h)")
  case None
  moreover from this assms have "ph_status h = Ps_healthy"
    by (simp add: gmail_entry_def Let_def map_of_merged health_entry_def eq_commute [of _ "status_text s" for s] status_text_healthy)
  ultimately show ?thesis by (auto simp: gmail_change_def split: if_splits)
next
  case (Some c)
  then obtain st code where "c = (st, code)" by (cases c)
  with Some assms gmail_unhealthy [of _ _ _ _ _ st code] show ?thesis
    by (auto simp: gmail_entry_def Let_def map_of_merged)
qed

text \<open>
  What the service itself must know before it shows a provider healthy; \<open>d\<close> is the database when the endpoint
  began, \<open>d'\<close> when it answered.
\<close>

definition earned :: "spotify_env \<Rightarrow> instant \<Rightarrow> health_inputs \<Rightarrow> health_registry \<Rightarrow> db \<Rightarrow> db \<Rightarrow> string \<Rightarrow> bool" where
  "earned env now x reg d d' p = (runtime_mode (sy_settings env) \<noteq> PUBLIC_DEMO \<and>
     (if p = ''football'' then ph_status (registered_health (sy_settings env) p reg) = Ps_healthy
      else if p = ''spotify'' then (\<exists>r. find_connection ''spotify'' d = Some r \<and> cn_status r = ''connected'')
      else if p = ''github'' then reconciliation_configured (sy_settings env) \<and> gt_status (hi_github x) = Ps_healthy
        \<and> (\<forall>t. gt_last_reconciliation_at (hi_github x) = Some t \<longrightarrow> now - t \<le> minutes 20)
      else if p = ''gmail'' then hi_reachable x \<and> key_configured (sy_fernet env) (sy_settings env)
        \<and> gmail_connected (find_connection ''gmail'' d') \<and> ph_status (registered_health (sy_settings env) p reg) = Ps_healthy
      else ws_last_failure_at (hi_weather x) = None \<and> (\<exists>t. ws_fetched_at (hi_weather x) = Some t \<and> now - t \<le> minutes 45)))"

lemma snapshot_result:
  assumes "runtime_mode (sy_settings env) \<noteq> PUBLIC_DEMO" "provider_health_snapshot env now x w = (Inr ps, w')"
  shows "\<exists>sp. spotify_dict env (hi_time x) (hi_reachable x) w = (Inr sp, w') \<and>
    ps = (let s = sy_settings env; checked = isoformat now; generic = (\<lambda>p. registered_health s p (sw_registry w));
        dump = (\<lambda>p. health_entry (hi_time x) (generic p)) in
      [(''football'', football_entry (hi_football x) (dump ''football'')),
       (''spotify'', spotify_entry checked (dump ''spotify'') sp),
       (''github'', github_entry checked (github_snapshot s now (hi_github x)) (dump ''github'')),
       (''gmail'', gmail_entry (sy_fernet env) s checked (hi_time x) (hi_reachable x) (sw_db w') (generic ''gmail'')),
       (''weather'', weather_entry checked (hi_time x) (generic ''weather'') (weather_known s now (generic ''weather'') (hi_weather x)))])"
  using assms
  by (auto simp: provider_health_snapshot_def Let_def bind_p_def read_p_def return_p_def split: prod.splits sum.splits)

lemma registered_earned:
  assumes "runtime_mode (sy_settings env) \<noteq> PUBLIC_DEMO"
  shows "shown_healthy (football_entry fs (health_entry dt (registered_health (sy_settings env) ''football'' reg)))
      \<Longrightarrow> earned env now x reg d d' ''football''"
    and "shown_healthy (gmail_entry (sy_fernet env) (sy_settings env) checked dt (hi_reachable x) d'
        (registered_health (sy_settings env) ''gmail'' reg)) \<Longrightarrow> earned env now x reg d d' ''gmail''"
  using assms by (simp_all add: earned_def football_healthy) (drule gmail_earned, simp)

lemma github_shown_earned:
  assumes "runtime_mode (sy_settings env) \<noteq> PUBLIC_DEMO"
    "shown_healthy (github_entry checked (github_snapshot (sy_settings env) now (hi_github x)) e)"
  shows "earned env now x reg d d' ''github''"
  using assms(1) github_earned [OF assms(2) [unfolded github_healthy]] by (simp add: earned_def)

lemma weather_shown_earned:
  assumes "runtime_mode (sy_settings env) \<noteq> PUBLIC_DEMO"
    "shown_healthy (weather_entry checked dt h (weather_known (sy_settings env) now h' (hi_weather x)))"
  shows "earned env now x reg d d' ''weather''"
  using assms(1) weather_earned [OF weather_healthy [OF assms(2), unfolded weather_known_def]] by (simp add: earned_def)

lemma spotify_earned:
  assumes "runtime_mode (sy_settings env) \<noteq> PUBLIC_DEMO" "spotify_dict env dt reachable w = (Inr e, w')"
    "shown_healthy (spotify_entry checked g e)"
  shows "earned env now x reg (sw_db w) d' ''spotify''"
  using spotify_healthy [OF assms(2,3)] assms(1) by (simp add: earned_def)

text \<open>
  C3.  The health endpoint never shows a provider healthy that the service has no ground to call so.  Its answer has
  the five providers in their order, and each one shown \<open>healthy\<close> has earned it: the service is not a public demo;
  football's registered state is healthy; Spotify's connection is stored as connected; GitHub's reconciliation is
  configured, healthy, and not older than twenty minutes; Gmail's database answers, its key and its credentials are
  there and its registered state is healthy; the weather was fetched in the last 45 minutes and has not failed since.
\<close>

theorem health_is_earned:
  assumes "provider_health_snapshot env now x w = (Inr ps, w')"
  shows "map fst ps = [''football'', ''spotify'', ''github'', ''gmail'', ''weather'']
    \<and> list_all (\<lambda>(p, e). map_of e ''status'' = Some (Sh_text ''healthy'') \<longrightarrow> earned env now x (sw_registry w) (sw_db w) (sw_db w') p) ps"
proof (cases "runtime_mode (sy_settings env) = PUBLIC_DEMO")
  case True
  then have ps: "ps = map (demo_entry (isoformat now)) [''football'', ''spotify'', ''github'', ''gmail'', ''weather'']"
    using assms by (simp add: provider_health_snapshot_def Let_def return_p_def)
  show ?thesis by (simp add: ps demo_entry_def)
next
  case False
  obtain sp where sp: "spotify_dict env (hi_time x) (hi_reachable x) w = (Inr sp, w')"
    and ps: "ps = (let s = sy_settings env; checked = isoformat now; generic = (\<lambda>p. registered_health s p (sw_registry w));
        dump = (\<lambda>p. health_entry (hi_time x) (generic p)) in
      [(''football'', football_entry (hi_football x) (dump ''football'')),
       (''spotify'', spotify_entry checked (dump ''spotify'') sp),
       (''github'', github_entry checked (github_snapshot s now (hi_github x)) (dump ''github'')),
       (''gmail'', gmail_entry (sy_fernet env) s checked (hi_time x) (hi_reachable x) (sw_db w') (generic ''gmail'')),
       (''weather'', weather_entry checked (hi_time x) (generic ''weather'') (weather_known s now (generic ''weather'') (hi_weather x)))])"
    using snapshot_result [OF False assms] by blast
  show ?thesis
    unfolding ps Let_def
    by (simp only: list.map fst_conv list.pred_inject prod.case simp_thms)
       (intro conjI impI, (erule registered_earned [OF False] github_shown_earned [OF False] weather_shown_earned [OF False] spotify_earned [OF False sp])+)
qed

definition sample_health_env :: spotify_env where
  "sample_health_env = (sample_spotify 200 JNull 204 0)\<lparr>sy_settings := sample_spotify_settings\<lparr>providers :=
     (providers sample_spotify_settings)\<lparr>github_owner := Some ''o'', github_token := Some ''t''\<rparr>\<rparr>\<rparr>"

definition sample_inputs :: health_inputs where
  "sample_inputs = \<lparr>hi_time = isoformat, hi_reachable = True, hi_football = Football_Service.service_new,
     hi_github = tracker_new\<lparr>gt_status := Ps_healthy, gt_last_reconciliation_at := Some 0\<rparr>, hi_weather = Weather_Poll.service_new\<rparr>"

lemma health_is_earned_witness:
  "\<exists>ps w' e. provider_health_snapshot sample_health_env 0 sample_inputs sample_spotify_world = (Inr ps, w')
     \<and> map_of ps ''github'' = Some e \<and> map_of e ''status'' = Some (Sh_text ''healthy'')
     \<and> earned sample_health_env 0 sample_inputs (sw_registry sample_spotify_world) (sw_db sample_spotify_world) (sw_db w') ''github''"
proof -
  have "(case provider_health_snapshot sample_health_env 0 sample_inputs sample_spotify_world of
      (Inr ps, w') \<Rightarrow> (case map_of ps ''github'' of Some e \<Rightarrow> map_of e ''status'' = Some (Sh_text ''healthy'') | None \<Rightarrow> False) | _ \<Rightarrow> False)"
    by code_simp
  then obtain ps w' e where r: "provider_health_snapshot sample_health_env 0 sample_inputs sample_spotify_world = (Inr ps, w')"
    and e: "map_of ps ''github'' = Some e" "map_of e ''status'' = Some (Sh_text ''healthy'')"
    by (auto split: prod.splits sum.splits option.splits)
  have "earned sample_health_env 0 sample_inputs (sw_registry sample_spotify_world) (sw_db sample_spotify_world) (sw_db w') ''github''"
    using health_is_earned [OF r] map_of_SomeD [OF e(1)] e(2) by (auto simp: list_all_iff)
  with r e show ?thesis by blast
qed

end
