(* ===== verification/Poll_Tasks.thy ===== *)
theory Poll_Tasks
  imports Scheduler
begin

text \<open>
  The tasks of \<open>PollScheduler\<close> (\<open>backend/app/providers/scheduler.py\<close>): the polls of its loops and the ones a
  request asks for compete for the permits of one semaphore and for the lock of their source.  The tasks
  of asyncio change hands only where they await, so each operation here is one step.
\<close>

section \<open>The scheduler\<close>

text \<open>
  A poll waits for a permit, then for the lock of its source, then observes and hands on what it observed.
\<close>

datatype poll_phase = Waits_permit | Waits_lock | Observing

record poll_task =
  pt_provider :: string
  pt_requested :: bool
  pt_phase :: poll_phase

text \<open>
  \<open>sr_polls\<close> holds the polls in the order in which they asked for a permit: the semaphore and the locks
  serve in that order.  \<open>sr_tasks\<close> are the tasks of the last \<open>run\<close>, \<open>sr_alive\<close> those that have not ended.
\<close>

record scheduler =
  sr_sources :: "poll_source list"
  sr_max :: nat
  sr_stop :: bool
  sr_tasks :: "string list"
  sr_alive :: "string list"
  sr_failures :: "string \<Rightarrow> int"
  sr_polls :: "poll_task list"
  sr_registry :: health_registry

definition scheduler_new :: "poll_source list \<Rightarrow> int \<Rightarrow> health_registry \<Rightarrow> scheduler result" where
  "scheduler_new sources max_concurrency reg =
     (if max_concurrency < 1 then Inl (ValueError ''max_concurrency must be positive'')
      else if \<not> distinct (map ps_provider_id sources) then Inl (ValueError ''poll sources must have unique provider ids'')
      else Inr \<lparr>sr_sources = sources, sr_max = nat max_concurrency, sr_stop = False, sr_tasks = [], sr_alive = [],
        sr_failures = (\<lambda>_. 0), sr_polls = [], sr_registry = reg\<rparr>)"

definition source_named :: "string \<Rightarrow> scheduler \<Rightarrow> poll_source option" where
  "source_named p s = find (\<lambda>x. ps_provider_id x = p) (sr_sources s)"

definition run_scheduler :: "scheduler \<Rightarrow> scheduler result" where
  "run_scheduler s =
     (if sr_tasks s \<noteq> [] then Inl (RuntimeError ''poll scheduler is already running'')
      else (let names = map ps_provider_id (sr_sources s) in
        Inr (s\<lparr>sr_stop := False, sr_tasks := names, sr_alive := names, sr_failures := (\<lambda>_. 0)\<rparr>)))"

definition stop_scheduler :: "scheduler \<Rightarrow> scheduler" where
  "stop_scheduler s = s\<lparr>sr_stop := True\<rparr>"

definition loop_poll :: "string \<Rightarrow> poll_task \<Rightarrow> bool" where
  "loop_poll p t \<longleftrightarrow> pt_provider t = p \<and> \<not> pt_requested t"

text \<open>The end of a loop that is cancelled, by \<open>stop\<close> or by the end of \<open>run\<close>.\<close>

definition cancel_loop :: "string \<Rightarrow> scheduler \<Rightarrow> scheduler" where
  "cancel_loop p s = s\<lparr>sr_alive := removeAll p (sr_alive s), sr_polls := filter (\<lambda>t. \<not> loop_poll p t) (sr_polls s)\<rparr>"

text \<open>\<open>run\<close> returns when all its tasks have ended.\<close>

definition run_ends :: "scheduler \<Rightarrow> scheduler option" where
  "run_ends s = (if sr_alive s = [] then Some (s\<lparr>sr_tasks := []\<rparr>) else None)"

section \<open>A poll\<close>

definition begin_turn :: "string \<Rightarrow> scheduler \<Rightarrow> scheduler option" where
  "begin_turn p s =
     (if p \<in> set (sr_alive s) \<and> \<not> sr_stop s \<and> \<not> list_ex (loop_poll p) (sr_polls s)
      then Some (s\<lparr>sr_polls := sr_polls s @ [\<lparr>pt_provider = p, pt_requested = False, pt_phase = Waits_permit\<rparr>]\<rparr>) else None)"

definition poll_now :: "string \<Rightarrow> scheduler \<Rightarrow> scheduler result" where
  "poll_now p s = (case source_named p s of
      None \<Rightarrow> Inl (KeyError p)
    | Some _ \<Rightarrow> Inr (s\<lparr>sr_polls := sr_polls s @ [\<lparr>pt_provider = p, pt_requested = True, pt_phase = Waits_permit\<rparr>]\<rparr>))"

definition holds_permit :: "poll_task \<Rightarrow> bool" where
  "holds_permit t \<longleftrightarrow> pt_phase t \<noteq> Waits_permit"

definition observes :: "string \<Rightarrow> poll_task \<Rightarrow> bool" where
  "observes p t \<longleftrightarrow> pt_provider t = p \<and> pt_phase t = Observing"

definition how_many :: "('a \<Rightarrow> bool) \<Rightarrow> 'a list \<Rightarrow> nat" where
  "how_many f xs = length (filter f xs)"

fun next_phase :: "(poll_task \<Rightarrow> bool) \<Rightarrow> poll_phase \<Rightarrow> poll_task list \<Rightarrow> poll_task list option" where
  "next_phase f ph [] = None"
| "next_phase f ph (t # ts) = (if f t then Some (t\<lparr>pt_phase := ph\<rparr> # ts) else map_option ((#) t) (next_phase f ph ts))"

definition acquire_permit :: "scheduler \<Rightarrow> scheduler option" where
  "acquire_permit s =
     (if how_many holds_permit (sr_polls s) < sr_max s
      then map_option (\<lambda>ts. s\<lparr>sr_polls := ts\<rparr>) (next_phase (\<lambda>t. pt_phase t = Waits_permit) Waits_lock (sr_polls s)) else None)"

definition acquire_lock :: "string \<Rightarrow> scheduler \<Rightarrow> scheduler option" where
  "acquire_lock p s =
     (if list_ex (observes p) (sr_polls s) then None
      else map_option (\<lambda>ts. s\<lparr>sr_polls := ts\<rparr>)
        (next_phase (\<lambda>t. pt_provider t = p \<and> pt_phase t = Waits_lock) Observing (sr_polls s)))"

text \<open>The answer of \<open>poll_now\<close>: observations, the exception of the poll, or one of the report itself.\<close>

datatype poll_answer = Polled bool | Poll_raised poll_outcome | Report_raised py_error

definition reported :: "(provider_health \<times> health_registry) result \<Rightarrow> poll_answer \<Rightarrow> health_registry \<Rightarrow> poll_answer \<times> health_registry" where
  "reported r answer reg = (case r of Inl e \<Rightarrow> (Report_raised e, reg) | Inr (h, reg') \<Rightarrow> (answer, reg'))"

definition poll_now_ends :: "poll_source \<Rightarrow> instant \<Rightarrow> poll_outcome \<Rightarrow> health_registry \<Rightarrow> poll_answer \<times> health_registry" where
  "poll_now_ends src now o' reg =
     (let p = ps_provider_id src in
      case o' of
        Observed observed \<Rightarrow> reported (success now p observed (ps_configured src) reg) (Polled observed) reg
      | Retry_after until code \<Rightarrow> reported (rate_limited now p code (utc until) reg) (Poll_raised o') reg
      | Timed_out \<Rightarrow> reported (failure now p ''poll_timeout'' None False reg) (Poll_raised o') reg
      | Failed code permanent \<Rightarrow> reported (failure now p (safe_error_code code) None permanent reg) (Poll_raised o') reg
      | Cancelled \<Rightarrow> (Poll_raised o', reg))"

text \<open>What can end a poll: the timeout starts with the permit, and only the source itself raises.\<close>

fun may_end :: "poll_phase \<Rightarrow> poll_outcome \<Rightarrow> bool" where
  "may_end Waits_permit o' \<longleftrightarrow> o' = Cancelled"
| "may_end Waits_lock o' \<longleftrightarrow> o' \<in> {Cancelled, Timed_out}"
| "may_end Observing o' \<longleftrightarrow> True"

definition drop_at :: "nat \<Rightarrow> 'a list \<Rightarrow> 'a list" where
  "drop_at i xs = take i xs @ drop (Suc i) xs"

text \<open>
  The \<open>i\<close>-th poll ends; it gives back what it holds and reports.  A loop whose turn raises has ended, and
  \<open>run\<close> cancels the others.
\<close>

definition poll_ends :: "turn_env \<Rightarrow> cadence_outcome \<Rightarrow> nat \<Rightarrow> poll_outcome \<Rightarrow> scheduler \<Rightarrow> scheduler option" where
  "poll_ends env c i o' s =
     (if i < length (sr_polls s) \<and> may_end (pt_phase (sr_polls s ! i)) o' then
        (let t = sr_polls s ! i; p = pt_provider t; s1 = s\<lparr>sr_polls := drop_at i (sr_polls s)\<rparr> in
         map_option (\<lambda>src.
           if pt_requested t then s1\<lparr>sr_registry := snd (poll_now_ends src (te_health_now env) o' (sr_registry s))\<rparr>
           else (case poll_turn src env o' c \<lparr>ls_failures = sr_failures s p, ls_registry = sr_registry s\<rparr> of
               Inl e \<Rightarrow> s1\<lparr>sr_alive := removeAll p (sr_alive s)\<rparr>
             | Inr (l, d) \<Rightarrow> s1\<lparr>sr_failures := (sr_failures s)(p := ls_failures l), sr_registry := ls_registry l\<rparr>))
           (source_named p s))
      else None)"

section \<open>All steps\<close>

inductive scheduler_step :: "scheduler \<Rightarrow> scheduler \<Rightarrow> bool" where
  Runs: "run_scheduler s = Inr s' \<Longrightarrow> scheduler_step s s'"
| Stops: "scheduler_step s (stop_scheduler s)"
| Loop_cancelled: "scheduler_step s (cancel_loop p s)"
| Run_ended: "run_ends s = Some s' \<Longrightarrow> scheduler_step s s'"
| Turn_begun: "begin_turn p s = Some s' \<Longrightarrow> scheduler_step s s'"
| Poll_requested: "poll_now p s = Inr s' \<Longrightarrow> scheduler_step s s'"
| Permit_acquired: "acquire_permit s = Some s' \<Longrightarrow> scheduler_step s s'"
| Lock_acquired: "acquire_lock p s = Some s' \<Longrightarrow> scheduler_step s s'"
| Poll_ended: "poll_ends env c i o' s = Some s' \<Longrightarrow> scheduler_step s s'"

definition polls_ok :: "nat \<Rightarrow> string list \<Rightarrow> poll_task list \<Rightarrow> bool" where
  "polls_ok m alive ts \<longleftrightarrow> how_many holds_permit ts \<le> m \<and> (\<forall>p. how_many (observes p) ts \<le> 1 \<and> how_many (loop_poll p) ts \<le> 1)
     \<and> (\<forall>t \<in> set ts. pt_requested t \<or> pt_provider t \<in> set alive)"

definition scheduler_ok :: "scheduler \<Rightarrow> bool" where
  "scheduler_ok s \<longleftrightarrow> 0 < sr_max s \<and> distinct (map ps_provider_id (sr_sources s)) \<and> set (sr_alive s) \<subseteq> set (sr_tasks s)
     \<and> set (sr_tasks s) \<subseteq> ps_provider_id ` set (sr_sources s) \<and> polls_ok (sr_max s) (sr_alive s) (sr_polls s)
     \<and> pt_provider ` set (sr_polls s) \<subseteq> ps_provider_id ` set (sr_sources s)"

lemma how_many_simps [simp]:
  "how_many f [] = 0" "how_many f (x # xs) = (if f x then Suc (how_many f xs) else how_many f xs)"
  "how_many f (xs @ ys) = how_many f xs + how_many f ys"
  by (simp_all add: how_many_def)

lemma how_many_0: "how_many f xs = 0 \<longleftrightarrow> \<not> list_ex f xs"
  by (induction xs) simp_all

lemma how_many_filter: "how_many f (filter g xs) \<le> how_many f xs"
  by (induction xs) auto

lemma how_many_drop_at: "how_many f (drop_at i xs) \<le> how_many f xs"
proof -
  have "how_many f xs = how_many f (take i xs) + how_many f (drop i xs)"
    by (metis append_take_drop_id how_many_simps(3))
  moreover have "how_many f (drop (Suc i) xs) \<le> how_many f (drop i xs)"
    by (cases "i < length xs") (simp_all flip: Cons_nth_drop_Suc)
  ultimately show ?thesis by (simp add: drop_at_def)
qed

lemma set_drop_at: "set (drop_at i xs) \<subseteq> set xs"
  by (auto simp: drop_at_def dest: in_set_takeD in_set_dropD)

lemma next_phase_split:
  assumes "next_phase f ph ts = Some ts'"
  shows "\<exists>xs t ys. ts = xs @ t # ys \<and> f t \<and> ts' = xs @ t\<lparr>pt_phase := ph\<rparr> # ys"
  using assms
proof (induction ts arbitrary: ts')
  case (Cons t ts)
  show ?case
  proof (cases "f t")
    case True
    with Cons.prems show ?thesis by (intro exI [of _ "[]"]) simp
  next
    case False
    with Cons.prems obtain us where us: "next_phase f ph ts = Some us" "ts' = t # us" by auto
    from Cons.IH [OF us(1)] obtain xs u ys where "ts = xs @ u # ys" "f u" "us = xs @ u\<lparr>pt_phase := ph\<rparr> # ys" by blast
    with us show ?thesis by (intro exI [of _ "t # xs"]) auto
  qed
qed simp

lemma next_phase_None: "next_phase f ph ts = None \<longleftrightarrow> \<not> list_ex f ts"
  by (induction ts) auto

lemma polls_ok_fewer:
  assumes "polls_ok m alive ts" "\<And>f. how_many f us \<le> how_many f ts" "set us \<subseteq> set ts"
    "\<And>t. t \<in> set us \<Longrightarrow> pt_requested t \<or> pt_provider t \<in> set alive'"
  shows "polls_ok m alive' us"
  using assms unfolding polls_ok_def by (meson order_trans)

lemma polls_ok_more:
  assumes "polls_ok m alive ts" "pt_phase t = Waits_permit"
    "pt_requested t \<or> \<not> list_ex (loop_poll (pt_provider t)) ts \<and> pt_provider t \<in> set alive"
  shows "polls_ok m alive (ts @ [t])"
  using assms by (auto simp: polls_ok_def holds_permit_def observes_def loop_poll_def how_many_0 [symmetric])

lemma polls_ok_next:
  assumes "polls_ok m alive ts" "next_phase f ph ts = Some ts'"
    "how_many holds_permit ts < m \<or> (\<forall>t. f t \<longrightarrow> holds_permit t)"
    "ph = Observing \<longrightarrow> (\<forall>t. f t \<longrightarrow> \<not> list_ex (observes (pt_provider t)) ts)"
  shows "polls_ok m alive ts' \<and> pt_provider ` set ts' = pt_provider ` set ts"
proof -
  obtain xs t ys where ts: "ts = xs @ t # ys" "f t" "ts' = xs @ t\<lparr>pt_phase := ph\<rparr> # ys"
    using next_phase_split [OF assms(2)] by blast
  let ?t = "t\<lparr>pt_phase := ph\<rparr>"
  have "how_many holds_permit ts' \<le> m"
    using assms(1,3) ts by (auto simp: polls_ok_def split: if_splits)
  moreover have "how_many (loop_poll p) ts' = how_many (loop_poll p) ts" for p
    by (simp add: ts loop_poll_def)
  moreover have "how_many (observes p) ts' \<le> 1" for p
  proof (cases "ph = Observing \<and> p = pt_provider t")
    case True
    then have "how_many (observes p) ts = 0" using assms(4) ts(2) by (simp add: how_many_0)
    then show ?thesis by (simp add: ts split: if_splits)
  next
    case False
    then have "how_many (observes p) ts' \<le> how_many (observes p) ts" by (auto simp: ts observes_def)
    then show ?thesis using assms(1) by (auto simp: polls_ok_def intro: order_trans)
  qed
  ultimately show ?thesis using assms(1) by (auto simp: polls_ok_def ts)
qed

lemma source_named_id: "source_named p s = Some src \<Longrightarrow> src \<in> set (sr_sources s) \<and> ps_provider_id src = p"
  by (auto simp: source_named_def find_Some_iff)

lemma loop_gone:
  assumes "t \<in> set (drop_at i ts)" "i < length ts" "how_many (loop_poll p) ts \<le> 1" "loop_poll p (ts ! i)"
  shows "\<not> loop_poll p t"
proof -
  have "ts = take i ts @ ts ! i # drop (Suc i) ts" using assms(2) by (rule id_take_nth_drop)
  then have "how_many (loop_poll p) ts = Suc (how_many (loop_poll p) (drop_at i ts))"
    using assms(4) by (metis (no_types, lifting) add_Suc_right drop_at_def how_many_simps(2,3))
  then have "\<not> list_ex (loop_poll p) (drop_at i ts)" using assms(3) by (simp add: how_many_0 [symmetric])
  then show ?thesis using assms(1) by (simp add: list_ex_iff)
qed

lemma poll_ends_frame:
  assumes "poll_ends env c i o' s = Some s'"
  shows "sr_sources s' = sr_sources s \<and> sr_max s' = sr_max s \<and> sr_tasks s' = sr_tasks s \<and> sr_polls s' = drop_at i (sr_polls s)
    \<and> i < length (sr_polls s) \<and> (sr_alive s' = sr_alive s \<or> \<not> pt_requested (sr_polls s ! i) \<and> sr_alive s' = removeAll (pt_provider (sr_polls s ! i)) (sr_alive s))"
proof -
  obtain src where "source_named (pt_provider (sr_polls s ! i)) s = Some src"
    using assms by (auto simp: poll_ends_def Let_def split: if_splits)
  then show ?thesis
    using assms
    by (cases "pt_requested (sr_polls s ! i)";
        cases "poll_turn src env o' c \<lparr>ls_failures = sr_failures s (pt_provider (sr_polls s ! i)), ls_registry = sr_registry s\<rparr>")
       (auto simp: poll_ends_def Let_def split: if_splits)
qed

lemma ended_ok:
  assumes "scheduler_ok s" "poll_ends env c i o' s = Some s'"
  shows "scheduler_ok s'"
proof -
  note f = poll_ends_frame [OF assms(2)]
  have a: "polls_ok (sr_max s) (sr_alive s) (sr_polls s)" using assms(1) by (simp add: scheduler_ok_def)
  have "pt_requested t \<or> pt_provider t \<in> set (sr_alive s')" if t: "t \<in> set (sr_polls s')" for t
  proof -
    let ?u = "sr_polls s ! i"
    have "\<not> loop_poll (pt_provider ?u) t" if "\<not> pt_requested ?u"
      using loop_gone [of t i "sr_polls s" "pt_provider ?u"] f t a that by (auto simp: loop_poll_def polls_ok_def)
    moreover have "pt_requested t \<or> pt_provider t \<in> set (sr_alive s)"
      using a f t set_drop_at [of i "sr_polls s"] by (auto simp: polls_ok_def)
    ultimately show ?thesis using f by (auto simp: loop_poll_def)
  qed
  then have "polls_ok (sr_max s') (sr_alive s') (sr_polls s')"
    using polls_ok_fewer [OF a, of "sr_polls s'" "sr_alive s'"] f how_many_drop_at set_drop_at by metis
  then show ?thesis
    using assms(1) f set_drop_at [of i "sr_polls s"] by (auto simp: scheduler_ok_def image_subset_iff)
qed

lemma step_ok:
  assumes "scheduler_step s s'" "scheduler_ok s"
  shows "scheduler_ok s'"
  using assms
proof (induction rule: scheduler_step.induct)
  case (Runs s s')
  then show ?case by (auto simp: run_scheduler_def Let_def scheduler_ok_def polls_ok_def image_subset_iff split: if_splits)
next
  case (Stops s)
  then show ?case by (simp add: stop_scheduler_def scheduler_ok_def)
next
  case (Loop_cancelled s p)
  then show ?case
    using polls_ok_fewer [of "sr_max s" "sr_alive s" "sr_polls s" "filter (\<lambda>t. \<not> loop_poll p t) (sr_polls s)" "removeAll p (sr_alive s)"]
    by (auto simp: cancel_loop_def scheduler_ok_def loop_poll_def how_many_filter polls_ok_def)
next
  case (Run_ended s s')
  then show ?case by (auto simp: run_ends_def scheduler_ok_def image_subset_iff split: if_splits)
next
  case (Turn_begun p s s')
  let ?t = "\<lparr>pt_provider = p, pt_requested = False, pt_phase = Waits_permit\<rparr>"
  have c: "s' = s\<lparr>sr_polls := sr_polls s @ [?t]\<rparr>" "p \<in> set (sr_alive s)" "\<not> list_ex (loop_poll p) (sr_polls s)"
    using Turn_begun(1) by (simp_all add: begin_turn_def split: if_splits)
  then have "polls_ok (sr_max s) (sr_alive s) (sr_polls s @ [?t])"
    using Turn_begun(2) by (intro polls_ok_more) (simp_all add: scheduler_ok_def)
  moreover have "p \<in> ps_provider_id ` set (sr_sources s)" using Turn_begun(2) c(2) by (meson scheduler_ok_def subsetD)
  ultimately show ?case using Turn_begun(2) by (simp add: c(1) scheduler_ok_def)
next
  case (Poll_requested p s s')
  let ?t = "\<lparr>pt_provider = p, pt_requested = True, pt_phase = Waits_permit\<rparr>"
  obtain src where c: "s' = s\<lparr>sr_polls := sr_polls s @ [?t]\<rparr>" "source_named p s = Some src"
    using Poll_requested(1) by (auto simp: poll_now_def split: option.splits)
  have "polls_ok (sr_max s) (sr_alive s) (sr_polls s @ [?t])"
    using Poll_requested(2) by (intro polls_ok_more) (simp_all add: scheduler_ok_def)
  moreover have "p \<in> ps_provider_id ` set (sr_sources s)" using source_named_id [OF c(2)] by auto
  ultimately show ?case using Poll_requested(2) by (simp add: c(1) scheduler_ok_def)
next
  case (Permit_acquired s s')
  then obtain ts where "how_many holds_permit (sr_polls s) < sr_max s" "s' = s\<lparr>sr_polls := ts\<rparr>"
    "next_phase (\<lambda>t. pt_phase t = Waits_permit) Waits_lock (sr_polls s) = Some ts"
    by (auto simp: acquire_permit_def split: if_splits)
  moreover from this(1,3) have "polls_ok (sr_max s) (sr_alive s) ts \<and> pt_provider ` set ts = pt_provider ` set (sr_polls s)"
    using Permit_acquired(2)
    by (intro polls_ok_next [of _ _ _ "\<lambda>t. pt_phase t = Waits_permit" Waits_lock]) (simp_all add: scheduler_ok_def)
  ultimately show ?case using Permit_acquired(2) by (simp add: scheduler_ok_def)
next
  case (Lock_acquired p s s')
  then obtain ts where "\<not> list_ex (observes p) (sr_polls s)" "s' = s\<lparr>sr_polls := ts\<rparr>"
    "next_phase (\<lambda>t. pt_provider t = p \<and> pt_phase t = Waits_lock) Observing (sr_polls s) = Some ts"
    by (auto simp: acquire_lock_def split: if_splits)
  moreover from this(1,3) have "polls_ok (sr_max s) (sr_alive s) ts \<and> pt_provider ` set ts = pt_provider ` set (sr_polls s)"
    using Lock_acquired(2)
    by (intro polls_ok_next [of _ _ _ "\<lambda>t. pt_provider t = p \<and> pt_phase t = Waits_lock" Observing]) (simp_all add: scheduler_ok_def holds_permit_def)
  ultimately show ?case using Lock_acquired(2) by (simp add: scheduler_ok_def)
next
  case (Poll_ended env c i o' s s')
  then show ?case by (simp add: ended_ok)
qed

lemma steps_ok: "scheduler_step\<^sup>*\<^sup>* s s' \<Longrightarrow> scheduler_ok s \<Longrightarrow> scheduler_ok s'"
  by (induction rule: rtranclp_induct) (auto intro: step_ok)

lemma new_ok: "scheduler_new sources m reg = Inr s \<Longrightarrow> scheduler_ok s"
  by (auto simp: scheduler_new_def scheduler_ok_def polls_ok_def split: if_splits)

text \<open>Nothing waits for ever: when no poll observes, one that waits can go on.\<close>

lemma goes_on:
  assumes "scheduler_ok s" "sr_polls s \<noteq> []" "\<forall>t \<in> set (sr_polls s). pt_phase t \<noteq> Observing"
  shows "acquire_permit s \<noteq> None \<or> (\<exists>p. acquire_lock p s \<noteq> None)"
proof (cases "\<exists>t \<in> set (sr_polls s). pt_phase t = Waits_lock")
  case True
  then obtain t where t: "t \<in> set (sr_polls s)" "pt_phase t = Waits_lock" by blast
  have "\<not> list_ex (observes (pt_provider t)) (sr_polls s)" using assms(3) by (auto simp: list_ex_iff observes_def)
  moreover have "next_phase (\<lambda>u. pt_provider u = pt_provider t \<and> pt_phase u = Waits_lock) Observing (sr_polls s) \<noteq> None"
    using t by (auto simp: next_phase_None list_ex_iff)
  ultimately have "acquire_lock (pt_provider t) s \<noteq> None" by (simp add: acquire_lock_def)
  then show ?thesis by blast
next
  case False
  then have w: "\<forall>t \<in> set (sr_polls s). pt_phase t = Waits_permit" using assms(3) by (metis poll_phase.exhaust)
  then have "how_many holds_permit (sr_polls s) = 0" by (auto simp: how_many_0 list_ex_iff holds_permit_def)
  moreover have "next_phase (\<lambda>t. pt_phase t = Waits_permit) Waits_lock (sr_polls s) \<noteq> None"
    using assms(2) w by (cases "sr_polls s") (auto simp: next_phase_None)
  ultimately show ?thesis using assms(1) by (simp add: acquire_permit_def scheduler_ok_def)
qed

text \<open>
  C33.  However polls, requests, cancellations, stops and restarts interleave, never more polls than permits are under
  way, a source is never observed twice at the same time (so the handling of its observations is serial, and a
  poll that a request asks for waits for the one of the loop), a source has one loop poll at most, of a loop
  that lives; and the two levels of waiting cannot block each other: when polls wait and none observes, one of
  them can go on.
\<close>

theorem polls_exclusive:
  assumes "scheduler_new sources m reg = Inr s0" "scheduler_step\<^sup>*\<^sup>* s0 s"
  shows "how_many holds_permit (sr_polls s) \<le> nat m
    \<and> (\<forall>p. how_many (observes p) (sr_polls s) \<le> 1 \<and> how_many (loop_poll p) (sr_polls s) \<le> 1)
    \<and> (\<forall>t \<in> set (sr_polls s). pt_requested t \<or> pt_provider t \<in> set (sr_alive s))
    \<and> (sr_polls s \<noteq> [] \<longrightarrow> list_ex (\<lambda>t. pt_phase t = Observing) (sr_polls s)
        \<or> acquire_permit s \<noteq> None \<or> (\<exists>p. acquire_lock p s \<noteq> None))"
proof -
  have ok: "scheduler_ok s" using steps_ok [OF assms(2) new_ok [OF assms(1)]] .
  have "sr_max s = nat m" using assms(2)
  proof (induction rule: rtranclp_induct)
    case base
    then show ?case using assms(1) by (auto simp: scheduler_new_def split: if_splits)
  next
    case (step s s')
    from step(2,3) show ?case
      by (induction rule: scheduler_step.induct)
        (auto simp: run_scheduler_def stop_scheduler_def cancel_loop_def run_ends_def begin_turn_def poll_now_def acquire_permit_def
          acquire_lock_def Let_def split: if_splits option.splits dest!: poll_ends_frame)
  qed
  then show ?thesis using ok goes_on [OF ok] by (auto simp: scheduler_ok_def polls_ok_def list_ex_iff)
qed

section \<open>A requested poll counts like one of the loop\<close>

lemma poll_now_agrees:
  assumes "source_ok src" "outcome_ok o'"
  shows "\<exists>l until. record_outcome src now o' \<lparr>ls_failures = n, ls_registry = reg\<rparr> = Inr (l, until)
    \<and> ls_registry l = snd (poll_now_ends src now o' reg)"
proof -
  obtain l until where r: "record_outcome src now o' \<lparr>ls_failures = n, ls_registry = reg\<rparr> = Inr (l, until)"
    using record_outcome_total [OF assms] by blast
  have id: "provider_id_ok (ps_provider_id src)" using assms(1) by (simp add: source_ok_def)
  have "ls_registry l = snd (poll_now_ends src now o' reg)"
  proof (cases o')
    case (Observed b)
    then show ?thesis
      using r success_total [OF id, of now b "ps_configured src" reg] by (auto simp: record_outcome_def poll_now_ends_def reported_def Let_def)
  qed (use r in \<open>auto simp: record_outcome_def poll_now_ends_def reported_def Let_def bind_simps split: sum.splits\<close>)
  with r show ?thesis by blast
qed

definition sample_scheduler :: scheduler where
  "sample_scheduler = (case scheduler_new [sample_source] 2 [] of Inr s \<Rightarrow> s)"

definition sample_poll :: "bool \<Rightarrow> poll_phase \<Rightarrow> poll_task" where
  "sample_poll asked ph = \<lparr>pt_provider = ps_provider_id sample_source, pt_requested = asked, pt_phase = ph\<rparr>"

lemma sample_scheduler_new: "scheduler_new [sample_source] 2 [] = Inr sample_scheduler"
  by (simp add: sample_scheduler_def scheduler_new_def)

text \<open>A poll of the loop observes, one that a request asks for waits for the lock with the second permit.\<close>

lemma sample_competition:
  "scheduler_step\<^sup>*\<^sup>* sample_scheduler (sample_scheduler\<lparr>sr_tasks := [ps_provider_id sample_source],
     sr_alive := [ps_provider_id sample_source], sr_polls := [sample_poll False Observing, sample_poll True Waits_lock]\<rparr>)"
proof -
  let ?p = "ps_provider_id sample_source"
  let ?s = "\<lambda>ts. sample_scheduler\<lparr>sr_tasks := [?p], sr_alive := [?p], sr_polls := ts\<rparr>"
  have "scheduler_step sample_scheduler (?s [])"
    by (rule Runs) (simp add: run_scheduler_def Let_def sample_scheduler_def scheduler_new_def)
  moreover have "scheduler_step (?s []) (?s [sample_poll False Waits_permit])"
    by (rule Turn_begun [of ?p]) (simp add: begin_turn_def sample_scheduler_def scheduler_new_def sample_poll_def)
  moreover have "scheduler_step (?s [sample_poll False Waits_permit]) (?s [sample_poll False Waits_permit, sample_poll True Waits_permit])"
    by (rule Poll_requested [of ?p]) (simp add: poll_now_def source_named_def sample_scheduler_def scheduler_new_def sample_poll_def)
  moreover have "scheduler_step (?s [sample_poll False Waits_permit, sample_poll True Waits_permit]) (?s [sample_poll False Waits_lock, sample_poll True Waits_permit])"
    by (rule Permit_acquired) (simp add: acquire_permit_def holds_permit_def sample_scheduler_def scheduler_new_def sample_poll_def)
  moreover have "scheduler_step (?s [sample_poll False Waits_lock, sample_poll True Waits_permit]) (?s [sample_poll False Observing, sample_poll True Waits_permit])"
    by (rule Lock_acquired [of ?p]) (simp add: acquire_lock_def observes_def sample_scheduler_def scheduler_new_def sample_poll_def)
  moreover have "scheduler_step (?s [sample_poll False Observing, sample_poll True Waits_permit]) (?s [sample_poll False Observing, sample_poll True Waits_lock])"
    by (rule Permit_acquired) (simp add: acquire_permit_def holds_permit_def sample_scheduler_def scheduler_new_def sample_poll_def)
  ultimately show ?thesis by (meson converse_rtranclp_into_rtranclp rtranclp.rtrancl_refl)
qed

theorem polls_exclusive_witness:
  "\<exists>s. scheduler_step\<^sup>*\<^sup>* sample_scheduler s \<and> length (sr_polls s) = 2 \<and> how_many holds_permit (sr_polls s) \<le> 2
     \<and> how_many (observes (ps_provider_id sample_source)) (sr_polls s) \<le> 1"
  using polls_exclusive [OF sample_scheduler_new sample_competition] sample_competition by (intro exI conjI) auto

end
