(* ===== verification/Lifespan.thy ===== *)
theory Lifespan
  imports Startup Poll_Tasks
begin

text \<open>
  The background services of the application (\<open>lifespan\<close> in \<open>api/routes.py\<close>, after the registration of
  the sources): which tasks are started, and what is done, in which order, when the application stops.
\<close>

datatype service = Publisher_service | Projector_service | Scheduler_service

record services =
  sv_tasks :: "service list"
  sv_scheduler :: "scheduler option"

text \<open>\<open>src k\<close> is the source of kind \<open>k\<close> as the scheduler sees it.\<close>

definition start_services :: "settings \<Rightarrow> (source_kind \<Rightarrow> poll_source) \<Rightarrow> application \<Rightarrow> services result" where
  "start_services s src a =
     (if \<not> run_background_services s then Inr \<lparr>sv_tasks = [], sv_scheduler = None\<rparr>
      else if registered a = [] then Inr \<lparr>sv_tasks = [Publisher_service, Projector_service], sv_scheduler = None\<rparr>
      else bind_r (scheduler_new (map src (registered a)) 2 (ap_health a)) (\<lambda>sch.
        Inr \<lparr>sv_tasks = [Publisher_service, Projector_service, Scheduler_service], sv_scheduler = Some sch\<rparr>))"

datatype shutdown_action =
    Cancel_scenario | Await_scenario | Stop_scheduler | Cancel_task service | Await_task service | Close_football | Dispose_engine

definition shutdown :: "bool \<Rightarrow> bool \<Rightarrow> services \<Rightarrow> shutdown_action list" where
  "shutdown scenario football sv =
     (if scenario then [Cancel_scenario, Await_scenario] else [])
     @ (if sv_scheduler sv \<noteq> None then [Stop_scheduler] else [])
     @ map Cancel_task (sv_tasks sv) @ map Await_task (sv_tasks sv)
     @ (if football then [Close_football] else []) @ [Dispose_engine]"

text \<open>
  Once the application has started its services start too; the scheduler polls the registered sources,
  two at a time.
\<close>

lemma services_start:
  assumes "is_spotify_configured f s = Inr ready" "start_application f tick s = Inr a" "\<And>k. ps_provider_id (src k) = source_id k"
  shows "\<exists>sv. start_services s src a = Inr sv
    \<and> (sv_scheduler sv \<noteq> None \<longleftrightarrow> run_background_services s \<and> registered a \<noteq> [])
    \<and> (\<forall>sch. sv_scheduler sv = Some sch \<longrightarrow> sr_sources sch = map src (registered a) \<and> sr_max sch = 2)"
proof -
  have "registered a = filter (source_ready f s) [Football_source, Github_source, Spotify_source, Gmail_source, Weather_source]"
    using startup_result [OF assms(1), of tick] assms(2) by auto
  then have "distinct (registered a)" by (simp only: distinct_filter) simp
  then have "distinct (map ps_provider_id (map src (registered a)))"
    by (simp add: distinct_map inj_on_def comp_def assms(3))
  then show ?thesis by (auto simp: start_services_def scheduler_new_def)
qed

text \<open>Nothing is awaited before everything has been told to stop, and the engine goes last.\<close>

lemma shutdown_order:
  "takeWhile (\<lambda>x. \<nexists>t. x = Await_task t) (shutdown False football sv)
     = (if sv_scheduler sv \<noteq> None then [Stop_scheduler] else []) @ map Cancel_task (sv_tasks sv)
       @ (if sv_tasks sv = [] then (if football then [Close_football] else []) @ [Dispose_engine] else [])"
  by (cases "sv_tasks sv") (auto simp: shutdown_def takeWhile_append)

end
