(* ===== verification/Publisher_Loop.thy ===== *)
theory Publisher_Loop
  imports Outbox Config
begin

text \<open>
  The publisher of \<open>outbox/publisher.py\<close> around its passes: the topic it makes sure of, the connection it
  opens, passes until one raises, and a new connection after that.
\<close>

section \<open>The topic\<close>

datatype admin_call =
    Create_topic string int int "(string \<times> string) list"
  | Alter_topic string "(string \<times> string) list"

text \<open>What the admin client answers to its start, the creation and the change.\<close>

datatype create_answer = Topic_created | Topic_exists | Create_raises

record admin_env =
  ad_started :: bool
  ad_created :: create_answer
  ad_altered :: bool

definition topic_config :: "settings \<Rightarrow> (string \<times> string) list" where
  "topic_config s = [(''retention.ms'', int_str (retention_days s * 24 * 60 * 60 * 1000))]"

text \<open>The calls made, and whether \<open>ensure_topic\<close> returns; closing the client raises nothing.\<close>

definition ensure_topic :: "settings \<Rightarrow> admin_env \<Rightarrow> admin_call list \<times> bool" where
  "ensure_topic s a =
     (let create = Create_topic (kafka_topic s) 3 1 (topic_config s); alter = Alter_topic (kafka_topic s) (topic_config s) in
      if \<not> ad_started a then ([], False)
      else if ad_created a = Create_raises then ([create], False)
      else ([create, alter], ad_altered a))"

lemma topic_ensured: "snd (ensure_topic s a) \<Longrightarrow> Alter_topic (kafka_topic s) (topic_config s) \<in> set (fst (ensure_topic s a))"
  by (auto simp: ensure_topic_def Let_def split: if_splits)

section \<open>The loop\<close>

text \<open>
  A pass that raises has claimed its batch and dealt with the first \<open>n\<close> claims; of the next one the message
  may have been sent, but the transaction that records its failure raised.  \<open>Claim_raises\<close> is a pass whose
  first transaction raised.  \<open>Elsewhere\<close> is a transaction of another part of the program in between.
\<close>

datatype publisher_pass =
    Pass publish_env instant "int \<Rightarrow> bool" instant
  | Pass_raises publish_env instant "int \<Rightarrow> bool" nat bool
  | Claim_raises
  | Elsewhere "db \<Rightarrow> db"

record publisher_state =
  pl_db :: db
  pl_broker :: "broker_message list"
  pl_components :: components
  pl_admin :: "admin_call list"
  pl_pauses :: "timedelta list"

definition BATCH_SIZE :: nat where
  "BATCH_SIZE = 50"

definition whole_pass :: "publish_env \<Rightarrow> instant \<Rightarrow> (int \<Rightarrow> bool) \<Rightarrow> instant \<Rightarrow> publisher_state \<Rightarrow> publisher_state" where
  "whole_pass env now locked reported s =
     (let r = publish_pending_once env now locked BATCH_SIZE (pl_db s) (pl_broker s) in
      s\<lparr>pl_db := pu_db r, pl_broker := pu_broker r, pl_components := publisher_report reported r (pl_components s),
        pl_pauses := pl_pauses s @ (if pu_published r = 0 then [seconds 1 div 2] else [])\<rparr>)"

definition broken_pass :: "publish_env \<Rightarrow> instant \<Rightarrow> (int \<Rightarrow> bool) \<Rightarrow> nat \<Rightarrow> bool \<Rightarrow> publisher_state \<Rightarrow> publisher_state" where
  "broken_pass env now locked n sent s =
     (let (claims, d) = claim_pending now locked BATCH_SIZE (pl_db s);
          r = fold (publish_claim env) (take n claims) \<lparr>pu_published = 0, pu_failures = 0, pu_db = d, pu_broker = pl_broker s\<rparr>
      in s\<lparr>pl_db := pu_db r, pl_broker := pu_broker r @ (if sent then map message_of (take 1 (drop n claims)) else [])\<rparr>)"

text \<open>The passes of one connection, and whether one of them raised; otherwise the publisher was stopped after them.\<close>

fun run_passes :: "publisher_pass list \<Rightarrow> publisher_state \<Rightarrow> publisher_state \<times> bool" where
  "run_passes [] s = (s, False)"
| "run_passes (Pass env now locked t # ps) s = run_passes ps (whole_pass env now locked t s)"
| "run_passes (Pass_raises env now locked n sent # ps) s = (broken_pass env now locked n sent s, True)"
| "run_passes (Claim_raises # ps) s = (s, True)"
| "run_passes (Elsewhere f # ps) s = run_passes ps (s\<lparr>pl_db := f (pl_db s)\<rparr>)"

record publisher_turn =
  pt_admin :: admin_env
  pt_started :: bool
  pt_passes :: "publisher_pass list"
  pt_failed_at :: instant
  pt_meanwhile :: "db \<Rightarrow> db"

definition connection :: "settings \<Rightarrow> publisher_turn \<Rightarrow> publisher_state \<Rightarrow> publisher_state \<times> bool" where
  "connection st t s =
     (let (calls, ok) = ensure_topic st (pt_admin t); s1 = s\<lparr>pl_admin := pl_admin s @ calls\<rparr> in
      if \<not> ok \<or> \<not> pt_started t then (s1, True) else run_passes (pt_passes t) s1)"

definition disconnected_report :: "instant \<Rightarrow> components \<Rightarrow> components" where
  "disconnected_report now comps = report_component now ''outbox_publisher'' Degraded ''publisher_disconnected'' False [] comps"

text \<open>\<open>run_publisher\<close>: a connection that ended with an exception is reported and followed, two seconds later, by another.\<close>

fun run_publisher :: "settings \<Rightarrow> publisher_turn list \<Rightarrow> publisher_state \<Rightarrow> publisher_state" where
  "run_publisher st [] s = s"
| "run_publisher st (t # ts) s = (case connection st t s of
      (s1, False) \<Rightarrow> s1
    | (s1, True) \<Rightarrow> run_publisher st ts (s1\<lparr>pl_components := disconnected_report (pt_failed_at t) (pl_components s1),
        pl_pauses := pl_pauses s1 @ [seconds 2], pl_db := pt_meanwhile t (pl_db s1)\<rparr>))"

section \<open>What is marked was sent\<close>

definition publisher_ok :: "(string \<Rightarrow> string) \<Rightarrow> publisher_state \<Rightarrow> bool" where
  "publisher_ok hash s \<longleftrightarrow> db_ok hash (pl_db s) \<and> published_logged (pl_db s) (pl_broker s)"

text \<open>Other parts of the program keep the database consistent and mark nothing as published.\<close>

definition meanwhile_ok :: "(string \<Rightarrow> string) \<Rightarrow> (db \<Rightarrow> db) \<Rightarrow> bool" where
  "meanwhile_ok hash f \<longleftrightarrow> (\<forall>d. db_ok hash d \<longrightarrow> db_ok hash (f d)
     \<and> (\<forall>r \<in> set (db_outbox (f d)). ob_published_at r \<noteq> None \<longrightarrow> r \<in> set (db_outbox d)))"

fun pass_ok :: "(string \<Rightarrow> string) \<Rightarrow> publisher_pass \<Rightarrow> bool" where
  "pass_ok hash (Elsewhere f) = meanwhile_ok hash f"
| "pass_ok hash _ = True"

definition turn_ok :: "(string \<Rightarrow> string) \<Rightarrow> publisher_turn \<Rightarrow> bool" where
  "turn_ok hash t \<longleftrightarrow> list_all (pass_ok hash) (pt_passes t) \<and> meanwhile_ok hash (pt_meanwhile t)"

lemma claim_keeps:
  assumes "same_outbox d (pu_db s)" "published_logged (pu_db s) (pu_broker s)" "r0 \<in> set (db_outbox d)" "distinct (map ob_id (db_outbox d))"
  shows "same_outbox d (pu_db (publish_claim env (claim_of r0) s))
    \<and> published_logged (pu_db (publish_claim env (claim_of r0) s)) (pu_broker (publish_claim env (claim_of r0) s))"
proof -
  let ?f = "\<lambda>r. (ob_id r, ob_event_id r, ob_topic r, ob_partition_key r, ob_payload r)"
  have claim: "claim_of r = claim_of r0" if r: "r \<in> set (db_outbox (pu_db s))" "ob_id r = ob_id r0" for r
  proof -
    have "map ?f (db_outbox (pu_db s)) = map ?f (db_outbox d)" using assms(1) by (simp add: same_outbox_def)
    from mem_map_columns [OF this r(1)] obtain q where q: "q \<in> set (db_outbox d)" "?f q = ?f r" by blast
    then have "q = r0" using assms(3,4) r(2) by (auto simp: distinct_map dest: inj_onD)
    with q(2) show ?thesis by (simp add: claim_of_def)
  qed
  have rows: "db_outbox (pu_db (publish_claim env (claim_of r0) s))
      = map (\<lambda>r. if ob_id r = ob_id r0 then row_after env r else r) (db_outbox (pu_db s))"
    using claim by (rule publish_claim_rows)
  have "published_logged (pu_db (publish_claim env (claim_of r0) s)) (pu_broker (publish_claim env (claim_of r0) s))"
    unfolding published_logged_def rows publish_claim_frame
  proof (intro ballI impI)
    fix q assume "q \<in> set (map (\<lambda>r. if ob_id r = ob_id r0 then row_after env r else r) (db_outbox (pu_db s)))" and p: "ob_published_at q \<noteq> None"
    then obtain r where r: "r \<in> set (db_outbox (pu_db s))" "q = (if ob_id r = ob_id r0 then row_after env r else r)" by auto
    have "row_message r \<in> set (pu_broker s) \<or> reaches_broker env r0 \<and> row_message r = row_message r0"
    proof (cases "ob_published_at r = None \<and> ob_id r = ob_id r0")
      case True
      then have "is_acked env r" using p r(2) row_after_published [of r env] by simp
      then show ?thesis using claim [OF r(1)] True by (simp add: is_acked_def reaches_broker_def)
    next
      case False
      moreover have "ob_published_at r \<noteq> None" using False p r(2) by (auto split: if_splits)
      ultimately show ?thesis using assms(2) r(1) by (simp add: published_logged_def)
    qed
    then show "row_message q \<in> set (pu_broker s @ (if reaches_broker env r0 then [row_message r0] else []))"
      using r(2) by auto
  qed
  moreover have "same_outbox d (pu_db (publish_claim env (claim_of r0) s))"
    using assms(1) publish_claim_frame(4) by (rule same_outbox_trans)
  ultimately show ?thesis by blast
qed

lemma claims_keep:
  assumes "same_outbox d (pu_db s)" "published_logged (pu_db s) (pu_broker s)" "set rows \<subseteq> set (db_outbox d)" "distinct (map ob_id (db_outbox d))"
  shows "same_outbox d (pu_db (fold (publish_claim env) (map claim_of rows) s))
    \<and> published_logged (pu_db (fold (publish_claim env) (map claim_of rows) s)) (pu_broker (fold (publish_claim env) (map claim_of rows) s))"
  using assms
proof (induction rows arbitrary: s)
  case (Cons r rows)
  have "r \<in> set (db_outbox d)" using Cons.prems(3) by simp
  from claim_keeps [OF Cons.prems(1,2) this Cons.prems(4)] show ?case using Cons by simp
qed simp

lemma whole_pass_ok: "publisher_ok hash s \<Longrightarrow> publisher_ok hash (whole_pass env now locked t s)"
  using publish_keeps_logged [of hash "pl_db s" "pl_broker s" env now locked BATCH_SIZE]
    publish_pass [of hash "pl_db s" "pl_broker s" _ now locked BATCH_SIZE, OF _ _ refl refl]
  by (simp add: publisher_ok_def whole_pass_def Let_def)

lemma broken_pass_ok: "publisher_ok hash s \<Longrightarrow> publisher_ok hash (broken_pass env now locked n sent s)"
proof -
  assume ok: "publisher_ok hash s"
  let ?d = "pl_db s" let ?rows = "select_pending now locked BATCH_SIZE ?d"
  let ?c = "mark_claimed now (map ob_id ?rows) ?d"
  let ?r = "fold (publish_claim env) (map claim_of (take n ?rows)) \<lparr>pu_published = 0, pu_failures = 0, pu_db = ?c, pu_broker = pl_broker s\<rparr>"
  have dist: "distinct (map ob_id (db_outbox ?d))" using ok by (simp add: publisher_ok_def db_ok_defs)
  have "published_logged ?c (pl_broker s)"
    using ok by (auto simp: publisher_ok_def published_logged_def mark_claimed_def)
  moreover have "set (take n ?rows) \<subseteq> set (db_outbox ?d)"
    using select_pending_facts(2) [OF dist refl] by (meson order_trans set_take_subset)
  ultimately have k: "same_outbox ?d (pu_db ?r)" "published_logged (pu_db ?r) (pu_broker ?r)"
    using claims_keep [of ?d "\<lparr>pu_published = 0, pu_failures = 0, pu_db = ?c, pu_broker = pl_broker s\<rparr>" "take n ?rows" env] dist
    by (simp_all add: same_outbox_mark)
  have "db_ok hash (pu_db ?r)" using k(1) ok by (intro same_outbox_ok [OF k(1)]) (simp add: publisher_ok_def)
  then show ?thesis
    using k(2) by (auto simp: publisher_ok_def broken_pass_def claim_pending_def Let_def published_logged_def take_map)
qed

lemma meanwhile_keeps: "publisher_ok hash s \<Longrightarrow> meanwhile_ok hash f \<Longrightarrow> publisher_ok hash (s\<lparr>pl_db := f (pl_db s)\<rparr>)"
  unfolding publisher_ok_def meanwhile_ok_def published_logged_def by fastforce

lemma run_passes_ok: "publisher_ok hash s \<Longrightarrow> list_all (pass_ok hash) ps \<Longrightarrow> publisher_ok hash (fst (run_passes ps s))"
  by (induction ps s rule: run_passes.induct) (simp_all add: whole_pass_ok broken_pass_ok meanwhile_keeps)

lemma connection_ok: "publisher_ok hash s \<Longrightarrow> turn_ok hash t \<Longrightarrow> publisher_ok hash (fst (connection st t s))"
  using run_passes_ok [of hash "s\<lparr>pl_admin := pl_admin s @ fst (ensure_topic st (pt_admin t))\<rparr>" "pt_passes t"]
  by (auto simp: connection_def turn_ok_def publisher_ok_def Let_def split: prod.splits)

text \<open>
  C34.  Whatever happens to the publisher over its whole life, a row marked as published has reached the broker.
  Connections may fail at the topic or at the start, passes may raise at the claim, in the middle
  of a batch or at the record of a failure, and other parts of the program may change the database in between: the
  database stays consistent, and every row of the outbox that is marked published has its message in the broker's log.
\<close>

theorem publisher_marks_only_sent:
  assumes "db_ok hash (pl_db s)" "published_logged (pl_db s) (pl_broker s)" "list_all (turn_ok hash) ts"
  shows "db_ok hash (pl_db (run_publisher st ts s))
    \<and> published_logged (pl_db (run_publisher st ts s)) (pl_broker (run_publisher st ts s))"
proof -
  have "publisher_ok hash s \<Longrightarrow> list_all (turn_ok hash) ts \<Longrightarrow> publisher_ok hash (run_publisher st ts s)"
  proof (induction st ts s rule: run_publisher.induct)
    case (2 st t ts s)
    obtain s1 b where c: "connection st t s = (s1, b)" by fastforce
    have s1: "publisher_ok hash s1" using connection_ok [of hash s t st] 2(2,3) c by simp
    then have "publisher_ok hash (s1\<lparr>pl_db := pt_meanwhile t (pl_db s1)\<rparr>)"
      using 2(3) by (intro meanwhile_keeps) (simp_all add: turn_ok_def)
    then have "publisher_ok hash (s1\<lparr>pl_components := disconnected_report (pt_failed_at t) (pl_components s1),
        pl_pauses := pl_pauses s1 @ [seconds 2], pl_db := pt_meanwhile t (pl_db s1)\<rparr>)"
      by (simp add: publisher_ok_def)
    then show ?case using 2(1) [OF c [symmetric]] 2(3) s1 c by (cases b) simp_all
  qed simp
  with assms show ?thesis by (simp add: publisher_ok_def)
qed

definition sample_turns :: "publisher_turn list" where
  "sample_turns =
     [\<lparr>pt_admin = \<lparr>ad_started = True, ad_created = Topic_exists, ad_altered = True\<rparr>, pt_started = True,
        pt_passes = [Pass_raises (\<lambda>c. (Acked, 1)) 1 (\<lambda>_. False) 0 True], pt_failed_at = 2, pt_meanwhile = id\<rparr>,
      \<lparr>pt_admin = \<lparr>ad_started = True, ad_created = Topic_exists, ad_altered = True\<rparr>, pt_started = True,
        pt_passes = [Pass (\<lambda>c. (Acked, seconds 40)) (seconds 40) (\<lambda>_. False) (seconds 41)], pt_failed_at = 0, pt_meanwhile = id\<rparr>]"

definition sample_publisher :: publisher_state where
  "sample_publisher = \<lparr>pl_db = sample_outbox_db, pl_broker = [], pl_components = [], pl_admin = [], pl_pauses = []\<rparr>"

text \<open>A message sent in a pass that broke is sent again half a minute later.\<close>

theorem publisher_marks_only_sent_witness:
  "published_logged (pl_db (run_publisher sample_settings sample_turns sample_publisher)) (pl_broker (run_publisher sample_settings sample_turns sample_publisher))
    \<and> list_ex (\<lambda>r. ob_published_at r = Some (seconds 40)) (db_outbox (pl_db (run_publisher sample_settings sample_turns sample_publisher)))"
proof -
  have "db_ok (\<lambda>k. k) (pl_db sample_publisher)" by (simp add: sample_publisher_def sample_outbox_db_ok)
  moreover have "published_logged (pl_db sample_publisher) (pl_broker sample_publisher)"
    by (simp add: sample_publisher_def published_logged_def sample_outbox_db_def new_outbox_row_def)
  moreover have "list_all (turn_ok (\<lambda>k. k)) sample_turns" by (simp add: sample_turns_def turn_ok_def meanwhile_ok_def)
  moreover have "list_ex (\<lambda>r. ob_published_at r = Some (seconds 40)) (db_outbox (pl_db (run_publisher sample_settings sample_turns sample_publisher)))"
    by code_simp
  ultimately show ?thesis using publisher_marks_only_sent by blast
qed

end
