(* ===== verification/Requests.thy ===== *)
theory Requests
  imports Values Config
begin

text \<open>
  What is around a request: its identifier and the error bodies (\<open>core/errors.py\<close> and the handlers of
  \<open>api/routes.py\<close>), the log line (\<open>core/logging.py\<close>) and the filter that keeps the query of an OAuth
  callback out of the access log (\<open>providers/gmail/oauth.py\<close>).
\<close>

section \<open>Errors\<close>

record response =
  rs_status :: int
  rs_headers :: "(string \<times> string) list"
  rs_body :: json

datatype http_detail = Detail_text string | Detail_other json

text \<open>What a route can raise; \<open>Invalid_request\<close> has what \<open>jsonable_encoder\<close> makes of the errors.\<close>

datatype request_failure =
    Livepulse_error string string int
  | Http_exception int http_detail "(string \<times> string) list"
  | Invalid_request json
  | Unexpected string

definition error_body :: "string \<Rightarrow> string \<Rightarrow> string \<Rightarrow> (string \<times> json) list \<Rightarrow> json" where
  "error_body code message request_id details =
     JDict [(''error'', JDict ([(''code'', JStr code), (''message'', JStr message), (''request_id'', JStr request_id)] @ details))]"

text \<open>\<open>getattr(request.state, "request_id", "unknown")\<close>.\<close>

definition known_id :: "string option \<Rightarrow> string" where
  "known_id i = (case i of None \<Rightarrow> ''unknown'' | Some x \<Rightarrow> x)"

definition livepulse_error_handler :: "string option \<Rightarrow> string \<Rightarrow> string \<Rightarrow> int \<Rightarrow> response" where
  "livepulse_error_handler i code message status =
     \<lparr>rs_status = status, rs_headers = [], rs_body = error_body code message (known_id i) []\<rparr>"

definition http_error_handler :: "string option \<Rightarrow> int \<Rightarrow> http_detail \<Rightarrow> (string \<times> string) list \<Rightarrow> response" where
  "http_error_handler i status detail headers =
     (let code = (if status = 404 then ''not_found'' else if status = 405 then ''method_not_allowed'' else ''http_error'');
          message = (case detail of Detail_text t \<Rightarrow> t | Detail_other _ \<Rightarrow> ''The request could not be completed'')
      in \<lparr>rs_status = status, rs_headers = headers, rs_body = error_body code message (known_id i) []\<rparr>)"

definition validation_error_handler :: "string option \<Rightarrow> json \<Rightarrow> response" where
  "validation_error_handler i errors = \<lparr>rs_status = 422, rs_headers = [],
     rs_body = error_body ''validation_error'' ''Request parameters are invalid'' (known_id i) [(''details'', errors)]\<rparr>"

definition unexpected_error_handler :: "string option \<Rightarrow> response" where
  "unexpected_error_handler i = \<lparr>rs_status = 500, rs_headers = [],
     rs_body = error_body ''internal_error'' ''The request could not be completed'' (known_id i) []\<rparr>"

text \<open>
  The handlers of an expected failure run inside \<open>RequestIdMiddleware\<close>; any other exception passes it and
  is answered by the outermost middleware.
\<close>

definition handled :: "string option \<Rightarrow> request_failure \<Rightarrow> response option" where
  "handled i f = (case f of
      Livepulse_error code message status \<Rightarrow> Some (livepulse_error_handler i code message status)
    | Http_exception status detail headers \<Rightarrow> Some (http_error_handler i status detail headers)
    | Invalid_request errors \<Rightarrow> Some (validation_error_handler i errors)
    | Unexpected _ \<Rightarrow> None)"

definition request_id_of :: "string option \<Rightarrow> string \<Rightarrow> string" where
  "request_id_of header fresh = (if truthy header then the header else fresh)"

text \<open>\<open>route i\<close> is what the application does with the request that has the identifier \<open>i\<close>.\<close>

definition respond :: "string option \<Rightarrow> string \<Rightarrow> (string \<Rightarrow> request_failure + response) \<Rightarrow> response" where
  "respond header fresh route =
     (let i = request_id_of header fresh;
          noted = (\<lambda>r. r\<lparr>rs_headers := AList.update ''x-request-id'' i (rs_headers r)\<rparr>)
      in case route i of
           Inr r \<Rightarrow> noted r
         | Inl f \<Rightarrow> (case handled (Some i) f of Some r \<Rightarrow> noted r | None \<Rightarrow> unexpected_error_handler (Some i)))"

fun error_id :: "json \<Rightarrow> string option" where
  "error_id (JDict d) = (case map_of d ''error'' of
      Some (JDict e) \<Rightarrow> (case map_of e ''request_id'' of Some (JStr i) \<Rightarrow> Some i | _ \<Rightarrow> None) | _ \<Rightarrow> None)"
| "error_id _ = None"

lemma error_names_request: "route (request_id_of header fresh) = Inl f \<Longrightarrow> error_id (rs_body (respond header fresh route)) = Some (request_id_of header fresh)"
  by (cases f) (simp_all add: respond_def handled_def Let_def livepulse_error_handler_def http_error_handler_def
      validation_error_handler_def unexpected_error_handler_def error_body_def known_id_def)

text \<open>An unexpected failure answers the same whatever it was.\<close>

lemma unexpected_says_nothing:
  "route i = Inl (Unexpected a) \<Longrightarrow> route' i = Inl (Unexpected b) \<Longrightarrow> i = request_id_of header fresh
    \<Longrightarrow> respond header fresh route = respond header fresh route'"
  by (simp add: respond_def handled_def Let_def)

section \<open>The log line\<close>

record log_record =
  lr_level :: string
  lr_name :: string
  lr_message :: string
  lr_extra :: "(string \<times> json) list"
  lr_exception :: "string option"

definition LOGGED_KEYS :: "string list" where
  "LOGGED_KEYS = [''request_id'', ''correlation_id'', ''event_id'', ''event_type'', ''subject_id'', ''consumer'', ''error_code'',
     ''reason_code'', ''request_type'', ''host'', ''origin'', ''path'', ''http_method'', ''http_path'', ''http_status'']"

definition logged_extra :: "(string \<times> json) list \<Rightarrow> string \<Rightarrow> (string \<times> json) list" where
  "logged_extra extra k = (case map_of extra k of None \<Rightarrow> [] | Some v \<Rightarrow> if v = JNull then [] else [(k, v)])"

definition log_item :: "settings \<Rightarrow> instant \<Rightarrow> log_record \<Rightarrow> (string \<times> json) list" where
  "log_item s now r =
     [(''timestamp'', JStr (isoformat now)), (''level'', JStr (map char_lower (lr_level r))), (''service'', JStr (service_name s)),
      (''logger'', JStr (lr_name r)), (''message'', JStr (lr_message r))]
     @ concat (map (logged_extra (lr_extra r)) LOGGED_KEYS)
     @ (case lr_exception r of None \<Rightarrow> [] | Some t \<Rightarrow> [(''exception'', JStr t)])"

text \<open>Attributes that are not on the list leave no trace.\<close>

lemma unlisted_not_logged:
  assumes "\<forall>k \<in> set LOGGED_KEYS. map_of x k = map_of y k"
  shows "log_item s now (r\<lparr>lr_extra := x\<rparr>) = log_item s now (r\<lparr>lr_extra := y\<rparr>)"
proof -
  have "map (logged_extra x) LOGGED_KEYS = map (logged_extra y) LOGGED_KEYS"
    using assms by (intro map_cong) (simp_all add: logged_extra_def)
  then show ?thesis by (simp add: log_item_def del: map_eq_conv)
qed

section \<open>The access log\<close>

definition CALLBACK :: string where
  "CALLBACK = ''/api/v1/providers/gmail/oauth/callback?''"

definition in_query :: "char \<Rightarrow> bool" where
  "in_query c \<longleftrightarrow> \<not> is_space c \<and> c \<noteq> CHR 0x22"

text \<open>The substitution of the pattern: from the left, each match as long as possible.\<close>

function (sequential) redact :: "string \<Rightarrow> string" where
  "redact [] = []"
| "redact (c # cs) =
     (let rest = drop (length CALLBACK) (c # cs) in
      if prefix CALLBACK (c # cs) \<and> takeWhile in_query rest \<noteq> []
      then CALLBACK @ ''[REDACTED]'' @ redact (dropWhile in_query rest)
      else c # redact cs)"
  by pat_completeness auto
termination
proof (relation "measure length")
  fix c and cs rest :: string assume "rest = drop (length CALLBACK) (c # cs)"
  then have "length rest < length (c # cs)" by (simp add: CALLBACK_def)
  then show "(dropWhile in_query rest, c # cs) \<in> measure length"
    using length_dropWhile_le [of in_query rest] by simp
qed auto

datatype log_args = Args_tuple "json list" | Args_dict "(string \<times> json) list" | Args_other json

fun redact_value :: "json \<Rightarrow> json" where
  "redact_value (JStr v) = JStr (redact v)"
| "redact_value v = v"

text \<open>The filter changes the arguments of a record, or its message where the arguments are neither a tuple nor a dictionary.\<close>

definition redaction_filter :: "json \<times> log_args \<Rightarrow> json \<times> log_args" where
  "redaction_filter r = (case r of (msg, a) \<Rightarrow> (case a of
      Args_tuple xs \<Rightarrow> (msg, Args_tuple (map redact_value xs))
    | Args_dict d \<Rightarrow> (msg, Args_dict (map (\<lambda>(k, v). (k, redact_value v)) d))
    | Args_other _ \<Rightarrow> (redact_value msg, a)))"

text \<open>The filters of the logger; \<open>True\<close> stands for one of this class.\<close>

definition install_oauth_access_log_filter :: "bool list \<Rightarrow> bool list" where
  "install_oauth_access_log_filter filters = (if list_ex id filters then filters else filters @ [True])"

lemma installed_once:
  "install_oauth_access_log_filter (install_oauth_access_log_filter fs) = install_oauth_access_log_filter fs"
  by (simp add: install_oauth_access_log_filter_def)

lemma callback_in_query: "list_all in_query CALLBACK"
  by code_simp

lemma redact_match:
  assumes "q \<noteq> []" "list_all in_query q" "b = [] \<or> \<not> in_query (hd b)"
  shows "redact (CALLBACK @ q @ b) = CALLBACK @ ''[REDACTED]'' @ redact b"
proof -
  have "dropWhile in_query (q @ b) = b"
    using assms(2,3) by (cases b) (auto simp: list_all_iff dropWhile_append)
  moreover have "takeWhile in_query (q @ b) \<noteq> []" using assms(1,2) by (cases q) auto
  moreover obtain c cs where c: "CALLBACK = c # cs" by (simp add: CALLBACK_def)
  have "redact (c # cs @ q @ b) = CALLBACK @ ''[REDACTED]'' @ redact b" if "dropWhile in_query (q @ b) = b" "takeWhile in_query (q @ b) \<noteq> []"
    using that redact.simps(2) [of c "cs @ q @ b"] by (simp only: Let_def c [symmetric] append_Cons [symmetric]) simp
  ultimately show ?thesis by (simp add: c)
qed

text \<open>What is left after a match that begins before the callback: a shorter text before it, or all of the query is gone.\<close>

lemma query_end:
  assumes "list_all in_query q" "b = [] \<or> \<not> in_query (hd b)"
  shows "dropWhile in_query (u @ CALLBACK @ q @ b) = (if list_all in_query u then b else dropWhile in_query u @ CALLBACK @ q @ b)"
    and "list_all in_query v \<Longrightarrow> dropWhile in_query (v @ q @ b) = b"
proof -
  have b: "dropWhile in_query b = b" using assms(2) by (cases b) auto
  have "dropWhile in_query (v @ q @ b) = b" if "list_all in_query v" for v
    using that assms(1) b by (simp add: list_all_iff dropWhile_append)
  from this this [of "u @ CALLBACK"] callback_in_query
  show "list_all in_query v \<Longrightarrow> dropWhile in_query (v @ q @ b) = b"
    and "dropWhile in_query (u @ CALLBACK @ q @ b) = (if list_all in_query u then b else dropWhile in_query u @ CALLBACK @ q @ b)"
    by (auto simp: list_all_iff dropWhile_append)
qed

lemma redact_secret:
  assumes q: "q \<noteq> []" "list_all in_query q" "q' \<noteq> []" "list_all in_query q'" and b: "b = [] \<or> \<not> in_query (hd b)"
  shows "redact (a @ CALLBACK @ q @ b) = redact (a @ CALLBACK @ q' @ b)"
proof (induction a rule: length_induct)
  case (1 a)
  let ?n = "length CALLBACK"
  show ?case
  proof (cases a)
    case Nil
    then show ?thesis by (simp add: redact_match q b)
  next
    case (Cons c cs)
    have tail: "redact (cs @ CALLBACK @ q @ b) = redact (cs @ CALLBACK @ q' @ b)" using 1 Cons by simp
    have head: "prefix CALLBACK (a @ CALLBACK @ x) \<longleftrightarrow> take ?n (a @ CALLBACK) = CALLBACK" for x
    proof -
      have "prefix CALLBACK (a @ CALLBACK @ x) \<longleftrightarrow> take ?n (a @ CALLBACK @ x) = CALLBACK"
        unfolding prefix_def by (metis append_eq_conv_conj append_take_drop_id)
      moreover have "take ?n (a @ CALLBACK @ x) = take ?n ((a @ CALLBACK) @ x)" by simp
      moreover have "take ?n ((a @ CALLBACK) @ x) = take ?n (a @ CALLBACK)" by (simp only: take_append) simp
      ultimately show ?thesis by (simp only:)
    qed
    have matched: "takeWhile in_query (drop ?n (a @ CALLBACK @ x)) \<noteq> [] \<longleftrightarrow> in_query (hd (drop ?n (a @ CALLBACK)))" for x
    proof -
      have split: "drop ?n ((a @ CALLBACK) @ x) = drop ?n (a @ CALLBACK) @ x" by (simp only: drop_append) simp
      have "drop ?n (a @ CALLBACK) \<noteq> []" using Cons by simp
      then obtain d ds where "drop ?n (a @ CALLBACK) = d # ds" by (cases "drop ?n (a @ CALLBACK)") simp_all
      with split show ?thesis by (simp only: append_assoc append_Cons list.sel takeWhile.simps) simp
    qed
    have rest: "redact (dropWhile in_query (drop ?n (a @ CALLBACK @ q @ b))) = redact (dropWhile in_query (drop ?n (a @ CALLBACK @ q' @ b)))"
    proof (cases "?n \<le> length a")
      case True
      have "length (dropWhile in_query (drop ?n a)) < length a"
        using length_dropWhile_le [of in_query "drop ?n a"] Cons by (simp add: CALLBACK_def)
      then show ?thesis using 1 True by (simp add: query_end(1) q b)
    next
      case False
      have "list_all in_query (drop (?n - length a) CALLBACK)" using callback_in_query by (auto simp: list_all_iff dest: in_set_dropD)
      then show ?thesis using False by (simp add: query_end(2) q b)
    qed
    have go: "redact (a @ CALLBACK @ x) = (if take ?n (a @ CALLBACK) = CALLBACK \<and> in_query (hd (drop ?n (a @ CALLBACK)))
        then CALLBACK @ ''[REDACTED]'' @ redact (dropWhile in_query (drop ?n (a @ CALLBACK @ x))) else c # redact (cs @ CALLBACK @ x))" for x
      using redact.simps(2) [of c "cs @ CALLBACK @ x"] head [of x] matched [of x]
      by (simp only: Let_def Cons append_Cons)
    show ?thesis by (simp only: go tail rest)
  qed
qed

text \<open>
  What is sent to the Gmail callback never reaches the access log.  A line that names the callback followed by a query, up to the
  next blank or quote, comes out of the filter the same whatever the query is, wherever it stands in
  the line and whatever else the line holds, other callbacks included; the authorization code and the state are part of the query.
\<close>

theorem callback_query_unlogged:
  assumes "q \<noteq> []" "list_all in_query q" "q' \<noteq> []" "list_all in_query q'" "b = [] \<or> \<not> in_query (hd b)"
  shows "redaction_filter (msg, Args_tuple (xs @ JStr (a @ CALLBACK @ q @ b) # ys))
      = redaction_filter (msg, Args_tuple (xs @ JStr (a @ CALLBACK @ q' @ b) # ys))
    \<and> redaction_filter (JStr (a @ CALLBACK @ q @ b), Args_other v) = redaction_filter (JStr (a @ CALLBACK @ q' @ b), Args_other v)"
  by (simp add: redaction_filter_def redact_secret [OF assms])

lemma callback_query_unlogged_witness:
  "redaction_filter (JNull, Args_tuple [JStr ''GET'', JStr (CALLBACK @ ''code=one&state=two''), JInt 200])
    = redaction_filter (JNull, Args_tuple [JStr ''GET'', JStr (CALLBACK @ ''code=three''), JInt 200])"
proof -
  have "list_all in_query ''code=one&state=two''" "list_all in_query ''code=three''" by code_simp+
  then show ?thesis
    using callback_query_unlogged [of "''code=one&state=two''" "''code=three''" "[]" JNull "[JStr ''GET'']" "[]" "[JInt 200]"] by simp
qed

end
