(* ===== verification/Maintenance.thy ===== *)
theory Maintenance
  imports Purge Retention
begin

text \<open>
  The command lines of \<open>maintenance/purge.py\<close> and \<open>maintenance/retention.py\<close>, with the options as
  \<open>argparse\<close> leaves them, and the deletion of the topic.
\<close>

section \<open>The topic\<close>

datatype delete_answer = Topic_deleted | Unknown_topic | Delete_raises py_error

text \<open>\<open>started\<close>: the admin client connects; what closing it raises is ignored.\<close>

definition delete_topic :: "bool \<Rightarrow> delete_answer \<Rightarrow> string \<Rightarrow> string list \<Rightarrow> string list result" where
  "delete_topic started answer topic topics =
     (if \<not> started then Inl (RuntimeError ''broker'')
      else (case answer of Topic_deleted \<Rightarrow> Inr (removeAll topic topics) | Unknown_topic \<Rightarrow> Inr topics | Delete_raises e \<Rightarrow> Inl e))"

section \<open>The command lines\<close>

definition CONFIRMATION_TEXT :: string where
  "CONFIRMATION_TEXT = ''PURGE PERSONAL LIVEPULSE DATA''"

record purge_options =
  po_confirm :: string
  po_include_provider_connections :: bool
  po_clear_local_provider_config :: bool

definition purge_main :: "(string \<Rightarrow> string list \<Rightarrow> string list result) \<Rightarrow> settings \<Rightarrow> purge_options \<Rightarrow> purge_state
    \<Rightarrow> (purge_report \<times> bool \<times> purge_state) result" where
  "purge_main delete st opts s =
     (let confirmed = (po_confirm opts = CONFIRMATION_TEXT);
          a = \<lparr>pa_mode = runtime_mode st, pa_kafka_topic = kafka_topic st,
            pa_include_provider_connections = po_include_provider_connections opts, pa_dry_run = \<not> confirmed, pa_broker_topic = None,
            pa_delete_broker_history = True, pa_clear_local_provider_configuration = po_clear_local_provider_config opts\<rparr>
      in bind_r (purge_personal_data delete a s) (\<lambda>(report, s'). Inr (report, \<not> confirmed, s')))"

record retention_options =
  ro_days :: "int option"
  ro_apply :: bool
  ro_max_events :: int

text \<open>A number of days that is not given is the one of the settings.\<close>

definition retention_main :: "(string \<Rightarrow> string) \<Rightarrow> settings \<Rightarrow> instant \<Rightarrow> retention_options \<Rightarrow> db \<Rightarrow> (retention_report \<times> db) result" where
  "retention_main hash st now opts d =
     apply_retention hash \<lparr>ra_mode = runtime_mode st,
       ra_days = (case ro_days opts of None \<Rightarrow> retention_days st | Some n \<Rightarrow> n),
       ra_now = now, ra_dry_run = \<not> ro_apply opts, ra_max_events = ro_max_events opts\<rparr> d"

section \<open>Nothing goes by accident\<close>

lemma purge_needs_confirmation:
  assumes "purge_main delete st opts s = Inr (report, hint, s')" "s' \<noteq> s"
  shows "po_confirm opts = CONFIRMATION_TEXT \<and> runtime_mode st = PERSONAL_LOCAL \<and> \<not> hint"
  using assms
  by (auto simp: purge_main_def purge_personal_data_def Let_def bind_simps split: if_splits)

lemma retention_needs_apply:
  assumes "retention_main hash st now opts d = Inr (report, d')" "d' \<noteq> d"
  shows "ro_apply opts \<and> runtime_mode st = PERSONAL_LOCAL"
  using assms by (auto simp: retention_main_def apply_retention_def Let_def bind_simps split: if_splits)

text \<open>A purge whose topic the broker does not delete has deleted nothing.\<close>

lemma purge_without_broker:
  assumes "po_confirm opts = CONFIRMATION_TEXT" "runtime_mode st = PERSONAL_LOCAL" "\<not> started"
  shows "purge_main (delete_topic started answer) st opts s = Inl (RuntimeError ''broker'')"
  using assms by (simp add: purge_main_def purge_personal_data_def delete_topic_def Let_def bind_simps)

end
