(* ===== verification/Spec2Isabelle.thy ===== *)
theory Spec2Isabelle
  imports Focus Outbox Consumer Live_Api Football_Normalize Football_Store Security Retention Purge
    Credentials Scheduler Football_Source Simulator Live_State Github_Agreement Weather_Selection Weather_Poll Spotify_Events Gmail_Privacy
    System_Health Lifespan Publisher_Loop Requests Maintenance
begin

text \<open>
  LivePulse: a verification development beside the Python backend in \<open>src/backend/app\<close>.

  \<^bold>\<open>The program.\<close>  Providers are polled (or push webhooks); what they report is translated into
  canonical events; \<open>events/repository.py\<close> appends each event together with an outbox row in one
  transaction; \<open>outbox/publisher.py\<close> sends the outbox to a broker; \<open>projections/projector.py\<close> reads the
  broker at least once and projects each event into a match row and a timeline row;
  \<open>realtime/manager.py\<close> fans notifications out to websocket clients and \<open>api/routes.py\<close> serves the
  snapshot, the timeline and the socket.  Football, whose facts must be derived by comparing
  snapshots, is the provider with the most logic.  Around this core stand the settings with their two
  runtime modes, the trusted boundary in front of the API, retention and purge.

  \<^bold>\<open>The theories\<close>, in the order of their imports, with the code they model (paths under \<open>src/backend/app\<close>):
  \<^item> \<open>Prelude\<close>: generic lemmas on lists, options and the \<open>'a result\<close> monad (an error or a value) all
    components share; integers and digits; the collections of simplification rules.
  \<^item> \<open>Values\<close>: Python values the code uses: instants and time spans in microseconds, UUIDs, dictionaries
    and JSON values, the text operations of \<open>str\<close>; the errors an operation can raise.
  \<^item> \<open>Canonical_Events\<close>: \<open>domain/events.py\<close>, \<open>ingestion/normalize.py\<close>.
  \<^item> \<open>Focus\<close>: \<open>domain/focus.py\<close>, \<open>domain/attention.py\<close>.
  \<^item> \<open>Storage\<close>: the tables of \<open>storage/models.py\<close> as lists of rows in one record \<open>db\<close>, with unique keys,
    foreign keys, cascades and column widths as the predicate \<open>db_ok\<close> every transaction keeps.
  \<^item> \<open>Event_Store\<close>: \<open>events/repository.py\<close>.  \<open>Outbox\<close> and \<open>Publisher_Loop\<close>:
    \<open>outbox/publisher.py\<close>, one pass and the loop around it.  \<open>Reducer\<close>:
    \<open>projections/reducer.py\<close>.  \<open>Projector\<close> and \<open>Consumer\<close>: \<open>projections/projector.py\<close>, one transaction and
    the polling loop with committed offsets.  \<open>Health\<close>: \<open>core/health.py\<close>.
  \<^item> \<open>Realtime\<close>: \<open>realtime/manager.py\<close>.  \<open>Live_Api\<close>: the timeline and the websocket of \<open>api/routes.py\<close>
    as a step relation over server and client.
  \<^item> \<open>Live_State\<close>: the snapshot and its dominant focus, the rest of \<open>api/routes.py\<close> that decides.
    \<open>Simulator\<close>: \<open>simulator/comeback.py\<close>.
  \<^item> Football, \<open>providers/football\<close>: \<open>Football_Models\<close> (\<open>models.py\<close>), \<open>Football_Normalize\<close>
    (\<open>normalize.py\<close>), \<open>Fixture_Diff\<close> with \<open>Diff_Facts\<close> and \<open>Diff_Properties\<close> (\<open>ingestion.py\<close>),
    \<open>Football_Store\<close> (\<open>store.py\<close>), \<open>Cadence\<close> (\<open>cadence.py\<close>), \<open>Leagues\<close> (\<open>leagues.py\<close>), \<open>Football_Api\<close>
    (\<open>api.py\<close>), \<open>Football_Service\<close> (\<open>service.py\<close>), \<open>Football_Source\<close> (\<open>source.py\<close> and the poll of
    \<open>api/routes.py\<close>).
  \<^item> \<open>Urls\<close>: what the code uses of \<open>urllib.parse\<close>.  \<open>Config\<close>: \<open>core/config.py\<close>.  \<open>Security\<close>:
    \<open>core/security.py\<close>.
  \<^item> \<open>Retention\<close>, \<open>Purge\<close>, \<open>Maintenance\<close>: \<open>maintenance/retention.py\<close> and \<open>purge.py\<close>.  \<open>Requests\<close>:
    \<open>core/errors.py\<close>, \<open>core/logging.py\<close>, the error handlers of \<open>api/routes.py\<close>, the filter of the access log.
  \<^item> \<open>Provider_Health\<close>: \<open>providers/status.py\<close>.  \<open>Commands\<close>: \<open>providers/commands.py\<close> and \<open>registry.py\<close>.
    \<open>Credentials\<close>: \<open>providers/credentials.py\<close>, \<open>oauth_completion.py\<close> and the encrypted column type of
    \<open>storage/models.py\<close>.  \<open>Scheduler\<close> and \<open>Poll_Tasks\<close>: \<open>providers/base.py\<close> and
    \<open>scheduler.py\<close>, one loop and all tasks of the scheduler with their permits and locks.
  \<^item> \<open>Outcomes\<close>: programs with a state and exceptions (\<open>prog\<close>: sequence, catching, reading, changing) and
    the judgements \<open>yields\<close> and \<open>ensures\<close> on what they return.  \<open>Triples\<close>: pre- and postconditions for
    both exits, \<open>keeps_part\<close> for what a program leaves alone, \<open>raises\<close> for what it may raise.
    \<open>Iso_Time\<close>: \<open>datetime.fromisoformat\<close>.  \<open>Provider_Store\<close>: the connection rows of \<open>storage/models.py\<close>.
    \<open>Oauth_States\<close>: the interface of a store of one-use callback states.
  \<^item> GitHub, \<open>providers/github\<close>: \<open>Github_Events\<close> (\<open>events.py\<close>), \<open>Github_Health\<close> (\<open>health.py\<close>),
    \<open>Github_Store\<close> (\<open>storage.py\<close>), \<open>Github_Webhook\<close> (\<open>security.py\<close>, \<open>webhook.py\<close>, \<open>router.py\<close>),
    \<open>Github_Client\<close> (\<open>client.py\<close>), \<open>Github_Reconcile\<close> (\<open>reconcile.py\<close>), \<open>Github_Agreement\<close>.
  \<^item> Weather, \<open>providers/weather\<close>: \<open>Weather_Client\<close> (\<open>client.py\<close>), \<open>Weather_Locations\<close> (\<open>location.py\<close>,
    \<open>geocoding.py\<close>, \<open>locations.py\<close>), \<open>Weather_Selection\<close>, \<open>Weather_Poll\<close> (\<open>source.py\<close>, \<open>storage.py\<close>,
    \<open>service.py\<close>, \<open>router.py\<close>).
  \<^item> Spotify, \<open>providers/spotify\<close>: \<open>Spotify_States\<close> and \<open>Spotify_Auth\<close> (\<open>auth.py\<close>, \<open>health.py\<close>),
    \<open>Spotify_Client\<close> (\<open>client.py\<close>), \<open>Spotify_Playback\<close> (\<open>playback.py\<close>), \<open>Spotify_Provider\<close>
    (\<open>provider.py\<close>, \<open>commands.py\<close>, \<open>router.py\<close>); \<open>Spotify_Facts\<close>, \<open>Spotify_Properties\<close> and
    \<open>Spotify_Events\<close> hold lemmas and properties.
  \<^item> Gmail, \<open>providers/gmail\<close>: \<open>Gmail_States\<close> and \<open>Gmail_Auth\<close> (\<open>oauth.py\<close>), \<open>Gmail_Client\<close>
    (\<open>client.py\<close>, \<open>models.py\<close>, \<open>service.py\<close>), \<open>Gmail_Ingest\<close> and \<open>Gmail_Sync\<close> (\<open>sync.py\<close>),
    \<open>Gmail_Routes\<close> (\<open>router.py\<close>); \<open>Gmail_Reading\<close>, \<open>Gmail_History\<close>, \<open>Gmail_Delivery\<close>,
    \<open>Gmail_Properties\<close> and \<open>Gmail_Privacy\<close> hold lemmas and properties.
  \<^item> The whole: \<open>System\<close> composes the transactions of all parts over the one database they share.
    \<open>Startup\<close> is \<open>lifespan\<close> of \<open>api/routes.py\<close>: the sources that are registered and the function that hands
    their observations to a store; \<open>Lifespan\<close> the services it starts and stops.  \<open>System_Health\<close> is the health
    endpoint of \<open>api/routes.py\<close>.

  \<^bold>\<open>Conventions.\<close>  A coroutine that runs in one database transaction is a function from the database to an
  error or a result with the new database; an error leaves the database as it was, as a rollback does.
  Exceptions are values of \<open>py_error\<close>, or of a datatype of the provider that has its own.  The clients of
  GitHub, Spotify, Gmail and the weather service are programs over a world that counts the readings of
  the clock and records the requests sent; the \<open>n\<close>-th answer and the \<open>n\<close>-th time are arguments, so that a
  property holds for every server and every clock.  Loops of the program are recursions over what they
  iterate; the loops that run until they are stopped (publisher, projector, polling, socket) are
  recursions over, or step relations on, the list of what their environment does in each turn, so that a
  property holds for every schedule and needs no fuel.  The one loop that a server can prolong, reading
  the Gmail history, has the number of pages it may still read as an argument: running out of it is the
  cancellation of the poll by the scheduler's timeout, and \<open>gmail_history_terminates\<close> shows that one more
  than the number of page tokens is enough.  Machine integers do not occur: Python integers are
  unbounded, and the limits of database columns are part of \<open>db_ok\<close>.  Floating point numbers are rationals.

  \<^bold>\<open>Interfaces.\<close>  \<open>ingest_port\<close> is what a source relies on when it stores events (\<open>Event_Store\<close> provides
  it), \<open>state_store\<close> what an OAuth flow relies on for its states (interpreted on the stores of Spotify and
  of Gmail); the other locales stand beside the components that use them.

  \<^bold>\<open>What the groups of lemmas show.\<close>  Every operation keeps the invariant of its state (\<open>db_ok\<close>,
  \<open>published_logged\<close>, \<open>fixture_ok\<close>, \<open>prior_ok\<close>, \<open>match_ok\<close>).  The effect of each transaction is stated on
  every branch.  Over sequences of operations: delivery is at least once and its effect exactly once; a
  client that reconnects gets every row it has not seen; the projected score follows the provider's;
  retention loses no unpublished or unprojected event; a provider cannot stop its polling loop.  For the
  other providers: a webhook is believed only with a valid signature and stored once, and agrees with the
  reconciliation poll on the identity of a change; reported weather never drifts from the observed one by
  more than the thresholds; an authorization callback is accepted at most once and only for a state that
  was issued; an authorization that ended leaves no credentials; the Gmail cursor moves only together
  with the events of its batch, its history is read completely up to the limit, only reads are sent, and
  only bounded metadata is stored.  Over the whole: in any interleaving of all transactions the database
  stays consistent and no fact is stored twice; the application starts with exactly the sources its
  settings allow, each with a store for what it observes; of the polls that compete for permits and locks no two
  observe one source at once and none blocks another for good; and the health endpoint calls a provider
  healthy only when its own record says so.

  \<^bold>\<open>Parameters.\<close>  SHA-256, HMAC, Fernet, the broker client, the HTTP transport, JSON text, what pydantic
  reads as a number or a time, ZoneInfo, uuid5, the parsing of mail dates, the random text of states and
  the generator of UUIDs are arguments of the definitions that use them, with the laws a theorem needs as
  its hypotheses (injectivity of the hash on the keys at hand, freshness of UUIDs, decryption inverting
  encryption, reading JSON back).

  \<^bold>\<open>Bounds of the model.\<close>  Text is a list of 8-bit characters and case mapping is that of ASCII; code points
  beyond that do not occur in the values the modelled code compares.

  \<^bold>\<open>Not modelled\<close>: the event loop of asyncio itself (outside the scheduler's tasks, requests that the code
  sends concurrently run one after another), SQLAlchemy's engine and sessions, the installation of log
  handlers, the printing of reports, the CORS middleware of the framework, and the route handlers that only
  pass a model of this development on as JSON.
\<close>

end
